(* ===== verification/Vela_Prelude.thy ===== *)
theory Vela_Prelude
  imports Main "HOL-Library.Word"
begin

text \<open>
  Shared ground of the development: the fact collections, the machine integers of the
  program (unsigned integers as words, \<open>i64\<close> as a signed 64-bit value with its own
  order), Rust's checked, saturating and converting operations on them, and the
  inversion rules for results. Every component theory imports this one.
\<close>

section \<open>Fact collections\<close>

named_theorems ok_simps \<open>inversion of a result that is known to be a success\<close>
named_theorems arith_simps \<open>checked and saturating arithmetic read through integers\<close>

section \<open>Machine integers and keys\<close>

type_synonym u8 = "8 word"
type_synonym u16 = "16 word"
type_synonym u32 = "32 word"
type_synonym u64 = "64 word"
type_synonym u128 = "128 word"

text \<open>
  A public key is 32 bytes; it is read as a 256-bit number, least significant byte first.
  \<open>Pubkey::default()\<close> is the all-zero key.
\<close>

type_synonym pubkey = "256 word"

abbreviation default_key :: pubkey where
  "default_key \<equiv> 0"

subsection \<open>Signed 64-bit integers\<close>

datatype i64 = I64 (i64_bits: u64)

definition sval :: "i64 \<Rightarrow> int" where
  "sval x = sint (i64_bits x)"

definition i64_of :: "int \<Rightarrow> i64" where
  "i64_of n = I64 (word_of_int n)"

definition in_i64 :: "int \<Rightarrow> bool" where
  "in_i64 n \<longleftrightarrow> - (2 ^ 63) \<le> n \<and> n < 2 ^ 63"

lemma sval_I64 [simp]: "sval (I64 w) = sint w"
  by (simp add: sval_def)

lemma sval_range: "- (2 ^ 63) \<le> sval x" "sval x < 2 ^ 63"
  using sint_ge [of "i64_bits x"] sint_lt [of "i64_bits x"] by (simp_all add: sval_def)

lemma in_i64_sval [simp]: "in_i64 (sval x)"
  using sval_range [of x] by (simp add: in_i64_def)

lemma sval_i64_of [simp]: "in_i64 n \<Longrightarrow> sval (i64_of n) = n"
  by (simp add: sval_def i64_of_def in_i64_def sint_sbintrunc' signed_take_bit_int_eq_self)

lemma i64_of_sval [simp]: "i64_of (sval x) = x"
  by (cases x) (simp add: i64_of_def)

lemma sval_inject [simp]: "sval x = sval y \<longleftrightarrow> x = y"
  by (metis i64_of_sval)

text \<open>
  The order on \<open>i64\<close> is the signed one, so the code's comparisons of timestamps are
  written with the ordinary relations.
\<close>

instantiation i64 :: linorder
begin

definition less_eq_i64 :: "i64 \<Rightarrow> i64 \<Rightarrow> bool" where
  "less_eq_i64 x y \<longleftrightarrow> sval x \<le> sval y"

definition less_i64 :: "i64 \<Rightarrow> i64 \<Rightarrow> bool" where
  "less_i64 x y \<longleftrightarrow> sval x < sval y"

instance
  by standard (auto simp: less_eq_i64_def less_i64_def)

end

lemmas i64_order = less_eq_i64_def less_i64_def

section \<open>Rust's integer operations\<close>

text \<open>\<open>checked_add\<close>, \<open>checked_sub\<close> and \<open>checked_mul\<close> of the unsigned types.\<close>

definition checked_add :: "'l::len word \<Rightarrow> 'l word \<Rightarrow> 'l word option" where
  "checked_add a b = (if unat a + unat b < 2 ^ LENGTH('l) then Some (a + b) else None)"

definition checked_sub :: "'l::len word \<Rightarrow> 'l word \<Rightarrow> 'l word option" where
  "checked_sub a b = (if b \<le> a then Some (a - b) else None)"

definition checked_mul :: "'l::len word \<Rightarrow> 'l word \<Rightarrow> 'l word option" where
  "checked_mul a b = (if unat a * unat b < 2 ^ LENGTH('l) then Some (a * b) else None)"

text \<open>\<open>saturating_add\<close>, \<open>saturating_sub\<close> and \<open>saturating_mul\<close> clamp at the bounds.\<close>

definition saturating_add :: "'l::len word \<Rightarrow> 'l word \<Rightarrow> 'l word" where
  "saturating_add a b = (if unat a + unat b < 2 ^ LENGTH('l) then a + b else - 1)"

definition saturating_sub :: "'l::len word \<Rightarrow> 'l word \<Rightarrow> 'l word" where
  "saturating_sub a b = (if b \<le> a then a - b else 0)"

definition saturating_mul :: "'l::len word \<Rightarrow> 'l word \<Rightarrow> 'l word" where
  "saturating_mul a b = (if unat a * unat b < 2 ^ LENGTH('l) then a * b else - 1)"

text \<open>The same operations of \<open>i64\<close>, and the conversions \<open>try_from\<close> the code uses.\<close>

definition i64_checked_add :: "i64 \<Rightarrow> i64 \<Rightarrow> i64 option" where
  "i64_checked_add a b = (if in_i64 (sval a + sval b) then Some (i64_of (sval a + sval b)) else None)"

definition i64_checked_sub :: "i64 \<Rightarrow> i64 \<Rightarrow> i64 option" where
  "i64_checked_sub a b = (if in_i64 (sval a - sval b) then Some (i64_of (sval a - sval b)) else None)"

definition i64_saturating_sub :: "i64 \<Rightarrow> i64 \<Rightarrow> i64" where
  "i64_saturating_sub a b = i64_of (max (- (2 ^ 63)) (min (2 ^ 63 - 1) (sval a - sval b)))"

definition i64_try_from_u64 :: "u64 \<Rightarrow> i64 option" where
  "i64_try_from_u64 w = (if unat w < 2 ^ 63 then Some (I64 w) else None)"

definition u64_try_from_i64 :: "i64 \<Rightarrow> u64 option" where
  "u64_try_from_i64 x = (if 0 \<le> sval x then Some (i64_bits x) else None)"

definition u64_try_from_u128 :: "u128 \<Rightarrow> u64 option" where
  "u64_try_from_u128 w = (if unat w < 2 ^ 64 then Some (ucast w) else None)"

definition i64_from_u32 :: "u32 \<Rightarrow> i64" where
  "i64_from_u32 w = I64 (ucast w)"

subsection \<open>What the operations compute\<close>

lemma checked_add_Some [arith_simps]:
  "checked_add a b = Some c \<longleftrightarrow> unat c = unat a + unat b"
  for a b c :: "'l::len word"
proof -
  have "unat a + unat b < 2 ^ LENGTH('l) \<Longrightarrow> unat (a + b) = unat a + unat b"
    by (simp add: unat_add_lem [THEN iffD1])
  moreover have "unat c < 2 ^ LENGTH('l)" by simp
  ultimately show ?thesis
    by (auto simp: checked_add_def word_unat_eq_iff dest: sym)
qed

lemma checked_sub_Some [arith_simps]:
  "checked_sub a b = Some c \<longleftrightarrow> unat a = unat c + unat b"
  for a b c :: "'l::len word"
proof -
  have sub: "b \<le> a \<Longrightarrow> unat (a - b) = unat a - unat b"
    by (simp add: unat_sub)
  show ?thesis
  proof (cases "b \<le> a")
    case True
    then have "unat b \<le> unat a" by (simp add: word_le_nat_alt)
    with True sub show ?thesis
      by (auto simp: checked_sub_def word_unat_eq_iff)
  next
    case False
    then have "unat a < unat b" by (simp add: word_le_nat_alt)
    with False show ?thesis by (simp add: checked_sub_def)
  qed
qed

lemma checked_mul_Some [arith_simps]:
  "checked_mul a b = Some c \<longleftrightarrow> unat c = unat a * unat b"
  for a b c :: "'l::len word"
proof -
  have "unat a * unat b < 2 ^ LENGTH('l) \<Longrightarrow> unat (a * b) = unat a * unat b"
    by (simp add: unat_mult_lem [THEN iffD1])
  moreover have "unat c < 2 ^ LENGTH('l)" by simp
  ultimately show ?thesis
    by (auto simp: checked_mul_def word_unat_eq_iff dest: sym)
qed

lemma unat_saturating_sub [arith_simps]:
  "unat (saturating_sub a b) = unat a - unat b"
  by (auto simp: saturating_sub_def unat_sub word_le_nat_alt)

lemma unat_max_word: "unat (- 1 :: 'l::len word) = 2 ^ LENGTH('l) - 1"
  by (simp add: unsigned_minus_1_eq_mask mask_eq_exp_minus_1)

lemma unat_saturating_add [arith_simps]:
  "unat (saturating_add a b) = min (unat a + unat b) (2 ^ LENGTH('l) - 1)"
  for a b :: "'l::len word"
  by (auto simp: saturating_add_def unat_add_lem [THEN iffD1] unat_max_word)

lemma unat_saturating_mul [arith_simps]:
  "unat (saturating_mul a b) = min (unat a * unat b) (2 ^ LENGTH('l) - 1)"
  for a b :: "'l::len word"
  by (auto simp: saturating_mul_def unat_mult_lem [THEN iffD1] unat_max_word)

lemma i64_checked_add_Some [arith_simps]:
  "i64_checked_add a b = Some c \<longleftrightarrow> sval c = sval a + sval b"
  by (auto simp: i64_checked_add_def) (metis i64_of_sval, metis in_i64_sval)

lemma i64_checked_sub_Some [arith_simps]:
  "i64_checked_sub a b = Some c \<longleftrightarrow> sval c = sval a - sval b"
  by (auto simp: i64_checked_sub_def) (metis i64_of_sval, metis in_i64_sval)

lemma sval_saturating_sub [arith_simps]:
  "sval (i64_saturating_sub a b) = max (- (2 ^ 63)) (min (2 ^ 63 - 1) (sval a - sval b))"
  unfolding i64_saturating_sub_def by (rule sval_i64_of) (auto simp: in_i64_def)

lemma uint_less_iff_unat: "uint w < numeral n \<longleftrightarrow> unat w < numeral n" for w :: "'l::len word"
  by (subst of_nat_unat [symmetric]) (simp only: of_nat_less_numeral_iff)

lemma sint_uint_cases:
  "sint w = (if unat w < 2 ^ 63 then uint w else uint w - 2 ^ 64)" for w :: u64
proof -
  have u: "0 \<le> uint w" "uint w < 2 ^ 64"
    using uint_lt2p [of w] by simp_all
  have s: "sint w = (uint w + 2 ^ 63) mod 2 ^ 64 - 2 ^ 63"
    by (simp add: sint_uint signed_take_bit_eq_take_bit_shift take_bit_eq_mod)
  show ?thesis
  proof (cases "unat w < 2 ^ 63")
    case True
    then have "uint w < 2 ^ 63" by (simp add: uint_less_iff_unat)
    with u True show ?thesis by (simp add: s)
  next
    case False
    then have "2 ^ 63 \<le> uint w" by (simp add: uint_less_iff_unat not_less [symmetric])
    with u have "(uint w - 2 ^ 63) mod 2 ^ 64 = uint w - 2 ^ 63" by simp
    then have "(uint w + 2 ^ 63) mod 2 ^ 64 = uint w - 2 ^ 63"
      using mod_add_self2 [of "uint w - 2 ^ 63" "2 ^ 64 :: int"] by (simp add: add.commute)
    with False show ?thesis by (simp add: s)
  qed
qed

lemma sint_eq_uint: "unat w < 2 ^ 63 \<Longrightarrow> sint w = uint w" for w :: u64
  by (simp add: sint_uint_cases)

lemma i64_try_from_u64_Some [arith_simps]:
  "i64_try_from_u64 w = Some x \<longleftrightarrow> sval x = uint w"
proof
  assume "i64_try_from_u64 w = Some x"
  then show "sval x = uint w"
    by (auto simp: i64_try_from_u64_def sint_eq_uint split: if_splits)
next
  assume x: "sval x = uint w"
  then have w: "unat w < 2 ^ 63"
    using sval_range(2) [of x] by (simp add: uint_less_iff_unat)
  then have "sval (I64 w) = sval x" by (simp add: sint_eq_uint x)
  then have "I64 w = x" by (simp only: sval_inject)
  with w show "i64_try_from_u64 w = Some x"
    by (simp add: i64_try_from_u64_def)
qed

lemma u64_try_from_i64_Some [arith_simps]:
  "u64_try_from_i64 x = Some w \<longleftrightarrow> uint w = sval x"
proof (cases x)
  case (I64 b)
  have "uint b < 2 ^ 64" using uint_lt2p [of b] by simp
  moreover have "0 \<le> uint w" by (rule uint_nonnegative)
  ultimately have "0 \<le> sint b \<Longrightarrow> sint b = uint b" "sint b < 0 \<Longrightarrow> uint w \<noteq> sint b"
    unfolding sint_uint_cases by (cases "unat b < 2 ^ 63"; simp only: if_True if_False; linarith)+
  with I64 show ?thesis by (auto simp: u64_try_from_i64_def word_uint_eq_iff)
qed

lemma unat_of_u64 [simp]: "unat (ucast (w :: u64) :: u128) = unat w"
proof -
  have "unat w < 2 ^ 64" using unsigned_less [of w, where ?'a = nat] by simp
  then show ?thesis by (simp add: unsigned_ucast_eq take_bit_nat_eq_self)
qed

lemma u64_try_from_u128_Some [arith_simps]:
  "u64_try_from_u128 w = Some x \<longleftrightarrow> unat x = unat w"
proof -
  have "unat w < 2 ^ 64 \<Longrightarrow> unat (ucast w :: u64) = unat w"
    by (simp add: unsigned_ucast_eq take_bit_nat_eq_self)
  moreover have "unat x < 2 ^ 64" using unsigned_less [of x] by simp
  ultimately show ?thesis
    by (auto simp: u64_try_from_u128_def word_unat_eq_iff)
qed

lemma sval_i64_from_u32 [simp]: "sval (i64_from_u32 w) = uint w"
proof -
  have "uint w < 2 ^ 32" using uint_lt2p [of w] by simp
  moreover from this have "unat w < 2 ^ 32" by (simp add: uint_less_iff_unat)
  ultimately have "unat (ucast w :: u64) < 2 ^ 63" "uint (ucast w :: u64) = uint w"
    by (simp_all add: unsigned_ucast_eq take_bit_nat_eq_self take_bit_int_eq_self)
  then show ?thesis by (simp add: i64_from_u32_def sint_eq_uint)
qed

subsection \<open>When the operations fail, and products and differences that cannot\<close>

lemma unat_u32_u64 [simp]: "unat (ucast (w :: u32) :: u64) = unat w"
proof -
  have "unat w < 2 ^ 32" using unsigned_less [of w, where ?'a = nat] by simp
  then show ?thesis by (simp add: unsigned_ucast_eq take_bit_nat_eq_self)
qed

lemma unat_min_word: "unat (min a b) = min (unat a) (unat b)" for a b :: "'l::len word"
  by (simp add: min_def word_le_nat_alt)

lemma u128_mul_u64: "\<exists>g. checked_mul (ucast a :: u128) (ucast b) = Some g \<and> unat g = unat a * unat b"
  for a b :: u64
proof -
  have "unat a \<le> 2 ^ 64 - 1" "unat b \<le> 2 ^ 64 - 1"
    using unsigned_less [of a, where ?'a = nat] unsigned_less [of b, where ?'a = nat] by simp_all
  then have "unat a * unat b \<le> (2 ^ 64 - 1) * (2 ^ 64 - 1)" by (rule mult_le_mono)
  then have "unat a * unat b < 2 ^ 128" by simp
  then have "checked_mul (ucast a :: u128) (ucast b) = Some (ucast a * ucast b)"
    by (simp add: checked_mul_def)
  then show ?thesis by (metis checked_mul_Some unat_of_u64)
qed

lemma checked_sub_None: "checked_sub a b = None \<longleftrightarrow> unat a < unat b"
  by (auto simp: checked_sub_def word_le_nat_alt)

lemma checked_add_None: "checked_add a b = None \<longleftrightarrow> 2 ^ LENGTH('l) \<le> unat a + unat b"
  for a b :: "'l::len word"
  by (auto simp: checked_add_def)

lemma u64_try_from_u128_None: "u64_try_from_u128 w = None \<longleftrightarrow> 2 ^ 64 \<le> unat w"
  by (auto simp: u64_try_from_u128_def)

lemma checked_sub_unat: "unat b \<le> unat a \<Longrightarrow> \<exists>c. checked_sub a b = Some c \<and> unat c = unat a - unat b"
  by (simp add: checked_sub_def word_le_nat_alt unat_sub)

lemma i64_elapsed:
  assumes "in_i64 (sval now - sval t0)" "0 \<le> sval now - sval t0"
  obtains e w where "i64_checked_sub now t0 = Some e" "\<not> e < i64_of 0"
    "u64_try_from_i64 e = Some w" "unat w = nat (sval now - sval t0)"
proof -
  obtain e where e: "i64_checked_sub now t0 = Some e" "sval e = sval now - sval t0"
    using assms(1) by (auto simp: i64_checked_sub_def)
  have "\<not> e < i64_of 0" using e(2) assms by (simp add: less_i64_def in_i64_def)
  moreover obtain w where w: "u64_try_from_i64 e = Some w"
    using e(2) assms by (auto simp: u64_try_from_i64_def)
  moreover have "unat w = nat (sval now - sval t0)"
    using w e(2) by (simp add: u64_try_from_i64_Some unat_eq_nat_uint)
  ultimately show thesis using that e(1) by blast
qed

section \<open>Results\<close>

text \<open>
  A fallible operation returns \<open>Inl e\<close> for an error and \<open>Inr x\<close> for a value. The
  \<open>?\<close> operator of the source is a case distinction that hands the error on, a
  \<open>require!\<close> an \<open>if\<close> whose first branch is the error. The rules below turn a
  success of such a chain into the conjunction of its guards.
\<close>

fun ok_or :: "'a option \<Rightarrow> 'e \<Rightarrow> 'e + 'a" where
  "ok_or None e = Inl e"
| "ok_or (Some x) e = Inr x"

fun map_err :: "('e \<Rightarrow> 'f) \<Rightarrow> 'e + 'a \<Rightarrow> 'f + 'a" where
  "map_err f (Inl e) = Inl (f e)"
| "map_err f (Inr x) = Inr x"

lemma ok_or_Inr [ok_simps]: "ok_or v e = Inr x \<longleftrightarrow> v = Some x"
  by (cases v) auto

lemma ok_or_Inl [ok_simps]: "ok_or v e = Inl e' \<longleftrightarrow> v = None \<and> e' = e"
  by (cases v) auto

lemma map_err_Inr [ok_simps]: "map_err f r = Inr x \<longleftrightarrow> r = Inr x"
  by (cases r) auto

lemma case_sum_Inr [ok_simps]:
  "(case r of Inl e \<Rightarrow> Inl (g e) | Inr x \<Rightarrow> f x) = Inr y \<longleftrightarrow> (\<exists>x. r = Inr x \<and> f x = Inr y)"
  by (cases r) auto

lemma case_option_Inr [ok_simps]:
  "(case v of None \<Rightarrow> Inl e | Some x \<Rightarrow> f x) = Inr y \<longleftrightarrow> (\<exists>x. v = Some x \<and> f x = Inr y)"
  by (cases v) auto

lemma if_Inl_Inr [ok_simps]:
  "(if b then Inl e else r) = Inr y \<longleftrightarrow> \<not> b \<and> r = Inr y"
  by auto

lemma if_Inr_Inl [ok_simps]:
  "(if b then r else Inl e) = Inr y \<longleftrightarrow> b \<and> r = Inr y"
  by auto

lemma map_sum_Inr [ok_simps]: "map_sum id g r = Inr y \<longleftrightarrow> (\<exists>x. r = Inr x \<and> y = g x)"
  by (cases r) auto

section \<open>Little-endian bytes\<close>

text \<open>\<open>to_le_bytes\<close> of the unsigned and signed integers, and the bytes of a key.\<close>

definition le_bytes :: "nat \<Rightarrow> 'l::len word \<Rightarrow> u8 list" where
  "le_bytes n w = map (\<lambda>i. ucast (drop_bit (8 * i) w)) [0..<n]"

definition of_le_bytes :: "u8 list \<Rightarrow> 'l::len word" where
  "of_le_bytes bs = word_of_int (horner_sum uint (2 ^ 8) bs)"

abbreviation u64_le :: "u64 \<Rightarrow> u8 list" where
  "u64_le \<equiv> le_bytes 8"

abbreviation key_bytes :: "pubkey \<Rightarrow> u8 list" where
  "key_bytes \<equiv> le_bytes 32"

definition i64_le :: "i64 \<Rightarrow> u8 list" where
  "i64_le x = le_bytes 8 (i64_bits x)"

lemma length_le_bytes [simp]: "length (le_bytes n w) = n"
  by (simp add: le_bytes_def)

lemma length_i64_le [simp]: "length (i64_le x) = 8"
  by (simp add: i64_le_def)

lemma of_le_bytes_le_bytes [simp]:
  assumes "8 * n = LENGTH('l::len)"
  shows "of_le_bytes (le_bytes n (w :: 'l word)) = w"
proof (rule bit_word_eqI)
  fix k assume k: "k < LENGTH('l)"
  then have "k div 8 < n" using assms by linarith
  then show "bit (of_le_bytes (le_bytes n w) :: 'l word) k = bit w k"
    using k bit_horner_sum_uint_exp_iff [of "le_bytes n w" k]
    by (simp add: of_le_bytes_def le_bytes_def bit_simps)
qed

lemma le_bytes_inject: "8 * n = LENGTH('l) \<Longrightarrow> le_bytes n v = le_bytes n w \<longleftrightarrow> v = w"
  for v w :: "'l::len word"
  by (metis of_le_bytes_le_bytes)

lemma u64_le_inject [simp]: "u64_le v = u64_le w \<longleftrightarrow> v = w"
  by (rule le_bytes_inject) simp

lemma key_bytes_inject [simp]: "key_bytes v = key_bytes w \<longleftrightarrow> v = w"
  by (rule le_bytes_inject) simp

lemma i64_le_inject [simp]: "i64_le v = i64_le w \<longleftrightarrow> v = w"
  by (cases v; cases w) (simp add: i64_le_def)

end
