(* ===== verification/Borsh.thy ===== *)
theory Borsh
  imports Vela_Prelude "HOL-Library.Monad_Syntax"
begin

text \<open>
  The byte layout of the account structs. The structs derive \<open>AnchorSerialize\<close> and
  \<open>AnchorDeserialize\<close>, that is Borsh: fields in declaration order, integers little
  endian, an enum as its variant index in one byte, an option as a tag byte, a vector as
  its length in four bytes and its elements, an array as its elements. A decoder returns
  the value and the bytes it did not read, as \<open>deserialize(&mut &[u8])\<close> does.

  The interface \<open>borsh\<close> is what the account loaders rely on: what was written is read
  back, whatever follows it, and what is read is a value of the struct. \<open>fixed_borsh\<close> adds that every value takes the same number
  of bytes, which is what the \<open>SIZE\<close> constants of the structs state.
\<close>

type_synonym 'a decoder = "u8 list \<Rightarrow> ('a \<times> u8 list) option"

section \<open>The interface of a codec\<close>

locale borsh =
  fixes enc :: "'a \<Rightarrow> u8 list"
    and dec :: "'a decoder"
    and valid :: "'a \<Rightarrow> bool"
  assumes dec_enc: "valid x \<Longrightarrow> dec (enc x @ r) = Some (x, r)"
    and dec_valid: "dec bs = Some (x, r) \<Longrightarrow> valid x"
begin

lemma dec_enc_all: "valid x \<Longrightarrow> dec (enc x) = Some (x, [])"
  using dec_enc [of x "[]"] by simp

lemma enc_inject: "valid x \<Longrightarrow> valid y \<Longrightarrow> enc x = enc y \<longleftrightarrow> x = y"
  using dec_enc_all by (metis option.inject prod.inject)

lemma prefix_free:
  assumes "valid x" "valid y" "enc x @ r = enc y @ s"
  shows "x = y \<and> r = s"
proof -
  have "Some (x, r) = dec (enc y @ s)"
    using dec_enc [OF assms(1), of r] unfolding assms(3) by (rule sym)
  also have "\<dots> = Some (y, s)" by (rule dec_enc [OF assms(2)])
  finally show ?thesis by simp
qed

end

locale fixed_borsh = borsh +
  fixes size :: nat
  assumes length_enc: "valid x \<Longrightarrow> length (enc x) = size"
begin

lemma dec_padded:
  "valid x \<Longrightarrow> dec (enc x @ replicate k 0) = Some (x, replicate k 0)"
  by (rule dec_enc)

end

text \<open>A decoder that succeeded, taken apart field by field.\<close>

lemma bind_SomeE:
  assumes "Option.bind r (\<lambda>(x, bs). f x bs) = Some y"
  obtains x bs where "r = Some (x, bs)" "f x bs = Some y"
  using assms by (cases r) auto

section \<open>Integers, keys and flags\<close>

definition dec_word :: "nat \<Rightarrow> 'l::len word decoder" where
  "dec_word n bs = (if length bs < n then None else Some (of_le_bytes (take n bs), drop n bs))"

abbreviation dec_u32 :: "u32 decoder" where
  "dec_u32 \<equiv> dec_word 4"

abbreviation dec_u64 :: "u64 decoder" where
  "dec_u64 \<equiv> dec_word 8"

abbreviation dec_u128 :: "u128 decoder" where
  "dec_u128 \<equiv> dec_word 16"

abbreviation dec_key :: "pubkey decoder" where
  "dec_key \<equiv> dec_word 32"

definition dec_i64 :: "i64 decoder" where
  "dec_i64 bs = map_option (\<lambda>(w, r). (I64 w, r)) (dec_u64 bs)"

fun dec_u8 :: "u8 decoder" where
  "dec_u8 [] = None"
| "dec_u8 (b # bs) = Some (b, bs)"

fun enc_bool :: "bool \<Rightarrow> u8 list" where
  "enc_bool b = [if b then 1 else 0]"

fun dec_bool :: "bool decoder" where
  "dec_bool [] = None"
| "dec_bool (b # bs) = (if b = 0 then Some (False, bs) else if b = 1 then Some (True, bs) else None)"

definition dec_bytes :: "nat \<Rightarrow> u8 list decoder" where
  "dec_bytes n bs = (if length bs < n then None else Some (take n bs, drop n bs))"

lemma dec_word_le_bytes [simp]:
  "8 * n = LENGTH('l) \<Longrightarrow> dec_word n (le_bytes n w @ r) = Some (w, r)" for w :: "'l::len word"
  by (simp add: dec_word_def)

lemma dec_i64_le [simp]: "dec_i64 (i64_le x @ r) = Some (x, r)"
  by (cases x) (simp add: dec_i64_def i64_le_def)

lemma dec_bool_enc [simp]: "dec_bool (enc_bool b @ r) = Some (b, r)"
  by simp

lemma dec_bytes_append [simp]: "length xs = n \<Longrightarrow> dec_bytes n (xs @ r) = Some (xs, r)"
  by (simp add: dec_bytes_def)

lemma dec_bytes_length [dest]: "dec_bytes n bs = Some (xs, r) \<Longrightarrow> length xs = n"
  by (auto simp: dec_bytes_def split: if_splits)

interpretation key_codec: fixed_borsh key_bytes dec_key "\<lambda>_. True" 32
  by unfold_locales simp_all

interpretation u64_codec: fixed_borsh u64_le dec_u64 "\<lambda>_. True" 8
  by unfold_locales simp_all

interpretation i64_codec: fixed_borsh i64_le dec_i64 "\<lambda>_. True" 8
  by unfold_locales simp_all

section \<open>Options, sequences and vectors\<close>

fun enc_option :: "('a \<Rightarrow> u8 list) \<Rightarrow> 'a option \<Rightarrow> u8 list" where
  "enc_option e None = [0]"
| "enc_option e (Some x) = 1 # e x"

fun dec_option :: "'a decoder \<Rightarrow> 'a option decoder" where
  "dec_option d [] = None"
| "dec_option d (b # bs) =
     (if b = 0 then Some (None, bs)
      else if b = 1 then map_option (\<lambda>(x, r). (Some x, r)) (d bs) else None)"

fun dec_seq :: "'a decoder \<Rightarrow> nat \<Rightarrow> 'a list decoder" where
  "dec_seq d 0 bs = Some ([], bs)"
| "dec_seq d (Suc n) bs = do {
     (x, bs) \<leftarrow> d bs;
     (xs, bs) \<leftarrow> dec_seq d n bs;
     Some (x # xs, bs)
   }"

definition enc_seq :: "('a \<Rightarrow> u8 list) \<Rightarrow> 'a list \<Rightarrow> u8 list" where
  "enc_seq e xs = concat (map e xs)"

definition enc_vec :: "('a \<Rightarrow> u8 list) \<Rightarrow> 'a list \<Rightarrow> u8 list" where
  "enc_vec e xs = le_bytes 4 (of_nat (length xs) :: u32) @ enc_seq e xs"

definition dec_vec :: "'a decoder \<Rightarrow> 'a list decoder" where
  "dec_vec d bs = do {
     (n, bs) \<leftarrow> dec_u32 bs;
     dec_seq d (unat n) bs
   }"

context borsh
begin

lemma dec_seq_valid: "dec_seq dec n bs = Some (xs, r) \<Longrightarrow> length xs = n \<and> (\<forall>x \<in> set xs. valid x)"
proof (induction n arbitrary: bs xs)
  case 0
  then show ?case by simp
next
  case (Suc n)
  then show ?case by (fastforce simp: bind_eq_Some_conv dest: dec_valid)
qed

lemma dec_vec_valid:
  assumes "dec_vec dec bs = Some (xs, r)"
  shows "length xs < 2 ^ 32 \<and> (\<forall>x \<in> set xs. valid x)"
proof -
  obtain n bs' where "dec_seq dec (unat (n :: u32)) bs' = Some (xs, r)"
    using assms by (auto simp: dec_vec_def bind_eq_Some_conv)
  then have "length xs = unat n \<and> (\<forall>x \<in> set xs. valid x)" by (rule dec_seq_valid)
  moreover have "unat n < 2 ^ 32" using unsigned_less [of n] by simp
  ultimately show ?thesis by simp
qed

lemma dec_option_enc:
  "(\<And>y. x = Some y \<Longrightarrow> valid y) \<Longrightarrow> dec_option dec (enc_option enc x @ r) = Some (x, r)"
  by (cases x) (simp_all add: dec_enc)

lemma dec_seq_enc:
  "\<forall>x \<in> set xs. valid x \<Longrightarrow> dec_seq dec (length xs) (enc_seq enc xs @ r) = Some (xs, r)"
  by (induction xs) (simp_all add: enc_seq_def dec_enc)

lemma dec_vec_enc:
  assumes "\<forall>x \<in> set xs. valid x" "length xs < 2 ^ 32"
  shows "dec_vec dec (enc_vec enc xs @ r) = Some (xs, r)"
proof -
  have "unat (of_nat (length xs) :: u32) = length xs"
    using assms(2) by (simp add: unat_of_nat)
  then show ?thesis
    using dec_seq_enc [OF assms(1)] by (simp add: dec_vec_def enc_vec_def)
qed

end

lemma length_enc_seq:
  "(\<And>x. x \<in> set xs \<Longrightarrow> length (e x) = n) \<Longrightarrow> length (enc_seq e xs) = n * length xs"
  by (induction xs) (auto simp: enc_seq_def)

lemma dec_option_u64 [simp]: "dec_option dec_u64 (enc_option u64_le x @ r) = Some (x, r)"
  by (rule u64_codec.dec_option_enc) simp

lemma dec_option_i64 [simp]: "dec_option dec_i64 (enc_option i64_le x @ r) = Some (x, r)"
  by (rule i64_codec.dec_option_enc) simp

end
