(* ===== verification/Runtime.thy ===== *)
theory Runtime
  imports Borsh
begin

text \<open>
  What the instruction handlers run on: the error codes, accounts and the account store,
  the transaction's environment, cross-program calls, the account writers, and
  \<open>close_program_account\<close>.

  An instruction is a function from the environment, its account keys and arguments, and
  the store to either an error or the new store and the emitted events. A failed
  instruction leaves no trace (the runtime discards the writes of a failed transaction),
  which is why the error side carries no store.

  Code that is not in this repository is a field of the environment \<open>env\<close>: the address
  derivation \<open>Pubkey::find_program_address\<close> and \<open>create_program_address\<close>, the account discriminators that Anchor
  generates, cross-program calls (token programs, system program), the reader of a
  token account, the hash function, the rent calculation and the clock.
\<close>

section \<open>Errors\<close>

text \<open>
  \<open>VelaError\<close> is an enum with explicit discriminants, which are the numbers a client
  sees; an error is represented by its discriminant and each variant is a name for one.
\<close>

datatype vela_error = VelaError (error_number: nat)

abbreviation "PullTooEarly \<equiv> VelaError 0"
abbreviation "MandateNotActive \<equiv> VelaError 1"
abbreviation "MaxPullsExceeded \<equiv> VelaError 2"
abbreviation "InsufficientBalance \<equiv> VelaError 3"
abbreviation "UnauthorizedCancel \<equiv> VelaError 4"
abbreviation "FrequencyTooLow \<equiv> VelaError 5"
abbreviation "Overflow \<equiv> VelaError 6"
abbreviation "PlanNotActive \<equiv> VelaError 7"
abbreviation "MandateExpired \<equiv> VelaError 8"
abbreviation "AmountExceedsPlanAmount \<equiv> VelaError 9"
abbreviation "MaxPullsTooLow \<equiv> VelaError 10"
abbreviation "ApprovalNotGranted \<equiv> VelaError 11"
abbreviation "ApprovalExpired \<equiv> VelaError 12"
abbreviation "AbortedComputation \<equiv> VelaError 13"
abbreviation "ClusterNotSet \<equiv> VelaError 14"
abbreviation "UnauthorizedAdmin \<equiv> VelaError 15"
abbreviation "ApprovalAlreadyExists \<equiv> VelaError 16"
abbreviation "ArciumUnavailable \<equiv> VelaError 17"
abbreviation "InvalidCiphertextInput \<equiv> VelaError 18"
abbreviation "PendingBillingRecord \<equiv> VelaError 19"
abbreviation "BillingEventAlreadyExists \<equiv> VelaError 20"
abbreviation "InvalidArciumAccount \<equiv> VelaError 21"
abbreviation "InvalidProtocolConfig \<equiv> VelaError 22"
abbreviation "InvalidCallbackBinding \<equiv> VelaError 23"
abbreviation "InvalidComputationOffset \<equiv> VelaError 24"
abbreviation "WrappedMintAlreadyInitialized \<equiv> VelaError 25"
abbreviation "TransferNotAuthorized \<equiv> VelaError 26"
abbreviation "VaultMismatch \<equiv> VelaError 27"
abbreviation "UsdcMintMismatch \<equiv> VelaError 28"
abbreviation "WrappedMintNotInitialized \<equiv> VelaError 29"
abbreviation "UnauthorizedAgent \<equiv> VelaError 30"
abbreviation "UnauthorizedService \<equiv> VelaError 31"
abbreviation "TooManyServices \<equiv> VelaError 32"
abbreviation "DuplicateService \<equiv> VelaError 33"
abbreviation "MandatePaused \<equiv> VelaError 34"
abbreviation "MandateRevoked \<equiv> VelaError 35"
abbreviation "DailyLimitExceeded \<equiv> VelaError 36"
abbreviation "ServiceDailyLimitExceeded \<equiv> VelaError 37"
abbreviation "LifetimeCapExceeded \<equiv> VelaError 38"
abbreviation "PullAmountTooSmall \<equiv> VelaError 39"
abbreviation "PullCooldownActive \<equiv> VelaError 40"
abbreviation "InvalidServiceList \<equiv> VelaError 41"
abbreviation "AgentMandateAlreadyExists \<equiv> VelaError 42"
abbreviation "AgentMandateNotFound \<equiv> VelaError 43"
abbreviation "InsufficientMandateBalance \<equiv> VelaError 44"
abbreviation "NoFundsToDrain \<equiv> VelaError 45"
abbreviation "InvalidAgentMandateStatusTransition \<equiv> VelaError 46"
abbreviation "UnauthorizedAgentMandateAuthority \<equiv> VelaError 47"
abbreviation "EndpointTooLong \<equiv> VelaError 48"
abbreviation "EndpointEmpty \<equiv> VelaError 49"
abbreviation "InvalidKeeperAuthority \<equiv> VelaError 50"
abbreviation "UnauthorizedKeeper \<equiv> VelaError 51"
abbreviation "NoUpdateProvided \<equiv> VelaError 52"
abbreviation "InvalidTierCount \<equiv> VelaError 53"
abbreviation "BillingTypeMismatch \<equiv> VelaError 54"
abbreviation "InvalidPeriod \<equiv> VelaError 55"
abbreviation "PeriodMismatch \<equiv> VelaError 56"
abbreviation "InvalidAmount \<equiv> VelaError 57"
abbreviation "InvalidFrequency \<equiv> VelaError 58"
abbreviation "InvalidTierBoundary \<equiv> VelaError 59"
abbreviation "ProtocolPaused \<equiv> VelaError 60"
abbreviation "UsageReportAlreadySettled \<equiv> VelaError 61"
abbreviation "ArciumRequestAlreadyPending \<equiv> VelaError 62"
abbreviation "InvalidArciumRequestState \<equiv> VelaError 63"
abbreviation "UsagePricingOverflowRisk \<equiv> VelaError 64"
abbreviation "MandateVersionUnsupported \<equiv> VelaError 100"
abbreviation "PlanVersionUnsupported \<equiv> VelaError 200"
abbreviation "MigrationPreconditionFailed \<equiv> VelaError 300"
abbreviation "AgentMandateVersionUnsupported \<equiv> VelaError 400"
abbreviation "TokenNotRegistered \<equiv> VelaError 6500"
abbreviation "TokenAlreadyRegistered \<equiv> VelaError 6501"
abbreviation "TokenDisabled \<equiv> VelaError 6502"
abbreviation "InvalidBillingRail \<equiv> VelaError 6503"
abbreviation "MetaListAlreadyInitialized \<equiv> VelaError 6600"
abbreviation "WrongAccountType \<equiv> VelaError 6601"
abbreviation "StreamNotActive \<equiv> VelaError 6700"
abbreviation "StreamAlreadyPaused \<equiv> VelaError 6701"
abbreviation "StreamAlreadyCancelled \<equiv> VelaError 6702"
abbreviation "MinSettleIntervalViolation \<equiv> VelaError 6703"
abbreviation "AmountExceedsStreamRate \<equiv> VelaError 6704"
abbreviation "StreamCapExceeded \<equiv> VelaError 6705"
abbreviation "ClockRegression \<equiv> VelaError 6706"
abbreviation "RateMustBeNonZero \<equiv> VelaError 6707"
abbreviation "MinSettleIntervalTooLow \<equiv> VelaError 6708"
abbreviation "AuthorizedMaxRateTooLow \<equiv> VelaError 6709"
abbreviation "UnauthorizedStreamSigner \<equiv> VelaError 6710"
abbreviation "InvalidStreamAddress \<equiv> VelaError 6711"
abbreviation "TokenChangeNotSupported \<equiv> VelaError 6712"
abbreviation "TokenConfigDecimalsMismatch \<equiv> VelaError 6713"
abbreviation "NoPendingChange \<equiv> VelaError 6714"
abbreviation "PendingPlanAccountMissing \<equiv> VelaError 6715"
abbreviation "UnauthorizedUpgrade \<equiv> VelaError 6716"
abbreviation "MathDivByZero \<equiv> VelaError 6800"
abbreviation "MathOverflow \<equiv> VelaError 6801"
abbreviation "MathUnderflow \<equiv> VelaError 6802"
abbreviation "InvalidElapsed \<equiv> VelaError 6803"

text \<open>Errors of the Solana SDK and of Anchor that the handlers return by name.\<close>

datatype program_error =
    IncorrectProgramId | InvalidAccountData | InvalidSeeds | AccountAlreadyInitialized
  | InvalidInstructionData | CustomProgramError u32 | ExternalAccountDataModified

datatype anchor_error =
    RequireKeysEqViolated | ConstraintSeeds | ConstraintAddress | ConstraintOwner
  | ConstraintTokenMint | ConstraintTokenOwner | ConstraintTokenProgram | ConstraintRaw
  | AccountNotSigner | AccountDidNotSerialize | AccountDidNotDeserialize
  | AccountOwnedByWrongProgram | InvalidProgramId | AccountNotAssociatedTokenAccount
  | InstructionDidNotDeserialize | AccountNotEnoughKeys | ConstraintHasOne | AccountNotInitialized | ConstraintSpace | ConstraintRentExempt | ConstraintMut

text \<open>A handler that panics (an index out of range) fails as a whole: \<open>Panicked\<close>.\<close>

datatype verror = Vela vela_error | Program program_error | Anchor anchor_error | Panicked

section \<open>Accounts and the store\<close>

record account =
  acc_owner :: pubkey
  acc_lamports :: u64
  acc_data :: "u8 list"

type_synonym store = "pubkey \<Rightarrow> account"

datatype account_kind =
    KVelaPlan | KUsagePlan | KVelaMandate | KStreamMandate | KAgentMandate | KPullApproval
  | KUsageReport | KBillingEvent | KArciumRequestState | KMerchantState | KTokenConfig
  | KKeeperConfig | KProtocolConfig | KArciumSigner

definition data_is_empty :: "account \<Rightarrow> bool" where
  "data_is_empty a \<longleftrightarrow> acc_data a = []"

text \<open>The program identifiers the source declares, as 32-byte numbers.\<close>

definition program_id :: pubkey where
  "program_id = 13614505942818926912670634406797126225124121835596819503490171903336164012970"

definition transfer_hook_program_id :: pubkey where
  "transfer_hook_program_id =
     72465704397347970556052089552893184956579079209875976252870638239789519951910"

definition system_program_id :: pubkey where
  "system_program_id = 0"

section \<open>Cross-program calls\<close>

text \<open>
  The calls the handlers make, with the arguments they pass. \<open>TransferChecked\<close> is the
  Token-2022 transfer (program, source, mint, destination, authority, amount, decimals)
  with the transfer-hook accounts appended, each with its writable flag; \<open>SplTransferChecked\<close> is
  the transfer of the classic token program. \<open>CreateAccount\<close> is the system program's
  \<open>create_account\<close> (payer, account, lamports, space, owner); \<open>InitAccount\<close> is the creation
  that Anchor generates for an \<open>init\<close> constraint; \<open>CreateAssociatedToken\<close> is the call to the
  associated-token program (payer, account, wallet, mint, token program), with a variant that
  accepts an existing account; \<open>RevokeDelegate\<close> takes a delegation back (program, account,
  authority); \<open>SetUpMint\<close> is one of the calls that set up a Token-2022 mint and its extensions.
\<close>

datatype mint_setup =
    TransferHookSetup pubkey pubkey
  | TransferFeeSetup pubkey pubkey u16 u64
  | MetadataPointerSetup pubkey pubkey
  | PermanentDelegateSetup pubkey
  | NonTransferableSetup
  | MintSetup pubkey "pubkey option" u8
  | MetadataSetup pubkey pubkey string string string

datatype cpi =
    TransferChecked pubkey pubkey pubkey pubkey pubkey u64 u8 "(pubkey \<times> bool) list"
  | SplTransferChecked pubkey pubkey pubkey pubkey u64 u8
  | MintTo pubkey pubkey pubkey u64
  | Burn pubkey pubkey pubkey u64
  | CreateAccount pubkey pubkey u64 nat pubkey
  | InitAccount pubkey pubkey u64 nat pubkey
  | SystemTransfer pubkey pubkey u64
  | CreateAssociatedToken pubkey pubkey pubkey pubkey pubkey
  | CreateAssociatedTokenIdempotent pubkey pubkey pubkey pubkey pubkey
  | RevokeDelegate pubkey pubkey pubkey
  | SetUpMint pubkey mint_setup

record token_account =
  ta_mint :: pubkey
  ta_owner :: pubkey
  ta_amount :: u64

record mint =
  mint_decimals :: u8
  mint_supply :: u64

record env =
  find_pda :: "u8 list list \<Rightarrow> pubkey \<Rightarrow> pubkey \<times> u8"
  create_address :: "u8 list list \<Rightarrow> pubkey \<Rightarrow> pubkey option"
  disc :: "account_kind \<Rightarrow> u8 list"
  unix_timestamp :: i64
  slot :: u64
  signers :: "pubkey list"
  invoke :: "cpi \<Rightarrow> u8 list list list \<Rightarrow> store \<Rightarrow> verror + store"
  minimum_balance :: "nat \<Rightarrow> u64"
  token_id :: pubkey
  token_2022_id :: pubkey
  associated_token_id :: pubkey
  unpack_token :: "u8 list \<Rightarrow> token_account option"
  unpack_mint :: "u8 list \<Rightarrow> mint option"
  keccak :: "u8 list \<Rightarrow> u8 list"

definition pda :: "env \<Rightarrow> u8 list list \<Rightarrow> pubkey" where
  "pda E seeds = fst (find_pda E seeds program_id)"

definition is_signer :: "env \<Rightarrow> pubkey \<Rightarrow> bool" where
  "is_signer E k \<longleftrightarrow> k \<in> set (signers E)"

definition associated_token_address :: "env \<Rightarrow> pubkey \<Rightarrow> pubkey \<Rightarrow> pubkey \<Rightarrow> pubkey" where
  "associated_token_address E wallet mint token_program =
     fst (find_pda E [key_bytes wallet, key_bytes token_program, key_bytes mint] (associated_token_id E))"

text \<open>
  A list of checks with their errors, in the order the code makes them: the first that
  fails is the result. It renders runs of \<open>require!\<close> and the constraints of an
  \<open>Accounts\<close> struct, which Anchor checks in field order before the handler runs.
\<close>

fun require_all :: "(bool \<times> verror) list \<Rightarrow> verror + unit" where
  "require_all [] = Inr ()"
| "require_all ((b, e) # cs) = (if b then require_all cs else Inl e)"

lemma require_all_Inr [ok_simps]: "require_all cs = Inr u \<longleftrightarrow> list_all fst cs"
  by (induction cs rule: require_all.induct) auto

lemma require_all_Inl: "require_all cs = Inl e \<Longrightarrow> \<exists>b. (b, e) \<in> set cs"
  by (induction cs rule: require_all.induct) (auto split: if_splits)

text \<open>A seed written as a byte string literal in the source.\<close>

definition bytes :: "string \<Rightarrow> u8 list" where
  "bytes s = map of_char s"

section \<open>Reading and writing account data\<close>

text \<open>
  \<open>T::try_deserialize\<close> checks the discriminator and decodes the rest, ignoring what
  follows. The writers clear the data and serialise into it; the serialisation fails when
  the data is too short.
\<close>

definition try_deserialize :: "env \<Rightarrow> account_kind \<Rightarrow> 'a decoder \<Rightarrow> u8 list \<Rightarrow> 'a option" where
  "try_deserialize E k dec bs =
     (if take (length (disc E k)) bs = disc E k
      then map_option fst (dec (drop (length (disc E k)) bs)) else None)"

definition starts_with :: "u8 list \<Rightarrow> u8 list \<Rightarrow> bool" where
  "starts_with bs d \<longleftrightarrow> take (length d) bs = d"

definition write_data :: "u8 list \<Rightarrow> u8 list \<Rightarrow> verror + u8 list" where
  "write_data old new =
     (if length new \<le> length old
      then Inr (new @ replicate (length old - length new) 0)
      else Inl (Anchor AccountDidNotSerialize))"

definition set_data :: "store \<Rightarrow> pubkey \<Rightarrow> u8 list \<Rightarrow> store" where
  "set_data s k bs = s(k := (s k)\<lparr>acc_data := bs\<rparr>)"

definition write_account :: "pubkey \<Rightarrow> u8 list \<Rightarrow> store \<Rightarrow> verror + store" where
  "write_account k new s =
     (case write_data (acc_data (s k)) new of
        Inl e \<Rightarrow> Inl e
      | Inr bs \<Rightarrow> Inr (set_data s k bs))"

definition has_only_zero_padding :: "u8 list \<Rightarrow> bool" where
  "has_only_zero_padding bs \<longleftrightarrow> list_all (\<lambda>b. b = 0) bs"

lemma set_data_same [simp]: "set_data s k bs k = (s k)\<lparr>acc_data := bs\<rparr>"
  by (simp add: set_data_def)

lemma set_data_other [simp]: "j \<noteq> k \<Longrightarrow> set_data s k bs j = s j"
  by (simp add: set_data_def)

lemma write_account_Inr [ok_simps]:
  "write_account k new s = Inr s' \<longleftrightarrow>
     length new \<le> length (acc_data (s k)) \<and>
     s' = set_data s k (new @ replicate (length (acc_data (s k)) - length new) 0)"
  by (auto simp: write_account_def write_data_def)

lemma has_only_zero_padding_replicate [simp]: "has_only_zero_padding (replicate n 0)"
  by (simp add: has_only_zero_padding_def list_all_iff)

lemma starts_with_append [simp]: "starts_with (d @ r) d"
  by (simp add: starts_with_def)

text \<open>What a codec's writer leaves, its loader reads back.\<close>

context borsh
begin

lemma try_deserialize_enc:
  "valid x \<Longrightarrow> try_deserialize E k dec (disc E k @ enc x @ r) = Some x"
  by (simp add: try_deserialize_def dec_enc)

lemma try_deserialize_valid: "try_deserialize E k dec bs = Some x \<Longrightarrow> valid x"
  by (auto simp: try_deserialize_def dest: dec_valid split: if_splits)

end

text \<open>
  \<open>Account<'info, T>\<close>: Anchor checks the owner, decodes the data before the handler runs,
  and writes the value back over the data afterwards (without clearing what follows).
  The mint and token accounts of the token interface may belong to either token program.
\<close>

definition anchor_account ::
  "env \<Rightarrow> account_kind \<Rightarrow> 'a decoder \<Rightarrow> store \<Rightarrow> pubkey \<Rightarrow> verror + 'a" where
  "anchor_account E k dec s a =
     (if acc_owner (s a) \<noteq> program_id then Inl (Anchor AccountOwnedByWrongProgram)
      else ok_or (try_deserialize E k dec (acc_data (s a))) (Anchor AccountDidNotDeserialize))"

definition anchor_exit :: "pubkey \<Rightarrow> u8 list \<Rightarrow> store \<Rightarrow> verror + store" where
  "anchor_exit a new s =
     (let old = acc_data (s a)
      in if length new \<le> length old then Inr (set_data s a (new @ drop (length new) old))
         else Inl (Anchor AccountDidNotSerialize))"

definition is_token_program :: "env \<Rightarrow> pubkey \<Rightarrow> bool" where
  "is_token_program E p \<longleftrightarrow> p = token_id E \<or> p = token_2022_id E"

definition interface_mint :: "env \<Rightarrow> store \<Rightarrow> pubkey \<Rightarrow> verror + mint" where
  "interface_mint E s a =
     (if \<not> is_token_program E (acc_owner (s a)) then Inl (Anchor AccountOwnedByWrongProgram)
      else ok_or (unpack_mint E (acc_data (s a))) (Program InvalidAccountData))"

definition interface_token :: "env \<Rightarrow> store \<Rightarrow> pubkey \<Rightarrow> verror + token_account" where
  "interface_token E s a =
     (if \<not> is_token_program E (acc_owner (s a)) then Inl (Anchor AccountOwnedByWrongProgram)
      else ok_or (unpack_token E (acc_data (s a))) (Program InvalidAccountData))"

lemma anchor_exit_Inr [ok_simps]:
  "anchor_exit a new s = Inr s' \<longleftrightarrow>
     length new \<le> length (acc_data (s a)) \<and>
     s' = set_data s a (new @ drop (length new) (acc_data (s a)))"
  by (auto simp: anchor_exit_def Let_def)

lemma anchor_account_Inr [ok_simps]:
  "anchor_account E k dec s a = Inr x \<longleftrightarrow>
     acc_owner (s a) = program_id \<and> try_deserialize E k dec (acc_data (s a)) = Some x"
  by (auto simp: anchor_account_def ok_or_Inr)

text \<open>A chain of guards and calls that returned, taken apart.\<close>

lemma ex_result:
  "(\<exists>x. r = Inr x \<and> (Inr (x, l x) :: verror + _) = Inr (s', ev)) \<longleftrightarrow> r = Inr s' \<and> l s' = ev"
  by auto

lemmas handler_inversion = case_sum_Inr if_Inl_Inr Let_def case_prod_unfold not_not ex_result

section \<open>What the runtime guarantees of a call\<close>

text \<open>
  Only the program that owns an account may change its data or hand it over, and a program
  cannot be re-entered while it is on the call stack. A call to the token programs
  therefore leaves the data and owner of the accounts of this program as they were.
\<close>

definition keeps_program_accounts :: "env \<Rightarrow> bool" where
  "keeps_program_accounts E \<longleftrightarrow>
     (\<forall>c seeds s s' k. invoke E c seeds s = Inr s' \<longrightarrow> acc_owner (s k) = program_id \<longrightarrow>
        acc_owner (s' k) = program_id \<and> acc_data (s' k) = acc_data (s k))"

text \<open>
  The system program creates an account only where none of a program is: afterwards it
  belongs to the given owner, has the given size and is zero.
\<close>

definition created_fresh :: "pubkey \<Rightarrow> nat \<Rightarrow> pubkey \<Rightarrow> store \<Rightarrow> store \<Rightarrow> bool" where
  "created_fresh k n p s s' \<longleftrightarrow>
     acc_owner (s k) = system_program_id \<and> acc_owner (s' k) = p \<and> acc_data (s' k) = replicate n 0"

definition creates_fresh :: "env \<Rightarrow> bool" where
  "creates_fresh E \<longleftrightarrow>
     (\<forall>payer k l n p seeds s s'.
        (invoke E (InitAccount payer k l n p) seeds s = Inr s' \<longrightarrow> created_fresh k n p s s') \<and>
        (invoke E (CreateAccount payer k l n p) seeds s = Inr s' \<longrightarrow> created_fresh k n p s s'))"

lemma creates_freshD:
  assumes "creates_fresh E"
  shows "invoke E (InitAccount payer k l n p) seeds s = Inr s' \<Longrightarrow> created_fresh k n p s s'"
    "invoke E (CreateAccount payer k l n p) seeds s = Inr s' \<Longrightarrow> created_fresh k n p s s'"
  using assms unfolding creates_fresh_def by blast+

lemma system_not_program [simp]: "system_program_id \<noteq> program_id" "program_id \<noteq> system_program_id"
  by (simp_all add: system_program_id_def program_id_def)

lemma keeps_program_accountsD:
  "keeps_program_accounts E \<Longrightarrow> invoke E c seeds s = Inr s' \<Longrightarrow> acc_owner (s k) = program_id \<Longrightarrow>
     acc_owner (s' k) = program_id \<and> acc_data (s' k) = acc_data (s k)"
  by (auto simp: keeps_program_accounts_def)

text \<open>
  What such calls leave alone: the data and owner of every account of the program.
\<close>

definition accounts_kept :: "store \<Rightarrow> store \<Rightarrow> bool" where
  "accounts_kept s s' \<longleftrightarrow>
     (\<forall>j. acc_owner (s j) = program_id \<longrightarrow>
        acc_owner (s' j) = program_id \<and> acc_data (s' j) = acc_data (s j))"

lemma accounts_kept_refl [simp]: "accounts_kept s s"
  by (simp add: accounts_kept_def)

lemma accounts_kept_trans: "accounts_kept s s1 \<Longrightarrow> accounts_kept s1 s2 \<Longrightarrow> accounts_kept s s2"
  by (simp add: accounts_kept_def)

lemma accounts_kept_call: "keeps_program_accounts E \<Longrightarrow> invoke E c seeds s = Inr s' \<Longrightarrow> accounts_kept s s'"
  by (auto simp: accounts_kept_def dest: keeps_program_accountsD)

lemma accounts_kept_owner: "accounts_kept s s' \<Longrightarrow> acc_owner (s k) = program_id \<Longrightarrow> acc_owner (s' k) = program_id"
  by (simp add: accounts_kept_def)

text \<open>Writing to an account that was not the program's is also no change to the program's accounts.\<close>

lemma accounts_kept_foreign:
  "accounts_kept s s1 \<Longrightarrow> acc_owner (s k) \<noteq> program_id \<Longrightarrow>
     (\<And>j. j \<noteq> k \<Longrightarrow> acc_owner (s2 j) = acc_owner (s1 j) \<and> acc_data (s2 j) = acc_data (s1 j)) \<Longrightarrow>
     accounts_kept s s2"
  unfolding accounts_kept_def by metis

text \<open>What a handler that works on one account leaves alone: the other accounts, and its owner.\<close>

definition others_kept :: "pubkey \<Rightarrow> store \<Rightarrow> store \<Rightarrow> bool" where
  "others_kept k s s' \<longleftrightarrow>
     (\<forall>j. j \<noteq> k \<longrightarrow> acc_owner (s j) = program_id \<longrightarrow>
        acc_owner (s' j) = program_id \<and> acc_data (s' j) = acc_data (s j)) \<and>
     (acc_owner (s k) = program_id \<longrightarrow> acc_owner (s' k) = program_id)"

lemma others_kept_refl [simp]: "others_kept k s s"
  by (simp add: others_kept_def)

lemma others_kept_trans: "others_kept k s s1 \<Longrightarrow> others_kept k s1 s2 \<Longrightarrow> others_kept k s s2"
  by (simp add: others_kept_def)

lemma accounts_kept_others: "accounts_kept s s' \<Longrightarrow> others_kept k s s'"
  by (simp add: accounts_kept_def others_kept_def)

lemma others_kept_set_data [simp]: "others_kept k s (set_data s k bs)"
  by (simp add: others_kept_def)

lemma write_account_others: "write_account k bs s = Inr s' \<Longrightarrow> others_kept k s s'"
  by (auto simp: write_account_Inr)

text \<open>The same for a handler that works on several accounts.\<close>

definition kept_outside :: "pubkey set \<Rightarrow> store \<Rightarrow> store \<Rightarrow> bool" where
  "kept_outside K s s' \<longleftrightarrow>
     (\<forall>j. acc_owner (s j) = program_id \<longrightarrow>
        acc_owner (s' j) = program_id \<and> (j \<notin> K \<longrightarrow> acc_data (s' j) = acc_data (s j)))"

lemma kept_outside_refl [simp]: "kept_outside K s s"
  by (simp add: kept_outside_def)

lemma kept_outside_trans: "kept_outside K s s1 \<Longrightarrow> kept_outside K s1 s2 \<Longrightarrow> kept_outside K s s2"
  by (simp add: kept_outside_def)

lemma kept_outside_mono: "kept_outside K s s' \<Longrightarrow> K \<subseteq> L \<Longrightarrow> kept_outside L s s'"
  by (auto simp: kept_outside_def)

lemma accounts_kept_outside: "accounts_kept s s' \<Longrightarrow> kept_outside K s s'"
  by (simp add: accounts_kept_def kept_outside_def)

lemma write_account_outside: "write_account k bs s = Inr s' \<Longrightarrow> k \<in> K \<Longrightarrow> kept_outside K s s'"
  by (auto simp: write_account_Inr kept_outside_def set_data_def)

lemma kept_outsideD:
  "kept_outside K s s' \<Longrightarrow> acc_owner (s j) = program_id \<Longrightarrow> acc_owner (s' j) = program_id"
  "kept_outside K s s' \<Longrightarrow> acc_owner (s j) = program_id \<Longrightarrow> j \<notin> K \<Longrightarrow> acc_data (s' j) = acc_data (s j)"
  by (simp_all add: kept_outside_def)

text \<open>Anchor's discriminators are eight bytes each, not all zero, and tell the kinds of account apart.\<close>

definition distinct_discriminators :: "env \<Rightarrow> bool" where
  "distinct_discriminators E \<longleftrightarrow> (\<forall>k. length (disc E k) = 8 \<and> disc E k \<noteq> replicate 8 0) \<and> inj (disc E)"

lemma distinct_discriminatorsD:
  "distinct_discriminators E \<Longrightarrow> length (disc E k) = 8"
  "distinct_discriminators E \<Longrightarrow> starts_with bs (disc E j) \<Longrightarrow> starts_with bs (disc E k) \<Longrightarrow> j = k"
  by (auto simp: distinct_discriminators_def starts_with_def dest: injD)

lemma zero_data_starts:
  assumes "distinct_discriminators E"
  shows "\<not> starts_with (replicate n 0) (disc E k)"
proof
  assume "starts_with (replicate n 0) (disc E k)"
  then have "disc E k = replicate (min n 8) 0" "length (disc E k) = 8" "disc E k \<noteq> replicate 8 0"
    using assms by (auto simp: distinct_discriminators_def starts_with_def min.commute)
  then show False by (metis length_replicate)
qed

lemma starts_with_length: "starts_with bs d \<Longrightarrow> length d \<le> length bs"
  using length_take [of "length d" bs] unfolding starts_with_def by simp

lemma try_deserialize_starts: "try_deserialize E k dec bs = Some x \<Longrightarrow> starts_with bs (disc E k)"
  by (auto simp: try_deserialize_def starts_with_def split: if_splits)

text \<open>
  A handler refines a transition system on the value stored at one address: it made one of
  its steps there, and left the data and owner of the program's other accounts alone.
\<close>

definition store_refines ::
  "(env \<Rightarrow> store \<Rightarrow> pubkey \<Rightarrow> verror + 'a) \<Rightarrow> ('x \<Rightarrow> 'a \<Rightarrow> verror + 'a) \<Rightarrow> env \<Rightarrow> pubkey \<Rightarrow> 'x \<Rightarrow>
     store \<Rightarrow> store \<Rightarrow> bool" where
  "store_refines load step E k x s s' \<longleftrightarrow>
     (\<exists>m m'. load E s k = Inr m \<and> step x m = Inr m' \<and> load E s' k = Inr m') \<and>
     (\<forall>j. j \<noteq> k \<longrightarrow> acc_owner (s j) = program_id \<longrightarrow>
        acc_owner (s' j) = program_id \<and> acc_data (s' j) = acc_data (s j))"

text \<open>
  The same where the account may also be in a layout the transition system does not cover.
\<close>

definition store_follows ::
  "(env \<Rightarrow> store \<Rightarrow> pubkey \<Rightarrow> verror + 'a) \<Rightarrow> ('x \<Rightarrow> 'a \<Rightarrow> verror + 'a) \<Rightarrow> env \<Rightarrow> pubkey \<Rightarrow> 'x \<Rightarrow>
     store \<Rightarrow> store \<Rightarrow> bool" where
  "store_follows load step E k x s s' \<longleftrightarrow>
     (\<forall>m. load E s k = Inr m \<longrightarrow> (\<exists>m'. step x m = Inr m' \<and> load E s' k = Inr m')) \<and>
     (\<forall>j. j \<noteq> k \<longrightarrow> acc_owner (s j) = program_id \<longrightarrow>
        acc_owner (s' j) = program_id \<and> acc_data (s' j) = acc_data (s j))"

lemma store_refines_follows:
  "store_refines load step E k x s s' \<Longrightarrow> store_follows load step E k x s s'"
  by (auto simp: store_refines_def store_follows_def)

definition stored_view ::
  "(env \<Rightarrow> store \<Rightarrow> pubkey \<Rightarrow> verror + 'a) \<Rightarrow> env \<Rightarrow> pubkey \<Rightarrow> store \<Rightarrow> 'a option" where
  "stored_view load E k s = (case load E s k of Inl _ \<Rightarrow> None | Inr m \<Rightarrow> Some m)"

lemma stored_view_Some: "stored_view load E k s = Some m \<longleftrightarrow> load E s k = Inr m"
  by (auto simp: stored_view_def split: sum.splits)

text \<open>The environment of a call of this program: same discriminators, and what the runtime grants.\<close>

definition same_program :: "env \<Rightarrow> env \<times> 'c \<Rightarrow> bool" where
  "same_program E x \<longleftrightarrow> disc (fst x) = disc E \<and> keeps_program_accounts (fst x)"

lemma try_deserialize_disc: "disc E' = disc E \<Longrightarrow> try_deserialize E' = try_deserialize E"
  by (intro ext) (simp add: try_deserialize_def)

text \<open>
  The interface between the handlers and the storage of one kind of account: what a
  handler wrote it reads back, a write touches one account only and keeps its owner, and
  a read depends on nothing but the account's owner and data. The handlers' lemmas use
  these laws and never the byte layout.
\<close>

locale stored_account =
  fixes load :: "env \<Rightarrow> store \<Rightarrow> pubkey \<Rightarrow> verror + 'a"
    and put :: "env \<Rightarrow> pubkey \<Rightarrow> 'a \<Rightarrow> store \<Rightarrow> verror + store"
    and storable :: "'a \<Rightarrow> bool"
  assumes load_written: "put E k x s = Inr s' \<Longrightarrow> storable x \<Longrightarrow> acc_owner (s k) = program_id \<Longrightarrow>
      load E s' k = Inr x"
    and write_frame: "put E k x s = Inr s' \<Longrightarrow> j \<noteq> k \<Longrightarrow> s' j = s j"
    and write_keeps: "put E k x s = Inr s' \<Longrightarrow>
      acc_owner (s' k) = acc_owner (s k) \<and> acc_lamports (s' k) = acc_lamports (s k)"
    and load_storable: "load E s k = Inr x \<Longrightarrow> storable x"
    and load_owner: "load E s k = Inr x \<Longrightarrow> acc_owner (s k) = program_id"
    and load_local: "acc_owner (s' k) = acc_owner (s k) \<Longrightarrow> acc_data (s' k) = acc_data (s k) \<Longrightarrow>
      load E s' k = load E s k"
    and load_disc: "disc E' = disc E \<Longrightarrow> load E' s k = load E s k"
begin

lemma load_after_call:
  assumes "keeps_program_accounts E" "invoke E c seeds s = Inr s'" "load E s k = Inr x"
  shows "load E s' k = Inr x"
  using assms load_owner [OF assms(3)] load_local [of s' k s E]
  by (metis keeps_program_accountsD)

lemma kept_load: "accounts_kept s s' \<Longrightarrow> load E s k = Inr m \<Longrightarrow> load E s' k = Inr m"
  using load_owner [of E s k m] load_local [of s' k s E] by (simp add: accounts_kept_def)

lemma kept_view: "accounts_kept s s' \<Longrightarrow> stored_view load E k s = Some m \<Longrightarrow> stored_view load E k s' = Some m"
  by (simp add: stored_view_Some kept_load)

lemma load_other:
  assumes "put E k x s = Inr s'" "j \<noteq> k"
  shows "load E s' j = load E s j"
  using write_frame [OF assms] by (intro load_local) simp_all

lemma load_after_call_write:
  assumes "keeps_program_accounts E" "invoke E c seeds s = Inr s1" "load E s k = Inr x"
    "put E k y s1 = Inr s'" "storable y"
  shows "load E s' k = Inr y"
  using load_written [OF assms(4,5)] load_owner [OF load_after_call [OF assms(1,2,3)]] by blast

lemma refinesI:
  assumes "keeps_program_accounts E" "load E s k = Inr m" "step x m = Inr m'"
    "s1 = s \<or> (\<exists>c seeds. invoke E c seeds s = Inr s1)" "put E k m' s1 = Inr s'" "storable m'"
  shows "store_refines load step E k x s s'"
proof -
  have s1: "acc_owner (s1 j) = program_id \<and> acc_data (s1 j) = acc_data (s j)"
    if "acc_owner (s j) = program_id" for j
    using assms(4) keeps_program_accountsD [OF assms(1)] that by blast
  have "acc_owner (s k) = program_id" by (rule load_owner [OF assms(2)])
  with s1 have "load E s' k = Inr m'" using load_written [OF assms(5,6)] by blast
  with assms(2,3) s1 write_frame [OF assms(5)] show ?thesis
    unfolding store_refines_def by metis
qed

lemma follows_view:
  assumes "store_follows load step E' k' x s s'" "disc E' = disc E" "stored_view load E k s = Some m"
  shows "stored_view load E k s' = Some m \<or>
    (\<exists>y m'. step y m = Inr m' \<and> stored_view load E k s' = Some m')"
proof (cases "k = k'")
  case True
  with assms have "\<exists>m'. step x m = Inr m' \<and> load E s' k = Inr m'"
    by (auto simp: store_follows_def stored_view_Some load_disc [OF assms(2)])
  then show ?thesis by (auto simp: stored_view_Some)
next
  case False
  have l: "load E s k = Inr m" using assms(3) by (simp add: stored_view_Some)
  have "acc_owner (s' k) = acc_owner (s k)" "acc_data (s' k) = acc_data (s k)"
    using assms(1) False load_owner [OF l] by (auto simp: store_follows_def)
  then have "load E s' k = Inr m" using l load_local by metis
  then show ?thesis by (simp add: stored_view_Some)
qed

lemma refines_view:
  assumes "store_refines load step E' k' x s s'" "disc E' = disc E" "stored_view load E k s = Some m"
  shows "stored_view load E k s' = Some m \<or>
    (\<exists>y m'. step y m = Inr m' \<and> stored_view load E k s' = Some m')"
  using follows_view [OF store_refines_follows [OF assms(1)] assms(2,3)] .

lemma load_write:
  assumes "load E s k = Inr x" "put E k y s = Inr s'" "storable y"
  shows "load E s' k = Inr y"
  using load_written [OF assms(2,3)] load_owner [OF assms(1)] by blast

end

text \<open>
  A concrete environment, on which the theorems are tried: every call succeeds and changes
  nothing, a derived address is a number made of the first byte and the length of its first
  seed, discriminators are eight bytes, and a token account is its mint and its owner.
\<close>

definition sample_disc :: "account_kind \<Rightarrow> u8 list" where
  "sample_disc k = (case k of KStreamMandate \<Rightarrow> 1 | KAgentMandate \<Rightarrow> 2 | KVelaMandate \<Rightarrow> 3
     | KPullApproval \<Rightarrow> 4 | KTokenConfig \<Rightarrow> 5 | KProtocolConfig \<Rightarrow> 6 | KKeeperConfig \<Rightarrow> 7
     | KVelaPlan \<Rightarrow> 8 | KUsagePlan \<Rightarrow> 9 | KArciumRequestState \<Rightarrow> 10 | KUsageReport \<Rightarrow> 11
     | KBillingEvent \<Rightarrow> 12 | KMerchantState \<Rightarrow> 13 | KArciumSigner \<Rightarrow> 14) # replicate 7 0"

definition sample_address :: "u8 list list \<Rightarrow> pubkey" where
  "sample_address seeds = 256 * ucast (hd (hd seeds)) + of_nat (length (hd seeds))"

definition sample_token :: "pubkey \<Rightarrow> pubkey \<Rightarrow> u8 list" where
  "sample_token mint owner = key_bytes mint @ key_bytes owner"

definition sample_unpack_token :: "u8 list \<Rightarrow> token_account option" where
  "sample_unpack_token bs =
     (if length bs = 64
      then Some \<lparr>ta_mint = of_le_bytes (take 32 bs), ta_owner = of_le_bytes (drop 32 bs),
                 ta_amount = 1000000\<rparr> else None)"

definition sample_env :: "i64 \<Rightarrow> pubkey list \<Rightarrow> env" where
  "sample_env now sg =
     \<lparr>find_pda = (\<lambda>seeds _. (sample_address seeds, 255)),
      create_address = (\<lambda>seeds _. Some (sample_address seeds)), disc = sample_disc,
      unix_timestamp = now, slot = 0, signers = sg, invoke = (\<lambda>_ _ s. Inr s),
      minimum_balance = (\<lambda>_. 0), token_id = 21, token_2022_id = 22, associated_token_id = 23,
      unpack_token = sample_unpack_token,
      unpack_mint = (\<lambda>_. Some \<lparr>mint_decimals = 6, mint_supply = 0\<rparr>),
      keccak = (\<lambda>bs. take 32 (bs @ replicate 32 0))\<rparr>"

lemma sample_env_simps [simp]:
  "disc (sample_env now sg) = sample_disc" "unix_timestamp (sample_env now sg) = now"
  "signers (sample_env now sg) = sg" "pda (sample_env now sg) seeds = sample_address seeds"
  "find_pda (sample_env now sg) seeds p = (sample_address seeds, 255)"
  "create_address (sample_env now sg) seeds p = Some (sample_address seeds)"
  "invoke (sample_env now sg) c sd s = Inr s" "token_2022_id (sample_env now sg) = 22"
  "token_id (sample_env now sg) = 21" "associated_token_id (sample_env now sg) = 23" "unpack_token (sample_env now sg) = sample_unpack_token"
  "minimum_balance (sample_env now sg) n = 0" "slot (sample_env now sg) = 0"
  "unpack_mint (sample_env now sg) bs = Some \<lparr>mint_decimals = 6, mint_supply = 0\<rparr>"
  by (simp_all add: sample_env_def pda_def)

lemma length_sample_disc [simp]: "length (sample_disc k) = 8"
  by (simp add: sample_disc_def)

lemma sample_unpack_token [simp]:
  "sample_unpack_token (sample_token m w) = Some \<lparr>ta_mint = m, ta_owner = w, ta_amount = 1000000\<rparr>"
  by (simp add: sample_unpack_token_def sample_token_def)

lemma sample_env_keeps [simp]: "keeps_program_accounts (sample_env now sg)"
  by (simp add: keeps_program_accounts_def)

text \<open>The same environment with account creation as the system program does it.\<close>

definition sample_invoke :: "cpi \<Rightarrow> store \<Rightarrow> verror + store" where
  "sample_invoke c s =
     (case c of
        InitAccount payer k l n p \<Rightarrow>
          if acc_owner (s k) = system_program_id
          then Inr (s(k := \<lparr>acc_owner = p, acc_lamports = l, acc_data = replicate n 0\<rparr>))
          else Inl (Program AccountAlreadyInitialized)
      | CreateAccount payer k l n p \<Rightarrow>
          if acc_owner (s k) = system_program_id
          then Inr (s(k := \<lparr>acc_owner = p, acc_lamports = l, acc_data = replicate n 0\<rparr>))
          else Inl (Program AccountAlreadyInitialized)
      | _ \<Rightarrow> Inr s)"

definition creating_env :: "i64 \<Rightarrow> pubkey list \<Rightarrow> env" where
  "creating_env now sg = (sample_env now sg)\<lparr>invoke := \<lambda>c _ s. sample_invoke c s\<rparr>"

lemma creating_env_simps [simp]:
  "disc (creating_env now sg) = sample_disc" "unix_timestamp (creating_env now sg) = now"
  "signers (creating_env now sg) = sg" "pda (creating_env now sg) seeds = sample_address seeds"
  "find_pda (creating_env now sg) seeds p = (sample_address seeds, 255)"
  "create_address (creating_env now sg) seeds p = Some (sample_address seeds)"
  "invoke (creating_env now sg) c sd s = sample_invoke c s" "token_2022_id (creating_env now sg) = 22"
  "token_id (creating_env now sg) = 21" "associated_token_id (creating_env now sg) = 23"
  "unpack_token (creating_env now sg) = sample_unpack_token"
  "minimum_balance (creating_env now sg) n = 0" "slot (creating_env now sg) = 0"
  "unpack_mint (creating_env now sg) bs = Some \<lparr>mint_decimals = 6, mint_supply = 0\<rparr>"
  by (simp_all add: creating_env_def sample_env_def pda_def)

lemma creating_env_runtime [simp]:
  "keeps_program_accounts (creating_env now sg)" "creates_fresh (creating_env now sg)"
  by (auto simp: keeps_program_accounts_def creates_fresh_def created_fresh_def sample_invoke_def
      split: cpi.splits if_splits)

lemma sample_distinct_discriminators [simp]:
  "distinct_discriminators (sample_env now sg)" "distinct_discriminators (creating_env now sg)"
proof -
  have "inj sample_disc"
  proof (rule injI)
    fix x y assume "sample_disc x = sample_disc y"
    then show "x = y" by (cases x; cases y) (simp_all add: sample_disc_def)
  qed
  moreover have "sample_disc k \<noteq> replicate 8 0" for k
  proof -
    have "replicate 8 (0 :: u8) = 0 # replicate 7 0" by (simp add: numeral_eq_Suc)
    then show ?thesis by (cases k) (simp_all add: sample_disc_def)
  qed
  ultimately show "distinct_discriminators (sample_env now sg)" "distinct_discriminators (creating_env now sg)"
    by (simp_all add: distinct_discriminators_def)
qed

lemma sample_disc_nonempty: "sample_disc k \<noteq> []"
  by (simp add: sample_disc_def)

definition owned_by :: "pubkey \<Rightarrow> u8 list \<Rightarrow> account" where
  "owned_by p bs = \<lparr>acc_owner = p, acc_lamports = 1000, acc_data = bs\<rparr>"

definition sample_store :: "(pubkey \<times> account) list \<Rightarrow> store" where
  "sample_store xs k =
     (case map_of xs k of None \<Rightarrow> \<lparr>acc_owner = 0, acc_lamports = 0, acc_data = []\<rparr> | Some a \<Rightarrow> a)"

lemma owned_by_simps [simp]:
  "acc_owner (owned_by p bs) = p" "acc_data (owned_by p bs) = bs" "acc_lamports (owned_by p bs) = 1000"
  by (simp_all add: owned_by_def)

text \<open>\<open>AccountInfo::resize\<close> cuts or zero-extends the data.\<close>

definition resize_data :: "nat \<Rightarrow> u8 list \<Rightarrow> u8 list" where
  "resize_data n bs = take n bs @ replicate (n - length bs) 0"

section \<open>Closing an account\<close>

text \<open>
  \<open>close_program_account\<close>: the lamports go to the refund account, the data is dropped
  and the account is handed to the system program. The refund is added before the closed
  account's balance is cleared, in the order of the code.
\<close>

definition close_program_account :: "pubkey \<Rightarrow> pubkey \<Rightarrow> store \<Rightarrow> verror + store" where
  "close_program_account k refund_destination s =
     (if acc_owner (s k) \<noteq> program_id then Inl (Anchor RequireKeysEqViolated) else
      let refund = acc_lamports (s k) in
      case (if refund > 0
            then (case ok_or (checked_add (acc_lamports (s refund_destination)) refund)
                         (Vela Overflow) of
                    Inl e \<Rightarrow> Inl e
                  | Inr balance \<Rightarrow>
                      let s1 = s(refund_destination := (s refund_destination)\<lparr>acc_lamports := balance\<rparr>)
                      in Inr (s1(k := (s1 k)\<lparr>acc_lamports := 0\<rparr>)))
            else Inr s) of
        Inl e \<Rightarrow> Inl e
      | Inr s2 \<Rightarrow> Inr (s2(k := (s2 k)\<lparr>acc_data := [], acc_owner := system_program_id\<rparr>)))"

lemma close_program_account_frame:
  "close_program_account k r s = Inr s' \<Longrightarrow> j \<noteq> k \<Longrightarrow> j \<noteq> r \<Longrightarrow> s' j = s j"
  by (auto simp: close_program_account_def Let_def ok_simps split: if_splits)

lemma close_program_account_data:
  "close_program_account k r s = Inr s' \<Longrightarrow> j \<noteq> k \<Longrightarrow> acc_owner (s' j) = acc_owner (s j) \<and> acc_data (s' j) = acc_data (s j)"
  by (auto simp: close_program_account_def Let_def ok_simps split: if_splits)

lemma close_program_account_closed:
  "close_program_account k r s = Inr s' \<Longrightarrow>
     acc_data (s' k) = [] \<and> acc_owner (s' k) = system_program_id"
  by (auto simp: close_program_account_def Let_def ok_simps split: if_splits)

lemma close_program_account_refund:
  assumes "close_program_account k r s = Inr s'" "k \<noteq> r"
  shows "unat (acc_lamports (s' r)) = unat (acc_lamports (s r)) + unat (acc_lamports (s k))
    \<and> acc_lamports (s' k) = 0 \<and> acc_data (s' r) = acc_data (s r) \<and> acc_owner (s' r) = acc_owner (s r)"
  using assms
  by (auto simp: close_program_account_def Let_def ok_simps arith_simps not_less split: if_splits)

end
