(* ===== verification/Config.thy ===== *)
theory Config
  imports Runtime
begin

text \<open>
  The protocol-wide configuration accounts: \<open>ProtocolConfig\<close> with its legacy layout, the
  keeper configuration with its legacy layout, and the per-token configuration
  (\<open>state/protocol_config.rs\<close>, \<open>state/keeper_config.rs\<close>, \<open>state/token_config.rs\<close>), their
  loaders and writers (\<open>instructions/accounts/*_config_account.rs\<close>), and the handlers
  under \<open>instructions/config/\<close> that change them. The creation and the update of the
  protocol's configuration are in \<open>Config_Setup\<close>.
\<close>

section \<open>Versions\<close>

definition CURRENT_ACCOUNT_VERSION :: u8 where
  "CURRENT_ACCOUNT_VERSION = 1"

definition LEGACY_ACCOUNT_VERSION :: u8 where
  "LEGACY_ACCOUNT_VERSION = 0"

definition ACCOUNT_RESERVED_BYTES :: nat where
  "ACCOUNT_RESERVED_BYTES = 64"

section \<open>Protocol configuration\<close>

datatype cluster_type = Cerberus | Manticore

fun enc_cluster_type :: "cluster_type \<Rightarrow> u8 list" where
  "enc_cluster_type Cerberus = [0]"
| "enc_cluster_type Manticore = [1]"

fun dec_cluster_type :: "cluster_type decoder" where
  "dec_cluster_type [] = None"
| "dec_cluster_type (b # bs) =
     (if b = 0 then Some (Cerberus, bs) else if b = 1 then Some (Manticore, bs) else None)"

lemma dec_enc_cluster_type [simp]: "dec_cluster_type (enc_cluster_type x @ r) = Some (x, r)"
  by (cases x) simp_all

lemma length_enc_cluster_type [simp]: "length (enc_cluster_type x) = 1"
  by (cases x) simp_all

record protocol_config =
  pc_admin :: "pubkey"
  pc_cluster_pubkey :: "pubkey"
  pc_cluster_type :: "cluster_type"
  pc_cluster_offset :: "u64"
  pc_wrapped_usdc_mint :: "pubkey"
  pc_wrapping_vault :: "pubkey"
  pc_paused :: "bool"
  pc_paused_at :: "i64"
  pc_transfer_hook_program_id :: "pubkey"
  pc_bump :: "u8"
  pc_version :: "u8"
  pc_mxe_program_id :: "pubkey"

definition valid_protocol_config :: "protocol_config \<Rightarrow> bool" where
  "valid_protocol_config m \<longleftrightarrow> True"

definition enc_protocol_config :: "protocol_config \<Rightarrow> u8 list" where
  "enc_protocol_config m =
     key_bytes (pc_admin m) @
     key_bytes (pc_cluster_pubkey m) @
     enc_cluster_type (pc_cluster_type m) @
     u64_le (pc_cluster_offset m) @
     key_bytes (pc_wrapped_usdc_mint m) @
     key_bytes (pc_wrapping_vault m) @
     enc_bool (pc_paused m) @
     i64_le (pc_paused_at m) @
     key_bytes (pc_transfer_hook_program_id m) @
     [pc_bump m] @
     [pc_version m] @
     key_bytes (pc_mxe_program_id m)"

definition dec_protocol_config :: "protocol_config decoder" where
  "dec_protocol_config bs = do {
     (x_admin, bs) \<leftarrow> dec_key bs;
     (x_cluster_pubkey, bs) \<leftarrow> dec_key bs;
     (x_cluster_type, bs) \<leftarrow> dec_cluster_type bs;
     (x_cluster_offset, bs) \<leftarrow> dec_u64 bs;
     (x_wrapped_usdc_mint, bs) \<leftarrow> dec_key bs;
     (x_wrapping_vault, bs) \<leftarrow> dec_key bs;
     (x_paused, bs) \<leftarrow> dec_bool bs;
     (x_paused_at, bs) \<leftarrow> dec_i64 bs;
     (x_transfer_hook_program_id, bs) \<leftarrow> dec_key bs;
     (x_bump, bs) \<leftarrow> dec_u8 bs;
     (x_version, bs) \<leftarrow> dec_u8 bs;
     (x_mxe_program_id, bs) \<leftarrow> dec_key bs;
     Some (\<lparr>pc_admin = x_admin,
       pc_cluster_pubkey = x_cluster_pubkey,
       pc_cluster_type = x_cluster_type,
       pc_cluster_offset = x_cluster_offset,
       pc_wrapped_usdc_mint = x_wrapped_usdc_mint,
       pc_wrapping_vault = x_wrapping_vault,
       pc_paused = x_paused,
       pc_paused_at = x_paused_at,
       pc_transfer_hook_program_id = x_transfer_hook_program_id,
       pc_bump = x_bump,
       pc_version = x_version,
       pc_mxe_program_id = x_mxe_program_id\<rparr>, bs)
   }"

interpretation protocol_config_codec: fixed_borsh enc_protocol_config dec_protocol_config valid_protocol_config 212
proof unfold_locales
  show "valid_protocol_config x \<Longrightarrow> dec_protocol_config (enc_protocol_config x @ r) = Some (x, r)" for x r
    by (simp add: enc_protocol_config_def dec_protocol_config_def valid_protocol_config_def)
  show "dec_protocol_config bs = Some (x, r) \<Longrightarrow> valid_protocol_config x" for bs x r
    by (simp add: valid_protocol_config_def)
  show "valid_protocol_config x \<Longrightarrow> length (enc_protocol_config x) = 212" for x
    by (simp add: enc_protocol_config_def valid_protocol_config_def)
qed

record protocol_config_v1 =
  pcl_admin :: "pubkey"
  pcl_cluster_pubkey :: "pubkey"
  pcl_cluster_type :: "cluster_type"
  pcl_cluster_offset :: "u64"
  pcl_wrapped_usdc_mint :: "pubkey"
  pcl_wrapping_vault :: "pubkey"
  pcl_paused :: "bool"
  pcl_paused_at :: "i64"
  pcl_bump :: "u8"

definition valid_protocol_config_v1 :: "protocol_config_v1 \<Rightarrow> bool" where
  "valid_protocol_config_v1 m \<longleftrightarrow> True"

definition enc_protocol_config_v1 :: "protocol_config_v1 \<Rightarrow> u8 list" where
  "enc_protocol_config_v1 m =
     key_bytes (pcl_admin m) @
     key_bytes (pcl_cluster_pubkey m) @
     enc_cluster_type (pcl_cluster_type m) @
     u64_le (pcl_cluster_offset m) @
     key_bytes (pcl_wrapped_usdc_mint m) @
     key_bytes (pcl_wrapping_vault m) @
     enc_bool (pcl_paused m) @
     i64_le (pcl_paused_at m) @
     [pcl_bump m]"

definition dec_protocol_config_v1 :: "protocol_config_v1 decoder" where
  "dec_protocol_config_v1 bs = do {
     (x_admin, bs) \<leftarrow> dec_key bs;
     (x_cluster_pubkey, bs) \<leftarrow> dec_key bs;
     (x_cluster_type, bs) \<leftarrow> dec_cluster_type bs;
     (x_cluster_offset, bs) \<leftarrow> dec_u64 bs;
     (x_wrapped_usdc_mint, bs) \<leftarrow> dec_key bs;
     (x_wrapping_vault, bs) \<leftarrow> dec_key bs;
     (x_paused, bs) \<leftarrow> dec_bool bs;
     (x_paused_at, bs) \<leftarrow> dec_i64 bs;
     (x_bump, bs) \<leftarrow> dec_u8 bs;
     Some (\<lparr>pcl_admin = x_admin,
       pcl_cluster_pubkey = x_cluster_pubkey,
       pcl_cluster_type = x_cluster_type,
       pcl_cluster_offset = x_cluster_offset,
       pcl_wrapped_usdc_mint = x_wrapped_usdc_mint,
       pcl_wrapping_vault = x_wrapping_vault,
       pcl_paused = x_paused,
       pcl_paused_at = x_paused_at,
       pcl_bump = x_bump\<rparr>, bs)
   }"

interpretation protocol_config_v1_codec: fixed_borsh enc_protocol_config_v1 dec_protocol_config_v1 valid_protocol_config_v1 147
proof unfold_locales
  show "valid_protocol_config_v1 x \<Longrightarrow> dec_protocol_config_v1 (enc_protocol_config_v1 x @ r) = Some (x, r)" for x r
    by (simp add: enc_protocol_config_v1_def dec_protocol_config_v1_def valid_protocol_config_v1_def)
  show "dec_protocol_config_v1 bs = Some (x, r) \<Longrightarrow> valid_protocol_config_v1 x" for bs x r
    by (simp add: valid_protocol_config_v1_def)
  show "valid_protocol_config_v1 x \<Longrightarrow> length (enc_protocol_config_v1 x) = 147" for x
    by (simp add: enc_protocol_config_v1_def valid_protocol_config_v1_def)
qed

definition protocol_config_size :: nat where
  "protocol_config_size = 220"

definition protocol_config_seed :: "u8 list" where
  "protocol_config_seed = bytes ''config''"

text \<open>\<open>ProtocolConfig::new\<close> and \<open>effective_mxe_program_id\<close>.\<close>

definition new_protocol_config ::
  "pubkey \<Rightarrow> pubkey \<Rightarrow> cluster_type \<Rightarrow> u64 \<Rightarrow> pubkey \<Rightarrow> u8 \<Rightarrow> protocol_config" where
  "new_protocol_config admin cluster_pubkey cluster_type cluster_offset mxe_program_id bump =
     \<lparr>pc_admin = admin, pc_cluster_pubkey = cluster_pubkey, pc_cluster_type = cluster_type,
      pc_cluster_offset = cluster_offset, pc_wrapped_usdc_mint = default_key,
      pc_wrapping_vault = default_key, pc_paused = False, pc_paused_at = i64_of 0,
      pc_transfer_hook_program_id = transfer_hook_program_id, pc_bump = bump,
      pc_version = CURRENT_ACCOUNT_VERSION, pc_mxe_program_id = mxe_program_id\<rparr>"

definition effective_mxe_program_id :: "protocol_config \<Rightarrow> pubkey" where
  "effective_mxe_program_id c =
     (if pc_mxe_program_id c = default_key then program_id else pc_mxe_program_id c)"

datatype loaded_protocol_config =
    LegacyProtocolConfig protocol_config_v1
  | CurrentProtocolConfig protocol_config

fun lpc_admin :: "loaded_protocol_config \<Rightarrow> pubkey" where
  "lpc_admin (LegacyProtocolConfig c) = pcl_admin c"
| "lpc_admin (CurrentProtocolConfig c) = pc_admin c"

fun lpc_paused :: "loaded_protocol_config \<Rightarrow> bool" where
  "lpc_paused (LegacyProtocolConfig c) = pcl_paused c"
| "lpc_paused (CurrentProtocolConfig c) = pc_paused c"

fun lpc_wrapped_usdc_mint :: "loaded_protocol_config \<Rightarrow> pubkey" where
  "lpc_wrapped_usdc_mint (LegacyProtocolConfig c) = pcl_wrapped_usdc_mint c"
| "lpc_wrapped_usdc_mint (CurrentProtocolConfig c) = pc_wrapped_usdc_mint c"

fun lpc_wrapping_vault :: "loaded_protocol_config \<Rightarrow> pubkey" where
  "lpc_wrapping_vault (LegacyProtocolConfig c) = pcl_wrapping_vault c"
| "lpc_wrapping_vault (CurrentProtocolConfig c) = pc_wrapping_vault c"

fun lpc_transfer_hook_program_id :: "loaded_protocol_config \<Rightarrow> pubkey" where
  "lpc_transfer_hook_program_id (LegacyProtocolConfig c) = default_key"
| "lpc_transfer_hook_program_id (CurrentProtocolConfig c) = pc_transfer_hook_program_id c"

fun lpc_into_current :: "loaded_protocol_config \<Rightarrow> protocol_config" where
  "lpc_into_current (LegacyProtocolConfig c) =
     \<lparr>pc_admin = pcl_admin c, pc_cluster_pubkey = pcl_cluster_pubkey c,
      pc_cluster_type = pcl_cluster_type c, pc_cluster_offset = pcl_cluster_offset c,
      pc_wrapped_usdc_mint = pcl_wrapped_usdc_mint c, pc_wrapping_vault = pcl_wrapping_vault c,
      pc_paused = pcl_paused c, pc_paused_at = pcl_paused_at c,
      pc_transfer_hook_program_id = transfer_hook_program_id, pc_bump = pcl_bump c,
      pc_version = CURRENT_ACCOUNT_VERSION, pc_mxe_program_id = default_key\<rparr>"
| "lpc_into_current (CurrentProtocolConfig c) = c"

definition load_protocol_config :: "env \<Rightarrow> store \<Rightarrow> pubkey \<Rightarrow> verror + loaded_protocol_config" where
  "load_protocol_config E s k =
     (if k \<noteq> pda E [protocol_config_seed] then Inl (Program InvalidSeeds)
      else if acc_owner (s k) \<noteq> program_id then Inl (Vela InvalidProtocolConfig)
      else
        let data = acc_data (s k); d = disc E KProtocolConfig in
        if length data < length d \<or> \<not> starts_with data d then Inl (Vela InvalidProtocolConfig)
        else case try_deserialize E KProtocolConfig dec_protocol_config data of
          Some c \<Rightarrow>
            if pc_version c \<noteq> CURRENT_ACCOUNT_VERSION then Inl (Program InvalidAccountData)
            else Inr (CurrentProtocolConfig c)
        | None \<Rightarrow>
            (case dec_protocol_config_v1 (drop (length d) data) of
               None \<Rightarrow> Inl (Program InvalidAccountData)
             | Some (c, rest) \<Rightarrow>
                 if rest \<noteq> [] \<and> \<not> has_only_zero_padding rest then Inl (Program InvalidAccountData)
                 else Inr (LegacyProtocolConfig c)))"

definition write_protocol_config :: "env \<Rightarrow> pubkey \<Rightarrow> protocol_config \<Rightarrow> store \<Rightarrow> verror + store" where
  "write_protocol_config E k c s = write_account k (disc E KProtocolConfig @ enc_protocol_config c) s"

text \<open>
  \<open>resize_*_account\<close>: pay the missing rent by a system transfer, then grow the data.
\<close>

definition resize_account :: "env \<Rightarrow> nat \<Rightarrow> pubkey \<Rightarrow> pubkey \<Rightarrow> store \<Rightarrow> verror + store" where
  "resize_account E sz payer k s =
     (let required = minimum_balance E sz; current = acc_lamports (s k) in
      case (if current < required then invoke E (SystemTransfer payer k (required - current)) [] s
            else Inr s) of
        Inl e \<Rightarrow> Inl e
      | Inr s1 \<Rightarrow>
          Inr (if length (acc_data (s1 k)) < sz
               then set_data s1 k (resize_data sz (acc_data (s1 k))) else s1))"

definition resize_protocol_config_account :: "env \<Rightarrow> pubkey \<Rightarrow> pubkey \<Rightarrow> store \<Rightarrow> verror + store" where
  "resize_protocol_config_account E payer k s = resize_account E protocol_config_size payer k s"

definition upgrade_protocol_config ::
  "env \<Rightarrow> pubkey \<Rightarrow> pubkey \<Rightarrow> store \<Rightarrow> verror + (protocol_config \<times> store)" where
  "upgrade_protocol_config E payer k s =
     (case load_protocol_config E s k of
        Inl e \<Rightarrow> Inl e
      | Inr l \<Rightarrow>
     (case resize_protocol_config_account E payer k s of
        Inl e \<Rightarrow> Inl e
      | Inr s1 \<Rightarrow>
          let c = lpc_into_current l;
              c = (if pc_transfer_hook_program_id c = default_key
                   then c\<lparr>pc_transfer_hook_program_id := transfer_hook_program_id\<rparr> else c);
              c = c\<lparr>pc_version := CURRENT_ACCOUNT_VERSION\<rparr>
          in (case write_protocol_config E k c s1 of
                Inl e \<Rightarrow> Inl e
              | Inr s2 \<Rightarrow> Inr (c, s2))))"

section \<open>Keeper configuration\<close>

datatype keeper_mode = Centralized | TukTuk

fun enc_keeper_mode :: "keeper_mode \<Rightarrow> u8 list" where
  "enc_keeper_mode Centralized = [0]"
| "enc_keeper_mode TukTuk = [1]"

fun dec_keeper_mode :: "keeper_mode decoder" where
  "dec_keeper_mode [] = None"
| "dec_keeper_mode (b # bs) =
     (if b = 0 then Some (Centralized, bs) else if b = 1 then Some (TukTuk, bs) else None)"

lemma dec_enc_keeper_mode [simp]: "dec_keeper_mode (enc_keeper_mode x @ r) = Some (x, r)"
  by (cases x) simp_all

lemma length_enc_keeper_mode [simp]: "length (enc_keeper_mode x) = 1"
  by (cases x) simp_all

record keeper_config =
  kc_admin :: "pubkey"
  kc_mode :: "keeper_mode"
  kc_keeper_endpoint :: "u8 list"
  kc_endpoint_len :: "u8"
  kc_keeper_authority :: "pubkey"
  kc_bump :: "u8"
  kc_version :: "u8"
  kc_reserved :: "u8 list"

definition valid_keeper_config :: "keeper_config \<Rightarrow> bool" where
  "valid_keeper_config m \<longleftrightarrow> length (kc_keeper_endpoint m) = 128 \<and>
     length (kc_reserved m) = 64"

definition enc_keeper_config :: "keeper_config \<Rightarrow> u8 list" where
  "enc_keeper_config m =
     key_bytes (kc_admin m) @
     enc_keeper_mode (kc_mode m) @
     kc_keeper_endpoint m @
     [kc_endpoint_len m] @
     key_bytes (kc_keeper_authority m) @
     [kc_bump m] @
     [kc_version m] @
     kc_reserved m"

definition dec_keeper_config :: "keeper_config decoder" where
  "dec_keeper_config bs = do {
     (x_admin, bs) \<leftarrow> dec_key bs;
     (x_mode, bs) \<leftarrow> dec_keeper_mode bs;
     (x_keeper_endpoint, bs) \<leftarrow> dec_bytes 128 bs;
     (x_endpoint_len, bs) \<leftarrow> dec_u8 bs;
     (x_keeper_authority, bs) \<leftarrow> dec_key bs;
     (x_bump, bs) \<leftarrow> dec_u8 bs;
     (x_version, bs) \<leftarrow> dec_u8 bs;
     (x_reserved, bs) \<leftarrow> dec_bytes 64 bs;
     Some (\<lparr>kc_admin = x_admin,
       kc_mode = x_mode,
       kc_keeper_endpoint = x_keeper_endpoint,
       kc_endpoint_len = x_endpoint_len,
       kc_keeper_authority = x_keeper_authority,
       kc_bump = x_bump,
       kc_version = x_version,
       kc_reserved = x_reserved\<rparr>, bs)
   }"

interpretation keeper_config_codec: fixed_borsh enc_keeper_config dec_keeper_config valid_keeper_config 260
proof unfold_locales
  show "valid_keeper_config x \<Longrightarrow> dec_keeper_config (enc_keeper_config x @ r) = Some (x, r)" for x r
    by (simp add: enc_keeper_config_def dec_keeper_config_def valid_keeper_config_def)
  show "dec_keeper_config bs = Some (x, r) \<Longrightarrow> valid_keeper_config x" for bs x r
    unfolding dec_keeper_config_def by (elim bind_SomeE) (auto simp: valid_keeper_config_def)
  show "valid_keeper_config x \<Longrightarrow> length (enc_keeper_config x) = 260" for x
    by (simp add: enc_keeper_config_def valid_keeper_config_def)
qed

record keeper_config_v1 =
  kcl_admin :: "pubkey"
  kcl_mode :: "keeper_mode"
  kcl_keeper_endpoint :: "u8 list"
  kcl_endpoint_len :: "u8"
  kcl_keeper_authority :: "pubkey"
  kcl_bump :: "u8"

definition valid_keeper_config_v1 :: "keeper_config_v1 \<Rightarrow> bool" where
  "valid_keeper_config_v1 m \<longleftrightarrow> length (kcl_keeper_endpoint m) = 128"

definition enc_keeper_config_v1 :: "keeper_config_v1 \<Rightarrow> u8 list" where
  "enc_keeper_config_v1 m =
     key_bytes (kcl_admin m) @
     enc_keeper_mode (kcl_mode m) @
     kcl_keeper_endpoint m @
     [kcl_endpoint_len m] @
     key_bytes (kcl_keeper_authority m) @
     [kcl_bump m]"

definition dec_keeper_config_v1 :: "keeper_config_v1 decoder" where
  "dec_keeper_config_v1 bs = do {
     (x_admin, bs) \<leftarrow> dec_key bs;
     (x_mode, bs) \<leftarrow> dec_keeper_mode bs;
     (x_keeper_endpoint, bs) \<leftarrow> dec_bytes 128 bs;
     (x_endpoint_len, bs) \<leftarrow> dec_u8 bs;
     (x_keeper_authority, bs) \<leftarrow> dec_key bs;
     (x_bump, bs) \<leftarrow> dec_u8 bs;
     Some (\<lparr>kcl_admin = x_admin,
       kcl_mode = x_mode,
       kcl_keeper_endpoint = x_keeper_endpoint,
       kcl_endpoint_len = x_endpoint_len,
       kcl_keeper_authority = x_keeper_authority,
       kcl_bump = x_bump\<rparr>, bs)
   }"

interpretation keeper_config_v1_codec: fixed_borsh enc_keeper_config_v1 dec_keeper_config_v1 valid_keeper_config_v1 195
proof unfold_locales
  show "valid_keeper_config_v1 x \<Longrightarrow> dec_keeper_config_v1 (enc_keeper_config_v1 x @ r) = Some (x, r)" for x r
    by (simp add: enc_keeper_config_v1_def dec_keeper_config_v1_def valid_keeper_config_v1_def)
  show "dec_keeper_config_v1 bs = Some (x, r) \<Longrightarrow> valid_keeper_config_v1 x" for bs x r
    unfolding dec_keeper_config_v1_def by (elim bind_SomeE) (auto simp: valid_keeper_config_v1_def)
  show "valid_keeper_config_v1 x \<Longrightarrow> length (enc_keeper_config_v1 x) = 195" for x
    by (simp add: enc_keeper_config_v1_def valid_keeper_config_v1_def)
qed

definition keeper_config_size :: nat where
  "keeper_config_size = 8 + 32 + 1 + 128 + 1 + 32 + 1 + 1 + ACCOUNT_RESERVED_BYTES"

definition keeper_config_seed :: "u8 list" where
  "keeper_config_seed = bytes ''keeper-config''"

definition pad_endpoint :: "u8 list \<Rightarrow> u8 list" where
  "pad_endpoint ep = ep @ replicate (128 - length ep) 0"

text \<open>
  \<open>KeeperConfig::new\<close> copies the endpoint into a 128-byte array; a longer endpoint panics
  there, so the handlers check the length first.
\<close>

definition new_keeper_config ::
  "pubkey \<Rightarrow> keeper_mode \<Rightarrow> u8 list \<Rightarrow> pubkey \<Rightarrow> u8 \<Rightarrow> keeper_config" where
  "new_keeper_config admin mode endpoint authority bump =
     \<lparr>kc_admin = admin, kc_mode = mode, kc_keeper_endpoint = pad_endpoint endpoint,
      kc_endpoint_len = of_nat (length endpoint), kc_keeper_authority = authority, kc_bump = bump,
      kc_version = CURRENT_ACCOUNT_VERSION, kc_reserved = replicate ACCOUNT_RESERVED_BYTES 0\<rparr>"

definition kc_endpoint :: "keeper_config \<Rightarrow> u8 list" where
  "kc_endpoint c =
     take (min (unat (kc_endpoint_len c)) (length (kc_keeper_endpoint c))) (kc_keeper_endpoint c)"

datatype loaded_keeper_config =
    LegacyKeeperConfig keeper_config_v1
  | CurrentKeeperConfig keeper_config

fun lkc_keeper_authority :: "loaded_keeper_config \<Rightarrow> pubkey" where
  "lkc_keeper_authority (LegacyKeeperConfig c) = kcl_keeper_authority c"
| "lkc_keeper_authority (CurrentKeeperConfig c) = kc_keeper_authority c"

fun lkc_into_current :: "loaded_keeper_config \<Rightarrow> keeper_config" where
  "lkc_into_current (LegacyKeeperConfig c) =
     \<lparr>kc_admin = kcl_admin c, kc_mode = kcl_mode c, kc_keeper_endpoint = kcl_keeper_endpoint c,
      kc_endpoint_len = kcl_endpoint_len c, kc_keeper_authority = kcl_keeper_authority c,
      kc_bump = kcl_bump c, kc_version = CURRENT_ACCOUNT_VERSION,
      kc_reserved = replicate ACCOUNT_RESERVED_BYTES 0\<rparr>"
| "lkc_into_current (CurrentKeeperConfig c) = c"

definition load_keeper_config :: "env \<Rightarrow> store \<Rightarrow> pubkey \<Rightarrow> verror + loaded_keeper_config" where
  "load_keeper_config E s k =
     (if k \<noteq> pda E [keeper_config_seed] then Inl (Program InvalidSeeds)
      else if acc_owner (s k) \<noteq> program_id then Inl (Program IncorrectProgramId)
      else
        let data = acc_data (s k); d = disc E KKeeperConfig in
        if length data < length d \<or> \<not> starts_with data d then Inl (Program InvalidAccountData)
        else case try_deserialize E KKeeperConfig dec_keeper_config data of
          Some c \<Rightarrow>
            if kc_version c \<noteq> CURRENT_ACCOUNT_VERSION then Inl (Program InvalidAccountData)
            else Inr (CurrentKeeperConfig c)
        | None \<Rightarrow>
            (case dec_keeper_config_v1 (drop (length d) data) of
               None \<Rightarrow> Inl (Program InvalidAccountData)
             | Some (c, rest) \<Rightarrow>
                 if rest \<noteq> [] \<and> \<not> has_only_zero_padding rest then Inl (Program InvalidAccountData)
                 else Inr (LegacyKeeperConfig c)))"

definition write_keeper_config :: "env \<Rightarrow> pubkey \<Rightarrow> keeper_config \<Rightarrow> store \<Rightarrow> verror + store" where
  "write_keeper_config E k c s = write_account k (disc E KKeeperConfig @ enc_keeper_config c) s"

definition resize_keeper_config_account :: "env \<Rightarrow> pubkey \<Rightarrow> pubkey \<Rightarrow> store \<Rightarrow> verror + store" where
  "resize_keeper_config_account E payer k s = resize_account E keeper_config_size payer k s"

definition upgrade_keeper_config ::
  "env \<Rightarrow> pubkey \<Rightarrow> pubkey \<Rightarrow> store \<Rightarrow> verror + (keeper_config \<times> store)" where
  "upgrade_keeper_config E payer k s =
     (case load_keeper_config E s k of
        Inl e \<Rightarrow> Inl e
      | Inr l \<Rightarrow>
     (case resize_keeper_config_account E payer k s of
        Inl e \<Rightarrow> Inl e
      | Inr s1 \<Rightarrow>
          let c = (lkc_into_current l)\<lparr>kc_version := CURRENT_ACCOUNT_VERSION,
                    kc_reserved := replicate ACCOUNT_RESERVED_BYTES 0\<rparr>
          in (case write_keeper_config E k c s1 of
                Inl e \<Rightarrow> Inl e
              | Inr s2 \<Rightarrow> Inr (c, s2))))"

definition initialize_keeper_config ::
  "env \<Rightarrow> pubkey \<Rightarrow> pubkey \<Rightarrow> pubkey \<Rightarrow> keeper_mode \<Rightarrow> u8 list \<Rightarrow> pubkey \<Rightarrow> u8 \<Rightarrow> store \<Rightarrow>
     verror + (keeper_config \<times> store)" where
  "initialize_keeper_config E payer k admin mode endpoint authority bump s =
     (if k \<noteq> pda E [keeper_config_seed] then Inl (Program InvalidSeeds)
      else if \<not> data_is_empty (s k) then Inl (Program AccountAlreadyInitialized)
      else
     (case invoke E (CreateAccount payer k (minimum_balance E keeper_config_size)
                       keeper_config_size program_id) [[keeper_config_seed, [bump]]] s of
        Inl e \<Rightarrow> Inl e
      | Inr s1 \<Rightarrow>
          let c = new_keeper_config admin mode endpoint authority bump
          in (case write_keeper_config E k c s1 of
                Inl e \<Rightarrow> Inl e
              | Inr s2 \<Rightarrow> Inr (c, s2))))"

section \<open>Token configuration\<close>

datatype billing_rail = TransferHook | TokenDelegate

fun enc_billing_rail :: "billing_rail \<Rightarrow> u8 list" where
  "enc_billing_rail TransferHook = [0]"
| "enc_billing_rail TokenDelegate = [1]"

fun dec_billing_rail :: "billing_rail decoder" where
  "dec_billing_rail [] = None"
| "dec_billing_rail (b # bs) =
     (if b = 0 then Some (TransferHook, bs) else if b = 1 then Some (TokenDelegate, bs) else None)"

lemma dec_enc_billing_rail [simp]: "dec_billing_rail (enc_billing_rail x @ r) = Some (x, r)"
  by (cases x) simp_all

lemma length_enc_billing_rail [simp]: "length (enc_billing_rail x) = 1"
  by (cases x) simp_all

record token_config =
  tk_mint :: "pubkey"
  tk_token_program :: "pubkey"
  tk_billing_rail :: "billing_rail"
  tk_decimals :: "u8"
  tk_enabled :: "bool"
  tk_oracle_reference :: "pubkey"
  tk_admin :: "pubkey"
  tk_created_at :: "i64"
  tk_bump :: "u8"
  tk_version :: "u8"
  tk_reserved :: "u8 list"

definition valid_token_config :: "token_config \<Rightarrow> bool" where
  "valid_token_config m \<longleftrightarrow> length (tk_reserved m) = 64"

definition enc_token_config :: "token_config \<Rightarrow> u8 list" where
  "enc_token_config m =
     key_bytes (tk_mint m) @
     key_bytes (tk_token_program m) @
     enc_billing_rail (tk_billing_rail m) @
     [tk_decimals m] @
     enc_bool (tk_enabled m) @
     key_bytes (tk_oracle_reference m) @
     key_bytes (tk_admin m) @
     i64_le (tk_created_at m) @
     [tk_bump m] @
     [tk_version m] @
     tk_reserved m"

definition dec_token_config :: "token_config decoder" where
  "dec_token_config bs = do {
     (x_mint, bs) \<leftarrow> dec_key bs;
     (x_token_program, bs) \<leftarrow> dec_key bs;
     (x_billing_rail, bs) \<leftarrow> dec_billing_rail bs;
     (x_decimals, bs) \<leftarrow> dec_u8 bs;
     (x_enabled, bs) \<leftarrow> dec_bool bs;
     (x_oracle_reference, bs) \<leftarrow> dec_key bs;
     (x_admin, bs) \<leftarrow> dec_key bs;
     (x_created_at, bs) \<leftarrow> dec_i64 bs;
     (x_bump, bs) \<leftarrow> dec_u8 bs;
     (x_version, bs) \<leftarrow> dec_u8 bs;
     (x_reserved, bs) \<leftarrow> dec_bytes 64 bs;
     Some (\<lparr>tk_mint = x_mint,
       tk_token_program = x_token_program,
       tk_billing_rail = x_billing_rail,
       tk_decimals = x_decimals,
       tk_enabled = x_enabled,
       tk_oracle_reference = x_oracle_reference,
       tk_admin = x_admin,
       tk_created_at = x_created_at,
       tk_bump = x_bump,
       tk_version = x_version,
       tk_reserved = x_reserved\<rparr>, bs)
   }"

interpretation token_config_codec: fixed_borsh enc_token_config dec_token_config valid_token_config 205
proof unfold_locales
  show "valid_token_config x \<Longrightarrow> dec_token_config (enc_token_config x @ r) = Some (x, r)" for x r
    by (simp add: enc_token_config_def dec_token_config_def valid_token_config_def)
  show "dec_token_config bs = Some (x, r) \<Longrightarrow> valid_token_config x" for bs x r
    unfolding dec_token_config_def by (elim bind_SomeE) (auto simp: valid_token_config_def)
  show "valid_token_config x \<Longrightarrow> length (enc_token_config x) = 205" for x
    by (simp add: enc_token_config_def valid_token_config_def)
qed

definition token_config_size :: nat where
  "token_config_size = 8 + 32 + 32 + 1 + 1 + 1 + 32 + 32 + 8 + 1 + 1 + ACCOUNT_RESERVED_BYTES"

definition token_config_seed :: "u8 list" where
  "token_config_seed = bytes ''token_config''"

definition new_token_config ::
  "pubkey \<Rightarrow> pubkey \<Rightarrow> billing_rail \<Rightarrow> u8 \<Rightarrow> pubkey \<Rightarrow> pubkey \<Rightarrow> i64 \<Rightarrow> u8 \<Rightarrow> token_config" where
  "new_token_config mint token_program billing_rail decimals oracle_reference admin created_at bump =
     \<lparr>tk_mint = mint, tk_token_program = token_program, tk_billing_rail = billing_rail,
      tk_decimals = decimals, tk_enabled = True, tk_oracle_reference = oracle_reference,
      tk_admin = admin, tk_created_at = created_at, tk_bump = bump,
      tk_version = CURRENT_ACCOUNT_VERSION, tk_reserved = replicate ACCOUNT_RESERVED_BYTES 0\<rparr>"

section \<open>Handlers\<close>

datatype config_event =
    KeeperConfigInitialized pubkey keeper_mode pubkey
  | KeeperConfigUpdated pubkey keeper_mode pubkey
  | TokenConfigCreated pubkey billing_rail u8 pubkey
  | TokenConfigUpdated pubkey "bool option" "pubkey option"

record config_accounts =
  ca_admin :: pubkey
  ca_config :: pubkey
  ca_system_program :: pubkey

text \<open>The constraints of \<open>PauseProtocol\<close>, \<open>UnpauseProtocol\<close> and \<open>UpdateConfig\<close>.\<close>

definition config_constraints :: "env \<Rightarrow> config_accounts \<Rightarrow> verror + unit" where
  "config_constraints E c = require_all
     [(is_signer E (ca_admin c), Anchor AccountNotSigner),
      (ca_config c = pda E [protocol_config_seed], Anchor ConstraintSeeds),
      (ca_system_program c = system_program_id, Anchor InvalidProgramId)]"

definition pause_protocol :: "env \<Rightarrow> config_accounts \<Rightarrow> store \<Rightarrow> verror + store" where
  "pause_protocol E c s =
     (case config_constraints E c of Inl e \<Rightarrow> Inl e | Inr _ \<Rightarrow>
     (case load_protocol_config E s (ca_config c) of Inl e \<Rightarrow> Inl e | Inr existing \<Rightarrow>
      if ca_admin c \<noteq> lpc_admin existing then Inl (Vela UnauthorizedAdmin) else
     (case upgrade_protocol_config E (ca_admin c) (ca_config c) s of Inl e \<Rightarrow> Inl e | Inr u \<Rightarrow>
      write_protocol_config E (ca_config c)
        ((fst u)\<lparr>pc_paused := True, pc_paused_at := unix_timestamp E\<rparr>) (snd u))))"

definition unpause_protocol :: "env \<Rightarrow> config_accounts \<Rightarrow> store \<Rightarrow> verror + store" where
  "unpause_protocol E c s =
     (case config_constraints E c of Inl e \<Rightarrow> Inl e | Inr _ \<Rightarrow>
     (case load_protocol_config E s (ca_config c) of Inl e \<Rightarrow> Inl e | Inr existing \<Rightarrow>
      if ca_admin c \<noteq> lpc_admin existing then Inl (Vela UnauthorizedAdmin) else
     (case upgrade_protocol_config E (ca_admin c) (ca_config c) s of Inl e \<Rightarrow> Inl e | Inr u \<Rightarrow>
      write_protocol_config E (ca_config c)
        ((fst u)\<lparr>pc_paused := False, pc_paused_at := i64_of 0\<rparr>) (snd u))))"

record keeper_accounts =
  ka_admin :: pubkey
  ka_protocol_config :: pubkey
  ka_keeper_config :: pubkey
  ka_system_program :: pubkey

definition keeper_constraints :: "env \<Rightarrow> keeper_accounts \<Rightarrow> verror + unit" where
  "keeper_constraints E c = require_all
     [(is_signer E (ka_admin c), Anchor AccountNotSigner),
      (ka_protocol_config c = pda E [protocol_config_seed], Anchor ConstraintSeeds),
      (ka_keeper_config c = pda E [keeper_config_seed], Anchor ConstraintSeeds),
      (ka_system_program c = system_program_id, Anchor InvalidProgramId)]"

definition init_keeper_config ::
  "env \<Rightarrow> keeper_accounts \<Rightarrow> keeper_mode \<Rightarrow> u8 list \<Rightarrow> pubkey \<Rightarrow> store \<Rightarrow>
     verror + (store \<times> config_event list)" where
  "init_keeper_config E c mode endpoint authority s =
     (case keeper_constraints E c of Inl e \<Rightarrow> Inl e | Inr _ \<Rightarrow>
      if 128 < length endpoint then Inl (Vela EndpointTooLong) else
      if endpoint = [] then Inl (Vela EndpointEmpty) else
      if authority = default_key then Inl (Vela InvalidKeeperAuthority) else
     (case load_protocol_config E s (ka_protocol_config c) of Inl e \<Rightarrow> Inl e | Inr pc \<Rightarrow>
      if lpc_admin pc \<noteq> ka_admin c then Inl (Vela UnauthorizedAdmin) else
     (case initialize_keeper_config E (ka_admin c) (ka_keeper_config c) (ka_admin c) mode endpoint
             authority (snd (find_pda E [keeper_config_seed] program_id)) s of
        Inl e \<Rightarrow> Inl e
      | Inr (config, s1) \<Rightarrow>
          Inr (s1, [KeeperConfigInitialized (kc_admin config) (kc_mode config)
                      (kc_keeper_authority config)]))))"

definition update_keeper_config ::
  "env \<Rightarrow> keeper_accounts \<Rightarrow> keeper_mode option \<Rightarrow> u8 list option \<Rightarrow> pubkey option \<Rightarrow> store \<Rightarrow>
     verror + (store \<times> config_event list)" where
  "update_keeper_config E c mode endpoint authority s =
     (case keeper_constraints E c of Inl e \<Rightarrow> Inl e | Inr _ \<Rightarrow>
      if mode = None \<and> endpoint = None \<and> authority = None then Inl (Vela NoUpdateProvided) else
      if (case endpoint of Some ep \<Rightarrow> 128 < length ep | None \<Rightarrow> False) then Inl (Vela EndpointTooLong) else
      if endpoint = Some [] then Inl (Vela EndpointEmpty) else
      if authority = Some default_key then Inl (Vela InvalidKeeperAuthority) else
     (case load_protocol_config E s (ka_protocol_config c) of Inl e \<Rightarrow> Inl e | Inr pc \<Rightarrow>
      if lpc_admin pc \<noteq> ka_admin c then Inl (Vela UnauthorizedAdmin) else
     (case load_keeper_config E s (ka_keeper_config c) of Inl e \<Rightarrow> Inl e | Inr existing \<Rightarrow>
     (case upgrade_keeper_config E (ka_admin c) (ka_keeper_config c) s of Inl e \<Rightarrow> Inl e | Inr u \<Rightarrow>
      let config = fst u;
          config = (case mode of Some m \<Rightarrow> config\<lparr>kc_mode := m\<rparr> | None \<Rightarrow> config);
          config = (case endpoint of
                      Some ep \<Rightarrow> config\<lparr>kc_endpoint_len := of_nat (length ep),
                                       kc_keeper_endpoint := pad_endpoint ep\<rparr>
                    | None \<Rightarrow> config);
          config = (case authority of Some ka \<Rightarrow> config\<lparr>kc_keeper_authority := ka\<rparr> | None \<Rightarrow> config)
      in (case write_keeper_config E (ka_keeper_config c) config (snd u) of
            Inl e \<Rightarrow> Inl e
          | Inr s2 \<Rightarrow> Inr (s2, [KeeperConfigUpdated (ka_admin c) (kc_mode config)
                                 (kc_keeper_authority config)]))))))"

record token_config_accounts =
  tca_admin :: pubkey
  tca_protocol_config :: pubkey
  tca_mint :: pubkey
  tca_token_config :: pubkey
  tca_system_program :: pubkey

definition init_token_config ::
  "env \<Rightarrow> token_config_accounts \<Rightarrow> billing_rail \<Rightarrow> u8 \<Rightarrow> store \<Rightarrow>
     verror + (store \<times> config_event list)" where
  "init_token_config E c rail decimals s =
     (case require_all
         [(is_signer E (tca_admin c), Anchor AccountNotSigner),
          (tca_protocol_config c = pda E [protocol_config_seed], Anchor ConstraintSeeds),
          (tca_token_config c = pda E [token_config_seed, key_bytes (tca_mint c)], Anchor ConstraintSeeds),
          (tca_system_program c = system_program_id, Anchor InvalidProgramId)] of
        Inl e \<Rightarrow> Inl e | Inr _ \<Rightarrow>
     (case interface_mint E s (tca_mint c) of Inl e \<Rightarrow> Inl e | Inr mint \<Rightarrow>
     (let bump = snd (find_pda E [token_config_seed, key_bytes (tca_mint c)] program_id) in
      case invoke E (InitAccount (tca_admin c) (tca_token_config c)
                       (minimum_balance E token_config_size) token_config_size program_id)
             [[token_config_seed, key_bytes (tca_mint c), [bump]]] s of
        Inl e \<Rightarrow> Inl e | Inr s1 \<Rightarrow>
     (case load_protocol_config E s1 (tca_protocol_config c) of Inl e \<Rightarrow> Inl e | Inr pc \<Rightarrow>
      if lpc_admin pc \<noteq> tca_admin c then Inl (Vela UnauthorizedAdmin) else
      if mint_decimals mint \<noteq> decimals then Inl (Vela TokenConfigDecimalsMismatch) else
      let tc = new_token_config (tca_mint c) (acc_owner (s (tca_mint c))) rail decimals default_key
                 (tca_admin c) (unix_timestamp E) bump
      in (case anchor_exit (tca_token_config c) (disc E KTokenConfig @ enc_token_config tc) s1 of
            Inl e \<Rightarrow> Inl e
          | Inr s2 \<Rightarrow> Inr (s2, [TokenConfigCreated (tk_mint tc) rail decimals (tk_admin tc)]))))))"

definition update_token_config ::
  "env \<Rightarrow> token_config_accounts \<Rightarrow> bool option \<Rightarrow> pubkey option \<Rightarrow> store \<Rightarrow>
     verror + (store \<times> config_event list)" where
  "update_token_config E c enabled oracle s =
     (case anchor_account E KTokenConfig dec_token_config s (tca_token_config c) of
        Inl e \<Rightarrow> Inl e | Inr tc \<Rightarrow>
     (case require_all
         [(is_signer E (tca_admin c), Anchor AccountNotSigner),
          (tca_protocol_config c = pda E [protocol_config_seed], Anchor ConstraintSeeds),
          (create_address E [token_config_seed, key_bytes (tk_mint tc), [tk_bump tc]] program_id =
             Some (tca_token_config c), Anchor ConstraintSeeds)] of
        Inl e \<Rightarrow> Inl e | Inr _ \<Rightarrow>
      if enabled = None \<and> oracle = None then Inl (Vela NoUpdateProvided) else
     (case load_protocol_config E s (tca_protocol_config c) of Inl e \<Rightarrow> Inl e | Inr pc \<Rightarrow>
      if lpc_admin pc \<noteq> tca_admin c then Inl (Vela UnauthorizedAdmin) else
      let tc = (case enabled of Some b \<Rightarrow> tc\<lparr>tk_enabled := b\<rparr> | None \<Rightarrow> tc);
          tc = (case oracle of Some k \<Rightarrow> tc\<lparr>tk_oracle_reference := k\<rparr> | None \<Rightarrow> tc)
      in (case anchor_exit (tca_token_config c) (disc E KTokenConfig @ enc_token_config tc) s of
            Inl e \<Rightarrow> Inl e
          | Inr s1 \<Rightarrow> Inr (s1, [TokenConfigUpdated (tk_mint tc) enabled oracle])))))"

section \<open>Properties of the loaders\<close>

lemma load_protocol_config_written:
  assumes "write_protocol_config E k c s = Inr s'" "pc_version c = CURRENT_ACCOUNT_VERSION"
    "acc_owner (s k) = program_id" "k = pda E [protocol_config_seed]"
  shows "load_protocol_config E s' k = Inr (CurrentProtocolConfig c)"
  using assms
  by (auto simp: write_protocol_config_def load_protocol_config_def ok_simps Let_def
      protocol_config_codec.try_deserialize_enc valid_protocol_config_def)

lemma load_keeper_config_written:
  assumes "write_keeper_config E k c s = Inr s'" "kc_version c = CURRENT_ACCOUNT_VERSION"
    "valid_keeper_config c" "acc_owner (s k) = program_id" "k = pda E [keeper_config_seed]"
  shows "load_keeper_config E s' k = Inr (CurrentKeeperConfig c)"
  using assms
  by (auto simp: write_keeper_config_def load_keeper_config_def ok_simps Let_def
      keeper_config_codec.try_deserialize_enc)

lemma load_protocol_config_owner:
  "load_protocol_config E s k = Inr l \<Longrightarrow> acc_owner (s k) = program_id \<and> k = pda E [protocol_config_seed]"
  by (auto simp: load_protocol_config_def split: if_splits)

section \<open>A concrete configuration\<close>

lemma sample_addresses [simp]:
  "sample_address (protocol_config_seed # r) = 25350"
  "sample_address (keeper_config_seed # r) = 27405"
  "sample_address (token_config_seed # r) = 29708"
  by (simp_all add: sample_address_def protocol_config_seed_def keeper_config_seed_def
      token_config_seed_def bytes_def)

definition sample_protocol_config :: protocol_config where
  "sample_protocol_config =
     (new_protocol_config 90 91 Cerberus 456 default_key 255)
       \<lparr>pc_wrapped_usdc_mint := 3, pc_wrapping_vault := 33\<rparr>"

definition sample_keeper_config :: keeper_config where
  "sample_keeper_config = new_keeper_config 90 Centralized [1] 92 255"

definition sample_token_config :: token_config where
  "sample_token_config = new_token_config 3 22 TransferHook 6 default_key 90 (i64_of 0) 255"

definition sample_config_accounts :: "(pubkey \<times> account) list" where
  "sample_config_accounts =
     [(3, owned_by 22 []),
      (25350, owned_by program_id (sample_disc KProtocolConfig @ enc_protocol_config sample_protocol_config)),
      (27405, owned_by program_id (sample_disc KKeeperConfig @ enc_keeper_config sample_keeper_config)),
      (29708, owned_by program_id (sample_disc KTokenConfig @ enc_token_config sample_token_config))]"

lemma sample_config_valid:
  "valid_protocol_config sample_protocol_config" "valid_keeper_config sample_keeper_config"
  "valid_token_config sample_token_config"
  by (simp_all add: valid_protocol_config_def valid_keeper_config_def valid_token_config_def
      sample_keeper_config_def sample_token_config_def new_keeper_config_def new_token_config_def
      pad_endpoint_def ACCOUNT_RESERVED_BYTES_def)

lemma sample_protocol_config_loads:
  "s 25350 = owned_by program_id (sample_disc KProtocolConfig @ enc_protocol_config sample_protocol_config) \<Longrightarrow>
     load_protocol_config (sample_env now sg) s 25350 = Inr (CurrentProtocolConfig sample_protocol_config)"
  using protocol_config_codec.try_deserialize_enc
    [of sample_protocol_config "sample_env now sg" KProtocolConfig "[]"] sample_config_valid(1)
  by (simp add: load_protocol_config_def Let_def sample_protocol_config_def new_protocol_config_def)

lemma sample_keeper_config_loads:
  "s 27405 = owned_by program_id (sample_disc KKeeperConfig @ enc_keeper_config sample_keeper_config) \<Longrightarrow>
     load_keeper_config (sample_env now sg) s 27405 = Inr (CurrentKeeperConfig sample_keeper_config)"
  using keeper_config_codec.try_deserialize_enc
    [of sample_keeper_config "sample_env now sg" KKeeperConfig "[]"] sample_config_valid(2)
  by (simp add: load_keeper_config_def Let_def sample_keeper_config_def new_keeper_config_def)

lemma sample_token_config_loads:
  "try_deserialize (sample_env now sg) KTokenConfig dec_token_config
     (sample_disc KTokenConfig @ enc_token_config sample_token_config) = Some sample_token_config"
  using token_config_codec.try_deserialize_enc
    [of sample_token_config "sample_env now sg" KTokenConfig "[]"] sample_config_valid(3)
  by simp

end
