(* ===== verification/Merchant.thy ===== *)
theory Merchant
  imports Config
begin

text \<open>
  The merchant's account (\<open>state/merchant.rs\<close>) and its loading, creation, growth and
  writing (\<open>instructions/accounts/merchant_account.rs\<close>), with the resolver of the
  credential mint.
\<close>

record merchant_state =
  ms_merchant :: "pubkey"
  ms_plan_count :: "u64"
  ms_bump :: "u8"
  ms_credential_mint :: "pubkey"
  ms_mandate_counter :: "u64"
  ms_stream_mandate_counter :: "u64"
  ms_version :: "u8"
  ms_reserved :: "u8 list"

definition valid_merchant_state :: "merchant_state \<Rightarrow> bool" where
  "valid_merchant_state m \<longleftrightarrow> length (ms_reserved m) = 56"

definition enc_merchant_state :: "merchant_state \<Rightarrow> u8 list" where
  "enc_merchant_state m =
     key_bytes (ms_merchant m) @
     u64_le (ms_plan_count m) @
     [ms_bump m] @
     key_bytes (ms_credential_mint m) @
     u64_le (ms_mandate_counter m) @
     u64_le (ms_stream_mandate_counter m) @
     [ms_version m] @
     ms_reserved m"

definition dec_merchant_state :: "merchant_state decoder" where
  "dec_merchant_state bs = do {
     (x_merchant, bs) \<leftarrow> dec_key bs;
     (x_plan_count, bs) \<leftarrow> dec_u64 bs;
     (x_bump, bs) \<leftarrow> dec_u8 bs;
     (x_credential_mint, bs) \<leftarrow> dec_key bs;
     (x_mandate_counter, bs) \<leftarrow> dec_u64 bs;
     (x_stream_mandate_counter, bs) \<leftarrow> dec_u64 bs;
     (x_version, bs) \<leftarrow> dec_u8 bs;
     (x_reserved, bs) \<leftarrow> dec_bytes 56 bs;
     Some (\<lparr>ms_merchant = x_merchant,
       ms_plan_count = x_plan_count,
       ms_bump = x_bump,
       ms_credential_mint = x_credential_mint,
       ms_mandate_counter = x_mandate_counter,
       ms_stream_mandate_counter = x_stream_mandate_counter,
       ms_version = x_version,
       ms_reserved = x_reserved\<rparr>, bs)
   }"

interpretation merchant_state_codec: fixed_borsh enc_merchant_state dec_merchant_state valid_merchant_state 146
proof unfold_locales
  show "valid_merchant_state x \<Longrightarrow> dec_merchant_state (enc_merchant_state x @ r) = Some (x, r)" for x r
    by (simp add: enc_merchant_state_def dec_merchant_state_def valid_merchant_state_def)
  show "dec_merchant_state bs = Some (x, r) \<Longrightarrow> valid_merchant_state x" for bs x r
    unfolding dec_merchant_state_def by (elim bind_SomeE) (auto simp: valid_merchant_state_def)
  show "valid_merchant_state x \<Longrightarrow> length (enc_merchant_state x) = 146" for x
    by (simp add: enc_merchant_state_def valid_merchant_state_def)
qed

record merchant_state_v1 =
  msl_merchant :: "pubkey"
  msl_plan_count :: "u64"
  msl_bump :: "u8"

definition valid_merchant_state_v1 :: "merchant_state_v1 \<Rightarrow> bool" where
  "valid_merchant_state_v1 m \<longleftrightarrow> True"

definition enc_merchant_state_v1 :: "merchant_state_v1 \<Rightarrow> u8 list" where
  "enc_merchant_state_v1 m =
     key_bytes (msl_merchant m) @
     u64_le (msl_plan_count m) @
     [msl_bump m]"

definition dec_merchant_state_v1 :: "merchant_state_v1 decoder" where
  "dec_merchant_state_v1 bs = do {
     (x_merchant, bs) \<leftarrow> dec_key bs;
     (x_plan_count, bs) \<leftarrow> dec_u64 bs;
     (x_bump, bs) \<leftarrow> dec_u8 bs;
     Some (\<lparr>msl_merchant = x_merchant,
       msl_plan_count = x_plan_count,
       msl_bump = x_bump\<rparr>, bs)
   }"

interpretation merchant_state_v1_codec: fixed_borsh enc_merchant_state_v1 dec_merchant_state_v1 valid_merchant_state_v1 41
proof unfold_locales
  show "valid_merchant_state_v1 x \<Longrightarrow> dec_merchant_state_v1 (enc_merchant_state_v1 x @ r) = Some (x, r)" for x r
    by (simp add: enc_merchant_state_v1_def dec_merchant_state_v1_def valid_merchant_state_v1_def)
  show "dec_merchant_state_v1 bs = Some (x, r) \<Longrightarrow> valid_merchant_state_v1 x" for bs x r
    by (simp add: valid_merchant_state_v1_def)
  show "valid_merchant_state_v1 x \<Longrightarrow> length (enc_merchant_state_v1 x) = 41" for x
    by (simp add: enc_merchant_state_v1_def valid_merchant_state_v1_def)
qed

definition merchant_state_size :: nat where
  "merchant_state_size = 8 + 32 + 8 + 1 + 32 + 8 + 8 + 1 + (ACCOUNT_RESERVED_BYTES - 8)"

definition merchant_seed :: "u8 list" where
  "merchant_seed = bytes ''merchant''"

definition new_merchant_state :: "pubkey \<Rightarrow> u8 \<Rightarrow> u64 \<Rightarrow> merchant_state" where
  "new_merchant_state merchant bump plan_count =
     \<lparr>ms_merchant = merchant, ms_plan_count = plan_count, ms_bump = bump,
      ms_credential_mint = default_key, ms_mandate_counter = 0, ms_stream_mandate_counter = 0,
      ms_version = CURRENT_ACCOUNT_VERSION, ms_reserved = replicate (ACCOUNT_RESERVED_BYTES - 8) 0\<rparr>"

datatype loaded_merchant_state =
    LegacyMerchantState merchant_state_v1
  | CurrentMerchantState merchant_state

fun lms_into_current :: "loaded_merchant_state \<Rightarrow> merchant_state" where
  "lms_into_current (LegacyMerchantState c) =
     \<lparr>ms_merchant = msl_merchant c, ms_plan_count = msl_plan_count c, ms_bump = msl_bump c,
      ms_credential_mint = default_key, ms_mandate_counter = 0, ms_stream_mandate_counter = 0,
      ms_version = CURRENT_ACCOUNT_VERSION, ms_reserved = replicate (ACCOUNT_RESERVED_BYTES - 8) 0\<rparr>"
| "lms_into_current (CurrentMerchantState c) = c"

definition validate_merchant_state_address :: "env \<Rightarrow> pubkey \<Rightarrow> pubkey \<Rightarrow> verror + unit" where
  "validate_merchant_state_address E merchant_state merchant =
     (if merchant_state \<noteq> pda E [merchant_seed, key_bytes merchant]
      then Inl (Program InvalidSeeds) else Inr ())"

definition load_merchant_state :: "env \<Rightarrow> store \<Rightarrow> pubkey \<Rightarrow> pubkey \<Rightarrow> verror + loaded_merchant_state" where
  "load_merchant_state E s k merchant =
     (case validate_merchant_state_address E k merchant of Inl e \<Rightarrow> Inl e | Inr _ \<Rightarrow>
      if acc_owner (s k) \<noteq> program_id then Inl (Program IncorrectProgramId) else
      let data = acc_data (s k); d = disc E KMerchantState in
      if length data < length d \<or> \<not> starts_with data d then Inl (Program InvalidAccountData) else
      case try_deserialize E KMerchantState dec_merchant_state data of
        Some c \<Rightarrow> Inr (CurrentMerchantState c)
      | None \<Rightarrow>
          (case dec_merchant_state_v1 (drop (length d) data) of
             None \<Rightarrow> Inl (Program InvalidAccountData)
           | Some (c, rest) \<Rightarrow> Inr (LegacyMerchantState c)))"

text \<open>\<open>write_merchant_state\<close> does not clear the data first.\<close>

definition write_merchant_state :: "env \<Rightarrow> pubkey \<Rightarrow> merchant_state \<Rightarrow> store \<Rightarrow> verror + store" where
  "write_merchant_state E k c s = anchor_exit k (disc E KMerchantState @ enc_merchant_state c) s"

definition create_merchant_state_account ::
  "env \<Rightarrow> pubkey \<Rightarrow> pubkey \<Rightarrow> pubkey \<Rightarrow> u8 \<Rightarrow> store \<Rightarrow> verror + store" where
  "create_merchant_state_account E payer k merchant bump s =
     invoke E (CreateAccount payer k (minimum_balance E merchant_state_size) merchant_state_size
                 program_id)
       [[merchant_seed, key_bytes merchant, [bump]]] s"

definition resize_merchant_state_account :: "env \<Rightarrow> pubkey \<Rightarrow> pubkey \<Rightarrow> store \<Rightarrow> verror + store" where
  "resize_merchant_state_account E payer k s =
     (if acc_owner (s k) \<noteq> program_id then Inl (Program IncorrectProgramId)
      else resize_account E merchant_state_size payer k s)"

definition ensure_merchant_state ::
  "env \<Rightarrow> pubkey \<Rightarrow> pubkey \<Rightarrow> pubkey \<Rightarrow> u8 \<Rightarrow> store \<Rightarrow> verror + (merchant_state \<times> store)" where
  "ensure_merchant_state E payer k merchant bump s =
     (case validate_merchant_state_address E k merchant of Inl e \<Rightarrow> Inl e | Inr _ \<Rightarrow>
      if data_is_empty (s k) then
       (case create_merchant_state_account E payer k merchant bump s of Inl e \<Rightarrow> Inl e | Inr s1 \<Rightarrow>
        let state = new_merchant_state merchant bump 0 in
        (case write_merchant_state E k state s1 of Inl e \<Rightarrow> Inl e | Inr s2 \<Rightarrow> Inr (state, s2)))
      else
     (case load_merchant_state E s k merchant of Inl e \<Rightarrow> Inl e | Inr l \<Rightarrow>
      let state = lms_into_current l in
      if ms_merchant state \<noteq> default_key \<and> ms_merchant state \<noteq> merchant
      then Inl (Program InvalidAccountData) else
      (case resize_merchant_state_account E payer k s of Inl e \<Rightarrow> Inl e | Inr s1 \<Rightarrow>
       let state = state\<lparr>ms_merchant := merchant, ms_bump := bump,
                     ms_version := CURRENT_ACCOUNT_VERSION,
                     ms_reserved := replicate (ACCOUNT_RESERVED_BYTES - 8) 0\<rparr> in
       (case write_merchant_state E k state s1 of Inl e \<Rightarrow> Inl e | Inr s2 \<Rightarrow> Inr (state, s2)))))"

definition resolve_merchant_credential_mint ::
  "env \<Rightarrow> store \<Rightarrow> pubkey \<Rightarrow> pubkey \<Rightarrow> pubkey \<Rightarrow> verror + pubkey" where
  "resolve_merchant_credential_mint E s k merchant plan_credential_mint =
     (if data_is_empty (s k) \<or> acc_owner (s k) \<noteq> program_id then Inr plan_credential_mint
      else case load_merchant_state E s k merchant of
        Inr l \<Rightarrow>
          let state = lms_into_current l
          in Inr (if ms_credential_mint state \<noteq> default_key then ms_credential_mint state
                  else plan_credential_mint)
      | Inl _ \<Rightarrow> Inr plan_credential_mint)"

text \<open>
  A merchant account grown from the legacy layout keeps its plan count, and its counters
  start at zero.
\<close>

lemma resolve_merchant_credential_mint_total:
  "\<exists>mint. resolve_merchant_credential_mint E s k merchant p = Inr mint"
  by (auto simp: resolve_merchant_credential_mint_def Let_def split: sum.splits)

lemma ensure_merchant_state_merchant:
  "ensure_merchant_state E payer k merchant bump s = Inr (m, s') \<Longrightarrow>
     ms_merchant m = merchant \<and> ms_bump m = bump \<and> ms_version m = CURRENT_ACCOUNT_VERSION"
  by (auto simp: ensure_merchant_state_def Let_def ok_simps new_merchant_state_def split: if_splits)

end
