(* ===== verification/Token_Transfer.thy ===== *)
theory Token_Transfer
  imports Config
begin

text \<open>
  The wrapped-token transfer all payment handlers use
  (\<open>instructions/token/spl_helpers.rs\<close>) and its streaming front end
  (\<open>instructions/streaming/transfer.rs\<close>): the checks on the token accounts, the accounts
  handed to the transfer hook, and the call itself.
\<close>

text \<open>The address that owns the vault and mints the wrapped token.\<close>

definition mint_authority_seed :: "u8 list" where
  "mint_authority_seed = bytes ''mint-authority''"

record transfer_accounts =
  tr_source :: pubkey
  tr_mint :: pubkey
  tr_destination :: pubkey
  tr_authority :: pubkey
  tr_protocol_program :: pubkey
  tr_wrapping_vault :: pubkey
  tr_protocol_config :: pubkey
  tr_pull_approval :: pubkey
  tr_token_config :: pubkey
  tr_system_program :: pubkey
  tr_extra_account_meta_list :: pubkey
  tr_hook_program :: pubkey
  tr_token_2022_program :: pubkey

definition transfer_hook_account_metas :: "transfer_accounts \<Rightarrow> (pubkey \<times> bool) list" where
  "transfer_hook_account_metas a =
     [(tr_protocol_program a, False), (tr_wrapping_vault a, False), (tr_protocol_config a, False),
      (tr_pull_approval a, True), (tr_token_config a, False), (tr_system_program a, False),
      (tr_system_program a, False), (tr_system_program a, False),
      (tr_extra_account_meta_list a, False), (tr_hook_program a, False)]"

definition validate_token_2022_transfer_accounts ::
  "env \<Rightarrow> store \<Rightarrow> pubkey \<Rightarrow> pubkey \<Rightarrow> pubkey \<Rightarrow> pubkey \<Rightarrow> pubkey \<Rightarrow> pubkey \<Rightarrow> verror + unit" where
  "validate_token_2022_transfer_accounts E s source destination mint token_2022_program
       expected_source_authority expected_destination_owner =
     (if acc_owner (s source) \<noteq> token_2022_program then Inl (Vela TransferNotAuthorized) else
      if acc_owner (s destination) \<noteq> token_2022_program then Inl (Vela TransferNotAuthorized) else
      case unpack_token E (acc_data (s source)) of None \<Rightarrow> Inl (Vela TransferNotAuthorized)
      | Some source_account \<Rightarrow>
     (case unpack_token E (acc_data (s destination)) of None \<Rightarrow> Inl (Vela TransferNotAuthorized)
      | Some destination_account \<Rightarrow> require_all
          [(ta_mint source_account = mint, Vela UsdcMintMismatch),
           (ta_mint destination_account = mint, Vela UsdcMintMismatch),
           (ta_owner source_account = expected_source_authority, Vela TransferNotAuthorized),
           (ta_owner destination_account = expected_destination_owner, Vela TransferNotAuthorized)]))"

text \<open>
  \<open>transfer_checked\<close> of the token library refuses a program that is not a token program,
  which the code reports as invalid instruction data.
\<close>

definition invoke_transfer_checked_with_hook ::
  "env \<Rightarrow> transfer_accounts \<Rightarrow> u64 \<Rightarrow> u8 \<Rightarrow> u8 list list list \<Rightarrow> store \<Rightarrow> verror + store" where
  "invoke_transfer_checked_with_hook E a amount decimals signer_seed_groups s =
     (if \<not> is_token_program E (tr_token_2022_program a) then Inl (Program InvalidInstructionData)
      else invoke E (TransferChecked (tr_token_2022_program a) (tr_source a) (tr_mint a)
                       (tr_destination a) (tr_authority a) amount decimals
                       (transfer_hook_account_metas a))
             signer_seed_groups s)"

section \<open>Streaming transfers\<close>

definition validate_stream_transfer_accounts ::
  "env \<Rightarrow> store \<Rightarrow> pubkey \<Rightarrow> pubkey \<Rightarrow> pubkey \<Rightarrow> verror + unit" where
  "validate_stream_transfer_accounts E s protocol_config hook_program wrapping_vault =
     (case load_protocol_config E s protocol_config of Inl e \<Rightarrow> Inl e | Inr pc \<Rightarrow>
      require_all
        [(\<not> lpc_paused pc, Vela ProtocolPaused),
         (lpc_transfer_hook_program_id pc \<noteq> default_key, Vela InvalidProtocolConfig),
         (hook_program = lpc_transfer_hook_program_id pc, Vela InvalidProtocolConfig),
         (wrapping_vault = lpc_wrapping_vault pc, Vela VaultMismatch)])"

definition invoke_stream_transfer ::
  "env \<Rightarrow> transfer_accounts \<Rightarrow> pubkey \<Rightarrow> pubkey \<Rightarrow> u64 \<Rightarrow> u8 list list list \<Rightarrow> store \<Rightarrow> verror + store" where
  "invoke_stream_transfer E a expected_source_authority expected_destination_owner amount
       signer_seed_groups s =
     (case validate_token_2022_transfer_accounts E s (tr_source a) (tr_destination a) (tr_mint a)
             (tr_token_2022_program a) expected_source_authority expected_destination_owner of
        Inl e \<Rightarrow> Inl e | Inr _ \<Rightarrow>
     (case try_deserialize E KTokenConfig dec_token_config (acc_data (s (tr_token_config a))) of
        None \<Rightarrow> Inl (Vela TokenNotRegistered)
      | Some tc \<Rightarrow>
          invoke_transfer_checked_with_hook E a amount (tk_decimals tc) signer_seed_groups s))"

text \<open>A transfer that returns made exactly one call, of the requested amount.\<close>

lemma invoke_transfer_checked_Inr [ok_simps]:
  "invoke_transfer_checked_with_hook E a amount d seeds s = Inr s' \<longleftrightarrow>
     is_token_program E (tr_token_2022_program a) \<and>
     invoke E (TransferChecked (tr_token_2022_program a) (tr_source a) (tr_mint a)
       (tr_destination a) (tr_authority a) amount d (transfer_hook_account_metas a)) seeds s = Inr s'"
  by (simp add: invoke_transfer_checked_with_hook_def)

lemma invoke_stream_transfer_call:
  assumes "invoke_stream_transfer E a src dst amount seeds s = Inr s'"
  obtains d where
    "invoke E (TransferChecked (tr_token_2022_program a) (tr_source a) (tr_mint a)
       (tr_destination a) (tr_authority a) amount d (transfer_hook_account_metas a)) seeds s = Inr s'"
  using assms by (auto simp: invoke_stream_transfer_def ok_simps)

lemma validate_token_2022_transfer_accounts_Inr:
  assumes "validate_token_2022_transfer_accounts E s source destination mint p src dst = Inr u"
  obtains a b where "unpack_token E (acc_data (s source)) = Some a" "ta_mint a = mint"
    "ta_owner a = src" "unpack_token E (acc_data (s destination)) = Some b" "ta_mint b = mint"
    "ta_owner b = dst"
  using assms by (auto simp: validate_token_2022_transfer_accounts_def ok_simps)

lemma invoke_stream_transfer_checked:
  assumes "invoke_stream_transfer E a src dst amount seeds s = Inr s'"
  obtains x y where "unpack_token E (acc_data (s (tr_source a))) = Some x" "ta_mint x = tr_mint a"
    "ta_owner x = src" "unpack_token E (acc_data (s (tr_destination a))) = Some y"
    "ta_mint y = tr_mint a" "ta_owner y = dst"
  using assms
  by (auto simp: invoke_stream_transfer_def case_sum_Inr
      elim!: validate_token_2022_transfer_accounts_Inr)

end
