(* ===== verification/Machine.thy ===== *)
theory Machine
  imports Vela_Prelude
begin

text \<open>
  Sequences of instructions. A transaction that fails changes nothing, so a run over a
  list of instructions keeps the state where a step returns an error. The locales state
  what a component has to show of one step, and give what then holds of every run.
\<close>

fun run :: "('op \<Rightarrow> 's \<Rightarrow> 'e + 's) \<Rightarrow> 'op list \<Rightarrow> 's \<Rightarrow> 's" where
  "run step [] s = s"
| "run step (x # xs) s = (case step x s of Inl e \<Rightarrow> run step xs s | Inr s' \<Rightarrow> run step xs s')"

lemma run_append: "run step (xs @ ys) s = run step ys (run step xs s)"
  by (induction xs arbitrary: s) (auto split: sum.splits)

locale machine =
  fixes step :: "'op \<Rightarrow> 's \<Rightarrow> 'e + 's"
    and inv :: "'s \<Rightarrow> bool"
  assumes step_inv: "inv s \<Longrightarrow> step x s = Inr s' \<Longrightarrow> inv s'"
begin

lemma run_inv: "inv s \<Longrightarrow> inv (run step xs s)"
  by (induction xs arbitrary: s) (auto split: sum.splits dest: step_inv)

end

text \<open>A machine whose states only move up in a preorder.\<close>

locale monotone_machine = machine +
  fixes le :: "'s \<Rightarrow> 's \<Rightarrow> bool"
  assumes le_refl: "le s s"
    and le_trans: "le s t \<Longrightarrow> le t u \<Longrightarrow> le s u"
    and step_le: "inv s \<Longrightarrow> step x s = Inr s' \<Longrightarrow> le s s'"
begin

lemma run_le: "inv s \<Longrightarrow> le s (run step xs s)"
proof (induction xs arbitrary: s)
  case Nil
  then show ?case by (simp add: le_refl)
next
  case (Cons x xs)
  show ?case
  proof (cases "step x s")
    case (Inl e)
    with Cons show ?thesis by simp
  next
    case (Inr s')
    with Cons.prems have "le s s'" "inv s'" by (auto intro: step_le step_inv)
    with Cons.IH Inr show ?thesis by (auto intro: le_trans)
  qed
qed

lemma run_between: "inv s \<Longrightarrow> le (run step xs s) (run step (xs @ ys) s)"
  by (simp add: run_append run_le run_inv)

end

text \<open>
  A machine with a final condition: once it holds, no step changes the state.
\<close>

locale final_machine = machine +
  fixes final :: "'s \<Rightarrow> bool"
  assumes final_step: "inv s \<Longrightarrow> final s \<Longrightarrow> step x s = Inr s' \<Longrightarrow> s' = s"
begin

lemma run_final: "inv s \<Longrightarrow> final s \<Longrightarrow> run step xs s = s"
  by (induction xs) (auto split: sum.splits dest: final_step)

end

text \<open>
  A machine that keeps a condition under the calls in good standing, whatever the others do to
  the rest of the state.
\<close>

locale guarded_machine =
  fixes step :: "'op \<Rightarrow> 's \<Rightarrow> 'e + 's"
    and good :: "'op \<Rightarrow> bool"
    and kept :: "'s \<Rightarrow> bool"
  assumes step_keeps: "good x \<Longrightarrow> kept s \<Longrightarrow> step x s = Inr s' \<Longrightarrow> kept s'"
begin

lemma run_keeps: "list_all good xs \<Longrightarrow> kept s \<Longrightarrow> kept (run step xs s)"
  by (induction xs arbitrary: s) (auto split: sum.splits dest: step_keeps)

end

text \<open>
  Simulation: a concrete step in good standing (\<open>good\<close> states what the environment of the
  call provides) either leaves what is seen of the state alone or is a step of the
  abstract machine. Invariants of the abstract machine then hold of every concrete run.
\<close>

locale simulation = abstract: machine step inv
  for step :: "'op \<Rightarrow> 's \<Rightarrow> 'e + 's" and inv :: "'s \<Rightarrow> bool" +
  fixes cstep :: "'cop \<Rightarrow> 'c \<Rightarrow> 'f + 'c"
    and good :: "'cop \<Rightarrow> bool"
    and view :: "'c \<Rightarrow> 's option"
  assumes simulates: "good x \<Longrightarrow> cstep x c = Inr c' \<Longrightarrow> view c = Some s \<Longrightarrow>
    view c' = Some s \<or> (\<exists>y s'. step y s = Inr s' \<and> view c' = Some s')"
begin

lemma run_simulated:
  "list_all good xs \<Longrightarrow> view c = Some s \<Longrightarrow> \<exists>ys. view (run cstep xs c) = Some (run step ys s)"
proof (induction xs arbitrary: c s)
  case Nil
  have "view (run cstep [] c) = Some (run step [] s)" using Nil by simp
  then show ?case by blast
next
  case (Cons x xs)
  have good: "good x" "list_all good xs" using Cons.prems(1) by simp_all
  show ?case
  proof (cases "cstep x c")
    case (Inl e)
    with Cons.IH [OF good(2) Cons.prems(2)] show ?thesis by simp
  next
    case (Inr c')
    from simulates [OF good(1) this Cons.prems(2)] show ?thesis
    proof (elim disjE exE conjE)
      assume "view c' = Some s"
      from Cons.IH [OF good(2) this] show ?thesis by (simp add: Inr)
    next
      fix y s' assume step: "step y s = Inr s'" and "view c' = Some s'"
      from Cons.IH [OF good(2) this(2)] obtain ys
        where "view (run cstep xs c') = Some (run step ys s')" by blast
      then have "view (run cstep (x # xs) c) = Some (run step (y # ys) s)"
        by (simp add: Inr step)
      then show ?thesis by blast
    qed
  qed
qed

lemma run_view_inv:
  "list_all good xs \<Longrightarrow> view c = Some s \<Longrightarrow> inv s \<Longrightarrow> \<exists>s'. view (run cstep xs c) = Some s' \<and> inv s'"
  using run_simulated abstract.run_inv by blast

end

end
