(* ===== verification/Events.thy ===== *)
theory Events
  imports Runtime
begin

text \<open>
  The events of \<open>state/billing_event.rs\<close>: the stream events and the plan-upgrade events,
  with their fields in the order of the structs, and the token symbol they carry
  (\<open>constants.rs\<close>). Every one starts with its schema version, which is 1.
\<close>

datatype vela_event =
    StreamCreated u8 pubkey pubkey pubkey pubkey string u64 u64 "u64 option" u32 i64
  | StreamSettled u8 pubkey pubkey string u64 u64 i64 i64
  | StreamPaused u8 pubkey pubkey string i64 pubkey u64 i64
  | StreamResumed u8 pubkey pubkey string i64 u64 pubkey i64
  | StreamRateUpdated u8 pubkey pubkey string u64 u64 u64 u64 pubkey u64 i64
  | StreamCancelled u8 pubkey pubkey string i64 pubkey u64 u64 i64
  | MandateUpgradeInitiated u8 pubkey pubkey string pubkey pubkey i64 u8 pubkey i64 i64
  | MandateUpgradeFinalized u8 pubkey pubkey string pubkey pubkey i64 u8 i64 i64
  | MandateUpgradeCancelled u8 pubkey pubkey string pubkey pubkey i64 u8 pubkey i64 i64
  | MandateCreditAdded u8 pubkey pubkey string pubkey pubkey u64 u64 i64 i64

definition WRAPPED_USDC_SYMBOL :: string where
  "WRAPPED_USDC_SYMBOL = ''sUSDC''"

definition event_token_symbol :: "pubkey \<Rightarrow> pubkey \<Rightarrow> string" where
  "event_token_symbol mint wrapped_usdc_mint =
     (if mint = wrapped_usdc_mint then WRAPPED_USDC_SYMBOL else [])"

definition extra_account_metas_seed :: "u8 list" where
  "extra_account_metas_seed = bytes ''extra-account-metas''"

definition pull_approval_seed :: "u8 list" where
  "pull_approval_seed = bytes ''approval''"

lemma sample_event_addresses [simp]:
  "sample_address (extra_account_metas_seed # r) = 25875"
  "sample_address (pull_approval_seed # r) = 24840"
  by (simp_all add: sample_address_def extra_account_metas_seed_def pull_approval_seed_def bytes_def)

end
