(* ===== verification/Streams.thy ===== *)
theory Streams
  imports Merchant Token_Transfer Machine Events
begin

text \<open>
  Streaming payments: the stream mandate (\<open>state/stream_mandate.rs\<close>), its loader and
  writer and the settlement (\<open>instructions/accounts/stream_account.rs\<close>), the handlers
  under \<open>instructions/streaming/\<close>, a transition system on the mandate alone that the
  handlers refine, and the invariants of its runs.
\<close>

section \<open>The mandate\<close>

datatype stream_status = StreamActive | StreamPausedStatus | StreamCancelledStatus

fun enc_stream_status :: "stream_status \<Rightarrow> u8 list" where
  "enc_stream_status StreamActive = [0]"
| "enc_stream_status StreamPausedStatus = [1]"
| "enc_stream_status StreamCancelledStatus = [2]"

fun dec_stream_status :: "stream_status decoder" where
  "dec_stream_status [] = None"
| "dec_stream_status (b # bs) =
     (if b = 0 then Some (StreamActive, bs) else if b = 1 then Some (StreamPausedStatus, bs) else if b = 2 then Some (StreamCancelledStatus, bs) else None)"

lemma dec_enc_stream_status [simp]: "dec_stream_status (enc_stream_status x @ r) = Some (x, r)"
  by (cases x) simp_all

lemma length_enc_stream_status [simp]: "length (enc_stream_status x) = 1"
  by (cases x) simp_all

record stream_mandate =
  st_version :: "u8"
  st_subscriber :: "pubkey"
  st_merchant :: "pubkey"
  st_mint :: "pubkey"
  st_rate_per_second :: "u64"
  st_authorized_max_rate :: "u64"
  st_last_settled_ts :: "i64"
  st_total_streamed :: "u64"
  st_max_streamed :: "u64 option"
  st_paused_at :: "i64 option"
  st_min_settle_interval :: "u32"
  st_status :: "stream_status"
  st_mandate_index :: "u64"
  st_bump :: "u8"
  st_pending_new_rate_per_second :: "u64"
  st_pending_new_authorized_max_rate :: "u64"
  st_pending_effective_at :: "i64"
  st_pending_change_type :: "u8"
  st_pending_nonce_short :: "u8 list"
  st_reserved_v2 :: "u8 list"

definition valid_stream_mandate :: "stream_mandate \<Rightarrow> bool" where
  "valid_stream_mandate m \<longleftrightarrow> length (st_pending_nonce_short m) = 8 \<and>
     length (st_reserved_v2 m) = 23"

definition enc_stream_mandate :: "stream_mandate \<Rightarrow> u8 list" where
  "enc_stream_mandate m =
     [st_version m] @
     key_bytes (st_subscriber m) @
     key_bytes (st_merchant m) @
     key_bytes (st_mint m) @
     u64_le (st_rate_per_second m) @
     u64_le (st_authorized_max_rate m) @
     i64_le (st_last_settled_ts m) @
     u64_le (st_total_streamed m) @
     enc_option u64_le (st_max_streamed m) @
     enc_option i64_le (st_paused_at m) @
     le_bytes 4 (st_min_settle_interval m) @
     enc_stream_status (st_status m) @
     u64_le (st_mandate_index m) @
     [st_bump m] @
     u64_le (st_pending_new_rate_per_second m) @
     u64_le (st_pending_new_authorized_max_rate m) @
     i64_le (st_pending_effective_at m) @
     [st_pending_change_type m] @
     st_pending_nonce_short m @
     st_reserved_v2 m"

definition dec_stream_mandate :: "stream_mandate decoder" where
  "dec_stream_mandate bs = do {
     (x_version, bs) \<leftarrow> dec_u8 bs;
     (x_subscriber, bs) \<leftarrow> dec_key bs;
     (x_merchant, bs) \<leftarrow> dec_key bs;
     (x_mint, bs) \<leftarrow> dec_key bs;
     (x_rate_per_second, bs) \<leftarrow> dec_u64 bs;
     (x_authorized_max_rate, bs) \<leftarrow> dec_u64 bs;
     (x_last_settled_ts, bs) \<leftarrow> dec_i64 bs;
     (x_total_streamed, bs) \<leftarrow> dec_u64 bs;
     (x_max_streamed, bs) \<leftarrow> dec_option dec_u64 bs;
     (x_paused_at, bs) \<leftarrow> dec_option dec_i64 bs;
     (x_min_settle_interval, bs) \<leftarrow> dec_u32 bs;
     (x_status, bs) \<leftarrow> dec_stream_status bs;
     (x_mandate_index, bs) \<leftarrow> dec_u64 bs;
     (x_bump, bs) \<leftarrow> dec_u8 bs;
     (x_pending_new_rate_per_second, bs) \<leftarrow> dec_u64 bs;
     (x_pending_new_authorized_max_rate, bs) \<leftarrow> dec_u64 bs;
     (x_pending_effective_at, bs) \<leftarrow> dec_i64 bs;
     (x_pending_change_type, bs) \<leftarrow> dec_u8 bs;
     (x_pending_nonce_short, bs) \<leftarrow> dec_bytes 8 bs;
     (x_reserved_v2, bs) \<leftarrow> dec_bytes 23 bs;
     Some (\<lparr>st_version = x_version,
       st_subscriber = x_subscriber,
       st_merchant = x_merchant,
       st_mint = x_mint,
       st_rate_per_second = x_rate_per_second,
       st_authorized_max_rate = x_authorized_max_rate,
       st_last_settled_ts = x_last_settled_ts,
       st_total_streamed = x_total_streamed,
       st_max_streamed = x_max_streamed,
       st_paused_at = x_paused_at,
       st_min_settle_interval = x_min_settle_interval,
       st_status = x_status,
       st_mandate_index = x_mandate_index,
       st_bump = x_bump,
       st_pending_new_rate_per_second = x_pending_new_rate_per_second,
       st_pending_new_authorized_max_rate = x_pending_new_authorized_max_rate,
       st_pending_effective_at = x_pending_effective_at,
       st_pending_change_type = x_pending_change_type,
       st_pending_nonce_short = x_pending_nonce_short,
       st_reserved_v2 = x_reserved_v2\<rparr>, bs)
   }"

interpretation stream_mandate_codec: borsh enc_stream_mandate dec_stream_mandate valid_stream_mandate
proof unfold_locales
  show "valid_stream_mandate x \<Longrightarrow> dec_stream_mandate (enc_stream_mandate x @ r) = Some (x, r)" for x r
    by (simp add: enc_stream_mandate_def dec_stream_mandate_def valid_stream_mandate_def)
  show "dec_stream_mandate bs = Some (x, r) \<Longrightarrow> valid_stream_mandate x" for bs x r
    unfolding dec_stream_mandate_def by (elim bind_SomeE) (auto simp: valid_stream_mandate_def)
qed

definition stream_mandate_size :: nat where
  "stream_mandate_size = 8 + 1 + 32 + 32 + 32 + 8 + 8 + 8 + 8 + 9 + 9 + 4 + 1 + 8 + 1 + 56"

definition stream_seed :: "u8 list" where
  "stream_seed = bytes ''stream''"

definition has_pending_rate_change :: "stream_mandate \<Rightarrow> bool" where
  "has_pending_rate_change m \<longleftrightarrow> st_pending_change_type m \<noteq> 0"

definition clear_pending_rate_change :: "stream_mandate \<Rightarrow> stream_mandate" where
  "clear_pending_rate_change m =
     m\<lparr>st_pending_new_rate_per_second := 0, st_pending_new_authorized_max_rate := 0,
       st_pending_effective_at := i64_of 0, st_pending_change_type := 0,
       st_pending_nonce_short := replicate 8 0, st_reserved_v2 := replicate 23 0\<rparr>"

section \<open>Loading, writing and settling\<close>

definition load_stream_mandate :: "env \<Rightarrow> store \<Rightarrow> pubkey \<Rightarrow> verror + stream_mandate" where
  "load_stream_mandate E s k =
     (if acc_owner (s k) \<noteq> program_id then Inl (Program IncorrectProgramId) else
      let data = acc_data (s k); d = disc E KStreamMandate in
      if length data < length d then Inl (Program InvalidAccountData) else
      if \<not> starts_with data d then Inl (Vela WrongAccountType) else
      case ok_or (try_deserialize E KStreamMandate dec_stream_mandate data)
             (Program InvalidAccountData) of Inl e \<Rightarrow> Inl e | Inr m \<Rightarrow>
      if st_version m \<noteq> CURRENT_ACCOUNT_VERSION then Inl (Program InvalidAccountData)
      else Inr m)"

definition stream_address_seeds :: "pubkey \<Rightarrow> pubkey \<Rightarrow> u64 \<Rightarrow> u8 list list" where
  "stream_address_seeds subscriber merchant index =
     [stream_seed, key_bytes subscriber, key_bytes merchant, u64_le index]"

definition validate_stream_mandate_address :: "env \<Rightarrow> pubkey \<Rightarrow> stream_mandate \<Rightarrow> verror + unit" where
  "validate_stream_mandate_address E k m =
     (if k \<noteq> pda E (stream_address_seeds (st_subscriber m) (st_merchant m) (st_mandate_index m))
      then Inl (Vela InvalidStreamAddress) else Inr ())"

definition write_stream_mandate :: "env \<Rightarrow> pubkey \<Rightarrow> stream_mandate \<Rightarrow> store \<Rightarrow> verror + store" where
  "write_stream_mandate E k m s = write_account k (disc E KStreamMandate @ enc_stream_mandate m) s"

definition settle_accrued_in_place :: "stream_mandate \<Rightarrow> i64 \<Rightarrow> verror + (u64 \<times> stream_mandate)" where
  "settle_accrued_in_place m clock_now =
     (if st_status m \<noteq> StreamActive then Inr (0, m) else
      if st_paused_at m \<noteq> None then Inr (0, m) else
      case ok_or (i64_checked_sub clock_now (st_last_settled_ts m)) (Vela ClockRegression) of
        Inl e \<Rightarrow> Inl e | Inr elapsed_i64 \<Rightarrow>
      if elapsed_i64 < i64_of 0 then Inl (Vela ClockRegression) else
     (case ok_or (u64_try_from_i64 elapsed_i64) (Vela Overflow) of
        Inl e \<Rightarrow> Inl e | Inr elapsed_u64 \<Rightarrow>
      if elapsed_u64 < ucast (st_min_settle_interval m) then Inl (Vela MinSettleIntervalViolation) else
     (case ok_or (checked_mul (ucast elapsed_u64 :: u128) (ucast (st_rate_per_second m))) (Vela Overflow) of
        Inl e \<Rightarrow> Inl e | Inr gross \<Rightarrow>
     (case (case st_max_streamed m of
              Some cap \<Rightarrow> ok_or (checked_sub (ucast cap :: u128) (ucast (st_total_streamed m)))
                            (Vela StreamCapExceeded)
            | None \<Rightarrow> Inr (- 1)) of
        Inl e \<Rightarrow> Inl e | Inr remaining \<Rightarrow>
     (case ok_or (u64_try_from_u128 (min gross remaining)) (Vela Overflow) of
        Inl e \<Rightarrow> Inl e | Inr amount \<Rightarrow>
     (case ok_or (checked_add (st_total_streamed m) amount) (Vela Overflow) of
        Inl e \<Rightarrow> Inl e | Inr new_total \<Rightarrow>
      Inr (amount, m\<lparr>st_total_streamed := new_total, st_last_settled_ts := clock_now\<rparr>)))))))"

interpretation stream_store: stored_account load_stream_mandate write_stream_mandate
  "\<lambda>m. valid_stream_mandate m \<and> st_version m = CURRENT_ACCOUNT_VERSION"
proof unfold_locales
  show "write_stream_mandate E k x s = Inr s' \<Longrightarrow>
      valid_stream_mandate x \<and> st_version x = CURRENT_ACCOUNT_VERSION \<Longrightarrow>
      acc_owner (s k) = program_id \<Longrightarrow> load_stream_mandate E s' k = Inr x" for E k x s s'
    by (auto simp: write_stream_mandate_def load_stream_mandate_def ok_simps Let_def
        stream_mandate_codec.try_deserialize_enc)
  show "write_stream_mandate E k x s = Inr s' \<Longrightarrow> j \<noteq> k \<Longrightarrow> s' j = s j" for E k x s s' j
    by (auto simp: write_stream_mandate_def ok_simps)
  show "write_stream_mandate E k x s = Inr s' \<Longrightarrow>
      acc_owner (s' k) = acc_owner (s k) \<and> acc_lamports (s' k) = acc_lamports (s k)" for E k x s s'
    by (auto simp: write_stream_mandate_def ok_simps)
  show "load_stream_mandate E s k = Inr x \<Longrightarrow>
      valid_stream_mandate x \<and> st_version x = CURRENT_ACCOUNT_VERSION" for E s k x
    by (auto simp: load_stream_mandate_def ok_simps Let_def
        dest: stream_mandate_codec.try_deserialize_valid)
  show "load_stream_mandate E s k = Inr x \<Longrightarrow> acc_owner (s k) = program_id" for E s k x
    by (auto simp: load_stream_mandate_def split: if_splits)
  show "acc_owner (s' k) = acc_owner (s k) \<Longrightarrow> acc_data (s' k) = acc_data (s k) \<Longrightarrow>
      load_stream_mandate E s' k = load_stream_mandate E s k" for E s s' k
    by (simp add: load_stream_mandate_def)
  show "load_stream_mandate E' s k = load_stream_mandate E s k" if "disc E' = disc E" for E E' s k
    unfolding load_stream_mandate_def that try_deserialize_disc [OF that] by (rule refl)
qed

text \<open>
  What a settlement computes, over the naturals: the accrual since the last settlement,
  cut at what the cap leaves.
\<close>

definition stream_due :: "stream_mandate \<Rightarrow> i64 \<Rightarrow> nat" where
  "stream_due m now =
     (let gross = nat (sval now - sval (st_last_settled_ts m)) * unat (st_rate_per_second m)
      in case st_max_streamed m of
           None \<Rightarrow> gross
         | Some cap \<Rightarrow> min gross (unat cap - unat (st_total_streamed m)))"

definition accruing :: "stream_mandate \<Rightarrow> bool" where
  "accruing m \<longleftrightarrow> st_status m = StreamActive \<and> st_paused_at m = None"

definition cap_respected :: "stream_mandate \<Rightarrow> bool" where
  "cap_respected m \<longleftrightarrow>
     (case st_max_streamed m of None \<Rightarrow> True | Some cap \<Rightarrow> st_total_streamed m \<le> cap)"

lemma settle_idle [simp]:
  "\<not> accruing m \<Longrightarrow> settle_accrued_in_place m now = Inr (0, m)"
  by (auto simp: settle_accrued_in_place_def accruing_def)

lemma stream_remaining:
  assumes "cap_respected m" "unat g = nat (sval now - sval (st_last_settled_ts m)) * unat (st_rate_per_second m)"
  obtains r where
    "(case st_max_streamed m of
        Some cap \<Rightarrow> ok_or (checked_sub (ucast cap :: u128) (ucast (st_total_streamed m)))
                      (Vela StreamCapExceeded)
      | None \<Rightarrow> Inr (- 1)) = Inr r"
    "unat (min g r) = stream_due m now"
proof (cases "st_max_streamed m")
  case None
  have "unat (min g (- 1)) = unat g"
    using unsigned_less [of g, where ?'a = nat] by (simp add: unat_min_word unat_max_word)
  with None show thesis
    by (intro that [of "- 1"]) (simp_all add: stream_due_def assms(2))
next
  case (Some cap)
  then have "unat (st_total_streamed m) \<le> unat cap"
    using assms(1) by (simp add: cap_respected_def word_le_nat_alt)
  then obtain r where "checked_sub (ucast cap :: u128) (ucast (st_total_streamed m)) = Some r"
    "unat r = unat cap - unat (st_total_streamed m)"
    using checked_sub_unat [of "ucast (st_total_streamed m) :: u128" "ucast cap"] by auto
  with Some show thesis
    by (intro that [of r]) (simp_all add: stream_due_def assms(2) unat_min_word)
qed

lemma stream_no_remaining:
  "\<not> cap_respected m \<Longrightarrow>
    (case st_max_streamed m of
        Some cap \<Rightarrow> ok_or (checked_sub (ucast cap :: u128) (ucast (st_total_streamed m)))
                      (Vela StreamCapExceeded)
      | None \<Rightarrow> Inr (- 1)) = Inl (Vela StreamCapExceeded)"
  using checked_sub_None [of "ucast (the (st_max_streamed m)) :: u128" "ucast (st_total_streamed m)"]
  by (auto simp: cap_respected_def word_le_nat_alt split: option.splits)

lemma settle_active:
  fixes m :: stream_mandate and now :: i64
  defines "elapsed \<equiv> sval now - sval (st_last_settled_ts m)"
  assumes "accruing m"
  shows "settle_accrued_in_place m now =
    (if elapsed < 0 \<or> \<not> in_i64 elapsed then Inl (Vela ClockRegression)
     else if elapsed < uint (st_min_settle_interval m) then Inl (Vela MinSettleIntervalViolation)
     else if \<not> cap_respected m then Inl (Vela StreamCapExceeded)
     else if 2 ^ 64 \<le> unat (st_total_streamed m) + stream_due m now then Inl (Vela Overflow)
     else Inr (of_nat (stream_due m now),
       m\<lparr>st_total_streamed := st_total_streamed m + of_nat (stream_due m now),
         st_last_settled_ts := now\<rparr>))"
proof (cases "in_i64 elapsed \<and> 0 \<le> elapsed")
  case False
  then show ?thesis
    using assms(2) by (auto simp: settle_accrued_in_place_def i64_checked_sub_def elapsed_def
        accruing_def less_i64_def in_i64_def)
next
  case True
  then obtain e w where e: "i64_checked_sub now (st_last_settled_ts m) = Some e" "\<not> e < i64_of 0"
    "u64_try_from_i64 e = Some w" and w: "unat w = nat elapsed"
    unfolding elapsed_def by (blast intro: i64_elapsed)
  obtain g where g: "checked_mul (ucast w :: u128) (ucast (st_rate_per_second m)) = Some g"
    "unat g = nat elapsed * unat (st_rate_per_second m)"
    using u128_mul_u64 [of w "st_rate_per_second m"] w by auto
  have int: "w < ucast (st_min_settle_interval m) \<longleftrightarrow> elapsed < uint (st_min_settle_interval m)"
    using True w by (simp add: word_less_nat_alt nat_less_iff)
  note start = settle_accrued_in_place_def e g(1) int
  show ?thesis
  proof (cases "cap_respected m")
    case False
    with True assms(2) show ?thesis
      by (simp add: start stream_no_remaining accruing_def)
  next
    case cap: True
    obtain r where r: "(case st_max_streamed m of
        Some cap \<Rightarrow> ok_or (checked_sub (ucast cap :: u128) (ucast (st_total_streamed m)))
                      (Vela StreamCapExceeded)
      | None \<Rightarrow> Inr (- 1)) = Inr r" "unat (min g r) = stream_due m now"
      using stream_remaining [OF cap g(2) [unfolded elapsed_def]] by blast
    have a: "u64_try_from_u128 (min g r) =
        (if stream_due m now < 2 ^ 64 then Some (of_nat (stream_due m now)) else None)"
      by (simp add: u64_try_from_u128_def flip: r(2))
    show ?thesis
      using True assms(2) cap
      by (simp add: start r(1) a accruing_def checked_add_def unat_of_nat)
  qed
qed

section \<open>Handlers\<close>

record stream_accounts =
  sa_authority :: pubkey
  sa_mandate :: pubkey
  sa_subscriber_wrapped_account :: pubkey
  sa_merchant_wrapped_account :: pubkey
  sa_wrapped_usdc_mint :: pubkey
  sa_pull_approval :: pubkey
  sa_token_config :: pubkey
  sa_protocol_config :: pubkey
  sa_wrapping_vault :: pubkey
  sa_hook_program :: pubkey
  sa_extra_account_meta_list :: pubkey
  sa_protocol_program :: pubkey
  sa_token_2022_program :: pubkey
  sa_system_program :: pubkey

record stream_execute_accounts = stream_accounts +
  sx_subscriber :: pubkey
  sx_merchant :: pubkey
  sx_keeper_config :: pubkey

definition stream_constraints :: "env \<Rightarrow> 'a stream_accounts_scheme \<Rightarrow> (bool \<times> verror) list" where
  "stream_constraints E c =
     [(is_signer E (sa_authority c), Anchor AccountNotSigner),
      (sa_protocol_config c = pda E [protocol_config_seed], Anchor ConstraintSeeds),
      (sa_extra_account_meta_list c =
         fst (find_pda E [extra_account_metas_seed, key_bytes (sa_wrapped_usdc_mint c)] (sa_hook_program c)),
       Anchor ConstraintSeeds),
      (sa_protocol_program c = program_id, Anchor ConstraintAddress),
      (sa_token_2022_program c = token_2022_id E, Anchor InvalidProgramId),
      (sa_system_program c = system_program_id, Anchor InvalidProgramId)]"

definition stream_transfer_accounts :: "'a stream_accounts_scheme \<Rightarrow> transfer_accounts" where
  "stream_transfer_accounts c =
     \<lparr>tr_source = sa_subscriber_wrapped_account c, tr_mint = sa_wrapped_usdc_mint c,
      tr_destination = sa_merchant_wrapped_account c, tr_authority = sa_mandate c,
      tr_protocol_program = sa_protocol_program c, tr_wrapping_vault = sa_wrapping_vault c,
      tr_protocol_config = sa_protocol_config c, tr_pull_approval = sa_pull_approval c,
      tr_token_config = sa_token_config c, tr_system_program = sa_system_program c,
      tr_extra_account_meta_list = sa_extra_account_meta_list c,
      tr_hook_program = sa_hook_program c, tr_token_2022_program = sa_token_2022_program c\<rparr>"

definition stream_signer_seeds :: "stream_mandate \<Rightarrow> u8 \<Rightarrow> u8 list list list" where
  "stream_signer_seeds m bump =
     [stream_address_seeds (st_subscriber m) (st_merchant m) (st_mandate_index m) @ [[bump]]]"

definition execute_stream ::
  "env \<Rightarrow> stream_execute_accounts \<Rightarrow> store \<Rightarrow> verror + (store \<times> vela_event list)" where
  "execute_stream E c s =
     (case require_all (stream_constraints E c @
         [(sx_keeper_config c = pda E [keeper_config_seed], Anchor ConstraintSeeds)]) of
        Inl e \<Rightarrow> Inl e | Inr _ \<Rightarrow>
     (case load_keeper_config E s (sx_keeper_config c) of Inl e \<Rightarrow> Inl e | Inr keeper \<Rightarrow>
     (case validate_stream_transfer_accounts E s (sa_protocol_config c) (sa_hook_program c)
             (sa_wrapping_vault c) of Inl e \<Rightarrow> Inl e | Inr _ \<Rightarrow>
     (case load_stream_mandate E s (sa_mandate c) of Inl e \<Rightarrow> Inl e | Inr stream \<Rightarrow>
     (case load_protocol_config E s (sa_protocol_config c) of Inl e \<Rightarrow> Inl e | Inr pc \<Rightarrow>
     (case validate_stream_mandate_address E (sa_mandate c) stream of Inl e \<Rightarrow> Inl e | Inr _ \<Rightarrow>
      if sx_subscriber c \<noteq> st_subscriber stream then Inl (Anchor RequireKeysEqViolated) else
      if sx_merchant c \<noteq> st_merchant stream then Inl (Anchor RequireKeysEqViolated) else
      if sa_wrapped_usdc_mint c \<noteq> st_mint stream then Inl (Vela UsdcMintMismatch) else
      if \<not> (sa_authority c = lkc_keeper_authority keeper \<or> sa_authority c = st_merchant stream \<or>
            sa_authority c = st_subscriber stream) then Inl (Vela UnauthorizedStreamSigner) else
      if sa_pull_approval c \<noteq> pda E [pull_approval_seed, key_bytes (sa_mandate c)]
      then Inl (Vela TransferNotAuthorized) else
     (case settle_accrued_in_place stream (unix_timestamp E) of Inl e \<Rightarrow> Inl e
      | Inr (settle_amount, stream') \<Rightarrow>
      if settle_amount = 0 then
       (case write_stream_mandate E (sa_mandate c) stream' s of Inl e \<Rightarrow> Inl e | Inr s1 \<Rightarrow> Inr (s1, []))
      else
      let bump = snd (find_pda E (stream_address_seeds (st_subscriber stream) (st_merchant stream)
                                    (st_mandate_index stream)) program_id) in
     (case invoke_stream_transfer E (stream_transfer_accounts c) (sa_mandate c) (st_merchant stream')
             settle_amount (stream_signer_seeds stream' bump) s of Inl e \<Rightarrow> Inl e | Inr s1 \<Rightarrow>
     (case write_stream_mandate E (sa_mandate c) stream' s1 of Inl e \<Rightarrow> Inl e | Inr s2 \<Rightarrow>
      Inr (s2, [StreamSettled 1 (sa_mandate c) (st_mint stream')
                  (event_token_symbol (st_mint stream') (lpc_wrapped_usdc_mint pc)) settle_amount
                  (st_total_streamed stream') (st_last_settled_ts stream') (unix_timestamp E)]))))))))))"

definition pause_stream ::
  "env \<Rightarrow> stream_accounts \<Rightarrow> store \<Rightarrow> verror + (store \<times> vela_event list)" where
  "pause_stream E c s =
     (case require_all (stream_constraints E c) of Inl e \<Rightarrow> Inl e | Inr _ \<Rightarrow>
     (case validate_stream_transfer_accounts E s (sa_protocol_config c) (sa_hook_program c)
             (sa_wrapping_vault c) of Inl e \<Rightarrow> Inl e | Inr _ \<Rightarrow>
     (case load_protocol_config E s (sa_protocol_config c) of Inl e \<Rightarrow> Inl e | Inr pc \<Rightarrow>
     (case load_stream_mandate E s (sa_mandate c) of Inl e \<Rightarrow> Inl e | Inr mandate \<Rightarrow>
     (case validate_stream_mandate_address E (sa_mandate c) mandate of Inl e \<Rightarrow> Inl e | Inr _ \<Rightarrow>
      if sa_wrapped_usdc_mint c \<noteq> st_mint mandate then Inl (Vela UsdcMintMismatch) else
      if \<not> (sa_authority c = st_subscriber mandate \<or> sa_authority c = st_merchant mandate)
      then Inl (Vela UnauthorizedStreamSigner) else
      if st_status mandate = StreamPausedStatus then Inl (Vela StreamAlreadyPaused) else
      if st_status mandate = StreamCancelledStatus then Inl (Vela StreamAlreadyCancelled) else
      let clock_now = unix_timestamp E in
     (case ok_or (i64_checked_sub clock_now (st_last_settled_ts mandate)) (Vela ClockRegression) of
        Inl e \<Rightarrow> Inl e | Inr elapsed_since_settle \<Rightarrow>
      if elapsed_since_settle < i64_of 0 then Inl (Vela ClockRegression) else
     (case (if i64_from_u32 (st_min_settle_interval mandate) \<le> elapsed_since_settle
            then settle_accrued_in_place mandate clock_now else Inr (0, mandate)) of
        Inl e \<Rightarrow> Inl e | Inr (settle_amount, mandate) \<Rightarrow>
     (case (if 0 < settle_amount
            then invoke_stream_transfer E (stream_transfer_accounts c) (sa_mandate c) (st_merchant mandate)
                   settle_amount (stream_signer_seeds mandate (st_bump mandate)) s
            else Inr s) of Inl e \<Rightarrow> Inl e | Inr s1 \<Rightarrow>
      let mandate = mandate\<lparr>st_paused_at := Some clock_now, st_status := StreamPausedStatus\<rparr> in
     (case write_stream_mandate E (sa_mandate c) mandate s1 of Inl e \<Rightarrow> Inl e | Inr s2 \<Rightarrow>
      Inr (s2, [StreamPaused 1 (sa_mandate c) (st_mint mandate)
                  (event_token_symbol (st_mint mandate) (lpc_wrapped_usdc_mint pc)) clock_now
                  (sa_authority c) settle_amount clock_now]))))))))))"

definition cancel_stream ::
  "env \<Rightarrow> stream_accounts \<Rightarrow> store \<Rightarrow> verror + (store \<times> vela_event list)" where
  "cancel_stream E c s =
     (case require_all (stream_constraints E c) of Inl e \<Rightarrow> Inl e | Inr _ \<Rightarrow>
     (case validate_stream_transfer_accounts E s (sa_protocol_config c) (sa_hook_program c)
             (sa_wrapping_vault c) of Inl e \<Rightarrow> Inl e | Inr _ \<Rightarrow>
     (case load_protocol_config E s (sa_protocol_config c) of Inl e \<Rightarrow> Inl e | Inr pc \<Rightarrow>
     (case load_stream_mandate E s (sa_mandate c) of Inl e \<Rightarrow> Inl e | Inr mandate \<Rightarrow>
     (case validate_stream_mandate_address E (sa_mandate c) mandate of Inl e \<Rightarrow> Inl e | Inr _ \<Rightarrow>
      if sa_wrapped_usdc_mint c \<noteq> st_mint mandate then Inl (Vela UsdcMintMismatch) else
      if \<not> (sa_authority c = st_subscriber mandate \<or> sa_authority c = st_merchant mandate)
      then Inl (Vela UnauthorizedStreamSigner) else
      if st_status mandate = StreamCancelledStatus then Inl (Vela StreamAlreadyCancelled) else
      let clock_now = unix_timestamp E in
     (case ok_or (i64_checked_sub clock_now (st_last_settled_ts mandate)) (Vela ClockRegression) of
        Inl e \<Rightarrow> Inl e | Inr elapsed_since_settle \<Rightarrow>
      if elapsed_since_settle < i64_of 0 then Inl (Vela ClockRegression) else
     (case (if st_status mandate = StreamActive \<and>
               i64_from_u32 (st_min_settle_interval mandate) \<le> elapsed_since_settle
            then settle_accrued_in_place mandate clock_now else Inr (0, mandate)) of
        Inl e \<Rightarrow> Inl e | Inr (settle_amount, mandate) \<Rightarrow>
     (case (if 0 < settle_amount
            then invoke_stream_transfer E (stream_transfer_accounts c) (sa_mandate c) (st_merchant mandate)
                   settle_amount (stream_signer_seeds mandate (st_bump mandate)) s
            else Inr s) of Inl e \<Rightarrow> Inl e | Inr s1 \<Rightarrow>
      let mandate = mandate\<lparr>st_status := StreamCancelledStatus, st_paused_at := None\<rparr> in
     (case write_stream_mandate E (sa_mandate c) mandate s1 of Inl e \<Rightarrow> Inl e | Inr s2 \<Rightarrow>
      Inr (s2, [StreamCancelled 1 (sa_mandate c) (st_mint mandate)
                  (event_token_symbol (st_mint mandate) (lpc_wrapped_usdc_mint pc)) clock_now
                  (sa_authority c) settle_amount (st_total_streamed mandate) clock_now]))))))))))"

definition resume_stream ::
  "env \<Rightarrow> pubkey \<Rightarrow> pubkey \<Rightarrow> store \<Rightarrow> verror + (store \<times> vela_event list)" where
  "resume_stream E authority mandate_key s =
     (if \<not> is_signer E authority then Inl (Anchor AccountNotSigner) else
      case load_stream_mandate E s mandate_key of Inl e \<Rightarrow> Inl e | Inr mandate \<Rightarrow>
     (case validate_stream_mandate_address E mandate_key mandate of Inl e \<Rightarrow> Inl e | Inr _ \<Rightarrow>
      if \<not> (authority = st_subscriber mandate \<or> authority = st_merchant mandate)
      then Inl (Vela UnauthorizedStreamSigner) else
      if st_status mandate = StreamActive then Inl (Vela StreamNotActive) else
      if st_status mandate = StreamCancelledStatus then Inl (Vela StreamAlreadyCancelled) else
     (case ok_or (st_paused_at mandate) (Vela StreamNotActive) of Inl e \<Rightarrow> Inl e | Inr paused_at \<Rightarrow>
      let clock_now = unix_timestamp E in
     (case ok_or (i64_checked_sub clock_now paused_at) (Vela ClockRegression) of
        Inl e \<Rightarrow> Inl e | Inr pause_duration \<Rightarrow>
      if pause_duration < i64_of 0 then Inl (Vela ClockRegression) else
      let mandate = mandate\<lparr>st_last_settled_ts := clock_now, st_paused_at := None,
                      st_status := StreamActive\<rparr> in
     (case write_stream_mandate E mandate_key mandate s of Inl e \<Rightarrow> Inl e | Inr s1 \<Rightarrow>
      Inr (s1, [StreamResumed 1 mandate_key (st_mint mandate) [] clock_now (i64_bits pause_duration)
                  authority clock_now]))))))"

definition update_stream_rate ::
  "env \<Rightarrow> stream_accounts \<Rightarrow> u64 option \<Rightarrow> u64 option \<Rightarrow> store \<Rightarrow>
     verror + (store \<times> vela_event list)" where
  "update_stream_rate E c new_rate new_authorized_max_rate s =
     (case require_all (stream_constraints E c) of Inl e \<Rightarrow> Inl e | Inr _ \<Rightarrow>
     (case validate_stream_transfer_accounts E s (sa_protocol_config c) (sa_hook_program c)
             (sa_wrapping_vault c) of Inl e \<Rightarrow> Inl e | Inr _ \<Rightarrow>
     (case load_protocol_config E s (sa_protocol_config c) of Inl e \<Rightarrow> Inl e | Inr pc \<Rightarrow>
     (case load_stream_mandate E s (sa_mandate c) of Inl e \<Rightarrow> Inl e | Inr mandate \<Rightarrow>
     (case validate_stream_mandate_address E (sa_mandate c) mandate of Inl e \<Rightarrow> Inl e | Inr _ \<Rightarrow>
      if sa_wrapped_usdc_mint c \<noteq> st_mint mandate then Inl (Vela UsdcMintMismatch) else
      if st_status mandate \<noteq> StreamActive then Inl (Vela StreamNotActive) else
      let is_subscriber = (sa_authority c = st_subscriber mandate);
          is_merchant = (sa_authority c = st_merchant mandate) in
      if \<not> (is_subscriber \<or> is_merchant) then Inl (Vela UnauthorizedStreamSigner) else
      if new_rate = None \<and> new_authorized_max_rate = None then Inl (Vela NoUpdateProvided) else
      let subscriber_required = (new_authorized_max_rate \<noteq> None \<or>
            (case new_rate of Some r \<Rightarrow> st_authorized_max_rate mandate < r | None \<Rightarrow> False)) in
      if subscriber_required \<and> \<not> is_subscriber then Inl (Vela UnauthorizedStreamSigner) else
      if new_rate = Some 0 then Inl (Vela RateMustBeNonZero) else
      let clock_now = unix_timestamp E in
     (case settle_accrued_in_place mandate clock_now of
        Inl e \<Rightarrow> Inl e | Inr (settle_amount, mandate) \<Rightarrow>
     (case (if 0 < settle_amount
            then invoke_stream_transfer E (stream_transfer_accounts c) (sa_mandate c) (st_merchant mandate)
                   settle_amount (stream_signer_seeds mandate (st_bump mandate)) s
            else Inr s) of Inl e \<Rightarrow> Inl e | Inr s1 \<Rightarrow>
      let old_rate = st_rate_per_second mandate;
          old_authorized_max_rate = st_authorized_max_rate mandate;
          mandate = (case new_rate of Some r \<Rightarrow> mandate\<lparr>st_rate_per_second := r\<rparr> | None \<Rightarrow> mandate);
          mandate = (case new_authorized_max_rate of
                       Some r \<Rightarrow> mandate\<lparr>st_authorized_max_rate := r\<rparr> | None \<Rightarrow> mandate) in
      if st_authorized_max_rate mandate < st_rate_per_second mandate
      then Inl (Vela AuthorizedMaxRateTooLow) else
     (case write_stream_mandate E (sa_mandate c) mandate s1 of Inl e \<Rightarrow> Inl e | Inr s2 \<Rightarrow>
     (case ok_or (i64_try_from_u64 settle_amount) (Vela Overflow) of
        Inl e \<Rightarrow> Inl e | Inr proration_amount \<Rightarrow>
      let symbol = event_token_symbol (st_mint mandate) (lpc_wrapped_usdc_mint pc) in
      Inr (s2,
        [MandateUpgradeInitiated 1 (sa_mandate c) (st_mint mandate) symbol default_key default_key
           proration_amount 1 (sa_authority c) clock_now clock_now,
         StreamRateUpdated 1 (sa_mandate c) (st_mint mandate) symbol old_rate
           (st_rate_per_second mandate) old_authorized_max_rate (st_authorized_max_rate mandate)
           (sa_authority c) settle_amount clock_now,
         MandateUpgradeFinalized 1 (sa_mandate c) (st_mint mandate) symbol default_key default_key
           proration_amount 1 clock_now clock_now]))))))))))"

record create_stream_accounts =
  cs_subscriber :: pubkey
  cs_merchant_state :: pubkey
  cs_mandate :: pubkey
  cs_mint :: pubkey
  cs_token_config :: pubkey
  cs_payer :: pubkey
  cs_system_program :: pubkey

definition create_stream_mandate ::
  "env \<Rightarrow> create_stream_accounts \<Rightarrow> u64 \<Rightarrow> u64 \<Rightarrow> u64 option \<Rightarrow> u32 \<Rightarrow> store \<Rightarrow>
     verror + (store \<times> vela_event list)" where
  "create_stream_mandate E c rate_per_second authorized_max_rate max_streamed min_settle_interval s =
     (case anchor_account E KMerchantState dec_merchant_state s (cs_merchant_state c) of
        Inl e \<Rightarrow> Inl e | Inr merchant_state \<Rightarrow>
     (case interface_mint E s (cs_mint c) of Inl e \<Rightarrow> Inl e | Inr _ \<Rightarrow>
     (case anchor_account E KTokenConfig dec_token_config s (cs_token_config c) of
        Inl e \<Rightarrow> Inl e | Inr token_config \<Rightarrow>
     (case require_all
         [(is_signer E (cs_subscriber c), Anchor AccountNotSigner),
          (create_address E [token_config_seed, key_bytes (cs_mint c), [tk_bump token_config]]
             program_id = Some (cs_token_config c), Anchor ConstraintSeeds),
          (is_signer E (cs_payer c), Anchor AccountNotSigner),
          (cs_system_program c = system_program_id, Anchor InvalidProgramId),
          (60 \<le> min_settle_interval, Vela MinSettleIntervalTooLow),
          (0 < rate_per_second, Vela RateMustBeNonZero),
          (rate_per_second \<le> authorized_max_rate, Vela AuthorizedMaxRateTooLow),
          (tk_enabled token_config, Vela TokenDisabled),
          (tk_billing_rail token_config = TransferHook, Vela InvalidBillingRail),
          (tk_mint token_config = cs_mint c, Vela TokenNotRegistered)] of
        Inl e \<Rightarrow> Inl e | Inr _ \<Rightarrow>
      let merchant_key = ms_merchant merchant_state in
     (case validate_merchant_state_address E (cs_merchant_state c) merchant_key of
        Inl e \<Rightarrow> Inl e | Inr _ \<Rightarrow>
      let mandate_index = ms_stream_mandate_counter merchant_state;
          seeds = stream_address_seeds (cs_subscriber c) merchant_key mandate_index;
          mandate_bump = snd (find_pda E seeds program_id) in
      if cs_mandate c \<noteq> pda E seeds then Inl (Anchor RequireKeysEqViolated) else
      if \<not> data_is_empty (s (cs_mandate c)) then Inl (Program AccountAlreadyInitialized) else
     (case invoke E (CreateAccount (cs_payer c) (cs_mandate c) (minimum_balance E stream_mandate_size)
                       stream_mandate_size program_id) [seeds @ [[mandate_bump]]] s of
        Inl e \<Rightarrow> Inl e | Inr s1 \<Rightarrow>
      let mandate =
        \<lparr>st_version = CURRENT_ACCOUNT_VERSION, st_subscriber = cs_subscriber c,
         st_merchant = merchant_key, st_mint = cs_mint c, st_rate_per_second = rate_per_second,
         st_authorized_max_rate = authorized_max_rate, st_last_settled_ts = unix_timestamp E,
         st_total_streamed = 0, st_max_streamed = max_streamed, st_paused_at = None,
         st_min_settle_interval = min_settle_interval, st_status = StreamActive,
         st_mandate_index = mandate_index, st_bump = mandate_bump,
         st_pending_new_rate_per_second = 0, st_pending_new_authorized_max_rate = 0,
         st_pending_effective_at = i64_of 0, st_pending_change_type = 0,
         st_pending_nonce_short = replicate 8 0, st_reserved_v2 = replicate 23 0\<rparr> in
     (case write_stream_mandate E (cs_mandate c) mandate s1 of Inl e \<Rightarrow> Inl e | Inr s2 \<Rightarrow>
     (case ok_or (checked_add (ms_stream_mandate_counter merchant_state) 1) (Vela Overflow) of
        Inl e \<Rightarrow> Inl e | Inr counter \<Rightarrow>
     (case anchor_exit (cs_merchant_state c) (disc E KMerchantState @
             enc_merchant_state (merchant_state\<lparr>ms_stream_mandate_counter := counter\<rparr>)) s2 of
        Inl e \<Rightarrow> Inl e | Inr s3 \<Rightarrow>
      Inr (s3, [StreamCreated 1 (cs_mandate c) (st_subscriber mandate) (st_merchant mandate)
                  (st_mint mandate) [] (st_rate_per_second mandate) (st_authorized_max_rate mandate)
                  (st_max_streamed mandate) (st_min_settle_interval mandate)
                  (unix_timestamp E)]))))))))))"

section \<open>The mandate as a transition system\<close>

text \<open>
  What the handlers promise about the mandate, without accounts and calls: an operation
  at a time, by a signer, either fails or yields the amount paid and the new mandate.
\<close>

datatype stream_op =
    Settle
  | Pause pubkey
  | Resume pubkey
  | Cancel pubkey
  | UpdateRate pubkey "u64 option" "u64 option"

definition stream_party :: "pubkey \<Rightarrow> stream_mandate \<Rightarrow> bool" where
  "stream_party who m \<longleftrightarrow> who = st_subscriber m \<or> who = st_merchant m"

definition clock_forward :: "i64 \<Rightarrow> i64 \<Rightarrow> bool" where
  "clock_forward t now \<longleftrightarrow> t \<le> now \<and> in_i64 (sval now - sval t)"

definition settle_if_due :: "stream_mandate \<Rightarrow> i64 \<Rightarrow> verror + (u64 \<times> stream_mandate)" where
  "settle_if_due m now =
     (if st_status m = StreamActive \<and>
         uint (st_min_settle_interval m) \<le> sval now - sval (st_last_settled_ts m)
      then settle_accrued_in_place m now else Inr (0, m))"

fun stream_step :: "i64 \<times> stream_op \<Rightarrow> stream_mandate \<Rightarrow> verror + (u64 \<times> stream_mandate)" where
  "stream_step (now, Settle) m = settle_accrued_in_place m now"
| "stream_step (now, Pause who) m =
     (if \<not> stream_party who m then Inl (Vela UnauthorizedStreamSigner)
      else if st_status m = StreamPausedStatus then Inl (Vela StreamAlreadyPaused)
      else if st_status m = StreamCancelledStatus then Inl (Vela StreamAlreadyCancelled)
      else if \<not> clock_forward (st_last_settled_ts m) now then Inl (Vela ClockRegression)
      else map_sum id (\<lambda>(a, m). (a, m\<lparr>st_paused_at := Some now, st_status := StreamPausedStatus\<rparr>))
             (settle_if_due m now))"
| "stream_step (now, Resume who) m =
     (if \<not> stream_party who m then Inl (Vela UnauthorizedStreamSigner)
      else if st_status m = StreamCancelledStatus then Inl (Vela StreamAlreadyCancelled)
      else if st_status m = StreamActive \<or> st_paused_at m = None then Inl (Vela StreamNotActive)
      else if \<not> clock_forward (the (st_paused_at m)) now then Inl (Vela ClockRegression)
      else Inr (0, m\<lparr>st_last_settled_ts := now, st_paused_at := None, st_status := StreamActive\<rparr>))"
| "stream_step (now, Cancel who) m =
     (if \<not> stream_party who m then Inl (Vela UnauthorizedStreamSigner)
      else if st_status m = StreamCancelledStatus then Inl (Vela StreamAlreadyCancelled)
      else if \<not> clock_forward (st_last_settled_ts m) now then Inl (Vela ClockRegression)
      else map_sum id (\<lambda>(a, m). (a, m\<lparr>st_status := StreamCancelledStatus, st_paused_at := None\<rparr>))
             (settle_if_due m now))"
| "stream_step (now, UpdateRate who new_rate new_max) m =
     (if st_status m \<noteq> StreamActive then Inl (Vela StreamNotActive)
      else if \<not> stream_party who m then Inl (Vela UnauthorizedStreamSigner)
      else if new_rate = None \<and> new_max = None then Inl (Vela NoUpdateProvided)
      else if (new_max \<noteq> None \<or> (\<exists>r. new_rate = Some r \<and> st_authorized_max_rate m < r)) \<and>
              who \<noteq> st_subscriber m then Inl (Vela UnauthorizedStreamSigner)
      else if new_rate = Some 0 then Inl (Vela RateMustBeNonZero)
      else case settle_accrued_in_place m now of Inl e \<Rightarrow> Inl e | Inr (a, m) \<Rightarrow>
        let m = m\<lparr>st_rate_per_second := case_option (st_rate_per_second m) id new_rate,
                  st_authorized_max_rate := case_option (st_authorized_max_rate m) id new_max\<rparr>
        in if st_authorized_max_rate m < st_rate_per_second m
           then Inl (Vela AuthorizedMaxRateTooLow) else Inr (a, m))"

definition stream_next :: "i64 \<times> stream_op \<Rightarrow> stream_mandate \<Rightarrow> verror + stream_mandate" where
  "stream_next x m = map_sum id snd (stream_step x m)"

definition stream_inv :: "stream_mandate \<Rightarrow> bool" where
  "stream_inv m \<longleftrightarrow>
     st_rate_per_second m \<le> st_authorized_max_rate m \<and> 0 < st_rate_per_second m \<and>
     cap_respected m \<and> 60 \<le> st_min_settle_interval m \<and>
     (st_paused_at m \<noteq> None \<longleftrightarrow> st_status m = StreamPausedStatus) \<and>
     (\<forall>p. st_paused_at m = Some p \<longrightarrow> st_last_settled_ts m \<le> p)"

text \<open>The effect of a settlement that returns.\<close>

lemma settle_effect:
  assumes "settle_accrued_in_place m now = Inr (a, m')"
  obtains (idle) "\<not> accruing m" "a = 0" "m' = m"
  | (paid) t where "accruing m" "m' = m\<lparr>st_total_streamed := t, st_last_settled_ts := now\<rparr>"
      "unat t = unat (st_total_streamed m) + unat a" "unat a = stream_due m now"
      "clock_forward (st_last_settled_ts m) now"
      "uint (st_min_settle_interval m) \<le> sval now - sval (st_last_settled_ts m)"
      "cap_respected m"
proof (cases "accruing m")
  case False
  have "Inr (0, m) = (Inr (a, m') :: verror + _)"
    using assms unfolding settle_idle [OF False] .
  then show thesis by (intro idle [OF False]) simp_all
next
  case True
  have all: "\<not> (sval now - sval (st_last_settled_ts m) < 0 \<or> \<not> in_i64 (sval now - sval (st_last_settled_ts m)))"
    "\<not> sval now - sval (st_last_settled_ts m) < uint (st_min_settle_interval m)"
    "\<not> \<not> cap_respected m" "\<not> 2 ^ 64 \<le> unat (st_total_streamed m) + stream_due m now"
    "Inr (of_nat (stream_due m now),
       m\<lparr>st_total_streamed := st_total_streamed m + of_nat (stream_due m now),
         st_last_settled_ts := now\<rparr>) = (Inr (a, m') :: verror + _)"
    using assms unfolding settle_active [OF True] if_Inl_Inr by blast+
  have small: "unat (st_total_streamed m) + stream_due m now < 2 ^ 64"
    using all(4) by (simp only: not_le)
  have a: "a = of_nat (stream_due m now)" and
    m': "m' = m\<lparr>st_total_streamed := st_total_streamed m + of_nat (stream_due m now),
      st_last_settled_ts := now\<rparr>"
    using all(5) unfolding sum.inject prod.inject by metis+
  have g: "clock_forward (st_last_settled_ts m) now" "cap_respected m"
      "uint (st_min_settle_interval m) \<le> sval now - sval (st_last_settled_ts m)"
    using all(1-3) by (simp_all add: clock_forward_def less_eq_i64_def not_less)
  have due: "unat (of_nat (stream_due m now) :: u64) = stream_due m now"
    using small by (simp add: unat_of_nat)
  have "unat (st_total_streamed m + of_nat (stream_due m now)) =
      unat (st_total_streamed m) + stream_due m now"
    using small due by (simp add: unat_add_lem [THEN iffD1])
  with True a m' g due show thesis by (intro paid) simp_all
qed

lemma settle_cap:
  "unat t = unat (st_total_streamed m) + stream_due m now \<Longrightarrow> cap_respected m \<Longrightarrow>
     cap_respected (m\<lparr>st_total_streamed := t, st_last_settled_ts := now'\<rparr>)"
  by (auto simp: cap_respected_def stream_due_def word_le_nat_alt Let_def split: option.splits)

lemma settle_inv:
  assumes "settle_accrued_in_place m now = Inr (a, m')" "stream_inv m"
  shows "stream_inv m'"
  using assms(1)
proof (cases rule: settle_effect)
  case idle
  with assms show ?thesis by simp
next
  case (paid t)
  then have "cap_respected m'" by (simp add: settle_cap)
  with assms(2) paid show ?thesis by (auto simp: stream_inv_def accruing_def)
qed

lemma settle_if_due_cases:
  assumes "settle_if_due m now = Inr (a, m')"
  shows "settle_accrued_in_place m now = Inr (a, m') \<or> a = 0 \<and> m' = m"
  using assms by (auto simp: settle_if_due_def split: if_splits)

lemma settle_keeps_fields:
  assumes "settle_accrued_in_place m now = Inr (a, m')"
  shows "st_subscriber m' = st_subscriber m \<and> st_merchant m' = st_merchant m \<and> st_mint m' = st_mint m \<and>
    st_status m' = st_status m \<and> st_paused_at m' = st_paused_at m \<and> st_max_streamed m' = st_max_streamed m \<and>
    st_rate_per_second m' = st_rate_per_second m \<and> st_mandate_index m' = st_mandate_index m \<and>
    st_authorized_max_rate m' = st_authorized_max_rate m \<and> st_version m' = st_version m \<and>
    st_min_settle_interval m' = st_min_settle_interval m \<and>
    (valid_stream_mandate m' \<longleftrightarrow> valid_stream_mandate m)"
  using assms by (cases rule: settle_effect) (auto simp: valid_stream_mandate_def)

lemma settle_last:
  assumes "settle_accrued_in_place m now = Inr (a, m')"
  shows "st_last_settled_ts m \<le> st_last_settled_ts m' \<and>
    (st_last_settled_ts m' = st_last_settled_ts m \<or> st_last_settled_ts m' = now)"
  using assms by (cases rule: settle_effect) (auto simp: clock_forward_def)

text \<open>A settlement pays at most the rate times the time it moves the clock of the stream.\<close>

lemma stream_due_le:
  "stream_due m now \<le> nat (sval now - sval (st_last_settled_ts m)) * unat (st_rate_per_second m)"
  by (auto simp: stream_due_def Let_def split: option.splits)

lemma settle_pays:
  assumes "settle_accrued_in_place m now = Inr (a, m')"
  shows "unat (st_total_streamed m') = unat (st_total_streamed m) + unat a \<and>
    int (unat a) \<le> (sval (st_last_settled_ts m') - sval (st_last_settled_ts m)) *
                    int (unat (st_rate_per_second m))"
  using assms
proof (cases rule: settle_effect)
  case (paid t)
  then have "0 \<le> sval now - sval (st_last_settled_ts m)"
    by (simp add: clock_forward_def less_eq_i64_def)
  then have "int (stream_due m now) \<le>
      (sval now - sval (st_last_settled_ts m)) * int (unat (st_rate_per_second m))"
    using stream_due_le [of m now] by (simp add: of_nat_mono [where ?'a = int] flip: of_nat_le_iff [where ?'a = int])
  with paid show ?thesis by simp
qed simp

section \<open>Invariants of the transition system\<close>

lemma settle_if_due_inv:
  "settle_if_due m now = Inr (a, m') \<Longrightarrow> stream_inv m \<Longrightarrow> stream_inv m'"
  using settle_if_due_cases settle_inv by metis

lemma settle_if_due_fields:
  assumes "settle_if_due m now = Inr (a, m')"
  shows "st_subscriber m' = st_subscriber m \<and> st_merchant m' = st_merchant m \<and> st_mint m' = st_mint m \<and>
    st_status m' = st_status m \<and> st_paused_at m' = st_paused_at m \<and> st_max_streamed m' = st_max_streamed m \<and>
    st_rate_per_second m' = st_rate_per_second m \<and> st_mandate_index m' = st_mandate_index m \<and>
    st_authorized_max_rate m' = st_authorized_max_rate m \<and> st_version m' = st_version m \<and>
    st_min_settle_interval m' = st_min_settle_interval m \<and>
    (valid_stream_mandate m' \<longleftrightarrow> valid_stream_mandate m)"
  using settle_if_due_cases [OF assms] settle_keeps_fields by metis

lemma settle_if_due_last:
  assumes "settle_if_due m now = Inr (a, m')" "st_last_settled_ts m \<le> now"
  shows "st_last_settled_ts m \<le> st_last_settled_ts m' \<and> st_last_settled_ts m' \<le> now"
  using settle_if_due_cases [OF assms(1)] settle_last assms(2) by (metis order_refl)

lemma settle_if_due_pays:
  assumes "settle_if_due m now = Inr (a, m')"
  shows "unat (st_total_streamed m') = unat (st_total_streamed m) + unat a \<and>
    int (unat a) \<le> (sval (st_last_settled_ts m') - sval (st_last_settled_ts m)) *
                    int (unat (st_rate_per_second m))"
  using settle_if_due_cases [OF assms] settle_pays by (elim disjE) auto

lemma stream_inv_pause:
  "stream_inv m \<Longrightarrow> st_last_settled_ts m \<le> now \<Longrightarrow>
     stream_inv (m\<lparr>st_paused_at := Some now, st_status := StreamPausedStatus\<rparr>)"
  by (auto simp: stream_inv_def cap_respected_def split: option.splits)

lemma stream_inv_cancel:
  "stream_inv m \<Longrightarrow> stream_inv (m\<lparr>st_status := StreamCancelledStatus, st_paused_at := None\<rparr>)"
  by (auto simp: stream_inv_def cap_respected_def split: option.splits)

lemma stream_inv_resume:
  "stream_inv m \<Longrightarrow>
     stream_inv (m\<lparr>st_last_settled_ts := now, st_paused_at := None, st_status := StreamActive\<rparr>)"
  by (auto simp: stream_inv_def cap_respected_def split: option.splits)

text \<open>The operations, inverted: what a successful step did.\<close>

lemma stream_next_cases:
  assumes "stream_next (now, x) m = Inr m''"
  obtains (Settle) a where "x = Settle" "settle_accrued_in_place m now = Inr (a, m'')"
  | (Pause) who a m' where "x = Pause who" "stream_party who m" "st_status m = StreamActive"
      "st_last_settled_ts m \<le> now" "settle_if_due m now = Inr (a, m')"
      "m'' = m'\<lparr>st_paused_at := Some now, st_status := StreamPausedStatus\<rparr>"
  | (Resume) who p where "x = Resume who" "stream_party who m" "st_status m = StreamPausedStatus"
      "st_paused_at m = Some p" "p \<le> now"
      "m'' = m\<lparr>st_last_settled_ts := now, st_paused_at := None, st_status := StreamActive\<rparr>"
  | (Cancel) who a m' where "x = Cancel who" "stream_party who m" "st_status m \<noteq> StreamCancelledStatus"
      "st_last_settled_ts m \<le> now" "settle_if_due m now = Inr (a, m')"
      "m'' = m'\<lparr>st_status := StreamCancelledStatus, st_paused_at := None\<rparr>"
  | (UpdateRate) who r mx a m' where "x = UpdateRate who r mx" "st_status m = StreamActive"
      "stream_party who m" "mx \<noteq> None \<longrightarrow> who = st_subscriber m" "r \<noteq> Some 0"
      "settle_accrued_in_place m now = Inr (a, m')"
      "m'' = m'\<lparr>st_rate_per_second := case_option (st_rate_per_second m') id r,
                st_authorized_max_rate := case_option (st_authorized_max_rate m') id mx\<rparr>"
      "st_rate_per_second m'' \<le> st_authorized_max_rate m''"
proof (cases x)
  case Settle
  with assms that(1) show thesis by (auto simp: stream_next_def map_sum_Inr)
next
  case (Pause who)
  with assms obtain a m' where "stream_party who m" "st_status m \<noteq> StreamPausedStatus"
    "st_status m \<noteq> StreamCancelledStatus" "clock_forward (st_last_settled_ts m) now"
    "settle_if_due m now = Inr (a, m')"
    "m'' = m'\<lparr>st_paused_at := Some now, st_status := StreamPausedStatus\<rparr>"
    by (auto simp: stream_next_def ok_simps)
  with Pause that(2) show thesis by (cases "st_status m") (auto simp: clock_forward_def)
next
  case (Resume who)
  with assms obtain p where "stream_party who m" "st_status m \<noteq> StreamActive"
    "st_status m \<noteq> StreamCancelledStatus" "st_paused_at m = Some p" "clock_forward p now"
    "m'' = m\<lparr>st_last_settled_ts := now, st_paused_at := None, st_status := StreamActive\<rparr>"
    by (auto simp: stream_next_def ok_simps)
  with Resume that(3) show thesis by (cases "st_status m") (auto simp: clock_forward_def)
next
  case (Cancel who)
  with assms obtain a m' where "stream_party who m"
    "st_status m \<noteq> StreamCancelledStatus" "clock_forward (st_last_settled_ts m) now"
    "settle_if_due m now = Inr (a, m')"
    "m'' = m'\<lparr>st_status := StreamCancelledStatus, st_paused_at := None\<rparr>"
    by (auto simp: stream_next_def ok_simps)
  with Cancel that(4) show thesis by (auto simp: clock_forward_def)
next
  case (UpdateRate who r mx)
  with assms obtain p where p: "stream_step (now, UpdateRate who r mx) m = Inr p" "m'' = snd p"
    by (auto simp: stream_next_def map_sum_Inr)
  then obtain q where q: "settle_accrued_in_place m now = Inr q" "st_status m = StreamActive"
      "stream_party who m" "mx \<noteq> None \<longrightarrow> who = st_subscriber m" "r \<noteq> Some 0"
      "m'' = (snd q)\<lparr>st_rate_per_second := case_option (st_rate_per_second (snd q)) id r,
                st_authorized_max_rate := case_option (st_authorized_max_rate (snd q)) id mx\<rparr>"
      "st_rate_per_second m'' \<le> st_authorized_max_rate m''"
    unfolding stream_step.simps if_Inl_Inr case_sum_Inr Let_def case_prod_unfold not_less not_not
    by auto
  show thesis
    by (rule that(5) [of who r mx "fst q" "snd q"]) (use UpdateRate q in simp_all)
qed

lemma stream_next_inv:
  assumes "stream_inv m" "stream_next x m = Inr m''"
  shows "stream_inv m''"
proof -
  obtain now y where "x = (now, y)" by (cases x)
  with assms(2) have "stream_next (now, y) m = Inr m''" by simp
  then show ?thesis
  proof (cases rule: stream_next_cases)
    case (Settle a)
    with assms(1) show ?thesis by (blast intro: settle_inv)
  next
    case (Pause who a m')
    then have "st_last_settled_ts m' \<le> now" using settle_if_due_last by blast
    with Pause assms(1) show ?thesis by (simp add: settle_if_due_inv stream_inv_pause)
  next
    case (Resume who p)
    with assms(1) show ?thesis by (simp add: stream_inv_resume)
  next
    case (Cancel who a m')
    with assms(1) show ?thesis by (simp add: settle_if_due_inv stream_inv_cancel)
  next
    case (UpdateRate who r mx a m')
    have "stream_inv m'" using UpdateRate(6) assms(1) by (rule settle_inv)
    moreover have "0 < st_rate_per_second m''"
      using UpdateRate(5,7) \<open>stream_inv m'\<close>
      by (auto simp: stream_inv_def word_gt_0 split: option.splits)
    moreover have "cap_respected m'' = cap_respected m'" by (simp add: UpdateRate(7) cap_respected_def split: option.splits)
    ultimately show ?thesis using UpdateRate(7,8) by (auto simp: stream_inv_def)
  qed
qed

text \<open>A cancelled stream stays as it is.\<close>

lemma stream_next_cancelled:
  assumes "stream_inv m" "st_status m = StreamCancelledStatus" "stream_next x m = Inr m''"
  shows "m'' = m"
proof -
  obtain now y where "x = (now, y)" by (cases x)
  with assms(3) have "stream_next (now, y) m = Inr m''" by simp
  then show ?thesis
    by (cases rule: stream_next_cases)
       (use assms(2) in \<open>auto simp: accruing_def elim: settle_effect\<close>)
qed

interpretation stream_machine: final_machine stream_next stream_inv
  "\<lambda>m. st_status m = StreamCancelledStatus"
  by unfold_locales (auto intro: stream_next_inv stream_next_cancelled)

text \<open>
  Without a rate update by the subscriber the authorised maximum stands, and what is
  streamed over any stretch is at most that maximum times the time the stream's clock moved.
\<close>

definition within_authorized :: "stream_mandate \<Rightarrow> stream_mandate \<Rightarrow> bool" where
  "within_authorized m m' \<longleftrightarrow>
     st_last_settled_ts m \<le> st_last_settled_ts m' \<and>
     st_subscriber m' = st_subscriber m \<and>
     st_authorized_max_rate m' = st_authorized_max_rate m \<and>
     st_total_streamed m \<le> st_total_streamed m' \<and>
     int (unat (st_total_streamed m')) - int (unat (st_total_streamed m)) \<le>
       (sval (st_last_settled_ts m') - sval (st_last_settled_ts m)) *
       int (unat (st_authorized_max_rate m))"

lemma within_authorized_refl: "within_authorized m m"
  by (simp add: within_authorized_def)

lemma within_authorized_trans:
  assumes "within_authorized m m'" "within_authorized m' m''"
  shows "within_authorized m m''"
  using assms unfolding within_authorized_def
  by (auto simp: algebra_simps)

lemma within_authorized_settled:
  assumes "st_subscriber m' = st_subscriber m" "st_authorized_max_rate m' = st_authorized_max_rate m"
    "st_last_settled_ts m \<le> st_last_settled_ts m'" "stream_inv m"
    "unat (st_total_streamed m') = unat (st_total_streamed m) + unat a \<and>
     int (unat a) \<le> (sval (st_last_settled_ts m') - sval (st_last_settled_ts m)) *
                    int (unat (st_rate_per_second m))"
  shows "within_authorized m m'"
proof -
  have "int (unat (st_rate_per_second m)) \<le> int (unat (st_authorized_max_rate m))"
    using assms(4) by (simp add: stream_inv_def word_le_def)
  moreover have "0 \<le> sval (st_last_settled_ts m') - sval (st_last_settled_ts m)"
    using assms(3) by (simp add: less_eq_i64_def)
  ultimately have "(sval (st_last_settled_ts m') - sval (st_last_settled_ts m)) *
      int (unat (st_rate_per_second m)) \<le>
      (sval (st_last_settled_ts m') - sval (st_last_settled_ts m)) *
      int (unat (st_authorized_max_rate m))"
    by (rule mult_left_mono)
  with assms show ?thesis by (auto simp: within_authorized_def word_le_nat_alt)
qed

lemma stream_next_within:
  assumes "stream_inv m" "stream_next (now, y) m = Inr m''"
    "\<And>r mx. y \<noteq> UpdateRate (st_subscriber m) r mx"
  shows "within_authorized m m''"
proof -
  have who: "\<And>who r mx. y = UpdateRate who r mx \<Longrightarrow> who \<noteq> st_subscriber m" using assms(3) by blast
  from assms(2) show ?thesis
  proof (cases rule: stream_next_cases)
    case (Settle a)
    note s = settle_keeps_fields [OF Settle(2)] settle_last [OF Settle(2)] settle_pays [OF Settle(2)]
    show ?thesis by (rule within_authorized_settled [where a = a]) (use s assms(1) in auto)
  next
    case (Pause who a m')
    note s = settle_if_due_fields [OF Pause(5)] settle_if_due_last [OF Pause(5,4)]
      settle_if_due_pays [OF Pause(5)]
    show ?thesis unfolding Pause(6)
      by (rule within_authorized_settled [where a = a]) (use s assms(1) in auto)
  next
    case (Resume who p)
    then have "st_last_settled_ts m \<le> now" using assms(1) by (auto simp: stream_inv_def)
    with Resume(6) show ?thesis by (simp add: within_authorized_def less_eq_i64_def)
  next
    case (Cancel who a m')
    note s = settle_if_due_fields [OF Cancel(5)] settle_if_due_last [OF Cancel(5,4)]
      settle_if_due_pays [OF Cancel(5)]
    show ?thesis unfolding Cancel(6)
      by (rule within_authorized_settled [where a = a]) (use s assms(1) in auto)
  next
    case (UpdateRate who r mx a m')
    then have "mx = None" using who by blast
    note s = settle_keeps_fields [OF UpdateRate(6)] settle_last [OF UpdateRate(6)]
      settle_pays [OF UpdateRate(6)]
    show ?thesis unfolding UpdateRate(7)
      by (rule within_authorized_settled [where a = a]) (use s assms(1) \<open>mx = None\<close> in auto)
  qed
qed

text \<open>Its clock is where it was, or at the time of the step.\<close>

lemma stream_next_clock:
  assumes "stream_next (now, y) m = Inr m''"
  shows "st_last_settled_ts m'' = st_last_settled_ts m \<or> st_last_settled_ts m'' = now"
  using assms
proof (cases rule: stream_next_cases)
  case (Settle a)
  then show ?thesis using settle_last by blast
next
  case (Pause who a m')
  then show ?thesis using settle_if_due_cases [OF Pause(5)] settle_last by auto
next
  case (Cancel who a m')
  then show ?thesis using settle_if_due_cases [OF Cancel(5)] settle_last by auto
next
  case (UpdateRate who r mx a m')
  then show ?thesis using settle_last [OF UpdateRate(6)] by auto
qed simp

section \<open>The handlers refine the transition system\<close>

text \<open>
  A handler that returns made one step of the transition system on the mandate it names,
  signed by the party the step names, and left the data and owner of every other account
  of the program alone.
\<close>

abbreviation stream_refines :: "env \<Rightarrow> pubkey \<Rightarrow> i64 \<times> stream_op \<Rightarrow> store \<Rightarrow> store \<Rightarrow> bool" where
  "stream_refines \<equiv> store_refines load_stream_mandate stream_next"

lemma stream_refinesI:
  assumes "keeps_program_accounts E" "load_stream_mandate E s k = Inr m" "stream_step x m = Inr (a, m')"
    "s1 = s \<or> (\<exists>c seeds. invoke E c seeds s = Inr s1)"
    "write_stream_mandate E k m' s1 = Inr s'" "valid_stream_mandate m'" "st_version m' = CURRENT_ACCOUNT_VERSION"
  shows "stream_refines E k x s s'"
  by (rule stream_store.refinesI [OF assms(1,2) _ assms(4,5)])
     (use assms(3,6,7) in \<open>simp_all add: stream_next_def\<close>)

lemma invoke_stream_transfer_invokes:
  "invoke_stream_transfer E a src dst n seeds s = Inr s' \<Longrightarrow> \<exists>c seeds. invoke E c seeds s = Inr s'"
  by (elim invoke_stream_transfer_call) blast

lemma stream_payment_invokes:
  "(if 0 < n then invoke_stream_transfer E a src dst n seeds s else Inr s) = Inr s1 \<Longrightarrow>
     s1 = s \<or> (\<exists>c seeds. invoke E c seeds s = Inr s1)"
  by (auto dest: invoke_stream_transfer_invokes split: if_splits)

lemma elapsed_checks:
  "ok_or (i64_checked_sub now t) e = Inr d \<Longrightarrow> \<not> d < i64_of 0 \<Longrightarrow>
     clock_forward t now \<and> (i64_from_u32 n \<le> d \<longleftrightarrow> uint n \<le> sval now - sval t)"
  by (auto simp: clock_forward_def less_i64_def less_eq_i64_def in_i64_def ok_or_Inr
      i64_checked_sub_def split: if_splits)

lemma stream_constraints_signer:
  "require_all (stream_constraints E c) = Inr u \<Longrightarrow> is_signer E (sa_authority c)"
  by (simp add: require_all_Inr stream_constraints_def if_Inr_Inl)

lemma execute_stream_refines:
  assumes "execute_stream E c s = Inr (s', ev)" "keeps_program_accounts E"
  shows "stream_refines E (sa_mandate c) (unix_timestamp E, Settle) s s'"
proof -
  obtain m q where m: "load_stream_mandate E s (sa_mandate c) = Inr m"
    "settle_accrued_in_place m (unix_timestamp E) = Inr q"
    "\<exists>s1. (s1 = s \<or> (\<exists>c seeds. invoke E c seeds s = Inr s1)) \<and>
       write_stream_mandate E (sa_mandate c) (snd q) s1 = Inr s'"
  proof -
    show thesis
      using assms(1) unfolding execute_stream_def handler_inversion
      by - (elim exE conjE, rule that, assumption, assumption,
        auto split: if_splits simp: case_sum_Inr dest!: invoke_stream_transfer_invokes)
  qed
  then obtain a m' where q: "q = (a, m')" by (cases q)
  note f = settle_keeps_fields [OF m(2) [unfolded q]] stream_store.load_storable [OF m(1)]
  from m(3) obtain s1 where s1: "s1 = s \<or> (\<exists>c seeds. invoke E c seeds s = Inr s1)"
    "write_stream_mandate E (sa_mandate c) m' s1 = Inr s'" by (auto simp: q)
  show ?thesis
    by (rule stream_refinesI [OF assms(2) m(1) _ s1]) (use f m(2) q in simp_all)
qed

lemma pause_stream_Inr:
  assumes "pause_stream E c s = Inr (s', ev)"
  obtains m d q s1 where "load_stream_mandate E s (sa_mandate c) = Inr m"
    "sa_authority c = st_subscriber m \<or> sa_authority c = st_merchant m"
    "st_status m \<noteq> StreamPausedStatus" "st_status m \<noteq> StreamCancelledStatus"
    "ok_or (i64_checked_sub (unix_timestamp E) (st_last_settled_ts m)) (Vela ClockRegression) = Inr d" "\<not> d < i64_of 0"
    "(if i64_from_u32 (st_min_settle_interval m) \<le> d
      then settle_accrued_in_place m (unix_timestamp E) else Inr (0, m)) = Inr q"
    "(if 0 < fst q then invoke_stream_transfer E (stream_transfer_accounts c) (sa_mandate c)
       (st_merchant (snd q)) (fst q) (stream_signer_seeds (snd q) (st_bump (snd q))) s else Inr s) = Inr s1"
    "write_stream_mandate E (sa_mandate c)
       ((snd q)\<lparr>st_paused_at := Some (unix_timestamp E), st_status := StreamPausedStatus\<rparr>) s1 = Inr s'"
    "is_signer E (sa_authority c)"
  using assms unfolding pause_stream_def handler_inversion
  by (elim exE conjE) (rule that, (assumption | erule stream_constraints_signer)+)

lemma pause_stream_refines:
  assumes "pause_stream E c s = Inr (s', ev)" "keeps_program_accounts E"
  shows "stream_refines E (sa_mandate c) (unix_timestamp E, Pause (sa_authority c)) s s'
    \<and> is_signer E (sa_authority c)"
  using assms(1)
proof (cases rule: pause_stream_Inr)
  case (1 m d q s1)
  let ?now = "unix_timestamp E"
  note m = 1(1) and party = 1(2) and st = 1(3,4) and d = 1(5,6) and q = 1(7) and pay = 1(8) and wr = 1(9) and sg = 1(10)
  note dc = elapsed_checks [OF d]
  have act: "st_status m = StreamActive" using st by (cases "st_status m") auto
  have due: "settle_if_due m ?now = Inr (fst q, snd q)"
    using q dc act by (simp add: settle_if_due_def)
  note f = settle_if_due_fields [OF due] stream_store.load_storable [OF m]
  have "stream_step (?now, Pause (sa_authority c)) m =
      Inr (fst q, (snd q)\<lparr>st_paused_at := Some ?now, st_status := StreamPausedStatus\<rparr>)"
    using party st dc due by (auto simp: stream_party_def split_beta)
  then have "stream_refines E (sa_mandate c) (?now, Pause (sa_authority c)) s s'"
    by (rule stream_refinesI [OF assms(2) m _ stream_payment_invokes [OF pay] wr])
       (use f in \<open>simp_all add: valid_stream_mandate_def\<close>)
  with sg show ?thesis by simp
qed

lemma cancel_stream_refines:
  assumes "cancel_stream E c s = Inr (s', ev)" "keeps_program_accounts E"
  shows "stream_refines E (sa_mandate c) (unix_timestamp E, Cancel (sa_authority c)) s s'
    \<and> is_signer E (sa_authority c)"
proof -
  let ?now = "unix_timestamp E"
  obtain m d q s1 where m: "load_stream_mandate E s (sa_mandate c) = Inr m"
    and party: "sa_authority c = st_subscriber m \<or> sa_authority c = st_merchant m"
    and st: "st_status m \<noteq> StreamCancelledStatus"
    and d: "ok_or (i64_checked_sub ?now (st_last_settled_ts m)) (Vela ClockRegression) = Inr d"
      "\<not> d < i64_of 0"
    and q: "(if st_status m = StreamActive \<and> i64_from_u32 (st_min_settle_interval m) \<le> d
       then settle_accrued_in_place m ?now else Inr (0, m)) = Inr q"
    and pay: "(if 0 < fst q then invoke_stream_transfer E (stream_transfer_accounts c) (sa_mandate c)
       (st_merchant (snd q)) (fst q) (stream_signer_seeds (snd q) (st_bump (snd q))) s else Inr s) = Inr s1"
    and wr: "write_stream_mandate E (sa_mandate c)
       ((snd q)\<lparr>st_status := StreamCancelledStatus, st_paused_at := None\<rparr>) s1 = Inr s'"
    and sg: "is_signer E (sa_authority c)"
  proof -
    show thesis
      using assms(1) unfolding cancel_stream_def handler_inversion
      by - (elim exE conjE, rule that, (assumption | erule stream_constraints_signer)+)
  qed
  note dc = elapsed_checks [OF d]
  have due: "settle_if_due m ?now = Inr (fst q, snd q)"
    using q dc by (simp add: settle_if_due_def)
  note f = settle_if_due_fields [OF due] stream_store.load_storable [OF m]
  have "stream_step (?now, Cancel (sa_authority c)) m =
      Inr (fst q, (snd q)\<lparr>st_status := StreamCancelledStatus, st_paused_at := None\<rparr>)"
    using party st dc due by (auto simp: stream_party_def split_beta)
  then have "stream_refines E (sa_mandate c) (?now, Cancel (sa_authority c)) s s'"
    by (rule stream_refinesI [OF assms(2) m _ stream_payment_invokes [OF pay] wr])
       (use f in \<open>simp_all add: valid_stream_mandate_def\<close>)
  with sg show ?thesis by simp
qed

lemma resume_stream_Inr:
  assumes "resume_stream E who k s = Inr (s', ev)"
  obtains m p d where "load_stream_mandate E s k = Inr m" "who = st_subscriber m \<or> who = st_merchant m"
    "st_status m \<noteq> StreamActive" "st_status m \<noteq> StreamCancelledStatus" "st_paused_at m = Some p"
    "ok_or (i64_checked_sub (unix_timestamp E) p) (Vela ClockRegression) = Inr d" "\<not> d < i64_of 0"
    "write_stream_mandate E k
       (m\<lparr>st_last_settled_ts := unix_timestamp E, st_paused_at := None, st_status := StreamActive\<rparr>) s = Inr s'"
    "is_signer E who"
  using assms unfolding resume_stream_def handler_inversion ok_or_Inr [of "st_paused_at _"]
  by (elim exE conjE) (rule that, assumption+)

lemma resume_stream_refines:
  assumes "resume_stream E who k s = Inr (s', ev)" "keeps_program_accounts E"
  shows "stream_refines E k (unix_timestamp E, Resume who) s s' \<and> is_signer E who"
  using assms(1)
proof (cases rule: resume_stream_Inr)
  case (1 m p d)
  let ?now = "unix_timestamp E"
  note m = 1(1) and party = 1(2) and st = 1(3-5) and d = 1(6,7) and wr = 1(8) and sg = 1(9)
  have "stream_step (?now, Resume who) m =
      Inr (0, m\<lparr>st_last_settled_ts := ?now, st_paused_at := None, st_status := StreamActive\<rparr>)"
    using party st elapsed_checks [OF d] by (auto simp: stream_party_def)
  then have "stream_refines E k (?now, Resume who) s s'"
    by (rule stream_refinesI [OF assms(2) m _ disjI1 [OF refl] wr])
       (use stream_store.load_storable [OF m] in \<open>simp_all add: valid_stream_mandate_def\<close>)
  with sg show ?thesis by simp
qed

lemma update_stream_rate_refines:
  assumes "update_stream_rate E c r mx s = Inr (s', ev)" "keeps_program_accounts E"
  shows "stream_refines E (sa_mandate c) (unix_timestamp E, UpdateRate (sa_authority c) r mx) s s'
    \<and> is_signer E (sa_authority c)"
proof -
  let ?now = "unix_timestamp E"
  let ?upd = "\<lambda>m. m\<lparr>st_rate_per_second := case_option (st_rate_per_second m) id r,
      st_authorized_max_rate := case_option (st_authorized_max_rate m) id mx\<rparr>"
  obtain m q s1 s2 ev2 where m: "load_stream_mandate E s (sa_mandate c) = Inr m"
    and st: "st_status m = StreamActive"
    and party: "sa_authority c = st_subscriber m \<or> sa_authority c = st_merchant m"
    and some: "\<not> (r = None \<and> mx = None)" "r \<noteq> Some 0"
    and sub: "\<not> ((mx \<noteq> None \<or> (case r of Some r \<Rightarrow> st_authorized_max_rate m < r | None \<Rightarrow> False)) \<and>
      sa_authority c \<noteq> st_subscriber m)"
    and q: "settle_accrued_in_place m ?now = Inr q"
    and pay: "(if 0 < fst q then invoke_stream_transfer E (stream_transfer_accounts c) (sa_mandate c)
       (st_merchant (snd q)) (fst q) (stream_signer_seeds (snd q) (st_bump (snd q))) s else Inr s) = Inr s1"
    and le: "\<not> st_authorized_max_rate (?upd (snd q)) < st_rate_per_second (?upd (snd q))"
    and wr: "write_stream_mandate E (sa_mandate c) (?upd (snd q)) s1 = Inr s2"
      "Inr (s2, ev2) = (Inr (s', ev) :: verror + _)"
    and sg: "is_signer E (sa_authority c)"
  proof -
    have upd: "(case mx of None \<Rightarrow> (case r of None \<Rightarrow> m | Some r \<Rightarrow> m\<lparr>st_rate_per_second := r\<rparr>)
        | Some x \<Rightarrow> (case r of None \<Rightarrow> m | Some r \<Rightarrow> m\<lparr>st_rate_per_second := r\<rparr>)\<lparr>st_authorized_max_rate := x\<rparr>) =
        ?upd m" for m :: stream_mandate
      by (simp split: option.splits)
    show thesis
      using assms(1) unfolding update_stream_rate_def handler_inversion upd
      by - (elim exE conjE, rule that, (assumption | erule stream_constraints_signer)+)
  qed
  note f = settle_keeps_fields [of m ?now "fst q" "snd q"] stream_store.load_storable [OF m]
  have "stream_step (?now, UpdateRate (sa_authority c) r mx) m = Inr (fst q, ?upd (snd q))"
    using party st some sub q le
    by (cases q) (auto simp: stream_party_def Let_def split: option.splits)
  moreover have "write_stream_mandate E (sa_mandate c) (?upd (snd q)) s1 = Inr s'"
    using wr by simp
  ultimately have "stream_refines E (sa_mandate c) (?now, UpdateRate (sa_authority c) r mx) s s'"
    by (rule stream_refinesI [OF assms(2) m _ stream_payment_invokes [OF pay]])
       (use f q in \<open>simp_all add: valid_stream_mandate_def\<close>)
  with sg show ?thesis by simp
qed

section \<open>Runs of handlers\<close>

text \<open>
  Any sequence of calls of the streaming handlers, each with its own accounts and
  environment (clock, signers, token program), on any mandates.
\<close>

datatype stream_call =
    CallExecute stream_execute_accounts
  | CallPause stream_accounts
  | CallCancel stream_accounts
  | CallResume pubkey pubkey
  | CallUpdateRate stream_accounts "u64 option" "u64 option"

fun do_stream_call :: "env \<times> stream_call \<Rightarrow> store \<Rightarrow> verror + store" where
  "do_stream_call (E, CallExecute c) s = map_sum id fst (execute_stream E c s)"
| "do_stream_call (E, CallPause c) s = map_sum id fst (pause_stream E c s)"
| "do_stream_call (E, CallCancel c) s = map_sum id fst (cancel_stream E c s)"
| "do_stream_call (E, CallResume who k) s = map_sum id fst (resume_stream E who k s)"
| "do_stream_call (E, CallUpdateRate c r mx) s = map_sum id fst (update_stream_rate E c r mx s)"

lemma do_stream_call_refines:
  assumes "do_stream_call (E, c) s = Inr s'" "keeps_program_accounts E"
  shows "\<exists>k x. stream_refines E k x s s'"
  using assms(1)
  by (cases c) (auto simp: map_sum_Inr dest!: execute_stream_refines pause_stream_refines
      cancel_stream_refines resume_stream_refines update_stream_rate_refines intro: assms(2))

interpretation stream_sim: simulation stream_next stream_inv do_stream_call "same_program E"
  "stored_view load_stream_mandate E k" for E :: env and k :: pubkey
proof unfold_locales
  fix x :: "env \<times> stream_call" and c c' s
  assume x: "same_program E x" "do_stream_call x c = Inr c'"
    and v: "stored_view load_stream_mandate E k c = Some s"
  obtain E' call where E': "x = (E', call)" by (cases x)
  have E: "disc E' = disc E" "keeps_program_accounts E'" using x(1) by (simp_all add: same_program_def E')
  obtain k' y where "stream_refines E' k' y c c'"
    using do_stream_call_refines [OF _ E(2)] x(2) E' by blast
  then show "stored_view load_stream_mandate E k c' = Some s \<or>
      (\<exists>y s'. stream_next y s = Inr s' \<and> stored_view load_stream_mandate E k c' = Some s')"
    by (rule stream_store.refines_view [OF _ E(1) v])
qed

section \<open>Properties\<close>

text \<open>
  C4: A settlement is total and exact. It does nothing on a stream that does not accrue;
  otherwise it returns the error of the first check that fails (clock, interval, cap,
  overflow) or pays exactly the accrual since the last settlement, cut at the cap, adds it to
  the total and moves the settlement time to now.
\<close>

theorem settle_accrued_exact:
  "settle_accrued_in_place m now =
    (if \<not> accruing m then Inr (0, m)
     else if \<not> (0 \<le> sval now - sval (st_last_settled_ts m) \<and> in_i64 (sval now - sval (st_last_settled_ts m)))
       then Inl (Vela ClockRegression)
     else if sval now - sval (st_last_settled_ts m) < uint (st_min_settle_interval m)
       then Inl (Vela MinSettleIntervalViolation)
     else if \<not> cap_respected m then Inl (Vela StreamCapExceeded)
     else if 2 ^ 64 \<le> unat (st_total_streamed m) + stream_due m now then Inl (Vela Overflow)
     else Inr (of_nat (stream_due m now),
       m\<lparr>st_total_streamed := st_total_streamed m + of_nat (stream_due m now),
         st_last_settled_ts := now\<rparr>))"
  by (simp add: settle_active not_le)

definition sample_stream :: stream_mandate where
  "sample_stream =
     \<lparr>st_version = 1, st_subscriber = 1, st_merchant = 2, st_mint = 3, st_rate_per_second = 5,
      st_authorized_max_rate = 10, st_last_settled_ts = i64_of 100, st_total_streamed = 0,
      st_max_streamed = Some 1000, st_paused_at = None, st_min_settle_interval = 60,
      st_status = StreamActive, st_mandate_index = 0, st_bump = 255,
      st_pending_new_rate_per_second = 0, st_pending_new_authorized_max_rate = 0,
      st_pending_effective_at = i64_of 0, st_pending_change_type = 0,
      st_pending_nonce_short = replicate 8 0, st_reserved_v2 = replicate 23 0\<rparr>"

lemma sample_stream_address [simp]: "sample_address (stream_address_seeds a b i) = 29446"
  by (simp add: sample_address_def stream_address_seeds_def stream_seed_def bytes_def)

definition stream_store_with :: "stream_mandate \<Rightarrow> store" where
  "stream_store_with m =
     sample_store
       ((29446, owned_by program_id
           (sample_disc KStreamMandate @ enc_stream_mandate m @ replicate 16 0)) #
        (30, owned_by 22 (sample_token 3 29446)) # (31, owned_by 22 (sample_token 3 2)) #
        sample_config_accounts)"

lemma stream_store_with_simps [simp]:
  "stream_store_with m 29446 = owned_by program_id
     (sample_disc KStreamMandate @ enc_stream_mandate m @ replicate 16 0)"
  "stream_store_with m 30 = owned_by 22 (sample_token 3 29446)" "stream_store_with m 3 = owned_by 22 []"
  "stream_store_with m 31 = owned_by 22 (sample_token 3 2)"
  "stream_store_with m 25350 = owned_by program_id
     (sample_disc KProtocolConfig @ enc_protocol_config sample_protocol_config)"
  "stream_store_with m 27405 = owned_by program_id
     (sample_disc KKeeperConfig @ enc_keeper_config sample_keeper_config)"
  "stream_store_with m 29708 = owned_by program_id
     (sample_disc KTokenConfig @ enc_token_config sample_token_config)"
  by (simp_all add: stream_store_with_def sample_store_def sample_config_accounts_def)

lemma stream_inv_sample: "stream_inv sample_stream"
  by (simp add: stream_inv_def sample_stream_def cap_respected_def)

lemma load_stream_store_with:
  "valid_stream_mandate m \<Longrightarrow> st_version m = 1 \<Longrightarrow>
     load_stream_mandate (sample_env now sg) (stream_store_with m) 29446 = Inr m"
  using stream_mandate_codec.try_deserialize_enc [of m "sample_env now sg" KStreamMandate "replicate 16 0"]
  by (simp add: load_stream_mandate_def Let_def CURRENT_ACCOUNT_VERSION_def)

lemma valid_sample_stream [simp]: "valid_stream_mandate sample_stream" "st_version sample_stream = 1"
  by (simp_all add: sample_stream_def valid_stream_mandate_def)

text \<open>
  Whatever streaming handlers are called, in whatever order, by whom and on which
  mandates, a mandate that satisfies the stream invariant still loads and still satisfies it:
  the rate is positive and within the authorised maximum, the total within the cap, the pause
  time is set exactly while paused and is not before the last settlement.
\<close>

theorem stream_handlers_keep_invariant:
  assumes "list_all (same_program E) calls" "load_stream_mandate E s k = Inr m" "stream_inv m"
  shows "\<exists>m'. load_stream_mandate E (run do_stream_call calls s) k = Inr m' \<and> stream_inv m'"
  using stream_sim.run_view_inv [OF assms(1) _ assms(3)] assms(2) by (simp add: stored_view_Some)

theorem stream_handlers_keep_invariant_witness:
  "\<exists>m'. load_stream_mandate (sample_env (i64_of 0) [])
      (run do_stream_call [(sample_env (i64_of 200) [1], CallResume 1 29446)]
        (stream_store_with (sample_stream\<lparr>st_status := StreamPausedStatus, st_paused_at := Some (i64_of 150)\<rparr>)))
      29446 = Inr m' \<and> stream_inv m'"
proof (rule stream_handlers_keep_invariant)
  show "list_all (same_program (sample_env (i64_of 0) []))
      [(sample_env (i64_of 200) [1], CallResume 1 29446)]"
    by (simp add: same_program_def sample_env_keeps)
  show "load_stream_mandate (sample_env (i64_of 0) []) (stream_store_with
      (sample_stream\<lparr>st_status := StreamPausedStatus, st_paused_at := Some (i64_of 150)\<rparr>)) 29446 =
      Inr (sample_stream\<lparr>st_status := StreamPausedStatus, st_paused_at := Some (i64_of 150)\<rparr>)"
    by (rule load_stream_store_with) (simp_all add: valid_stream_mandate_def sample_stream_def)
  show "stream_inv (sample_stream\<lparr>st_status := StreamPausedStatus, st_paused_at := Some (i64_of 150)\<rparr>)"
    using stream_inv_pause [OF stream_inv_sample, of "i64_of 150"]
    by (simp add: sample_stream_def less_eq_i64_def in_i64_def)
qed

text \<open>
  Cancellation is final: no sequence of streaming handler calls changes a cancelled
  mandate.
\<close>

theorem cancelled_stream_is_final:
  assumes "list_all (same_program E) calls" "load_stream_mandate E s k = Inr m" "stream_inv m"
    "st_status m = StreamCancelledStatus"
  shows "load_stream_mandate E (run do_stream_call calls s) k = Inr m"
proof -
  obtain ops where "stored_view load_stream_mandate E k (run do_stream_call calls s) =
      Some (run stream_next ops m)"
    using stream_sim.run_simulated [OF assms(1)] assms(2) by (meson stored_view_Some)
  then show ?thesis
    by (simp add: stored_view_Some stream_machine.run_final assms(3,4))
qed

theorem cancelled_stream_is_final_witness:
  "load_stream_mandate (sample_env (i64_of 0) [])
     (run do_stream_call [(sample_env (i64_of 200) [1], CallResume 1 29446)]
       (stream_store_with (sample_stream\<lparr>st_status := StreamCancelledStatus, st_paused_at := None\<rparr>))) 29446 =
   Inr (sample_stream\<lparr>st_status := StreamCancelledStatus, st_paused_at := None\<rparr>)"
proof (rule cancelled_stream_is_final)
  show "list_all (same_program (sample_env (i64_of 0) []))
      [(sample_env (i64_of 200) [1], CallResume 1 29446)]"
    by (simp add: same_program_def sample_env_keeps)
  show "load_stream_mandate (sample_env (i64_of 0) []) (stream_store_with
      (sample_stream\<lparr>st_status := StreamCancelledStatus, st_paused_at := None\<rparr>)) 29446 =
      Inr (sample_stream\<lparr>st_status := StreamCancelledStatus, st_paused_at := None\<rparr>)"
    by (rule load_stream_store_with) (simp_all add: valid_stream_mandate_def sample_stream_def)
qed (simp_all add: stream_inv_cancel stream_inv_sample)

text \<open>
  A pause does not accrue. After a pause, a resume and a settlement, what was added since
  the pause is at most the rate times the time since the resume, however long the pause was.
\<close>

theorem resume_does_not_back_accrue:
  assumes "stream_inv m" "stream_next (t1, Pause a) m = Inr m1" "stream_next (t2, Resume b) m1 = Inr m2"
    "stream_next (t3, Settle) m2 = Inr m3"
  shows "st_total_streamed m2 = st_total_streamed m1 \<and>
    int (unat (st_total_streamed m3)) - int (unat (st_total_streamed m1)) \<le>
      (sval t3 - sval t2) * int (unat (st_rate_per_second m1))"
proof -
  have m2: "m2 = m1\<lparr>st_last_settled_ts := t2, st_paused_at := None, st_status := StreamActive\<rparr>"
    using assms(3) by (cases rule: stream_next_cases) simp_all
  obtain a' where s: "settle_accrued_in_place m2 t3 = Inr (a', m3)"
    using assms(4) by (auto simp: stream_next_def map_sum_Inr)
  have "accruing m2" by (simp add: m2 accruing_def)
  with s have "st_last_settled_ts m3 = t3" by (cases rule: settle_effect) simp_all
  with settle_pays [OF s] show ?thesis by (simp add: m2)
qed

theorem resume_does_not_back_accrue_witness:
  "\<exists>m1 m2 m3. stream_next (i64_of 160, Pause 1) sample_stream = Inr m1 \<and>
     stream_next (i64_of 1000, Resume 1) m1 = Inr m2 \<and>
     stream_next (i64_of 1100, Settle) m2 = Inr m3 \<and>
     st_total_streamed m2 = st_total_streamed m1"
proof -
  let ?m1 = "sample_stream\<lparr>st_total_streamed := 300, st_last_settled_ts := i64_of 160,
      st_paused_at := Some (i64_of 160), st_status := StreamPausedStatus\<rparr>"
  let ?m2 = "?m1\<lparr>st_last_settled_ts := i64_of 1000, st_paused_at := None, st_status := StreamActive\<rparr>"
  let ?m3 = "?m2\<lparr>st_total_streamed := 800, st_last_settled_ts := i64_of 1100\<rparr>"
  have 1: "stream_next (i64_of 160, Pause 1) sample_stream = Inr ?m1"
    by (simp add: stream_next_def stream_party_def clock_forward_def settle_if_due_def settle_active
        accruing_def stream_due_def cap_respected_def less_eq_i64_def in_i64_def sample_stream_def)
  have 2: "stream_next (i64_of 1000, Resume 1) ?m1 = Inr ?m2"
    by (simp add: stream_next_def stream_party_def clock_forward_def
        less_eq_i64_def in_i64_def sample_stream_def)
  have 3: "stream_next (i64_of 1100, Settle) ?m2 = Inr ?m3"
    by (simp add: stream_next_def settle_active
        accruing_def stream_due_def cap_respected_def less_eq_i64_def in_i64_def sample_stream_def)
  from resume_does_not_back_accrue [OF stream_inv_sample 1 2 3] 1 2 3 show ?thesis by blast
qed

definition pays_merchant ::
  "env \<Rightarrow> 'a stream_accounts_scheme \<Rightarrow> stream_mandate \<Rightarrow> u64 \<Rightarrow> store \<Rightarrow> store \<Rightarrow> bool" where
  "pays_merchant E c m a s s1 \<longleftrightarrow>
     (\<exists>d seeds src dst.
       invoke E (TransferChecked (token_2022_id E) (sa_subscriber_wrapped_account c) (st_mint m)
         (sa_merchant_wrapped_account c) (sa_mandate c) a d
         (transfer_hook_account_metas (stream_transfer_accounts c))) seeds s = Inr s1 \<and>
       unpack_token E (acc_data (s (sa_subscriber_wrapped_account c))) = Some src \<and>
       ta_owner src = sa_mandate c \<and> ta_mint src = st_mint m \<and>
       unpack_token E (acc_data (s (sa_merchant_wrapped_account c))) = Some dst \<and>
       ta_owner dst = st_merchant m \<and> ta_mint dst = st_mint m)"

lemma stream_transfer_pays_merchant:
  assumes "invoke_stream_transfer E (stream_transfer_accounts c) (sa_mandate c) (st_merchant m) a seeds s = Inr s1"
    "sa_token_2022_program c = token_2022_id E" "sa_wrapped_usdc_mint c = st_mint m"
  shows "pays_merchant E c m a s s1"
proof -
  from invoke_stream_transfer_call [OF assms(1)] obtain d where
    "invoke E (TransferChecked (token_2022_id E) (sa_subscriber_wrapped_account c) (st_mint m)
       (sa_merchant_wrapped_account c) (sa_mandate c) a d
       (transfer_hook_account_metas (stream_transfer_accounts c))) seeds s = Inr s1"
    by (auto simp: stream_transfer_accounts_def assms(2,3))
  moreover obtain src dst where
    "unpack_token E (acc_data (s (sa_subscriber_wrapped_account c))) = Some src"
    "ta_owner src = sa_mandate c" "ta_mint src = st_mint m"
    "unpack_token E (acc_data (s (sa_merchant_wrapped_account c))) = Some dst"
    "ta_owner dst = st_merchant m" "ta_mint dst = st_mint m"
    using invoke_stream_transfer_checked [OF assms(1)]
    unfolding stream_transfer_accounts_def transfer_accounts.select_convs assms(3) by metis
  ultimately show ?thesis unfolding pays_merchant_def by blast
qed

text \<open>
  C27: What execute_stream pays. It is signed by the keeper, the merchant or the subscriber;
  if anything is due it makes one transfer of exactly the amount by which the total grows,
  from a token account of the mandate to a token account of the merchant, both of the
  mandate's mint; if nothing is due it makes no call.
\<close>

theorem execute_stream_pays_what_is_due:
  assumes "execute_stream E c s = Inr (s', ev)" "keeps_program_accounts E"
  shows "\<exists>m m' a s1. load_stream_mandate E s (sa_mandate c) = Inr m \<and>
    load_stream_mandate E s' (sa_mandate c) = Inr m' \<and> is_signer E (sa_authority c) \<and>
    unat (st_total_streamed m') = unat (st_total_streamed m) + unat a \<and>
    unat a = (if accruing m then stream_due m (unix_timestamp E) else 0) \<and>
    (if a = 0 then s1 = s else pays_merchant E c m a s s1) \<and>
    write_stream_mandate E (sa_mandate c) m' s1 = Inr s'"
proof -
  obtain m q s1 where m: "load_stream_mandate E s (sa_mandate c) = Inr m"
    and q: "settle_accrued_in_place m (unix_timestamp E) = Inr q"
    and con: "is_signer E (sa_authority c)" "sa_token_2022_program c = token_2022_id E"
      "sa_wrapped_usdc_mint c = st_mint m"
    and pay: "if fst q = 0 then s1 = s
       else \<exists>seeds. invoke_stream_transfer E (stream_transfer_accounts c) (sa_mandate c)
              (st_merchant (snd q)) (fst q) seeds s = Inr s1"
    and w: "write_stream_mandate E (sa_mandate c) (snd q) s1 = Inr s'"
  proof -
    show thesis
      using assms(1) that unfolding execute_stream_def handler_inversion
      by (elim exE conjE)
         (fastforce split: if_splits simp: case_sum_Inr require_all_Inr stream_constraints_def if_Inr_Inl)
  qed
  obtain a m' where am: "q = (a, m')" by (cases q)
  note settled = q [unfolded am]
  have "load_stream_mandate E s' (sa_mandate c) = Inr m'"
    using execute_stream_refines [OF assms] m settled
    by (auto simp: store_refines_def stream_next_def)
  moreover have "unat a = (if accruing m then stream_due m (unix_timestamp E) else 0)"
    using settled by (cases rule: settle_effect) simp_all
  moreover have "if a = 0 then s1 = s else pays_merchant E c m a s s1"
    using pay settle_keeps_fields [OF settled] con
    by (auto simp: am intro: stream_transfer_pays_merchant split: if_splits)
  moreover note m con(1) settle_pays [OF settled] w [unfolded am]
  ultimately show ?thesis by fastforce
qed

definition sample_stream_accounts :: stream_execute_accounts where
  "sample_stream_accounts =
     \<lparr>sa_authority = 1, sa_mandate = 29446, sa_subscriber_wrapped_account = 30,
      sa_merchant_wrapped_account = 31, sa_wrapped_usdc_mint = 3, sa_pull_approval = 24840,
      sa_token_config = 29708, sa_protocol_config = 25350, sa_wrapping_vault = 33,
      sa_hook_program = transfer_hook_program_id, sa_extra_account_meta_list = 25875,
      sa_protocol_program = program_id, sa_token_2022_program = 22,
      sa_system_program = system_program_id, sx_subscriber = 1, sx_merchant = 2,
      sx_keeper_config = 27405\<rparr>"

lemma sample_stream_fields:
  "st_version sample_stream = 1" "st_subscriber sample_stream = 1" "st_merchant sample_stream = 2"
  "st_mint sample_stream = 3" "st_status sample_stream = StreamActive" "st_bump sample_stream = 255"
  by (simp_all add: sample_stream_def)

lemma sample_stream_accounts_fields:
  "sa_authority sample_stream_accounts = 1" "sa_mandate sample_stream_accounts = 29446"
  "sa_subscriber_wrapped_account sample_stream_accounts = 30"
  "sa_merchant_wrapped_account sample_stream_accounts = 31"
  "sa_wrapped_usdc_mint sample_stream_accounts = 3" "sa_pull_approval sample_stream_accounts = 24840"
  "sa_token_config sample_stream_accounts = 29708" "sa_protocol_config sample_stream_accounts = 25350"
  "sa_wrapping_vault sample_stream_accounts = 33"
  "sa_hook_program sample_stream_accounts = transfer_hook_program_id"
  "sa_extra_account_meta_list sample_stream_accounts = 25875"
  "sa_protocol_program sample_stream_accounts = program_id"
  "sa_token_2022_program sample_stream_accounts = 22"
  "sa_system_program sample_stream_accounts = system_program_id"
  "sx_subscriber sample_stream_accounts = 1" "sx_merchant sample_stream_accounts = 2"
  "sx_keeper_config sample_stream_accounts = 27405"
  by (simp_all add: sample_stream_accounts_def)

lemma sample_stream_writes:
  "\<exists>s1. write_stream_mandate (sample_env now sg) 29446
     (sample_stream\<lparr>st_total_streamed := n, st_last_settled_ts := t\<rparr>)
     (stream_store_with sample_stream) = Inr s1"
proof -
  have "length (enc_stream_mandate (sample_stream\<lparr>st_total_streamed := n, st_last_settled_ts := t\<rparr>)) \<le>
      length (enc_stream_mandate sample_stream) + 16"
    by (simp add: enc_stream_mandate_def sample_stream_def)
  then show ?thesis by (simp add: write_stream_mandate_def write_account_Inr)
qed

lemma sample_transfer_valid:
  "validate_stream_transfer_accounts (sample_env now sg) (stream_store_with m) 25350
     transfer_hook_program_id 33 = Inr ()"
  by (simp add: validate_stream_transfer_accounts_def sample_protocol_config_loads
      sample_protocol_config_def new_protocol_config_def transfer_hook_program_id_def)

lemma sample_transfer_returns:
  "invoke_stream_transfer (sample_env now sg) (stream_transfer_accounts sample_stream_accounts) 29446 2 n seeds
     (stream_store_with m) = Inr (stream_store_with m)"
  by (simp add: invoke_stream_transfer_def validate_token_2022_transfer_accounts_def
      sample_token_config_loads invoke_transfer_checked_with_hook_def is_token_program_def
      stream_transfer_accounts_def sample_stream_accounts_fields)

lemma sample_execute_returns:
  "\<exists>s' ev. execute_stream (sample_env (i64_of 200) [1]) sample_stream_accounts
     (stream_store_with sample_stream) = Inr (s', ev)"
proof -
  let ?m' = "sample_stream\<lparr>st_total_streamed := 500, st_last_settled_ts := i64_of 200\<rparr>"
  have settled: "settle_accrued_in_place sample_stream (i64_of 200) = Inr (500, ?m')"
    by (simp add: settle_active accruing_def stream_due_def cap_respected_def in_i64_def sample_stream_def)
  obtain s1 where w: "write_stream_mandate (sample_env (i64_of 200) [1]) 29446 ?m'
      (stream_store_with sample_stream) = Inr s1"
    using sample_stream_writes by blast
  show ?thesis
    by (simp add: execute_stream_def sample_stream_accounts_fields stream_constraints_def is_signer_def
        sample_keeper_config_loads sample_protocol_config_loads load_stream_store_with
        sample_transfer_valid validate_stream_mandate_address_def sample_stream_fields settled
        sample_transfer_returns w Let_def)
qed

theorem execute_stream_pays_what_is_due_witness:
  "\<exists>m m' a s1 s'. load_stream_mandate (sample_env (i64_of 200) [1]) (stream_store_with sample_stream) 29446 = Inr m \<and>
     load_stream_mandate (sample_env (i64_of 200) [1]) s' 29446 = Inr m' \<and>
     unat (st_total_streamed m') = unat (st_total_streamed m) + unat a \<and>
     (if a = 0 then s1 = stream_store_with sample_stream
      else pays_merchant (sample_env (i64_of 200) [1]) sample_stream_accounts m a
             (stream_store_with sample_stream) s1)"
proof -
  obtain s' ev where "execute_stream (sample_env (i64_of 200) [1]) sample_stream_accounts
     (stream_store_with sample_stream) = Inr (s', ev)"
    using sample_execute_returns by blast
  from execute_stream_pays_what_is_due [OF this sample_env_keeps, unfolded sample_stream_accounts_fields]
  show ?thesis by blast
qed

section \<open>A pause inside the interval\<close>

text \<open>
  C39: A pause before the minimum settlement interval has passed forfeits what accrued since
  the last settlement. The pause and the resume that follows make no transfer: no account but the mandate's changes. The
  mandate is active again with its total unchanged, and its clock stands at the time of the resume, so no later
  settlement counts the time before it.
\<close>

theorem a_pause_inside_the_interval_forfeits_accrual:
  assumes "pause_stream E1 c s = Inr (s1, ev1)" "resume_stream E2 who (sa_mandate c) s1 = Inr (s2, ev2)"
    "disc E2 = disc E1" "load_stream_mandate E1 s (sa_mandate c) = Inr m"
    "sval (unix_timestamp E1) - sval (st_last_settled_ts m) < uint (st_min_settle_interval m)"
  shows "(\<forall>j. j \<noteq> sa_mandate c \<longrightarrow> s1 j = s j \<and> s2 j = s j) \<and> sval (unix_timestamp E1) \<le> sval (unix_timestamp E2) \<and>
    load_stream_mandate E1 s2 (sa_mandate c) =
      Inr (m\<lparr>st_last_settled_ts := unix_timestamp E2, st_paused_at := None, st_status := StreamActive\<rparr>)"
  using assms(1)
proof (cases rule: pause_stream_Inr)
  case (1 m0 d q s0)
  let ?k = "sa_mandate c" and ?m1 = "m\<lparr>st_paused_at := Some (unix_timestamp E1), st_status := StreamPausedStatus\<rparr>"
  have m0: "m0 = m" using 1(1) assms(4) by simp
  have "q = (0, m)" using 1(7) assms(5) elapsed_checks [OF 1(5,6)] by (auto simp: m0)
  with 1(8,9) have w1: "write_stream_mandate E1 ?k ?m1 s = Inr s1" by simp
  note ok = stream_store.load_storable [OF assms(4)]
  have l1: "load_stream_mandate E1 s1 ?k = Inr ?m1"
    by (rule stream_store.load_write [OF assms(4) w1]) (use ok in \<open>simp add: valid_stream_mandate_def\<close>)
  from assms(2) show ?thesis
  proof (cases rule: resume_stream_Inr)
    case (1 m2 p d2)
    have m2: "m2 = ?m1" "p = unix_timestamp E1"
      using 1(1,5) l1 stream_store.load_disc [OF assms(3)] by auto
    let ?m2 = "m\<lparr>st_last_settled_ts := unix_timestamp E2, st_paused_at := None, st_status := StreamActive\<rparr>"
    have w2: "write_stream_mandate E2 ?k ?m2 s1 = Inr s2" using 1(8) by (simp add: m2)
    have "load_stream_mandate E2 s2 ?k = Inr ?m2"
      by (rule stream_store.load_write [OF 1(1) w2]) (use ok in \<open>simp add: valid_stream_mandate_def\<close>)
    moreover have "clock_forward (unix_timestamp E1) (unix_timestamp E2)" using elapsed_checks [OF 1(6,7)] by (simp add: m2)
    ultimately show ?thesis
      using stream_store.write_frame [OF w1] stream_store.write_frame [OF w2] stream_store.load_disc [OF assms(3)]
      by (auto simp: clock_forward_def less_eq_i64_def)
  qed
qed

text \<open>
  A stream of five a second that was settled at 100 is paused at 159 and resumed at 170: of the 295 that had
  accrued nothing is ever paid.
\<close>

definition sample_pause_accounts :: stream_accounts where
  "sample_pause_accounts =
     \<lparr>sa_authority = 1, sa_mandate = 29446, sa_subscriber_wrapped_account = 30,
      sa_merchant_wrapped_account = 31, sa_wrapped_usdc_mint = 3, sa_pull_approval = 24840,
      sa_token_config = 29708, sa_protocol_config = 25350, sa_wrapping_vault = 33,
      sa_hook_program = transfer_hook_program_id, sa_extra_account_meta_list = 25875,
      sa_protocol_program = program_id, sa_token_2022_program = 22,
      sa_system_program = system_program_id\<rparr>"

lemma sample_stream_put:
  assumes "length (enc_stream_mandate m') + 8 \<le> length (acc_data (s 29446))"
  shows "\<exists>s'. write_stream_mandate (sample_env now sg) 29446 m' s = Inr s' \<and>
    length (acc_data (s' 29446)) = length (acc_data (s 29446))"
  using assms by (simp add: write_stream_mandate_def write_account_Inr)

theorem a_pause_inside_the_interval_forfeits_accrual_witness:
  "\<exists>s1 s2. stream_due sample_stream (i64_of 159) = 295 \<and>
     (\<forall>j. j \<noteq> 29446 \<longrightarrow> s1 j = stream_store_with sample_stream j \<and> s2 j = stream_store_with sample_stream j) \<and>
     load_stream_mandate (sample_env (i64_of 159) [1]) s2 29446 = Inr (sample_stream\<lparr>st_last_settled_ts := i64_of 170\<rparr>)"
proof -
  let ?E1 = "sample_env (i64_of 159) [1]" and ?E2 = "sample_env (i64_of 170) [1]"
  let ?c = sample_pause_accounts and ?s = "stream_store_with sample_stream"
  let ?m1 = "sample_stream\<lparr>st_paused_at := Some (i64_of 159), st_status := StreamPausedStatus\<rparr>"
  let ?m2 = "?m1\<lparr>st_last_settled_ts := i64_of 170, st_paused_at := None, st_status := StreamActive\<rparr>"
  have len: "length (enc_stream_mandate ?m1) + 8 \<le> length (acc_data (?s 29446))"
    "length (enc_stream_mandate ?m2) + 8 \<le> length (acc_data (?s 29446))"
    by (simp_all add: enc_stream_mandate_def sample_stream_def)
  obtain s1 where w1: "write_stream_mandate ?E1 29446 ?m1 ?s = Inr s1" and l1: "length (acc_data (s1 29446)) = length (acc_data (?s 29446))"
    using sample_stream_put [of ?m1 ?s, OF len(1)] by blast
  obtain s2 where w2: "write_stream_mandate ?E2 29446 ?m2 s1 = Inr s2"
    using sample_stream_put [of ?m2 s1] len(2) unfolding l1 by blast
  have m: "load_stream_mandate (sample_env now sg) ?s 29446 = Inr sample_stream" for now sg
    by (rule load_stream_store_with) simp_all
  have m1: "load_stream_mandate ?E1 s1 29446 = Inr ?m1"
    by (rule stream_store.load_write [OF m w1]) (simp add: valid_stream_mandate_def sample_stream_def CURRENT_ACCOUNT_VERSION_def)
  then have m1': "load_stream_mandate ?E2 s1 29446 = Inr ?m1" by (subst stream_store.load_disc [of _ ?E1]) simp_all
  have "i64_checked_sub (i64_of 159) (st_last_settled_ts sample_stream) = Some (i64_of 59)"
    "\<not> i64_from_u32 (st_min_settle_interval sample_stream) \<le> i64_of 59"
    by (simp_all add: i64_checked_sub_def less_eq_i64_def in_i64_def sample_stream_def)
  then have p: "\<exists>ev. pause_stream ?E1 ?c ?s = Inr (s1, ev)"
    using w1 by (simp add: pause_stream_def sample_pause_accounts_def stream_constraints_def is_signer_def
        sample_protocol_config_loads m sample_transfer_valid validate_stream_mandate_address_def sample_stream_fields
        less_i64_def in_i64_def Let_def)
  have "i64_checked_sub (i64_of 170) (i64_of 159) = Some (i64_of 11)" by (simp add: i64_checked_sub_def in_i64_def)
  then have r: "\<exists>ev. resume_stream ?E2 1 29446 s1 = Inr (s2, ev)"
    using w2 by (simp add: resume_stream_def is_signer_def m1' validate_stream_mandate_address_def sample_stream_fields
        less_i64_def in_i64_def Let_def)
  have k: "sa_mandate ?c = 29446" by (simp add: sample_pause_accounts_def)
  have "sval (unix_timestamp ?E1) - sval (st_last_settled_ts sample_stream) < uint (st_min_settle_interval sample_stream)"
    by (simp add: sample_stream_def in_i64_def)
  with a_pause_inside_the_interval_forfeits_accrual [of ?E1 ?c ?s s1 _ ?E2 1 s2 _ sample_stream, unfolded k] p r m
  have "(\<forall>j. j \<noteq> 29446 \<longrightarrow> s1 j = ?s j \<and> s2 j = ?s j) \<and>
      load_stream_mandate ?E1 s2 29446 = Inr (sample_stream\<lparr>st_last_settled_ts := i64_of 170, st_paused_at := None, st_status := StreamActive\<rparr>)"
    by auto
  moreover have "sample_stream\<lparr>st_last_settled_ts := i64_of 170, st_paused_at := None, st_status := StreamActive\<rparr> =
      sample_stream\<lparr>st_last_settled_ts := i64_of 170\<rparr>" by (simp add: sample_stream_def)
  moreover have "stream_due sample_stream (i64_of 159) = 295" by (simp add: stream_due_def sample_stream_def in_i64_def)
  ultimately show ?thesis by auto
qed

end
