(* ===== verification/Mandates.thy ===== *)
theory Mandates
  imports Config
begin

text \<open>
  The subscription mandate (\<open>state/mandate.rs\<close>) with its legacy layout, its addresses,
  loader, billing period and writer (\<open>instructions/accounts/mandate_account.rs\<close>), and the
  pull approval (\<open>state/pull_approval.rs\<close>) that an encrypted validation leaves behind.
\<close>

section \<open>Mandates, current and legacy\<close>

datatype billing_type = Flat | Usage

fun enc_billing_type :: "billing_type \<Rightarrow> u8 list" where
  "enc_billing_type Flat = [0]"
| "enc_billing_type Usage = [1]"

fun dec_billing_type :: "billing_type decoder" where
  "dec_billing_type [] = None"
| "dec_billing_type (b # bs) =
     (if b = 0 then Some (Flat, bs) else if b = 1 then Some (Usage, bs) else None)"

lemma dec_enc_billing_type [simp]: "dec_billing_type (enc_billing_type x @ r) = Some (x, r)"
  by (cases x) simp_all

lemma length_enc_billing_type [simp]: "length (enc_billing_type x) = 1"
  by (cases x) simp_all

datatype mandate_status = MandateActive | MandateCancelled | MandateIsExpired

fun enc_mandate_status :: "mandate_status \<Rightarrow> u8 list" where
  "enc_mandate_status MandateActive = [0]"
| "enc_mandate_status MandateCancelled = [1]"
| "enc_mandate_status MandateIsExpired = [2]"

fun dec_mandate_status :: "mandate_status decoder" where
  "dec_mandate_status [] = None"
| "dec_mandate_status (b # bs) =
     (if b = 0 then Some (MandateActive, bs) else if b = 1 then Some (MandateCancelled, bs) else if b = 2 then Some (MandateIsExpired, bs) else None)"

lemma dec_enc_mandate_status [simp]: "dec_mandate_status (enc_mandate_status x @ r) = Some (x, r)"
  by (cases x) simp_all

lemma length_enc_mandate_status [simp]: "length (enc_mandate_status x) = 1"
  by (cases x) simp_all

record vela_mandate =
  md_subscriber :: "pubkey"
  md_plan :: "pubkey"
  md_merchant :: "pubkey"
  md_amount :: "u64"
  md_frequency :: "u64"
  md_start_date :: "i64"
  md_expiry :: "i64"
  md_max_pulls :: "u64"
  md_pulls_executed :: "u64"
  md_next_payment_due :: "i64"
  md_last_pull_at :: "i64"
  md_last_billing_recorded_pull :: "u64"
  md_validation_request_nonce :: "u64"
  md_billing_request_nonce :: "u64"
  md_status :: "mandate_status"
  md_bump :: "u8"
  md_billing_type :: "billing_type"
  md_mandate_index :: "u64"
  md_version :: "u8"
  md_credit_balance :: "u64"
  md_pending_new_plan :: "pubkey"
  md_pending_effective_at :: "i64"
  md_pending_change_type :: "u8"
  md_pending_nonce_short :: "u8 list"
  md_reserved_v3 :: "u8 list"

definition valid_vela_mandate :: "vela_mandate \<Rightarrow> bool" where
  "valid_vela_mandate m \<longleftrightarrow> length (md_pending_nonce_short m) = 8 \<and>
     length (md_reserved_v3 m) = 7"

definition enc_vela_mandate :: "vela_mandate \<Rightarrow> u8 list" where
  "enc_vela_mandate m =
     key_bytes (md_subscriber m) @
     key_bytes (md_plan m) @
     key_bytes (md_merchant m) @
     u64_le (md_amount m) @
     u64_le (md_frequency m) @
     i64_le (md_start_date m) @
     i64_le (md_expiry m) @
     u64_le (md_max_pulls m) @
     u64_le (md_pulls_executed m) @
     i64_le (md_next_payment_due m) @
     i64_le (md_last_pull_at m) @
     u64_le (md_last_billing_recorded_pull m) @
     u64_le (md_validation_request_nonce m) @
     u64_le (md_billing_request_nonce m) @
     enc_mandate_status (md_status m) @
     [md_bump m] @
     enc_billing_type (md_billing_type m) @
     u64_le (md_mandate_index m) @
     [md_version m] @
     u64_le (md_credit_balance m) @
     key_bytes (md_pending_new_plan m) @
     i64_le (md_pending_effective_at m) @
     [md_pending_change_type m] @
     md_pending_nonce_short m @
     md_reserved_v3 m"

definition dec_vela_mandate :: "vela_mandate decoder" where
  "dec_vela_mandate bs = do {
     (x_subscriber, bs) \<leftarrow> dec_key bs;
     (x_plan, bs) \<leftarrow> dec_key bs;
     (x_merchant, bs) \<leftarrow> dec_key bs;
     (x_amount, bs) \<leftarrow> dec_u64 bs;
     (x_frequency, bs) \<leftarrow> dec_u64 bs;
     (x_start_date, bs) \<leftarrow> dec_i64 bs;
     (x_expiry, bs) \<leftarrow> dec_i64 bs;
     (x_max_pulls, bs) \<leftarrow> dec_u64 bs;
     (x_pulls_executed, bs) \<leftarrow> dec_u64 bs;
     (x_next_payment_due, bs) \<leftarrow> dec_i64 bs;
     (x_last_pull_at, bs) \<leftarrow> dec_i64 bs;
     (x_last_billing_recorded_pull, bs) \<leftarrow> dec_u64 bs;
     (x_validation_request_nonce, bs) \<leftarrow> dec_u64 bs;
     (x_billing_request_nonce, bs) \<leftarrow> dec_u64 bs;
     (x_status, bs) \<leftarrow> dec_mandate_status bs;
     (x_bump, bs) \<leftarrow> dec_u8 bs;
     (x_billing_type, bs) \<leftarrow> dec_billing_type bs;
     (x_mandate_index, bs) \<leftarrow> dec_u64 bs;
     (x_version, bs) \<leftarrow> dec_u8 bs;
     (x_credit_balance, bs) \<leftarrow> dec_u64 bs;
     (x_pending_new_plan, bs) \<leftarrow> dec_key bs;
     (x_pending_effective_at, bs) \<leftarrow> dec_i64 bs;
     (x_pending_change_type, bs) \<leftarrow> dec_u8 bs;
     (x_pending_nonce_short, bs) \<leftarrow> dec_bytes 8 bs;
     (x_reserved_v3, bs) \<leftarrow> dec_bytes 7 bs;
     Some (\<lparr>md_subscriber = x_subscriber,
       md_plan = x_plan,
       md_merchant = x_merchant,
       md_amount = x_amount,
       md_frequency = x_frequency,
       md_start_date = x_start_date,
       md_expiry = x_expiry,
       md_max_pulls = x_max_pulls,
       md_pulls_executed = x_pulls_executed,
       md_next_payment_due = x_next_payment_due,
       md_last_pull_at = x_last_pull_at,
       md_last_billing_recorded_pull = x_last_billing_recorded_pull,
       md_validation_request_nonce = x_validation_request_nonce,
       md_billing_request_nonce = x_billing_request_nonce,
       md_status = x_status,
       md_bump = x_bump,
       md_billing_type = x_billing_type,
       md_mandate_index = x_mandate_index,
       md_version = x_version,
       md_credit_balance = x_credit_balance,
       md_pending_new_plan = x_pending_new_plan,
       md_pending_effective_at = x_pending_effective_at,
       md_pending_change_type = x_pending_change_type,
       md_pending_nonce_short = x_pending_nonce_short,
       md_reserved_v3 = x_reserved_v3\<rparr>, bs)
   }"

interpretation vela_mandate_codec: fixed_borsh enc_vela_mandate dec_vela_mandate valid_vela_mandate 260
proof unfold_locales
  show "valid_vela_mandate x \<Longrightarrow> dec_vela_mandate (enc_vela_mandate x @ r) = Some (x, r)" for x r
    by (simp add: enc_vela_mandate_def dec_vela_mandate_def valid_vela_mandate_def)
  show "dec_vela_mandate bs = Some (x, r) \<Longrightarrow> valid_vela_mandate x" for bs x r
    unfolding dec_vela_mandate_def by (elim bind_SomeE) (auto simp: valid_vela_mandate_def)
  show "valid_vela_mandate x \<Longrightarrow> length (enc_vela_mandate x) = 260" for x
    by (simp add: enc_vela_mandate_def valid_vela_mandate_def)
qed

record vela_mandate_v1 =
  mdl_subscriber :: "pubkey"
  mdl_plan :: "pubkey"
  mdl_merchant :: "pubkey"
  mdl_amount :: "u64"
  mdl_frequency :: "u64"
  mdl_start_date :: "i64"
  mdl_expiry :: "i64"
  mdl_max_pulls :: "u64"
  mdl_pulls_executed :: "u64"
  mdl_next_payment_due :: "i64"
  mdl_last_pull_at :: "i64"
  mdl_last_billing_recorded_pull :: "u64"
  mdl_validation_request_nonce :: "u64"
  mdl_billing_request_nonce :: "u64"
  mdl_status :: "mandate_status"
  mdl_bump :: "u8"
  mdl_billing_type :: "billing_type"

definition valid_vela_mandate_v1 :: "vela_mandate_v1 \<Rightarrow> bool" where
  "valid_vela_mandate_v1 m \<longleftrightarrow> True"

definition enc_vela_mandate_v1 :: "vela_mandate_v1 \<Rightarrow> u8 list" where
  "enc_vela_mandate_v1 m =
     key_bytes (mdl_subscriber m) @
     key_bytes (mdl_plan m) @
     key_bytes (mdl_merchant m) @
     u64_le (mdl_amount m) @
     u64_le (mdl_frequency m) @
     i64_le (mdl_start_date m) @
     i64_le (mdl_expiry m) @
     u64_le (mdl_max_pulls m) @
     u64_le (mdl_pulls_executed m) @
     i64_le (mdl_next_payment_due m) @
     i64_le (mdl_last_pull_at m) @
     u64_le (mdl_last_billing_recorded_pull m) @
     u64_le (mdl_validation_request_nonce m) @
     u64_le (mdl_billing_request_nonce m) @
     enc_mandate_status (mdl_status m) @
     [mdl_bump m] @
     enc_billing_type (mdl_billing_type m)"

definition dec_vela_mandate_v1 :: "vela_mandate_v1 decoder" where
  "dec_vela_mandate_v1 bs = do {
     (x_subscriber, bs) \<leftarrow> dec_key bs;
     (x_plan, bs) \<leftarrow> dec_key bs;
     (x_merchant, bs) \<leftarrow> dec_key bs;
     (x_amount, bs) \<leftarrow> dec_u64 bs;
     (x_frequency, bs) \<leftarrow> dec_u64 bs;
     (x_start_date, bs) \<leftarrow> dec_i64 bs;
     (x_expiry, bs) \<leftarrow> dec_i64 bs;
     (x_max_pulls, bs) \<leftarrow> dec_u64 bs;
     (x_pulls_executed, bs) \<leftarrow> dec_u64 bs;
     (x_next_payment_due, bs) \<leftarrow> dec_i64 bs;
     (x_last_pull_at, bs) \<leftarrow> dec_i64 bs;
     (x_last_billing_recorded_pull, bs) \<leftarrow> dec_u64 bs;
     (x_validation_request_nonce, bs) \<leftarrow> dec_u64 bs;
     (x_billing_request_nonce, bs) \<leftarrow> dec_u64 bs;
     (x_status, bs) \<leftarrow> dec_mandate_status bs;
     (x_bump, bs) \<leftarrow> dec_u8 bs;
     (x_billing_type, bs) \<leftarrow> dec_billing_type bs;
     Some (\<lparr>mdl_subscriber = x_subscriber,
       mdl_plan = x_plan,
       mdl_merchant = x_merchant,
       mdl_amount = x_amount,
       mdl_frequency = x_frequency,
       mdl_start_date = x_start_date,
       mdl_expiry = x_expiry,
       mdl_max_pulls = x_max_pulls,
       mdl_pulls_executed = x_pulls_executed,
       mdl_next_payment_due = x_next_payment_due,
       mdl_last_pull_at = x_last_pull_at,
       mdl_last_billing_recorded_pull = x_last_billing_recorded_pull,
       mdl_validation_request_nonce = x_validation_request_nonce,
       mdl_billing_request_nonce = x_billing_request_nonce,
       mdl_status = x_status,
       mdl_bump = x_bump,
       mdl_billing_type = x_billing_type\<rparr>, bs)
   }"

interpretation vela_mandate_v1_codec: fixed_borsh enc_vela_mandate_v1 dec_vela_mandate_v1 valid_vela_mandate_v1 187
proof unfold_locales
  show "valid_vela_mandate_v1 x \<Longrightarrow> dec_vela_mandate_v1 (enc_vela_mandate_v1 x @ r) = Some (x, r)" for x r
    by (simp add: enc_vela_mandate_v1_def dec_vela_mandate_v1_def valid_vela_mandate_v1_def)
  show "dec_vela_mandate_v1 bs = Some (x, r) \<Longrightarrow> valid_vela_mandate_v1 x" for bs x r
    by (simp add: valid_vela_mandate_v1_def)
  show "valid_vela_mandate_v1 x \<Longrightarrow> length (enc_vela_mandate_v1 x) = 187" for x
    by (simp add: enc_vela_mandate_v1_def valid_vela_mandate_v1_def)
qed

definition vela_mandate_size :: nat where
  "vela_mandate_size = 8 + 32 + 32 + 32 + (11 * 8) + 1 + 1 + 1 + 8 + 1 + 8 + 32 + 8 + 1 + 8 + 7"

definition mandate_seed :: "u8 list" where
  "mandate_seed = bytes ''mandate''"

definition has_pending_change :: "vela_mandate \<Rightarrow> bool" where
  "has_pending_change m \<longleftrightarrow> md_pending_change_type m \<noteq> 0"

definition clear_pending :: "vela_mandate \<Rightarrow> vela_mandate" where
  "clear_pending m =
     m\<lparr>md_pending_new_plan := default_key, md_pending_effective_at := i64_of 0,
       md_pending_change_type := 0, md_pending_nonce_short := replicate 8 0,
       md_reserved_v3 := replicate 7 0\<rparr>"

definition current_from_legacy_mandate :: "vela_mandate_v1 \<Rightarrow> vela_mandate" where
  "current_from_legacy_mandate m =
     \<lparr>md_subscriber = mdl_subscriber m,
      md_plan = mdl_plan m,
      md_merchant = mdl_merchant m,
      md_amount = mdl_amount m,
      md_frequency = mdl_frequency m,
      md_start_date = mdl_start_date m,
      md_expiry = mdl_expiry m,
      md_max_pulls = mdl_max_pulls m,
      md_pulls_executed = mdl_pulls_executed m,
      md_next_payment_due = mdl_next_payment_due m,
      md_last_pull_at = mdl_last_pull_at m,
      md_last_billing_recorded_pull = mdl_last_billing_recorded_pull m,
      md_validation_request_nonce = mdl_validation_request_nonce m,
      md_billing_request_nonce = mdl_billing_request_nonce m,
      md_status = mdl_status m,
      md_bump = mdl_bump m,
      md_billing_type = mdl_billing_type m,
      md_mandate_index = 0, md_version = CURRENT_ACCOUNT_VERSION, md_credit_balance = 0,
      md_pending_new_plan = default_key, md_pending_effective_at = i64_of 0,
      md_pending_change_type = 0, md_pending_nonce_short = replicate 8 0,
      md_reserved_v3 = replicate 7 0\<rparr>"

text \<open>The fields of the current layout that the legacy layout keeps.\<close>

definition legacy_from_current_mandate :: "vela_mandate \<Rightarrow> vela_mandate_v1" where
  "legacy_from_current_mandate m =
     \<lparr>mdl_subscriber = md_subscriber m,
      mdl_plan = md_plan m,
      mdl_merchant = md_merchant m,
      mdl_amount = md_amount m,
      mdl_frequency = md_frequency m,
      mdl_start_date = md_start_date m,
      mdl_expiry = md_expiry m,
      mdl_max_pulls = md_max_pulls m,
      mdl_pulls_executed = md_pulls_executed m,
      mdl_next_payment_due = md_next_payment_due m,
      mdl_last_pull_at = md_last_pull_at m,
      mdl_last_billing_recorded_pull = md_last_billing_recorded_pull m,
      mdl_validation_request_nonce = md_validation_request_nonce m,
      mdl_billing_request_nonce = md_billing_request_nonce m,
      mdl_status = md_status m,
      mdl_bump = md_bump m,
      mdl_billing_type = md_billing_type m\<rparr>"

datatype loaded_mandate = CurrentMandate vela_mandate | LegacyMandate vela_mandate_v1

fun lm_into_current :: "loaded_mandate \<Rightarrow> vela_mandate" where
  "lm_into_current (CurrentMandate m) = m"
| "lm_into_current (LegacyMandate l) = current_from_legacy_mandate l"

fun lm_is_legacy :: "loaded_mandate \<Rightarrow> bool" where
  "lm_is_legacy (CurrentMandate m) = False"
| "lm_is_legacy (LegacyMandate l) = True"

section \<open>Addresses\<close>

definition mandate_seeds :: "pubkey \<Rightarrow> pubkey \<Rightarrow> u64 \<Rightarrow> u8 list list" where
  "mandate_seeds subscriber merchant index =
     [mandate_seed, key_bytes subscriber, key_bytes merchant, u64_le index]"

definition legacy_mandate_seeds :: "pubkey \<Rightarrow> pubkey \<Rightarrow> u8 list list" where
  "legacy_mandate_seeds subscriber plan = [mandate_seed, key_bytes subscriber, key_bytes plan]"

definition derive_v2_mandate_address :: "env \<Rightarrow> pubkey \<Rightarrow> pubkey \<Rightarrow> u64 \<Rightarrow> pubkey" where
  "derive_v2_mandate_address E subscriber merchant index = pda E (mandate_seeds subscriber merchant index)"

definition derive_legacy_mandate_address :: "env \<Rightarrow> pubkey \<Rightarrow> pubkey \<Rightarrow> pubkey" where
  "derive_legacy_mandate_address E subscriber plan = pda E (legacy_mandate_seeds subscriber plan)"

definition validate_loaded_mandate_address :: "env \<Rightarrow> pubkey \<Rightarrow> loaded_mandate \<Rightarrow> verror + unit" where
  "validate_loaded_mandate_address E k l =
     (let m = lm_into_current l;
          expected_legacy = derive_legacy_mandate_address E (md_subscriber m) (md_plan m)
      in case l of
           LegacyMandate _ \<Rightarrow>
             if k \<noteq> expected_legacy then Inl (Anchor RequireKeysEqViolated) else Inr ()
         | CurrentMandate _ \<Rightarrow>
             let expected_v2 = derive_v2_mandate_address E (md_subscriber m) (md_merchant m) (md_mandate_index m)
             in if k \<noteq> expected_v2 \<and> k \<noteq> expected_legacy then Inl (Program InvalidSeeds) else Inr ())"

section \<open>Loading and writing\<close>

definition load_mandate_account :: "env \<Rightarrow> store \<Rightarrow> pubkey \<Rightarrow> verror + loaded_mandate" where
  "load_mandate_account E s k =
     (if acc_owner (s k) \<noteq> program_id then Inl (Program IncorrectProgramId) else
      let data = acc_data (s k); d = disc E KVelaMandate in
      if length data < length d \<or> \<not> starts_with data d then Inl (Program InvalidAccountData) else
      let legacy =
        (case dec_vela_mandate_v1 (drop (length d) data) of
           None \<Rightarrow> Inl (Program InvalidAccountData)
         | Some (l, rest) \<Rightarrow>
             if rest \<noteq> [] \<and> \<not> has_only_zero_padding rest then Inl (Program InvalidAccountData)
             else Inr (LegacyMandate l))
      in case try_deserialize E KVelaMandate dec_vela_mandate data of
           Some m \<Rightarrow> if md_version m = CURRENT_ACCOUNT_VERSION then Inr (CurrentMandate m) else legacy
         | None \<Rightarrow> legacy)"

definition mandate_billing_period :: "vela_mandate \<Rightarrow> verror + (i64 \<times> i64)" where
  "mandate_billing_period m =
     (case ok_or (i64_try_from_u64 (md_frequency m)) (Vela Overflow) of Inl e \<Rightarrow> Inl e | Inr frequency \<Rightarrow>
     (case ok_or (i64_checked_sub (md_next_payment_due m) frequency) (Vela Overflow) of
        Inl e \<Rightarrow> Inl e | Inr period_start \<Rightarrow>
      Inr (period_start, md_next_payment_due m)))"

definition write_mandate :: "env \<Rightarrow> pubkey \<Rightarrow> vela_mandate \<Rightarrow> bool \<Rightarrow> store \<Rightarrow> verror + store" where
  "write_mandate E k m legacy_layout s =
     (if legacy_layout
      then write_account k (disc E KVelaMandate @ enc_vela_mandate_v1 (legacy_from_current_mandate m)) s
      else write_account k (disc E KVelaMandate @ enc_vela_mandate m) s)"

definition write_mandate_account :: "env \<Rightarrow> pubkey \<Rightarrow> loaded_mandate \<Rightarrow> store \<Rightarrow> verror + store" where
  "write_mandate_account E k l s =
     (case l of
        CurrentMandate m \<Rightarrow> write_mandate E k m False s
      | LegacyMandate m \<Rightarrow> write_mandate E k (current_from_legacy_mandate m) True s)"

lemma legacy_from_current_from_legacy [simp]:
  "legacy_from_current_mandate (current_from_legacy_mandate l) = l"
  by (simp add: legacy_from_current_mandate_def current_from_legacy_mandate_def)

text \<open>
  Legacy bytes followed by zeros never read as a current mandate: the version byte is
  either missing or zero.
\<close>

lemma dec_u64_zeros:
  "dec_u64 (replicate n 0) = (if n < 8 then None else Some (0, replicate (n - 8) 0))"
proof -
  have "of_le_bytes (replicate 8 0) = (0 :: u64)"
    using of_le_bytes_le_bytes [of 8 "0 :: u64"] by (simp add: le_bytes_def map_replicate_const)
  then show ?thesis by (simp add: dec_word_def)
qed

lemma dec_u8_zeros:
  "dec_u8 (replicate n 0) = (if n = 0 then None else Some (0, replicate (n - 1) 0))"
  by (cases n) simp_all

lemma legacy_bytes_not_current:
  assumes "dec_vela_mandate (enc_vela_mandate_v1 l @ replicate n 0) = Some (m, r)"
  shows "md_version m = 0"
  using assms unfolding dec_vela_mandate_def enc_vela_mandate_v1_def
  by (auto simp: dec_u64_zeros dec_u8_zeros bind_eq_Some_conv split: if_splits)

text \<open>
  A mandate that may be stored: a current one carries the current version. A store written
  as legacy loads as legacy, whatever room follows it.
\<close>

definition storable_mandate :: "loaded_mandate \<Rightarrow> bool" where
  "storable_mandate l \<longleftrightarrow>
     (case l of
        CurrentMandate m \<Rightarrow> valid_vela_mandate m \<and> md_version m = CURRENT_ACCOUNT_VERSION
      | LegacyMandate m \<Rightarrow> valid_vela_mandate_v1 m)"

lemma load_written_legacy:
  assumes "write_account k (disc E KVelaMandate @ enc_vela_mandate_v1 l) s = Inr s'"
    "acc_owner (s k) = program_id"
  shows "load_mandate_account E s' k = Inr (LegacyMandate l)"
proof -
  obtain n where data: "acc_data (s' k) = disc E KVelaMandate @ enc_vela_mandate_v1 l @ replicate n 0"
    and owner: "acc_owner (s' k) = program_id"
    using assms by (auto simp: write_account_Inr)
  have cur: "case try_deserialize E KVelaMandate dec_vela_mandate (acc_data (s' k)) of
      None \<Rightarrow> True | Some m \<Rightarrow> md_version m \<noteq> CURRENT_ACCOUNT_VERSION"
    using legacy_bytes_not_current [of l n]
    by (auto simp: data try_deserialize_def CURRENT_ACCOUNT_VERSION_def split: option.split)
  have leg: "dec_vela_mandate_v1 (enc_vela_mandate_v1 l @ replicate n 0) = Some (l, replicate n 0)"
    by (rule vela_mandate_v1_codec.dec_enc) (simp add: valid_vela_mandate_v1_def)
  show ?thesis
    using cur leg by (auto simp: load_mandate_account_def owner data Let_def split: option.splits)
qed

lemma load_written_current:
  assumes "write_account k (disc E KVelaMandate @ enc_vela_mandate m) s = Inr s'"
    "acc_owner (s k) = program_id" "valid_vela_mandate m" "md_version m = CURRENT_ACCOUNT_VERSION"
  shows "load_mandate_account E s' k = Inr (CurrentMandate m)"
  using assms by (auto simp: load_mandate_account_def write_account_Inr Let_def
      vela_mandate_codec.try_deserialize_enc)

interpretation mandate_store: stored_account load_mandate_account write_mandate_account storable_mandate
proof unfold_locales
  show "write_mandate_account E k x s = Inr s' \<Longrightarrow> storable_mandate x \<Longrightarrow> acc_owner (s k) = program_id \<Longrightarrow>
      load_mandate_account E s' k = Inr x" for E k x s s'
    by (cases x; simp only: write_mandate_account_def write_mandate_def loaded_mandate.case
        if_True if_False legacy_from_current_from_legacy)
       (auto simp: storable_mandate_def intro: load_written_legacy load_written_current)
  show "write_mandate_account E k x s = Inr s' \<Longrightarrow> j \<noteq> k \<Longrightarrow> s' j = s j" for E k x s s' j
    by (auto simp: write_mandate_account_def write_mandate_def write_account_Inr split: loaded_mandate.splits)
  show "write_mandate_account E k x s = Inr s' \<Longrightarrow>
      acc_owner (s' k) = acc_owner (s k) \<and> acc_lamports (s' k) = acc_lamports (s k)" for E k x s s'
    by (auto simp: write_mandate_account_def write_mandate_def write_account_Inr split: loaded_mandate.splits)
  show "load_mandate_account E s k = Inr x \<Longrightarrow> storable_mandate x" for E s k x
    by (auto simp: load_mandate_account_def Let_def storable_mandate_def valid_vela_mandate_v1_def
        dest: vela_mandate_codec.try_deserialize_valid split: if_splits option.splits)
  show "load_mandate_account E s k = Inr x \<Longrightarrow> acc_owner (s k) = program_id" for E s k x
    by (auto simp: load_mandate_account_def split: if_splits)
  show "acc_owner (s' k) = acc_owner (s k) \<Longrightarrow> acc_data (s' k) = acc_data (s k) \<Longrightarrow>
      load_mandate_account E s' k = load_mandate_account E s k" for E s s' k
    by (simp add: load_mandate_account_def)
  show "load_mandate_account E' s k = load_mandate_account E s k" if "disc E' = disc E" for E E' s k
    unfolding load_mandate_account_def that try_deserialize_disc [OF that] by (rule refl)
qed

section \<open>Pull approvals\<close>

record pull_approval =
  pa_mandate :: "pubkey"
  pa_period_start :: "i64"
  pa_period_end :: "i64"
  pa_valid_until :: "i64"
  pa_approved :: "bool"
  pa_approved_amount :: "u64"
  pa_created_at :: "i64"
  pa_bump :: "u8"

definition valid_pull_approval :: "pull_approval \<Rightarrow> bool" where
  "valid_pull_approval m \<longleftrightarrow> True"

definition enc_pull_approval :: "pull_approval \<Rightarrow> u8 list" where
  "enc_pull_approval m =
     key_bytes (pa_mandate m) @
     i64_le (pa_period_start m) @
     i64_le (pa_period_end m) @
     i64_le (pa_valid_until m) @
     enc_bool (pa_approved m) @
     u64_le (pa_approved_amount m) @
     i64_le (pa_created_at m) @
     [pa_bump m]"

definition dec_pull_approval :: "pull_approval decoder" where
  "dec_pull_approval bs = do {
     (x_mandate, bs) \<leftarrow> dec_key bs;
     (x_period_start, bs) \<leftarrow> dec_i64 bs;
     (x_period_end, bs) \<leftarrow> dec_i64 bs;
     (x_valid_until, bs) \<leftarrow> dec_i64 bs;
     (x_approved, bs) \<leftarrow> dec_bool bs;
     (x_approved_amount, bs) \<leftarrow> dec_u64 bs;
     (x_created_at, bs) \<leftarrow> dec_i64 bs;
     (x_bump, bs) \<leftarrow> dec_u8 bs;
     Some (\<lparr>pa_mandate = x_mandate,
       pa_period_start = x_period_start,
       pa_period_end = x_period_end,
       pa_valid_until = x_valid_until,
       pa_approved = x_approved,
       pa_approved_amount = x_approved_amount,
       pa_created_at = x_created_at,
       pa_bump = x_bump\<rparr>, bs)
   }"

interpretation pull_approval_codec: fixed_borsh enc_pull_approval dec_pull_approval valid_pull_approval 74
proof unfold_locales
  show "valid_pull_approval x \<Longrightarrow> dec_pull_approval (enc_pull_approval x @ r) = Some (x, r)" for x r
    by (simp add: enc_pull_approval_def dec_pull_approval_def valid_pull_approval_def)
  show "dec_pull_approval bs = Some (x, r) \<Longrightarrow> valid_pull_approval x" for bs x r
    by (simp add: valid_pull_approval_def)
  show "valid_pull_approval x \<Longrightarrow> length (enc_pull_approval x) = 74" for x
    by (simp add: enc_pull_approval_def valid_pull_approval_def)
qed

definition pull_approval_size :: nat where
  "pull_approval_size = 8 + 32 + 8 + 8 + 8 + 1 + 8 + 8 + 1"

definition PULL_APPROVAL_TTL_SECONDS :: int where
  "PULL_APPROVAL_TTL_SECONDS = 3600"

definition AGENT_PULL_APPROVAL_TTL_SECONDS :: int where
  "AGENT_PULL_APPROVAL_TTL_SECONDS = 60"

text \<open>The billing period ends at the due time and is one frequency long.\<close>

lemma mandate_billing_period_Inr:
  "mandate_billing_period m = Inr (a, b) \<longleftrightarrow>
     b = md_next_payment_due m \<and> uint (md_frequency m) < 2 ^ 63 \<and>
     sval a = sval (md_next_payment_due m) - uint (md_frequency m)"
proof -
  have "(\<exists>f. i64_try_from_u64 (md_frequency m) = Some f \<and> i64_checked_sub (md_next_payment_due m) f = Some a)
      \<longleftrightarrow> uint (md_frequency m) < 2 ^ 63 \<and> sval a = sval (md_next_payment_due m) - uint (md_frequency m)"
    (is "?l \<longleftrightarrow> ?r")
  proof
    assume ?l
    then obtain f where f: "sval f = uint (md_frequency m)"
      "sval a = sval (md_next_payment_due m) - sval f"
      by (auto simp: arith_simps)
    then show ?r using sval_range [of f] by simp
  next
    assume r: ?r
    moreover have "0 \<le> uint (md_frequency m)" by (rule uint_nonnegative)
    ultimately have "in_i64 (uint (md_frequency m))" unfolding in_i64_def by linarith
    then have "sval (i64_of (uint (md_frequency m))) = uint (md_frequency m)" by simp
    with r show ?l by (intro exI [of _ "i64_of (uint (md_frequency m))"]) (simp add: arith_simps)
  qed
  then show ?thesis
    by (auto simp: mandate_billing_period_def ok_simps)
qed

end
