(* ===== verification/Transfer_Hook.thy ===== *)
theory Transfer_Hook
  imports Streams Mandates
begin

text \<open>
  The transfer-hook program (\<open>programs/vela-transfer-hook/src/lib.rs\<close>) that Token-2022 runs
  inside every transfer of a wrapped token: its account list, its check of one transfer, and
  what a transfer that it lets through is guaranteed. The instructions that write the list are in
  \<open>Hook_Setup\<close>.
\<close>

section \<open>The extra accounts\<close>

datatype hook_seed = SeedLiteral "u8 list" | SeedAccountKey nat

text \<open>
  An entry of the list: a fixed key, or an address derived by the program at an index from
  seeds that may name other accounts by index; each with its signer and writable flags.
\<close>

datatype extra_account_meta =
    MetaPubkey pubkey bool bool
  | MetaExternalPda nat "hook_seed list" bool bool

definition build_8_slot_account_metas :: "pubkey \<Rightarrow> pubkey \<Rightarrow> pubkey \<Rightarrow> extra_account_meta list" where
  "build_8_slot_account_metas protocol_program vault config =
     [MetaPubkey protocol_program False False,
      MetaPubkey vault False False,
      MetaPubkey config False False,
      MetaExternalPda 5 [SeedLiteral pull_approval_seed, SeedAccountKey 3] False True,
      MetaExternalPda 5 [SeedLiteral token_config_seed, SeedAccountKey 1] False False,
      MetaPubkey system_program_id False False,
      MetaPubkey system_program_id False False,
      MetaPubkey system_program_id False False]"

text \<open>
  How the token program resolves the list, one entry after the other, against the accounts
  of the call so far (source, mint, destination, authority, list account, then the entries
  already resolved).
\<close>

fun resolve_seed :: "pubkey list \<Rightarrow> hook_seed \<Rightarrow> u8 list" where
  "resolve_seed ks (SeedLiteral bs) = bs"
| "resolve_seed ks (SeedAccountKey i) = key_bytes (ks ! i)"

fun resolve_meta :: "env \<Rightarrow> pubkey list \<Rightarrow> extra_account_meta \<Rightarrow> pubkey \<times> bool" where
  "resolve_meta E ks (MetaPubkey k sg w) = (k, w)"
| "resolve_meta E ks (MetaExternalPda p seeds sg w) =
     (fst (find_pda E (map (resolve_seed ks) seeds) (ks ! p)), w)"

fun resolve_metas :: "env \<Rightarrow> pubkey list \<Rightarrow> extra_account_meta list \<Rightarrow> (pubkey \<times> bool) list" where
  "resolve_metas E ks [] = []"
| "resolve_metas E ks (x # xs) =
     (let r = resolve_meta E ks x in r # resolve_metas E (ks @ [fst r]) xs)"

section \<open>Loading the configuration\<close>

definition hook_load_protocol_config :: "env \<Rightarrow> store \<Rightarrow> pubkey \<Rightarrow> verror + protocol_config" where
  "hook_load_protocol_config E s k =
     (if k \<noteq> pda E [protocol_config_seed] then Inl (Vela InvalidProtocolConfig)
      else if acc_owner (s k) \<noteq> program_id then Inl (Vela InvalidProtocolConfig)
      else if data_is_empty (s k) then Inl (Vela InvalidProtocolConfig)
      else ok_or (try_deserialize E KProtocolConfig dec_protocol_config (acc_data (s k)))
             (Vela InvalidProtocolConfig))"

definition hook_load_token_config :: "env \<Rightarrow> store \<Rightarrow> pubkey \<Rightarrow> pubkey \<Rightarrow> verror + token_config" where
  "hook_load_token_config E s k mint =
     (if k \<noteq> pda E [token_config_seed, key_bytes mint] then Inl (Vela TokenNotRegistered)
      else if acc_owner (s k) \<noteq> program_id then Inl (Vela TokenNotRegistered)
      else if data_is_empty (s k) then Inl (Vela TokenNotRegistered)
      else ok_or (try_deserialize E KTokenConfig dec_token_config (acc_data (s k)))
             (Vela TokenNotRegistered))"

section \<open>The check of a transfer\<close>

record hook_accounts =
  th_source_token :: pubkey
  th_mint :: pubkey
  th_destination_token :: pubkey
  th_owner :: pubkey
  th_extra_account_meta_list :: pubkey
  th_protocol_program :: pubkey
  th_wrapping_vault :: pubkey
  th_protocol_config :: pubkey
  th_pull_approval :: pubkey
  th_token_config :: pubkey

text \<open>The streaming branch: a stream may pay what accrued, within its cap.\<close>

definition hook_stream_check :: "stream_mandate \<Rightarrow> i64 \<Rightarrow> u64 \<Rightarrow> verror + unit" where
  "hook_stream_check stream now amount =
     (if st_status stream \<noteq> StreamActive then Inl (Vela StreamNotActive) else
      case ok_or (i64_checked_sub now (st_last_settled_ts stream)) (Vela ClockRegression) of
        Inl e \<Rightarrow> Inl e | Inr elapsed_i64 \<Rightarrow>
      if elapsed_i64 < i64_of 0 then Inl (Vela ClockRegression) else
      if elapsed_i64 < i64_from_u32 (st_min_settle_interval stream)
      then Inl (Vela MinSettleIntervalViolation) else
     (case ok_or (u64_try_from_i64 elapsed_i64) (Vela Overflow) of Inl e \<Rightarrow> Inl e | Inr elapsed \<Rightarrow>
     (case ok_or (checked_mul (ucast elapsed :: u128) (ucast (st_rate_per_second stream))) (Vela Overflow) of
        Inl e \<Rightarrow> Inl e | Inr gross \<Rightarrow>
      if gross < ucast amount then Inl (Vela AmountExceedsStreamRate) else
     (case st_max_streamed stream of
        None \<Rightarrow> Inr ()
      | Some cap \<Rightarrow>
         (case ok_or (checked_add (ucast (st_total_streamed stream) :: u128) (ucast amount)) (Vela Overflow) of
            Inl e \<Rightarrow> Inl e | Inr next_total \<Rightarrow>
          if ucast cap < next_total then Inl (Vela StreamCapExceeded) else Inr ())))))"

text \<open>The approval branch.\<close>

definition hook_approval_check ::
  "env \<Rightarrow> store \<Rightarrow> hook_accounts \<Rightarrow> (i64 \<times> i64) option \<Rightarrow> u64 \<Rightarrow> verror + unit" where
  "hook_approval_check E s c expected_period amount =
     (if th_pull_approval c \<noteq> pda E [pull_approval_seed, key_bytes (th_owner c)]
      then Inl (Vela TransferNotAuthorized) else
      let info = s (th_pull_approval c); data = acc_data info in
      if acc_owner info \<noteq> program_id \<or> data_is_empty info then Inl (Vela TransferNotAuthorized) else
      if length data < 8 then Inl (Vela WrongAccountType) else
      if take 8 data \<noteq> disc E KPullApproval then Inl (Vela WrongAccountType) else
      case ok_or (try_deserialize E KPullApproval dec_pull_approval data) (Vela TransferNotAuthorized) of
        Inl e \<Rightarrow> Inl e | Inr approval \<Rightarrow>
      if pa_mandate approval \<noteq> th_owner c then Inl (Vela TransferNotAuthorized) else
      if \<not> pa_approved approval then Inl (Vela ApprovalNotGranted) else
      if pa_valid_until approval < unix_timestamp E then Inl (Vela ApprovalExpired) else
      if (case expected_period of
            None \<Rightarrow> False
          | Some (period_start, period_end) \<Rightarrow>
              pa_period_start approval \<noteq> period_start \<or> pa_period_end approval \<noteq> period_end)
      then Inl (Vela TransferNotAuthorized) else
      if pa_approved_amount approval < amount then Inl (Vela AmountExceedsPlanAmount) else Inr ())"

text \<open>The checks that do not depend on who owns the source account.\<close>

definition hook_token_checks ::
  "env \<Rightarrow> store \<Rightarrow> hook_accounts \<Rightarrow> verror + (protocol_config \<times> token_config)" where
  "hook_token_checks E s c =
     (case interface_token E s (th_source_token c) of Inl e \<Rightarrow> Inl e | Inr source \<Rightarrow>
     (case interface_mint E s (th_mint c) of Inl e \<Rightarrow> Inl e | Inr _ \<Rightarrow>
     (case interface_token E s (th_destination_token c) of Inl e \<Rightarrow> Inl e | Inr destination \<Rightarrow>
      if th_extra_account_meta_list c \<noteq>
         fst (find_pda E [extra_account_metas_seed, key_bytes (th_mint c)] transfer_hook_program_id)
      then Inl (Anchor ConstraintSeeds) else
      if th_protocol_program c \<noteq> program_id then Inl (Anchor ConstraintAddress) else
     (case hook_load_protocol_config E s (th_protocol_config c) of Inl e \<Rightarrow> Inl e | Inr pc \<Rightarrow>
      if pc_transfer_hook_program_id pc \<noteq> transfer_hook_program_id
      then Inl (Vela InvalidProtocolConfig) else
     (case hook_load_token_config E s (th_token_config c) (th_mint c) of Inl e \<Rightarrow> Inl e | Inr tc \<Rightarrow>
     (case require_all
        [(tk_mint tc = th_mint c, Vela TokenNotRegistered),
         (tk_enabled tc, Vela TokenDisabled),
         (tk_billing_rail tc = TransferHook, Vela InvalidBillingRail),
         (ta_mint source = th_mint c, Vela TransferNotAuthorized),
         (ta_mint destination = th_mint c, Vela TransferNotAuthorized),
         (ta_owner source = th_owner c, Vela TransferNotAuthorized)] of
        Inl e \<Rightarrow> Inl e | Inr _ \<Rightarrow> Inr (pc, tc)))))))"

definition transfer_hook :: "env \<Rightarrow> hook_accounts \<Rightarrow> u64 \<Rightarrow> store \<Rightarrow> verror + unit" where
  "transfer_hook E c amount s =
     (case hook_token_checks E s c of Inl e \<Rightarrow> Inl e | Inr (pc, tc) \<Rightarrow>
      if th_mint c = pc_wrapped_usdc_mint pc \<and> th_wrapping_vault c \<noteq> pc_wrapping_vault pc
      then Inl (Vela VaultMismatch) else
      if th_mint c = pc_wrapped_usdc_mint pc \<and>
         (th_source_token c = pc_wrapping_vault pc \<or> th_destination_token c = pc_wrapping_vault pc)
      then Inr () else
      let owner = s (th_owner c); data = acc_data owner in
      if acc_owner owner \<noteq> program_id then Inr () else
      if data_is_empty owner then hook_approval_check E s c None amount else
      if length data < 8 then Inl (Program InvalidAccountData) else
      if take 8 data = disc E KStreamMandate then
       (case ok_or (try_deserialize E KStreamMandate dec_stream_mandate data) (Vela WrongAccountType) of
          Inl e \<Rightarrow> Inl e | Inr stream \<Rightarrow> hook_stream_check stream (unix_timestamp E) amount) else
      if take 8 data = disc E KVelaMandate then
       (case ok_or (try_deserialize E KVelaMandate dec_vela_mandate data) (Vela WrongAccountType) of
          Inl e \<Rightarrow> Inl e | Inr mandate \<Rightarrow>
       (case mandate_billing_period mandate of Inl e \<Rightarrow> Inl e | Inr period \<Rightarrow>
          hook_approval_check E s c (Some period) amount))
      else hook_approval_check E s c None amount)"

section \<open>The streaming branch accepts what a settlement pays\<close>

lemma u128_add_u64:
  "\<exists>c. checked_add (ucast a :: u128) (ucast b) = Some c \<and> unat c = unat a + unat b" for a b :: u64
proof -
  have "unat a + unat b < 2 ^ 128"
    using unsigned_less [of a, where ?'a = nat] unsigned_less [of b, where ?'a = nat] by simp
  then have "checked_add (ucast a :: u128) (ucast b) = Some (ucast a + ucast b)"
    by (simp add: checked_add_def)
  then show ?thesis by (metis checked_add_Some unat_of_u64)
qed

lemma hook_cap_check:
  "(case st_max_streamed m of
      None \<Rightarrow> Inr ()
    | Some cap \<Rightarrow>
       (case ok_or (checked_add (ucast (st_total_streamed m) :: u128) (ucast amount)) (Vela Overflow) of
          Inl e \<Rightarrow> Inl e | Inr next_total \<Rightarrow>
        if ucast cap < next_total then Inl (Vela StreamCapExceeded) else Inr ())) = Inr () \<longleftrightarrow>
   (case st_max_streamed m of None \<Rightarrow> True
    | Some cap \<Rightarrow> unat (st_total_streamed m) + unat amount \<le> unat cap)" for amount :: u64
proof (cases "st_max_streamed m")
  case (Some cap)
  obtain n where "checked_add (ucast (st_total_streamed m) :: u128) (ucast amount) = Some n"
    "unat n = unat (st_total_streamed m) + unat amount"
    using u128_add_u64 [of "st_total_streamed m" amount] by blast
  with Some show ?thesis by (simp add: word_less_nat_alt not_less)
qed simp

lemma hook_stream_check_accepts:
  "hook_stream_check m now amount = Inr () \<longleftrightarrow>
     st_status m = StreamActive \<and> clock_forward (st_last_settled_ts m) now \<and>
     uint (st_min_settle_interval m) \<le> sval now - sval (st_last_settled_ts m) \<and>
     unat amount \<le> nat (sval now - sval (st_last_settled_ts m)) * unat (st_rate_per_second m) \<and>
     (case st_max_streamed m of None \<Rightarrow> True
      | Some cap \<Rightarrow> unat (st_total_streamed m) + unat amount \<le> unat cap)"
proof (cases "clock_forward (st_last_settled_ts m) now")
  case False
  then show ?thesis
    by (auto simp: hook_stream_check_def ok_simps clock_forward_def less_eq_i64_def less_i64_def
        i64_checked_sub_def in_i64_def)
next
  case True
  then obtain e w where e: "i64_checked_sub now (st_last_settled_ts m) = Some e" "\<not> e < i64_of 0"
    "u64_try_from_i64 e = Some w" and w: "unat w = nat (sval now - sval (st_last_settled_ts m))"
    by (auto simp: clock_forward_def less_eq_i64_def intro: i64_elapsed)
  obtain g where g: "checked_mul (ucast w :: u128) (ucast (st_rate_per_second m)) = Some g"
    "unat g = nat (sval now - sval (st_last_settled_ts m)) * unat (st_rate_per_second m)"
    using u128_mul_u64 [of w "st_rate_per_second m"] w by auto
  have int: "e < i64_from_u32 (st_min_settle_interval m) \<longleftrightarrow>
      \<not> uint (st_min_settle_interval m) \<le> sval now - sval (st_last_settled_ts m)"
    using e(1) by (auto simp: less_i64_def i64_checked_sub_Some)
  have gross: "g < ucast amount \<longleftrightarrow> \<not> unat amount \<le>
      nat (sval now - sval (st_last_settled_ts m)) * unat (st_rate_per_second m)"
    by (simp add: word_less_nat_alt not_le flip: g(2))
  show ?thesis
    using True
    by (simp add: hook_stream_check_def e g(1) int gross if_Inl_Inr hook_cap_check cong: if_cong)
qed

section \<open>Properties\<close>

lemma settlement_accepted:
  assumes "accruing m" "settle_accrued_in_place m now = Inr (a, m')"
  shows "unat a = stream_due m now" "hook_stream_check m now a = Inr ()"
proof -
  from assms(2) have fwd: "clock_forward (st_last_settled_ts m) now"
    and int: "uint (st_min_settle_interval m) \<le> sval now - sval (st_last_settled_ts m)"
    and cap: "cap_respected m" and due: "unat a = stream_due m now"
    by (cases rule: settle_effect; use assms(1) in simp)+
  have fits: "case st_max_streamed m of None \<Rightarrow> True
      | Some cap \<Rightarrow> unat (st_total_streamed m) + unat a \<le> unat cap"
    using cap by (auto simp: due stream_due_def cap_respected_def Let_def word_le_nat_alt split: option.splits)
  show "unat a = stream_due m now" by (rule due)
  show "hook_stream_check m now a = Inr ()"
    using assms(1) fwd int fits stream_due_le [of m now]
    by (simp add: hook_stream_check_accepts accruing_def due)
qed

text \<open>
  C29: The streaming handlers and the transfer hook agree: the amount a settlement pays is
  accepted by the hook's streaming branch, and no larger amount is.
\<close>

theorem settlement_is_largest_accepted:
  assumes "accruing m" "settle_accrued_in_place m now = Inr (a, m')"
  shows "hook_stream_check m now a = Inr () \<and> (hook_stream_check m now b = Inr () \<longrightarrow> b \<le> a)"
proof -
  note a = settlement_accepted [OF assms]
  have "b \<le> a" if "hook_stream_check m now b = Inr ()"
    using that by (auto simp: hook_stream_check_accepts word_le_nat_alt a(1) stream_due_def Let_def split: option.splits)
  with a(2) show ?thesis by blast
qed

theorem settlement_is_largest_accepted_witness:
  "hook_stream_check sample_stream (i64_of 200) 500 = Inr () \<and>
   hook_stream_check sample_stream (i64_of 200) 501 \<noteq> Inr ()"
proof -
  have acc: "accruing sample_stream" by (simp add: accruing_def sample_stream_def)
  have "settle_accrued_in_place sample_stream (i64_of 200) =
      Inr (500, sample_stream\<lparr>st_total_streamed := 500, st_last_settled_ts := i64_of 200\<rparr>)"
    by (simp add: settle_active accruing_def stream_due_def cap_respected_def in_i64_def sample_stream_def)
  from settlement_is_largest_accepted [OF acc this, of 501] show ?thesis by auto
qed

text \<open>What the approval branch demands.\<close>

definition approved_for :: "env \<Rightarrow> store \<Rightarrow> hook_accounts \<Rightarrow> (i64 \<times> i64) option \<Rightarrow> u64 \<Rightarrow> bool" where
  "approved_for E s c period amount \<longleftrightarrow>
     th_pull_approval c = pda E [pull_approval_seed, key_bytes (th_owner c)] \<and>
     acc_owner (s (th_pull_approval c)) = program_id \<and>
     (\<exists>a. try_deserialize E KPullApproval dec_pull_approval (acc_data (s (th_pull_approval c))) = Some a \<and>
        pa_mandate a = th_owner c \<and> pa_approved a \<and> unix_timestamp E \<le> pa_valid_until a \<and>
        (case period of None \<Rightarrow> True | Some p \<Rightarrow> p = (pa_period_start a, pa_period_end a)) \<and>
        amount \<le> pa_approved_amount a)"

lemma hook_approval_check_Inr:
  "hook_approval_check E s c period amount = Inr () \<Longrightarrow> approved_for E s c period amount"
  unfolding hook_approval_check_def approved_for_def
  by (auto simp: ok_simps Let_def not_less split: if_splits option.splits)

text \<open>
  C2: A transfer that the hook lets through, from a source whose authority is an account of
  the protocol and that neither leaves nor enters the wrapping vault, is covered. If the
  authority is a stream, the stream is active, its settlement interval has passed, and the amount is at most the rate
  times the time since the last settlement and fits under the cap. If it is a subscription mandate, there is an
  approval of at least the amount, unexpired, for the mandate and for the billing
  period that ends at its due date; otherwise there is such an approval for the authority.
\<close>

theorem transfer_hook_covers_program_transfers:
  assumes "transfer_hook E c amount s = Inr ()" "acc_owner (s (th_owner c)) = program_id"
    "hook_load_protocol_config E s (th_protocol_config c) = Inr pc"
    "th_source_token c \<noteq> pc_wrapping_vault pc" "th_destination_token c \<noteq> pc_wrapping_vault pc"
  shows
    "if take 8 (acc_data (s (th_owner c))) = disc E KStreamMandate \<and> acc_data (s (th_owner c)) \<noteq> []
     then \<exists>m. try_deserialize E KStreamMandate dec_stream_mandate (acc_data (s (th_owner c))) = Some m \<and>
            st_status m = StreamActive \<and>
            uint (st_min_settle_interval m) \<le> sval (unix_timestamp E) - sval (st_last_settled_ts m) \<and>
            int (unat amount) \<le>
              (sval (unix_timestamp E) - sval (st_last_settled_ts m)) * int (unat (st_rate_per_second m)) \<and>
            (case st_max_streamed m of None \<Rightarrow> True
             | Some cap \<Rightarrow> unat (st_total_streamed m) + unat amount \<le> unat cap)
     else \<exists>a. th_pull_approval c = pda E [pull_approval_seed, key_bytes (th_owner c)] \<and>
            acc_owner (s (th_pull_approval c)) = program_id \<and>
            try_deserialize E KPullApproval dec_pull_approval (acc_data (s (th_pull_approval c))) = Some a \<and>
            pa_mandate a = th_owner c \<and> pa_approved a \<and> unix_timestamp E \<le> pa_valid_until a \<and>
            amount \<le> pa_approved_amount a \<and>
            (take 8 (acc_data (s (th_owner c))) = disc E KVelaMandate \<and> acc_data (s (th_owner c)) \<noteq> [] \<longrightarrow>
              (\<exists>m. try_deserialize E KVelaMandate dec_vela_mandate (acc_data (s (th_owner c))) = Some m \<and>
                 pa_period_end a = md_next_payment_due m \<and>
                 sval (pa_period_start a) = sval (md_next_payment_due m) - uint (md_frequency m)))"
proof -
  let ?d = "acc_data (s (th_owner c))"
  obtain tc where checks: "hook_token_checks E s c = Inr (pc, tc)"
    using assms(1,3) by (auto simp: transfer_hook_def hook_token_checks_def ok_simps split: if_splits)
  have "if take 8 ?d = disc E KStreamMandate \<and> ?d \<noteq> []
     then \<exists>m. try_deserialize E KStreamMandate dec_stream_mandate ?d = Some m \<and> hook_stream_check m (unix_timestamp E) amount = Inr ()
     else if take 8 ?d = disc E KVelaMandate \<and> ?d \<noteq> []
     then \<exists>m p. try_deserialize E KVelaMandate dec_vela_mandate ?d = Some m \<and>
            mandate_billing_period m = Inr p \<and> approved_for E s c (Some p) amount
     else approved_for E s c None amount"
    using assms(1) unfolding transfer_hook_def checks Let_def data_is_empty_def assms(2)
    using assms(4,5)
    by (auto simp: ok_simps intro: hook_approval_check_Inr split: if_splits)
  moreover have "st_status m = StreamActive \<and> uint (st_min_settle_interval m) \<le> sval now - sval (st_last_settled_ts m) \<and>
      int (unat amount) \<le> (sval now - sval (st_last_settled_ts m)) * int (unat (st_rate_per_second m)) \<and>
      (case st_max_streamed m of None \<Rightarrow> True | Some cap \<Rightarrow> unat (st_total_streamed m) + unat amount \<le> unat cap)"
    if h: "hook_stream_check m now amount = Inr ()" for m now
  proof -
    from h have "0 \<le> sval now - sval (st_last_settled_ts m)"
      by (simp add: hook_stream_check_accepts clock_forward_def less_eq_i64_def)
    then have "int (nat (sval now - sval (st_last_settled_ts m)) * unat (st_rate_per_second m)) =
        (sval now - sval (st_last_settled_ts m)) * int (unat (st_rate_per_second m))" by simp
    with h show ?thesis unfolding hook_stream_check_accepts by (metis of_nat_le_iff)
  qed
  moreover have "mandate_billing_period m = Inr p \<Longrightarrow>
      snd p = md_next_payment_due m \<and> sval (fst p) = sval (md_next_payment_due m) - uint (md_frequency m)" for m p
    by (cases p) (auto simp: mandate_billing_period_def ok_simps arith_simps)
  ultimately show ?thesis unfolding approved_for_def by (fastforce split: if_splits)
qed

definition sample_hook_accounts :: hook_accounts where
  "sample_hook_accounts =
     \<lparr>th_source_token = 30, th_mint = 3, th_destination_token = 31, th_owner = 29446,
      th_extra_account_meta_list = 25875, th_protocol_program = program_id, th_wrapping_vault = 33,
      th_protocol_config = 25350, th_pull_approval = 24840, th_token_config = 29708\<rparr>"

theorem transfer_hook_covers_program_transfers_witness:
  "\<exists>m. try_deserialize (sample_env (i64_of 200) []) KStreamMandate dec_stream_mandate
      (acc_data (stream_store_with sample_stream 29446)) = Some m \<and> st_status m = StreamActive \<and>
     500 \<le> (200 - sval (st_last_settled_ts m)) * int (unat (st_rate_per_second m))"
proof -
  let ?E = "sample_env (i64_of 200) []" and ?s = "stream_store_with sample_stream"
  have pc: "hook_load_protocol_config ?E ?s (th_protocol_config sample_hook_accounts) = Inr sample_protocol_config"
    using protocol_config_codec.try_deserialize_enc [of sample_protocol_config ?E KProtocolConfig "[]"]
      sample_config_valid(1)
    by (simp add: hook_load_protocol_config_def sample_hook_accounts_def data_is_empty_def sample_disc_def)
  have tc: "hook_load_token_config ?E ?s (th_token_config sample_hook_accounts) 3 = Inr sample_token_config"
    using sample_token_config_loads [of "i64_of 200" "[]"]
    by (simp add: hook_load_token_config_def sample_hook_accounts_def data_is_empty_def sample_disc_def)
  have m: "try_deserialize ?E KStreamMandate dec_stream_mandate (acc_data (?s 29446)) = Some sample_stream"
    using stream_mandate_codec.try_deserialize_enc [of sample_stream ?E KStreamMandate "replicate 16 0"]
    by simp
  have ok: "hook_stream_check sample_stream (i64_of 200) 500 = Inr ()"
    by (simp add: hook_stream_check_accepts clock_forward_def less_eq_i64_def in_i64_def sample_stream_def)
  have "transfer_hook ?E sample_hook_accounts 500 ?s = Inr ()"
    using pc tc m ok
    by (simp add: transfer_hook_def hook_token_checks_def sample_hook_accounts_def interface_token_def
        interface_mint_def is_token_program_def sample_token_config_def new_token_config_def
        sample_protocol_config_def new_protocol_config_def data_is_empty_def sample_disc_def Let_def)
  from transfer_hook_covers_program_transfers [OF this _ pc]
  have "\<exists>m. try_deserialize ?E KStreamMandate dec_stream_mandate (acc_data (?s 29446)) = Some m \<and> st_status m = StreamActive \<and>
      int (unat (500 :: u64)) \<le> (sval (i64_of 200) - sval (st_last_settled_ts m)) * int (unat (st_rate_per_second m))"
    by (auto simp: sample_hook_accounts_def sample_protocol_config_def new_protocol_config_def sample_disc_def
        simp del: sval_i64_of)
  then show ?thesis by (simp add: in_i64_def)
qed

text \<open>
  The accounts the program appends to a transfer are the ones the hook's account list
  resolves to, in the same order and with the same writable flags, whenever the approval and
  token-configuration accounts are the derived ones.
\<close>

theorem appended_accounts_match_meta_list:
  assumes "tr_protocol_program a = program_id" "tr_system_program a = system_program_id"
    "tr_pull_approval a = pda E [pull_approval_seed, key_bytes (tr_authority a)]"
    "tr_token_config a = pda E [token_config_seed, key_bytes (tr_mint a)]"
  shows "resolve_metas E [tr_source a, tr_mint a, tr_destination a, tr_authority a, tr_extra_account_meta_list a]
      (build_8_slot_account_metas program_id (tr_wrapping_vault a) (tr_protocol_config a)) =
    take 8 (transfer_hook_account_metas a)"
  using assms by (simp add: build_8_slot_account_metas_def transfer_hook_account_metas_def Let_def pda_def)

theorem appended_accounts_match_meta_list_witness:
  "resolve_metas (sample_env (i64_of 0) []) [30, 3, 31, 29446, 25875]
      (build_8_slot_account_metas program_id 33 25350) =
    take 8 (transfer_hook_account_metas (stream_transfer_accounts sample_stream_accounts))"
  using appended_accounts_match_meta_list
    [of "stream_transfer_accounts sample_stream_accounts" "sample_env (i64_of 0) []"]
  by (simp add: stream_transfer_accounts_def sample_stream_accounts_fields)

end
