(* ===== verification/Agents.thy ===== *)
theory Agents
  imports Transfer_Hook
begin

text \<open>
  Agent mandates: a budget an authority gives to an agent, with a daily limit, a lifetime
  cap and a daily limit per service. The state (\<open>state/agent_mandate.rs\<close>), its two layouts
  with loader and writer (\<open>instructions/accounts/agent_mandate_account.rs\<close>), the handlers
  under \<open>instructions/agent_mandates/\<close>. What they guarantee is in \<open>Agent_Limits\<close>.
\<close>

section \<open>The mandate\<close>

record service_limit =
  sl_service :: "pubkey"
  sl_daily_limit :: "u64"
  sl_daily_spent :: "u64"
  sl_last_reset :: "i64"

definition valid_service_limit :: "service_limit \<Rightarrow> bool" where
  "valid_service_limit m \<longleftrightarrow> True"

definition enc_service_limit :: "service_limit \<Rightarrow> u8 list" where
  "enc_service_limit m =
     key_bytes (sl_service m) @
     u64_le (sl_daily_limit m) @
     u64_le (sl_daily_spent m) @
     i64_le (sl_last_reset m)"

definition dec_service_limit :: "service_limit decoder" where
  "dec_service_limit bs = do {
     (x_service, bs) \<leftarrow> dec_key bs;
     (x_daily_limit, bs) \<leftarrow> dec_u64 bs;
     (x_daily_spent, bs) \<leftarrow> dec_u64 bs;
     (x_last_reset, bs) \<leftarrow> dec_i64 bs;
     Some (\<lparr>sl_service = x_service,
       sl_daily_limit = x_daily_limit,
       sl_daily_spent = x_daily_spent,
       sl_last_reset = x_last_reset\<rparr>, bs)
   }"

interpretation service_limit_codec: fixed_borsh enc_service_limit dec_service_limit valid_service_limit 56
proof unfold_locales
  show "valid_service_limit x \<Longrightarrow> dec_service_limit (enc_service_limit x @ r) = Some (x, r)" for x r
    by (simp add: enc_service_limit_def dec_service_limit_def valid_service_limit_def)
  show "dec_service_limit bs = Some (x, r) \<Longrightarrow> valid_service_limit x" for bs x r
    by (simp add: valid_service_limit_def)
  show "valid_service_limit x \<Longrightarrow> length (enc_service_limit x) = 56" for x
    by (simp add: enc_service_limit_def valid_service_limit_def)
qed

datatype agent_status = AgentActive | AgentPaused | AgentRevoked

fun enc_agent_status :: "agent_status \<Rightarrow> u8 list" where
  "enc_agent_status AgentActive = [0]"
| "enc_agent_status AgentPaused = [1]"
| "enc_agent_status AgentRevoked = [2]"

fun dec_agent_status :: "agent_status decoder" where
  "dec_agent_status [] = None"
| "dec_agent_status (b # bs) =
     (if b = 0 then Some (AgentActive, bs) else if b = 1 then Some (AgentPaused, bs) else if b = 2 then Some (AgentRevoked, bs) else None)"

lemma dec_enc_agent_status [simp]: "dec_agent_status (enc_agent_status x @ r) = Some (x, r)"
  by (cases x) simp_all

lemma length_enc_agent_status [simp]: "length (enc_agent_status x) = 1"
  by (cases x) simp_all

lemma dec_vec_service_limit [simp]:
  "length xs < 2 ^ 32 \<Longrightarrow> dec_vec dec_service_limit (enc_vec enc_service_limit xs @ r) = Some (xs, r)"
  by (rule service_limit_codec.dec_vec_enc) (simp_all add: valid_service_limit_def)

lemma dec_vec_service_limit_length [dest]:
  "dec_vec dec_service_limit bs = Some (xs, r) \<Longrightarrow> length xs < 2 ^ 32"
  using service_limit_codec.dec_vec_valid by blast

lemma length_enc_services: "length (enc_vec enc_service_limit xs) = 4 + 56 * length xs"
  by (simp add: enc_vec_def length_enc_seq [where n = 56] service_limit_codec.length_enc valid_service_limit_def)

record agent_mandate =
  ag_authority :: "pubkey"
  ag_agent :: "pubkey"
  ag_daily_limit :: "u64"
  ag_daily_spent :: "u64"
  ag_daily_last_reset :: "i64"
  ag_lifetime_cap :: "u64"
  ag_total_spent :: "u64"
  ag_min_pull_amount :: "u64"
  ag_min_pull_interval :: "i64"
  ag_last_pull_at :: "i64"
  ag_status :: "agent_status"
  ag_services :: "service_limit list"
  ag_bump :: "u8"
  ag_version :: "u8"
  ag_reserved :: "u8 list"

definition valid_agent_mandate :: "agent_mandate \<Rightarrow> bool" where
  "valid_agent_mandate m \<longleftrightarrow> length (ag_services m) < 2 ^ 32 \<and>
     length (ag_reserved m) = 64"

definition enc_agent_mandate :: "agent_mandate \<Rightarrow> u8 list" where
  "enc_agent_mandate m =
     key_bytes (ag_authority m) @
     key_bytes (ag_agent m) @
     u64_le (ag_daily_limit m) @
     u64_le (ag_daily_spent m) @
     i64_le (ag_daily_last_reset m) @
     u64_le (ag_lifetime_cap m) @
     u64_le (ag_total_spent m) @
     u64_le (ag_min_pull_amount m) @
     i64_le (ag_min_pull_interval m) @
     i64_le (ag_last_pull_at m) @
     enc_agent_status (ag_status m) @
     enc_vec enc_service_limit (ag_services m) @
     [ag_bump m] @
     [ag_version m] @
     ag_reserved m"

definition dec_agent_mandate :: "agent_mandate decoder" where
  "dec_agent_mandate bs = do {
     (x_authority, bs) \<leftarrow> dec_key bs;
     (x_agent, bs) \<leftarrow> dec_key bs;
     (x_daily_limit, bs) \<leftarrow> dec_u64 bs;
     (x_daily_spent, bs) \<leftarrow> dec_u64 bs;
     (x_daily_last_reset, bs) \<leftarrow> dec_i64 bs;
     (x_lifetime_cap, bs) \<leftarrow> dec_u64 bs;
     (x_total_spent, bs) \<leftarrow> dec_u64 bs;
     (x_min_pull_amount, bs) \<leftarrow> dec_u64 bs;
     (x_min_pull_interval, bs) \<leftarrow> dec_i64 bs;
     (x_last_pull_at, bs) \<leftarrow> dec_i64 bs;
     (x_status, bs) \<leftarrow> dec_agent_status bs;
     (x_services, bs) \<leftarrow> dec_vec dec_service_limit bs;
     (x_bump, bs) \<leftarrow> dec_u8 bs;
     (x_version, bs) \<leftarrow> dec_u8 bs;
     (x_reserved, bs) \<leftarrow> dec_bytes 64 bs;
     Some (\<lparr>ag_authority = x_authority,
       ag_agent = x_agent,
       ag_daily_limit = x_daily_limit,
       ag_daily_spent = x_daily_spent,
       ag_daily_last_reset = x_daily_last_reset,
       ag_lifetime_cap = x_lifetime_cap,
       ag_total_spent = x_total_spent,
       ag_min_pull_amount = x_min_pull_amount,
       ag_min_pull_interval = x_min_pull_interval,
       ag_last_pull_at = x_last_pull_at,
       ag_status = x_status,
       ag_services = x_services,
       ag_bump = x_bump,
       ag_version = x_version,
       ag_reserved = x_reserved\<rparr>, bs)
   }"

interpretation agent_mandate_codec: borsh enc_agent_mandate dec_agent_mandate valid_agent_mandate
proof unfold_locales
  show "valid_agent_mandate x \<Longrightarrow> dec_agent_mandate (enc_agent_mandate x @ r) = Some (x, r)" for x r
    by (simp add: enc_agent_mandate_def dec_agent_mandate_def valid_agent_mandate_def)
  show "dec_agent_mandate bs = Some (x, r) \<Longrightarrow> valid_agent_mandate x" for bs x r
    unfolding dec_agent_mandate_def by (elim bind_SomeE) (auto simp: valid_agent_mandate_def)
qed

record agent_mandate_v1 =
  agl_authority :: "pubkey"
  agl_agent :: "pubkey"
  agl_daily_limit :: "u64"
  agl_daily_spent :: "u64"
  agl_daily_last_reset :: "i64"
  agl_lifetime_cap :: "u64"
  agl_total_spent :: "u64"
  agl_min_pull_amount :: "u64"
  agl_min_pull_interval :: "i64"
  agl_last_pull_at :: "i64"
  agl_status :: "agent_status"
  agl_services :: "service_limit list"
  agl_bump :: "u8"

definition valid_agent_mandate_v1 :: "agent_mandate_v1 \<Rightarrow> bool" where
  "valid_agent_mandate_v1 m \<longleftrightarrow> length (agl_services m) < 2 ^ 32"

definition enc_agent_mandate_v1 :: "agent_mandate_v1 \<Rightarrow> u8 list" where
  "enc_agent_mandate_v1 m =
     key_bytes (agl_authority m) @
     key_bytes (agl_agent m) @
     u64_le (agl_daily_limit m) @
     u64_le (agl_daily_spent m) @
     i64_le (agl_daily_last_reset m) @
     u64_le (agl_lifetime_cap m) @
     u64_le (agl_total_spent m) @
     u64_le (agl_min_pull_amount m) @
     i64_le (agl_min_pull_interval m) @
     i64_le (agl_last_pull_at m) @
     enc_agent_status (agl_status m) @
     enc_vec enc_service_limit (agl_services m) @
     [agl_bump m]"

definition dec_agent_mandate_v1 :: "agent_mandate_v1 decoder" where
  "dec_agent_mandate_v1 bs = do {
     (x_authority, bs) \<leftarrow> dec_key bs;
     (x_agent, bs) \<leftarrow> dec_key bs;
     (x_daily_limit, bs) \<leftarrow> dec_u64 bs;
     (x_daily_spent, bs) \<leftarrow> dec_u64 bs;
     (x_daily_last_reset, bs) \<leftarrow> dec_i64 bs;
     (x_lifetime_cap, bs) \<leftarrow> dec_u64 bs;
     (x_total_spent, bs) \<leftarrow> dec_u64 bs;
     (x_min_pull_amount, bs) \<leftarrow> dec_u64 bs;
     (x_min_pull_interval, bs) \<leftarrow> dec_i64 bs;
     (x_last_pull_at, bs) \<leftarrow> dec_i64 bs;
     (x_status, bs) \<leftarrow> dec_agent_status bs;
     (x_services, bs) \<leftarrow> dec_vec dec_service_limit bs;
     (x_bump, bs) \<leftarrow> dec_u8 bs;
     Some (\<lparr>agl_authority = x_authority,
       agl_agent = x_agent,
       agl_daily_limit = x_daily_limit,
       agl_daily_spent = x_daily_spent,
       agl_daily_last_reset = x_daily_last_reset,
       agl_lifetime_cap = x_lifetime_cap,
       agl_total_spent = x_total_spent,
       agl_min_pull_amount = x_min_pull_amount,
       agl_min_pull_interval = x_min_pull_interval,
       agl_last_pull_at = x_last_pull_at,
       agl_status = x_status,
       agl_services = x_services,
       agl_bump = x_bump\<rparr>, bs)
   }"

interpretation agent_mandate_v1_codec: borsh enc_agent_mandate_v1 dec_agent_mandate_v1 valid_agent_mandate_v1
proof unfold_locales
  show "valid_agent_mandate_v1 x \<Longrightarrow> dec_agent_mandate_v1 (enc_agent_mandate_v1 x @ r) = Some (x, r)" for x r
    by (simp add: enc_agent_mandate_v1_def dec_agent_mandate_v1_def valid_agent_mandate_v1_def)
  show "dec_agent_mandate_v1 bs = Some (x, r) \<Longrightarrow> valid_agent_mandate_v1 x" for bs x r
    unfolding dec_agent_mandate_v1_def by (elim bind_SomeE) (auto simp: valid_agent_mandate_v1_def)
qed

definition AGENT_MANDATE_MAX_SERVICES :: nat where
  "AGENT_MANDATE_MAX_SERVICES = 8"

definition AGENT_DAILY_RESET_WINDOW_SECONDS :: i64 where
  "AGENT_DAILY_RESET_WINDOW_SECONDS = i64_of 86400"

definition agent_mandate_seed :: "u8 list" where
  "agent_mandate_seed = bytes ''agent-mandate''"

definition agent_mandate_size :: nat where
  "agent_mandate_size =
     8 + (32 + 32 + 8 + 8 + 8 + 8 + 8 + 8 + 8 + 8 + 1 + 1 + 1 + 64) + 4 + (AGENT_MANDATE_MAX_SERVICES * 56)"

definition new_agent_mandate ::
  "pubkey \<Rightarrow> pubkey \<Rightarrow> u64 \<Rightarrow> u64 \<Rightarrow> i64 \<Rightarrow> u64 \<Rightarrow> u64 \<Rightarrow> u64 \<Rightarrow> i64 \<Rightarrow> i64 \<Rightarrow> agent_status \<Rightarrow>
     service_limit list \<Rightarrow> u8 \<Rightarrow> agent_mandate" where
  "new_agent_mandate authority agent daily_limit daily_spent daily_last_reset lifetime_cap total_spent
       min_pull_amount min_pull_interval last_pull_at status services bump =
     \<lparr>ag_authority = authority, ag_agent = agent, ag_daily_limit = daily_limit,
      ag_daily_spent = daily_spent, ag_daily_last_reset = daily_last_reset,
      ag_lifetime_cap = lifetime_cap, ag_total_spent = total_spent,
      ag_min_pull_amount = min_pull_amount, ag_min_pull_interval = min_pull_interval,
      ag_last_pull_at = last_pull_at, ag_status = status, ag_services = services, ag_bump = bump,
      ag_version = CURRENT_ACCOUNT_VERSION, ag_reserved = replicate 64 0\<rparr>"

definition reset_daily_if_needed :: "agent_mandate \<Rightarrow> i64 \<Rightarrow> agent_mandate" where
  "reset_daily_if_needed m now =
     (if AGENT_DAILY_RESET_WINDOW_SECONDS \<le> i64_saturating_sub now (ag_daily_last_reset m)
      then m\<lparr>ag_daily_spent := 0, ag_daily_last_reset := now\<rparr> else m)"

text \<open>\<open>Iterator::position\<close>.\<close>

fun position :: "('a \<Rightarrow> bool) \<Rightarrow> 'a list \<Rightarrow> nat option" where
  "position P [] = None"
| "position P (x # xs) = (if P x then Some 0 else map_option Suc (position P xs))"

definition find_service_index :: "agent_mandate \<Rightarrow> pubkey \<Rightarrow> nat option" where
  "find_service_index m service = position (\<lambda>sl. sl_service sl = service) (ag_services m)"

definition reset_service_daily_if_needed :: "agent_mandate \<Rightarrow> nat \<Rightarrow> i64 \<Rightarrow> agent_mandate" where
  "reset_service_daily_if_needed m i now =
     (if i < length (ag_services m) then
        let sl = ag_services m ! i in
        if AGENT_DAILY_RESET_WINDOW_SECONDS \<le> i64_saturating_sub now (sl_last_reset sl)
        then m\<lparr>ag_services := (ag_services m)[i := sl\<lparr>sl_daily_spent := 0, sl_last_reset := now\<rparr>]\<rparr>
        else m
      else m)"

lemma position_Some:
  "position P xs = Some i \<Longrightarrow> i < length xs \<and> P (xs ! i)"
  by (induction xs arbitrary: i) (auto split: if_splits)

section \<open>The account\<close>

datatype loaded_agent_mandate = LegacyAgent agent_mandate_v1 | CurrentAgent agent_mandate

fun lam_authority :: "loaded_agent_mandate \<Rightarrow> pubkey" where
  "lam_authority (LegacyAgent m) = agl_authority m"
| "lam_authority (CurrentAgent m) = ag_authority m"

fun lam_agent :: "loaded_agent_mandate \<Rightarrow> pubkey" where
  "lam_agent (LegacyAgent m) = agl_agent m"
| "lam_agent (CurrentAgent m) = ag_agent m"

fun lam_is_legacy :: "loaded_agent_mandate \<Rightarrow> bool" where
  "lam_is_legacy (LegacyAgent m) = True"
| "lam_is_legacy (CurrentAgent m) = False"

fun lam_into_current :: "loaded_agent_mandate \<Rightarrow> agent_mandate" where
  "lam_into_current (LegacyAgent m) =
     new_agent_mandate (agl_authority m) (agl_agent m) (agl_daily_limit m) (agl_daily_spent m)
       (agl_daily_last_reset m) (agl_lifetime_cap m) (agl_total_spent m) (agl_min_pull_amount m)
       (agl_min_pull_interval m) (agl_last_pull_at m) (agl_status m) (agl_services m) (agl_bump m)"
| "lam_into_current (CurrentAgent m) = m"

definition validate_agent_mandate_address :: "env \<Rightarrow> pubkey \<Rightarrow> pubkey \<Rightarrow> pubkey \<Rightarrow> verror + unit" where
  "validate_agent_mandate_address E k authority agent =
     (if k \<noteq> pda E [agent_mandate_seed, key_bytes authority, key_bytes agent]
      then Inl (Program InvalidSeeds) else Inr ())"

text \<open>
  The part of \<open>load_agent_mandate\<close> that depends on the account only; the address is checked
  before it and the stored keys after it.
\<close>

definition read_agent_mandate :: "env \<Rightarrow> store \<Rightarrow> pubkey \<Rightarrow> verror + loaded_agent_mandate" where
  "read_agent_mandate E s k =
     (if acc_owner (s k) \<noteq> program_id then Inl (Program IncorrectProgramId) else
      let data = acc_data (s k); d = disc E KAgentMandate in
      if length data < length d \<or> \<not> starts_with data d then Inl (Program InvalidAccountData) else
      case try_deserialize E KAgentMandate dec_agent_mandate data of
        Some m \<Rightarrow>
          if ag_version m \<noteq> CURRENT_ACCOUNT_VERSION then Inl (Program InvalidAccountData)
          else Inr (CurrentAgent m)
      | None \<Rightarrow>
         (case dec_agent_mandate_v1 (drop (length d) data) of
            None \<Rightarrow> Inl (Program InvalidAccountData)
          | Some (legacy, rest) \<Rightarrow>
              if rest \<noteq> [] \<and> \<not> has_only_zero_padding rest then Inl (Program InvalidAccountData)
              else Inr (LegacyAgent legacy)))"

definition load_agent_mandate ::
  "env \<Rightarrow> store \<Rightarrow> pubkey \<Rightarrow> pubkey \<Rightarrow> pubkey \<Rightarrow> verror + loaded_agent_mandate" where
  "load_agent_mandate E s k authority agent =
     (case validate_agent_mandate_address E k authority agent of Inl e \<Rightarrow> Inl e | Inr _ \<Rightarrow>
     (case read_agent_mandate E s k of Inl e \<Rightarrow> Inl e | Inr l \<Rightarrow>
      if lam_authority l \<noteq> authority \<or> lam_agent l \<noteq> agent then Inl (Program InvalidAccountData)
      else Inr l))"

definition legacy_from_agent :: "agent_mandate \<Rightarrow> agent_mandate_v1" where
  "legacy_from_agent m =
     \<lparr>agl_authority = ag_authority m, agl_agent = ag_agent m, agl_daily_limit = ag_daily_limit m,
      agl_daily_spent = ag_daily_spent m, agl_daily_last_reset = ag_daily_last_reset m,
      agl_lifetime_cap = ag_lifetime_cap m, agl_total_spent = ag_total_spent m,
      agl_min_pull_amount = ag_min_pull_amount m, agl_min_pull_interval = ag_min_pull_interval m,
      agl_last_pull_at = ag_last_pull_at m, agl_status = ag_status m, agl_services = ag_services m,
      agl_bump = ag_bump m\<rparr>"

definition write_agent_mandate :: "env \<Rightarrow> pubkey \<Rightarrow> agent_mandate \<Rightarrow> bool \<Rightarrow> store \<Rightarrow> verror + store" where
  "write_agent_mandate E k m legacy_layout s =
     (if legacy_layout
      then write_account k (disc E KAgentMandate @ enc_agent_mandate_v1 (legacy_from_agent m)) s
      else write_account k (disc E KAgentMandate @ enc_agent_mandate m) s)"

definition initialize_agent_mandate ::
  "env \<Rightarrow> pubkey \<Rightarrow> pubkey \<Rightarrow> pubkey \<Rightarrow> pubkey \<Rightarrow> agent_mandate \<Rightarrow> store \<Rightarrow> verror + store" where
  "initialize_agent_mandate E payer k authority agent m s =
     (case validate_agent_mandate_address E k authority agent of Inl e \<Rightarrow> Inl e | Inr _ \<Rightarrow>
     (case invoke E (CreateAccount payer k (minimum_balance E agent_mandate_size) agent_mandate_size program_id)
             [[agent_mandate_seed, key_bytes authority, key_bytes agent, [ag_bump m]]] s of
        Inl e \<Rightarrow> Inl e
      | Inr s1 \<Rightarrow> write_agent_mandate E k m False s1))"

text \<open>The mandates in the current layout, as an account.\<close>

definition current_agent :: "env \<Rightarrow> store \<Rightarrow> pubkey \<Rightarrow> verror + agent_mandate" where
  "current_agent E s k =
     (case read_agent_mandate E s k of
        Inl e \<Rightarrow> Inl e
      | Inr (LegacyAgent l) \<Rightarrow> Inl (Program InvalidAccountData)
      | Inr (CurrentAgent m) \<Rightarrow> Inr m)"

lemma current_agent_Inr: "current_agent E s k = Inr m \<longleftrightarrow> read_agent_mandate E s k = Inr (CurrentAgent m)"
  by (auto simp: current_agent_def split: sum.splits loaded_agent_mandate.splits)

interpretation agent_store: stored_account current_agent "\<lambda>E k m s. write_agent_mandate E k m False s"
  "\<lambda>m. valid_agent_mandate m \<and> ag_version m = CURRENT_ACCOUNT_VERSION"
proof unfold_locales
  show "write_agent_mandate E k x False s = Inr s' \<Longrightarrow>
      valid_agent_mandate x \<and> ag_version x = CURRENT_ACCOUNT_VERSION \<Longrightarrow>
      acc_owner (s k) = program_id \<Longrightarrow> current_agent E s' k = Inr x" for E k x s s'
    by (auto simp: write_agent_mandate_def current_agent_Inr read_agent_mandate_def write_account_Inr Let_def
        agent_mandate_codec.try_deserialize_enc)
  show "write_agent_mandate E k x False s = Inr s' \<Longrightarrow> j \<noteq> k \<Longrightarrow> s' j = s j" for E k x s s' j
    by (auto simp: write_agent_mandate_def write_account_Inr)
  show "write_agent_mandate E k x False s = Inr s' \<Longrightarrow>
      acc_owner (s' k) = acc_owner (s k) \<and> acc_lamports (s' k) = acc_lamports (s k)" for E k x s s'
    by (auto simp: write_agent_mandate_def write_account_Inr)
  show "current_agent E s k = Inr x \<Longrightarrow>
      valid_agent_mandate x \<and> ag_version x = CURRENT_ACCOUNT_VERSION" for E s k x
    by (auto simp: current_agent_Inr read_agent_mandate_def Let_def
        dest: agent_mandate_codec.try_deserialize_valid split: if_splits option.splits)
  show "current_agent E s k = Inr x \<Longrightarrow> acc_owner (s k) = program_id" for E s k x
    by (auto simp: current_agent_Inr read_agent_mandate_def split: if_splits)
  show "acc_owner (s' k) = acc_owner (s k) \<Longrightarrow> acc_data (s' k) = acc_data (s k) \<Longrightarrow>
      current_agent E s' k = current_agent E s k" for E s s' k
    by (simp add: current_agent_def read_agent_mandate_def)
  show "current_agent E' s k = current_agent E s k" if "disc E' = disc E" for E E' s k
    unfolding current_agent_def read_agent_mandate_def that try_deserialize_disc [OF that] by (rule refl)
qed

text \<open>
  Legacy bytes followed by zeros: with 65 zeros or more they also decode as a current
  mandate, of version 0, which the loader refuses.
\<close>

lemma dec_agent_legacy_bytes:
  "valid_agent_mandate_v1 l \<Longrightarrow>
     dec_agent_mandate (enc_agent_mandate_v1 l @ replicate n 0) =
       (if n < 65 then None
        else Some ((lam_into_current (LegacyAgent l))\<lparr>ag_version := 0\<rparr>, replicate (n - 65) 0))"
  by (cases n)
    (auto simp: dec_agent_mandate_def enc_agent_mandate_v1_def valid_agent_mandate_v1_def
      dec_u8_zeros dec_bytes_def new_agent_mandate_def)

lemma read_agent_legacy_bytes:
  assumes "valid_agent_mandate_v1 l" "acc_owner (s k) = program_id"
    "acc_data (s k) = disc E KAgentMandate @ enc_agent_mandate_v1 l @ replicate n 0"
  shows "read_agent_mandate E s k =
    (if n < 65 then Inr (LegacyAgent l) else Inl (Program InvalidAccountData))"
  using assms
  by (simp add: read_agent_mandate_def Let_def try_deserialize_def dec_agent_legacy_bytes
      agent_mandate_v1_codec.dec_enc CURRENT_ACCOUNT_VERSION_def)

section \<open>Handlers\<close>

record agent_accounts =
  aa_authority :: pubkey
  aa_agent :: pubkey
  aa_agent_mandate :: pubkey

datatype agent_event =
    AgentMandateCreated pubkey pubkey pubkey u64 u64 u8 u64 u64
  | AgentPullExecuted pubkey pubkey pubkey pubkey u64 u64 u64 u64
  | AgentMandateAdjusted pubkey pubkey pubkey u64 u64 u64 i64 u64 u64 u64
  | AgentMandatePaused pubkey pubkey pubkey u64 u64
  | AgentMandateResumed pubkey pubkey pubkey u64 u64
  | AgentMandateRevoked pubkey pubkey pubkey u64 u64 u64
  | AgentMandateDrained pubkey pubkey pubkey agent_status u64 u64 u64

definition agent_seeds :: "'a agent_accounts_scheme \<Rightarrow> u8 list list" where
  "agent_seeds c = [agent_mandate_seed, key_bytes (aa_authority c), key_bytes (aa_agent c)]"

definition agent_constraints :: "env \<Rightarrow> 'a agent_accounts_scheme \<Rightarrow> (bool \<times> verror) list" where
  "agent_constraints E c =
     [(is_signer E (aa_authority c), Anchor AccountNotSigner),
      (aa_agent_mandate c = pda E (agent_seeds c), Anchor ConstraintSeeds)]"

text \<open>
  The authority's handlers load the mandate, compare its authority with the signer and hand
  on whether it has the legacy layout.
\<close>

definition authority_mandate ::
  "env \<Rightarrow> 'a agent_accounts_scheme \<Rightarrow> store \<Rightarrow> verror + (bool \<times> agent_mandate)" where
  "authority_mandate E c s =
     (case load_agent_mandate E s (aa_agent_mandate c) (aa_authority c) (aa_agent c) of
        Inl e \<Rightarrow> Inl e | Inr loaded \<Rightarrow>
      if lam_authority loaded \<noteq> aa_authority c then Inl (Vela UnauthorizedAgentMandateAuthority)
      else Inr (lam_is_legacy loaded, lam_into_current loaded))"

definition pause_agent_mandate ::
  "env \<Rightarrow> agent_accounts \<Rightarrow> store \<Rightarrow> verror + (store \<times> agent_event list)" where
  "pause_agent_mandate E c s =
     (case require_all (agent_constraints E c) of Inl e \<Rightarrow> Inl e | Inr _ \<Rightarrow>
     (case authority_mandate E c s of Inl e \<Rightarrow> Inl e | Inr (legacy_layout, mandate) \<Rightarrow>
      if ag_status mandate \<noteq> AgentActive then Inl (Vela InvalidAgentMandateStatusTransition) else
      let mandate = mandate\<lparr>ag_status := AgentPaused\<rparr> in
     (case write_agent_mandate E (aa_agent_mandate c) mandate legacy_layout s of
        Inl e \<Rightarrow> Inl e | Inr s1 \<Rightarrow>
      Inr (s1, [AgentMandatePaused (aa_agent_mandate c) (ag_authority mandate) (ag_agent mandate)
                  (ag_daily_spent mandate) (ag_total_spent mandate)]))))"

definition resume_agent_mandate ::
  "env \<Rightarrow> agent_accounts \<Rightarrow> store \<Rightarrow> verror + (store \<times> agent_event list)" where
  "resume_agent_mandate E c s =
     (case require_all (agent_constraints E c) of Inl e \<Rightarrow> Inl e | Inr _ \<Rightarrow>
     (case authority_mandate E c s of Inl e \<Rightarrow> Inl e | Inr (legacy_layout, mandate) \<Rightarrow>
      if ag_status mandate \<noteq> AgentPaused then Inl (Vela InvalidAgentMandateStatusTransition) else
      let mandate = mandate\<lparr>ag_status := AgentActive\<rparr> in
     (case write_agent_mandate E (aa_agent_mandate c) mandate legacy_layout s of
        Inl e \<Rightarrow> Inl e | Inr s1 \<Rightarrow>
      Inr (s1, [AgentMandateResumed (aa_agent_mandate c) (ag_authority mandate) (ag_agent mandate)
                  (ag_daily_spent mandate) (ag_total_spent mandate)]))))"

text \<open>Adjusting: the new limits may not be below what is already spent.\<close>

record service_limit_input =
  si_service :: pubkey
  si_daily_limit :: u64

fun services_distinct :: "service_limit_input list \<Rightarrow> bool" where
  "services_distinct [] = True"
| "services_distinct (x # xs) =
     (list_all (\<lambda>y. si_service x \<noteq> si_service y) xs \<and> services_distinct xs)"

fun adjust_services ::
  "service_limit list \<Rightarrow> i64 \<Rightarrow> service_limit_input list \<Rightarrow> verror + service_limit list" where
  "adjust_services current now [] = Inr []"
| "adjust_services current now (x # xs) =
     (let (daily_spent, last_reset) =
            (case find (\<lambda>sl. sl_service sl = si_service x) current of
               Some sl \<Rightarrow> (sl_daily_spent sl, sl_last_reset sl) | None \<Rightarrow> (0, now)) in
      if si_daily_limit x < daily_spent then Inl (Vela InvalidAmount) else
      case adjust_services current now xs of Inl e \<Rightarrow> Inl e | Inr rest \<Rightarrow>
      Inr (\<lparr>sl_service = si_service x, sl_daily_limit = si_daily_limit x,
            sl_daily_spent = daily_spent, sl_last_reset = last_reset\<rparr> # rest))"

definition adjust_mandate ::
  "agent_mandate \<Rightarrow> u64 option \<Rightarrow> u64 option \<Rightarrow> u64 option \<Rightarrow> i64 option \<Rightarrow>
     service_limit_input list option \<Rightarrow> i64 \<Rightarrow> verror + agent_mandate" where
  "adjust_mandate m daily_limit lifetime_cap min_pull_amount min_pull_interval services now =
     (case (case daily_limit of None \<Rightarrow> Inr m
            | Some x \<Rightarrow> if x < ag_daily_spent m then Inl (Vela InvalidAmount)
                        else Inr (m\<lparr>ag_daily_limit := x\<rparr>)) of Inl e \<Rightarrow> Inl e | Inr m \<Rightarrow>
     (case (case lifetime_cap of None \<Rightarrow> Inr m
            | Some x \<Rightarrow> if x < ag_total_spent m then Inl (Vela InvalidAmount)
                        else Inr (m\<lparr>ag_lifetime_cap := x\<rparr>)) of Inl e \<Rightarrow> Inl e | Inr m \<Rightarrow>
      let m = (case min_pull_amount of None \<Rightarrow> m | Some x \<Rightarrow> m\<lparr>ag_min_pull_amount := x\<rparr>) in
     (case (case min_pull_interval of None \<Rightarrow> Inr m
            | Some x \<Rightarrow> if x < i64_of 0 then Inl (Vela InvalidFrequency)
                        else Inr (m\<lparr>ag_min_pull_interval := x\<rparr>)) of Inl e \<Rightarrow> Inl e | Inr m \<Rightarrow>
     (case services of None \<Rightarrow> Inr m
      | Some next_services \<Rightarrow>
          if AGENT_MANDATE_MAX_SERVICES < length next_services then Inl (Vela TooManyServices) else
          if \<not> services_distinct next_services then Inl (Vela DuplicateService) else
         (case adjust_services (ag_services m) now next_services of
            Inl e \<Rightarrow> Inl e | Inr updated \<Rightarrow> Inr (m\<lparr>ag_services := updated\<rparr>))))))"

text \<open>Constraints on a wrapped token account and the classic token accounts.\<close>

definition token_constraints ::
  "store \<Rightarrow> pubkey \<Rightarrow> token_account \<Rightarrow> pubkey \<Rightarrow> pubkey \<Rightarrow> pubkey \<Rightarrow> (bool \<times> verror) list" where
  "token_constraints s k tok mint authority token_program =
     [(ta_mint tok = mint, Anchor ConstraintTokenMint),
      (ta_owner tok = authority, Anchor ConstraintTokenOwner),
      (acc_owner (s k) = token_program, Anchor ConstraintTokenProgram)]"

definition spl_token :: "env \<Rightarrow> store \<Rightarrow> pubkey \<Rightarrow> verror + token_account" where
  "spl_token E s k =
     (if acc_owner (s k) \<noteq> token_id E then Inl (Anchor AccountOwnedByWrongProgram)
      else ok_or (unpack_token E (acc_data (s k))) (Program InvalidAccountData))"

definition spl_mint :: "env \<Rightarrow> store \<Rightarrow> pubkey \<Rightarrow> verror + mint" where
  "spl_mint E s k =
     (if acc_owner (s k) \<noteq> token_id E then Inl (Anchor AccountOwnedByWrongProgram)
      else ok_or (unpack_mint E (acc_data (s k))) (Program InvalidAccountData))"

record agent_adjust_accounts = agent_accounts +
  ad_mandate_wrapped_account :: pubkey
  ad_wrapped_usdc_mint :: pubkey
  ad_protocol_config :: pubkey
  ad_token_2022_program :: pubkey

definition adjust_agent_mandate ::
  "env \<Rightarrow> agent_adjust_accounts \<Rightarrow> u64 option \<Rightarrow> u64 option \<Rightarrow> u64 option \<Rightarrow> i64 option \<Rightarrow>
     service_limit_input list option \<Rightarrow> store \<Rightarrow> verror + (store \<times> agent_event list)" where
  "adjust_agent_mandate E c daily_limit lifetime_cap min_pull_amount min_pull_interval services s =
     (case interface_token E s (ad_mandate_wrapped_account c) of Inl e \<Rightarrow> Inl e | Inr wrapped \<Rightarrow>
     (case interface_mint E s (ad_wrapped_usdc_mint c) of Inl e \<Rightarrow> Inl e | Inr _ \<Rightarrow>
     (case anchor_account E KProtocolConfig dec_protocol_config s (ad_protocol_config c) of
        Inl e \<Rightarrow> Inl e | Inr pc \<Rightarrow>
     (case require_all (agent_constraints E c @
         token_constraints s (ad_mandate_wrapped_account c) wrapped (ad_wrapped_usdc_mint c)
           (aa_agent_mandate c) (ad_token_2022_program c) @
         [(ad_wrapped_usdc_mint c = pc_wrapped_usdc_mint pc, Anchor ConstraintAddress),
          (create_address E [protocol_config_seed, [pc_bump pc]] program_id =
             Some (ad_protocol_config c), Anchor ConstraintSeeds),
          (ad_token_2022_program c = token_2022_id E, Anchor InvalidProgramId),
          (daily_limit \<noteq> None \<or> lifetime_cap \<noteq> None \<or> min_pull_amount \<noteq> None \<or>
             min_pull_interval \<noteq> None \<or> services \<noteq> None, Vela NoUpdateProvided)]) of
        Inl e \<Rightarrow> Inl e | Inr _ \<Rightarrow>
     (case authority_mandate E c s of Inl e \<Rightarrow> Inl e | Inr (legacy_layout, mandate) \<Rightarrow>
      if ag_status mandate = AgentRevoked then Inl (Vela InvalidAgentMandateStatusTransition) else
     (case adjust_mandate mandate daily_limit lifetime_cap min_pull_amount min_pull_interval services
             (unix_timestamp E) of Inl e \<Rightarrow> Inl e | Inr mandate \<Rightarrow>
     (case write_agent_mandate E (aa_agent_mandate c) mandate legacy_layout s of
        Inl e \<Rightarrow> Inl e | Inr s1 \<Rightarrow>
      Inr (s1, [AgentMandateAdjusted (aa_agent_mandate c) (ag_authority mandate) (ag_agent mandate)
                  (ag_daily_limit mandate) (ag_lifetime_cap mandate) (ag_min_pull_amount mandate)
                  (ag_min_pull_interval mandate) (ag_daily_spent mandate) (ag_total_spent mandate)
                  (ta_amount wrapped)]))))))))"

text \<open>
  Pulling. The first block computes the three new totals or refuses; the handler then leaves
  an approval for the transfer hook, transfers, closes the approval and stores the totals.
\<close>

definition agent_pull_amounts ::
  "agent_mandate \<Rightarrow> nat \<Rightarrow> u64 \<Rightarrow> i64 \<Rightarrow> verror + (u64 \<times> u64 \<times> u64)" where
  "agent_pull_amounts m i amount now =
     (case ok_or (if i < length (ag_services m) then Some (ag_services m ! i) else None)
             (Vela UnauthorizedService) of Inl e \<Rightarrow> Inl e | Inr sl \<Rightarrow>
     (case ok_or (checked_add (sl_daily_spent sl) amount) (Vela Overflow) of
        Inl e \<Rightarrow> Inl e | Inr next_service_spent \<Rightarrow>
      if sl_daily_limit sl < next_service_spent then Inl (Vela ServiceDailyLimitExceeded) else
     (case ok_or (checked_add (ag_daily_spent m) amount) (Vela Overflow) of
        Inl e \<Rightarrow> Inl e | Inr next_daily_spent \<Rightarrow>
      if ag_daily_limit m < next_daily_spent then Inl (Vela DailyLimitExceeded) else
     (case ok_or (checked_add (ag_total_spent m) amount) (Vela Overflow) of
        Inl e \<Rightarrow> Inl e | Inr next_total_spent \<Rightarrow>
      if ag_lifetime_cap m < next_total_spent then Inl (Vela LifetimeCapExceeded) else
      if amount < ag_min_pull_amount m then Inl (Vela PullAmountTooSmall) else
      if i64_of 0 < ag_last_pull_at m \<and> i64_of 0 < ag_min_pull_interval m \<and>
         i64_saturating_sub now (ag_last_pull_at m) < ag_min_pull_interval m
      then Inl (Vela PullCooldownActive) else
      Inr (next_service_spent, next_daily_spent, next_total_spent)))))"

definition charge_agent ::
  "agent_mandate \<Rightarrow> nat \<Rightarrow> u64 \<times> u64 \<times> u64 \<Rightarrow> i64 \<Rightarrow> verror + agent_mandate" where
  "charge_agent m i next now =
     (case next of (next_service_spent, next_daily_spent, next_total_spent) \<Rightarrow>
      if i < length (ag_services m)
      then Inr (m\<lparr>ag_services := (ag_services m)[i := (ag_services m ! i)\<lparr>sl_daily_spent := next_service_spent\<rparr>],
                  ag_daily_spent := next_daily_spent, ag_total_spent := next_total_spent,
                  ag_last_pull_at := now\<rparr>)
      else Inl (Vela UnauthorizedService))"

record agent_pull_accounts = agent_accounts +
  ap_payer :: pubkey
  ap_mandate_wrapped_account :: pubkey
  ap_service_wrapped_account :: pubkey
  ap_pull_approval :: pubkey
  ap_token_config :: pubkey
  ap_wrapped_usdc_mint :: pubkey
  ap_protocol_config :: pubkey
  ap_wrapping_vault :: pubkey
  ap_hook_program :: pubkey
  ap_extra_account_meta_list :: pubkey
  ap_protocol_program :: pubkey
  ap_token_2022_program :: pubkey
  ap_system_program :: pubkey

definition agent_approval_seeds :: "pubkey \<Rightarrow> u8 list list" where
  "agent_approval_seeds mandate = [pull_approval_seed, key_bytes mandate]"

definition agent_pull_context ::
  "env \<Rightarrow> agent_pull_accounts \<Rightarrow> store \<Rightarrow>
     verror + (token_account \<times> token_account \<times> protocol_config \<times> u8 \<times> store)" where
  "agent_pull_context E c s =
     (case interface_token E s (ap_mandate_wrapped_account c) of Inl e \<Rightarrow> Inl e | Inr wrapped \<Rightarrow>
     (case interface_token E s (ap_service_wrapped_account c) of Inl e \<Rightarrow> Inl e | Inr service \<Rightarrow>
     (case interface_mint E s (ap_wrapped_usdc_mint c) of Inl e \<Rightarrow> Inl e | Inr _ \<Rightarrow>
     (case anchor_account E KProtocolConfig dec_protocol_config s (ap_protocol_config c) of
        Inl e \<Rightarrow> Inl e | Inr pc \<Rightarrow>
     (case spl_token E s (ap_wrapping_vault c) of Inl e \<Rightarrow> Inl e | Inr _ \<Rightarrow>
     (let bump = snd (find_pda E (agent_approval_seeds (aa_agent_mandate c)) program_id) in
      case invoke E (InitAccount (ap_payer c) (ap_pull_approval c) (minimum_balance E pull_approval_size)
                       pull_approval_size program_id)
             [agent_approval_seeds (aa_agent_mandate c) @ [[bump]]] s of Inl e \<Rightarrow> Inl e | Inr s0 \<Rightarrow>
     (case require_all (
         [(is_signer E (ap_payer c), Anchor AccountNotSigner),
          (is_signer E (aa_agent c), Anchor AccountNotSigner),
          (aa_agent_mandate c = pda E (agent_seeds c), Anchor ConstraintSeeds)] @
         token_constraints s (ap_mandate_wrapped_account c) wrapped (ap_wrapped_usdc_mint c)
           (aa_agent_mandate c) (ap_token_2022_program c) @
         [(ta_mint service = ap_wrapped_usdc_mint c, Anchor ConstraintTokenMint),
          (acc_owner (s (ap_service_wrapped_account c)) = ap_token_2022_program c,
             Anchor ConstraintTokenProgram),
          (ap_pull_approval c = pda E (agent_approval_seeds (aa_agent_mandate c)), Anchor ConstraintSeeds),
          (ap_wrapped_usdc_mint c = pc_wrapped_usdc_mint pc, Anchor ConstraintAddress),
          (create_address E [protocol_config_seed, [pc_bump pc]] program_id =
             Some (ap_protocol_config c), Anchor ConstraintSeeds),
          (ap_wrapping_vault c = pc_wrapping_vault pc, Anchor ConstraintAddress),
          (ap_extra_account_meta_list c =
             fst (find_pda E [extra_account_metas_seed, key_bytes (ap_wrapped_usdc_mint c)] (ap_hook_program c)),
           Anchor ConstraintSeeds),
          (ap_protocol_program c = program_id, Anchor ConstraintAddress),
          (ap_token_2022_program c = token_2022_id E, Anchor InvalidProgramId),
          (ap_system_program c = system_program_id, Anchor InvalidProgramId)]) of
        Inl e \<Rightarrow> Inl e | Inr _ \<Rightarrow> Inr (wrapped, service, pc, bump, s0))))))))"

definition agent_transfer_accounts :: "agent_pull_accounts \<Rightarrow> transfer_accounts" where
  "agent_transfer_accounts c =
     \<lparr>tr_source = ap_mandate_wrapped_account c, tr_mint = ap_wrapped_usdc_mint c,
      tr_destination = ap_service_wrapped_account c, tr_authority = aa_agent_mandate c,
      tr_protocol_program = ap_protocol_program c, tr_wrapping_vault = ap_wrapping_vault c,
      tr_protocol_config = ap_protocol_config c, tr_pull_approval = ap_pull_approval c,
      tr_token_config = ap_token_config c, tr_system_program = ap_system_program c,
      tr_extra_account_meta_list = ap_extra_account_meta_list c,
      tr_hook_program = ap_hook_program c, tr_token_2022_program = ap_token_2022_program c\<rparr>"

definition USDC_DECIMALS :: u8 where
  "USDC_DECIMALS = 6"

definition agent_pull ::
  "env \<Rightarrow> agent_pull_accounts \<Rightarrow> u64 \<Rightarrow> store \<Rightarrow> verror + (store \<times> agent_event list)" where
  "agent_pull E c amount s =
     (case agent_pull_context E c s of Inl e \<Rightarrow> Inl e
      | Inr (wrapped, service_account, pc, approval_bump, s0) \<Rightarrow>
     (case load_agent_mandate E s0 (aa_agent_mandate c) (aa_authority c) (aa_agent c) of
        Inl e \<Rightarrow> Inl e | Inr loaded \<Rightarrow>
      let legacy_layout = lam_is_legacy loaded; mandate = lam_into_current loaded;
          now = unix_timestamp E in
      if ag_status mandate = AgentPaused then Inl (Vela MandatePaused) else
      if ag_status mandate = AgentRevoked then Inl (Vela MandateRevoked) else
     (case require_all
         [(\<not> pc_paused pc, Vela ProtocolPaused),
          (pc_transfer_hook_program_id pc \<noteq> default_key, Vela InvalidProtocolConfig),
          (ap_hook_program c = pc_transfer_hook_program_id pc, Vela InvalidProtocolConfig)] of
        Inl e \<Rightarrow> Inl e | Inr _ \<Rightarrow>
      let service = ta_owner service_account in
     (case ok_or (find_service_index mandate service) (Vela UnauthorizedService) of
        Inl e \<Rightarrow> Inl e | Inr service_index \<Rightarrow>
      let mandate = reset_service_daily_if_needed mandate service_index now;
          mandate = reset_daily_if_needed mandate now in
     (case agent_pull_amounts mandate service_index amount now of Inl e \<Rightarrow> Inl e | Inr next \<Rightarrow>
      if ta_amount wrapped < amount then Inl (Vela InsufficientMandateBalance) else
     (case ok_or (i64_checked_add now (i64_of AGENT_PULL_APPROVAL_TTL_SECONDS)) (Vela Overflow) of
        Inl e \<Rightarrow> Inl e | Inr valid_until \<Rightarrow>
      let approval =
            \<lparr>pa_mandate = aa_agent_mandate c, pa_period_start = i64_of 0, pa_period_end = i64_of 0,
             pa_valid_until = valid_until, pa_approved = True, pa_approved_amount = amount,
             pa_created_at = now, pa_bump = approval_bump\<rparr> in
     (case anchor_exit (ap_pull_approval c) (disc E KPullApproval @ enc_pull_approval approval) s0 of
        Inl e \<Rightarrow> Inl e | Inr s1 \<Rightarrow>
     (case invoke_transfer_checked_with_hook E (agent_transfer_accounts c) amount USDC_DECIMALS
             [agent_seeds c @ [[ag_bump mandate]]] s1 of Inl e \<Rightarrow> Inl e | Inr s2 \<Rightarrow>
     (case close_program_account (ap_pull_approval c) (ap_payer c) s2 of Inl e \<Rightarrow> Inl e | Inr s3 \<Rightarrow>
     (case charge_agent mandate service_index next now of Inl e \<Rightarrow> Inl e | Inr mandate \<Rightarrow>
     (case write_agent_mandate E (aa_agent_mandate c) mandate legacy_layout s3 of
        Inl e \<Rightarrow> Inl e | Inr s4 \<Rightarrow>
     (case interface_token E s4 (ap_mandate_wrapped_account c) of Inl e \<Rightarrow> Inl e | Inr reloaded \<Rightarrow>
      Inr (s4, [AgentPullExecuted (aa_agent_mandate c) (ag_authority mandate) (ag_agent mandate) service
                  amount (ag_daily_spent mandate) (ag_total_spent mandate) (ta_amount reloaded)])))))))))))))"

text \<open>
  Revoking and draining burn the mandate's wrapped balance and release the same amount of
  USDC from the vault to the authority; the two handlers contain the same calls.
\<close>

record agent_fund_accounts = agent_accounts +
  af_mandate_wrapped_account :: pubkey
  af_authority_usdc_account :: pubkey
  af_wrapped_usdc_mint :: pubkey
  af_protocol_config :: pubkey
  af_spl_usdc_mint :: pubkey
  af_wrapping_vault :: pubkey
  af_mint_authority :: pubkey
  af_spl_token_program :: pubkey
  af_token_2022_program :: pubkey

definition agent_fund_constraints ::
  "env \<Rightarrow> 'a agent_fund_accounts_scheme \<Rightarrow> token_account \<Rightarrow> protocol_config \<Rightarrow> token_account \<Rightarrow>
     (bool \<times> verror) list" where
  "agent_fund_constraints E c usdc pc vault =
     [(ta_owner usdc = aa_authority c, Anchor ConstraintRaw),
      (ta_mint usdc = af_spl_usdc_mint c, Vela UsdcMintMismatch),
      (af_wrapped_usdc_mint c = pc_wrapped_usdc_mint pc, Anchor ConstraintAddress),
      (create_address E [protocol_config_seed, [pc_bump pc]] program_id =
         Some (af_protocol_config c), Anchor ConstraintSeeds),
      (af_wrapping_vault c = pc_wrapping_vault pc, Anchor ConstraintAddress),
      (ta_mint vault = af_spl_usdc_mint c, Vela UsdcMintMismatch),
      (ta_owner vault = af_mint_authority c, Vela VaultMismatch),
      (af_mint_authority c = pda E [mint_authority_seed], Anchor ConstraintSeeds),
      (af_spl_token_program c = token_id E, Anchor InvalidProgramId),
      (af_token_2022_program c = token_2022_id E, Anchor InvalidProgramId)]"

definition agent_fund_context ::
  "env \<Rightarrow> agent_fund_accounts \<Rightarrow> store \<Rightarrow> verror + token_account" where
  "agent_fund_context E c s =
     (case interface_token E s (af_mandate_wrapped_account c) of Inl e \<Rightarrow> Inl e | Inr wrapped \<Rightarrow>
     (case spl_token E s (af_authority_usdc_account c) of Inl e \<Rightarrow> Inl e | Inr usdc \<Rightarrow>
     (case interface_mint E s (af_wrapped_usdc_mint c) of Inl e \<Rightarrow> Inl e | Inr _ \<Rightarrow>
     (case anchor_account E KProtocolConfig dec_protocol_config s (af_protocol_config c) of
        Inl e \<Rightarrow> Inl e | Inr pc \<Rightarrow>
     (case spl_mint E s (af_spl_usdc_mint c) of Inl e \<Rightarrow> Inl e | Inr _ \<Rightarrow>
     (case spl_token E s (af_wrapping_vault c) of Inl e \<Rightarrow> Inl e | Inr vault \<Rightarrow>
     (case require_all (agent_constraints E c @
         token_constraints s (af_mandate_wrapped_account c) wrapped (af_wrapped_usdc_mint c)
           (aa_agent_mandate c) (af_token_2022_program c) @
         agent_fund_constraints E c usdc pc vault) of Inl e \<Rightarrow> Inl e | Inr _ \<Rightarrow> Inr wrapped)))))))"

definition release_wrapped ::
  "env \<Rightarrow> agent_fund_accounts \<Rightarrow> u8 \<Rightarrow> u64 \<Rightarrow> store \<Rightarrow> verror + store" where
  "release_wrapped E c mandate_bump amount s =
     (if 0 < amount then
       (case invoke E (Burn (af_wrapped_usdc_mint c) (af_mandate_wrapped_account c) (aa_agent_mandate c) amount)
               [agent_seeds c @ [[mandate_bump]]] s of Inl e \<Rightarrow> Inl e | Inr s1 \<Rightarrow>
        let mint_authority_bump = snd (find_pda E [mint_authority_seed] program_id) in
        invoke E (SplTransferChecked (af_wrapping_vault c) (af_spl_usdc_mint c)
                    (af_authority_usdc_account c) (af_mint_authority c) amount USDC_DECIMALS)
          [[mint_authority_seed, [mint_authority_bump]]] s1)
      else Inr s)"

definition revoke_agent_mandate ::
  "env \<Rightarrow> agent_fund_accounts \<Rightarrow> store \<Rightarrow> verror + (store \<times> agent_event list)" where
  "revoke_agent_mandate E c s =
     (case agent_fund_context E c s of Inl e \<Rightarrow> Inl e | Inr wrapped \<Rightarrow>
     (case authority_mandate E c s of Inl e \<Rightarrow> Inl e | Inr (legacy_layout, mandate) \<Rightarrow>
      if ag_status mandate = AgentRevoked then Inl (Vela InvalidAgentMandateStatusTransition) else
     (case release_wrapped E c (ag_bump mandate) (ta_amount wrapped) s of Inl e \<Rightarrow> Inl e | Inr s1 \<Rightarrow>
      let mandate = mandate\<lparr>ag_status := AgentRevoked\<rparr> in
     (case write_agent_mandate E (aa_agent_mandate c) mandate legacy_layout s1 of
        Inl e \<Rightarrow> Inl e | Inr s2 \<Rightarrow>
     (case interface_token E s2 (af_mandate_wrapped_account c) of Inl e \<Rightarrow> Inl e | Inr reloaded \<Rightarrow>
      Inr (s2, [AgentMandateRevoked (aa_agent_mandate c) (ag_authority mandate) (ag_agent mandate)
                  (ag_daily_spent mandate) (ag_total_spent mandate) (ta_amount reloaded)]))))))"

definition drain_agent_mandate ::
  "env \<Rightarrow> agent_fund_accounts \<Rightarrow> store \<Rightarrow> verror + (store \<times> agent_event list)" where
  "drain_agent_mandate E c s =
     (case agent_fund_context E c s of Inl e \<Rightarrow> Inl e | Inr wrapped \<Rightarrow>
     (case authority_mandate E c s of Inl e \<Rightarrow> Inl e | Inr (_, mandate) \<Rightarrow>
     (case release_wrapped E c (ag_bump mandate) (ta_amount wrapped) s of Inl e \<Rightarrow> Inl e | Inr s1 \<Rightarrow>
     (case interface_token E s1 (af_mandate_wrapped_account c) of Inl e \<Rightarrow> Inl e | Inr reloaded \<Rightarrow>
      Inr (s1, [AgentMandateDrained (aa_agent_mandate c) (ag_authority mandate) (ag_agent mandate)
                  (ag_status mandate) (ag_daily_spent mandate) (ag_total_spent mandate)
                  (ta_amount reloaded)])))))"

text \<open>Creating a mandate and funding it.\<close>

record agent_create_accounts = agent_fund_accounts +
  ac_associated_token_program :: pubkey
  ac_system_program :: pubkey

text \<open>\<open>init_if_needed\<close> of an associated token account.\<close>

definition init_associated_token ::
  "env \<Rightarrow> pubkey \<Rightarrow> pubkey \<Rightarrow> pubkey \<Rightarrow> pubkey \<Rightarrow> pubkey \<Rightarrow> store \<Rightarrow> verror + store" where
  "init_associated_token E payer k wallet mint token_program s =
     (case (if acc_owner (s k) = system_program_id
            then invoke E (CreateAssociatedToken payer k wallet mint token_program) [] s else Inr s) of
        Inl e \<Rightarrow> Inl e | Inr s1 \<Rightarrow>
     (case interface_token E s1 k of Inl e \<Rightarrow> Inl e | Inr tok \<Rightarrow>
     (case require_all (token_constraints s1 k tok mint wallet token_program @
         [(k = associated_token_address E wallet mint token_program,
           Anchor AccountNotAssociatedTokenAccount)]) of Inl e \<Rightarrow> Inl e | Inr _ \<Rightarrow> Inr s1)))"

definition new_service_limits :: "i64 \<Rightarrow> service_limit_input list \<Rightarrow> service_limit list" where
  "new_service_limits now services =
     map (\<lambda>x. \<lparr>sl_service = si_service x, sl_daily_limit = si_daily_limit x, sl_daily_spent = 0,
               sl_last_reset = now\<rparr>) services"

definition create_agent_mandate ::
  "env \<Rightarrow> agent_create_accounts \<Rightarrow> u64 \<Rightarrow> u64 \<Rightarrow> u64 \<Rightarrow> i64 \<Rightarrow> service_limit_input list \<Rightarrow> u64 \<Rightarrow>
     store \<Rightarrow> verror + (store \<times> agent_event list)" where
  "create_agent_mandate E c daily_limit lifetime_cap min_pull_amount min_pull_interval services
       funded_amount s =
     (case spl_token E s (af_authority_usdc_account c) of Inl e \<Rightarrow> Inl e | Inr usdc \<Rightarrow>
     (case interface_mint E s (af_wrapped_usdc_mint c) of Inl e \<Rightarrow> Inl e | Inr _ \<Rightarrow>
     (case anchor_account E KProtocolConfig dec_protocol_config s (af_protocol_config c) of
        Inl e \<Rightarrow> Inl e | Inr pc \<Rightarrow>
     (case spl_mint E s (af_spl_usdc_mint c) of Inl e \<Rightarrow> Inl e | Inr _ \<Rightarrow>
     (case spl_token E s (af_wrapping_vault c) of Inl e \<Rightarrow> Inl e | Inr vault \<Rightarrow>
     (case init_associated_token E (aa_authority c) (af_mandate_wrapped_account c) (aa_agent_mandate c)
             (af_wrapped_usdc_mint c) (af_token_2022_program c) s of Inl e \<Rightarrow> Inl e | Inr s0 \<Rightarrow>
     (case require_all (agent_constraints E c @ agent_fund_constraints E c usdc pc vault @
         [(ac_associated_token_program c = associated_token_id E, Anchor InvalidProgramId),
          (ac_system_program c = system_program_id, Anchor InvalidProgramId),
          (length services \<le> AGENT_MANDATE_MAX_SERVICES, Vela TooManyServices),
          (i64_of 0 \<le> min_pull_interval, Vela InvalidFrequency),
          (services_distinct services, Vela DuplicateService)]) of Inl e \<Rightarrow> Inl e | Inr _ \<Rightarrow>
      let now = unix_timestamp E; mapped_services = new_service_limits now services in
      if \<not> data_is_empty (s0 (aa_agent_mandate c)) then
       (case load_agent_mandate E s0 (aa_agent_mandate c) (aa_authority c) (aa_agent c) of
          Inl e \<Rightarrow> Inl e | Inr _ \<Rightarrow> Inl (Vela AgentMandateAlreadyExists))
      else
      let mandate = new_agent_mandate (aa_authority c) (aa_agent c) daily_limit 0 now lifetime_cap 0
                      min_pull_amount min_pull_interval (i64_of 0) AgentActive mapped_services
                      (snd (find_pda E (agent_seeds c) program_id)) in
     (case initialize_agent_mandate E (aa_authority c) (aa_agent_mandate c) (aa_authority c) (aa_agent c)
             mandate s0 of Inl e \<Rightarrow> Inl e | Inr s1 \<Rightarrow>
     (case invoke E (SplTransferChecked (af_authority_usdc_account c) (af_spl_usdc_mint c)
                       (af_wrapping_vault c) (aa_authority c) funded_amount USDC_DECIMALS) [] s1 of
        Inl e \<Rightarrow> Inl e | Inr s2 \<Rightarrow>
     (case invoke E (MintTo (af_wrapped_usdc_mint c) (af_mandate_wrapped_account c)
                       (af_mint_authority c) funded_amount)
             [[mint_authority_seed, [snd (find_pda E [mint_authority_seed] program_id)]]] s2 of
        Inl e \<Rightarrow> Inl e | Inr s3 \<Rightarrow>
     (case interface_token E s3 (af_mandate_wrapped_account c) of Inl e \<Rightarrow> Inl e | Inr reloaded \<Rightarrow>
      Inr (s3, [AgentMandateCreated (aa_agent_mandate c) (aa_authority c) (aa_agent c) daily_limit
                  lifetime_cap (of_nat (length (ag_services mandate))) funded_amount
                  (ta_amount reloaded)]))))))))))))"

lemma init_associated_token_kept:
  "init_associated_token E p k w mnt t s = Inr s' \<Longrightarrow> keeps_program_accounts E \<Longrightarrow> accounts_kept s s'"
  unfolding init_associated_token_def handler_inversion
  by (auto split: if_splits intro: accounts_kept_call)

end
