(* ===== verification/Agent_Limits.thy ===== *)
theory Agent_Limits
  imports Agents Machine
begin

text \<open>
  What the agent-mandate handlers guarantee: a transition system on the mandate over the
  naturals, its invariant (spending within the limits) and the bound over a day, the proof that
  the handlers of \<open>Agents\<close> follow it on every account in the current layout, and the
  properties of pulls, of creation and of revocation.
\<close>

section \<open>The mandate as a transition system\<close>

text \<open>
  What the handlers promise about a mandate, over the naturals: at a time, an operation
  either fails or yields the new mandate.
\<close>

datatype agent_op =
    PullFor pubkey u64
  | Adjust "u64 option" "u64 option" "u64 option" "i64 option" "service_limit_input list option"
  | PauseAgent
  | ResumeAgent
  | RevokeAgent

definition window_over :: "i64 \<Rightarrow> i64 \<Rightarrow> bool" where
  "window_over lst now \<longleftrightarrow> 86400 \<le> sval now - sval lst"

definition windowed :: "agent_mandate \<Rightarrow> nat \<Rightarrow> i64 \<Rightarrow> agent_mandate" where
  "windowed m i now =
     (let sl = ag_services m ! i;
          m = (if window_over (sl_last_reset sl) now
               then m\<lparr>ag_services := (ag_services m)[i := sl\<lparr>sl_daily_spent := 0, sl_last_reset := now\<rparr>]\<rparr>
               else m)
      in if window_over (ag_daily_last_reset m) now
         then m\<lparr>ag_daily_spent := 0, ag_daily_last_reset := now\<rparr> else m)"

definition pull_allowed :: "agent_mandate \<Rightarrow> nat \<Rightarrow> u64 \<Rightarrow> i64 \<Rightarrow> bool" where
  "pull_allowed m i amount now \<longleftrightarrow>
     i < length (ag_services m) \<and>
     unat (sl_daily_spent (ag_services m ! i)) + unat amount \<le> unat (sl_daily_limit (ag_services m ! i)) \<and>
     unat (ag_daily_spent m) + unat amount \<le> unat (ag_daily_limit m) \<and>
     unat (ag_total_spent m) + unat amount \<le> unat (ag_lifetime_cap m) \<and>
     ag_min_pull_amount m \<le> amount \<and>
     (0 < sval (ag_last_pull_at m) \<longrightarrow> 0 < sval (ag_min_pull_interval m) \<longrightarrow>
        sval (ag_min_pull_interval m) \<le> sval now - sval (ag_last_pull_at m))"

definition charged :: "agent_mandate \<Rightarrow> nat \<Rightarrow> u64 \<Rightarrow> i64 \<Rightarrow> agent_mandate" where
  "charged m i amount now =
     m\<lparr>ag_services := (ag_services m)[i := (ag_services m ! i)
         \<lparr>sl_daily_spent := sl_daily_spent (ag_services m ! i) + amount\<rparr>],
       ag_daily_spent := ag_daily_spent m + amount, ag_total_spent := ag_total_spent m + amount,
       ag_last_pull_at := now\<rparr>"

fun agent_step :: "i64 \<times> agent_op \<Rightarrow> agent_mandate \<Rightarrow> verror + agent_mandate" where
  "agent_step (now, PullFor service amount) m =
     (if ag_status m \<noteq> AgentActive then Inl (Vela MandatePaused) else
      case find_service_index m service of None \<Rightarrow> Inl (Vela UnauthorizedService)
      | Some i \<Rightarrow>
          if pull_allowed (windowed m i now) i amount now
          then Inr (charged (windowed m i now) i amount now) else Inl (Vela DailyLimitExceeded))"
| "agent_step (now, Adjust dl lc mpa mpi sv) m =
     (if ag_status m = AgentRevoked then Inl (Vela InvalidAgentMandateStatusTransition)
      else adjust_mandate m dl lc mpa mpi sv now)"
| "agent_step (now, PauseAgent) m =
     (if ag_status m = AgentActive then Inr (m\<lparr>ag_status := AgentPaused\<rparr>)
      else Inl (Vela InvalidAgentMandateStatusTransition))"
| "agent_step (now, ResumeAgent) m =
     (if ag_status m = AgentPaused then Inr (m\<lparr>ag_status := AgentActive\<rparr>)
      else Inl (Vela InvalidAgentMandateStatusTransition))"
| "agent_step (now, RevokeAgent) m =
     (if ag_status m \<noteq> AgentRevoked then Inr (m\<lparr>ag_status := AgentRevoked\<rparr>)
      else Inl (Vela InvalidAgentMandateStatusTransition))"

definition service_within :: "service_limit \<Rightarrow> bool" where
  "service_within sl \<longleftrightarrow> sl_daily_spent sl \<le> sl_daily_limit sl"

definition agent_inv :: "agent_mandate \<Rightarrow> bool" where
  "agent_inv m \<longleftrightarrow>
     ag_daily_spent m \<le> ag_daily_limit m \<and> ag_total_spent m \<le> ag_lifetime_cap m \<and>
     list_all service_within (ag_services m) \<and> distinct (map sl_service (ag_services m)) \<and>
     length (ag_services m) \<le> AGENT_MANDATE_MAX_SERVICES \<and> 0 \<le> sval (ag_min_pull_interval m)"

lemma saturating_window:
  "AGENT_DAILY_RESET_WINDOW_SECONDS \<le> i64_saturating_sub now lst \<longleftrightarrow> window_over lst now"
  by (simp add: AGENT_DAILY_RESET_WINDOW_SECONDS_def less_eq_i64_def arith_simps window_over_def in_i64_def le_max_iff_disj)

lemma resets_windowed:
  "i < length (ag_services m) \<Longrightarrow>
     reset_daily_if_needed (reset_service_daily_if_needed m i now) now = windowed m i now"
  by (simp add: reset_daily_if_needed_def reset_service_daily_if_needed_def saturating_window windowed_def Let_def)

lemma saturating_cooldown:
  "i64_of 0 < n \<Longrightarrow> \<not> i64_saturating_sub now lst < n \<longleftrightarrow> sval n \<le> sval now - sval lst"
  using sval_range [of n] by (auto simp: less_i64_def arith_simps in_i64_def)

lemma add_within:
  "unat (a + b) \<le> unat c \<longleftrightarrow> unat a + unat b \<le> unat c" if "unat a + unat b < 2 ^ LENGTH('l)"
  for a b c :: "'l::len word"
  using that by (simp add: unat_add_lem [THEN iffD1])

text \<open>The block of the handler accepts exactly what the transition system allows.\<close>

lemma agent_pull_amounts_Inr:
  "agent_pull_amounts m i amount now = Inr next \<longleftrightarrow>
     pull_allowed m i amount now \<and>
     next = (sl_daily_spent (ag_services m ! i) + amount, ag_daily_spent m + amount,
             ag_total_spent m + amount)"
proof -
  have add: "checked_add a amount = Some c \<and> \<not> l < c \<longleftrightarrow> unat a + unat amount \<le> unat l \<and> c = a + amount"
    for a c l :: u64
    using unsigned_less [of l, where ?'a = nat]
    by (auto simp: checked_add_def word_less_nat_alt not_less add_within)
  have cool: "\<not> (i64_of 0 < ag_last_pull_at m \<and> i64_of 0 < ag_min_pull_interval m \<and>
       i64_saturating_sub now (ag_last_pull_at m) < ag_min_pull_interval m) \<longleftrightarrow>
     (0 < sval (ag_last_pull_at m) \<longrightarrow> 0 < sval (ag_min_pull_interval m) \<longrightarrow>
        sval (ag_min_pull_interval m) \<le> sval now - sval (ag_last_pull_at m))"
    using saturating_cooldown [of "ag_min_pull_interval m" now "ag_last_pull_at m"]
    by (auto simp: less_i64_def in_i64_def)
  have "agent_pull_amounts m i amount now = Inr next \<longleftrightarrow>
     i < length (ag_services m) \<and>
     (\<exists>a b c. (checked_add (sl_daily_spent (ag_services m ! i)) amount = Some a \<and>
               \<not> sl_daily_limit (ag_services m ! i) < a) \<and>
              (checked_add (ag_daily_spent m) amount = Some b \<and> \<not> ag_daily_limit m < b) \<and>
              (checked_add (ag_total_spent m) amount = Some c \<and> \<not> ag_lifetime_cap m < c) \<and>
              \<not> amount < ag_min_pull_amount m \<and>
              \<not> (i64_of 0 < ag_last_pull_at m \<and> i64_of 0 < ag_min_pull_interval m \<and>
                 i64_saturating_sub now (ag_last_pull_at m) < ag_min_pull_interval m) \<and>
              next = (a, b, c))"
    unfolding agent_pull_amounts_def case_sum_Inr if_Inl_Inr ok_or_Inr by auto
  then show ?thesis
    unfolding add cool by (auto simp: pull_allowed_def not_less)
qed

lemma charge_agent_charged:
  "agent_pull_amounts m i amount now = Inr next \<Longrightarrow>
     charge_agent m i next now = Inr m' \<longleftrightarrow> m' = charged m i amount now"
  by (auto simp: agent_pull_amounts_Inr charge_agent_def charged_def pull_allowed_def)

lemma length_windowed [simp]: "length (ag_services (windowed m i now)) = length (ag_services m)"
  by (simp add: windowed_def Let_def)

section \<open>Invariants of the transition system\<close>

lemma services_distinct_iff: "services_distinct xs \<longleftrightarrow> distinct (map si_service xs)"
  by (induction xs) (auto simp: list_all_iff)

lemma adjust_services_Inr:
  "adjust_services current now xs = Inr ys \<Longrightarrow>
     map sl_service ys = map si_service xs \<and> list_all service_within ys"
  by (induction xs arbitrary: ys)
     (auto simp: Let_def ok_simps service_within_def case_prod_unfold not_less)

lemma list_all_update: "list_all P xs \<Longrightarrow> P x \<Longrightarrow> list_all P (xs[i := x])"
  by (auto simp: list_all_iff dest: set_update_subset_insert [THEN subsetD])

lemma map_service_update:
  "i < length xs \<Longrightarrow> sl_service y = sl_service (xs ! i) \<Longrightarrow> map sl_service (xs[i := y]) = map sl_service xs"
  by (metis list_update_id map_update)

lemma agent_inv_services:
  assumes "agent_inv m" "i < length (ag_services m)" "sl_service sl = sl_service (ag_services m ! i)"
    "service_within sl"
  shows "agent_inv (m\<lparr>ag_services := (ag_services m)[i := sl]\<rparr>)"
  using assms by (auto simp: agent_inv_def list_all_update map_service_update)

lemma agent_inv_windowed: "agent_inv m \<Longrightarrow> i < length (ag_services m) \<Longrightarrow> agent_inv (windowed m i now)"
  using agent_inv_services [of m i "(ag_services m ! i)\<lparr>sl_daily_spent := 0, sl_last_reset := now\<rparr>"]
  by (auto simp: windowed_def Let_def service_within_def agent_inv_def)

lemma agent_inv_charged:
  assumes "agent_inv m" "pull_allowed m i amount now"
  shows "agent_inv (charged m i amount now)"
proof -
  have sum: "unat a + unat amount \<le> unat c \<Longrightarrow> a + amount \<le> c" for a c :: u64
    using unsigned_less [of c, where ?'a = nat] add_within [of a amount c]
    by (simp add: word_le_nat_alt)
  let ?sl = "ag_services m ! i"
  have "agent_inv (m\<lparr>ag_services := (ag_services m)[i := ?sl\<lparr>sl_daily_spent := sl_daily_spent ?sl + amount\<rparr>]\<rparr>)"
    by (rule agent_inv_services) (use assms sum in \<open>simp_all add: pull_allowed_def service_within_def\<close>)
  with assms(2) sum show ?thesis
    by (simp add: agent_inv_def charged_def pull_allowed_def)
qed

definition same_agent :: "agent_mandate \<Rightarrow> agent_mandate \<Rightarrow> bool" where
  "same_agent m m' \<longleftrightarrow>
     ag_authority m' = ag_authority m \<and> ag_agent m' = ag_agent m \<and> ag_bump m' = ag_bump m \<and>
     ag_version m' = ag_version m \<and> ag_reserved m' = ag_reserved m \<and>
     ag_total_spent m \<le> ag_total_spent m'"

lemma same_agent_refl: "same_agent m m"
  by (simp add: same_agent_def)

lemma same_agent_trans: "same_agent m m' \<Longrightarrow> same_agent m' m'' \<Longrightarrow> same_agent m m''"
  by (auto simp: same_agent_def)

lemma adjust_mandate_effect:
  assumes "adjust_mandate m dl lc mpa mpi sv now = Inr m'"
  shows "same_agent m m'" "ag_status m' = ag_status m" "ag_daily_spent m' = ag_daily_spent m"
    "ag_total_spent m' = ag_total_spent m" "agent_inv m \<Longrightarrow> agent_inv m'"
    "length (ag_services m) < 2 ^ 32 \<Longrightarrow> length (ag_services m') < 2 ^ 32"
proof -
  obtain m1 m2 m3 where
    1: "(case dl of None \<Rightarrow> Inr m | Some x \<Rightarrow> if x < ag_daily_spent m then Inl (Vela InvalidAmount)
          else Inr (m\<lparr>ag_daily_limit := x\<rparr>)) = Inr m1" and
    2: "(case lc of None \<Rightarrow> Inr m1 | Some x \<Rightarrow> if x < ag_total_spent m1 then Inl (Vela InvalidAmount)
          else Inr (m1\<lparr>ag_lifetime_cap := x\<rparr>)) = Inr m2" and
    3: "(case mpi of None \<Rightarrow> Inr (case mpa of None \<Rightarrow> m2 | Some x \<Rightarrow> m2\<lparr>ag_min_pull_amount := x\<rparr>)
         | Some x \<Rightarrow> if x < i64_of 0 then Inl (Vela InvalidFrequency)
          else Inr ((case mpa of None \<Rightarrow> m2 | Some x \<Rightarrow> m2\<lparr>ag_min_pull_amount := x\<rparr>)
                    \<lparr>ag_min_pull_interval := x\<rparr>)) = Inr m3" and
    4: "(case sv of None \<Rightarrow> Inr m3 | Some next_services \<Rightarrow>
          if AGENT_MANDATE_MAX_SERVICES < length next_services then Inl (Vela TooManyServices) else
          if \<not> services_distinct next_services then Inl (Vela DuplicateService) else
         (case adjust_services (ag_services m3) now next_services of
            Inl e \<Rightarrow> Inl e | Inr updated \<Rightarrow> Inr (m3\<lparr>ag_services := updated\<rparr>))) = Inr m'"
    using assms unfolding adjust_mandate_def Let_def case_sum_Inr by blast
  have s: "sv = None \<and> m' = m3 \<or>
      (\<exists>ys. m' = m3\<lparr>ag_services := ys\<rparr> \<and> list_all service_within ys \<and> distinct (map sl_service ys) \<and>
         length ys \<le> AGENT_MANDATE_MAX_SERVICES)"
  proof (cases sv)
    case (Some ns)
    with 4 obtain ys where "adjust_services (ag_services m3) now ns = Inr ys" "m' = m3\<lparr>ag_services := ys\<rparr>"
      "length ns \<le> AGENT_MANDATE_MAX_SERVICES" "services_distinct ns"
      by (auto simp: ok_simps not_less)
    moreover from this have "length ys = length ns" by (metis adjust_services_Inr length_map)
    ultimately show ?thesis using adjust_services_Inr services_distinct_iff by metis
  qed (use 4 in simp)
  note c123 = 1 2 3
  have f: "same_agent m m3 \<and> ag_status m3 = ag_status m \<and> ag_daily_spent m3 = ag_daily_spent m \<and>
      ag_total_spent m3 = ag_total_spent m \<and> (agent_inv m \<longrightarrow> agent_inv m3) \<and> ag_services m3 = ag_services m"
    using c123 by (cases dl; cases lc; cases mpi; cases mpa)
      (auto simp: same_agent_def agent_inv_def not_less less_i64_def in_i64_def split: if_splits)
  show "same_agent m m'" "ag_status m' = ag_status m" "ag_daily_spent m' = ag_daily_spent m"
    "ag_total_spent m' = ag_total_spent m"
    using s f by (auto simp: same_agent_def)
  show "agent_inv m \<Longrightarrow> agent_inv m'" using s f by (auto simp: agent_inv_def)
  show "length (ag_services m) < 2 ^ 32 \<Longrightarrow> length (ag_services m') < 2 ^ 32"
    using s f by (auto simp: AGENT_MANDATE_MAX_SERVICES_def)
qed

lemma adjust_mandate_services:
  "adjust_mandate m dl lc mpa mpi (Some sv) now = Inr m' \<Longrightarrow> length (ag_services m') = length sv"
  unfolding adjust_mandate_def Let_def case_sum_Inr option.case if_Inl_Inr
  by (elim exE conjE) (drule adjust_services_Inr, auto dest: map_eq_imp_length_eq)

text \<open>The operations, inverted.\<close>

lemma agent_step_cases:
  assumes "agent_step (now, x) m = Inr m'"
  obtains (PullFor) service amount i where "x = PullFor service amount" "ag_status m = AgentActive"
      "find_service_index m service = Some i" "pull_allowed (windowed m i now) i amount now"
      "m' = charged (windowed m i now) i amount now"
  | (Adjust) dl lc mpa mpi sv where "x = Adjust dl lc mpa mpi sv" "ag_status m \<noteq> AgentRevoked"
      "adjust_mandate m dl lc mpa mpi sv now = Inr m'"
  | (Status) st where "m' = m\<lparr>ag_status := st\<rparr>" "ag_status m \<noteq> AgentRevoked"
proof (cases x)
  case (PullFor service amount)
  with assms obtain i where "ag_status m = AgentActive" "find_service_index m service = Some i"
    "pull_allowed (windowed m i now) i amount now" "m' = charged (windowed m i now) i amount now"
    by (auto split: if_splits option.splits)
  with PullFor show thesis by (rule that(1))
next
  case (Adjust dl lc mpa mpi sv)
  with assms show thesis by (intro that(2)) (auto split: if_splits)
qed (use assms that(3) in \<open>auto split: if_splits\<close>)

lemma find_service_index_Some:
  "find_service_index m service = Some i \<Longrightarrow>
     i < length (ag_services m) \<and> sl_service (ag_services m ! i) = service"
  by (auto simp: find_service_index_def dest: position_Some)

lemma same_agent_pull:
  assumes "pull_allowed (windowed m i now) i amount now"
  shows "same_agent m (charged (windowed m i now) i amount now) \<and>
    unat (ag_total_spent (charged (windowed m i now) i amount now)) = unat (ag_total_spent m) + unat amount"
proof -
  let ?w = "windowed m i now"
  have w: "same_agent m ?w" "ag_total_spent ?w = ag_total_spent m"
    by (auto simp: windowed_def Let_def same_agent_def)
  have "unat (ag_total_spent m + amount) = unat (ag_total_spent m) + unat amount"
    using assms unsigned_less [of "ag_lifetime_cap ?w", where ?'a = nat] w(2)
    by (simp add: pull_allowed_def unat_add_lem [THEN iffD1])
  with w show ?thesis by (simp add: same_agent_def charged_def word_le_nat_alt)
qed

lemma agent_step_same:
  assumes "agent_step (now, x) m = Inr m'"
  shows "same_agent m m' \<and> (length (ag_services m) < 2 ^ 32 \<longrightarrow> length (ag_services m') < 2 ^ 32)"
  using assms
proof (cases rule: agent_step_cases)
  case (PullFor service amount i)
  then show ?thesis using same_agent_pull [of m i now amount] by (simp add: charged_def)
next
  case (Adjust dl lc mpa mpi sv)
  then show ?thesis using adjust_mandate_effect(1,6) [OF Adjust(3)] by simp
qed (simp add: same_agent_def)

lemma agent_step_inv:
  assumes "agent_inv m" "agent_step (now, x) m = Inr m'"
  shows "agent_inv m'"
  using assms(2)
proof (cases rule: agent_step_cases)
  case (PullFor service amount i)
  then show ?thesis
    using assms(1) find_service_index_Some [of m service i]
    by (simp add: agent_inv_charged agent_inv_windowed)
next
  case (Adjust dl lc mpa mpi sv)
  with assms(1) show ?thesis by (blast intro: adjust_mandate_effect(5))
next
  case (Status st)
  with assms(1) show ?thesis by (simp add: agent_inv_def)
qed

lemma agent_step_revoked: "ag_status m = AgentRevoked \<Longrightarrow> agent_step x m \<noteq> Inr m'"
  by (cases x; cases "snd x") auto

interpretation agent_machine: final_machine agent_step agent_inv "\<lambda>m. ag_status m = AgentRevoked"
  by unfold_locales (use agent_step_inv agent_step_revoked in fast)+

interpretation agent_metered: monotone_machine agent_step agent_inv same_agent
  by unfold_locales
     (use agent_step_inv agent_step_same in \<open>auto intro: same_agent_refl same_agent_trans\<close>)

text \<open>
  Within one window's length a mandate without adjustments pays at most twice its daily
  limit: what was left of the running window, and one more.
\<close>

definition in_window :: "i64 \<Rightarrow> i64 \<Rightarrow> bool" where
  "in_window t0 t \<longleftrightarrow> sval t0 \<le> sval t \<and> sval t < sval t0 + 86400"

definition spent_in_window :: "i64 \<Rightarrow> agent_mandate \<Rightarrow> agent_mandate \<Rightarrow> bool" where
  "spent_in_window t0 m0 m \<longleftrightarrow>
     ag_daily_limit m = ag_daily_limit m0 \<and> ag_daily_spent m \<le> ag_daily_limit m \<and>
     (int (unat (ag_total_spent m)) - int (unat (ag_total_spent m0)) \<le>
        int (unat (ag_daily_spent m)) - int (unat (ag_daily_spent m0)) \<or>
      in_window t0 (ag_daily_last_reset m) \<and>
      int (unat (ag_total_spent m)) - int (unat (ag_total_spent m0)) \<le>
        int (unat (ag_daily_limit m0)) + int (unat (ag_daily_spent m)) - int (unat (ag_daily_spent m0)))"

lemma spent_in_window_charged:
  assumes "spent_in_window t0 m0 m" "pull_allowed (windowed m i now) i amount now" "in_window t0 now"
  shows "spent_in_window t0 m0 (charged (windowed m i now) i amount now)"
proof -
  let ?w = "windowed m i now"
  let ?over = "window_over (ag_daily_last_reset m) now"
  have w: "ag_daily_limit ?w = ag_daily_limit m" "ag_total_spent ?w = ag_total_spent m"
    "ag_daily_spent ?w = (if ?over then 0 else ag_daily_spent m)"
    "ag_daily_last_reset ?w = (if ?over then now else ag_daily_last_reset m)"
    by (simp_all add: windowed_def Let_def)
  have d: "unat (ag_daily_spent ?w + amount) = unat (ag_daily_spent ?w) + unat amount"
    "unat (ag_daily_spent ?w) + unat amount \<le> unat (ag_daily_limit m)"
    using assms(2) unsigned_less [of "ag_daily_limit ?w", where ?'a = nat]
    by (simp_all add: pull_allowed_def w(1) unat_add_lem [THEN iffD1])
  have t: "unat (ag_total_spent m + amount) = unat (ag_total_spent m) + unat amount"
    using same_agent_pull [OF assms(2)] by (simp add: charged_def w(2))
  have no: "\<not> in_window t0 (ag_daily_last_reset m)" if ?over
    using that assms(3) by (auto simp: in_window_def window_over_def)
  have le: "unat (ag_daily_spent m) \<le> unat (ag_daily_limit m)" "ag_daily_limit m = ag_daily_limit m0"
    using assms(1) by (auto simp: spent_in_window_def word_le_nat_alt)
  let ?c = "charged ?w i amount now"
  have c: "ag_daily_limit ?c = ag_daily_limit m" "ag_total_spent ?c = ag_total_spent m + amount"
    "ag_daily_spent ?c = ag_daily_spent ?w + amount"
    "ag_daily_last_reset ?c = (if ?over then now else ag_daily_last_reset m)"
    by (simp_all add: charged_def w)
  show ?thesis
  proof (cases ?over)
    case True
    have grown: "int (unat (ag_total_spent m)) - int (unat (ag_total_spent m0)) \<le>
        int (unat (ag_daily_spent m)) - int (unat (ag_daily_spent m0))"
      using assms(1) no [OF True] by (auto simp: spent_in_window_def)
    have lim: "int (unat (ag_daily_spent m)) \<le> int (unat (ag_daily_limit m0))"
      using le(1) unfolding le(2) of_nat_le_iff .
    have z: "unat (ag_daily_spent ?w) = 0" using True by (simp add: w)
    show ?thesis
      unfolding spent_in_window_def c word_le_nat_alt d(1) t
      using grown lim le d(2) z assms(3) True by (intro conjI disjI2; (linarith | simp))
  next
    case False
    have "ag_daily_spent ?w = ag_daily_spent m" using False by (simp add: w)
    with assms(1) d(2) le False show ?thesis
      unfolding spent_in_window_def c word_le_nat_alt d(1) t by (elim conjE disjE) (simp_all add: le(2))
  qed
qed

fun is_adjust :: "agent_op \<Rightarrow> bool" where
  "is_adjust (Adjust dl lc mpa mpi sv) = True"
| "is_adjust y = False"

lemma spent_in_window_step:
  assumes "spent_in_window t0 m0 m" "agent_step (now, y) m = Inr m'" "in_window t0 now" "\<not> is_adjust y"
  shows "spent_in_window t0 m0 m'"
  using assms(2)
proof (cases rule: agent_step_cases)
  case (PullFor service amount i)
  then show ?thesis using assms by (simp add: spent_in_window_charged)
next
  case (Adjust dl lc mpa mpi sv)
  then show ?thesis using assms(4) by simp
next
  case (Status st)
  then show ?thesis using assms(1) by (auto simp: spent_in_window_def)
qed

lemma spent_in_window_bound:
  assumes "spent_in_window t0 m m'"
  shows "int (unat (ag_total_spent m')) - int (unat (ag_total_spent m)) \<le>
    2 * int (unat (ag_daily_limit m)) - int (unat (ag_daily_spent m))"
proof -
  have "int (unat (ag_daily_spent m')) \<le> int (unat (ag_daily_limit m))"
    using assms unfolding of_nat_le_iff by (auto simp: spent_in_window_def word_le_nat_alt)
  then show ?thesis using assms unfolding spent_in_window_def by linarith
qed

lemma spent_in_window_start: "agent_inv m \<Longrightarrow> spent_in_window t0 m m"
  by (simp add: spent_in_window_def agent_inv_def)

section \<open>The handlers follow the transition system\<close>

abbreviation agent_follows :: "env \<Rightarrow> pubkey \<Rightarrow> i64 \<times> agent_op \<Rightarrow> store \<Rightarrow> store \<Rightarrow> bool" where
  "agent_follows \<equiv> store_follows current_agent agent_step"

lemma write_agent_frame:
  "write_agent_mandate E k m l s = Inr s' \<Longrightarrow> j \<noteq> k \<Longrightarrow> s' j = s j"
  by (auto simp: write_agent_mandate_def write_account_Inr split: if_splits)

lemma load_agent_mandate_Inr:
  "load_agent_mandate E s k a g = Inr l \<longleftrightarrow>
     k = pda E [agent_mandate_seed, key_bytes a, key_bytes g] \<and> read_agent_mandate E s k = Inr l \<and>
     lam_authority l = a \<and> lam_agent l = g"
  by (auto simp: load_agent_mandate_def validate_agent_mandate_address_def ok_simps)

lemma into_current_keys [simp]:
  "ag_authority (lam_into_current l) = lam_authority l" "ag_agent (lam_into_current l) = lam_agent l"
  by (cases l; simp add: new_agent_mandate_def)+

lemma authority_mandate_Inr:
  "authority_mandate E c s = Inr (legacy, m) \<Longrightarrow>
     \<exists>l. read_agent_mandate E s (aa_agent_mandate c) = Inr l \<and> legacy = lam_is_legacy l \<and>
         m = lam_into_current l \<and> ag_authority m = aa_authority c \<and> ag_agent m = aa_agent c"
  by (auto simp: authority_mandate_def ok_simps load_agent_mandate_Inr)

lemma agent_followsI:
  assumes "read_agent_mandate E s k = Inr l" "agent_step x (lam_into_current l) = Inr m'"
    "accounts_kept s s1" "write_agent_mandate E k m' (lam_is_legacy l) s1 = Inr s'"
  shows "agent_follows E k x s s'"
proof -
  have frame: "acc_owner (s' j) = program_id \<and> acc_data (s' j) = acc_data (s j)"
    if "j \<noteq> k" "acc_owner (s j) = program_id" for j
    using assms(3) write_agent_frame [OF assms(4) that(1)] that(2) by (simp add: accounts_kept_def)
  have step: "agent_step x m = Inr m' \<and> current_agent E s' k = Inr m'" if m: "current_agent E s k = Inr m" for m
  proof -
    have l: "l = CurrentAgent m" using m assms(1) by (simp add: current_agent_Inr)
    have st: "valid_agent_mandate m \<and> ag_version m = CURRENT_ACCOUNT_VERSION"
      by (rule agent_store.load_storable [OF m])
    obtain now y where x: "x = (now, y)" by (cases x)
    have "valid_agent_mandate m' \<and> ag_version m' = CURRENT_ACCOUNT_VERSION"
      using agent_step_same [of now y m m'] assms(2) st
      by (simp add: l x same_agent_def valid_agent_mandate_def)
    moreover have "acc_owner (s1 k) = program_id"
      using agent_store.load_owner [OF m] assms(3) by (simp add: accounts_kept_def)
    ultimately show ?thesis
      using agent_store.load_written [of E k m' s1 s'] assms(2,4) by (simp add: l)
  qed
  show ?thesis unfolding store_follows_def using frame step by blast
qed

lemma pause_agent_follows:
  assumes "pause_agent_mandate E c s = Inr (s', ev)"
  shows "agent_follows E (aa_agent_mandate c) (unix_timestamp E, PauseAgent) s s'
    \<and> is_signer E (aa_authority c)"
proof -
  obtain q where q: "authority_mandate E c s = Inr q" "ag_status (snd q) = AgentActive"
    "write_agent_mandate E (aa_agent_mandate c) ((snd q)\<lparr>ag_status := AgentPaused\<rparr>) (fst q) s = Inr s'"
    and sg: "is_signer E (aa_authority c)"
  proof -
    show thesis
      using assms unfolding pause_agent_mandate_def handler_inversion require_all_Inr agent_constraints_def
      by (elim exE conjE) (rule that, auto)
  qed
  obtain l where l: "read_agent_mandate E s (aa_agent_mandate c) = Inr l" "fst q = lam_is_legacy l"
    "snd q = lam_into_current l"
    using authority_mandate_Inr [of E c s "fst q" "snd q"] q(1) by auto
  show ?thesis
    using agent_followsI [OF l(1) _ accounts_kept_refl q(3) [unfolded l(2)]] q(2) sg by (simp add: l)
qed

lemma resume_agent_follows:
  assumes "resume_agent_mandate E c s = Inr (s', ev)"
  shows "agent_follows E (aa_agent_mandate c) (unix_timestamp E, ResumeAgent) s s'
    \<and> is_signer E (aa_authority c)"
proof -
  obtain q where q: "authority_mandate E c s = Inr q" "ag_status (snd q) = AgentPaused"
    "write_agent_mandate E (aa_agent_mandate c) ((snd q)\<lparr>ag_status := AgentActive\<rparr>) (fst q) s = Inr s'"
    and sg: "is_signer E (aa_authority c)"
  proof -
    show thesis
      using assms unfolding resume_agent_mandate_def handler_inversion require_all_Inr agent_constraints_def
      by (elim exE conjE) (rule that, auto)
  qed
  obtain l where l: "read_agent_mandate E s (aa_agent_mandate c) = Inr l" "fst q = lam_is_legacy l"
    "snd q = lam_into_current l"
    using authority_mandate_Inr [of E c s "fst q" "snd q"] q(1) by auto
  show ?thesis
    using agent_followsI [OF l(1) _ accounts_kept_refl q(3) [unfolded l(2)]] q(2) sg by (simp add: l)
qed

lemma adjust_agent_follows:
  assumes "adjust_agent_mandate E c dl lc mpa mpi sv s = Inr (s', ev)"
  shows "agent_follows E (aa_agent_mandate c) (unix_timestamp E, Adjust dl lc mpa mpi sv) s s'
    \<and> is_signer E (aa_authority c)"
proof -
  obtain q m' where q: "authority_mandate E c s = Inr q" "ag_status (snd q) \<noteq> AgentRevoked"
    "adjust_mandate (snd q) dl lc mpa mpi sv (unix_timestamp E) = Inr m'"
    "write_agent_mandate E (aa_agent_mandate c) m' (fst q) s = Inr s'"
    and sg: "is_signer E (aa_authority c)"
  proof -
    show thesis
      using assms unfolding adjust_agent_mandate_def handler_inversion require_all_Inr agent_constraints_def
      by (elim exE conjE) (rule that, assumption+, auto)
  qed
  obtain l where l: "read_agent_mandate E s (aa_agent_mandate c) = Inr l" "fst q = lam_is_legacy l"
    "snd q = lam_into_current l"
    using authority_mandate_Inr [of E c s "fst q" "snd q"] q(1) by auto
  show ?thesis
    using agent_followsI [OF l(1) _ accounts_kept_refl q(4) [unfolded l(2)]] q(2,3) sg by (simp add: l)
qed

lemma release_wrapped_kept:
  "release_wrapped E c b n s = Inr s' \<Longrightarrow> keeps_program_accounts E \<Longrightarrow> accounts_kept s s'"
  by (auto simp: release_wrapped_def Let_def ok_simps split: if_splits
      intro: accounts_kept_trans accounts_kept_call)

lemma agent_fund_context_signer:
  "agent_fund_context E c s = Inr wrapped \<Longrightarrow> is_signer E (aa_authority c)"
  unfolding agent_fund_context_def handler_inversion require_all_Inr agent_constraints_def by auto

lemma revoke_agent_follows:
  assumes "revoke_agent_mandate E c s = Inr (s', ev)" "keeps_program_accounts E"
  shows "agent_follows E (aa_agent_mandate c) (unix_timestamp E, RevokeAgent) s s'
    \<and> is_signer E (aa_authority c)"
proof -
  obtain q s1 w where q: "authority_mandate E c s = Inr q" "ag_status (snd q) \<noteq> AgentRevoked"
    "release_wrapped E c (ag_bump (snd q)) (ta_amount w) s = Inr s1"
    "write_agent_mandate E (aa_agent_mandate c) ((snd q)\<lparr>ag_status := AgentRevoked\<rparr>) (fst q) s1 = Inr s'"
    and ctx: "agent_fund_context E c s = Inr w"
  proof -
    show thesis
      using assms(1) unfolding revoke_agent_mandate_def handler_inversion
      by (elim exE conjE) (rule that, assumption+, auto)
  qed
  obtain l where l: "read_agent_mandate E s (aa_agent_mandate c) = Inr l" "fst q = lam_is_legacy l"
    "snd q = lam_into_current l"
    using authority_mandate_Inr [of E c s "fst q" "snd q"] q(1) by auto
  show ?thesis
    using agent_followsI [OF l(1) _ release_wrapped_kept [OF q(3) assms(2)] q(4) [unfolded l(2)]]
      q(2) agent_fund_context_signer [OF ctx] by (simp add: l)
qed

lemma drain_agent_kept:
  "drain_agent_mandate E c s = Inr (s', ev) \<Longrightarrow> keeps_program_accounts E \<Longrightarrow> accounts_kept s s'"
  unfolding drain_agent_mandate_def handler_inversion by (auto dest: release_wrapped_kept)

text \<open>The effect of a pull that returns.\<close>

lemma agent_pull_context_Inr:
  assumes "agent_pull_context E c s = Inr (w, sv, pc, b, s0)"
  shows "is_signer E (ap_payer c) \<and> is_signer E (aa_agent c) \<and>
    ap_pull_approval c = pda E (agent_approval_seeds (aa_agent_mandate c)) \<and>
    interface_token E s (ap_service_wrapped_account c) = Inr sv \<and>
    interface_token E s (ap_mandate_wrapped_account c) = Inr w \<and>
    ta_mint sv = ap_wrapped_usdc_mint c \<and> ta_owner w = aa_agent_mandate c \<and>
    ta_mint w = ap_wrapped_usdc_mint c \<and> ap_wrapped_usdc_mint c = pc_wrapped_usdc_mint pc \<and>
    anchor_account E KProtocolConfig dec_protocol_config s (ap_protocol_config c) = Inr pc \<and>
    ap_token_2022_program c = token_2022_id E \<and>
    (\<exists>seeds. invoke E (InitAccount (ap_payer c) (ap_pull_approval c) (minimum_balance E pull_approval_size)
       pull_approval_size program_id) seeds s = Inr s0)"
  using assms unfolding agent_pull_context_def handler_inversion require_all_Inr token_constraints_def
  by auto

definition agent_approval :: "agent_pull_accounts \<Rightarrow> u64 \<Rightarrow> i64 \<Rightarrow> i64 \<Rightarrow> u8 \<Rightarrow> pull_approval" where
  "agent_approval c amount now valid_until bump =
     \<lparr>pa_mandate = aa_agent_mandate c, pa_period_start = i64_of 0, pa_period_end = i64_of 0,
      pa_valid_until = valid_until, pa_approved = True, pa_approved_amount = amount,
      pa_created_at = now, pa_bump = bump\<rparr>"

lemma agent_pull_Inr:
  assumes "agent_pull E c amount s = Inr (s', ev)"
  obtains w sv pc b s0 l i valid_until s1 s2 s3 m' where
    "agent_pull_context E c s = Inr (w, sv, pc, b, s0)"
    "load_agent_mandate E s0 (aa_agent_mandate c) (aa_authority c) (aa_agent c) = Inr l"
    "ag_status (lam_into_current l) = AgentActive" "\<not> pc_paused pc"
    "ap_hook_program c = pc_transfer_hook_program_id pc"
    "find_service_index (lam_into_current l) (ta_owner sv) = Some i"
    "pull_allowed (windowed (lam_into_current l) i (unix_timestamp E)) i amount (unix_timestamp E)"
    "amount \<le> ta_amount w"
    "sval valid_until = sval (unix_timestamp E) + 60"
    "anchor_exit (ap_pull_approval c) (disc E KPullApproval @
       enc_pull_approval (agent_approval c amount (unix_timestamp E) valid_until b)) s0 = Inr s1"
    "invoke_transfer_checked_with_hook E (agent_transfer_accounts c) amount USDC_DECIMALS
       [agent_seeds c @ [[ag_bump (windowed (lam_into_current l) i (unix_timestamp E))]]] s1 = Inr s2"
    "close_program_account (ap_pull_approval c) (ap_payer c) s2 = Inr s3"
    "m' = charged (windowed (lam_into_current l) i (unix_timestamp E)) i amount (unix_timestamp E)"
    "write_agent_mandate E (aa_agent_mandate c) m' (lam_is_legacy l) s3 = Inr s'"
proof -
  obtain x where x: "agent_pull_context E c s = Inr x"
    using assms unfolding agent_pull_def case_sum_Inr by blast
  obtain w sv pc b s0 where xs: "x = (w, sv, pc, b, s0)" by (cases x)
  let ?now = "unix_timestamp E"
  note un = assms [unfolded agent_pull_def x xs sum.case prod.case]
  from un obtain l where l: "load_agent_mandate E s0 (aa_agent_mandate c) (aa_authority c) (aa_agent c) = Inr l"
    unfolding handler_inversion by blast
  note un = un [unfolded l sum.case Let_def]
  from un obtain i where i: "find_service_index (lam_into_current l) (ta_owner sv) = Some i"
    unfolding handler_inversion ok_or_Inr by blast
  have lt: "i < length (ag_services (lam_into_current l))"
    using i by (simp add: find_service_index_Some)
  note un = un [unfolded i ok_or.simps sum.case resets_windowed [OF lt]]
  let ?w = "windowed (lam_into_current l) i ?now"
  from un obtain n where n: "agent_pull_amounts ?w i amount ?now = Inr n"
    unfolding handler_inversion by blast
  note un = un [unfolded n sum.case]
  from un obtain v where v: "i64_checked_add ?now (i64_of AGENT_PULL_APPROVAL_TTL_SECONDS) = Some v"
    unfolding handler_inversion ok_or_Inr by blast
  note un = un [unfolded v ok_or.simps sum.case, folded agent_approval_def]
  from un obtain s1 s2 s3 m' where
    st: "ag_status (lam_into_current l) \<noteq> AgentPaused" "ag_status (lam_into_current l) \<noteq> AgentRevoked" and
    pc: "\<not> pc_paused pc" "ap_hook_program c = pc_transfer_hook_program_id pc" "\<not> ta_amount w < amount" and
    s1: "anchor_exit (ap_pull_approval c) (disc E KPullApproval @
       enc_pull_approval (agent_approval c amount ?now v b)) s0 = Inr s1" and
    s2: "invoke_transfer_checked_with_hook E (agent_transfer_accounts c) amount USDC_DECIMALS
       [agent_seeds c @ [[ag_bump ?w]]] s1 = Inr s2" and
    s3: "close_program_account (ap_pull_approval c) (ap_payer c) s2 = Inr s3" and
    m': "charge_agent ?w i n ?now = Inr m'" and
    wr: "write_agent_mandate E (aa_agent_mandate c) m' (lam_is_legacy l) s3 = Inr s'"
    unfolding handler_inversion require_all_Inr by auto
  have "sval v = sval ?now + 60"
    using v by (simp add: arith_simps AGENT_PULL_APPROVAL_TTL_SECONDS_def in_i64_def)
  moreover have "ag_status (lam_into_current l) = AgentActive"
    using st by (cases "ag_status (lam_into_current l)") simp_all
  moreover have "pull_allowed ?w i amount ?now" using n by (simp add: agent_pull_amounts_Inr)
  moreover have "m' = charged ?w i amount ?now" using m' charge_agent_charged [OF n] by simp
  ultimately show thesis
    using that x xs l i pc s1 s2 s3 wr by (simp add: not_less)
qed

lemma agent_pull_follows:
  assumes "agent_pull E c amount s = Inr (s', ev)" "keeps_program_accounts E" "creates_fresh E"
  shows "\<exists>sv. interface_token E s (ap_service_wrapped_account c) = Inr sv \<and> is_signer E (aa_agent c) \<and>
    agent_follows E (aa_agent_mandate c) (unix_timestamp E, PullFor (ta_owner sv) amount) s s'"
  using assms(1)
proof (cases rule: agent_pull_Inr)
  case (1 w sv pc b s0 l i v s1 s2 s3 m')
  let ?a = "ap_pull_approval c"
  obtain seeds where init: "invoke E (InitAccount (ap_payer c) ?a (minimum_balance E pull_approval_size)
       pull_approval_size program_id) seeds s = Inr s0" and sg: "is_signer E (aa_agent c)"
    using agent_pull_context_Inr [OF 1(1)] by blast
  have fresh: "acc_owner (s ?a) = system_program_id"
    using creates_freshD(1) [OF assms(3) init] by (simp add: created_fresh_def)
  have s0: "accounts_kept s s0" by (rule accounts_kept_call [OF assms(2) init])
  have "acc_owner (s1 j) = acc_owner (s0 j) \<and> acc_data (s1 j) = acc_data (s0 j)" if "j \<noteq> ?a" for j
    using 1(10) that by (simp add: anchor_exit_Inr)
  then have s1: "accounts_kept s s1"
    by (intro accounts_kept_foreign [OF s0, of ?a]) (simp_all add: fresh)
  then have s2: "accounts_kept s s2"
    using 1(11) accounts_kept_call [OF assms(2)] by (auto simp: invoke_transfer_checked_Inr intro: accounts_kept_trans)
  have s3: "accounts_kept s s3"
    using close_program_account_data [OF 1(12)]
    by (intro accounts_kept_foreign [OF s2, of ?a]) (simp_all add: fresh)
  have read0: "read_agent_mandate E s0 (aa_agent_mandate c) = Inr l"
    using 1(2) unfolding load_agent_mandate_Inr by (elim conjE)
  have "agent_follows E (aa_agent_mandate c) (unix_timestamp E, PullFor (ta_owner sv) amount) s s'"
    unfolding store_follows_def
  proof (intro conjI allI impI)
    fix m assume m: "current_agent E s (aa_agent_mandate c) = Inr m"
    have "current_agent E s0 (aa_agent_mandate c) = Inr m"
      using agent_store.kept_view [OF s0] m by (simp add: stored_view_Some)
    then have l: "l = CurrentAgent m" using read0 by (simp add: current_agent_Inr)
    with m have read: "read_agent_mandate E s (aa_agent_mandate c) = Inr l" by (simp add: current_agent_Inr)
    have "agent_step (unix_timestamp E, PullFor (ta_owner sv) amount) (lam_into_current l) = Inr m'"
      using 1(3,6,7,13) by simp
    from agent_followsI [OF read this s3 1(14)] m
    show "\<exists>m'. agent_step (unix_timestamp E, PullFor (ta_owner sv) amount) m = Inr m' \<and>
        current_agent E s' (aa_agent_mandate c) = Inr m'"
      by (auto simp: store_follows_def)
  next
    fix j assume "j \<noteq> aa_agent_mandate c" "acc_owner (s j) = program_id"
    then show "acc_owner (s' j) = program_id" "acc_data (s' j) = acc_data (s j)"
      using s3 write_agent_frame [OF 1(14)] by (simp_all add: accounts_kept_def)
  qed
  with sg agent_pull_context_Inr [OF 1(1)] show ?thesis by blast
qed

text \<open>Creation, and every call in any order.\<close>

lemma services_within_new:
  "list_all service_within (new_service_limits now xs) \<and>
   map sl_service (new_service_limits now xs) = map si_service xs \<and>
   length (new_service_limits now xs) = length xs"
  by (simp add: new_service_limits_def list_all_iff service_within_def)

lemma create_agent_Inr:
  assumes "create_agent_mandate E c dl lc mpa mpi sv n s = Inr (s', ev)"
  obtains s0 s1 s2 s3 seeds m where
    "init_associated_token E (aa_authority c) (af_mandate_wrapped_account c) (aa_agent_mandate c)
       (af_wrapped_usdc_mint c) (af_token_2022_program c) s = Inr s0"
    "invoke E (CreateAccount (aa_authority c) (aa_agent_mandate c) (minimum_balance E agent_mandate_size)
       agent_mandate_size program_id) seeds s0 = Inr s1"
    "write_agent_mandate E (aa_agent_mandate c) m False s1 = Inr s2"
    "m = new_agent_mandate (aa_authority c) (aa_agent c) dl 0 (unix_timestamp E) lc 0 mpa mpi (i64_of 0)
       AgentActive (new_service_limits (unix_timestamp E) sv) (snd (find_pda E (agent_seeds c) program_id))"
    "invoke E (SplTransferChecked (af_authority_usdc_account c) (af_spl_usdc_mint c)
       (af_wrapping_vault c) (aa_authority c) n USDC_DECIMALS) [] s2 = Inr s3"
    "\<exists>mseeds. invoke E (MintTo (af_wrapped_usdc_mint c) (af_mandate_wrapped_account c)
       (af_mint_authority c) n) mseeds s3 = Inr s'"
    "length sv \<le> AGENT_MANDATE_MAX_SERVICES" "services_distinct sv" "i64_of 0 \<le> mpi"
    "is_signer E (aa_authority c)"
proof -
  let ?m = "new_agent_mandate (aa_authority c) (aa_agent c) dl 0 (unix_timestamp E) lc 0 mpa mpi (i64_of 0)
       AgentActive (new_service_limits (unix_timestamp E) sv) (snd (find_pda E (agent_seeds c) program_id))"
  have never: "(if \<not> b then (case r of Inl e \<Rightarrow> Inl e | Inr _ \<Rightarrow> Inl d) else t) = Inr y \<longleftrightarrow> b \<and> t = Inr y"
    for b r t y and d :: verror
    by (cases r) auto
  obtain s0 s2 s3 where
    i: "init_associated_token E (aa_authority c) (af_mandate_wrapped_account c) (aa_agent_mandate c)
       (af_wrapped_usdc_mint c) (af_token_2022_program c) s = Inr s0" and
    w: "initialize_agent_mandate E (aa_authority c) (aa_agent_mandate c) (aa_authority c) (aa_agent c)
       ?m s0 = Inr s2" and
    t: "invoke E (SplTransferChecked (af_authority_usdc_account c) (af_spl_usdc_mint c)
       (af_wrapping_vault c) (aa_authority c) n USDC_DECIMALS) [] s2 = Inr s3" and
    mt: "\<exists>mseeds. invoke E (MintTo (af_wrapped_usdc_mint c) (af_mandate_wrapped_account c)
       (af_mint_authority c) n) mseeds s3 = Inr s'" and
    a: "length sv \<le> AGENT_MANDATE_MAX_SERVICES" "services_distinct sv" "i64_of 0 \<le> mpi"
       "is_signer E (aa_authority c)"
  proof -
    show thesis
    using assms unfolding create_agent_mandate_def Let_def never handler_inversion require_all_Inr
    by - (elim exE conjE, rule that, assumption, assumption, assumption, fastforce,
      (simp add: agent_constraints_def; fail)+)
  qed
  from w obtain s1 seeds where cr: "invoke E (CreateAccount (aa_authority c) (aa_agent_mandate c)
       (minimum_balance E agent_mandate_size) agent_mandate_size program_id) seeds s0 = Inr s1" and
    wr: "write_agent_mandate E (aa_agent_mandate c) ?m False s1 = Inr s2"
    unfolding initialize_agent_mandate_def handler_inversion by blast
  show thesis by (rule that [OF i cr wr refl t mt a])
qed

lemma create_agent_effect:
  assumes "create_agent_mandate E c dl lc mpa mpi sv n s = Inr (s', ev)"
    "keeps_program_accounts E" "creates_fresh E"
  shows "accounts_kept s s'"
    "\<exists>m. current_agent E s' (aa_agent_mandate c) = Inr m \<and> agent_inv m \<and> ag_status m = AgentActive \<and>
       ag_total_spent m = 0 \<and> map sl_service (ag_services m) = map si_service sv \<and>
       ag_authority m = aa_authority c \<and> ag_agent m = aa_agent c"
proof -
  obtain s0 s1 s2 s3 seeds m where
    i: "init_associated_token E (aa_authority c) (af_mandate_wrapped_account c) (aa_agent_mandate c)
       (af_wrapped_usdc_mint c) (af_token_2022_program c) s = Inr s0" and
    cr: "invoke E (CreateAccount (aa_authority c) (aa_agent_mandate c) (minimum_balance E agent_mandate_size)
       agent_mandate_size program_id) seeds s0 = Inr s1" and
    wr: "write_agent_mandate E (aa_agent_mandate c) m False s1 = Inr s2" and
    m: "m = new_agent_mandate (aa_authority c) (aa_agent c) dl 0 (unix_timestamp E) lc 0 mpa mpi (i64_of 0)
       AgentActive (new_service_limits (unix_timestamp E) sv) (snd (find_pda E (agent_seeds c) program_id))" and
    t: "invoke E (SplTransferChecked (af_authority_usdc_account c) (af_spl_usdc_mint c)
       (af_wrapping_vault c) (aa_authority c) n USDC_DECIMALS) [] s2 = Inr s3" and
    mt: "\<exists>mseeds. invoke E (MintTo (af_wrapped_usdc_mint c) (af_mandate_wrapped_account c)
       (af_mint_authority c) n) mseeds s3 = Inr s'" and
    a: "length sv \<le> AGENT_MANDATE_MAX_SERVICES" "services_distinct sv" "i64_of 0 \<le> mpi"
    using create_agent_Inr [OF assms(1)] by metis
  obtain mseeds where mt: "invoke E (MintTo (af_wrapped_usdc_mint c) (af_mandate_wrapped_account c)
       (af_mint_authority c) n) mseeds s3 = Inr s'" using mt by blast
  have fresh: "acc_owner (s0 (aa_agent_mandate c)) = system_program_id"
    "acc_owner (s1 (aa_agent_mandate c)) = program_id"
    using creates_freshD(2) [OF assms(3) cr] by (simp_all add: created_fresh_def)
  have k0: "accounts_kept s s0" by (rule init_associated_token_kept [OF i assms(2)])
  then have nk: "acc_owner (s (aa_agent_mandate c)) \<noteq> program_id"
    using fresh(1) by (auto simp: accounts_kept_def)
  have k1: "accounts_kept s s1" using k0 accounts_kept_call [OF assms(2) cr] by (rule accounts_kept_trans)
  have k2: "accounts_kept s s2"
    using write_agent_frame [OF wr] by (intro accounts_kept_foreign [OF k1 nk]) simp
  have k3: "accounts_kept s2 s'"
    using accounts_kept_call [OF assms(2) t] accounts_kept_call [OF assms(2) mt] by (rule accounts_kept_trans)
  show "accounts_kept s s'" using k2 k3 by (rule accounts_kept_trans)
  have sv: "length (new_service_limits (unix_timestamp E) sv) < 2 ^ 32"
    using services_within_new a(1) by (simp add: AGENT_MANDATE_MAX_SERVICES_def)
  then have "current_agent E s2 (aa_agent_mandate c) = Inr m"
    using agent_store.load_written [of E "aa_agent_mandate c" m s1 s2] wr fresh(2)
    by (simp add: m new_agent_mandate_def valid_agent_mandate_def)
  then have "current_agent E s' (aa_agent_mandate c) = Inr m"
    using agent_store.kept_view [OF k3] by (simp add: stored_view_Some)
  moreover have "agent_inv m"
    using services_within_new [of "unix_timestamp E" sv] a
    by (simp add: agent_inv_def m new_agent_mandate_def services_distinct_iff less_eq_i64_def in_i64_def)
  ultimately show "\<exists>m. current_agent E s' (aa_agent_mandate c) = Inr m \<and> agent_inv m \<and> ag_status m = AgentActive \<and>
       ag_total_spent m = 0 \<and> map sl_service (ag_services m) = map si_service sv \<and>
       ag_authority m = aa_authority c \<and> ag_agent m = aa_agent c"
    using services_within_new [of "unix_timestamp E" sv] by (auto simp: m new_agent_mandate_def)
qed

section \<open>Runs of handlers\<close>

datatype agent_call =
    CallPull agent_pull_accounts u64
  | CallAdjust agent_adjust_accounts "u64 option" "u64 option" "u64 option" "i64 option"
      "service_limit_input list option"
  | CallPauseAgent agent_accounts
  | CallResumeAgent agent_accounts
  | CallRevoke agent_fund_accounts
  | CallDrain agent_fund_accounts
  | CallCreateAgent agent_create_accounts u64 u64 u64 i64 "service_limit_input list" u64

fun do_agent_call :: "env \<times> agent_call \<Rightarrow> store \<Rightarrow> verror + store" where
  "do_agent_call (E, CallPull c amount) s = map_sum id fst (agent_pull E c amount s)"
| "do_agent_call (E, CallAdjust c dl lc mpa mpi sv) s =
     map_sum id fst (adjust_agent_mandate E c dl lc mpa mpi sv s)"
| "do_agent_call (E, CallPauseAgent c) s = map_sum id fst (pause_agent_mandate E c s)"
| "do_agent_call (E, CallResumeAgent c) s = map_sum id fst (resume_agent_mandate E c s)"
| "do_agent_call (E, CallRevoke c) s = map_sum id fst (revoke_agent_mandate E c s)"
| "do_agent_call (E, CallDrain c) s = map_sum id fst (drain_agent_mandate E c s)"
| "do_agent_call (E, CallCreateAgent c dl lc mpa mpi sv n) s =
     map_sum id fst (create_agent_mandate E c dl lc mpa mpi sv n s)"

definition agent_runtime :: "env \<Rightarrow> env \<times> 'c \<Rightarrow> bool" where
  "agent_runtime E x \<longleftrightarrow> same_program E x \<and> creates_fresh (fst x)"

fun adjusts_agent :: "pubkey \<Rightarrow> agent_call \<Rightarrow> bool" where
  "adjusts_agent k (CallAdjust c dl lc mpa mpi sv) = (aa_agent_mandate c = k)"
| "adjusts_agent k _ = False"

lemma do_agent_call_follows:
  assumes "do_agent_call (E, c) s = Inr s'" "keeps_program_accounts E" "creates_fresh E"
  shows "accounts_kept s s' \<or>
    (\<exists>k y. agent_follows E k (unix_timestamp E, y) s s' \<and> (is_adjust y \<longrightarrow> adjusts_agent k c))"
proof (cases c)
  case (CallPull a n)
  then show ?thesis using assms agent_pull_follows by (fastforce simp: map_sum_Inr)
next
  case (CallRevoke a)
  then show ?thesis using assms revoke_agent_follows by (fastforce simp: map_sum_Inr)
next
  case (CallDrain a)
  then show ?thesis using assms drain_agent_kept by (fastforce simp: map_sum_Inr)
next
  case (CallCreateAgent a dl lc mpa mpi sv n)
  then show ?thesis using assms create_agent_effect(1) by (fastforce simp: map_sum_Inr)
next
  case (CallAdjust a dl lc mpa mpi sv)
  then have "agent_follows E (aa_agent_mandate a) (unix_timestamp E, Adjust dl lc mpa mpi sv) s s'"
    using assms(1) adjust_agent_follows by (fastforce simp: map_sum_Inr)
  moreover have "adjusts_agent (aa_agent_mandate a) c" by (simp add: CallAdjust)
  ultimately show ?thesis by blast
qed (use assms(1) pause_agent_follows resume_agent_follows in \<open>fastforce simp: map_sum_Inr\<close>)+

text \<open>What a call does to one mandate: nothing, or a step of it at the time of the call.\<close>

lemma agent_call_step:
  assumes "do_agent_call (E, c) s = Inr s'" "keeps_program_accounts E" "creates_fresh E" "current_agent E s k = Inr m"
  obtains "current_agent E s' k = Inr m"
  | y m' where "agent_step (unix_timestamp E, y) m = Inr m'" "current_agent E s' k = Inr m'"
      "is_adjust y \<longrightarrow> adjusts_agent k c"
  using do_agent_call_follows [OF assms(1-3)]
proof (elim disjE exE conjE)
  assume "accounts_kept s s'"
  then show thesis using agent_store.kept_view [of s s' E k m] assms(4) that(1) by (simp add: stored_view_Some)
next
  fix j y assume f: "agent_follows E j (unix_timestamp E, y) s s'" and y: "is_adjust y \<longrightarrow> adjusts_agent j c"
  show thesis
  proof (cases "j = k")
    case True
    then obtain m' where "agent_step (unix_timestamp E, y) m = Inr m'" "current_agent E s' k = Inr m'"
      using f assms(4) by (auto simp: store_follows_def)
    then show thesis using that(2) y True by blast
  next
    case False
    then have "acc_owner (s' k) = acc_owner (s k)" "acc_data (s' k) = acc_data (s k)"
      using f agent_store.load_owner [OF assms(4)] by (auto simp: store_follows_def)
    from agent_store.load_local [of s' k s E, OF this] show thesis using that(1) assms(4) by simp
  qed
qed

interpretation agent_sim: simulation agent_step agent_inv do_agent_call "agent_runtime E"
  "stored_view current_agent E k" for E :: env and k :: pubkey
proof unfold_locales
  fix x :: "env \<times> agent_call" and c c' s
  assume x: "agent_runtime E x" "do_agent_call x c = Inr c'"
    and v: "stored_view current_agent E k c = Some s"
  obtain E' call where E': "x = (E', call)" by (cases x)
  have E: "disc E' = disc E" "keeps_program_accounts E'" "creates_fresh E'"
    using x(1) by (simp_all add: agent_runtime_def same_program_def E')
  from do_agent_call_follows [OF x(2) [unfolded E'] E(2,3)]
  show "stored_view current_agent E k c' = Some s \<or>
      (\<exists>y s'. agent_step y s = Inr s' \<and> stored_view current_agent E k c' = Some s')"
  proof (elim disjE exE conjE)
    assume "accounts_kept c c'"
    then show ?thesis using agent_store.kept_view v by blast
  next
    fix k' y assume "agent_follows E' k' (unix_timestamp E', y) c c'"
    then show ?thesis by (rule agent_store.follows_view [OF _ E(1) v])
  qed
qed

section \<open>Properties\<close>

definition sample_agent :: agent_mandate where
  "sample_agent =
     \<lparr>ag_authority = 1, ag_agent = 2, ag_daily_limit = 100, ag_daily_spent = 0,
      ag_daily_last_reset = i64_of 0, ag_lifetime_cap = 1000, ag_total_spent = 0,
      ag_min_pull_amount = 1, ag_min_pull_interval = i64_of 0, ag_last_pull_at = i64_of 0,
      ag_status = AgentActive,
      ag_services = [\<lparr>sl_service = 9, sl_daily_limit = 100, sl_daily_spent = 0, sl_last_reset = i64_of 0\<rparr>],
      ag_bump = 255, ag_version = 1, ag_reserved = replicate 64 0\<rparr>"

lemma sample_agent_address [simp]: "sample_address (agent_mandate_seed # r) = 24845"
  by (simp add: sample_address_def agent_mandate_seed_def bytes_def)

definition agent_store_with :: "u8 list \<Rightarrow> store" where
  "agent_store_with bs =
     sample_store
       ((24845, owned_by program_id (sample_disc KAgentMandate @ bs)) #
        (40, owned_by 22 (sample_token 3 24845)) # (41, owned_by 22 (sample_token 3 9)) #
        (42, owned_by 21 (sample_token 5 1)) # (5, owned_by 21 []) # (33, owned_by 21 (sample_token 5 27918)) #
        (3360, owned_by 22 (sample_token 3 24845)) # sample_config_accounts)"

lemma agent_store_with_simps [simp]:
  "agent_store_with bs 24845 = owned_by program_id (sample_disc KAgentMandate @ bs)"
  "agent_store_with bs 40 = owned_by 22 (sample_token 3 24845)" "agent_store_with bs 3 = owned_by 22 []"
  "agent_store_with bs 41 = owned_by 22 (sample_token 3 9)"
  "agent_store_with bs 33 = owned_by 21 (sample_token 5 27918)"
  "agent_store_with bs 42 = owned_by 21 (sample_token 5 1)" "agent_store_with bs 5 = owned_by 21 []"
  "agent_store_with bs 3360 = owned_by 22 (sample_token 3 24845)"
  "agent_store_with bs 24840 = \<lparr>acc_owner = 0, acc_lamports = 0, acc_data = []\<rparr>"
  "agent_store_with bs 25350 = owned_by program_id
     (sample_disc KProtocolConfig @ enc_protocol_config sample_protocol_config)"
  by (simp_all add: agent_store_with_def sample_store_def sample_config_accounts_def)

lemma current_agent_sample:
  "valid_agent_mandate m \<Longrightarrow> ag_version m = 1 \<Longrightarrow> disc E = sample_disc \<Longrightarrow>
     current_agent E (agent_store_with (enc_agent_mandate m @ replicate n 0)) 24845 = Inr m"
  using agent_mandate_codec.try_deserialize_enc [of m E KAgentMandate "replicate n 0"]
  by (simp add: current_agent_Inr read_agent_mandate_def Let_def CURRENT_ACCOUNT_VERSION_def)

lemma sample_agent_ok: "valid_agent_mandate sample_agent" "ag_version sample_agent = 1" "agent_inv sample_agent"
  by (simp_all add: sample_agent_def valid_agent_mandate_def agent_inv_def service_within_def
      AGENT_MANDATE_MAX_SERVICES_def in_i64_def)

definition agent_store_sample :: store where
  "agent_store_sample = agent_store_with (enc_agent_mandate sample_agent @ replicate 100 0)"

lemma current_agent_store_sample:
  "disc E = sample_disc \<Longrightarrow> current_agent E agent_store_sample 24845 = Inr sample_agent"
  unfolding agent_store_sample_def by (rule current_agent_sample) (simp_all add: sample_agent_ok)

text \<open>
  Whatever agent-mandate handlers are called, in whatever order and by whom, a mandate in
  the current layout that satisfies its limits still loads and still satisfies them: the day's
  spending is within the daily limit, every service's within its own, the total within the
  lifetime cap, and the services are distinct and at most eight.
\<close>

theorem agent_handlers_keep_limits:
  assumes "list_all (agent_runtime E) calls" "current_agent E s k = Inr m" "agent_inv m"
  shows "\<exists>m'. current_agent E (run do_agent_call calls s) k = Inr m' \<and> agent_inv m'"
  using agent_sim.run_view_inv [OF assms(1) _ assms(3)] assms(2) by (simp add: stored_view_Some)

theorem agent_handlers_keep_limits_witness:
  "\<exists>m'. current_agent (creating_env (i64_of 0) [])
     (run do_agent_call
       [(creating_env (i64_of 5) [1], CallPauseAgent \<lparr>aa_authority = 1, aa_agent = 2, aa_agent_mandate = 24845\<rparr>)]
       agent_store_sample) 24845 = Inr m' \<and> agent_inv m'"
  by (rule agent_handlers_keep_limits [OF _ current_agent_store_sample sample_agent_ok(3)])
     (simp_all add: agent_runtime_def same_program_def)

text \<open>A revoked agent mandate never changes again, whatever handlers are called.\<close>

theorem revoked_agent_is_final:
  assumes "list_all (agent_runtime E) calls" "current_agent E s k = Inr m" "agent_inv m"
    "ag_status m = AgentRevoked"
  shows "current_agent E (run do_agent_call calls s) k = Inr m"
proof -
  obtain ys where "stored_view current_agent E k (run do_agent_call calls s) = Some (run agent_step ys m)"
    using agent_sim.run_simulated [OF assms(1)] assms(2) by (meson stored_view_Some)
  then show ?thesis by (simp add: stored_view_Some agent_machine.run_final assms(3,4))
qed

theorem revoked_agent_is_final_witness:
  "current_agent (creating_env (i64_of 0) [])
     (run do_agent_call
       [(creating_env (i64_of 5) [1], CallResumeAgent \<lparr>aa_authority = 1, aa_agent = 2, aa_agent_mandate = 24845\<rparr>)]
       (agent_store_with (enc_agent_mandate (sample_agent\<lparr>ag_status := AgentRevoked\<rparr>) @ replicate 100 0))) 24845 =
   Inr (sample_agent\<lparr>ag_status := AgentRevoked\<rparr>)"
  by (rule revoked_agent_is_final [OF _ current_agent_sample])
     (use sample_agent_ok in \<open>simp_all add: agent_runtime_def same_program_def valid_agent_mandate_def agent_inv_def\<close>)

text \<open>
  C26: What a pull does, in its order. It is signed by the agent, and the destination's owner is a listed
  service. From the accounts before the call it creates the approval's account and writes there, and
  nowhere else, an approval for the mandate of exactly the amount, good for sixty seconds. Then
  there is one transfer, of exactly the amount, from the mandate's token account
  (which held it) to the service's. After it no data changes but the mandate's and that of the approval, which is
  closed again; the day's, the service's and the total spending grow by
  exactly the amount within their limits.
\<close>

theorem agent_pull_effect:
  assumes "agent_pull E c amount s = Inr (s', ev)" "keeps_program_accounts E" "creates_fresh E"
    "current_agent E s (aa_agent_mandate c) = Inr m"
  shows "\<exists>src dst i m' seeds s0 a s1 s2. is_signer E (aa_agent c) \<and>
    interface_token E s (ap_mandate_wrapped_account c) = Inr src \<and> ta_owner src = aa_agent_mandate c \<and>
    amount \<le> ta_amount src \<and>
    interface_token E s (ap_service_wrapped_account c) = Inr dst \<and>
    i < length (ag_services m) \<and> sl_service (ag_services m ! i) = ta_owner dst \<and>
    invoke E (InitAccount (ap_payer c) (ap_pull_approval c) (minimum_balance E pull_approval_size)
      pull_approval_size program_id) seeds s = Inr s0 \<and>
    (\<forall>j. j \<noteq> ap_pull_approval c \<longrightarrow> s1 j = s0 j) \<and>
    try_deserialize E KPullApproval dec_pull_approval (acc_data (s1 (ap_pull_approval c))) = Some a \<and>
    pa_mandate a = aa_agent_mandate c \<and> pa_approved a \<and> pa_approved_amount a = amount \<and>
    sval (pa_valid_until a) = sval (unix_timestamp E) + 60 \<and>
    invoke E (TransferChecked (token_2022_id E) (ap_mandate_wrapped_account c) (ap_wrapped_usdc_mint c)
      (ap_service_wrapped_account c) (aa_agent_mandate c) amount USDC_DECIMALS
      (transfer_hook_account_metas (agent_transfer_accounts c))) [agent_seeds c @ [[ag_bump m]]] s1 = Inr s2 \<and>
    (\<forall>j. j \<noteq> aa_agent_mandate c \<longrightarrow> j \<noteq> ap_pull_approval c \<longrightarrow>
       acc_data (s' j) = acc_data (s2 j) \<and> acc_owner (s' j) = acc_owner (s2 j)) \<and>
    acc_data (s' (ap_pull_approval c)) = [] \<and> acc_owner (s' (ap_pull_approval c)) = system_program_id \<and>
    current_agent E s' (aa_agent_mandate c) = Inr m' \<and>
    pull_allowed (windowed m i (unix_timestamp E)) i amount (unix_timestamp E) \<and>
    m' = charged (windowed m i (unix_timestamp E)) i amount (unix_timestamp E) \<and>
    unat (ag_total_spent m') = unat (ag_total_spent m) + unat amount"
  using assms(1)
proof (cases rule: agent_pull_Inr)
  case (1 w sv pc b s0 l i v s1 s2 s3 m')
  let ?k = "aa_agent_mandate c" and ?a = "ap_pull_approval c" and ?now = "unix_timestamp E"
  note ctx = agent_pull_context_Inr [OF 1(1)]
  then obtain seeds where init: "invoke E (InitAccount (ap_payer c) ?a (minimum_balance E pull_approval_size)
       pull_approval_size program_id) seeds s = Inr s0" by blast
  have "current_agent E s0 ?k = Inr m"
    using agent_store.kept_view [OF accounts_kept_call [OF assms(2) init]] assms(4) by (simp add: stored_view_Some)
  moreover have "read_agent_mandate E s0 ?k = Inr l"
    using 1(2) unfolding load_agent_mandate_Inr by (elim conjE)
  ultimately have l: "lam_into_current l = m" by (simp add: current_agent_Inr)
  have f: "agent_follows E ?k (?now, PullFor (ta_owner sv) amount) s s'"
    using agent_pull_follows [OF assms(1-3)] ctx by auto
  have "acc_owner (s ?a) = system_program_id"
    using creates_freshD(1) [OF assms(3) init] by (simp add: created_fresh_def)
  then have ak: "?a \<noteq> ?k" using agent_store.load_owner [OF assms(4)] by auto
  have closed: "acc_data (s' ?a) = [] \<and> acc_owner (s' ?a) = system_program_id"
    using close_program_account_closed [OF 1(12)] write_agent_frame [OF 1(14) ak] by simp
  have after: "\<forall>j. j \<noteq> ?k \<longrightarrow> j \<noteq> ?a \<longrightarrow> acc_data (s' j) = acc_data (s2 j) \<and> acc_owner (s' j) = acc_owner (s2 j)"
    using close_program_account_data [OF 1(12)] write_agent_frame [OF 1(14)] by simp
  define a where "a = agent_approval c amount ?now v b"
  have approval: "try_deserialize E KPullApproval dec_pull_approval (acc_data (s1 ?a)) = Some a"
    "\<forall>j. j \<noteq> ?a \<longrightarrow> s1 j = s0 j"
    using 1(10) pull_approval_codec.try_deserialize_enc [of a E]
    by (simp_all add: anchor_exit_Inr valid_pull_approval_def a_def)
  have a_fields: "pa_mandate a = ?k" "pa_approved a" "pa_approved_amount a = amount"
    "sval (pa_valid_until a) = sval ?now + 60"
    using 1(9) by (simp_all add: a_def agent_approval_def)
  have idx: "i < length (ag_services m)" "sl_service (ag_services m ! i) = ta_owner sv"
    using find_service_index_Some [OF 1(6)] by (simp_all add: l)
  have "agent_step (?now, PullFor (ta_owner sv) amount) m = Inr m'"
    using 1(3,6,7,13) by (simp add: l)
  then have stored: "current_agent E s' ?k = Inr m'"
    using f assms(4) by (auto simp: store_follows_def)
  have "tr_source t = ap_mandate_wrapped_account c \<and> tr_mint t = ap_wrapped_usdc_mint c \<and>
      tr_destination t = ap_service_wrapped_account c \<and> tr_authority t = ?k \<and>
      tr_token_2022_program t = token_2022_id E" if "t = agent_transfer_accounts c" for t
    using ctx by (simp add: that agent_transfer_accounts_def)
  moreover have "ag_bump (windowed m i ?now) = ag_bump m" by (simp add: windowed_def Let_def)
  ultimately have call: "invoke E (TransferChecked (token_2022_id E) (ap_mandate_wrapped_account c)
      (ap_wrapped_usdc_mint c) (ap_service_wrapped_account c) ?k amount USDC_DECIMALS
      (transfer_hook_account_metas (agent_transfer_accounts c))) [agent_seeds c @ [[ag_bump m]]] s1 = Inr s2"
    using 1(11) by (simp add: invoke_transfer_checked_Inr l)
  have total: "unat (ag_total_spent m') = unat (ag_total_spent m) + unat amount"
    using same_agent_pull [OF 1(7)] 1(13) by (simp add: l)
  show ?thesis
    by (rule exI [of _ w], rule exI [of _ sv], rule exI [of _ i], rule exI [of _ m'], rule exI [of _ seeds],
        rule exI [of _ s0], rule exI [of _ a], rule exI [of _ s1], rule exI [of _ s2], intro conjI approval a_fields idx init call total after)
       (use ctx closed stored 1(7,8,13) [unfolded l] in blast)+
qed

definition sample_pull_accounts :: agent_pull_accounts where
  "sample_pull_accounts =
     \<lparr>aa_authority = 1, aa_agent = 2, aa_agent_mandate = 24845, ap_payer = 7,
      ap_mandate_wrapped_account = 40, ap_service_wrapped_account = 41, ap_pull_approval = 24840,
      ap_token_config = 29708, ap_wrapped_usdc_mint = 3, ap_protocol_config = 25350,
      ap_wrapping_vault = 33, ap_hook_program = transfer_hook_program_id,
      ap_extra_account_meta_list = 25875, ap_protocol_program = program_id,
      ap_token_2022_program = 22, ap_system_program = system_program_id\<rparr>"

lemma sample_pull_accounts_fields:
  "aa_authority sample_pull_accounts = 1" "aa_agent sample_pull_accounts = 2"
  "aa_agent_mandate sample_pull_accounts = 24845" "ap_payer sample_pull_accounts = 7"
  "ap_mandate_wrapped_account sample_pull_accounts = 40"
  "ap_service_wrapped_account sample_pull_accounts = 41" "ap_pull_approval sample_pull_accounts = 24840"
  "ap_token_config sample_pull_accounts = 29708" "ap_wrapped_usdc_mint sample_pull_accounts = 3"
  "ap_protocol_config sample_pull_accounts = 25350" "ap_wrapping_vault sample_pull_accounts = 33"
  "ap_hook_program sample_pull_accounts = transfer_hook_program_id"
  "ap_extra_account_meta_list sample_pull_accounts = 25875"
  "ap_protocol_program sample_pull_accounts = program_id" "ap_token_2022_program sample_pull_accounts = 22"
  "ap_system_program sample_pull_accounts = system_program_id"
  by (simp_all add: sample_pull_accounts_def)

lemma sample_agent_fields:
  "ag_authority sample_agent = 1" "ag_agent sample_agent = 2" "ag_status sample_agent = AgentActive"
  "ag_bump sample_agent = 255" "find_service_index sample_agent 9 = Some 0"
  by (simp_all add: sample_agent_def find_service_index_def)

lemma agent_store_sample_simps [simp]:
  "agent_store_sample 40 = owned_by 22 (sample_token 3 24845)" "agent_store_sample 3 = owned_by 22 []"
  "agent_store_sample 41 = owned_by 22 (sample_token 3 9)"
  "agent_store_sample 33 = owned_by 21 (sample_token 5 27918)"
  "agent_store_sample 42 = owned_by 21 (sample_token 5 1)" "agent_store_sample 5 = owned_by 21 []"
  "agent_store_sample 3360 = owned_by 22 (sample_token 3 24845)"
  "agent_store_sample 24840 = \<lparr>acc_owner = 0, acc_lamports = 0, acc_data = []\<rparr>"
  "agent_store_sample 25350 = owned_by program_id
     (sample_disc KProtocolConfig @ enc_protocol_config sample_protocol_config)"
  "agent_store_sample 24845 = owned_by program_id
     (sample_disc KAgentMandate @ enc_agent_mandate sample_agent @ replicate 100 0)"
  by (simp_all add: agent_store_sample_def)

lemma sample_protocol_config_fields:
  "pc_wrapped_usdc_mint sample_protocol_config = 3" "pc_wrapping_vault sample_protocol_config = 33"
  "pc_bump sample_protocol_config = 255" "\<not> pc_paused sample_protocol_config"
  "pc_transfer_hook_program_id sample_protocol_config = transfer_hook_program_id"
  by (simp_all add: sample_protocol_config_def new_protocol_config_def)

abbreviation "with_approval \<equiv> agent_store_sample
  (24840 := \<lparr>acc_owner = program_id, acc_lamports = 0, acc_data = replicate 82 0\<rparr>)"

lemma sample_pull_context:
  "agent_pull_context (creating_env now [2, 7]) sample_pull_accounts agent_store_sample =
     Inr (\<lparr>ta_mint = 3, ta_owner = 24845, ta_amount = 1000000\<rparr>, \<lparr>ta_mint = 3, ta_owner = 9, ta_amount = 1000000\<rparr>,
       sample_protocol_config, 255, with_approval)"
proof -
  have pc: "anchor_account (creating_env now [2, 7]) KProtocolConfig dec_protocol_config agent_store_sample 25350 =
      Inr sample_protocol_config"
    using protocol_config_codec.try_deserialize_enc [of sample_protocol_config "creating_env now [2, 7]" KProtocolConfig "[]"]
      sample_config_valid(1)
    by (simp add: anchor_account_def)
  show ?thesis
    by (simp add: agent_pull_context_def sample_pull_accounts_fields interface_token_def interface_mint_def
        is_token_program_def spl_token_def pc sample_protocol_config_fields token_constraints_def is_signer_def
        agent_approval_seeds_def agent_seeds_def sample_invoke_def pull_approval_size_def system_program_id_def
        Let_def)
qed

lemma sample_pull_returns:
  "\<exists>s' ev. agent_pull (creating_env (i64_of 50) [2, 7]) sample_pull_accounts 30 agent_store_sample = Inr (s', ev)"
proof -
  let ?E = "creating_env (i64_of 50) [2, 7]"
  have load: "load_agent_mandate ?E with_approval 24845 1 2 = Inr (CurrentAgent sample_agent)"
  proof -
    have "current_agent ?E with_approval 24845 = current_agent ?E agent_store_sample 24845"
      by (rule agent_store.load_local) simp_all
    then show ?thesis
      by (simp add: load_agent_mandate_Inr current_agent_store_sample sample_agent_fields flip: current_agent_Inr)
  qed
  have res: "reset_daily_if_needed (reset_service_daily_if_needed sample_agent 0 (i64_of 50)) (i64_of 50) = sample_agent"
    by (simp add: reset_daily_if_needed_def reset_service_daily_if_needed_def saturating_window
        window_over_def sample_agent_def in_i64_def)
  have am: "agent_pull_amounts sample_agent 0 30 (i64_of 50) = Inr (30, 30, 30)"
    by (simp add: agent_pull_amounts_Inr pull_allowed_def sample_agent_def in_i64_def)
  have ch: "charge_agent sample_agent 0 (30, 30, 30) (i64_of 50) = Inr (charged sample_agent 0 30 (i64_of 50))"
    using am by (simp add: charge_agent_charged)
  have v: "i64_checked_add (i64_of 50) (i64_of AGENT_PULL_APPROVAL_TTL_SECONDS) = Some (i64_of 110)"
    by (simp add: i64_checked_add_def AGENT_PULL_APPROVAL_TTL_SECONDS_def in_i64_def)
  have len: "length (enc_pull_approval x) = 74" for x
    by (rule pull_approval_codec.length_enc) (simp add: valid_pull_approval_def)
  have wr: "length (enc_agent_mandate (charged sample_agent 0 30 (i64_of 50))) =
      length (enc_agent_mandate sample_agent)"
    by (simp add: enc_agent_mandate_def length_enc_services charged_def)
  show ?thesis
    by (simp add: agent_pull_def sample_pull_context sample_pull_accounts_fields load sample_agent_fields
        sample_protocol_config_fields transfer_hook_program_id_def res am v anchor_exit_def Let_def len ch
        invoke_transfer_checked_with_hook_def agent_transfer_accounts_def is_token_program_def
        sample_invoke_def close_program_account_def write_agent_mandate_def write_account_def write_data_def wr
        interface_token_def set_data_def)
qed

theorem agent_pull_effect_witness:
  "\<exists>s' m' src. current_agent (creating_env (i64_of 50) [2, 7]) s' 24845 = Inr m' \<and>
     ag_total_spent m' = 30 \<and> ag_daily_spent m' = 30 \<and>
     interface_token (creating_env (i64_of 50) [2, 7]) agent_store_sample 40 = Inr src \<and>
     acc_data (s' 24840) = []"
proof -
  obtain s' ev where "agent_pull (creating_env (i64_of 50) [2, 7]) sample_pull_accounts 30 agent_store_sample = Inr (s', ev)"
    using sample_pull_returns by blast
  from agent_pull_effect [OF this, unfolded sample_pull_accounts_fields, of sample_agent]
  obtain src i m' where "current_agent (creating_env (i64_of 50) [2, 7]) s' 24845 = Inr m'"
    "i < length (ag_services sample_agent)" "m' = charged (windowed sample_agent i (i64_of 50)) i 30 (i64_of 50)"
    "interface_token (creating_env (i64_of 50) [2, 7]) agent_store_sample 40 = Inr src" "acc_data (s' 24840) = []"
    by (auto simp: current_agent_store_sample)
  moreover from this have "ag_total_spent m' = 30 \<and> ag_daily_spent m' = 30"
    by (auto simp: charged_def windowed_def window_over_def sample_agent_def in_i64_def Let_def)
  ultimately show ?thesis by blast
qed

text \<open>The limits of two days, spent within two seconds: the window ended between the pulls.\<close>

lemma two_limits_in_two_seconds:
  "ag_daily_limit sample_agent = 100 \<and>
   ag_total_spent (run agent_step [(i64_of 86399, PullFor 9 100), (i64_of 86400, PullFor 9 100)] sample_agent) = 200"
  by (simp add: find_service_index_def sample_agent_def windowed_def window_over_def pull_allowed_def charged_def
      in_i64_def Let_def)

text \<open>
  Creating a mandate. The account created at the derived address loads, in the current
  layout, as an active mandate of the authority and agent with nothing spent, the given services
  and every limit satisfied; no account the program owned before is touched.
\<close>

theorem create_agent_establishes_limits:
  assumes "create_agent_mandate E c dl lc mpa mpi sv n s = Inr (s', ev)"
    "keeps_program_accounts E" "creates_fresh E"
  shows "accounts_kept s s' \<and>
    (\<exists>m. current_agent E s' (aa_agent_mandate c) = Inr m \<and> agent_inv m \<and> ag_status m = AgentActive \<and>
       ag_total_spent m = 0 \<and> map sl_service (ag_services m) = map si_service sv \<and>
       ag_authority m = aa_authority c \<and> ag_agent m = aa_agent c)"
  using create_agent_effect [OF assms] by blast

definition sample_fund_accounts :: agent_fund_accounts where
  "sample_fund_accounts =
     \<lparr>aa_authority = 1, aa_agent = 2, aa_agent_mandate = 24845, af_mandate_wrapped_account = 40,
      af_authority_usdc_account = 42, af_wrapped_usdc_mint = 3, af_protocol_config = 25350,
      af_spl_usdc_mint = 5, af_wrapping_vault = 33, af_mint_authority = 27918,
      af_spl_token_program = 21, af_token_2022_program = 22\<rparr>"

definition sample_create_accounts :: agent_create_accounts where
  "sample_create_accounts =
     \<lparr>aa_authority = 1, aa_agent = 2, aa_agent_mandate = 24845, af_mandate_wrapped_account = 3360,
      af_authority_usdc_account = 42, af_wrapped_usdc_mint = 3, af_protocol_config = 25350,
      af_spl_usdc_mint = 5, af_wrapping_vault = 33, af_mint_authority = 27918,
      af_spl_token_program = 21, af_token_2022_program = 22,
      ac_associated_token_program = 23, ac_system_program = system_program_id\<rparr>"

lemma sample_mint_authority [simp]: "sample_address (mint_authority_seed # r) = 27918"
  by (simp add: sample_address_def mint_authority_seed_def bytes_def)

lemma sample_wallet_address [simp]: "sample_address (key_bytes 24845 # r) = 3360"
  by (simp add: sample_address_def le_bytes_def upt_conv_Cons drop_bit_eq_div)

lemma creating_protocol_config:
  "s 25350 = owned_by program_id (sample_disc KProtocolConfig @ enc_protocol_config sample_protocol_config) \<Longrightarrow>
     anchor_account (creating_env now sg) KProtocolConfig dec_protocol_config s 25350 =
      Inr sample_protocol_config"
  using protocol_config_codec.try_deserialize_enc [of sample_protocol_config "creating_env now sg" KProtocolConfig "[]"]
    sample_config_valid(1)
  by (simp add: anchor_account_def)

theorem create_agent_establishes_limits_witness:
  "\<exists>s' m. current_agent (creating_env (i64_of 5) [1]) s' 24845 = Inr m \<and> agent_inv m \<and>
     map sl_service (ag_services m) = [9, 10]"
proof -
  let ?E = "creating_env (i64_of 5) [1]"
  let ?s = "agent_store_sample(24845 := \<lparr>acc_owner = system_program_id, acc_lamports = 0, acc_data = []\<rparr>)"
  let ?sv = "[\<lparr>si_service = 9, si_daily_limit = 50\<rparr>, \<lparr>si_service = 10, si_daily_limit = 60\<rparr>]"
  have ata: "init_associated_token ?E 1 3360 24845 3 22 ?s = Inr ?s"
    by (simp add: init_associated_token_def interface_token_def is_token_program_def token_constraints_def
        associated_token_address_def system_program_id_def)
  have "\<exists>s' ev. create_agent_mandate ?E sample_create_accounts 100 1000 1 (i64_of 0) ?sv 500 ?s = Inr (s', ev)"
    by (simp add: create_agent_mandate_def sample_create_accounts_def spl_token_def spl_mint_def
        interface_mint_def is_token_program_def creating_protocol_config ata agent_constraints_def
        agent_fund_constraints_def sample_protocol_config_fields is_signer_def agent_seeds_def
        AGENT_MANDATE_MAX_SERVICES_def data_is_empty_def initialize_agent_mandate_def
        validate_agent_mandate_address_def sample_invoke_def write_agent_mandate_def write_account_def
        write_data_def enc_agent_mandate_def length_enc_services new_agent_mandate_def
        new_service_limits_def agent_mandate_size_def set_data_def interface_token_def less_eq_i64_def Let_def)
  then obtain s' ev where
    "create_agent_mandate ?E sample_create_accounts 100 1000 1 (i64_of 0) ?sv 500 ?s = Inr (s', ev)" by blast
  from create_agent_establishes_limits [OF this creating_env_runtime] obtain m where
    "current_agent ?E s' (aa_agent_mandate sample_create_accounts) = Inr m" "agent_inv m"
    "map sl_service (ag_services m) = map si_service ?sv"
    by blast
  moreover have "aa_agent_mandate sample_create_accounts = 24845" by (simp add: sample_create_accounts_def)
  ultimately have "current_agent ?E s' 24845 = Inr m \<and> agent_inv m \<and> map sl_service (ag_services m) = [9, 10]"
    by (simp only: list.map service_limit_input.select_convs)
  then show ?thesis by (intro exI)
qed

text \<open>
  Revoking pays everything out. If the mandate's token account holds anything, exactly
  that is burned and exactly that is released from the wrapping vault to a USDC account of
  the authority, who signed; and the mandate is stored as revoked.
\<close>

theorem revoke_agent_pays_out:
  assumes "revoke_agent_mandate E c s = Inr (s', ev)" "keeps_program_accounts E"
    "current_agent E s (aa_agent_mandate c) = Inr m"
  shows "\<exists>w usdc s1 s2. is_signer E (aa_authority c) \<and>
    interface_token E s (af_mandate_wrapped_account c) = Inr w \<and> ta_owner w = aa_agent_mandate c \<and>
    spl_token E s (af_authority_usdc_account c) = Inr usdc \<and> ta_owner usdc = aa_authority c \<and>
    (if ta_amount w = 0 then s2 = s
     else (\<exists>sd1 sd2. invoke E (Burn (af_wrapped_usdc_mint c) (af_mandate_wrapped_account c)
             (aa_agent_mandate c) (ta_amount w)) sd1 s = Inr s1 \<and>
           invoke E (SplTransferChecked (af_wrapping_vault c) (af_spl_usdc_mint c)
             (af_authority_usdc_account c) (af_mint_authority c) (ta_amount w) USDC_DECIMALS) sd2 s1 = Inr s2)) \<and>
    current_agent E s' (aa_agent_mandate c) = Inr (m\<lparr>ag_status := AgentRevoked\<rparr>) \<and>
    ag_status m \<noteq> AgentRevoked"
proof -
  obtain w s2 b where ctx: "agent_fund_context E c s = Inr w"
    and rel: "release_wrapped E c b (ta_amount w) s = Inr s2"
  proof -
    show thesis
      using assms(1) unfolding revoke_agent_mandate_def handler_inversion
      by (elim exE conjE) (rule that, assumption+)
  qed
  obtain usdc where "interface_token E s (af_mandate_wrapped_account c) = Inr w"
    "ta_owner w = aa_agent_mandate c" "spl_token E s (af_authority_usdc_account c) = Inr usdc"
    "ta_owner usdc = aa_authority c"
    using ctx unfolding agent_fund_context_def handler_inversion require_all_Inr agent_fund_constraints_def
      token_constraints_def by auto
  moreover have "\<exists>s1. if ta_amount w = 0 then s2 = s
     else (\<exists>sd1 sd2. invoke E (Burn (af_wrapped_usdc_mint c) (af_mandate_wrapped_account c)
             (aa_agent_mandate c) (ta_amount w)) sd1 s = Inr s1 \<and>
           invoke E (SplTransferChecked (af_wrapping_vault c) (af_spl_usdc_mint c)
             (af_authority_usdc_account c) (af_mint_authority c) (ta_amount w) USDC_DECIMALS) sd2 s1 = Inr s2)"
    using rel by (auto simp: release_wrapped_def Let_def ok_simps word_gt_0 split: if_splits)
  moreover have "current_agent E s' (aa_agent_mandate c) = Inr (m\<lparr>ag_status := AgentRevoked\<rparr>) \<and>
      ag_status m \<noteq> AgentRevoked \<and> is_signer E (aa_authority c)"
    using revoke_agent_follows [OF assms(1,2)] assms(3)
    by (auto simp: store_follows_def split: if_splits)
  ultimately show ?thesis by blast
qed

theorem revoke_agent_pays_out_witness:
  "\<exists>s'. current_agent (creating_env (i64_of 5) [1]) s' 24845 =
     Inr (sample_agent\<lparr>ag_status := AgentRevoked\<rparr>)"
proof -
  let ?E = "creating_env (i64_of 5) [1]"
  have ctx: "agent_fund_context ?E sample_fund_accounts agent_store_sample =
      Inr \<lparr>ta_mint = 3, ta_owner = 24845, ta_amount = 1000000\<rparr>"
    by (simp add: agent_fund_context_def sample_fund_accounts_def spl_token_def spl_mint_def interface_token_def
        interface_mint_def is_token_program_def creating_protocol_config agent_constraints_def
        agent_fund_constraints_def token_constraints_def sample_protocol_config_fields is_signer_def agent_seeds_def)
  have load: "load_agent_mandate ?E agent_store_sample 24845 1 2 = Inr (CurrentAgent sample_agent)"
    by (simp add: load_agent_mandate_Inr current_agent_store_sample sample_agent_fields flip: current_agent_Inr)
  have len: "length (enc_agent_mandate (sample_agent\<lparr>ag_status := AgentRevoked\<rparr>)) =
      length (enc_agent_mandate sample_agent)"
    by (simp add: enc_agent_mandate_def length_enc_services)
  have "\<exists>s' ev. revoke_agent_mandate ?E sample_fund_accounts agent_store_sample = Inr (s', ev)"
    by (simp add: revoke_agent_mandate_def ctx)
       (simp add: authority_mandate_def sample_fund_accounts_def load sample_agent_fields release_wrapped_def
        sample_invoke_def write_agent_mandate_def write_account_def write_data_def len set_data_def
        interface_token_def is_token_program_def Let_def)
  then obtain s' ev where "revoke_agent_mandate ?E sample_fund_accounts agent_store_sample = Inr (s', ev)"
    by blast
  from revoke_agent_pays_out [OF this, of sample_agent] show ?thesis
    by (auto simp: sample_fund_accounts_def current_agent_store_sample)
qed

text \<open>
  C40: A mandate in the legacy layout is only readable while fewer than 65 zero bytes follow it:
  with more room its bytes also decode as a current mandate of version 0, which is refused. So an
  adjustment of a legacy mandate that drops two services or more succeeds and leaves an
  account that no handler can load again.
\<close>

theorem legacy_adjust_makes_unreadable:
  assumes "adjust_agent_mandate E c dl lc mpa mpi (Some sv) s = Inr (s', ev)"
    "acc_data (s (aa_agent_mandate c)) = disc E KAgentMandate @ enc_agent_mandate_v1 l @ replicate n 0"
    "valid_agent_mandate_v1 l" "n < 65" "length sv + 2 \<le> length (agl_services l)"
  shows "\<forall>a g. load_agent_mandate E s' (aa_agent_mandate c) a g \<noteq> Inr y"
proof -
  let ?k = "aa_agent_mandate c"
  obtain q m' where q: "authority_mandate E c s = Inr q"
    and adj: "adjust_mandate (snd q) dl lc mpa mpi (Some sv) (unix_timestamp E) = Inr m'"
    and wr: "write_agent_mandate E ?k m' (fst q) s = Inr s'"
  proof -
    show thesis
      using assms(1) unfolding adjust_agent_mandate_def handler_inversion
      by (elim exE conjE) (rule that, assumption+)
  qed
  obtain l' where l': "read_agent_mandate E s ?k = Inr l'" "fst q = lam_is_legacy l'"
    using authority_mandate_Inr [of E c s "fst q" "snd q"] q by auto
  then have own: "acc_owner (s ?k) = program_id" by (auto simp: read_agent_mandate_def split: if_splits)
  have "read_agent_mandate E s ?k = Inr (LegacyAgent l)"
    using read_agent_legacy_bytes [of l s ?k E n] own assms(2-4) by simp
  with l' have legacy: "fst q" by (metis lam_is_legacy.simps(1) sum.inject(2))
  have sv: "length (ag_services m') = length sv"
    using adjust_mandate_services [OF adj] by simp
  let ?l = "legacy_from_agent m'"
  have v: "valid_agent_mandate_v1 ?l"
    using assms(3,5) sv by (simp add: valid_agent_mandate_v1_def legacy_from_agent_def)
  have len: "length (enc_agent_mandate_v1 ?l) + 112 \<le> length (enc_agent_mandate_v1 l)"
    using assms(5) sv by (simp add: enc_agent_mandate_v1_def length_enc_services legacy_from_agent_def)
  have "acc_data (s' ?k) = disc E KAgentMandate @ enc_agent_mandate_v1 ?l @
      replicate (length (enc_agent_mandate_v1 l) + n - length (enc_agent_mandate_v1 ?l)) 0 \<and>
      acc_owner (s' ?k) = program_id"
    using wr legacy own assms(2) by (simp add: write_agent_mandate_def write_account_Inr)
  then have "read_agent_mandate E s' ?k = Inl (Program InvalidAccountData)"
    using read_agent_legacy_bytes [OF v, of s' ?k E] len by simp
  then show ?thesis by (simp add: load_agent_mandate_Inr)
qed


definition sample_legacy_agent :: agent_mandate_v1 where
  "sample_legacy_agent =
     (legacy_from_agent sample_agent)
       \<lparr>agl_services :=
         [\<lparr>sl_service = 9, sl_daily_limit = 100, sl_daily_spent = 0, sl_last_reset = i64_of 0\<rparr>,
          \<lparr>sl_service = 10, sl_daily_limit = 100, sl_daily_spent = 0, sl_last_reset = i64_of 0\<rparr>]\<rparr>"

theorem legacy_adjust_makes_unreadable_witness:
  "\<exists>s'. load_agent_mandate (creating_env (i64_of 5) [1]) s' 24845 1 2 \<noteq> Inr (LegacyAgent sample_legacy_agent)"
proof -
  let ?E = "creating_env (i64_of 5) [1]"
  let ?s = "agent_store_with (enc_agent_mandate_v1 sample_legacy_agent)"
  let ?c = "\<lparr>aa_authority = 1, aa_agent = 2, aa_agent_mandate = 24845, ad_mandate_wrapped_account = 40,
      ad_wrapped_usdc_mint = 3, ad_protocol_config = 25350, ad_token_2022_program = 22\<rparr>"
  have v: "valid_agent_mandate_v1 sample_legacy_agent"
    by (simp add: valid_agent_mandate_v1_def sample_legacy_agent_def)
  have keys: "agl_authority sample_legacy_agent = 1" "agl_agent sample_legacy_agent = 2"
    by (simp_all add: sample_legacy_agent_def legacy_from_agent_def sample_agent_def)
  have load: "load_agent_mandate ?E ?s 24845 1 2 = Inr (LegacyAgent sample_legacy_agent)"
    using read_agent_legacy_bytes [OF v, of ?s 24845 ?E 0] by (simp add: load_agent_mandate_Inr keys)
  have m: "authority_mandate ?E ?c ?s = Inr (True, lam_into_current (LegacyAgent sample_legacy_agent))"
    by (simp add: authority_mandate_def load keys)
  obtain m' where adj: "adjust_mandate (lam_into_current (LegacyAgent sample_legacy_agent)) None None None None
      (Some []) (i64_of 5) = Inr m'" and svs: "ag_services m' = []"
    by (simp add: adjust_mandate_def AGENT_MANDATE_MAX_SERVICES_def)
  have len: "length (enc_agent_mandate_v1 (legacy_from_agent m')) \<le> length (enc_agent_mandate_v1 sample_legacy_agent)"
    by (simp add: enc_agent_mandate_v1_def length_enc_services legacy_from_agent_def svs)
  have active: "ag_status (lam_into_current (LegacyAgent sample_legacy_agent)) \<noteq> AgentRevoked"
    by (simp add: new_agent_mandate_def sample_legacy_agent_def legacy_from_agent_def sample_agent_def)
  have "\<exists>s' ev. adjust_agent_mandate ?E ?c None None None None (Some []) ?s = Inr (s', ev)"
    using active len
    by (simp add: adjust_agent_mandate_def m adj interface_token_def interface_mint_def is_token_program_def
        creating_protocol_config agent_constraints_def token_constraints_def is_signer_def agent_seeds_def
        sample_protocol_config_fields write_agent_mandate_def write_account_def write_data_def Let_def
        del: lam_into_current.simps)
  then obtain s' ev where a: "adjust_agent_mandate ?E ?c None None None None (Some []) ?s = Inr (s', ev)" by blast
  have "\<forall>a g. load_agent_mandate ?E s' (aa_agent_mandate ?c) a g \<noteq> Inr (LegacyAgent sample_legacy_agent)"
    by (rule legacy_adjust_makes_unreadable [OF a, where n = 0 and l = sample_legacy_agent])
       (use v in \<open>simp_all add: sample_legacy_agent_def\<close>)
  then show ?thesis by auto
qed

end
