(* ===== verification/Plans.thy ===== *)
theory Plans
  imports Merchant Mandates
begin

text \<open>
  Plans: a merchant's offer, flat (\<open>state/plan.rs\<close>) or by usage (\<open>state/usage_plan.rs\<close>), each
  in a legacy and a current layout, with the loader, the values a mandate takes from a plan
  and the writers (\<open>instructions/accounts/plan_account.rs\<close>), and the handlers that create,
  update and migrate plans (\<open>instructions/plans/\<close>). What they guarantee is in
  \<open>Plan_Terms\<close>.
\<close>

section \<open>The accounts\<close>

datatype plan_status = PlanActive | PlanInactive

fun enc_plan_status :: "plan_status \<Rightarrow> u8 list" where
  "enc_plan_status PlanActive = [0]"
| "enc_plan_status PlanInactive = [1]"

fun dec_plan_status :: "plan_status decoder" where
  "dec_plan_status [] = None"
| "dec_plan_status (b # bs) =
     (if b = 0 then Some (PlanActive, bs) else if b = 1 then Some (PlanInactive, bs) else None)"

lemma dec_enc_plan_status [simp]: "dec_plan_status (enc_plan_status x @ r) = Some (x, r)"
  by (cases x) simp_all

lemma length_enc_plan_status [simp]: "length (enc_plan_status x) = 1"
  by (cases x) simp_all

record vela_plan =
  vp_merchant :: "pubkey"
  vp_plan_id :: "u64"
  vp_amount :: "u64"
  vp_frequency :: "u64"
  vp_trial_period :: "u64"
  vp_max_pulls :: "u64"
  vp_status :: "plan_status"
  vp_credential_mint :: "pubkey"
  vp_billing_mint :: "pubkey"
  vp_bump :: "u8"
  vp_version :: "u8"
  vp_reserved :: "u8 list"

definition valid_vela_plan :: "vela_plan \<Rightarrow> bool" where
  "valid_vela_plan m \<longleftrightarrow> length (vp_reserved m) = 32"

definition enc_vela_plan :: "vela_plan \<Rightarrow> u8 list" where
  "enc_vela_plan m =
     key_bytes (vp_merchant m) @
     u64_le (vp_plan_id m) @
     u64_le (vp_amount m) @
     u64_le (vp_frequency m) @
     u64_le (vp_trial_period m) @
     u64_le (vp_max_pulls m) @
     enc_plan_status (vp_status m) @
     key_bytes (vp_credential_mint m) @
     key_bytes (vp_billing_mint m) @
     [vp_bump m] @
     [vp_version m] @
     vp_reserved m"

definition dec_vela_plan :: "vela_plan decoder" where
  "dec_vela_plan bs = do {
     (x_merchant, bs) \<leftarrow> dec_key bs;
     (x_plan_id, bs) \<leftarrow> dec_u64 bs;
     (x_amount, bs) \<leftarrow> dec_u64 bs;
     (x_frequency, bs) \<leftarrow> dec_u64 bs;
     (x_trial_period, bs) \<leftarrow> dec_u64 bs;
     (x_max_pulls, bs) \<leftarrow> dec_u64 bs;
     (x_status, bs) \<leftarrow> dec_plan_status bs;
     (x_credential_mint, bs) \<leftarrow> dec_key bs;
     (x_billing_mint, bs) \<leftarrow> dec_key bs;
     (x_bump, bs) \<leftarrow> dec_u8 bs;
     (x_version, bs) \<leftarrow> dec_u8 bs;
     (x_reserved, bs) \<leftarrow> dec_bytes 32 bs;
     Some (\<lparr>vp_merchant = x_merchant,
       vp_plan_id = x_plan_id,
       vp_amount = x_amount,
       vp_frequency = x_frequency,
       vp_trial_period = x_trial_period,
       vp_max_pulls = x_max_pulls,
       vp_status = x_status,
       vp_credential_mint = x_credential_mint,
       vp_billing_mint = x_billing_mint,
       vp_bump = x_bump,
       vp_version = x_version,
       vp_reserved = x_reserved\<rparr>, bs)
   }"

interpretation vela_plan_codec: fixed_borsh enc_vela_plan dec_vela_plan valid_vela_plan 171
proof unfold_locales
  show "valid_vela_plan x \<Longrightarrow> dec_vela_plan (enc_vela_plan x @ r) = Some (x, r)" for x r
    by (simp add: enc_vela_plan_def dec_vela_plan_def valid_vela_plan_def)
  show "dec_vela_plan bs = Some (x, r) \<Longrightarrow> valid_vela_plan x" for bs x r
    unfolding dec_vela_plan_def by (elim bind_SomeE) (auto simp: valid_vela_plan_def)
  show "valid_vela_plan x \<Longrightarrow> length (enc_vela_plan x) = 171" for x
    by (simp add: enc_vela_plan_def valid_vela_plan_def)
qed

record vela_plan_v1 =
  vpl_merchant :: "pubkey"
  vpl_plan_id :: "u64"
  vpl_amount :: "u64"
  vpl_frequency :: "u64"
  vpl_trial_period :: "u64"
  vpl_max_pulls :: "u64"
  vpl_status :: "plan_status"
  vpl_credential_mint :: "pubkey"
  vpl_bump :: "u8"

definition valid_vela_plan_v1 :: "vela_plan_v1 \<Rightarrow> bool" where
  "valid_vela_plan_v1 m \<longleftrightarrow> True"

definition enc_vela_plan_v1 :: "vela_plan_v1 \<Rightarrow> u8 list" where
  "enc_vela_plan_v1 m =
     key_bytes (vpl_merchant m) @
     u64_le (vpl_plan_id m) @
     u64_le (vpl_amount m) @
     u64_le (vpl_frequency m) @
     u64_le (vpl_trial_period m) @
     u64_le (vpl_max_pulls m) @
     enc_plan_status (vpl_status m) @
     key_bytes (vpl_credential_mint m) @
     [vpl_bump m]"

definition dec_vela_plan_v1 :: "vela_plan_v1 decoder" where
  "dec_vela_plan_v1 bs = do {
     (x_merchant, bs) \<leftarrow> dec_key bs;
     (x_plan_id, bs) \<leftarrow> dec_u64 bs;
     (x_amount, bs) \<leftarrow> dec_u64 bs;
     (x_frequency, bs) \<leftarrow> dec_u64 bs;
     (x_trial_period, bs) \<leftarrow> dec_u64 bs;
     (x_max_pulls, bs) \<leftarrow> dec_u64 bs;
     (x_status, bs) \<leftarrow> dec_plan_status bs;
     (x_credential_mint, bs) \<leftarrow> dec_key bs;
     (x_bump, bs) \<leftarrow> dec_u8 bs;
     Some (\<lparr>vpl_merchant = x_merchant,
       vpl_plan_id = x_plan_id,
       vpl_amount = x_amount,
       vpl_frequency = x_frequency,
       vpl_trial_period = x_trial_period,
       vpl_max_pulls = x_max_pulls,
       vpl_status = x_status,
       vpl_credential_mint = x_credential_mint,
       vpl_bump = x_bump\<rparr>, bs)
   }"

interpretation vela_plan_v1_codec: fixed_borsh enc_vela_plan_v1 dec_vela_plan_v1 valid_vela_plan_v1 106
proof unfold_locales
  show "valid_vela_plan_v1 x \<Longrightarrow> dec_vela_plan_v1 (enc_vela_plan_v1 x @ r) = Some (x, r)" for x r
    by (simp add: enc_vela_plan_v1_def dec_vela_plan_v1_def valid_vela_plan_v1_def)
  show "dec_vela_plan_v1 bs = Some (x, r) \<Longrightarrow> valid_vela_plan_v1 x" for bs x r
    by (simp add: valid_vela_plan_v1_def)
  show "valid_vela_plan_v1 x \<Longrightarrow> length (enc_vela_plan_v1 x) = 106" for x
    by (simp add: enc_vela_plan_v1_def valid_vela_plan_v1_def)
qed

record pricing_tier =
  pt_up_to :: "u64"
  pt_rate_per_unit :: "u64"
  pt_padding :: "u64"

definition valid_pricing_tier :: "pricing_tier \<Rightarrow> bool" where
  "valid_pricing_tier m \<longleftrightarrow> True"

definition enc_pricing_tier :: "pricing_tier \<Rightarrow> u8 list" where
  "enc_pricing_tier m =
     u64_le (pt_up_to m) @
     u64_le (pt_rate_per_unit m) @
     u64_le (pt_padding m)"

definition dec_pricing_tier :: "pricing_tier decoder" where
  "dec_pricing_tier bs = do {
     (x_up_to, bs) \<leftarrow> dec_u64 bs;
     (x_rate_per_unit, bs) \<leftarrow> dec_u64 bs;
     (x_padding, bs) \<leftarrow> dec_u64 bs;
     Some (\<lparr>pt_up_to = x_up_to,
       pt_rate_per_unit = x_rate_per_unit,
       pt_padding = x_padding\<rparr>, bs)
   }"

interpretation pricing_tier_codec: fixed_borsh enc_pricing_tier dec_pricing_tier valid_pricing_tier 24
proof unfold_locales
  show "valid_pricing_tier x \<Longrightarrow> dec_pricing_tier (enc_pricing_tier x @ r) = Some (x, r)" for x r
    by (simp add: enc_pricing_tier_def dec_pricing_tier_def valid_pricing_tier_def)
  show "dec_pricing_tier bs = Some (x, r) \<Longrightarrow> valid_pricing_tier x" for bs x r
    by (simp add: valid_pricing_tier_def)
  show "valid_pricing_tier x \<Longrightarrow> length (enc_pricing_tier x) = 24" for x
    by (simp add: enc_pricing_tier_def valid_pricing_tier_def)
qed

text \<open>The five tiers of a usage plan are an array, written one after the other.\<close>

lemma valid_pricing_tier [simp]: "valid_pricing_tier t"
  by (simp add: valid_pricing_tier_def)

lemma dec_seq_tiers [simp]:
  "length xs = n \<Longrightarrow> dec_seq dec_pricing_tier n (enc_seq enc_pricing_tier xs @ r) = Some (xs, r)"
  using pricing_tier_codec.dec_seq_enc [of xs r] by simp

lemma dec_seq_tiers_length [dest]: "dec_seq dec_pricing_tier n bs = Some (xs, r) \<Longrightarrow> length xs = n"
  by (drule pricing_tier_codec.dec_seq_valid) simp

lemma length_enc_tiers [simp]: "length (enc_seq enc_pricing_tier xs) = 24 * length xs"
  by (rule length_enc_seq) (simp add: pricing_tier_codec.length_enc)

record usage_plan =
  up_merchant :: "pubkey"
  up_plan_id :: "u64"
  up_unit_name :: "u8 list"
  up_tiers :: "pricing_tier list"
  up_tier_count :: "u8"
  up_max_charge_per_period :: "u64"
  up_settlement_frequency :: "u64"
  up_credential_mint :: "pubkey"
  up_billing_mint :: "pubkey"
  up_status :: "plan_status"
  up_bump :: "u8"
  up_version :: "u8"
  up_reserved :: "u8 list"

definition valid_usage_plan :: "usage_plan \<Rightarrow> bool" where
  "valid_usage_plan m \<longleftrightarrow> length (up_unit_name m) = 32 \<and>
     length (up_tiers m) = 5 \<and>
     length (up_reserved m) = 32"

definition enc_usage_plan :: "usage_plan \<Rightarrow> u8 list" where
  "enc_usage_plan m =
     key_bytes (up_merchant m) @
     u64_le (up_plan_id m) @
     up_unit_name m @
     enc_seq enc_pricing_tier (up_tiers m) @
     [up_tier_count m] @
     u64_le (up_max_charge_per_period m) @
     u64_le (up_settlement_frequency m) @
     key_bytes (up_credential_mint m) @
     key_bytes (up_billing_mint m) @
     enc_plan_status (up_status m) @
     [up_bump m] @
     [up_version m] @
     up_reserved m"

definition dec_usage_plan :: "usage_plan decoder" where
  "dec_usage_plan bs = do {
     (x_merchant, bs) \<leftarrow> dec_key bs;
     (x_plan_id, bs) \<leftarrow> dec_u64 bs;
     (x_unit_name, bs) \<leftarrow> dec_bytes 32 bs;
     (x_tiers, bs) \<leftarrow> dec_seq dec_pricing_tier 5 bs;
     (x_tier_count, bs) \<leftarrow> dec_u8 bs;
     (x_max_charge_per_period, bs) \<leftarrow> dec_u64 bs;
     (x_settlement_frequency, bs) \<leftarrow> dec_u64 bs;
     (x_credential_mint, bs) \<leftarrow> dec_key bs;
     (x_billing_mint, bs) \<leftarrow> dec_key bs;
     (x_status, bs) \<leftarrow> dec_plan_status bs;
     (x_bump, bs) \<leftarrow> dec_u8 bs;
     (x_version, bs) \<leftarrow> dec_u8 bs;
     (x_reserved, bs) \<leftarrow> dec_bytes 32 bs;
     Some (\<lparr>up_merchant = x_merchant,
       up_plan_id = x_plan_id,
       up_unit_name = x_unit_name,
       up_tiers = x_tiers,
       up_tier_count = x_tier_count,
       up_max_charge_per_period = x_max_charge_per_period,
       up_settlement_frequency = x_settlement_frequency,
       up_credential_mint = x_credential_mint,
       up_billing_mint = x_billing_mint,
       up_status = x_status,
       up_bump = x_bump,
       up_version = x_version,
       up_reserved = x_reserved\<rparr>, bs)
   }"

interpretation usage_plan_codec: fixed_borsh enc_usage_plan dec_usage_plan valid_usage_plan 308
proof unfold_locales
  show "valid_usage_plan x \<Longrightarrow> dec_usage_plan (enc_usage_plan x @ r) = Some (x, r)" for x r
    by (simp add: enc_usage_plan_def dec_usage_plan_def valid_usage_plan_def)
  show "dec_usage_plan bs = Some (x, r) \<Longrightarrow> valid_usage_plan x" for bs x r
    unfolding dec_usage_plan_def by (elim bind_SomeE) (auto simp: valid_usage_plan_def)
  show "valid_usage_plan x \<Longrightarrow> length (enc_usage_plan x) = 308" for x
    by (simp add: enc_usage_plan_def valid_usage_plan_def)
qed

record usage_plan_v1 =
  upl_merchant :: "pubkey"
  upl_plan_id :: "u64"
  upl_unit_name :: "u8 list"
  upl_tiers :: "pricing_tier list"
  upl_tier_count :: "u8"
  upl_max_charge_per_period :: "u64"
  upl_settlement_frequency :: "u64"
  upl_credential_mint :: "pubkey"
  upl_status :: "plan_status"
  upl_bump :: "u8"

definition valid_usage_plan_v1 :: "usage_plan_v1 \<Rightarrow> bool" where
  "valid_usage_plan_v1 m \<longleftrightarrow> length (upl_unit_name m) = 32 \<and>
     length (upl_tiers m) = 5"

definition enc_usage_plan_v1 :: "usage_plan_v1 \<Rightarrow> u8 list" where
  "enc_usage_plan_v1 m =
     key_bytes (upl_merchant m) @
     u64_le (upl_plan_id m) @
     upl_unit_name m @
     enc_seq enc_pricing_tier (upl_tiers m) @
     [upl_tier_count m] @
     u64_le (upl_max_charge_per_period m) @
     u64_le (upl_settlement_frequency m) @
     key_bytes (upl_credential_mint m) @
     enc_plan_status (upl_status m) @
     [upl_bump m]"

definition dec_usage_plan_v1 :: "usage_plan_v1 decoder" where
  "dec_usage_plan_v1 bs = do {
     (x_merchant, bs) \<leftarrow> dec_key bs;
     (x_plan_id, bs) \<leftarrow> dec_u64 bs;
     (x_unit_name, bs) \<leftarrow> dec_bytes 32 bs;
     (x_tiers, bs) \<leftarrow> dec_seq dec_pricing_tier 5 bs;
     (x_tier_count, bs) \<leftarrow> dec_u8 bs;
     (x_max_charge_per_period, bs) \<leftarrow> dec_u64 bs;
     (x_settlement_frequency, bs) \<leftarrow> dec_u64 bs;
     (x_credential_mint, bs) \<leftarrow> dec_key bs;
     (x_status, bs) \<leftarrow> dec_plan_status bs;
     (x_bump, bs) \<leftarrow> dec_u8 bs;
     Some (\<lparr>upl_merchant = x_merchant,
       upl_plan_id = x_plan_id,
       upl_unit_name = x_unit_name,
       upl_tiers = x_tiers,
       upl_tier_count = x_tier_count,
       upl_max_charge_per_period = x_max_charge_per_period,
       upl_settlement_frequency = x_settlement_frequency,
       upl_credential_mint = x_credential_mint,
       upl_status = x_status,
       upl_bump = x_bump\<rparr>, bs)
   }"

interpretation usage_plan_v1_codec: fixed_borsh enc_usage_plan_v1 dec_usage_plan_v1 valid_usage_plan_v1 243
proof unfold_locales
  show "valid_usage_plan_v1 x \<Longrightarrow> dec_usage_plan_v1 (enc_usage_plan_v1 x @ r) = Some (x, r)" for x r
    by (simp add: enc_usage_plan_v1_def dec_usage_plan_v1_def valid_usage_plan_v1_def)
  show "dec_usage_plan_v1 bs = Some (x, r) \<Longrightarrow> valid_usage_plan_v1 x" for bs x r
    unfolding dec_usage_plan_v1_def by (elim bind_SomeE) (auto simp: valid_usage_plan_v1_def)
  show "valid_usage_plan_v1 x \<Longrightarrow> length (enc_usage_plan_v1 x) = 243" for x
    by (simp add: enc_usage_plan_v1_def valid_usage_plan_v1_def)
qed

definition vela_plan_size :: nat where
  "vela_plan_size = 8 + 32 + 8 + 8 + 8 + 8 + 8 + 1 + 32 + 32 + 1 + 1 + 32"

definition usage_plan_size :: nat where
  "usage_plan_size = 8 + 32 + 8 + 32 + (24 * 5) + 1 + 8 + 8 + 32 + 32 + 1 + 1 + 1 + (ACCOUNT_RESERVED_BYTES - 32)"

definition plan_seed :: "u8 list" where
  "plan_seed = bytes ''plan''"

definition usage_plan_seed :: "u8 list" where
  "usage_plan_seed = bytes ''usage_plan''"

datatype loaded_plan =
    FlatPlan vela_plan
  | UsagePlan usage_plan
  | LegacyFlatPlan vela_plan_v1
  | LegacyUsagePlan usage_plan_v1

section \<open>What a mandate takes from a plan\<close>

fun lp_billing_type :: "loaded_plan \<Rightarrow> billing_type" where
  "lp_billing_type (FlatPlan p) = Flat"
| "lp_billing_type (LegacyFlatPlan p) = Flat"
| "lp_billing_type (UsagePlan p) = Usage"
| "lp_billing_type (LegacyUsagePlan p) = Usage"

text \<open>The getters the source generates with the macros \<open>plan_getter\<close> and \<open>plan_ref_getter\<close>.\<close>

fun lp_merchant :: "loaded_plan \<Rightarrow> pubkey" where
  "lp_merchant (FlatPlan p) = vp_merchant p"
| "lp_merchant (UsagePlan p) = up_merchant p"
| "lp_merchant (LegacyFlatPlan p) = vpl_merchant p"
| "lp_merchant (LegacyUsagePlan p) = upl_merchant p"

fun lp_credential_mint :: "loaded_plan \<Rightarrow> pubkey" where
  "lp_credential_mint (FlatPlan p) = vp_credential_mint p"
| "lp_credential_mint (UsagePlan p) = up_credential_mint p"
| "lp_credential_mint (LegacyFlatPlan p) = vpl_credential_mint p"
| "lp_credential_mint (LegacyUsagePlan p) = upl_credential_mint p"

fun lp_billing_mint :: "loaded_plan \<Rightarrow> pubkey" where
  "lp_billing_mint (FlatPlan p) = vp_billing_mint p"
| "lp_billing_mint (UsagePlan p) = up_billing_mint p"
| "lp_billing_mint (LegacyFlatPlan p) = default_key"
| "lp_billing_mint (LegacyUsagePlan p) = default_key"

fun lp_status :: "loaded_plan \<Rightarrow> plan_status" where
  "lp_status (FlatPlan p) = vp_status p"
| "lp_status (UsagePlan p) = up_status p"
| "lp_status (LegacyFlatPlan p) = vpl_status p"
| "lp_status (LegacyUsagePlan p) = upl_status p"

fun lp_mandate_amount :: "loaded_plan \<Rightarrow> u64" where
  "lp_mandate_amount (FlatPlan p) = vp_amount p"
| "lp_mandate_amount (UsagePlan p) = up_max_charge_per_period p"
| "lp_mandate_amount (LegacyFlatPlan p) = vpl_amount p"
| "lp_mandate_amount (LegacyUsagePlan p) = upl_max_charge_per_period p"

fun lp_mandate_frequency :: "loaded_plan \<Rightarrow> u64" where
  "lp_mandate_frequency (FlatPlan p) = vp_frequency p"
| "lp_mandate_frequency (UsagePlan p) = up_settlement_frequency p"
| "lp_mandate_frequency (LegacyFlatPlan p) = vpl_frequency p"
| "lp_mandate_frequency (LegacyUsagePlan p) = upl_settlement_frequency p"

text \<open>A usage plan has no limit of pulls: \<open>u64::MAX\<close>.\<close>

fun lp_max_pulls :: "loaded_plan \<Rightarrow> u64" where
  "lp_max_pulls (FlatPlan p) = vp_max_pulls p"
| "lp_max_pulls (UsagePlan p) = - 1"
| "lp_max_pulls (LegacyFlatPlan p) = vpl_max_pulls p"
| "lp_max_pulls (LegacyUsagePlan p) = - 1"

fun lp_usage_tier_count :: "loaded_plan \<Rightarrow> u8 option" where
  "lp_usage_tier_count (UsagePlan p) = Some (up_tier_count p)"
| "lp_usage_tier_count (LegacyUsagePlan p) = Some (upl_tier_count p)"
| "lp_usage_tier_count (FlatPlan p) = None"
| "lp_usage_tier_count (LegacyFlatPlan p) = None"

fun lp_plan_id :: "loaded_plan \<Rightarrow> u64" where
  "lp_plan_id (FlatPlan p) = vp_plan_id p"
| "lp_plan_id (UsagePlan p) = up_plan_id p"
| "lp_plan_id (LegacyFlatPlan p) = vpl_plan_id p"
| "lp_plan_id (LegacyUsagePlan p) = upl_plan_id p"

fun lp_bump :: "loaded_plan \<Rightarrow> u8" where
  "lp_bump (FlatPlan p) = vp_bump p"
| "lp_bump (UsagePlan p) = up_bump p"
| "lp_bump (LegacyFlatPlan p) = vpl_bump p"
| "lp_bump (LegacyUsagePlan p) = upl_bump p"

fun lp_is_legacy :: "loaded_plan \<Rightarrow> bool" where
  "lp_is_legacy (FlatPlan p) = False"
| "lp_is_legacy (UsagePlan p) = False"
| "lp_is_legacy (LegacyFlatPlan p) = True"
| "lp_is_legacy (LegacyUsagePlan p) = True"

fun lp_is_flat :: "loaded_plan \<Rightarrow> bool" where
  "lp_is_flat (FlatPlan p) = True"
| "lp_is_flat (LegacyFlatPlan p) = True"
| "lp_is_flat (UsagePlan p) = False"
| "lp_is_flat (LegacyUsagePlan p) = False"

text \<open>
  The hash that ties a usage report to the terms it was computed under: the parts are
  written one after the other, the tiers without their padding.
\<close>

definition usage_plan_terms_bytes ::
  "pubkey \<Rightarrow> pubkey \<Rightarrow> u64 \<Rightarrow> pricing_tier list \<Rightarrow> u8 \<Rightarrow> u64 \<Rightarrow> u64 \<Rightarrow> u8 list" where
  "usage_plan_terms_bytes plan_key merchant plan_id tiers tier_count max_charge_per_period
       settlement_frequency =
     bytes ''vela-usage-plan-terms-v1'' @ key_bytes plan_key @ key_bytes merchant @ u64_le plan_id @
     [tier_count] @ u64_le max_charge_per_period @ u64_le settlement_frequency @
     concat (map (\<lambda>t. u64_le (pt_up_to t) @ u64_le (pt_rate_per_unit t)) tiers)"

definition usage_plan_terms_hash_from_parts ::
  "env \<Rightarrow> pubkey \<Rightarrow> pubkey \<Rightarrow> u64 \<Rightarrow> pricing_tier list \<Rightarrow> u8 \<Rightarrow> u64 \<Rightarrow> u64 \<Rightarrow> u8 list" where
  "usage_plan_terms_hash_from_parts E plan_key merchant plan_id tiers tier_count
       max_charge_per_period settlement_frequency =
     keccak E (usage_plan_terms_bytes plan_key merchant plan_id tiers tier_count
                 max_charge_per_period settlement_frequency)"

fun lp_usage_terms_hash :: "env \<Rightarrow> loaded_plan \<Rightarrow> pubkey \<Rightarrow> verror + u8 list" where
  "lp_usage_terms_hash E (UsagePlan p) plan_key =
     Inr (usage_plan_terms_hash_from_parts E plan_key (up_merchant p) (up_plan_id p) (up_tiers p)
            (up_tier_count p) (up_max_charge_per_period p) (up_settlement_frequency p))"
| "lp_usage_terms_hash E (LegacyUsagePlan p) plan_key =
     Inr (usage_plan_terms_hash_from_parts E plan_key (upl_merchant p) (upl_plan_id p) (upl_tiers p)
            (upl_tier_count p) (upl_max_charge_per_period p) (upl_settlement_frequency p))"
| "lp_usage_terms_hash E (FlatPlan p) plan_key = Inl (Vela BillingTypeMismatch)"
| "lp_usage_terms_hash E (LegacyFlatPlan p) plan_key = Inl (Vela BillingTypeMismatch)"

definition compute_flat_expiry :: "u64 \<Rightarrow> u64 \<Rightarrow> u64 \<Rightarrow> i64 \<Rightarrow> verror + i64" where
  "compute_flat_expiry trial_period frequency max_pulls start_timestamp =
     (if trial_period = 0 then Inr (i64_of 0) else
      case ok_or (checked_mul frequency max_pulls) (Vela Overflow) of Inl e \<Rightarrow> Inl e | Inr billed \<Rightarrow>
     (case ok_or (checked_add trial_period billed) (Vela Overflow) of Inl e \<Rightarrow> Inl e | Inr whole \<Rightarrow>
     (case ok_or (i64_try_from_u64 whole) (Vela Overflow) of Inl e \<Rightarrow> Inl e | Inr total_duration \<Rightarrow>
      ok_or (i64_checked_add start_timestamp total_duration) (Vela Overflow))))"

definition add_delay :: "i64 \<Rightarrow> u64 \<Rightarrow> verror + i64" where
  "add_delay start_timestamp delay =
     (case ok_or (i64_try_from_u64 delay) (Vela Overflow) of Inl e \<Rightarrow> Inl e | Inr d \<Rightarrow>
      ok_or (i64_checked_add start_timestamp d) (Vela Overflow))"

fun lp_expiry :: "loaded_plan \<Rightarrow> i64 \<Rightarrow> verror + i64" where
  "lp_expiry (FlatPlan p) start =
     compute_flat_expiry (vp_trial_period p) (vp_frequency p) (vp_max_pulls p) start"
| "lp_expiry (LegacyFlatPlan p) start =
     compute_flat_expiry (vpl_trial_period p) (vpl_frequency p) (vpl_max_pulls p) start"
| "lp_expiry (UsagePlan p) start = Inr (i64_of 0)"
| "lp_expiry (LegacyUsagePlan p) start = Inr (i64_of 0)"

fun lp_initial_next_payment_due :: "loaded_plan \<Rightarrow> i64 \<Rightarrow> verror + i64" where
  "lp_initial_next_payment_due (FlatPlan p) start =
     add_delay start (if 0 < vp_trial_period p then vp_trial_period p else vp_frequency p)"
| "lp_initial_next_payment_due (LegacyFlatPlan p) start =
     add_delay start (if 0 < vpl_trial_period p then vpl_trial_period p else vpl_frequency p)"
| "lp_initial_next_payment_due (UsagePlan p) start = add_delay start (up_settlement_frequency p)"
| "lp_initial_next_payment_due (LegacyUsagePlan p) start =
     add_delay start (upl_settlement_frequency p)"

section \<open>Loading and writing\<close>

definition plan_address :: "env \<Rightarrow> pubkey \<Rightarrow> u64 \<Rightarrow> pubkey" where
  "plan_address E merchant plan_id = pda E [plan_seed, key_bytes merchant, u64_le plan_id]"

definition usage_plan_address :: "env \<Rightarrow> pubkey \<Rightarrow> u64 \<Rightarrow> pubkey" where
  "usage_plan_address E merchant plan_id = pda E [usage_plan_seed, key_bytes merchant, u64_le plan_id]"

text \<open>\<open>validate_flat_plan\<close> and the three functions like it, one per layout.\<close>

fun validate_plan_address :: "env \<Rightarrow> pubkey \<Rightarrow> loaded_plan \<Rightarrow> verror + loaded_plan" where
  "validate_plan_address E k (FlatPlan p) =
     (if k \<noteq> plan_address E (vp_merchant p) (vp_plan_id p) then Inl (Vela BillingTypeMismatch)
      else Inr (FlatPlan p))"
| "validate_plan_address E k (LegacyFlatPlan p) =
     (if k \<noteq> plan_address E (vpl_merchant p) (vpl_plan_id p) then Inl (Vela BillingTypeMismatch)
      else Inr (LegacyFlatPlan p))"
| "validate_plan_address E k (UsagePlan p) =
     (if k \<noteq> usage_plan_address E (up_merchant p) (up_plan_id p) then Inl (Vela BillingTypeMismatch)
      else Inr (UsagePlan p))"
| "validate_plan_address E k (LegacyUsagePlan p) =
     (if k \<noteq> usage_plan_address E (upl_merchant p) (upl_plan_id p) then Inl (Vela BillingTypeMismatch)
      else Inr (LegacyUsagePlan p))"

text \<open>
  The loader tries the layouts one after the other. Each attempt ends the search when it
  decodes (for a current layout: when it carries the current version), and hands over to
  the next when it does not.
\<close>

definition try_current_flat :: "env \<Rightarrow> u8 list \<Rightarrow> loaded_plan option" where
  "try_current_flat E data =
     (case try_deserialize E KVelaPlan dec_vela_plan data of
        Some p \<Rightarrow> if vp_version p = CURRENT_ACCOUNT_VERSION then Some (FlatPlan p) else None
      | None \<Rightarrow> None)"

definition try_current_usage :: "env \<Rightarrow> u8 list \<Rightarrow> loaded_plan option" where
  "try_current_usage E data =
     (case try_deserialize E KUsagePlan dec_usage_plan data of
        Some p \<Rightarrow> if up_version p = CURRENT_ACCOUNT_VERSION then Some (UsagePlan p) else None
      | None \<Rightarrow> None)"

definition load_usage_plan_inner :: "env \<Rightarrow> pubkey \<Rightarrow> u8 list \<Rightarrow> verror + loaded_plan" where
  "load_usage_plan_inner E k data =
     (case try_current_usage E data of
        Some l \<Rightarrow> validate_plan_address E k l
      | None \<Rightarrow>
     (case dec_usage_plan_v1 (drop (length (disc E KUsagePlan)) data) of
        Some (l, rest) \<Rightarrow>
          if rest \<noteq> [] \<and> \<not> has_only_zero_padding rest then Inl (Program InvalidAccountData)
          else validate_plan_address E k (LegacyUsagePlan l)
      | None \<Rightarrow> Inl (Vela BillingTypeMismatch)))"

definition load_plan_account :: "env \<Rightarrow> store \<Rightarrow> pubkey \<Rightarrow> verror + loaded_plan" where
  "load_plan_account E s k =
     (if acc_owner (s k) \<noteq> program_id then Inl (Vela BillingTypeMismatch) else
      let data = acc_data (s k); d = disc E KVelaPlan; u = disc E KUsagePlan in
      if length data < length d \<or> \<not> starts_with data d then
        (if length u \<le> length data \<and> starts_with data u then load_usage_plan_inner E k data
         else Inl (Vela BillingTypeMismatch))
      else
      case try_current_flat E data of
        Some l \<Rightarrow> validate_plan_address E k l
      | None \<Rightarrow>
     (case dec_vela_plan_v1 (drop (length d) data) of
        Some (l, rest) \<Rightarrow>
          if rest \<noteq> [] \<and> \<not> has_only_zero_padding rest then Inl (Program InvalidAccountData)
          else validate_plan_address E k (LegacyFlatPlan l)
      | None \<Rightarrow> load_usage_plan_inner E k data))"

definition require_plan_billing_type :: "loaded_plan \<Rightarrow> billing_type \<Rightarrow> verror + unit" where
  "require_plan_billing_type plan expected =
     (if lp_billing_type plan = expected then Inr () else Inl (Vela BillingTypeMismatch))"

definition write_plan :: "env \<Rightarrow> pubkey \<Rightarrow> vela_plan \<Rightarrow> store \<Rightarrow> verror + store" where
  "write_plan E k p s = write_account k (disc E KVelaPlan @ enc_vela_plan p) s"

definition write_usage_plan :: "env \<Rightarrow> pubkey \<Rightarrow> usage_plan \<Rightarrow> store \<Rightarrow> verror + store" where
  "write_usage_plan E k p s = write_account k (disc E KUsagePlan @ enc_usage_plan p) s"

section \<open>The terms a plan may have\<close>

definition MIN_FREQUENCY_SECONDS :: u64 where
  "MIN_FREQUENCY_SECONDS = 3600"

definition MAX_SAFE_USAGE_UNITS :: u64 where
  "MAX_SAFE_USAGE_UNITS = 1000000000000"

definition MAX_SAFE_USAGE_RATE_PER_UNIT :: u64 where
  "MAX_SAFE_USAGE_RATE_PER_UNIT = - 1 div MAX_SAFE_USAGE_UNITS div 5"

definition MAX_SAFE_USAGE_CHARGE :: u64 where
  "MAX_SAFE_USAGE_CHARGE = MAX_SAFE_USAGE_UNITS * MAX_SAFE_USAGE_RATE_PER_UNIT"

definition validate_flat_plan_terms :: "u64 \<Rightarrow> u64 \<Rightarrow> u64 \<Rightarrow> verror + unit" where
  "validate_flat_plan_terms amount frequency max_pulls = require_all
     [(0 < amount, Vela InvalidAmount),
      (MIN_FREQUENCY_SECONDS \<le> frequency, Vela FrequencyTooLow),
      (0 < max_pulls, Vela MaxPullsTooLow)]"

text \<open>
  The loop over the tiers of \<open>validate_usage_tier_boundaries\<close>: \<open>previous\<close> is the boundary of
  the tier before, when there is one.
\<close>

fun tier_boundaries_from :: "u64 option \<Rightarrow> pricing_tier list \<Rightarrow> verror + unit" where
  "tier_boundaries_from previous [] = Inr ()"
| "tier_boundaries_from previous (t # ts) =
     (if pt_up_to t = 0 then
        (if ts \<noteq> [] then Inl (Vela InvalidTierBoundary) else tier_boundaries_from (Some 0) ts)
      else
        (case previous of
           Some b \<Rightarrow> if pt_up_to t \<le> b then Inl (Vela InvalidTierBoundary)
                     else tier_boundaries_from (Some (pt_up_to t)) ts
         | None \<Rightarrow> tier_boundaries_from (Some (pt_up_to t)) ts))"

definition validate_usage_tier_boundaries :: "pricing_tier list \<Rightarrow> verror + unit" where
  "validate_usage_tier_boundaries tiers =
     (if tiers = [] \<or> 5 < length tiers then Inl (Vela InvalidTierCount)
      else tier_boundaries_from None tiers)"

definition validate_usage_pricing_bounds :: "pricing_tier list \<Rightarrow> u64 \<Rightarrow> verror + unit" where
  "validate_usage_pricing_bounds tiers max_charge_per_period = require_all
     ((max_charge_per_period \<le> MAX_SAFE_USAGE_CHARGE, Vela UsagePricingOverflowRisk) #
      concat (map (\<lambda>t. [(pt_rate_per_unit t \<le> MAX_SAFE_USAGE_RATE_PER_UNIT, Vela UsagePricingOverflowRisk),
                        (pt_up_to t \<noteq> 0 \<longrightarrow> pt_up_to t \<le> MAX_SAFE_USAGE_UNITS, Vela UsagePricingOverflowRisk)])
        tiers))"

definition default_tier :: pricing_tier where
  "default_tier = \<lparr>pt_up_to = 0, pt_rate_per_unit = 0, pt_padding = 0\<rparr>"

text \<open>The tiers in the plan's array of five, the unused slots zero.\<close>

definition tiers_array :: "pricing_tier list \<Rightarrow> pricing_tier list" where
  "tiers_array tiers = tiers @ replicate (5 - length tiers) default_tier"

section \<open>Creating a plan\<close>

record create_plan_accounts =
  cp_merchant :: pubkey
  cp_merchant_state :: pubkey
  cp_plan :: pubkey
  cp_credential_mint :: pubkey
  cp_billing_mint :: pubkey
  cp_token_config :: pubkey
  cp_system_program :: pubkey
  cp_token_2022_program :: pubkey

definition create_plan_constraints ::
  "env \<Rightarrow> create_plan_accounts \<Rightarrow> token_config \<Rightarrow> (bool \<times> verror) list" where
  "create_plan_constraints E c tc =
     [(is_signer E (cp_merchant c), Anchor AccountNotSigner),
      (cp_system_program c = system_program_id, Anchor InvalidProgramId),
      (cp_merchant_state c = pda E [merchant_seed, key_bytes (cp_merchant c)], Anchor ConstraintSeeds),
      (create_address E [token_config_seed, key_bytes (cp_billing_mint c), [tk_bump tc]] program_id =
         Some (cp_token_config c), Anchor ConstraintSeeds)]"

text \<open>A plan is billed in a registered, enabled token of the transfer-hook rail.\<close>

definition billing_token_checks :: "token_config \<Rightarrow> pubkey \<Rightarrow> (bool \<times> verror) list" where
  "billing_token_checks tc billing_mint =
     [(tk_enabled tc, Vela TokenDisabled),
      (tk_billing_rail tc = TransferHook, Vela InvalidBillingRail),
      (tk_mint tc = billing_mint, Vela TokenNotRegistered)]"

definition credential_seed :: "u8 list" where
  "credential_seed = bytes ''credential''"

definition usage_credential_seed :: "u8 list" where
  "usage_credential_seed = bytes ''usage_credential''"

text \<open>The merchant must hold a credential mint of its own, and the plan uses that one.\<close>

definition merchant_credential ::
  "env \<Rightarrow> create_plan_accounts \<Rightarrow> merchant_state \<Rightarrow> store \<Rightarrow> verror + pubkey" where
  "merchant_credential E c ms s =
     (case resolve_merchant_credential_mint E s (cp_merchant_state c) (cp_merchant c)
             (cp_credential_mint c) of Inl e \<Rightarrow> Inl e | Inr resolved \<Rightarrow>
      if \<not> (ms_credential_mint ms \<noteq> default_key \<and> resolved = ms_credential_mint ms)
      then Inl (Vela MigrationPreconditionFailed) else Inr resolved)"

definition create_plan ::
  "env \<Rightarrow> create_plan_accounts \<Rightarrow> u64 \<Rightarrow> u64 \<Rightarrow> u64 \<Rightarrow> u64 \<Rightarrow> store \<Rightarrow> verror + store" where
  "create_plan E c amount frequency trial_period max_pulls s =
     (case interface_mint E s (cp_billing_mint c) of Inl e \<Rightarrow> Inl e | Inr _ \<Rightarrow>
     (case anchor_account E KTokenConfig dec_token_config s (cp_token_config c) of
        Inl e \<Rightarrow> Inl e | Inr tc \<Rightarrow>
     (case require_all (create_plan_constraints E c tc) of Inl e \<Rightarrow> Inl e | Inr _ \<Rightarrow>
     (case validate_flat_plan_terms amount frequency max_pulls of Inl e \<Rightarrow> Inl e | Inr _ \<Rightarrow>
     (case require_all (billing_token_checks tc (cp_billing_mint c) @
         [(cp_token_2022_program c = token_2022_id E, Anchor RequireKeysEqViolated)]) of
        Inl e \<Rightarrow> Inl e | Inr _ \<Rightarrow>
     (case ensure_merchant_state E (cp_merchant c) (cp_merchant_state c) (cp_merchant c)
             (snd (find_pda E [merchant_seed, key_bytes (cp_merchant c)] program_id)) s of
        Inl e \<Rightarrow> Inl e | Inr (ms, s1) \<Rightarrow>
      let plan_id = ms_plan_count ms;
          plan_seeds = [plan_seed, key_bytes (cp_merchant c), u64_le plan_id];
          plan_bump = snd (find_pda E plan_seeds program_id) in
     (case require_all
         [(cp_plan c = pda E plan_seeds, Program InvalidSeeds),
          (cp_credential_mint c = pda E [credential_seed, key_bytes (cp_merchant c), u64_le plan_id],
           Program InvalidSeeds),
          (data_is_empty (s1 (cp_plan c)), Program AccountAlreadyInitialized)] of
        Inl e \<Rightarrow> Inl e | Inr _ \<Rightarrow>
     (case merchant_credential E c ms s1 of Inl e \<Rightarrow> Inl e | Inr resolved \<Rightarrow>
     (case invoke E (CreateAccount (cp_merchant c) (cp_plan c) (minimum_balance E vela_plan_size)
                       vela_plan_size program_id) [plan_seeds @ [[plan_bump]]] s1 of
        Inl e \<Rightarrow> Inl e | Inr s2 \<Rightarrow>
      let plan = \<lparr>vp_merchant = cp_merchant c, vp_plan_id = plan_id, vp_amount = amount,
                  vp_frequency = frequency, vp_trial_period = trial_period, vp_max_pulls = max_pulls,
                  vp_status = PlanActive, vp_credential_mint = resolved,
                  vp_billing_mint = cp_billing_mint c, vp_bump = plan_bump,
                  vp_version = CURRENT_ACCOUNT_VERSION, vp_reserved = replicate 32 0\<rparr> in
     (case write_plan E (cp_plan c) plan s2 of Inl e \<Rightarrow> Inl e | Inr s3 \<Rightarrow>
     (case ok_or (checked_add (ms_plan_count ms) 1) (Vela Overflow) of Inl e \<Rightarrow> Inl e | Inr plan_count \<Rightarrow>
      write_merchant_state E (cp_merchant_state c) (ms\<lparr>ms_plan_count := plan_count\<rparr>) s3)))))))))))"

text \<open>
  The usage plan's account and the credential's address are checked by Anchor
  (\<open>init\<close>, \<open>seeds\<close>): the account is created before the handler runs and written after it.
\<close>

definition create_usage_plan ::
  "env \<Rightarrow> create_plan_accounts \<Rightarrow> u64 \<Rightarrow> u8 list \<Rightarrow> pricing_tier list \<Rightarrow> u64 \<Rightarrow> u64 \<Rightarrow> store \<Rightarrow>
     verror + store" where
  "create_usage_plan E c plan_id unit_name tiers max_charge_per_period settlement_frequency s =
     (case anchor_account E KTokenConfig dec_token_config s (cp_token_config c) of
        Inl e \<Rightarrow> Inl e | Inr tc \<Rightarrow>
      let plan_seeds = [usage_plan_seed, key_bytes (cp_merchant c), u64_le plan_id];
          plan_bump = snd (find_pda E plan_seeds program_id) in
     (case require_all (create_plan_constraints E c tc @
         [(cp_plan c = pda E plan_seeds, Anchor ConstraintSeeds),
          (cp_credential_mint c = pda E [usage_credential_seed, key_bytes (cp_merchant c), u64_le plan_id],
           Anchor ConstraintSeeds)]) of Inl e \<Rightarrow> Inl e | Inr _ \<Rightarrow>
     (case invoke E (InitAccount (cp_merchant c) (cp_plan c) (minimum_balance E usage_plan_size)
                       usage_plan_size program_id) [plan_seeds @ [[plan_bump]]] s of
        Inl e \<Rightarrow> Inl e | Inr s1 \<Rightarrow>
     (case validate_usage_tier_boundaries tiers of Inl e \<Rightarrow> Inl e | Inr _ \<Rightarrow>
     (case require_all
         [(0 < max_charge_per_period, Vela InvalidAmount),
          (0 < settlement_frequency, Vela InvalidFrequency)] of Inl e \<Rightarrow> Inl e | Inr _ \<Rightarrow>
     (case validate_usage_pricing_bounds tiers max_charge_per_period of Inl e \<Rightarrow> Inl e | Inr _ \<Rightarrow>
      if cp_token_2022_program c \<noteq> token_2022_id E then Inl (Anchor RequireKeysEqViolated) else
     (case ensure_merchant_state E (cp_merchant c) (cp_merchant_state c) (cp_merchant c)
             (snd (find_pda E [merchant_seed, key_bytes (cp_merchant c)] program_id)) s1 of
        Inl e \<Rightarrow> Inl e | Inr (ms, s2) \<Rightarrow>
     (case merchant_credential E c ms s2 of Inl e \<Rightarrow> Inl e | Inr resolved \<Rightarrow>
     (case require_all (billing_token_checks tc (cp_billing_mint c)) of Inl e \<Rightarrow> Inl e | Inr _ \<Rightarrow>
      anchor_exit (cp_plan c) (disc E KUsagePlan @ enc_usage_plan
        \<lparr>up_merchant = cp_merchant c, up_plan_id = plan_id, up_unit_name = unit_name,
         up_tiers = tiers_array tiers, up_tier_count = of_nat (length tiers),
         up_max_charge_per_period = max_charge_per_period,
         up_settlement_frequency = settlement_frequency, up_credential_mint = resolved,
         up_billing_mint = cp_billing_mint c, up_status = PlanActive, up_bump = plan_bump,
         up_version = CURRENT_ACCOUNT_VERSION,
         up_reserved = replicate (ACCOUNT_RESERVED_BYTES - 32) 0\<rparr>) s2)))))))))"

section \<open>Updating and migrating a plan\<close>

datatype plan_event =
    PlanUpdated pubkey pubkey u64 u64 u64 u64 u64 u64 u64 u64 u64
  | UsagePlanUpdated pubkey pubkey u64 u64 u64 u64 u64 u8 u8

text \<open>A legacy plan in the current layout; its billing mint is not set.\<close>

definition flat_from_legacy :: "vela_plan_v1 \<Rightarrow> vela_plan" where
  "flat_from_legacy l =
     \<lparr>vp_merchant = vpl_merchant l, vp_plan_id = vpl_plan_id l, vp_amount = vpl_amount l,
      vp_frequency = vpl_frequency l, vp_trial_period = vpl_trial_period l,
      vp_max_pulls = vpl_max_pulls l, vp_status = vpl_status l,
      vp_credential_mint = vpl_credential_mint l, vp_billing_mint = default_key,
      vp_bump = vpl_bump l, vp_version = CURRENT_ACCOUNT_VERSION, vp_reserved = replicate 32 0\<rparr>"

definition usage_from_legacy :: "usage_plan_v1 \<Rightarrow> usage_plan" where
  "usage_from_legacy l =
     \<lparr>up_merchant = upl_merchant l, up_plan_id = upl_plan_id l, up_unit_name = upl_unit_name l,
      up_tiers = upl_tiers l, up_tier_count = upl_tier_count l,
      up_max_charge_per_period = upl_max_charge_per_period l,
      up_settlement_frequency = upl_settlement_frequency l,
      up_credential_mint = upl_credential_mint l, up_billing_mint = default_key,
      up_status = upl_status l, up_bump = upl_bump l, up_version = CURRENT_ACCOUNT_VERSION,
      up_reserved = replicate (ACCOUNT_RESERVED_BYTES - 32) 0\<rparr>"

text \<open>Growing the account: pay the missing rent, then extend the data with zeros.\<close>

definition realloc_plan_account :: "env \<Rightarrow> nat \<Rightarrow> pubkey \<Rightarrow> pubkey \<Rightarrow> store \<Rightarrow> verror + store" where
  "realloc_plan_account E required_size payer k s =
     (if length (acc_data (s k)) < required_size then
       (let new_lamports = minimum_balance E required_size; current = acc_lamports (s k) in
        case (if current < new_lamports
              then invoke E (SystemTransfer payer k (new_lamports - current)) [] s else Inr s) of
          Inl e \<Rightarrow> Inl e
        | Inr s1 \<Rightarrow> Inr (set_data s1 k (resize_data required_size (acc_data (s1 k)))))
      else Inr s)"

record plan_accounts =
  pl_merchant :: pubkey
  pl_plan :: pubkey
  pl_system_program :: pubkey

definition plan_constraints :: "env \<Rightarrow> plan_accounts \<Rightarrow> verror + unit" where
  "plan_constraints E c = require_all
     [(is_signer E (pl_merchant c), Anchor AccountNotSigner),
      (pl_system_program c = system_program_id, Anchor InvalidProgramId)]"

definition set_plan_terms ::
  "u64 option \<Rightarrow> u64 option \<Rightarrow> u64 option \<Rightarrow> u64 option \<Rightarrow> vela_plan \<Rightarrow> vela_plan" where
  "set_plan_terms amount frequency trial_period max_pulls p =
     (let p = (case amount of Some a \<Rightarrow> p\<lparr>vp_amount := a\<rparr> | None \<Rightarrow> p);
          p = (case frequency of Some f \<Rightarrow> p\<lparr>vp_frequency := f\<rparr> | None \<Rightarrow> p);
          p = (case trial_period of Some t \<Rightarrow> p\<lparr>vp_trial_period := t\<rparr> | None \<Rightarrow> p)
      in (case max_pulls of Some n \<Rightarrow> p\<lparr>vp_max_pulls := n\<rparr> | None \<Rightarrow> p))"

definition update_plan ::
  "env \<Rightarrow> plan_accounts \<Rightarrow> u64 option \<Rightarrow> u64 option \<Rightarrow> u64 option \<Rightarrow> u64 option \<Rightarrow> store \<Rightarrow>
     verror + (store \<times> plan_event list)" where
  "update_plan E c amount frequency trial_period max_pulls s =
     (case plan_constraints E c of Inl e \<Rightarrow> Inl e | Inr _ \<Rightarrow>
      if amount = None \<and> frequency = None \<and> trial_period = None \<and> max_pulls = None
      then Inl (Vela NoUpdateProvided) else
     (case load_plan_account E s (pl_plan c) of Inl e \<Rightarrow> Inl e | Inr loaded \<Rightarrow>
      if \<not> lp_is_flat loaded then Inl (Vela BillingTypeMismatch) else
      if lp_merchant loaded \<noteq> pl_merchant c then Inl (Vela UnauthorizedCancel) else
     (case (case loaded of FlatPlan p \<Rightarrow> Inr p | LegacyFlatPlan l \<Rightarrow> Inr (flat_from_legacy l)
             | _ \<Rightarrow> Inl (Vela BillingTypeMismatch)) of Inl e \<Rightarrow> Inl e | Inr old \<Rightarrow>
      let plan = set_plan_terms amount frequency trial_period max_pulls old in
     (case validate_flat_plan_terms (vp_amount plan) (vp_frequency plan) (vp_max_pulls plan) of
        Inl e \<Rightarrow> Inl e | Inr _ \<Rightarrow>
     (case realloc_plan_account E vela_plan_size (pl_merchant c) (pl_plan c) s of
        Inl e \<Rightarrow> Inl e | Inr s1 \<Rightarrow>
     (case write_plan E (pl_plan c) plan s1 of Inl e \<Rightarrow> Inl e | Inr s2 \<Rightarrow>
      Inr (s2, [PlanUpdated (pl_plan c) (pl_merchant c) (vp_plan_id plan) (vp_amount old)
                  (vp_amount plan) (vp_frequency old) (vp_frequency plan) (vp_trial_period old)
                  (vp_trial_period plan) (vp_max_pulls old) (vp_max_pulls plan)])))))))"

text \<open>
  The new terms of a usage plan. The slice of the active tiers is out of range when the
  stored count is more than five.
\<close>

definition set_usage_terms ::
  "pricing_tier list option \<Rightarrow> u64 option \<Rightarrow> u64 option \<Rightarrow> usage_plan \<Rightarrow> verror + usage_plan" where
  "set_usage_terms tiers max_charge_per_period settlement_frequency p =
     (let next_max_charge = (case max_charge_per_period of Some m \<Rightarrow> m | None \<Rightarrow> up_max_charge_per_period p) in
      case (case tiers of
              Some new_tiers \<Rightarrow>
                (case validate_usage_tier_boundaries new_tiers of Inl e \<Rightarrow> Inl e | Inr _ \<Rightarrow>
                (case validate_usage_pricing_bounds new_tiers next_max_charge of Inl e \<Rightarrow> Inl e | Inr _ \<Rightarrow>
                 Inr (p\<lparr>up_tiers := tiers_array new_tiers, up_tier_count := of_nat (length new_tiers)\<rparr>)))
            | None \<Rightarrow> Inr p) of Inl e \<Rightarrow> Inl e | Inr p1 \<Rightarrow>
     (case (case max_charge_per_period of
              Some m \<Rightarrow> if m = 0 then Inl (Vela InvalidAmount)
                        else Inr (p1\<lparr>up_max_charge_per_period := m\<rparr>)
            | None \<Rightarrow> Inr p1) of Inl e \<Rightarrow> Inl e | Inr p2 \<Rightarrow>
     (case (if tiers = None then
             (if length (up_tiers p2) < unat (up_tier_count p2) then Inl Panicked
              else validate_usage_pricing_bounds (take (unat (up_tier_count p2)) (up_tiers p2))
                     (up_max_charge_per_period p2))
            else Inr ()) of Inl e \<Rightarrow> Inl e | Inr _ \<Rightarrow>
     (case settlement_frequency of
        Some f \<Rightarrow> if f = 0 then Inl (Vela InvalidFrequency)
                  else Inr (p2\<lparr>up_settlement_frequency := f\<rparr>)
      | None \<Rightarrow> Inr p2))))"

definition update_usage_plan ::
  "env \<Rightarrow> plan_accounts \<Rightarrow> pricing_tier list option \<Rightarrow> u64 option \<Rightarrow> u64 option \<Rightarrow> store \<Rightarrow>
     verror + (store \<times> plan_event list)" where
  "update_usage_plan E c tiers max_charge_per_period settlement_frequency s =
     (case plan_constraints E c of Inl e \<Rightarrow> Inl e | Inr _ \<Rightarrow>
      if tiers = None \<and> max_charge_per_period = None \<and> settlement_frequency = None
      then Inl (Vela NoUpdateProvided) else
     (case load_plan_account E s (pl_plan c) of Inl e \<Rightarrow> Inl e | Inr loaded \<Rightarrow>
      if lp_is_flat loaded then Inl (Vela BillingTypeMismatch) else
      if lp_merchant loaded \<noteq> pl_merchant c then Inl (Vela UnauthorizedCancel) else
     (case (case loaded of UsagePlan p \<Rightarrow> Inr p | LegacyUsagePlan l \<Rightarrow> Inr (usage_from_legacy l)
             | _ \<Rightarrow> Inl (Vela BillingTypeMismatch)) of Inl e \<Rightarrow> Inl e | Inr old \<Rightarrow>
     (case set_usage_terms tiers max_charge_per_period settlement_frequency old of
        Inl e \<Rightarrow> Inl e | Inr plan \<Rightarrow>
     (case realloc_plan_account E usage_plan_size (pl_merchant c) (pl_plan c) s of
        Inl e \<Rightarrow> Inl e | Inr s1 \<Rightarrow>
     (case write_usage_plan E (pl_plan c) plan s1 of Inl e \<Rightarrow> Inl e | Inr s2 \<Rightarrow>
      Inr (s2, [UsagePlanUpdated (pl_plan c) (pl_merchant c) (up_plan_id plan)
                  (up_max_charge_per_period old) (up_max_charge_per_period plan)
                  (up_settlement_frequency old) (up_settlement_frequency plan)
                  (up_tier_count old) (up_tier_count plan)])))))))"

text \<open>
  The signer of a migration is called the administrator, but is not compared with the
  administrator of the configuration: any signer may migrate (and pay for the growth).
\<close>

definition migrate_plan :: "env \<Rightarrow> plan_accounts \<Rightarrow> store \<Rightarrow> verror + store" where
  "migrate_plan E c s =
     (case plan_constraints E c of Inl e \<Rightarrow> Inl e | Inr _ \<Rightarrow>
     (case load_plan_account E s (pl_plan c) of Inl e \<Rightarrow> Inl e | Inr loaded \<Rightarrow>
      case loaded of
        FlatPlan p \<Rightarrow> if vp_version p = CURRENT_ACCOUNT_VERSION then Inr s
                      else Inl (Vela PlanVersionUnsupported)
      | UsagePlan p \<Rightarrow> if up_version p = CURRENT_ACCOUNT_VERSION then Inr s
                       else Inl (Vela PlanVersionUnsupported)
      | LegacyFlatPlan l \<Rightarrow>
         (case realloc_plan_account E vela_plan_size (pl_merchant c) (pl_plan c) s of
            Inl e \<Rightarrow> Inl e | Inr s1 \<Rightarrow> write_plan E (pl_plan c) (flat_from_legacy l) s1)
      | LegacyUsagePlan l \<Rightarrow>
         (case realloc_plan_account E usage_plan_size (pl_merchant c) (pl_plan c) s of
            Inl e \<Rightarrow> Inl e | Inr s1 \<Rightarrow> write_usage_plan E (pl_plan c) (usage_from_legacy l) s1)))"

end
