(* ===== verification/Plan_Terms.thy ===== *)
theory Plan_Terms
  imports Plans Machine "HOL-Library.Extended_Nat"
begin

text \<open>
  What the plan handlers guarantee: which terms are accepted, how the dates of a mandate
  follow from them, that a migration keeps every term, and that a stored flat plan keeps
  valid terms and its identity under every sequence of plan instructions.
\<close>

section \<open>Tiers\<close>

text \<open>The end of a tier: a boundary of zero stands for no end.\<close>

definition tier_end :: "pricing_tier \<Rightarrow> enat" where
  "tier_end t = (if pt_up_to t = 0 then \<infinity> else enat (unat (pt_up_to t)))"

lemma sorted_enat_chain:
  "sorted_wrt (<) (enat a # enat b # xs) \<longleftrightarrow> a < b \<and> sorted_wrt (<) (enat b # xs)"
proof -
  have "a < b \<Longrightarrow> enat b < x \<Longrightarrow> enat a < x" for x
    using less_trans [of "enat a" "enat b" x] by simp
  then show ?thesis by auto
qed

lemma tier_boundaries_from_Some:
  "b \<noteq> 0 \<Longrightarrow> tier_boundaries_from (Some b) ts =
     (if sorted_wrt (<) (enat (unat b) # map tier_end ts) then Inr () else Inl (Vela InvalidTierBoundary))"
proof (induction ts arbitrary: b)
  case Nil
  then show ?case by simp
next
  case (Cons t ts)
  show ?case
  proof (cases "pt_up_to t = 0")
    case True
    then show ?thesis by (cases ts) (auto simp: tier_end_def)
  next
    case False
    note IH = Cons.IH [OF False]
    have lt: "pt_up_to t \<le> b \<longleftrightarrow> \<not> unat b < unat (pt_up_to t)"
      by (simp add: word_le_nat_alt not_less)
    have "sorted_wrt (<) (enat (unat b) # map tier_end (t # ts)) \<longleftrightarrow>
        unat b < unat (pt_up_to t) \<and> sorted_wrt (<) (enat (unat (pt_up_to t)) # map tier_end ts)"
      using False sorted_enat_chain [of "unat b" "unat (pt_up_to t)" "map tier_end ts"]
      by (simp add: tier_end_def del: sorted_wrt.simps)
    then show ?thesis using False by (simp add: lt IH del: sorted_wrt.simps)
  qed
qed

lemma tier_boundaries_from_None:
  "tier_boundaries_from None ts =
     (if sorted_wrt (<) (map tier_end ts) then Inr () else Inl (Vela InvalidTierBoundary))"
proof (cases ts)
  case Nil
  then show ?thesis by simp
next
  case (Cons t us)
  show ?thesis
  proof (cases "pt_up_to t = 0")
    case True
    then show ?thesis by (cases us) (auto simp: Cons tier_end_def)
  next
    case False
    then show ?thesis using tier_boundaries_from_Some [OF False, of us] by (simp add: Cons tier_end_def)
  qed
qed

text \<open>
  The validation of a schedule of tiers accepts exactly one to five tiers whose ends
  strictly increase, an unbounded tier counting as infinite (so only the last may be
  unbounded), and tells the two ways to fail apart.
\<close>

theorem usage_tiers_accepted_exactly:
  "validate_usage_tier_boundaries tiers =
     (if tiers = [] \<or> 5 < length tiers then Inl (Vela InvalidTierCount)
      else if sorted_wrt (<) (map tier_end tiers) then Inr ()
      else Inl (Vela InvalidTierBoundary))"
  by (simp add: validate_usage_tier_boundaries_def tier_boundaries_from_None)

lemma validate_usage_pricing_bounds_Inr:
  "validate_usage_pricing_bounds tiers m = Inr () \<longleftrightarrow>
     m \<le> MAX_SAFE_USAGE_CHARGE \<and>
     (\<forall>t \<in> set tiers. pt_rate_per_unit t \<le> MAX_SAFE_USAGE_RATE_PER_UNIT \<and>
        pt_up_to t \<le> MAX_SAFE_USAGE_UNITS)"
proof -
  have z: "pt_up_to t = 0 \<or> pt_up_to t \<le> MAX_SAFE_USAGE_UNITS \<longleftrightarrow> pt_up_to t \<le> MAX_SAFE_USAGE_UNITS" for t
    by (auto simp: word_le_nat_alt)
  show ?thesis
    by (auto simp: validate_usage_pricing_bounds_def require_all_Inr list_all_iff z)
qed

lemma validate_flat_plan_terms_Inr:
  "validate_flat_plan_terms a f n = Inr () \<longleftrightarrow> 0 < a \<and> MIN_FREQUENCY_SECONDS \<le> f \<and> 0 < n"
  by (simp add: validate_flat_plan_terms_def require_all_Inr)

section \<open>Dates\<close>

lemma add_delay_Inr: "add_delay start d = Inr t \<longleftrightarrow> uint d < 2 ^ 63 \<and> sval t = sval start + uint d"
proof -
  have "(\<exists>x. sval x = uint d \<and> sval t = sval start + sval x) \<longleftrightarrow> uint d < 2 ^ 63 \<and> sval t = sval start + uint d"
    (is "?l \<longleftrightarrow> ?r")
  proof
    assume ?l
    then obtain x where "sval x = uint d" "sval t = sval start + sval x" by blast
    then show ?r using sval_range [of x] by simp
  next
    assume r: ?r
    have "0 \<le> uint d" by (rule uint_nonnegative)
    with r have "in_i64 (uint d)" unfolding in_i64_def by linarith
    then have "sval (i64_of (uint d)) = uint d" by simp
    with r show ?l by (intro exI [of _ "i64_of (uint d)"]) simp
  qed
  then show ?thesis by (simp add: add_delay_def ok_simps arith_simps)
qed

lemma compute_flat_expiry_Inr:
  assumes "compute_flat_expiry trial f n start = Inr t" "trial \<noteq> 0"
  shows "sval t = sval start + int (unat trial + unat f * unat n)"
proof -
  obtain b w d where b: "checked_mul f n = Some b" "checked_add trial b = Some w"
    "i64_try_from_u64 w = Some d" "i64_checked_add start d = Some t"
    using assms by (auto simp: compute_flat_expiry_def ok_simps)
  have "unat w = unat trial + unat f * unat n" using b(1,2) by (simp add: arith_simps)
  moreover have "sval t = sval start + uint w" using b(3,4) by (simp add: arith_simps)
  ultimately show ?thesis by (simp only: uint_nat)
qed

text \<open>
  C34: a flat plan with a trial expires after exactly the trial and all its periods, and a
  mandate that pays every period on time has room for all \<open>max_pulls\<close> payments before
  that: payment number \<open>i\<close> falls due at \<open>first due + i * frequency\<close>, strictly before the
  expiry. A plan without a trial never expires.
\<close>

theorem flat_expiry_leaves_room_for_every_pull:
  assumes "lp_is_flat p" "lp_expiry p start = Inr expiry" "lp_initial_next_payment_due p start = Inr due"
    "expiry \<noteq> i64_of 0" "0 < unat (lp_mandate_frequency p)" "i < unat (lp_max_pulls p)"
  shows "sval due + int i * uint (lp_mandate_frequency p) < sval expiry \<and>
    sval expiry = sval due + int (unat (lp_max_pulls p)) * uint (lp_mandate_frequency p)"
proof -
  obtain trial f n where p: "compute_flat_expiry trial f n start = Inr expiry"
    "add_delay start (if 0 < trial then trial else f) = Inr due"
    "lp_mandate_frequency p = f" "lp_max_pulls p = n"
    using assms(1,2,3) that by (cases p) auto
  have trial: "trial \<noteq> 0" using p(1) assms(4) by (auto simp: compute_flat_expiry_def)
  then have due: "sval due = sval start + uint trial"
    using p(2) by (simp add: add_delay_Inr word_neq_0_conv)
  have u: "uint w = int (unat w)" for w :: u64 by (rule uint_nat)
  have e: "sval expiry = sval due + int (unat n) * uint f"
    using compute_flat_expiry_Inr [OF p(1) trial] unfolding due u by simp
  have "int i * uint f < int (unat n) * uint f"
    using assms(5,6) unfolding p(3,4) u of_nat_mult [symmetric] of_nat_less_iff by simp
  with e p(3,4) show ?thesis by simp
qed

section \<open>Stored plans\<close>

text \<open>
  The plan in the current layout at an address, before the address is compared with the one
  derived from the plan.
\<close>

definition flat_plan_at :: "env \<Rightarrow> store \<Rightarrow> pubkey \<Rightarrow> verror + vela_plan" where
  "flat_plan_at E s k =
     (if acc_owner (s k) \<noteq> program_id then Inl (Vela BillingTypeMismatch) else
      case try_deserialize E KVelaPlan dec_vela_plan (acc_data (s k)) of
        Some p \<Rightarrow> if vp_version p = CURRENT_ACCOUNT_VERSION then Inr p else Inl (Vela BillingTypeMismatch)
      | None \<Rightarrow> Inl (Vela BillingTypeMismatch))"

definition usage_plan_at :: "env \<Rightarrow> store \<Rightarrow> pubkey \<Rightarrow> verror + usage_plan" where
  "usage_plan_at E s k =
     (if acc_owner (s k) \<noteq> program_id then Inl (Vela BillingTypeMismatch) else
      case try_deserialize E KUsagePlan dec_usage_plan (acc_data (s k)) of
        Some p \<Rightarrow> if up_version p = CURRENT_ACCOUNT_VERSION then Inr p else Inl (Vela BillingTypeMismatch)
      | None \<Rightarrow> Inl (Vela BillingTypeMismatch))"

definition storable_plan :: "vela_plan \<Rightarrow> bool" where
  "storable_plan p \<longleftrightarrow> valid_vela_plan p \<and> vp_version p = CURRENT_ACCOUNT_VERSION"

definition storable_usage_plan :: "usage_plan \<Rightarrow> bool" where
  "storable_usage_plan p \<longleftrightarrow> valid_usage_plan p \<and> up_version p = CURRENT_ACCOUNT_VERSION"

lemma flat_plan_at_Inr:
  "flat_plan_at E s k = Inr p \<longleftrightarrow> acc_owner (s k) = program_id \<and>
     try_current_flat E (acc_data (s k)) = Some (FlatPlan p)"
  by (auto simp: flat_plan_at_def try_current_flat_def split: option.splits if_splits)

lemma usage_plan_at_Inr:
  "usage_plan_at E s k = Inr p \<longleftrightarrow> acc_owner (s k) = program_id \<and>
     try_current_usage E (acc_data (s k)) = Some (UsagePlan p)"
  by (auto simp: usage_plan_at_def try_current_usage_def split: option.splits if_splits)

interpretation flat_store: stored_account flat_plan_at write_plan storable_plan
proof unfold_locales
  show "write_plan E k x s = Inr s' \<Longrightarrow> storable_plan x \<Longrightarrow> acc_owner (s k) = program_id \<Longrightarrow>
      flat_plan_at E s' k = Inr x" for E k x s s'
    by (auto simp: write_plan_def write_account_Inr flat_plan_at_def storable_plan_def
        vela_plan_codec.try_deserialize_enc)
  show "write_plan E k x s = Inr s' \<Longrightarrow> j \<noteq> k \<Longrightarrow> s' j = s j" for E k x s s' j
    by (auto simp: write_plan_def write_account_Inr)
  show "write_plan E k x s = Inr s' \<Longrightarrow>
      acc_owner (s' k) = acc_owner (s k) \<and> acc_lamports (s' k) = acc_lamports (s k)" for E k x s s'
    by (auto simp: write_plan_def write_account_Inr)
  show "flat_plan_at E s k = Inr x \<Longrightarrow> storable_plan x" for E s k x
    by (auto simp: flat_plan_at_def storable_plan_def
        dest: vela_plan_codec.try_deserialize_valid split: if_splits option.splits)
  show "flat_plan_at E s k = Inr x \<Longrightarrow> acc_owner (s k) = program_id" for E s k x
    by (auto simp: flat_plan_at_def split: if_splits)
  show "acc_owner (s' k) = acc_owner (s k) \<Longrightarrow> acc_data (s' k) = acc_data (s k) \<Longrightarrow>
      flat_plan_at E s' k = flat_plan_at E s k" for E s s' k
    by (simp add: flat_plan_at_def)
  show "flat_plan_at E' s k = flat_plan_at E s k" if "disc E' = disc E" for E E' s k
    unfolding flat_plan_at_def try_deserialize_disc [OF that] by (rule refl)
qed

interpretation usage_store: stored_account usage_plan_at write_usage_plan storable_usage_plan
proof unfold_locales
  show "write_usage_plan E k x s = Inr s' \<Longrightarrow> storable_usage_plan x \<Longrightarrow> acc_owner (s k) = program_id \<Longrightarrow>
      usage_plan_at E s' k = Inr x" for E k x s s'
    by (auto simp: write_usage_plan_def write_account_Inr usage_plan_at_def storable_usage_plan_def
        usage_plan_codec.try_deserialize_enc)
  show "write_usage_plan E k x s = Inr s' \<Longrightarrow> j \<noteq> k \<Longrightarrow> s' j = s j" for E k x s s' j
    by (auto simp: write_usage_plan_def write_account_Inr)
  show "write_usage_plan E k x s = Inr s' \<Longrightarrow>
      acc_owner (s' k) = acc_owner (s k) \<and> acc_lamports (s' k) = acc_lamports (s k)" for E k x s s'
    by (auto simp: write_usage_plan_def write_account_Inr)
  show "usage_plan_at E s k = Inr x \<Longrightarrow> storable_usage_plan x" for E s k x
    by (auto simp: usage_plan_at_def storable_usage_plan_def
        dest: usage_plan_codec.try_deserialize_valid split: if_splits option.splits)
  show "usage_plan_at E s k = Inr x \<Longrightarrow> acc_owner (s k) = program_id" for E s k x
    by (auto simp: usage_plan_at_def split: if_splits)
  show "acc_owner (s' k) = acc_owner (s k) \<Longrightarrow> acc_data (s' k) = acc_data (s k) \<Longrightarrow>
      usage_plan_at E s' k = usage_plan_at E s k" for E s s' k
    by (simp add: usage_plan_at_def)
  show "usage_plan_at E' s k = usage_plan_at E s k" if "disc E' = disc E" for E E' s k
    unfolding usage_plan_at_def try_deserialize_disc [OF that] by (rule refl)
qed

text \<open>What the loader returns, by layout.\<close>

lemma validate_plan_address_Inr:
  "validate_plan_address E k l = Inr l' \<longleftrightarrow> l' = l \<and>
     k = (if lp_is_flat l then plan_address E (lp_merchant l) (lp_plan_id l)
          else usage_plan_address E (lp_merchant l) (lp_plan_id l))"
  by (cases l) auto

lemma try_current_flat_Some: "try_current_flat E bs = Some l \<Longrightarrow> \<exists>p. l = FlatPlan p"
  by (auto simp: try_current_flat_def split: option.splits if_splits)

lemma try_current_usage_Some: "try_current_usage E bs = Some l \<Longrightarrow> \<exists>p. l = UsagePlan p"
  by (auto simp: try_current_usage_def split: option.splits if_splits)

lemma load_usage_plan_inner_not_flat:
  "load_usage_plan_inner E k data = Inr l \<Longrightarrow> \<not> lp_is_flat l"
  by (auto simp: load_usage_plan_inner_def validate_plan_address_Inr dest: try_current_usage_Some
      split: option.splits if_splits)

lemma load_plan_flat:
  "load_plan_account E s k = Inr (FlatPlan p) \<longleftrightarrow>
     flat_plan_at E s k = Inr p \<and> k = plan_address E (vp_merchant p) (vp_plan_id p)"
proof -
  let ?data = "acc_data (s k)"
  have disc: "starts_with ?data (disc E KVelaPlan) \<and> length (disc E KVelaPlan) \<le> length ?data"
    if "try_current_flat E ?data = Some l" for l
    using that try_deserialize_starts [of E KVelaPlan dec_vela_plan ?data]
    by (auto simp: try_current_flat_def dest: starts_with_length split: option.splits)
  show ?thesis
  proof (cases "try_current_flat E ?data")
    case None
    then show ?thesis
      by (auto simp: load_plan_account_def Let_def flat_plan_at_Inr validate_plan_address_Inr
          dest: load_usage_plan_inner_not_flat split: if_splits option.splits)
  next
    case (Some l)
    then obtain q where "l = FlatPlan q" using try_current_flat_Some by blast
    then show ?thesis using disc [OF Some] Some
      by (auto simp: load_plan_account_def Let_def flat_plan_at_Inr validate_plan_address_Inr)
  qed
qed

lemma load_plan_usage:
  assumes "distinct_discriminators E" "usage_plan_at E s k = Inr p"
    "k = usage_plan_address E (up_merchant p) (up_plan_id p)"
  shows "load_plan_account E s k = Inr (UsagePlan p)"
proof -
  have p: "acc_owner (s k) = program_id" "try_current_usage E (acc_data (s k)) = Some (UsagePlan p)"
    using assms(2) by (simp_all add: usage_plan_at_Inr)
  then have u: "starts_with (acc_data (s k)) (disc E KUsagePlan)"
    using try_deserialize_starts [of E KUsagePlan dec_usage_plan]
    by (auto simp: try_current_usage_def split: option.splits)
  then have "length (disc E KUsagePlan) \<le> length (acc_data (s k))"
    by (rule starts_with_length)
  moreover have "\<not> starts_with (acc_data (s k)) (disc E KVelaPlan)"
    using distinct_discriminatorsD(2) [OF assms(1) u] by blast
  ultimately show ?thesis
    using u p assms(3) by (simp add: load_plan_account_def load_usage_plan_inner_def Let_def)
qed

section \<open>Migration\<close>

lemma realloc_others_kept:
  assumes "realloc_plan_account E n payer k s = Inr s'" "keeps_program_accounts E"
  shows "others_kept k s s'"
proof (cases "length (acc_data (s k)) < n")
  case False
  then show ?thesis using assms(1) by (simp add: realloc_plan_account_def)
next
  case True
  then obtain s1 where s1: "s1 = s \<or> (\<exists>c. invoke E c [] s = Inr s1)"
    "s' = set_data s1 k (resize_data n (acc_data (s1 k)))"
    using assms(1) by (auto simp: realloc_plan_account_def Let_def case_sum_Inr split: if_splits)
  then have "accounts_kept s s1" using accounts_kept_call [OF assms(2)] by auto
  then have "others_kept k s s1" by (rule accounts_kept_others)
  then show ?thesis unfolding s1(2) by (rule others_kept_trans) simp
qed

lemma load_plan_owner: "load_plan_account E s k = Inr l \<Longrightarrow> acc_owner (s k) = program_id"
  by (auto simp: load_plan_account_def split: if_splits)

lemma load_plan_address:
  "load_plan_account E s k = Inr l \<Longrightarrow>
     k = (if lp_is_flat l then plan_address E (lp_merchant l) (lp_plan_id l)
          else usage_plan_address E (lp_merchant l) (lp_plan_id l))"
  by (auto simp: load_plan_account_def load_usage_plan_inner_def validate_plan_address_Inr Let_def
      split: if_splits option.splits)

lemma load_plan_valid:
  "load_plan_account E s k = Inr (LegacyUsagePlan l) \<Longrightarrow> valid_usage_plan_v1 l"
  "load_plan_account E s k = Inr (UsagePlan p) \<Longrightarrow> valid_usage_plan p \<and> up_version p = CURRENT_ACCOUNT_VERSION"
  "load_plan_account E s k = Inr (FlatPlan q) \<Longrightarrow> storable_plan q"
proof -
  show "load_plan_account E s k = Inr (LegacyUsagePlan l) \<Longrightarrow> valid_usage_plan_v1 l"
    by (auto simp: load_plan_account_def load_usage_plan_inner_def validate_plan_address_Inr Let_def
        dest: usage_plan_v1_codec.dec_valid try_current_flat_Some try_current_usage_Some
        split: if_splits option.splits)
  show "load_plan_account E s k = Inr (UsagePlan p) \<Longrightarrow> valid_usage_plan p \<and> up_version p = CURRENT_ACCOUNT_VERSION"
    by (auto simp: load_plan_account_def load_usage_plan_inner_def validate_plan_address_Inr Let_def
        try_current_usage_def dest: usage_plan_codec.try_deserialize_valid try_current_flat_Some
        split: if_splits option.splits)
  show "load_plan_account E s k = Inr (FlatPlan q) \<Longrightarrow> storable_plan q"
    unfolding load_plan_flat by (elim conjE, rule flat_store.load_storable)
qed

text \<open>Writing a plan in the current layout where a plan was, after growing the account.\<close>

lemma write_plan_loads:
  assumes "write_plan E k p s1 = Inr s'" "others_kept k s s1" "acc_owner (s k) = program_id"
    "storable_plan p" "k = plan_address E (vp_merchant p) (vp_plan_id p)"
  shows "load_plan_account E s' k = Inr (FlatPlan p) \<and> others_kept k s s'"
proof -
  have "acc_owner (s1 k) = program_id" using assms(2,3) by (simp add: others_kept_def)
  then have "flat_plan_at E s' k = Inr p" by (rule flat_store.load_written [OF assms(1,4)])
  moreover have "others_kept k s s'"
    using assms(1,2) write_account_others others_kept_trans unfolding write_plan_def by blast
  ultimately show ?thesis using assms(5) by (simp add: load_plan_flat)
qed

lemma write_usage_plan_loads:
  assumes "write_usage_plan E k p s1 = Inr s'" "others_kept k s s1" "acc_owner (s k) = program_id"
    "storable_usage_plan p" "k = usage_plan_address E (up_merchant p) (up_plan_id p)"
    "distinct_discriminators E"
  shows "load_plan_account E s' k = Inr (UsagePlan p) \<and> others_kept k s s'"
proof -
  have "acc_owner (s1 k) = program_id" using assms(2,3) by (simp add: others_kept_def)
  then have "usage_plan_at E s' k = Inr p" by (rule usage_store.load_written [OF assms(1,4)])
  moreover have "others_kept k s s'"
    using assms(1,2) write_account_others others_kept_trans unfolding write_usage_plan_def by blast
  ultimately show ?thesis using load_plan_usage [OF assms(6)] assms(5) by simp
qed

text \<open>Everything a mandate, a pull or a usage request takes from a plan.\<close>

definition plan_terms ::
  "env \<Rightarrow> loaded_plan \<Rightarrow>
     (billing_type \<times> pubkey \<times> u64 \<times> plan_status \<times> pubkey \<times> pubkey \<times> u8) \<times>
     (u64 \<times> u64 \<times> u64 \<times> u8 option) \<times>
     (i64 \<Rightarrow> verror + i64) \<times> (i64 \<Rightarrow> verror + i64) \<times> (pubkey \<Rightarrow> verror + u8 list)" where
  "plan_terms E l =
     ((lp_billing_type l, lp_merchant l, lp_plan_id l, lp_status l, lp_credential_mint l,
       lp_billing_mint l, lp_bump l),
      (lp_mandate_amount l, lp_mandate_frequency l, lp_max_pulls l, lp_usage_tier_count l),
      lp_expiry l, lp_initial_next_payment_due l, lp_usage_terms_hash E l)"

lemma plan_terms_from_legacy:
  "plan_terms E (FlatPlan (flat_from_legacy f)) = plan_terms E (LegacyFlatPlan f)"
  "plan_terms E (UsagePlan (usage_from_legacy u)) = plan_terms E (LegacyUsagePlan u)"
  by (auto simp: plan_terms_def flat_from_legacy_def usage_from_legacy_def fun_eq_iff)

lemma storable_from_legacy:
  "storable_plan (flat_from_legacy f)"
  "valid_usage_plan_v1 u \<Longrightarrow> storable_usage_plan (usage_from_legacy u)"
  by (auto simp: storable_plan_def storable_usage_plan_def flat_from_legacy_def usage_from_legacy_def
      valid_vela_plan_def valid_usage_plan_def valid_usage_plan_v1_def ACCOUNT_RESERVED_BYTES_def)

lemma migrate_current:
  assumes "load_plan_account E s (pl_plan c) = Inr l" "\<not> lp_is_legacy l" "plan_constraints E c = Inr ()"
  shows "migrate_plan E c s = Inr s"
  using assms load_plan_valid(2,3) [of E s "pl_plan c"]
  by (cases l) (auto simp: migrate_plan_def storable_plan_def)

lemma migrate_plan_loads:
  assumes "migrate_plan E c s = Inr s'" "keeps_program_accounts E" "distinct_discriminators E"
  shows "\<exists>l l'. load_plan_account E s (pl_plan c) = Inr l \<and> load_plan_account E s' (pl_plan c) = Inr l' \<and>
    \<not> lp_is_legacy l' \<and> plan_terms E l' = plan_terms E l \<and> others_kept (pl_plan c) s s' \<and>
    plan_constraints E c = Inr ()"
proof -
  obtain l where l: "load_plan_account E s (pl_plan c) = Inr l" and pc: "plan_constraints E c = Inr ()"
    using assms(1) by (auto simp: migrate_plan_def case_sum_Inr)
  note owner = load_plan_owner [OF l] and addr = load_plan_address [OF l]
  have "\<exists>l'. load_plan_account E s' (pl_plan c) = Inr l' \<and> \<not> lp_is_legacy l' \<and>
      plan_terms E l' = plan_terms E l \<and> others_kept (pl_plan c) s s'"
  proof (cases l)
    case (LegacyFlatPlan f)
    then obtain s1 where s1: "realloc_plan_account E vela_plan_size (pl_merchant c) (pl_plan c) s = Inr s1"
      "write_plan E (pl_plan c) (flat_from_legacy f) s1 = Inr s'"
      using assms(1) l pc by (auto simp: migrate_plan_def case_sum_Inr)
    have "pl_plan c = plan_address E (vp_merchant (flat_from_legacy f)) (vp_plan_id (flat_from_legacy f))"
      using addr LegacyFlatPlan by (simp add: flat_from_legacy_def)
    from write_plan_loads [OF s1(2) realloc_others_kept [OF s1(1) assms(2)] owner storable_from_legacy(1) this]
    show ?thesis by (auto simp: LegacyFlatPlan plan_terms_from_legacy)
  next
    case (LegacyUsagePlan u)
    then obtain s1 where s1: "realloc_plan_account E usage_plan_size (pl_merchant c) (pl_plan c) s = Inr s1"
      "write_usage_plan E (pl_plan c) (usage_from_legacy u) s1 = Inr s'"
      using assms(1) l pc by (auto simp: migrate_plan_def case_sum_Inr)
    have "pl_plan c = usage_plan_address E (up_merchant (usage_from_legacy u)) (up_plan_id (usage_from_legacy u))"
      using addr LegacyUsagePlan by (simp add: usage_from_legacy_def)
    moreover have "storable_usage_plan (usage_from_legacy u)"
      using load_plan_valid(1) l LegacyUsagePlan by (intro storable_from_legacy(2)) simp
    ultimately show ?thesis
      using write_usage_plan_loads [OF s1(2) realloc_others_kept [OF s1(1) assms(2)] owner _ _ assms(3)]
      by (auto simp: LegacyUsagePlan plan_terms_from_legacy)
  qed (use assms(1) l pc in \<open>auto simp: migrate_plan_def case_sum_Inr split: if_splits\<close>)
  then show ?thesis using l pc by blast
qed

text \<open>
  C37: a migration that returns leaves a plan that loads in the current layout with every
  term the old one had, touches no other account of the program, and migrating again
  changes nothing. No hypothesis says who signed: any signer may do it.
\<close>

theorem migration_keeps_every_term:
  assumes "migrate_plan E c s = Inr s'" "keeps_program_accounts E" "distinct_discriminators E"
  shows "\<exists>l l'. load_plan_account E s (pl_plan c) = Inr l \<and> load_plan_account E s' (pl_plan c) = Inr l' \<and>
    \<not> lp_is_legacy l' \<and> plan_terms E l' = plan_terms E l \<and> others_kept (pl_plan c) s s' \<and>
    migrate_plan E c s' = Inr s'"
  using migrate_plan_loads [OF assms] migrate_current by blast

section \<open>Creation\<close>

lemma ensure_merchant_state_kept:
  assumes "ensure_merchant_state E payer k merchant bump s = Inr (m, s')"
    "keeps_program_accounts E" "creates_fresh E"
  shows "others_kept k s s'" "acc_owner (s' k) = program_id" "valid_merchant_state m"
    "ms_merchant m = merchant" "acc_data (s' k) \<noteq> []" "k = pda E [merchant_seed, key_bytes merchant]"
    "acc_owner (s k) = program_id \<Longrightarrow> acc_data (s k) \<noteq> [] \<Longrightarrow> starts_with (acc_data (s k)) (disc E KMerchantState)"
proof -
  have out: "others_kept k s s1 \<and> acc_owner (s1 k) = program_id \<Longrightarrow>
      write_merchant_state E k m s1 = Inr s' \<Longrightarrow>
      others_kept k s s' \<and> acc_owner (s' k) = program_id \<and> acc_data (s' k) \<noteq> []" for s1
    by (auto simp: write_merchant_state_def anchor_exit_Inr others_kept_def enc_merchant_state_def)
  have addr: "k = pda E [merchant_seed, key_bytes merchant]"
    using assms(1) by (auto simp: ensure_merchant_state_def validate_merchant_state_address_def split: if_splits)
  have "others_kept k s s' \<and> acc_owner (s' k) = program_id \<and> acc_data (s' k) \<noteq> [] \<and>
    valid_merchant_state m \<and> ms_merchant m = merchant \<and>
    (acc_owner (s k) = program_id \<longrightarrow> acc_data (s k) \<noteq> [] \<longrightarrow> starts_with (acc_data (s k)) (disc E KMerchantState))"
  proof (cases "data_is_empty (s k)")
    case True
    then obtain s1 where s1: "create_merchant_state_account E payer k merchant bump s = Inr s1"
      "m = new_merchant_state merchant bump 0" "write_merchant_state E k m s1 = Inr s'"
      using assms(1) by (auto simp: ensure_merchant_state_def case_sum_Inr Let_def)
    have "accounts_kept s s1" "acc_owner (s1 k) = program_id"
      using s1(1) accounts_kept_call [OF assms(2)] creates_freshD(2) [OF assms(3)]
      unfolding create_merchant_state_account_def created_fresh_def by blast+
    with out [OF _ s1(3)] s1(2) True show ?thesis
      by (simp add: accounts_kept_others new_merchant_state_def valid_merchant_state_def
          ACCOUNT_RESERVED_BYTES_def data_is_empty_def)
  next
    case False
    then obtain l s1 where s1: "load_merchant_state E s k merchant = Inr l"
      "resize_merchant_state_account E payer k s = Inr s1"
      "m = (lms_into_current l)\<lparr>ms_merchant := merchant, ms_bump := bump,
         ms_version := CURRENT_ACCOUNT_VERSION, ms_reserved := replicate (ACCOUNT_RESERVED_BYTES - 8) 0\<rparr>"
      "write_merchant_state E k m s1 = Inr s'"
      using assms(1) by (auto simp: ensure_merchant_state_def case_sum_Inr Let_def split: if_splits)
    have own: "acc_owner (s k) = program_id" "starts_with (acc_data (s k)) (disc E KMerchantState)"
      using s1(1) by (auto simp: load_merchant_state_def case_sum_Inr Let_def split: if_splits)
    obtain s0 where s0: "s0 = s \<or> (\<exists>c. invoke E c [] s = Inr s0)"
      "s1 = s0 \<or> (\<exists>bs. s1 = set_data s0 k bs)"
      using s1(2) by (auto simp: resize_merchant_state_account_def resize_account_def Let_def
          case_sum_Inr split: if_splits)
    then have "others_kept k s s1"
      using accounts_kept_others [OF accounts_kept_call [OF assms(2)]] others_kept_trans
      by (metis others_kept_refl others_kept_set_data)
    with out [OF _ s1(4)] own s1(3) show ?thesis
      by (simp add: others_kept_def valid_merchant_state_def ACCOUNT_RESERVED_BYTES_def)
  qed
  then show "others_kept k s s'" "acc_owner (s' k) = program_id" "valid_merchant_state m"
    "ms_merchant m = merchant" "acc_data (s' k) \<noteq> []" "k = pda E [merchant_seed, key_bytes merchant]"
    "acc_owner (s k) = program_id \<Longrightarrow> acc_data (s k) \<noteq> [] \<Longrightarrow> starts_with (acc_data (s k)) (disc E KMerchantState)"
    using addr by simp_all
qed

lemma create_plan_Inr:
  assumes "create_plan E c amount frequency trial_period max_pulls s = Inr s'"
  obtains tc ms s1 s2 s3 resolved n where
    "\<exists>l seeds. invoke E (CreateAccount (cp_merchant c) (cp_plan c) l vela_plan_size program_id) seeds s1 = Inr s2"
    "write_plan E (cp_plan c) \<lparr>vp_merchant = cp_merchant c, vp_plan_id = ms_plan_count ms, vp_amount = amount,
        vp_frequency = frequency, vp_trial_period = trial_period, vp_max_pulls = max_pulls,
        vp_status = PlanActive, vp_credential_mint = resolved, vp_billing_mint = cp_billing_mint c,
        vp_bump = snd (find_pda E [plan_seed, key_bytes (cp_merchant c), u64_le (ms_plan_count ms)] program_id),
        vp_version = CURRENT_ACCOUNT_VERSION, vp_reserved = replicate 32 0\<rparr> s2 = Inr s3"
    "write_merchant_state E (cp_merchant_state c) (ms\<lparr>ms_plan_count := n\<rparr>) s3 = Inr s'"
    "unat n = unat (ms_plan_count ms) + 1"
    "validate_flat_plan_terms amount frequency max_pulls = Inr ()"
    "list_all fst (create_plan_constraints E c tc @ billing_token_checks tc (cp_billing_mint c))"
    "anchor_account E KTokenConfig dec_token_config s (cp_token_config c) = Inr tc"
    "ensure_merchant_state E (cp_merchant c) (cp_merchant_state c) (cp_merchant c)
       (snd (find_pda E [merchant_seed, key_bytes (cp_merchant c)] program_id)) s = Inr (ms, s1)"
    "cp_plan c = plan_address E (cp_merchant c) (ms_plan_count ms)" "data_is_empty (s1 (cp_plan c))"
    "merchant_credential E c ms s1 = Inr resolved"
proof -
  note un = assms [unfolded create_plan_def]
  from un obtain i tc where tc: "interface_mint E s (cp_billing_mint c) = Inr i"
    "anchor_account E KTokenConfig dec_token_config s (cp_token_config c) = Inr tc"
    unfolding handler_inversion by blast
  note un = un [unfolded tc sum.case]
  from un obtain p where p: "ensure_merchant_state E (cp_merchant c) (cp_merchant_state c) (cp_merchant c)
       (snd (find_pda E [merchant_seed, key_bytes (cp_merchant c)] program_id)) s = Inr p"
    unfolding handler_inversion by blast
  obtain ms s1 where ms: "p = (ms, s1)" by (cases p)
  note un = un [unfolded p ms sum.case prod.case]
  from un obtain r where r: "merchant_credential E c ms s1 = Inr r"
    unfolding handler_inversion by blast
  note un = un [unfolded r sum.case handler_inversion require_all_Inr]
  from un show thesis
    by (elim exE conjE) (rule that, rule exI, rule exI, assumption, assumption, assumption,
      simp_all add: ok_simps plan_address_def arith_simps tc p ms r list_all_append, auto)
qed

text \<open>
  Creating a plan that returns accepted valid terms in a registered, enabled token; the
  plan then loads at its address with exactly these terms, active, and with the merchant's
  own credential; the merchant's plan count, which is the plan's number, went up by one;
  and no other account of the program changed.
\<close>

theorem create_plan_stores_its_terms:
  assumes "create_plan E c amount frequency trial_period max_pulls s = Inr s'"
    "keeps_program_accounts E" "creates_fresh E"
  shows "0 < amount \<and> MIN_FREQUENCY_SECONDS \<le> frequency \<and> 0 < max_pulls \<and> is_signer E (cp_merchant c) \<and>
    (\<exists>p m. load_plan_account E s' (cp_plan c) = Inr (FlatPlan p) \<and>
       vp_merchant p = cp_merchant c \<and> vp_amount p = amount \<and> vp_frequency p = frequency \<and>
       vp_trial_period p = trial_period \<and> vp_max_pulls p = max_pulls \<and> vp_status p = PlanActive \<and>
       vp_billing_mint p = cp_billing_mint c \<and>
       load_merchant_state E s' (cp_merchant_state c) (cp_merchant c) = Inr (CurrentMerchantState m) \<and>
       vp_credential_mint p = ms_credential_mint m \<and> ms_credential_mint m \<noteq> default_key \<and>
       unat (ms_plan_count m) = unat (vp_plan_id p) + 1) \<and>
    (\<forall>j. j \<noteq> cp_plan c \<longrightarrow> j \<noteq> cp_merchant_state c \<longrightarrow> acc_owner (s j) = program_id \<longrightarrow>
       acc_owner (s' j) = program_id \<and> acc_data (s' j) = acc_data (s j))"
proof -
  from assms(1) obtain tc ms s1 s2 s3 resolved n where
    i: "\<exists>l seeds. invoke E (CreateAccount (cp_merchant c) (cp_plan c) l vela_plan_size program_id) seeds s1 = Inr s2"
    and w: "write_plan E (cp_plan c) \<lparr>vp_merchant = cp_merchant c, vp_plan_id = ms_plan_count ms, vp_amount = amount,
        vp_frequency = frequency, vp_trial_period = trial_period, vp_max_pulls = max_pulls,
        vp_status = PlanActive, vp_credential_mint = resolved, vp_billing_mint = cp_billing_mint c,
        vp_bump = snd (find_pda E [plan_seed, key_bytes (cp_merchant c), u64_le (ms_plan_count ms)] program_id),
        vp_version = CURRENT_ACCOUNT_VERSION, vp_reserved = replicate 32 0\<rparr> s2 = Inr s3"
      (is "write_plan E _ ?p s2 = _")
    and m: "write_merchant_state E (cp_merchant_state c) (ms\<lparr>ms_plan_count := n\<rparr>) s3 = Inr s'"
    and n: "unat n = unat (ms_plan_count ms) + 1"
    and c: "validate_flat_plan_terms amount frequency max_pulls = Inr ()"
    "list_all fst (create_plan_constraints E c tc @ billing_token_checks tc (cp_billing_mint c))"
    and e: "ensure_merchant_state E (cp_merchant c) (cp_merchant_state c) (cp_merchant c)
       (snd (find_pda E [merchant_seed, key_bytes (cp_merchant c)] program_id)) s = Inr (ms, s1)"
    and k: "cp_plan c = plan_address E (cp_merchant c) (ms_plan_count ms)" "data_is_empty (s1 (cp_plan c))"
    and r: "merchant_credential E c ms s1 = Inr resolved"
    by (rule create_plan_Inr)
  note e' = ensure_merchant_state_kept [OF e assms(2,3)]
  have ne: "cp_plan c \<noteq> cp_merchant_state c" using k(2) e'(5) by (auto simp: data_is_empty_def)
  have s2: "accounts_kept s1 s2" "acc_owner (s2 (cp_plan c)) = program_id"
    using i accounts_kept_call [OF assms(2)] creates_freshD(2) [OF assms(3)]
    unfolding created_fresh_def by blast+
  have st: "storable_plan ?p" by (simp add: storable_plan_def valid_vela_plan_def)
  have p3: "flat_plan_at E s3 (cp_plan c) = Inr ?p" by (rule flat_store.load_written [OF w st s2(2)])
  have s': "s' j = s3 j" if "j \<noteq> cp_merchant_state c" for j
    using m that by (auto simp: write_merchant_state_def anchor_exit_Inr)
  have "flat_plan_at E s' (cp_plan c) = flat_plan_at E s3 (cp_plan c)"
    by (rule flat_store.load_local) (simp_all add: s' [OF ne])
  then have plan: "load_plan_account E s' (cp_plan c) = Inr (FlatPlan ?p)"
    using p3 k(1) by (simp add: load_plan_flat)
  have own: "acc_owner (s3 (cp_merchant_state c)) = program_id"
    using flat_store.write_frame [OF w ne [symmetric]] s2(1) e'(2) by (simp add: accounts_kept_def)
  have v: "valid_merchant_state (ms\<lparr>ms_plan_count := n\<rparr>)" using e'(3) by (simp add: valid_merchant_state_def)
  have mer: "load_merchant_state E s' (cp_merchant_state c) (cp_merchant c) = Inr (CurrentMerchantState (ms\<lparr>ms_plan_count := n\<rparr>))"
    using m own e'(6) merchant_state_codec.try_deserialize_enc [OF v]
    by (auto simp: write_merchant_state_def anchor_exit_Inr load_merchant_state_def
        validate_merchant_state_address_def Let_def)
  have cred: "resolved = ms_credential_mint ms" "ms_credential_mint ms \<noteq> default_key"
    using r by (auto simp: merchant_credential_def case_sum_Inr split: if_splits)
  have kept: "acc_owner (s' j) = program_id \<and> acc_data (s' j) = acc_data (s j)"
    if "j \<noteq> cp_plan c" "j \<noteq> cp_merchant_state c" "acc_owner (s j) = program_id" for j
  proof -
    have "acc_owner (s1 j) = program_id \<and> acc_data (s1 j) = acc_data (s j)"
      using e'(1) that(2,3) by (simp add: others_kept_def)
    then show ?thesis
      using s2(1) flat_store.write_frame [OF w that(1)] s' [OF that(2)] by (simp add: accounts_kept_def)
  qed
  have "\<exists>p m. load_plan_account E s' (cp_plan c) = Inr (FlatPlan p) \<and>
       vp_merchant p = cp_merchant c \<and> vp_amount p = amount \<and> vp_frequency p = frequency \<and>
       vp_trial_period p = trial_period \<and> vp_max_pulls p = max_pulls \<and> vp_status p = PlanActive \<and>
       vp_billing_mint p = cp_billing_mint c \<and>
       load_merchant_state E s' (cp_merchant_state c) (cp_merchant c) = Inr (CurrentMerchantState m) \<and>
       vp_credential_mint p = ms_credential_mint m \<and> ms_credential_mint m \<noteq> default_key \<and>
       unat (ms_plan_count m) = unat (vp_plan_id p) + 1"
    by (rule exI [of _ ?p], rule exI [of _ "ms\<lparr>ms_plan_count := n\<rparr>"]) (simp add: plan mer cred n)
  then show ?thesis
    using c kept by (simp add: validate_flat_plan_terms_Inr create_plan_constraints_def)
qed

section \<open>Updates, as a transition system\<close>

text \<open>
  What can happen to a stored flat plan: its merchant changes terms, and the new terms are
  validated as a whole. The handlers are shown to do nothing else to it.
\<close>

datatype flat_update = FlatUpdate pubkey "u64 option" "u64 option" "u64 option" "u64 option"

fun flat_step :: "flat_update \<Rightarrow> vela_plan \<Rightarrow> verror + vela_plan" where
  "flat_step (FlatUpdate signer amount frequency trial_period max_pulls) p =
     (if vp_merchant p \<noteq> signer then Inl (Vela UnauthorizedCancel) else
      let q = set_plan_terms amount frequency trial_period max_pulls p in
      case validate_flat_plan_terms (vp_amount q) (vp_frequency q) (vp_max_pulls q) of
        Inl e \<Rightarrow> Inl e | Inr _ \<Rightarrow> Inr q)"

definition flat_terms_ok :: "vela_plan \<Rightarrow> bool" where
  "flat_terms_ok p \<longleftrightarrow>
     0 < vp_amount p \<and> MIN_FREQUENCY_SECONDS \<le> vp_frequency p \<and> 0 < vp_max_pulls p"

definition same_plan :: "vela_plan \<Rightarrow> vela_plan \<Rightarrow> bool" where
  "same_plan p q \<longleftrightarrow>
     q = p\<lparr>vp_amount := vp_amount q, vp_frequency := vp_frequency q,
           vp_trial_period := vp_trial_period q, vp_max_pulls := vp_max_pulls q\<rparr>"

lemma same_plan_set_terms: "same_plan p (set_plan_terms a f t n p)"
  by (cases p) (auto simp: same_plan_def set_plan_terms_def Let_def split: option.splits)

lemma flat_step_Inr:
  assumes "flat_step x p = Inr q"
  shows "flat_terms_ok q" "same_plan p q"
  using assms same_plan_set_terms
  by (cases x; auto simp: flat_terms_ok_def Let_def case_sum_Inr validate_flat_plan_terms_Inr split: if_splits)+

lemma same_plan_storable: "same_plan p q \<Longrightarrow> storable_plan p \<Longrightarrow> storable_plan q"
  by (cases p; cases q) (simp add: same_plan_def storable_plan_def valid_vela_plan_def)

interpretation flat_machine: monotone_machine flat_step flat_terms_ok same_plan
proof unfold_locales
  show "flat_terms_ok s \<Longrightarrow> flat_step x s = Inr s' \<Longrightarrow> flat_terms_ok s'" for s x s'
    by (rule flat_step_Inr(1))
  show "same_plan s s" for s by (cases s) (simp add: same_plan_def)
  show "same_plan s t \<Longrightarrow> same_plan t u \<Longrightarrow> same_plan s u" for s t u
    by (cases s; cases t; cases u) (simp add: same_plan_def)
  show "flat_terms_ok s \<Longrightarrow> flat_step x s = Inr s' \<Longrightarrow> same_plan s s'" for s x s'
    by (rule flat_step_Inr(2))
qed

datatype plan_call =
    CallCreatePlan create_plan_accounts u64 u64 u64 u64
  | CallCreateUsagePlan create_plan_accounts u64 "u8 list" "pricing_tier list" u64 u64
  | CallUpdatePlan plan_accounts "u64 option" "u64 option" "u64 option" "u64 option"
  | CallUpdateUsagePlan plan_accounts "pricing_tier list option" "u64 option" "u64 option"
  | CallMigratePlan plan_accounts

fun do_plan_call :: "env \<times> plan_call \<Rightarrow> store \<Rightarrow> verror + store" where
  "do_plan_call (E, CallCreatePlan c a f t n) s = create_plan E c a f t n s"
| "do_plan_call (E, CallCreateUsagePlan c i u ts m f) s = create_usage_plan E c i u ts m f s"
| "do_plan_call (E, CallUpdatePlan c a f t n) s = map_sum id fst (update_plan E c a f t n s)"
| "do_plan_call (E, CallUpdateUsagePlan c ts m f) s = map_sum id fst (update_usage_plan E c ts m f s)"
| "do_plan_call (E, CallMigratePlan c) s = migrate_plan E c s"

text \<open>
  What the runtime provides to a call, for one program (one set of discriminators and one
  derivation of addresses).
\<close>

definition plan_runtime :: "env \<Rightarrow> env \<times> 'c \<Rightarrow> bool" where
  "plan_runtime E x \<longleftrightarrow>
     same_program E x \<and> find_pda (fst x) = find_pda E \<and> creates_fresh (fst x) \<and> distinct_discriminators E"

lemma load_plan_env:
  assumes "disc E' = disc E" "find_pda E' = find_pda E"
  shows "load_plan_account E' = load_plan_account E"
proof -
  have v: "validate_plan_address E' = validate_plan_address E"
  proof (intro ext)
    fix k l show "validate_plan_address E' k l = validate_plan_address E k l"
      by (cases l) (simp_all add: plan_address_def usage_plan_address_def pda_def assms(2))
  qed
  show ?thesis
    by (intro ext) (simp only: load_plan_account_def load_usage_plan_inner_def try_current_flat_def
        try_current_usage_def try_deserialize_disc [OF assms(1)] assms(1) v)
qed

lemma others_kept_flat:
  "others_kept k s s' \<Longrightarrow> flat_plan_at E s j = Inr p \<Longrightarrow> j \<noteq> k \<Longrightarrow> flat_plan_at E s' j = Inr p"
  using flat_store.load_owner [of E s j p] flat_store.load_local [of s' j s E]
  by (simp add: others_kept_def)

lemma flat_plan_starts:
  "flat_plan_at E s k = Inr p \<Longrightarrow> starts_with (acc_data (s k)) (disc E KVelaPlan)"
  by (auto simp: flat_plan_at_def dest: try_deserialize_starts split: option.splits if_splits)

lemma flat_plan_data:
  "flat_plan_at E s k = Inr p \<Longrightarrow> distinct_discriminators E \<Longrightarrow> acc_data (s k) \<noteq> []"
  by (auto dest!: flat_plan_starts starts_with_length simp: distinct_discriminatorsD)

lemma ensure_merchant_state_flat:
  assumes "ensure_merchant_state E payer m merchant bump s = Inr (ms, s')" "flat_plan_at E s k = Inr p"
    "keeps_program_accounts E" "creates_fresh E" "distinct_discriminators E"
  shows "k \<noteq> m \<and> flat_plan_at E s' k = Inr p"
proof -
  note e = ensure_merchant_state_kept [OF assms(1,3,4)]
  have "k \<noteq> m"
  proof
    assume "k = m"
    then have "starts_with (acc_data (s k)) (disc E KMerchantState)"
      using e(7) flat_store.load_owner [OF assms(2)] flat_plan_data [OF assms(2,5)] by simp
    then show False
      using distinct_discriminatorsD(2) [OF assms(5) flat_plan_starts [OF assms(2)]] by blast
  qed
  then show ?thesis using others_kept_flat [OF e(1) assms(2)] by simp
qed

lemma create_plan_flat:
  assumes "create_plan E c a f t n s = Inr s'" "flat_plan_at E s k = Inr p"
    "keeps_program_accounts E" "creates_fresh E" "distinct_discriminators E"
  shows "flat_plan_at E s' k = Inr p"
proof -
  from assms(1) obtain ms s1 where e: "ensure_merchant_state E (cp_merchant c) (cp_merchant_state c) (cp_merchant c)
       (snd (find_pda E [merchant_seed, key_bytes (cp_merchant c)] program_id)) s = Inr (ms, s1)"
    and d: "data_is_empty (s1 (cp_plan c))"
    by (rule create_plan_Inr)
  note k = ensure_merchant_state_flat [OF e assms(2-5)]
  have "k \<noteq> cp_plan c" using d flat_plan_data [OF conjunct2 [OF k] assms(5)] by (auto simp: data_is_empty_def)
  then have "acc_owner (s' k) = acc_owner (s k) \<and> acc_data (s' k) = acc_data (s k)"
    using create_plan_stores_its_terms [OF assms(1,3,4)] k flat_store.load_owner [OF assms(2)] by simp
  then show ?thesis using flat_store.load_local [of s' k s E] assms(2) by simp
qed

lemma create_usage_plan_flat:
  assumes "create_usage_plan E c i u ts m f s = Inr s'" "flat_plan_at E s k = Inr p"
    "keeps_program_accounts E" "creates_fresh E" "distinct_discriminators E"
  shows "flat_plan_at E s' k = Inr p"
proof -
  obtain s1 l seeds ms s2 bs where
    i: "invoke E (InitAccount (cp_merchant c) (cp_plan c) l usage_plan_size program_id) seeds s = Inr s1"
    and e: "ensure_merchant_state E (cp_merchant c) (cp_merchant_state c) (cp_merchant c)
       (snd (find_pda E [merchant_seed, key_bytes (cp_merchant c)] program_id)) s1 = Inr (ms, s2)"
    and w: "anchor_exit (cp_plan c) bs s2 = Inr s'"
  proof -
    show thesis
      using assms(1) unfolding create_usage_plan_def handler_inversion
      by (elim exE conjE) (rule that, assumption, erule trans [OF _ arg_cong [where f = Inr, OF prod.collapse [symmetric]]], assumption)
  qed
  have s1: "flat_plan_at E s1 k = Inr p"
    by (rule flat_store.kept_load [OF accounts_kept_call [OF assms(3) i] assms(2)])
  have "acc_owner (s (cp_plan c)) = system_program_id"
    using creates_freshD(1) [OF assms(4) i] by (simp add: created_fresh_def)
  then have ne: "k \<noteq> cp_plan c" using flat_store.load_owner [OF assms(2)] by auto
  note k = ensure_merchant_state_flat [OF e s1 assms(3-5)]
  have "s' k = s2 k" using w ne by (auto simp: anchor_exit_Inr)
  then have "flat_plan_at E s' k = flat_plan_at E s2 k" by (intro flat_store.load_local) simp_all
  with k show ?thesis by simp
qed

lemma update_plan_effect:
  assumes "update_plan E c a f t n s = Inr (s', ev)" "keeps_program_accounts E"
  shows "\<exists>l old q. load_plan_account E s (pl_plan c) = Inr l \<and> lp_is_flat l \<and>
    (l = FlatPlan old \<or> (\<exists>v. l = LegacyFlatPlan v \<and> old = flat_from_legacy v)) \<and>
    flat_step (FlatUpdate (pl_merchant c) a f t n) old = Inr q \<and>
    load_plan_account E s' (pl_plan c) = Inr (FlatPlan q) \<and> others_kept (pl_plan c) s s' \<and>
    is_signer E (pl_merchant c)"
proof -
  obtain l old s1 where l: "load_plan_account E s (pl_plan c) = Inr l" "lp_is_flat l"
      "lp_merchant l = pl_merchant c"
    and old: "l = FlatPlan old \<or> (\<exists>v. l = LegacyFlatPlan v \<and> old = flat_from_legacy v)"
    and pc: "plan_constraints E c = Inr ()"
    and v: "validate_flat_plan_terms (vp_amount (set_plan_terms a f t n old))
        (vp_frequency (set_plan_terms a f t n old)) (vp_max_pulls (set_plan_terms a f t n old)) = Inr ()"
    and r: "realloc_plan_account E vela_plan_size (pl_merchant c) (pl_plan c) s = Inr s1"
    and w: "write_plan E (pl_plan c) (set_plan_terms a f t n old) s1 = Inr s'"
    using assms(1) unfolding update_plan_def
    by (auto simp: case_sum_Inr Let_def split: if_splits loaded_plan.splits)
  have m: "vp_merchant old = pl_merchant c" "storable_plan old"
    "pl_plan c = plan_address E (vp_merchant old) (vp_plan_id old)"
    using old l load_plan_valid(3) [of E s "pl_plan c"] load_plan_address [OF l(1)]
    by (auto simp: flat_from_legacy_def storable_plan_def valid_vela_plan_def)
  let ?q = "set_plan_terms a f t n old"
  have step: "flat_step (FlatUpdate (pl_merchant c) a f t n) old = Inr ?q" using m v by simp
  have same: "same_plan old ?q" by (rule same_plan_set_terms)
  then have "pl_plan c = plan_address E (vp_merchant ?q) (vp_plan_id ?q)"
    using m by (cases ?q) (simp add: same_plan_def)
  from write_plan_loads [OF w realloc_others_kept [OF r assms(2)] load_plan_owner [OF l(1)]
      same_plan_storable [OF same m(2)] this]
  have "load_plan_account E s' (pl_plan c) = Inr (FlatPlan ?q) \<and> others_kept (pl_plan c) s s'" .
  moreover have "is_signer E (pl_merchant c)" using pc by (simp add: plan_constraints_def ok_simps)
  ultimately show ?thesis using l(1,2) old step by blast
qed

lemma update_usage_plan_others:
  assumes "update_usage_plan E c ts m f s = Inr (s', ev)" "keeps_program_accounts E"
  shows "others_kept (pl_plan c) s s' \<and> \<not> (\<exists>p. load_plan_account E s (pl_plan c) = Inr (FlatPlan p)) \<and>
    (\<exists>l. load_plan_account E s (pl_plan c) = Inr l)"
proof -
  obtain l s1 q where l: "load_plan_account E s (pl_plan c) = Inr l" "\<not> lp_is_flat l"
    and r: "realloc_plan_account E usage_plan_size (pl_merchant c) (pl_plan c) s = Inr s1"
    and w: "write_usage_plan E (pl_plan c) q s1 = Inr s'"
    using assms(1) unfolding update_usage_plan_def
    by (auto simp: case_sum_Inr Let_def split: if_splits)
  have "others_kept (pl_plan c) s s'"
    using write_account_others [OF w [unfolded write_usage_plan_def]] realloc_others_kept [OF r assms(2)]
    by (rule others_kept_trans [rotated])
  then show ?thesis using l by auto
qed

lemma plan_call_effect:
  assumes "do_plan_call (E, c) s = Inr s'" "load_plan_account E s k = Inr (FlatPlan p)"
    "keeps_program_accounts E" "creates_fresh E" "distinct_discriminators E"
  shows "load_plan_account E s' k = Inr (FlatPlan p) \<or>
    (\<exists>x q. flat_step x p = Inr q \<and> load_plan_account E s' k = Inr (FlatPlan q) \<and> is_signer E (vp_merchant p))"
proof -
  have p: "flat_plan_at E s k = Inr p" and k: "k = plan_address E (vp_merchant p) (vp_plan_id p)"
    using assms(2) unfolding load_plan_flat by blast+
  have same: "load_plan_account E s' k = Inr (FlatPlan p)" if "flat_plan_at E s' k = Inr p"
    using that k by (simp add: load_plan_flat)
  show ?thesis
  proof (cases c)
    case (CallCreatePlan a w f t n)
    then show ?thesis using create_plan_flat [OF _ p assms(3-5)] assms(1) same by auto
  next
    case (CallCreateUsagePlan a i u ts m f)
    then show ?thesis using create_usage_plan_flat [OF _ p assms(3-5)] assms(1) same by auto
  next
    case (CallUpdatePlan a w f t n)
    then obtain ev where u: "update_plan E a w f t n s = Inr (s', ev)"
      using assms(1) by (auto simp: map_sum_Inr)
    from update_plan_effect [OF u assms(3)] obtain l old q where
      q: "load_plan_account E s (pl_plan a) = Inr l"
      "l = FlatPlan old \<or> (\<exists>v. l = LegacyFlatPlan v \<and> old = flat_from_legacy v)"
      "flat_step (FlatUpdate (pl_merchant a) w f t n) old = Inr q"
      "load_plan_account E s' (pl_plan a) = Inr (FlatPlan q)" "others_kept (pl_plan a) s s'"
      "is_signer E (pl_merchant a)" by blast
    show ?thesis
    proof (cases "k = pl_plan a")
      case True
      then have old: "old = p" using q(1,2) assms(2) by auto
      then have "vp_merchant p = pl_merchant a" using q(3) by (auto split: if_splits)
      then show ?thesis using q(3-6) unfolding True old by metis
    qed (use others_kept_flat [OF q(5) p] same in blast)
  next
    case (CallUpdateUsagePlan a ts m f)
    then obtain ev where u: "update_usage_plan E a ts m f s = Inr (s', ev)"
      using assms(1) by (auto simp: map_sum_Inr)
    note o = update_usage_plan_others [OF u assms(3)]
    have "k \<noteq> pl_plan a" using o assms(2) by auto
    then show ?thesis using others_kept_flat [OF conjunct1 [OF o] p] same by blast
  next
    case (CallMigratePlan a)
    then have u: "migrate_plan E a s = Inr s'" using assms(1) by simp
    from migrate_plan_loads [OF u assms(3,5)] obtain l where
      l: "load_plan_account E s (pl_plan a) = Inr l" "others_kept (pl_plan a) s s'" by blast
    show ?thesis
    proof (cases "k = pl_plan a")
      case True
      then have "l = FlatPlan p" "plan_constraints E a = Inr ()"
        using l assms(2) u by (auto simp: migrate_plan_def case_sum_Inr)
      then have "s' = s" using migrate_current [OF l(1)] u by simp
      then show ?thesis using assms(2) by simp
    qed (use others_kept_flat [OF l(2) p] same in blast)
  qed
qed

definition flat_plan_view :: "env \<Rightarrow> pubkey \<Rightarrow> store \<Rightarrow> vela_plan option" where
  "flat_plan_view E k s = (case load_plan_account E s k of Inr (FlatPlan p) \<Rightarrow> Some p | _ \<Rightarrow> None)"

lemma flat_plan_view_Some: "flat_plan_view E k s = Some p \<longleftrightarrow> load_plan_account E s k = Inr (FlatPlan p)"
  by (auto simp: flat_plan_view_def split: sum.splits loaded_plan.splits)

lemma plan_call_view:
  assumes "plan_runtime E x" "do_plan_call x s = Inr s'" "flat_plan_view E k s = Some p"
  shows "flat_plan_view E k s' = Some p \<or>
    (\<exists>y q. flat_step y p = Inr q \<and> flat_plan_view E k s' = Some q \<and> is_signer (fst x) (vp_merchant p))"
proof -
  obtain E' c where x: "x = (E', c)" by (cases x)
  have E': "disc E' = disc E" "find_pda E' = find_pda E" "keeps_program_accounts E'" "creates_fresh E'"
    using assms(1) by (simp_all add: x plan_runtime_def same_program_def)
  have "distinct_discriminators E'"
    using assms(1) by (simp add: plan_runtime_def distinct_discriminators_def E'(1))
  moreover have "load_plan_account E' s k = Inr (FlatPlan p)"
    using assms(3) by (simp add: load_plan_env [OF E'(1,2)] flat_plan_view_Some)
  ultimately show ?thesis
    using plan_call_effect [OF assms(2) [unfolded x] _ E'(3,4)]
    by (simp add: load_plan_env [OF E'(1,2)] flat_plan_view_Some x)
qed

interpretation plan_sim: simulation flat_step flat_terms_ok do_plan_call "plan_runtime E" "flat_plan_view E k"
  for E :: env and k :: pubkey
proof unfold_locales
  show "flat_plan_view E k c' = Some p \<or> (\<exists>y q. flat_step y p = Inr q \<and> flat_plan_view E k c' = Some q)"
    if "plan_runtime E x" "do_plan_call x c = Inr c'" "flat_plan_view E k c = Some p" for x c c' p
    using plan_call_view [OF that] by blast
qed

text \<open>
  Whatever sequence of plan instructions runs, by whichever signers, a flat plan that was
  stored with valid terms is still stored at its address, with valid terms and the same
  merchant, number, mints, status and bump. Only amount, frequency, trial and the number of
  pulls may have changed.
\<close>

theorem plan_handlers_keep_flat_terms:
  assumes "list_all (plan_runtime E) xs" "load_plan_account E s k = Inr (FlatPlan p)" "flat_terms_ok p"
  shows "\<exists>q. load_plan_account E (run do_plan_call xs s) k = Inr (FlatPlan q) \<and>
    flat_terms_ok q \<and> same_plan p q"
  using plan_sim.run_simulated [OF assms(1), of k s p] assms(2,3)
    flat_machine.run_inv [OF assms(3)] flat_machine.run_le [OF assms(3)]
  unfolding flat_plan_view_Some by blast

text \<open>
  Without the merchant's signature nothing changes a stored flat plan: not an update, a
  usage-plan update, a migration, nor the creation of another plan.
\<close>

theorem only_its_merchant_changes_a_flat_plan:
  assumes "list_all (plan_runtime E) xs" "load_plan_account E s k = Inr (FlatPlan p)"
    "\<forall>x \<in> set xs. \<not> is_signer (fst x) (vp_merchant p)"
  shows "load_plan_account E (run do_plan_call xs s) k = Inr (FlatPlan p)"
  using assms
proof (induction xs arbitrary: s)
  case Nil
  then show ?case by simp
next
  case (Cons x xs)
  show ?case
  proof (cases "do_plan_call x s")
    case (Inl e)
    then show ?thesis using Cons by simp
  next
    case (Inr s1)
    then have "load_plan_account E s1 k = Inr (FlatPlan p)"
      using plan_call_view [of E x s s1 k p] Cons.prems by (simp add: flat_plan_view_Some)
    then show ?thesis using Cons Inr by simp
  qed
qed

section \<open>The properties on concrete plans\<close>

definition sample_plan :: vela_plan where
  "sample_plan =
     \<lparr>vp_merchant = 1, vp_plan_id = 0, vp_amount = 5, vp_frequency = 3600, vp_trial_period = 7200,
      vp_max_pulls = 12, vp_status = PlanActive, vp_credential_mint = 8, vp_billing_mint = 3,
      vp_bump = 255, vp_version = 1, vp_reserved = replicate 32 0\<rparr>"

definition sample_legacy_plan :: vela_plan_v1 where
  "sample_legacy_plan =
     \<lparr>vpl_merchant = 1, vpl_plan_id = 0, vpl_amount = 5, vpl_frequency = 3600,
      vpl_trial_period = 7200, vpl_max_pulls = 12, vpl_status = PlanActive,
      vpl_credential_mint = 8, vpl_bump = 255\<rparr>"

definition sample_merchant :: merchant_state where
  "sample_merchant = (new_merchant_state 1 255 0)\<lparr>ms_credential_mint := 8\<rparr>"

lemma sample_plan_addresses [simp]:
  "sample_address (plan_seed # r) = 28676" "sample_address (merchant_seed # r) = 27912"
  "sample_address (credential_seed # r) = 25354"
  by (simp_all add: sample_address_def plan_seed_def merchant_seed_def credential_seed_def bytes_def)

definition plan_store_with :: "u8 list \<Rightarrow> store" where
  "plan_store_with bs =
     sample_store
       ((28676, owned_by program_id (sample_disc KVelaPlan @ bs)) #
        (27912, owned_by program_id (sample_disc KMerchantState @ enc_merchant_state sample_merchant)) #
        sample_config_accounts)"

lemma plan_store_with_plan [simp]:
  "plan_store_with bs 28676 = owned_by program_id (sample_disc KVelaPlan @ bs)"
  by (simp add: plan_store_with_def sample_store_def)

lemma sample_plan_valid: "storable_plan sample_plan" "flat_terms_ok sample_plan"
  by (simp_all add: storable_plan_def sample_plan_def valid_vela_plan_def CURRENT_ACCOUNT_VERSION_def
      flat_terms_ok_def MIN_FREQUENCY_SECONDS_def)

lemma sample_plan_loads:
  "load_plan_account (creating_env now sg) (plan_store_with (enc_vela_plan sample_plan)) 28676 =
     Inr (FlatPlan sample_plan)"
  using sample_plan_valid(1) vela_plan_codec.try_deserialize_enc [of sample_plan "creating_env now sg" KVelaPlan "[]"]
  by (simp add: load_plan_flat flat_plan_at_def plan_address_def storable_plan_def)

theorem flat_expiry_leaves_room_for_every_pull_witness:
  "sval (i64_of 7300) + int 11 * uint (3600 :: u64) < sval (i64_of 50500)"
proof -
  have e: "i64_checked_add (i64_of 100) (I64 50400) = Some (i64_of 50500)"
    "i64_checked_add (i64_of 100) (I64 7200) = Some (i64_of 7300)"
    by (simp_all add: i64_checked_add_def in_i64_def)
  have d: "lp_expiry (FlatPlan sample_plan) (i64_of 100) = Inr (i64_of 50500)"
    "lp_initial_next_payment_due (FlatPlan sample_plan) (i64_of 100) = Inr (i64_of 7300)"
    by (simp_all add: sample_plan_def compute_flat_expiry_def add_delay_def checked_mul_def checked_add_def
        i64_try_from_u64_def e)
  have n: "i64_of 50500 \<noteq> i64_of 0" by (simp add: i64_of_def)
  show ?thesis
    using flat_expiry_leaves_room_for_every_pull [OF _ d n, of 11] by (simp add: sample_plan_def)
qed

theorem migration_keeps_every_term_witness:
  "\<exists>s'. migrate_plan (sample_env (i64_of 0) [7])
      \<lparr>pl_merchant = 7, pl_plan = 28676, pl_system_program = system_program_id\<rparr>
      (plan_store_with (enc_vela_plan_v1 sample_legacy_plan)) = Inr s' \<and>
    (\<exists>l. load_plan_account (sample_env (i64_of 0) [7]) s' 28676 = Inr l \<and> lp_mandate_amount l = 5 \<and>
       \<not> lp_is_legacy l)"
proof -
  let ?E = "sample_env (i64_of 0) [7]"
  let ?s = "plan_store_with (enc_vela_plan_v1 sample_legacy_plan)"
  let ?c = "\<lparr>pl_merchant = 7, pl_plan = 28676, pl_system_program = system_program_id\<rparr>"
  have len: "length (enc_vela_plan_v1 sample_legacy_plan) = 106"
    by (rule vela_plan_v1_codec.length_enc) (simp add: valid_vela_plan_v1_def)
  have dec: "dec_vela_plan_v1 (enc_vela_plan_v1 sample_legacy_plan) = Some (sample_legacy_plan, [])"
    by (rule vela_plan_v1_codec.dec_enc_all) (simp add: valid_vela_plan_v1_def)
  have "try_deserialize ?E KVelaPlan dec_vela_plan (sample_disc KVelaPlan @ enc_vela_plan_v1 sample_legacy_plan) = None"
    by (auto simp: try_deserialize_def dec_vela_plan_def enc_vela_plan_v1_def bind_eq_Some_conv dec_word_def)
  then have load: "load_plan_account ?E ?s 28676 = Inr (LegacyFlatPlan sample_legacy_plan)"
    using dec by (simp add: load_plan_account_def try_current_flat_def Let_def plan_address_def
        sample_legacy_plan_def)
  have w: "length (enc_vela_plan (flat_from_legacy sample_legacy_plan)) = 171"
    by (rule vela_plan_codec.length_enc) (simp add: valid_vela_plan_def flat_from_legacy_def)
  obtain s' where m: "migrate_plan ?E ?c ?s = Inr s'"
    by (simp add: migrate_plan_def plan_constraints_def is_signer_def load realloc_plan_account_def
        len vela_plan_size_def write_plan_def write_account_Inr resize_data_def w
        ex_result [symmetric] del: ex_result)
  from migration_keeps_every_term [OF m sample_env_keeps sample_distinct_discriminators(1)] load m
  show ?thesis by (auto simp: plan_terms_def sample_legacy_plan_def)
qed

text \<open>The store before the plan exists: the merchant has a credential and no plan yet.\<close>

definition plan_free_store :: store where
  "plan_free_store =
     sample_store
       ((27912, owned_by program_id (sample_disc KMerchantState @ enc_merchant_state sample_merchant)) #
        sample_config_accounts)"

definition sample_create_plan :: create_plan_accounts where
  "sample_create_plan =
     \<lparr>cp_merchant = 1, cp_merchant_state = 27912, cp_plan = 28676, cp_credential_mint = 25354,
      cp_billing_mint = 3, cp_token_config = 29708, cp_system_program = system_program_id,
      cp_token_2022_program = 22\<rparr>"

lemma sample_create_plan_fields [simp]:
  "cp_merchant sample_create_plan = 1" "cp_merchant_state sample_create_plan = 27912"
  "cp_plan sample_create_plan = 28676" "cp_credential_mint sample_create_plan = 25354"
  "cp_billing_mint sample_create_plan = 3" "cp_token_config sample_create_plan = 29708"
  "cp_system_program sample_create_plan = system_program_id" "cp_token_2022_program sample_create_plan = 22"
  by (simp_all add: sample_create_plan_def)

lemma plan_free_store_simps [simp]:
  "plan_free_store 27912 =
     owned_by program_id (sample_disc KMerchantState @ enc_merchant_state sample_merchant)"
  "plan_free_store 29708 = owned_by program_id (sample_disc KTokenConfig @ enc_token_config sample_token_config)"
  "plan_free_store 3 = owned_by 22 []"
  "plan_free_store 28676 = \<lparr>acc_owner = 0, acc_lamports = 0, acc_data = []\<rparr>"
  by (simp_all add: plan_free_store_def sample_store_def sample_config_accounts_def)

lemma sample_merchant_valid: "valid_merchant_state sample_merchant"
  by (simp add: valid_merchant_state_def sample_merchant_def new_merchant_state_def ACCOUNT_RESERVED_BYTES_def)

lemma length_sample_merchant: "length (enc_merchant_state sample_merchant) = 146"
  by (rule merchant_state_codec.length_enc [OF sample_merchant_valid])

lemma sample_merchant_loads:
  "acc_owner (s 27912) = program_id \<Longrightarrow>
   acc_data (s 27912) = sample_disc KMerchantState @ enc_merchant_state sample_merchant \<Longrightarrow>
   load_merchant_state (creating_env now sg) s 27912 1 = Inr (CurrentMerchantState sample_merchant)"
  using merchant_state_codec.try_deserialize_enc [OF sample_merchant_valid, of "creating_env now sg" KMerchantState "[]"]
  by (simp add: load_merchant_state_def validate_merchant_state_address_def Let_def)

lemma sample_merchant_kept:
  "sample_merchant\<lparr>ms_merchant := 1, ms_bump := 255, ms_version := CURRENT_ACCOUNT_VERSION,
     ms_reserved := replicate (ACCOUNT_RESERVED_BYTES - 8) 0\<rparr> = sample_merchant"
  by (simp add: sample_merchant_def new_merchant_state_def)

lemma sample_ensure_merchant:
  "ensure_merchant_state (creating_env now sg) 1 27912 1 255 plan_free_store = Inr (sample_merchant, plan_free_store)"
proof -
  have d: "\<not> data_is_empty (plan_free_store 27912)"
    by (simp add: data_is_empty_def sample_disc_nonempty)
  have m: "ms_merchant sample_merchant = 1" by (simp add: sample_merchant_def new_merchant_state_def)
  have r: "resize_merchant_state_account (creating_env now sg) 1 27912 plan_free_store = Inr plan_free_store"
    by (simp add: resize_merchant_state_account_def resize_account_def merchant_state_size_def
        length_sample_merchant ACCOUNT_RESERVED_BYTES_def)
  have w: "write_merchant_state (creating_env now sg) 27912 sample_merchant plan_free_store = Inr plan_free_store"
    by (simp add: write_merchant_state_def anchor_exit_Inr set_data_def owned_by_def fun_upd_idem)
  have l: "load_merchant_state (creating_env now sg) plan_free_store 27912 1 = Inr (CurrentMerchantState sample_merchant)"
    by (rule sample_merchant_loads) simp_all
  show ?thesis
    by (simp add: ensure_merchant_state_def validate_merchant_state_address_def d l r m
        sample_merchant_kept Let_def w data_is_empty_def sample_disc_nonempty)
qed

lemma sample_create_plan_returns:
  "\<exists>s'. create_plan (creating_env (i64_of 0) [1]) sample_create_plan 5 3600 7200 12 plan_free_store = Inr s'"
proof -
  let ?E = "creating_env (i64_of 0) [1]"
  have im: "interface_mint ?E plan_free_store 3 = Inr \<lparr>mint_decimals = 6, mint_supply = 0\<rparr>"
    by (simp add: interface_mint_def is_token_program_def)
  have tc: "anchor_account ?E KTokenConfig dec_token_config plan_free_store 29708 = Inr sample_token_config"
    using token_config_codec.try_deserialize_enc [of sample_token_config ?E KTokenConfig "[]"] sample_config_valid(3)
    by (simp add: anchor_account_Inr)
  have tk: "tk_enabled sample_token_config" "tk_billing_rail sample_token_config = TransferHook"
    "tk_mint sample_token_config = 3"
    by (simp_all add: sample_token_config_def new_token_config_def)
  have c: "require_all (create_plan_constraints ?E sample_create_plan sample_token_config) = Inr ()"
    by (simp add: create_plan_constraints_def is_signer_def)
  have v: "validate_flat_plan_terms 5 3600 12 = Inr ()"
    by (simp add: validate_flat_plan_terms_Inr MIN_FREQUENCY_SECONDS_def)
  have count: "ms_plan_count sample_merchant = 0" "ms_credential_mint sample_merchant = 8"
    by (simp_all add: sample_merchant_def new_merchant_state_def)
  have "load_merchant_state ?E plan_free_store 27912 1 = Inr (CurrentMerchantState sample_merchant)"
    by (rule sample_merchant_loads) simp_all
  then have cred: "merchant_credential ?E sample_create_plan sample_merchant plan_free_store = Inr 8"
    by (simp add: sample_disc_nonempty merchant_credential_def resolve_merchant_credential_mint_def data_is_empty_def count Let_def)
  have len: "length (enc_vela_plan (sample_plan\<lparr>vp_credential_mint := 8\<rparr>)) = 171"
    by (rule vela_plan_codec.length_enc) (simp add: sample_plan_def valid_vela_plan_def)
  have one: "checked_add (0 :: u64) 1 = Some 1" by (simp add: checked_add_def)
  have merl: "length (enc_merchant_state (sample_merchant\<lparr>ms_plan_count := 1\<rparr>)) = 146"
    by (rule merchant_state_codec.length_enc) (use sample_merchant_valid in \<open>simp add: valid_merchant_state_def\<close>)
  show ?thesis
    using len merl length_sample_merchant
    by (simp add: create_plan_def im tc c v sample_ensure_merchant billing_token_checks_def tk count cred Let_def
        data_is_empty_def sample_invoke_def system_program_id_def write_plan_def write_merchant_state_def
        anchor_exit_def write_account_def write_data_def vela_plan_size_def one sample_plan_def CURRENT_ACCOUNT_VERSION_def)
qed

theorem create_plan_stores_its_terms_witness:
  "\<exists>s' p. create_plan (creating_env (i64_of 0) [1]) sample_create_plan 5 3600 7200 12 plan_free_store = Inr s' \<and>
     load_plan_account (creating_env (i64_of 0) [1]) s' 28676 = Inr (FlatPlan p) \<and> vp_amount p = 5"
proof -
  obtain s' where s': "create_plan (creating_env (i64_of 0) [1]) sample_create_plan 5 3600 7200 12 plan_free_store = Inr s'"
    using sample_create_plan_returns by blast
  from create_plan_stores_its_terms [OF s' creating_env_runtime] s' show ?thesis
    unfolding sample_create_plan_fields by blast
qed

definition sample_plan_accounts :: "pubkey \<Rightarrow> plan_accounts" where
  "sample_plan_accounts signer =
     \<lparr>pl_merchant = signer, pl_plan = 28676, pl_system_program = system_program_id\<rparr>"

lemma creating_plan_runtime:
  "plan_runtime (creating_env (i64_of 0) sg) (creating_env now sg', c)"
  by (simp add: plan_runtime_def same_program_def creating_env_def sample_env_def del: creating_env_simps)
     (use creating_env_runtime sample_distinct_discriminators in \<open>auto simp: creating_env_def sample_env_def\<close>)

theorem plan_handlers_keep_flat_terms_witness:
  "\<exists>q. load_plan_account (creating_env (i64_of 0) [])
      (run do_plan_call [(creating_env (i64_of 9) [1], CallUpdatePlan (sample_plan_accounts 1) (Some 9) None None None),
          (creating_env (i64_of 10) [7], CallMigratePlan (sample_plan_accounts 7))]
        (plan_store_with (enc_vela_plan sample_plan))) 28676 = Inr (FlatPlan q) \<and> flat_terms_ok q \<and>
    same_plan sample_plan q"
  by (rule plan_handlers_keep_flat_terms [OF _ sample_plan_loads sample_plan_valid(2)])
     (simp add: creating_plan_runtime)

theorem only_its_merchant_changes_a_flat_plan_witness:
  "load_plan_account (creating_env (i64_of 0) [])
      (run do_plan_call [(creating_env (i64_of 9) [7], CallUpdatePlan (sample_plan_accounts 7) (Some 9) None None None),
          (creating_env (i64_of 10) [7], CallMigratePlan (sample_plan_accounts 7))]
        (plan_store_with (enc_vela_plan sample_plan))) 28676 = Inr (FlatPlan sample_plan)"
  by (rule only_its_merchant_changes_a_flat_plan [OF _ sample_plan_loads])
     (simp_all add: creating_plan_runtime is_signer_def sample_plan_def)

end
