(* ===== verification/Usage_Pricing.thy ===== *)
theory Usage_Pricing
  imports Plan_Terms
begin

text \<open>
  The encrypted computations (\<open>encrypted-ixs/src/lib.rs\<close>) as functions of the decrypted
  inputs: the validation of a pull, the packed billing record, and the price of metered usage
  for one tier and for up to five. Arithmetic on \<open>u64\<close> wraps in the model; the theorems show
  that within the bounds a plan must satisfy it never does. The section after the circuits
  has the choice between them and their arguments
  (\<open>instructions/billing/request_usage_computation.rs\<close>).
\<close>

section \<open>The circuits\<close>

record mandate_validation_input =
  mv_mandate_amount :: u64
  mv_plan_amount :: u64
  mv_subscriber_balance :: u64
  mv_current_timestamp :: i64
  mv_next_payment_due :: i64
  mv_expiry :: i64
  mv_pulls_executed :: u64
  mv_max_pulls :: u64

definition validate_mandate :: "mandate_validation_input \<Rightarrow> bool" where
  "validate_mandate v =
     (let amount_valid = (mv_mandate_amount v = mv_plan_amount v);
          balance_sufficient = (mv_plan_amount v \<le> mv_subscriber_balance v);
          timing_valid = (mv_next_payment_due v \<le> mv_current_timestamp v);
          not_expired = (if mv_expiry v = i64_of 0 then True else mv_current_timestamp v < mv_expiry v);
          pulls_remaining = (mv_pulls_executed v < mv_max_pulls v)
      in amount_valid \<and> balance_sufficient \<and> timing_valid \<and> not_expired \<and> pulls_remaining)"

definition record_billing_event :: "u64 \<Rightarrow> i64 \<Rightarrow> u64 \<Rightarrow> i64 \<Rightarrow> i64 \<Rightarrow> u64 \<Rightarrow> u64 list" where
  "record_billing_event amount_charged timestamp pulls_executed billing_period_start
       billing_period_end payment_method =
     [amount_charged, i64_bits timestamp, pulls_executed, i64_bits billing_period_start,
      i64_bits billing_period_end, payment_method, 0, 0]"

definition usage_charge :: "u64 \<Rightarrow> u64 \<Rightarrow> u64 \<Rightarrow> u64" where
  "usage_charge units rate_per_unit max_charge =
     (let charge = units * rate_per_unit in if max_charge < charge then max_charge else charge)"

text \<open>
  The unrolled loop of \<open>tiered_pricing\<close>. Every tier computes the upper end of its units and
  its charge in the same way; tier 0 has no tier before it, so its units are the upper end.
\<close>

definition circuit_tier_upper :: "bool \<Rightarrow> u64 \<Rightarrow> u64 \<Rightarrow> u64" where
  "circuit_tier_upper active boundary units =
     (let unlimited = (active \<and> boundary = 0) in
      if unlimited then units else if boundary < units then boundary else units)"

definition circuit_tier_charge :: "bool \<Rightarrow> u64 \<Rightarrow> u64 \<Rightarrow> u64" where
  "circuit_tier_charge active units_in_tier rate = (if active then units_in_tier * rate else 0)"

definition circuit_units_above :: "u64 \<Rightarrow> u64 \<Rightarrow> u64" where
  "circuit_units_above upper previous = (if previous < upper then upper - previous else 0)"

definition tiered_pricing ::
  "u64 \<Rightarrow> u64 \<Rightarrow> u64 \<Rightarrow> u64 \<Rightarrow> u64 \<Rightarrow> u64 \<Rightarrow> u64 \<Rightarrow> u64 \<Rightarrow> u64 \<Rightarrow> u64 \<Rightarrow> u64 \<Rightarrow> u8 \<Rightarrow> u64 \<Rightarrow> u64" where
  "tiered_pricing units b0 b1 b2 b3 b4 r0 r1 r2 r3 r4 tier_count max_charge =
     (let a0 = 0 < tier_count; a1 = 1 < tier_count; a2 = 2 < tier_count; a3 = 3 < tier_count;
          a4 = 4 < tier_count;
          total_charge = 0 + circuit_tier_charge a0 (circuit_tier_upper a0 b0 units) r0;
          total_charge = total_charge + circuit_tier_charge a1 (circuit_units_above (circuit_tier_upper a1 b1 units) b0) r1;
          total_charge = total_charge + circuit_tier_charge a2 (circuit_units_above (circuit_tier_upper a2 b2 units) b1) r2;
          total_charge = total_charge + circuit_tier_charge a3 (circuit_units_above (circuit_tier_upper a3 b3 units) b2) r3;
          total_charge = total_charge + circuit_tier_charge a4 (circuit_units_above (circuit_tier_upper a4 b4 units) b3) r4
      in if max_charge < total_charge then max_charge else total_charge)"

text \<open>The plaintext model beside the circuits, which saturates; a loop over the active tiers.\<close>

fun plaintext_tiers :: "u64 \<Rightarrow> (u64 \<times> u64) list \<Rightarrow> u64 \<Rightarrow> u64 \<Rightarrow> u64" where
  "plaintext_tiers usage_units [] total_charge previous = total_charge"
| "plaintext_tiers usage_units ((boundary, rate) # ts) total_charge previous =
     (let upper = (if boundary = 0 then usage_units else min usage_units boundary);
          units_in_tier = saturating_sub upper previous
      in plaintext_tiers usage_units ts
           (saturating_add total_charge (saturating_mul units_in_tier rate))
           (if boundary \<noteq> 0 then boundary else previous))"

definition tiered_pricing_plaintext_model :: "u64 \<Rightarrow> u64 list \<Rightarrow> u64 list \<Rightarrow> u8 \<Rightarrow> u64 \<Rightarrow> u64" where
  "tiered_pricing_plaintext_model usage_units tier_boundaries tier_rates tier_count max_charge =
     min (plaintext_tiers usage_units
            (take (min (unat tier_count) 5) (zip tier_boundaries tier_rates)) 0 0)
       max_charge"

section \<open>The price of a plan\<close>

text \<open>
  What a usage request computes for a plan: the circuit is chosen by the number of tiers, and
  gets the plan's values. The single-tier circuit is not given the tier's boundary.
\<close>

definition usage_computation_output :: "usage_plan \<Rightarrow> u64 \<Rightarrow> u64" where
  "usage_computation_output p units =
     (let t = (\<lambda>i. up_tiers p ! i) in
      if up_tier_count p = 1
      then usage_charge units (pt_rate_per_unit (t 0)) (up_max_charge_per_period p)
      else tiered_pricing units (pt_up_to (t 0)) (pt_up_to (t 1)) (pt_up_to (t 2)) (pt_up_to (t 3))
             (pt_up_to (t 4)) (pt_rate_per_unit (t 0)) (pt_rate_per_unit (t 1)) (pt_rate_per_unit (t 2))
             (pt_rate_per_unit (t 3)) (pt_rate_per_unit (t 4)) (up_tier_count p)
             (up_max_charge_per_period p))"

text \<open>
  The meaning of a schedule of tiers, unit by unit: unit number \<open>j\<close> costs the rate of the
  first tier that reaches beyond \<open>j\<close>, and nothing beyond the last tier.
\<close>

definition unit_price :: "pricing_tier list \<Rightarrow> nat \<Rightarrow> nat" where
  "unit_price tiers j =
     (case filter (\<lambda>t. enat j < tier_end t) tiers of [] \<Rightarrow> 0 | t # _ \<Rightarrow> unat (pt_rate_per_unit t))"

definition metered_price :: "pricing_tier list \<Rightarrow> nat \<Rightarrow> nat" where
  "metered_price tiers units = (\<Sum>j < units. unit_price tiers j)"

text \<open>The charge of the tiers from \<open>previous\<close> on, exact and over the natural numbers.\<close>

fun tier_costs :: "nat \<Rightarrow> nat \<Rightarrow> pricing_tier list \<Rightarrow> nat" where
  "tier_costs units previous [] = 0"
| "tier_costs units previous (t # ts) =
     (let upper = (if pt_up_to t = 0 then units else min units (unat (pt_up_to t)))
      in (upper - previous) * unat (pt_rate_per_unit t) + tier_costs units (unat (pt_up_to t)) ts)"

lemma unit_price_simps:
  "unit_price [] j = 0"
  "unit_price (t # ts) j = (if enat j < tier_end t then unat (pt_rate_per_unit t) else unit_price ts j)"
  by (simp_all add: unit_price_def)

lemma sum_atLeastLessThan_split:
  "(\<Sum>j = p..<u. f j) = (\<Sum>j = p..<min u e. f j) + (\<Sum>j = e..<u. f j)" if "p \<le> e"
  for f :: "nat \<Rightarrow> nat"
proof (cases "e \<le> u")
  case True
  then show ?thesis using sum.atLeastLessThan_concat [OF that True, of f] by (simp add: min_absorb2)
next
  case False
  then show ?thesis by simp
qed

lemma tier_costs_price:
  "sorted_wrt (<) (enat p # map tier_end ts) \<Longrightarrow> tier_costs u p ts = (\<Sum>j = p..<u. unit_price ts j)"
proof (induction ts arbitrary: p)
  case Nil
  then show ?case by (simp add: unit_price_simps)
next
  case (Cons t ts)
  show ?case
  proof (cases "pt_up_to t = 0")
    case True
    then have "ts = []" using Cons.prems by (cases ts) (auto simp: tier_end_def)
    then show ?thesis using True by (simp add: unit_price_simps tier_end_def)
  next
    case False
    define e where "e = unat (pt_up_to t)"
    have te: "tier_end t = enat e" using False by (simp add: tier_end_def e_def)
    have prem: "p < e" "sorted_wrt (<) (enat e # map tier_end ts)"
      using Cons.prems unfolding list.map(2) te sorted_enat_chain by simp_all
    have low: "(\<Sum>j = p..<min u e. unit_price (t # ts) j) = (min u e - p) * unat (pt_rate_per_unit t)"
      by (simp add: unit_price_simps te)
    have high: "(\<Sum>j = e..<u. unit_price (t # ts) j) = tier_costs u e ts"
      unfolding Cons.IH [OF prem(2)] by (rule sum.cong) (auto simp: unit_price_simps te)
    show ?thesis
      using sum_atLeastLessThan_split [of p e "unit_price (t # ts)" u] prem(1) False
      by (simp only: low high tier_costs.simps Let_def if_False e_def [symmetric])
  qed
qed

lemma sorted_from_zero:
  assumes "sorted_wrt (<) (map tier_end ts)"
  shows "sorted_wrt (<) (enat 0 # map tier_end ts)"
proof -
  have "enat 0 < tier_end t" for t using unat_gt_0 [of "pt_up_to t"] by (simp add: tier_end_def del: unat_gt_0)
  with assms show ?thesis by auto
qed

lemma metered_price_costs:
  "sorted_wrt (<) (map tier_end ts) \<Longrightarrow> metered_price ts u = tier_costs u 0 ts"
  using tier_costs_price [OF sorted_from_zero] by (simp add: metered_price_def atLeast0LessThan)

section \<open>The circuits compute the price\<close>

fun circuit_sum :: "u64 \<Rightarrow> u64 \<Rightarrow> pricing_tier list \<Rightarrow> u64" where
  "circuit_sum units previous [] = 0"
| "circuit_sum units previous (t # ts) =
     circuit_units_above (circuit_tier_upper True (pt_up_to t) units) previous * pt_rate_per_unit t +
     circuit_sum units (pt_up_to t) ts"

lemma up_to_five:
  assumes "ts \<noteq> []" "length ts \<le> 5"
  obtains a where "ts = [a]" | a b where "ts = [a, b]" | a b c where "ts = [a, b, c]"
    | a b c d where "ts = [a, b, c, d]" | a b c d e where "ts = [a, b, c, d, e]"
  using assms by (auto simp: numeral_eq_Suc le_Suc_eq length_Suc_conv)

lemma circuit_units_above_0 [simp]: "circuit_units_above upper 0 = upper"
  by (simp add: circuit_units_above_def word_gt_0)

lemma clamp_min: "(if m < w then m else w) = min w m" for m w :: "'a::linorder"
  by (cases "m < w") (auto simp: min_def)

lemma tiered_pricing_sum:
  assumes "ts \<noteq> []" "length ts \<le> 5"
  shows "tiered_pricing units (pt_up_to (tiers_array ts ! 0)) (pt_up_to (tiers_array ts ! 1))
      (pt_up_to (tiers_array ts ! 2)) (pt_up_to (tiers_array ts ! 3)) (pt_up_to (tiers_array ts ! 4))
      (pt_rate_per_unit (tiers_array ts ! 0)) (pt_rate_per_unit (tiers_array ts ! 1))
      (pt_rate_per_unit (tiers_array ts ! 2)) (pt_rate_per_unit (tiers_array ts ! 3))
      (pt_rate_per_unit (tiers_array ts ! 4)) (of_nat (length ts)) max_charge =
    min (circuit_sum units 0 ts) max_charge"
  using assms
  by (cases rule: up_to_five)
     (simp_all add: tiered_pricing_def tiers_array_def circuit_tier_charge_def Let_def clamp_min add.assoc)

lemma unat_tier_units:
  "unat (circuit_units_above (circuit_tier_upper True b units) previous) =
     (if b = 0 then unat units else min (unat units) (unat b)) - unat previous"
  by (auto simp: circuit_units_above_def circuit_tier_upper_def Let_def unat_sub word_le_nat_alt
      word_less_nat_alt min_def not_less)

lemma unat_circuit_sum:
  "tier_costs (unat units) (unat previous) ts < 2 ^ 64 \<Longrightarrow>
     unat (circuit_sum units previous ts) = tier_costs (unat units) (unat previous) ts"
proof (induction ts arbitrary: previous)
  case Nil
  then show ?case by simp
next
  case (Cons t ts)
  let ?x = "circuit_units_above (circuit_tier_upper True (pt_up_to t) units) previous"
  let ?m = "unat ?x * unat (pt_rate_per_unit t)"
  have split: "tier_costs (unat units) (unat previous) (t # ts) =
      ?m + tier_costs (unat units) (unat (pt_up_to t)) ts"
    unfolding unat_tier_units by (simp add: Let_def)
  have ih: "unat (circuit_sum units (pt_up_to t) ts) = tier_costs (unat units) (unat (pt_up_to t)) ts"
    using Cons.IH Cons.prems unfolding split by simp
  have m: "unat (?x * pt_rate_per_unit t) = ?m"
    using Cons.prems unfolding split by (subst unat_mult_lem [THEN iffD1]) simp_all
  show ?case
    using Cons.prems unfolding split circuit_sum.simps
    by (subst unat_add_lem [THEN iffD1]) (simp_all add: m ih)
qed

text \<open>Within the accepted bounds the exact price stays far below the width of \<open>u64\<close>.\<close>

lemma safe_bounds:
  "unat MAX_SAFE_USAGE_UNITS = 1000000000000" "unat MAX_SAFE_USAGE_RATE_PER_UNIT = 3689348"
  "unat MAX_SAFE_USAGE_CHARGE = 3689348000000000000"
proof -
  show u: "unat MAX_SAFE_USAGE_UNITS = 1000000000000" by (simp add: MAX_SAFE_USAGE_UNITS_def)
  show r: "unat MAX_SAFE_USAGE_RATE_PER_UNIT = 3689348"
    by (simp add: MAX_SAFE_USAGE_RATE_PER_UNIT_def unat_div u unat_max_word)
  show "unat MAX_SAFE_USAGE_CHARGE = 3689348000000000000"
    unfolding MAX_SAFE_USAGE_CHARGE_def
    by (subst unat_mult_lem [THEN iffD1]) (simp_all add: u r)
qed

lemma unit_price_le:
  assumes "\<forall>t \<in> set ts. unat (pt_rate_per_unit t) \<le> r"
  shows "unit_price ts j \<le> r"
  using assms by (induction ts) (auto simp: unit_price_simps)

lemma metered_price_bound:
  assumes "validate_usage_pricing_bounds ts m = Inr ()" "units \<le> MAX_SAFE_USAGE_UNITS"
  shows "metered_price ts (unat units) \<le> unat MAX_SAFE_USAGE_CHARGE"
proof -
  have "\<forall>t \<in> set ts. unat (pt_rate_per_unit t) \<le> 3689348"
    using assms(1) safe_bounds(2) by (simp add: validate_usage_pricing_bounds_Inr word_le_nat_alt)
  then have "metered_price ts (unat units) \<le> (\<Sum>j < unat units. 3689348)"
    unfolding metered_price_def by (intro sum_mono unit_price_le)
  moreover have "unat units \<le> 1000000000000"
    using assms(2) safe_bounds(1) by (simp add: word_le_nat_alt)
  ultimately show ?thesis using safe_bounds(3) by simp
qed

lemma accepted_sorted:
  assumes "validate_usage_tier_boundaries ts = Inr ()"
  shows "ts \<noteq> []" "length ts \<le> 5" "sorted_wrt (<) (map tier_end ts)"
  using assms by (auto simp: validate_usage_tier_boundaries_def tier_boundaries_from_None split: if_splits)

text \<open>A usage plan as the handlers store it: the accepted tiers in the array, and their number.\<close>

definition prices :: "usage_plan \<Rightarrow> pricing_tier list \<Rightarrow> bool" where
  "prices p tiers \<longleftrightarrow>
     up_tiers p = tiers_array tiers \<and> up_tier_count p = of_nat (length tiers) \<and>
     validate_usage_tier_boundaries tiers = Inr () \<and>
     validate_usage_pricing_bounds tiers (up_max_charge_per_period p) = Inr ()"

lemma prices_circuit:
  assumes "prices p tiers" "units \<le> MAX_SAFE_USAGE_UNITS"
  shows "unat (circuit_sum units 0 tiers) = metered_price tiers (unat units)"
proof -
  have s: "sorted_wrt (<) (map tier_end tiers)" and b: "validate_usage_pricing_bounds tiers (up_max_charge_per_period p) = Inr ()"
    using assms(1) accepted_sorted(3) by (simp_all add: prices_def)
  have "tier_costs (unat units) (unat (0 :: u64)) tiers < 2 ^ 64"
    using metered_price_bound [OF b assms(2)] safe_bounds(3) by (simp add: metered_price_costs [OF s])
  from unat_circuit_sum [OF this] show ?thesis by (simp add: metered_price_costs [OF s])
qed

lemma tier_count_one: "length tiers \<le> 5 \<Longrightarrow> (of_nat (length tiers) :: u8) = 1 \<longleftrightarrow> length tiers = 1"
  by (auto simp: word_unat_eq_iff unat_of_nat)

lemma usage_output_tiered:
  assumes "prices p tiers" "length tiers \<noteq> 1"
  shows "usage_computation_output p units = min (circuit_sum units 0 tiers) (up_max_charge_per_period p)"
proof -
  have t: "validate_usage_tier_boundaries tiers = Inr ()" using assms(1) by (simp add: prices_def)
  note a = accepted_sorted [OF t]
  have "up_tier_count p \<noteq> 1" using assms tier_count_one [OF a(2)] by (simp add: prices_def)
  then show ?thesis
    using tiered_pricing_sum [OF a(1,2)] assms(1) by (simp add: usage_computation_output_def prices_def Let_def)
qed

lemma usage_output_single:
  assumes "prices p [t]" "units \<le> MAX_SAFE_USAGE_UNITS"
  shows "unat (usage_computation_output p units) =
    min (unat units * unat (pt_rate_per_unit t)) (unat (up_max_charge_per_period p))"
proof -
  have "unat (pt_rate_per_unit t) \<le> 3689348" "unat units \<le> 1000000000000"
    using assms safe_bounds by (simp_all add: prices_def validate_usage_pricing_bounds_Inr word_le_nat_alt)
  then have "unat units * unat (pt_rate_per_unit t) \<le> 1000000000000 * 3689348" by (intro mult_le_mono)
  then have "unat (units * pt_rate_per_unit t) = unat units * unat (pt_rate_per_unit t)"
    by (subst unat_mult_lem [THEN iffD1]) simp_all
  moreover have "up_tier_count p = 1" "up_tiers p ! 0 = t" using assms(1) by (simp_all add: prices_def tiers_array_def)
  ultimately show ?thesis
    by (auto simp: usage_computation_output_def usage_charge_def Let_def word_less_nat_alt min_def)
qed

text \<open>
  C13: within the envelope of units the protocol supports, the computation a usage request
  queues charges exactly the price of the schedule, unit by unit, cut at the cap the
  subscriber approved; no sum or product on the way wraps. A plan of a single tier must be
  unbounded for this.
\<close>

theorem usage_request_charges_the_schedule:
  assumes "prices p tiers" "units \<le> MAX_SAFE_USAGE_UNITS"
    "length tiers = 1 \<longrightarrow> pt_up_to (hd tiers) = 0"
  shows "unat (usage_computation_output p units) =
    min (metered_price tiers (unat units)) (unat (up_max_charge_per_period p))"
proof (cases "length tiers = 1")
  case True
  then obtain t where t: "tiers = [t]" by (auto simp: length_Suc_conv)
  have "metered_price [t] (unat units) = unat units * unat (pt_rate_per_unit t)"
    using assms(3) by (simp add: t metered_price_def unit_price_simps tier_end_def)
  then show ?thesis using usage_output_single [of p t units] assms(1,2) by (simp add: t)
next
  case False
  then show ?thesis
    using usage_output_tiered [OF assms(1) False] prices_circuit [OF assms(1,2)] by (simp add: unat_min_word)
qed

text \<open>
  C38: a plan of one bounded tier, which creation accepts, is charged for every unit, also
  those beyond the boundary, where the schedule (and the plaintext model beside the
  circuits) has no price for them.
\<close>

theorem single_bounded_tier_is_charged_beyond_its_end:
  assumes "prices p [t]" "pt_up_to t \<noteq> 0" "pt_up_to t < units" "units \<le> MAX_SAFE_USAGE_UNITS"
  shows "unat (usage_computation_output p units) =
      min (unat units * unat (pt_rate_per_unit t)) (unat (up_max_charge_per_period p)) \<and>
    unat (tiered_pricing_plaintext_model units (map pt_up_to (up_tiers p)) (map pt_rate_per_unit (up_tiers p))
        (up_tier_count p) (up_max_charge_per_period p)) =
      min (unat (pt_up_to t) * unat (pt_rate_per_unit t)) (unat (up_max_charge_per_period p)) \<and>
    metered_price [t] (unat units) = unat (pt_up_to t) * unat (pt_rate_per_unit t)"
proof -
  have len: "up_tiers p = [t, default_tier, default_tier, default_tier, default_tier]" "up_tier_count p = 1"
    using assms(1) by (simp_all add: prices_def tiers_array_def numeral_eq_Suc)
  have "sorted_wrt (<) (map tier_end [t])" by simp
  from metered_price_costs [OF this, of "unat units"]
  have m: "metered_price [t] (unat units) = unat (pt_up_to t) * unat (pt_rate_per_unit t)"
    using assms(2,3) by (simp add: min_def word_less_nat_alt)
  moreover have "metered_price [t] (unat units) < 2 ^ 64"
    using metered_price_bound [of "[t]" "up_max_charge_per_period p" units] assms(1,4) safe_bounds(3)
    by (simp add: prices_def)
  ultimately have "unat (plaintext_tiers units [(pt_up_to t, pt_rate_per_unit t)] 0 0) =
      unat (pt_up_to t) * unat (pt_rate_per_unit t)"
    using assms(2,3) by (simp add: Let_def arith_simps unat_min_word word_less_nat_alt word_le_nat_alt min_def)
  then show ?thesis
    using usage_output_single [OF assms(1,4)] m
    by (simp add: tiered_pricing_plaintext_model_def len unat_min_word)
qed

lemma unat_saturating_cost:
  "unat a + unat b * unat r < 2 ^ 64 \<Longrightarrow>
     unat (saturating_add a (saturating_mul b r)) = unat a + unat b * unat r" for a b r :: u64
  by (simp add: arith_simps min_def)

lemma plaintext_tiers_costs:
  "sorted_wrt (<) (enat (unat previous) # map tier_end ts) \<Longrightarrow>
   unat charged + tier_costs (unat units) (unat previous) ts < 2 ^ 64 \<Longrightarrow>
     unat (plaintext_tiers units (map (\<lambda>t. (pt_up_to t, pt_rate_per_unit t)) ts) charged previous) =
       unat charged + tier_costs (unat units) (unat previous) ts"
proof (induction ts arbitrary: charged previous)
  case Nil
  then show ?case by simp
next
  case (Cons t ts)
  let ?b = "pt_up_to t"
  let ?n = "(if ?b = 0 then unat units else min (unat units) (unat ?b)) - unat previous"
  let ?c = "saturating_add charged (saturating_mul (saturating_sub (if ?b = 0 then units else min units ?b) previous)
       (pt_rate_per_unit t))"
  have sum: "unat charged + ?n * unat (pt_rate_per_unit t) + tier_costs (unat units) (unat ?b) ts < 2 ^ 64"
    using Cons.prems(2) by (simp add: Let_def add.assoc split: if_splits)
  have n: "unat (saturating_sub (if ?b = 0 then units else min units ?b) previous) = ?n"
    by (simp add: arith_simps unat_min_word)
  have c: "unat ?c = unat charged + ?n * unat (pt_rate_per_unit t)"
    using unat_saturating_cost [of charged "saturating_sub (if ?b = 0 then units else min units ?b) previous"] sum
    by (simp add: n)
  show ?case
  proof (cases "?b = 0")
    case True
    then have "ts = []" using Cons.prems(1) by (cases ts) (auto simp: tier_end_def)
    then show ?thesis using c True by (simp add: Let_def)
  next
    case False
    then have "tier_end t = enat (unat ?b)" by (simp add: tier_end_def)
    then have "sorted_wrt (<) (enat (unat ?b) # map tier_end ts)"
      using Cons.prems(1) by simp
    from Cons.IH [OF this, of ?c] show ?thesis using c sum False by (simp add: Let_def)
  qed
qed

lemma plaintext_model_price:
  assumes "prices p tiers" "units \<le> MAX_SAFE_USAGE_UNITS"
  shows "unat (tiered_pricing_plaintext_model units (map pt_up_to (up_tiers p)) (map pt_rate_per_unit (up_tiers p))
      (up_tier_count p) (up_max_charge_per_period p)) =
    min (metered_price tiers (unat units)) (unat (up_max_charge_per_period p))"
proof -
  have v: "validate_usage_tier_boundaries tiers = Inr ()"
    and b: "validate_usage_pricing_bounds tiers (up_max_charge_per_period p) = Inr ()"
    using assms(1) by (simp_all add: prices_def)
  note a = accepted_sorted [OF v]
  have n: "min (unat (up_tier_count p)) 5 = length tiers"
    using assms(1) a(2) by (simp add: prices_def unat_of_nat)
  have zip: "take (length tiers) (zip (map pt_up_to (up_tiers p)) (map pt_rate_per_unit (up_tiers p))) =
      map (\<lambda>t. (pt_up_to t, pt_rate_per_unit t)) tiers"
    using assms(1) by (simp add: prices_def tiers_array_def zip_map_map take_map zip_same_conv_map comp_def)
  have s: "sorted_wrt (<) (enat (unat (0 :: u64)) # map tier_end tiers)"
    using sorted_from_zero [OF a(3)] by simp
  have "unat (0 :: u64) + tier_costs (unat units) (unat (0 :: u64)) tiers < 2 ^ 64"
    using metered_price_bound [OF b assms(2)] safe_bounds(3) by (simp add: metered_price_costs [OF a(3)])
  from plaintext_tiers_costs [OF s this] show ?thesis
    by (simp add: tiered_pricing_plaintext_model_def n zip unat_min_word metered_price_costs [OF a(3)])
qed

text \<open>
  On the same inputs the queued computation and the plaintext model beside the circuits
  give the same charge, for every accepted plan but those of one bounded tier.
\<close>

theorem circuits_agree_with_plaintext_model:
  assumes "prices p tiers" "units \<le> MAX_SAFE_USAGE_UNITS"
    "length tiers = 1 \<longrightarrow> pt_up_to (hd tiers) = 0"
  shows "usage_computation_output p units =
    tiered_pricing_plaintext_model units (map pt_up_to (up_tiers p)) (map pt_rate_per_unit (up_tiers p))
      (up_tier_count p) (up_max_charge_per_period p)"
  unfolding word_unat_eq_iff plaintext_model_price [OF assms(1,2)]
proof (cases "length tiers = 1")
  case True
  then obtain t where t: "tiers = [t]" by (auto simp: length_Suc_conv)
  then show "unat (usage_computation_output p units) =
      min (metered_price tiers (unat units)) (unat (up_max_charge_per_period p))"
    using usage_output_single [of p t units] assms
    by (simp add: metered_price_def unit_price_simps tier_end_def)
next
  case False
  then show "unat (usage_computation_output p units) =
      min (metered_price tiers (unat units)) (unat (up_max_charge_per_period p))"
    using usage_output_tiered [OF assms(1) False] prices_circuit [OF assms(1,2)] by (simp add: unat_min_word)
qed

lemma circuit_caps:
  "usage_charge units r m \<le> m" "tiered_pricing units b0 b1 b2 b3 b4 r0 r1 r2 r3 r4 n m \<le> m"
proof -
  have clamp: "(if m < w then m else w) \<le> m" for w :: u64 by (simp add: not_less)
  show "usage_charge units r m \<le> m" unfolding usage_charge_def Let_def by (rule clamp)
  show "tiered_pricing units b0 b1 b2 b3 b4 r0 r1 r2 r3 r4 n m \<le> m"
    unfolding tiered_pricing_def Let_def by (rule clamp)
qed

text \<open>
  Whatever the plan holds and however many units are reported, also where the
  arithmetic wraps, the amount never exceeds the cap per period.
\<close>

theorem usage_amount_within_cap:
  "usage_computation_output p units \<le> up_max_charge_per_period p"
  by (simp add: usage_computation_output_def Let_def circuit_caps)

lemma tier_bytes_inject:
  "length ts = length us \<Longrightarrow>
   concat (map (\<lambda>t. u64_le (pt_up_to t) @ u64_le (pt_rate_per_unit t)) ts) =
   concat (map (\<lambda>t. u64_le (pt_up_to t) @ u64_le (pt_rate_per_unit t)) us) \<longleftrightarrow>
     map pt_up_to ts = map pt_up_to us \<and> map pt_rate_per_unit ts = map pt_rate_per_unit us"
  by (induction ts us rule: list_induct2) auto

text \<open>
  The bytes that are hashed into a usage report determine the plan and its terms: two
  plans with five tiers each that give the same bytes have the same address, merchant,
  number, cap, frequency, number of tiers, and the same boundaries and rates.
\<close>

theorem terms_bytes_determine_the_terms:
  assumes "length (up_tiers p) = 5" "length (up_tiers q) = 5"
    "usage_plan_terms_bytes k (up_merchant p) (up_plan_id p) (up_tiers p) (up_tier_count p)
       (up_max_charge_per_period p) (up_settlement_frequency p) =
     usage_plan_terms_bytes l (up_merchant q) (up_plan_id q) (up_tiers q) (up_tier_count q)
       (up_max_charge_per_period q) (up_settlement_frequency q)"
  shows "k = l \<and> up_merchant p = up_merchant q \<and> up_plan_id p = up_plan_id q \<and>
    up_tier_count p = up_tier_count q \<and> up_max_charge_per_period p = up_max_charge_per_period q \<and>
    up_settlement_frequency p = up_settlement_frequency q \<and>
    map pt_up_to (up_tiers p) = map pt_up_to (up_tiers q) \<and>
    map pt_rate_per_unit (up_tiers p) = map pt_rate_per_unit (up_tiers q)"
  using assms tier_bytes_inject [of "up_tiers p" "up_tiers q"] by (simp add: usage_plan_terms_bytes_def)

section \<open>The properties on concrete plans\<close>

definition sample_usage_plan :: "pricing_tier list \<Rightarrow> usage_plan" where
  "sample_usage_plan tiers =
     \<lparr>up_merchant = 1, up_plan_id = 0, up_unit_name = replicate 32 0, up_tiers = tiers_array tiers,
      up_tier_count = of_nat (length tiers), up_max_charge_per_period = 1000000,
      up_settlement_frequency = 3600, up_credential_mint = 8, up_billing_mint = 3,
      up_status = PlanActive, up_bump = 255, up_version = 1, up_reserved = replicate 32 0\<rparr>"

abbreviation sample_tier :: "u64 \<Rightarrow> u64 \<Rightarrow> pricing_tier" where
  "sample_tier up_to rate \<equiv> \<lparr>pt_up_to = up_to, pt_rate_per_unit = rate, pt_padding = 0\<rparr>"

lemma sample_prices:
  "prices (sample_usage_plan [sample_tier 100 10, sample_tier 0 8]) [sample_tier 100 10, sample_tier 0 8]"
  "prices (sample_usage_plan [sample_tier 100 10]) [sample_tier 100 10]"
  by (simp_all add: prices_def sample_usage_plan_def validate_usage_tier_boundaries_def
      validate_usage_pricing_bounds_Inr word_le_nat_alt safe_bounds)

lemma sample_units: "(150 :: u64) \<le> MAX_SAFE_USAGE_UNITS"
  by (simp add: word_le_nat_alt safe_bounds)

theorem usage_request_charges_the_schedule_witness:
  "unat (usage_computation_output (sample_usage_plan [sample_tier 100 10, sample_tier 0 8]) 150) = 1400"
proof -
  have "metered_price [sample_tier 100 10, sample_tier 0 8] 150 = 1400"
    by (subst metered_price_costs) (simp_all add: tier_end_def)
  then show ?thesis
    using usage_request_charges_the_schedule [OF sample_prices(1) sample_units]
    by (simp add: sample_usage_plan_def)
qed

theorem single_bounded_tier_is_charged_beyond_its_end_witness:
  "unat (usage_computation_output (sample_usage_plan [sample_tier 100 10]) 150) = 1500 \<and>
    metered_price [sample_tier 100 10] 150 = 1000"
  using single_bounded_tier_is_charged_beyond_its_end [OF sample_prices(2) _ _ sample_units]
  by (simp add: sample_usage_plan_def)

theorem circuits_agree_with_plaintext_model_witness:
  "tiered_pricing_plaintext_model 150 [100, 0, 0, 0, 0] [10, 8, 0, 0, 0] 2 1000000 =
     usage_computation_output (sample_usage_plan [sample_tier 100 10, sample_tier 0 8]) 150"
  using circuits_agree_with_plaintext_model [OF sample_prices(1) sample_units]
  by (simp add: sample_usage_plan_def tiers_array_def default_tier_def numeral_eq_Suc)

theorem terms_bytes_determine_the_terms_witness:
  "up_plan_id (sample_usage_plan [sample_tier 100 10]) =
     up_plan_id ((sample_usage_plan [sample_tier 100 10])\<lparr>up_unit_name := []\<rparr>)"
  using terms_bytes_determine_the_terms
    [of "sample_usage_plan [sample_tier 100 10]" "(sample_usage_plan [sample_tier 100 10])\<lparr>up_unit_name := []\<rparr>" 7 7]
  by (simp add: sample_usage_plan_def tiers_array_def)

end
