(* ===== verification/Subscriptions.thy ===== *)
theory Subscriptions
  imports Plan_Terms Events
begin

text \<open>
  The life of a mandate outside billing (\<open>instructions/plans/\<close>): subscribing to a plan,
  cancelling (by the subscriber or the administrator), closing, updating, scheduling a change
  of plan and calling it off, and the migration of a legacy mandate to a new address. What
  they guarantee is in \<open>Mandate_Lifecycle\<close>.
\<close>

section \<open>Subscribing\<close>

record subscribe_accounts =
  sb_subscriber :: pubkey
  sb_merchant :: pubkey
  sb_merchant_state :: pubkey
  sb_plan :: pubkey
  sb_mandate :: pubkey
  sb_credential_mint :: pubkey
  sb_billing_mint :: pubkey
  sb_token_config :: pubkey
  sb_subscriber_credential_account :: pubkey
  sb_token_program :: pubkey
  sb_token_2022_program :: pubkey
  sb_associated_token_program :: pubkey
  sb_system_program :: pubkey

definition subscribe_constraints :: "env \<Rightarrow> subscribe_accounts \<Rightarrow> token_config \<Rightarrow> (bool \<times> verror) list" where
  "subscribe_constraints E c tc =
     [(is_signer E (sb_subscriber c), Anchor AccountNotSigner),
      (sb_token_program c = token_id E, Anchor InvalidProgramId),
      (sb_associated_token_program c = associated_token_id E, Anchor InvalidProgramId),
      (sb_system_program c = system_program_id, Anchor InvalidProgramId),
      (sb_merchant_state c = pda E [merchant_seed, key_bytes (sb_merchant c)], Anchor ConstraintSeeds),
      (create_address E [token_config_seed, key_bytes (sb_billing_mint c), [tk_bump tc]] program_id =
         Some (sb_token_config c), Anchor ConstraintSeeds)]"

text \<open>
  Who signs for a credential mint: the merchant's account for the merchant's own mint, the
  plan for the mint derived from the plan.
\<close>

definition plan_credential_seeds :: "loaded_plan \<Rightarrow> u8 list list" where
  "plan_credential_seeds plan =
     [if lp_is_flat plan then credential_seed else usage_credential_seed,
      key_bytes (lp_merchant plan), u64_le (lp_plan_id plan)]"

definition credential_authority ::
  "env \<Rightarrow> loaded_plan \<Rightarrow> pubkey \<Rightarrow> pubkey \<Rightarrow> pubkey \<Rightarrow> pubkey \<times> u8 list list" where
  "credential_authority E plan resolved merchant_state plan_key =
     (let merchant_key = lp_merchant plan in
      if resolved \<noteq> pda E (plan_credential_seeds plan)
      then (merchant_state, [merchant_seed, key_bytes merchant_key,
              [snd (find_pda E [merchant_seed, key_bytes merchant_key] program_id)]])
      else (plan_key, [if lp_is_flat plan then plan_seed else usage_plan_seed, key_bytes merchant_key,
              u64_le (lp_plan_id plan), [lp_bump plan]]))"

definition new_mandate ::
  "pubkey \<Rightarrow> pubkey \<Rightarrow> loaded_plan \<Rightarrow> i64 \<Rightarrow> i64 \<Rightarrow> i64 \<Rightarrow> u8 \<Rightarrow> u64 \<Rightarrow> vela_mandate" where
  "new_mandate subscriber plan_key plan now expiry next_payment_due bump index =
     \<lparr>md_subscriber = subscriber, md_plan = plan_key, md_merchant = lp_merchant plan,
      md_amount = lp_mandate_amount plan, md_frequency = lp_mandate_frequency plan,
      md_start_date = now, md_expiry = expiry, md_max_pulls = lp_max_pulls plan,
      md_pulls_executed = 0, md_next_payment_due = next_payment_due, md_last_pull_at = i64_of 0,
      md_last_billing_recorded_pull = 0, md_validation_request_nonce = 0,
      md_billing_request_nonce = 0, md_status = MandateActive, md_bump = bump,
      md_billing_type = lp_billing_type plan, md_mandate_index = index,
      md_version = CURRENT_ACCOUNT_VERSION, md_credit_balance = 0,
      md_pending_new_plan = default_key, md_pending_effective_at = i64_of 0,
      md_pending_change_type = 0, md_pending_nonce_short = replicate 8 0,
      md_reserved_v3 = replicate 7 0\<rparr>"

definition subscribe :: "env \<Rightarrow> subscribe_accounts \<Rightarrow> store \<Rightarrow> verror + store" where
  "subscribe E c s =
     (case anchor_account E KMerchantState dec_merchant_state s (sb_merchant_state c) of
        Inl e \<Rightarrow> Inl e | Inr ms \<Rightarrow>
     (case anchor_account E KTokenConfig dec_token_config s (sb_token_config c) of
        Inl e \<Rightarrow> Inl e | Inr tc \<Rightarrow>
     (case require_all (subscribe_constraints E c tc) of Inl e \<Rightarrow> Inl e | Inr _ \<Rightarrow>
     (case load_plan_account E s (sb_plan c) of Inl e \<Rightarrow> Inl e | Inr plan \<Rightarrow>
      let merchant_key = lp_merchant plan;
          mandate_index = ms_mandate_counter ms;
          seeds = mandate_seeds (sb_subscriber c) merchant_key mandate_index;
          mandate_bump = snd (find_pda E seeds program_id) in
     (case require_all
         ((lp_status plan = PlanActive, Vela PlanNotActive) #
          (sb_merchant c = merchant_key, Anchor RequireKeysEqViolated) #
          (lp_billing_mint plan \<noteq> default_key \<longrightarrow> sb_billing_mint c = lp_billing_mint plan,
           Vela TokenChangeNotSupported) #
          billing_token_checks tc (sb_billing_mint c) @
          [(sb_mandate c = pda E seeds, Anchor RequireKeysEqViolated)]) of Inl e \<Rightarrow> Inl e | Inr _ \<Rightarrow>
     (case resolve_merchant_credential_mint E s (sb_merchant_state c) merchant_key
             (lp_credential_mint plan) of Inl e \<Rightarrow> Inl e | Inr resolved \<Rightarrow>
     (case require_all
         [(sb_credential_mint c = resolved, Anchor RequireKeysEqViolated),
          (sb_token_2022_program c = token_2022_id E, Anchor RequireKeysEqViolated),
          (sb_subscriber_credential_account c =
             associated_token_address E (sb_subscriber c) (sb_credential_mint c) (sb_token_2022_program c),
           Anchor RequireKeysEqViolated)] of Inl e \<Rightarrow> Inl e | Inr _ \<Rightarrow>
     (case invoke E (CreateAssociatedTokenIdempotent (sb_subscriber c) (sb_subscriber_credential_account c)
                       (sb_subscriber c) (sb_credential_mint c) (sb_token_2022_program c)) [] s of
        Inl e \<Rightarrow> Inl e | Inr s1 \<Rightarrow>
     (case ok_or (checked_add (ms_mandate_counter ms) 1) (Vela Overflow) of Inl e \<Rightarrow> Inl e | Inr counter \<Rightarrow>
      if \<not> data_is_empty (s1 (sb_mandate c)) then Inl (Program AccountAlreadyInitialized) else
     (case invoke E (CreateAccount (sb_subscriber c) (sb_mandate c) (minimum_balance E vela_mandate_size)
                       vela_mandate_size program_id) [seeds @ [[mandate_bump]]] s1 of
        Inl e \<Rightarrow> Inl e | Inr s2 \<Rightarrow>
     (let (mint_authority, signer_seeds) =
            credential_authority E plan resolved (sb_merchant_state c) (sb_plan c) in
      case invoke E (MintTo (sb_credential_mint c) (sb_subscriber_credential_account c) mint_authority 1)
             [signer_seeds] s2 of Inl e \<Rightarrow> Inl e | Inr s3 \<Rightarrow>
      let now = unix_timestamp E in
     (case lp_expiry plan now of Inl e \<Rightarrow> Inl e | Inr expiry \<Rightarrow>
     (case lp_initial_next_payment_due plan now of Inl e \<Rightarrow> Inl e | Inr next_payment_due \<Rightarrow>
     (case write_mandate E (sb_mandate c)
             (new_mandate (sb_subscriber c) (sb_plan c) plan now expiry next_payment_due mandate_bump mandate_index)
             False s3 of Inl e \<Rightarrow> Inl e | Inr s4 \<Rightarrow>
      anchor_exit (sb_merchant_state c)
        (disc E KMerchantState @ enc_merchant_state (ms\<lparr>ms_mandate_counter := counter\<rparr>)) s4))))))))))))))"

section \<open>Cancelling and closing\<close>

record cancel_accounts =
  cn_authority :: pubkey
  cn_subscriber :: pubkey
  cn_merchant :: pubkey
  cn_merchant_state :: pubkey
  cn_plan :: pubkey
  cn_mandate :: pubkey
  cn_subscriber_credential_account :: pubkey
  cn_credential_mint :: pubkey
  cn_token_2022_program :: pubkey
  cn_subscriber_token_account :: pubkey
  cn_token_program :: pubkey
  cn_protocol_config :: pubkey

text \<open>
  What both cancellations check of the mandate, its plan and the credential mint. The
  result is the layout flag, the mandate and the plan.
\<close>

definition cancellable_mandate ::
  "env \<Rightarrow> cancel_accounts \<Rightarrow> store \<Rightarrow> verror + (bool \<times> vela_mandate \<times> loaded_plan)" where
  "cancellable_mandate E c s =
     (case load_mandate_account E s (cn_mandate c) of Inl e \<Rightarrow> Inl e | Inr l \<Rightarrow>
     (case validate_loaded_mandate_address E (cn_mandate c) l of Inl e \<Rightarrow> Inl e | Inr _ \<Rightarrow>
      let mandate = lm_into_current l in
     (case load_plan_account E s (cn_plan c) of Inl e \<Rightarrow> Inl e | Inr plan \<Rightarrow>
     (case require_plan_billing_type plan (md_billing_type mandate) of Inl e \<Rightarrow> Inl e | Inr _ \<Rightarrow>
     (case require_all
         [(cn_token_2022_program c = token_2022_id E, Anchor RequireKeysEqViolated),
          (cn_plan c = md_plan mandate, Anchor RequireKeysEqViolated),
          (cn_merchant c = lp_merchant plan, Anchor RequireKeysEqViolated),
          (md_merchant mandate = lp_merchant plan, Anchor RequireKeysEqViolated)] of
        Inl e \<Rightarrow> Inl e | Inr _ \<Rightarrow>
     (case resolve_merchant_credential_mint E s (cn_merchant_state c) (lp_merchant plan)
             (lp_credential_mint plan) of Inl e \<Rightarrow> Inl e | Inr resolved \<Rightarrow>
      if cn_credential_mint c \<noteq> resolved then Inl (Anchor RequireKeysEqViolated)
      else Inr (lm_is_legacy l, mandate, plan)))))))"

definition credential_account_check :: "env \<Rightarrow> cancel_accounts \<Rightarrow> bool \<times> verror" where
  "credential_account_check E c =
     (cn_subscriber_credential_account c =
        associated_token_address E (cn_subscriber c) (cn_credential_mint c) (cn_token_2022_program c),
      Anchor RequireKeysEqViolated)"

definition cancel :: "env \<Rightarrow> cancel_accounts \<Rightarrow> store \<Rightarrow> verror + store" where
  "cancel E c s =
     (case require_all
         [(is_signer E (cn_authority c), Anchor AccountNotSigner),
          (cn_merchant_state c = pda E [merchant_seed, key_bytes (cn_merchant c)], Anchor ConstraintSeeds)] of
        Inl e \<Rightarrow> Inl e | Inr _ \<Rightarrow>
     (case cancellable_mandate E c s of Inl e \<Rightarrow> Inl e | Inr (legacy_layout, mandate, plan) \<Rightarrow>
     (case require_all
         [(md_subscriber mandate = cn_subscriber c, Vela UnauthorizedCancel),
          (cn_authority c = cn_subscriber c, Vela UnauthorizedCancel),
          (md_status mandate = MandateActive, Vela MandateNotActive),
          credential_account_check E c] of Inl e \<Rightarrow> Inl e | Inr _ \<Rightarrow>
     (case invoke E (Burn (cn_credential_mint c) (cn_subscriber_credential_account c) (cn_authority c) 1) [] s of
        Inl e \<Rightarrow> Inl e | Inr s1 \<Rightarrow>
     (case (if acc_owner (s1 (cn_subscriber_token_account c)) = cn_token_program c \<and>
               \<not> data_is_empty (s1 (cn_subscriber_token_account c))
            then invoke E (RevokeDelegate (cn_token_program c) (cn_subscriber_token_account c) (cn_authority c)) [] s1
            else Inr s1) of Inl e \<Rightarrow> Inl e | Inr s2 \<Rightarrow>
      write_mandate E (cn_mandate c) (mandate\<lparr>md_status := MandateCancelled\<rparr>) legacy_layout s2)))))"

text \<open>The administrator's cancellation burns the credential with the mint's own authority.\<close>

definition admin_cancel :: "env \<Rightarrow> cancel_accounts \<Rightarrow> store \<Rightarrow> verror + store" where
  "admin_cancel E c s =
     (case require_all
         [(is_signer E (cn_authority c), Anchor AccountNotSigner),
          (cn_protocol_config c = pda E [protocol_config_seed], Anchor ConstraintSeeds),
          (cn_merchant_state c = pda E [merchant_seed, key_bytes (cn_merchant c)], Anchor ConstraintSeeds)] of
        Inl e \<Rightarrow> Inl e | Inr _ \<Rightarrow>
     (case load_protocol_config E s (cn_protocol_config c) of Inl e \<Rightarrow> Inl e | Inr pc \<Rightarrow>
      if cn_authority c \<noteq> lpc_admin pc then Inl (Vela UnauthorizedAdmin) else
     (case cancellable_mandate E c s of Inl e \<Rightarrow> Inl e | Inr (legacy_layout, mandate, plan) \<Rightarrow>
     (case require_all
         [(md_subscriber mandate = cn_subscriber c, Anchor RequireKeysEqViolated),
          (md_status mandate = MandateActive, Vela MandateNotActive),
          credential_account_check E c] of Inl e \<Rightarrow> Inl e | Inr _ \<Rightarrow>
     (let (burn_authority, signer_seeds) =
            credential_authority E plan (cn_credential_mint c) (cn_merchant_state c) (cn_plan c) in
      case invoke E (Burn (cn_credential_mint c) (cn_subscriber_credential_account c) burn_authority 1)
             [signer_seeds] s of Inl e \<Rightarrow> Inl e | Inr s1 \<Rightarrow>
      write_mandate E (cn_mandate c) (mandate\<lparr>md_status := MandateCancelled\<rparr>) legacy_layout s1)))))"

record mandate_accounts =
  ma_authority :: pubkey
  ma_subscriber :: pubkey
  ma_mandate :: pubkey
  ma_plan :: pubkey
  ma_protocol_config :: pubkey
  ma_system_program :: pubkey

definition close_mandate :: "env \<Rightarrow> mandate_accounts \<Rightarrow> store \<Rightarrow> verror + store" where
  "close_mandate E c s =
     (if \<not> is_signer E (ma_authority c) then Inl (Anchor AccountNotSigner) else
      case load_mandate_account E s (ma_mandate c) of Inl e \<Rightarrow> Inl e | Inr l \<Rightarrow>
     (case validate_loaded_mandate_address E (ma_mandate c) l of Inl e \<Rightarrow> Inl e | Inr _ \<Rightarrow>
      let mandate = lm_into_current l in
     (case require_all
         [(ma_authority c = md_subscriber mandate, Vela UnauthorizedCancel),
          (ma_subscriber c = md_subscriber mandate, Vela UnauthorizedCancel),
          (md_status mandate = MandateCancelled \<or> md_status mandate = MandateIsExpired,
           Vela MigrationPreconditionFailed)] of Inl e \<Rightarrow> Inl e | Inr _ \<Rightarrow>
      close_program_account (ma_mandate c) (ma_subscriber c) s)))"

section \<open>Updating\<close>

text \<open>
  \<open>ensure_min_mandate_size\<close>: a shorter account grows to the current size, and the last
  \<open>ACCOUNT_RESERVED_BYTES\<close> of it are cleared.
\<close>

definition ensure_min_mandate_size :: "env \<Rightarrow> pubkey \<Rightarrow> pubkey \<Rightarrow> store \<Rightarrow> verror + store" where
  "ensure_min_mandate_size E payer k s =
     (if vela_mandate_size \<le> length (acc_data (s k)) then Inr s else
      let required = minimum_balance E vela_mandate_size; current = acc_lamports (s k) in
      case (if current < required then invoke E (SystemTransfer payer k (required - current)) [] s
            else Inr s) of Inl e \<Rightarrow> Inl e | Inr s1 \<Rightarrow>
      let data = resize_data vela_mandate_size (acc_data (s1 k)) in
      Inr (set_data s1 k (take (vela_mandate_size - ACCOUNT_RESERVED_BYTES) data @
             replicate ACCOUNT_RESERVED_BYTES 0)))"

text \<open>
  An update may repeat the mandate's terms but not change them; what is left of the
  instruction is the growth of the account.
\<close>

definition update_mandate ::
  "env \<Rightarrow> mandate_accounts \<Rightarrow> u64 option \<Rightarrow> u64 option \<Rightarrow> u64 option \<Rightarrow> billing_type option \<Rightarrow>
     pubkey option \<Rightarrow> store \<Rightarrow> verror + store" where
  "update_mandate E c amount frequency max_pulls billing_type plan s =
     (case require_all
         [(is_signer E (ma_authority c), Anchor AccountNotSigner),
          (ma_system_program c = system_program_id, Anchor InvalidProgramId),
          (amount \<noteq> None \<or> frequency \<noteq> None \<or> max_pulls \<noteq> None \<or> billing_type \<noteq> None \<or> plan \<noteq> None,
           Vela NoUpdateProvided)] of Inl e \<Rightarrow> Inl e | Inr _ \<Rightarrow>
     (case load_mandate_account E s (ma_mandate c) of Inl e \<Rightarrow> Inl e | Inr l \<Rightarrow>
     (case validate_loaded_mandate_address E (ma_mandate c) l of Inl e \<Rightarrow> Inl e | Inr _ \<Rightarrow>
      let mandate = lm_into_current l;
          target_plan_key = (case plan of Some k \<Rightarrow> k | None \<Rightarrow> md_plan mandate) in
     (case require_all
         [(md_merchant mandate = ma_authority c, Vela UnauthorizedCancel),
          (md_status mandate = MandateActive, Vela MandateNotActive),
          (ma_plan c = target_plan_key, Vela MigrationPreconditionFailed)] of Inl e \<Rightarrow> Inl e | Inr _ \<Rightarrow>
     (case load_plan_account E s (ma_plan c) of Inl e \<Rightarrow> Inl e | Inr target_plan \<Rightarrow>
     (case require_all
         [(lp_merchant target_plan = ma_authority c, Vela UnauthorizedCancel),
          (lp_status target_plan = PlanActive, Vela PlanNotActive)] of Inl e \<Rightarrow> Inl e | Inr _ \<Rightarrow>
     (case ensure_min_mandate_size E (ma_authority c) (ma_mandate c) s of Inl e \<Rightarrow> Inl e | Inr s1 \<Rightarrow>
     (case require_all
         [(case amount of Some a \<Rightarrow> a = md_amount mandate | None \<Rightarrow> True, Vela UnauthorizedUpgrade),
          (case frequency of Some f \<Rightarrow> f = md_frequency mandate | None \<Rightarrow> True, Vela UnauthorizedUpgrade),
          (case max_pulls of Some n \<Rightarrow> n = md_max_pulls mandate | None \<Rightarrow> True, Vela UnauthorizedUpgrade),
          (plan \<noteq> None \<longrightarrow> target_plan_key = md_plan mandate, Vela UnauthorizedUpgrade),
          (case billing_type of Some t \<Rightarrow> t = md_billing_type mandate | None \<Rightarrow> True, Vela UnauthorizedUpgrade),
          (case billing_type of Some t \<Rightarrow> t = lp_billing_type target_plan | None \<Rightarrow> True,
           Vela BillingTypeMismatch)] of Inl e \<Rightarrow> Inl e | Inr _ \<Rightarrow>
      write_mandate_account E (ma_mandate c) l s1))))))))"

section \<open>Changing the plan at the end of the period\<close>

text \<open>
  Both instructions work on a current mandate that is active, at its address; they differ in
  where they load it.
\<close>

definition active_current_mandate :: "env \<Rightarrow> store \<Rightarrow> pubkey \<Rightarrow> verror + vela_mandate" where
  "active_current_mandate E s k =
     (case load_mandate_account E s k of Inl e \<Rightarrow> Inl e | Inr l \<Rightarrow>
      if lm_is_legacy l then Inl (Vela MandateVersionUnsupported) else
     (case validate_loaded_mandate_address E k l of Inl e \<Rightarrow> Inl e | Inr _ \<Rightarrow>
      let mandate = lm_into_current l in
      if md_status mandate \<noteq> MandateActive then Inl (Vela MandateNotActive) else Inr mandate))"

text \<open>A change scheduled for the end of the period has change type 2.\<close>

definition schedule_pending :: "pubkey \<Rightarrow> u64 \<Rightarrow> vela_mandate \<Rightarrow> vela_mandate" where
  "schedule_pending new_plan_key current_slot m =
     m\<lparr>md_pending_new_plan := new_plan_key, md_pending_effective_at := md_next_payment_due m,
       md_pending_change_type := 2, md_pending_nonce_short := u64_le current_slot,
       md_version := CURRENT_ACCOUNT_VERSION\<rparr>"

definition schedule_plan_change ::
  "env \<Rightarrow> mandate_accounts \<Rightarrow> store \<Rightarrow> verror + (store \<times> vela_event list)" where
  "schedule_plan_change E c s =
     (case require_all
         [(is_signer E (ma_authority c), Anchor AccountNotSigner),
          (ma_protocol_config c = pda E [protocol_config_seed], Anchor ConstraintSeeds)] of
        Inl e \<Rightarrow> Inl e | Inr _ \<Rightarrow>
     (case load_protocol_config E s (ma_protocol_config c) of Inl e \<Rightarrow> Inl e | Inr pc \<Rightarrow>
      if lpc_paused pc then Inl (Vela ProtocolPaused) else
     (case active_current_mandate E s (ma_mandate c) of Inl e \<Rightarrow> Inl e | Inr mandate \<Rightarrow>
     (case load_plan_account E s (ma_plan c) of Inl e \<Rightarrow> Inl e | Inr new_plan \<Rightarrow>
      let event_mint = (if lp_billing_mint new_plan = default_key then lpc_wrapped_usdc_mint pc
                        else lp_billing_mint new_plan);
          authority = ma_authority c;
          is_subscriber = (authority = md_subscriber mandate);
          is_merchant = (authority = md_merchant mandate) in
     (case require_all
         [(lp_merchant new_plan = md_merchant mandate, Vela UnauthorizedUpgrade),
          (lp_status new_plan = PlanActive, Vela PlanNotActive),
          (is_subscriber \<or> is_merchant, Vela UnauthorizedUpgrade),
          (md_amount mandate < lp_mandate_amount new_plan \<longrightarrow> is_subscriber, Vela UnauthorizedUpgrade)] of
        Inl e \<Rightarrow> Inl e | Inr _ \<Rightarrow>
      if md_plan mandate = ma_plan c then Inr (s, []) else
      if md_pending_change_type mandate = 2 \<and> md_pending_new_plan mandate = ma_plan c \<and>
         md_pending_nonce_short mandate = u64_le (slot E) then Inr (s, []) else
     (case write_mandate E (ma_mandate c) (schedule_pending (ma_plan c) (slot E) mandate) False s of
        Inl e \<Rightarrow> Inl e | Inr s1 \<Rightarrow>
      Inr (s1, [MandateUpgradeInitiated 1 (ma_mandate c) event_mint
                  (event_token_symbol event_mint (lpc_wrapped_usdc_mint pc)) (md_plan mandate) (ma_plan c)
                  (i64_of 0) 2 authority (md_next_payment_due mandate) (unix_timestamp E)])))))))"

definition cancel_plan_change ::
  "env \<Rightarrow> mandate_accounts \<Rightarrow> store \<Rightarrow> verror + (store \<times> vela_event list)" where
  "cancel_plan_change E c s =
     (case require_all
         [(is_signer E (ma_authority c), Anchor AccountNotSigner),
          (ma_protocol_config c = pda E [protocol_config_seed], Anchor ConstraintSeeds)] of
        Inl e \<Rightarrow> Inl e | Inr _ \<Rightarrow>
     (case load_protocol_config E s (ma_protocol_config c) of Inl e \<Rightarrow> Inl e | Inr _ \<Rightarrow>
     (case active_current_mandate E s (ma_mandate c) of Inl e \<Rightarrow> Inl e | Inr mandate \<Rightarrow>
     (case require_all
         [(has_pending_change mandate, Vela NoPendingChange),
          (ma_authority c = md_subscriber mandate \<or> ma_authority c = md_merchant mandate,
           Vela UnauthorizedUpgrade)] of Inl e \<Rightarrow> Inl e | Inr _ \<Rightarrow>
     (case write_mandate E (ma_mandate c)
             ((clear_pending mandate)\<lparr>md_version := CURRENT_ACCOUNT_VERSION\<rparr>) False s of
        Inl e \<Rightarrow> Inl e | Inr s1 \<Rightarrow>
      Inr (s1, [MandateUpgradeCancelled 1 (ma_mandate c) default_key [] (md_plan mandate)
                  (md_pending_new_plan mandate) (i64_of 0) 2 (ma_authority c)
                  (md_pending_effective_at mandate) (unix_timestamp E)]))))))"

section \<open>Migrating a legacy mandate\<close>

record migrate_mandate_accounts =
  mg_admin :: pubkey
  mg_protocol_config :: pubkey
  mg_merchant_state :: pubkey
  mg_subscriber :: pubkey
  mg_merchant :: pubkey
  mg_plan :: pubkey
  mg_legacy_mandate :: pubkey
  mg_migrated_mandate :: pubkey
  mg_system_program :: pubkey

definition migrate_mandate :: "env \<Rightarrow> migrate_mandate_accounts \<Rightarrow> store \<Rightarrow> verror + store" where
  "migrate_mandate E c s =
     (case anchor_account E KMerchantState dec_merchant_state s (mg_merchant_state c) of
        Inl e \<Rightarrow> Inl e | Inr ms \<Rightarrow>
     (case require_all
         [(is_signer E (mg_admin c), Anchor AccountNotSigner),
          (mg_system_program c = system_program_id, Anchor InvalidProgramId),
          (mg_protocol_config c = pda E [protocol_config_seed], Anchor ConstraintSeeds),
          (mg_merchant_state c = pda E [merchant_seed, key_bytes (mg_merchant c)], Anchor ConstraintSeeds)] of
        Inl e \<Rightarrow> Inl e | Inr _ \<Rightarrow>
     (case load_protocol_config E s (mg_protocol_config c) of Inl e \<Rightarrow> Inl e | Inr pc \<Rightarrow>
      if mg_admin c \<noteq> lpc_admin pc then Inl (Vela UnauthorizedAdmin) else
     (case load_mandate_account E s (mg_legacy_mandate c) of Inl e \<Rightarrow> Inl e | Inr l \<Rightarrow>
     (case validate_loaded_mandate_address E (mg_legacy_mandate c) l of Inl e \<Rightarrow> Inl e | Inr _ \<Rightarrow>
      if \<not> lm_is_legacy l then Inl (Vela MigrationPreconditionFailed) else
      let mandate = lm_into_current l in
     (case require_all
         [(mg_subscriber c = md_subscriber mandate, Anchor RequireKeysEqViolated),
          (mg_merchant c = md_merchant mandate, Anchor RequireKeysEqViolated),
          (mg_plan c = md_plan mandate, Anchor RequireKeysEqViolated)] of Inl e \<Rightarrow> Inl e | Inr _ \<Rightarrow>
     (case load_plan_account E s (mg_plan c) of Inl e \<Rightarrow> Inl e | Inr plan \<Rightarrow>
      let mandate_index = ms_mandate_counter ms;
          seeds = mandate_seeds (md_subscriber mandate) (md_merchant mandate) mandate_index;
          migrated_bump = snd (find_pda E seeds program_id);
          has_stranded_namespaces =
            (0 < md_validation_request_nonce mandate \<or> 0 < md_billing_request_nonce mandate \<or>
             0 < md_pulls_executed mandate \<or> 0 < md_last_billing_recorded_pull mandate) in
     (case require_all
         [(lp_merchant plan = md_merchant mandate, Anchor RequireKeysEqViolated),
          (\<not> has_stranded_namespaces, Vela MigrationPreconditionFailed),
          (mg_migrated_mandate c = pda E seeds, Anchor RequireKeysEqViolated),
          (data_is_empty (s (mg_migrated_mandate c)), Vela MigrationPreconditionFailed)] of
        Inl e \<Rightarrow> Inl e | Inr _ \<Rightarrow>
     (case invoke E (CreateAccount (mg_admin c) (mg_migrated_mandate c) (minimum_balance E vela_mandate_size)
                       vela_mandate_size program_id) [seeds @ [[migrated_bump]]] s of
        Inl e \<Rightarrow> Inl e | Inr s1 \<Rightarrow>
      let migrated = mandate\<lparr>md_bump := migrated_bump, md_mandate_index := mandate_index,
                       md_version := CURRENT_ACCOUNT_VERSION, md_credit_balance := 0,
                       md_pending_new_plan := default_key, md_pending_effective_at := i64_of 0,
                       md_pending_change_type := 0, md_pending_nonce_short := replicate 8 0,
                       md_reserved_v3 := replicate 7 0\<rparr> in
     (case write_mandate E (mg_migrated_mandate c) migrated False s1 of Inl e \<Rightarrow> Inl e | Inr s2 \<Rightarrow>
     (case ok_or (checked_add (ms_mandate_counter ms) 1) (Vela Overflow) of Inl e \<Rightarrow> Inl e | Inr counter \<Rightarrow>
     (case close_program_account (mg_legacy_mandate c) (mg_admin c) s2 of Inl e \<Rightarrow> Inl e | Inr s3 \<Rightarrow>
      anchor_exit (mg_merchant_state c)
        (disc E KMerchantState @ enc_merchant_state (ms\<lparr>ms_mandate_counter := counter\<rparr>)) s3))))))))))))"

end
