(* ===== verification/Billing.thy ===== *)
theory Billing
  imports Subscriptions Token_Transfer
begin

text \<open>
  Billing: the usage report of a period (\<open>state/usage_report.rs\<close>,
  \<open>instructions/billing/submit_usage_report.rs\<close>) and the pull that charges a mandate
  (\<open>instructions/billing/execute_pull.rs\<close>). What they guarantee is in \<open>Pull_Safety\<close>.
\<close>

section \<open>Usage reports\<close>

text \<open>The ciphertexts of a report are an array of 32-byte arrays.\<close>

lemma dec_seq_blocks [simp]:
  "length bs = n \<Longrightarrow> \<forall>b \<in> set bs. length b = 32 \<Longrightarrow>
     dec_seq (dec_bytes 32) n (concat bs @ r) = Some (bs, r)"
  by (induction bs arbitrary: n) auto

lemma dec_seq_blocks_length [dest]:
  "dec_seq (dec_bytes 32) n bs = Some (xs, r) \<Longrightarrow> length xs = n \<and> (\<forall>b \<in> set xs. length b = 32)"
  by (induction n arbitrary: bs xs) (fastforce simp: bind_eq_Some_conv)+

lemma length_blocks [simp]: "\<forall>b \<in> set bs. length b = 32 \<Longrightarrow> length (concat bs) = 32 * length bs"
  by (induction bs) auto

record usage_report =
  ur_mandate :: "pubkey"
  ur_merchant :: "pubkey"
  ur_period_start :: "i64"
  ur_period_end :: "i64"
  ur_computation_ciphertext :: "u8 list list"
  ur_ciphertext_count :: "u8"
  ur_nonce :: "u128"
  ur_pub_key :: "u8 list"
  ur_settled :: "bool"
  ur_created_at :: "i64"
  ur_bump :: "u8"

definition valid_usage_report :: "usage_report \<Rightarrow> bool" where
  "valid_usage_report m \<longleftrightarrow> length (ur_computation_ciphertext m) = 13 \<and> (\<forall>b \<in> set (ur_computation_ciphertext m). length b = 32) \<and>
     length (ur_pub_key m) = 32"

definition enc_usage_report :: "usage_report \<Rightarrow> u8 list" where
  "enc_usage_report m =
     key_bytes (ur_mandate m) @
     key_bytes (ur_merchant m) @
     i64_le (ur_period_start m) @
     i64_le (ur_period_end m) @
     concat (ur_computation_ciphertext m) @
     [ur_ciphertext_count m] @
     le_bytes 16 (ur_nonce m) @
     ur_pub_key m @
     enc_bool (ur_settled m) @
     i64_le (ur_created_at m) @
     [ur_bump m]"

definition dec_usage_report :: "usage_report decoder" where
  "dec_usage_report bs = do {
     (x_mandate, bs) \<leftarrow> dec_key bs;
     (x_merchant, bs) \<leftarrow> dec_key bs;
     (x_period_start, bs) \<leftarrow> dec_i64 bs;
     (x_period_end, bs) \<leftarrow> dec_i64 bs;
     (x_computation_ciphertext, bs) \<leftarrow> dec_seq (dec_bytes 32) 13 bs;
     (x_ciphertext_count, bs) \<leftarrow> dec_u8 bs;
     (x_nonce, bs) \<leftarrow> dec_u128 bs;
     (x_pub_key, bs) \<leftarrow> dec_bytes 32 bs;
     (x_settled, bs) \<leftarrow> dec_bool bs;
     (x_created_at, bs) \<leftarrow> dec_i64 bs;
     (x_bump, bs) \<leftarrow> dec_u8 bs;
     Some (\<lparr>ur_mandate = x_mandate,
       ur_merchant = x_merchant,
       ur_period_start = x_period_start,
       ur_period_end = x_period_end,
       ur_computation_ciphertext = x_computation_ciphertext,
       ur_ciphertext_count = x_ciphertext_count,
       ur_nonce = x_nonce,
       ur_pub_key = x_pub_key,
       ur_settled = x_settled,
       ur_created_at = x_created_at,
       ur_bump = x_bump\<rparr>, bs)
   }"

interpretation usage_report_codec: fixed_borsh enc_usage_report dec_usage_report valid_usage_report 555
proof unfold_locales
  show "valid_usage_report x \<Longrightarrow> dec_usage_report (enc_usage_report x @ r) = Some (x, r)" for x r
    by (simp add: enc_usage_report_def dec_usage_report_def valid_usage_report_def)
  show "dec_usage_report bs = Some (x, r) \<Longrightarrow> valid_usage_report x" for bs x r
    unfolding dec_usage_report_def by (elim bind_SomeE) (auto simp: valid_usage_report_def)
  show "valid_usage_report x \<Longrightarrow> length (enc_usage_report x) = 555" for x
    by (simp add: enc_usage_report_def valid_usage_report_def)
qed

definition MAX_USAGE_COMPUTATION_CIPHERTEXTS :: nat where
  "MAX_USAGE_COMPUTATION_CIPHERTEXTS = 13"

definition usage_report_size :: nat where
  "usage_report_size =
     8 + 32 + 32 + 8 + 8 + (32 * MAX_USAGE_COMPUTATION_CIPHERTEXTS) + 1 + 16 + 32 + 1 + 8 + 1"

definition usage_report_seed :: "u8 list" where
  "usage_report_seed = bytes ''usage_report''"

definition usage_report_address :: "env \<Rightarrow> pubkey \<Rightarrow> i64 \<Rightarrow> pubkey" where
  "usage_report_address E mandate period_start = pda E [usage_report_seed, key_bytes mandate, i64_le period_start]"

definition USAGE_UNITS_CIPHERTEXT_COUNT :: nat where
  "USAGE_UNITS_CIPHERTEXT_COUNT = 1"

text \<open>The bounds of the active tiers; a stored count out of range is an error, not a panic.\<close>

fun validate_loaded_usage_pricing_bounds :: "loaded_plan \<Rightarrow> verror + unit" where
  "validate_loaded_usage_pricing_bounds (UsagePlan p) =
     (if \<not> (0 < up_tier_count p \<and> up_tier_count p \<le> 5) then Inl (Vela InvalidTierCount)
      else validate_usage_pricing_bounds (take (unat (up_tier_count p)) (up_tiers p)) (up_max_charge_per_period p))"
| "validate_loaded_usage_pricing_bounds (LegacyUsagePlan p) =
     (if \<not> (0 < upl_tier_count p \<and> upl_tier_count p \<le> 5) then Inl (Vela InvalidTierCount)
      else validate_usage_pricing_bounds (take (unat (upl_tier_count p)) (upl_tiers p)) (upl_max_charge_per_period p))"
| "validate_loaded_usage_pricing_bounds (FlatPlan p) = Inl (Vela BillingTypeMismatch)"
| "validate_loaded_usage_pricing_bounds (LegacyFlatPlan p) = Inl (Vela BillingTypeMismatch)"

record report_accounts =
  ra_merchant :: pubkey
  ra_mandate :: pubkey
  ra_usage_plan :: pubkey
  ra_usage_report :: pubkey
  ra_system_program :: pubkey

definition submit_usage_report ::
  "env \<Rightarrow> report_accounts \<Rightarrow> i64 \<Rightarrow> i64 \<Rightarrow> u8 list list \<Rightarrow> u128 \<Rightarrow> u8 list \<Rightarrow> store \<Rightarrow> verror + store" where
  "submit_usage_report E c period_start period_end computation_ciphertext nonce pub_key s =
     (let seeds = [usage_report_seed, key_bytes (ra_mandate c), i64_le period_start];
          bump = snd (find_pda E seeds program_id) in
      case require_all
         [(is_signer E (ra_merchant c), Anchor AccountNotSigner),
          (ra_system_program c = system_program_id, Anchor InvalidProgramId),
          (ra_usage_report c = pda E seeds, Anchor ConstraintSeeds)] of Inl e \<Rightarrow> Inl e | Inr _ \<Rightarrow>
     (case invoke E (InitAccount (ra_merchant c) (ra_usage_report c) (minimum_balance E usage_report_size)
                       usage_report_size program_id) [seeds @ [[bump]]] s of Inl e \<Rightarrow> Inl e | Inr s1 \<Rightarrow>
     (case load_mandate_account E s1 (ra_mandate c) of Inl e \<Rightarrow> Inl e | Inr l \<Rightarrow>
     (case validate_loaded_mandate_address E (ra_mandate c) l of Inl e \<Rightarrow> Inl e | Inr _ \<Rightarrow>
      let mandate = lm_into_current l in
     (case require_all
         [(ra_merchant c = md_merchant mandate, Vela UnauthorizedKeeper),
          (md_billing_type mandate = Usage, Vela BillingTypeMismatch),
          (md_status mandate = MandateActive, Vela MandateNotActive),
          (ra_usage_plan c = md_plan mandate, Vela PlanNotActive)] of Inl e \<Rightarrow> Inl e | Inr _ \<Rightarrow>
     (case load_plan_account E s1 (ra_usage_plan c) of Inl e \<Rightarrow> Inl e | Inr plan \<Rightarrow>
     (case require_plan_billing_type plan Usage of Inl e \<Rightarrow> Inl e | Inr _ \<Rightarrow>
     (case require_all
         [(lp_status plan = PlanActive, Vela PlanNotActive),
          (lp_merchant plan = md_merchant mandate, Vela BillingTypeMismatch)] of Inl e \<Rightarrow> Inl e | Inr _ \<Rightarrow>
     (case ok_or (lp_usage_tier_count plan) (Vela BillingTypeMismatch) of Inl e \<Rightarrow> Inl e | Inr tier_count \<Rightarrow>
      if \<not> (0 < tier_count \<and> tier_count \<le> 5) then Inl (Vela InvalidTierCount) else
     (case validate_loaded_usage_pricing_bounds plan of Inl e \<Rightarrow> Inl e | Inr _ \<Rightarrow>
      if length computation_ciphertext \<noteq> USAGE_UNITS_CIPHERTEXT_COUNT
      then Inl (Vela InvalidCiphertextInput) else
     (case mandate_billing_period mandate of Inl e \<Rightarrow> Inl e | Inr (expected_start, expected_end) \<Rightarrow>
     (case require_all
         [(period_start < period_end, Vela InvalidPeriod),
          (period_start = expected_start \<and> period_end = expected_end, Vela PeriodMismatch),
          (period_end \<le> unix_timestamp E, Vela PullTooEarly)] of Inl e \<Rightarrow> Inl e | Inr _ \<Rightarrow>
     (case lp_usage_terms_hash E plan (ra_usage_plan c) of Inl e \<Rightarrow> Inl e | Inr terms_hash \<Rightarrow>
      anchor_exit (ra_usage_report c)
        (disc E KUsageReport @ enc_usage_report
           \<lparr>ur_mandate = ra_mandate c, ur_merchant = md_merchant mandate, ur_period_start = period_start,
            ur_period_end = period_end,
            ur_computation_ciphertext =
              [computation_ciphertext ! 0, terms_hash] @
              replicate (MAX_USAGE_COMPUTATION_CIPHERTEXTS - 2) (replicate 32 0),
            ur_ciphertext_count = of_nat USAGE_UNITS_CIPHERTEXT_COUNT, ur_nonce = nonce,
            ur_pub_key = pub_key, ur_settled = False, ur_created_at = unix_timestamp E, ur_bump = bump\<rparr>)
        s1)))))))))))))"

section \<open>Executing a pull\<close>

record pull_accounts =
  pu_payer :: pubkey
  pu_subscriber :: pubkey
  pu_merchant :: pubkey
  pu_keeper_config :: pubkey
  pu_plan :: pubkey
  pu_mandate :: pubkey
  pu_subscriber_wrapped_account :: pubkey
  pu_merchant_wrapped_account :: pubkey
  pu_wrapped_usdc_mint :: pubkey
  pu_pull_approval :: pubkey
  pu_token_config :: pubkey
  pu_protocol_config :: pubkey
  pu_wrapping_vault :: pubkey
  pu_hook_program :: pubkey
  pu_extra_account_meta_list :: pubkey
  pu_protocol_program :: pubkey
  pu_token_2022_program :: pubkey
  pu_system_program :: pubkey

definition pull_constraints :: "env \<Rightarrow> pull_accounts \<Rightarrow> token_config \<Rightarrow> (bool \<times> verror) list" where
  "pull_constraints E c tc =
     [(is_signer E (pu_payer c), Anchor AccountNotSigner),
      (pu_token_2022_program c = token_2022_id E, Anchor InvalidProgramId),
      (pu_system_program c = system_program_id, Anchor InvalidProgramId),
      (pu_keeper_config c = pda E [keeper_config_seed], Anchor ConstraintSeeds),
      (create_address E [token_config_seed, key_bytes (pu_wrapped_usdc_mint c), [tk_bump tc]] program_id =
         Some (pu_token_config c), Anchor ConstraintSeeds),
      (pu_protocol_config c = pda E [protocol_config_seed], Anchor ConstraintSeeds),
      (pu_extra_account_meta_list c =
         fst (find_pda E [extra_account_metas_seed, key_bytes (pu_wrapped_usdc_mint c)] (pu_hook_program c)),
       Anchor ConstraintSeeds),
      (pu_protocol_program c = program_id, Anchor ConstraintAddress)]"

text \<open>What the protocol's configuration must allow.\<close>

definition pull_config_checks :: "pull_accounts \<Rightarrow> loaded_protocol_config \<Rightarrow> (bool \<times> verror) list" where
  "pull_config_checks c pc =
     [(\<not> lpc_paused pc, Vela ProtocolPaused),
      (lpc_transfer_hook_program_id pc \<noteq> default_key, Vela InvalidProtocolConfig),
      (pu_hook_program c = lpc_transfer_hook_program_id pc, Vela InvalidProtocolConfig),
      (pu_wrapping_vault c = lpc_wrapping_vault pc, Vela VaultMismatch)]"

text \<open>What must hold of the mandate and its plan at the time of the pull.\<close>

definition pull_checks ::
  "env \<Rightarrow> pull_accounts \<Rightarrow> loaded_protocol_config \<Rightarrow> loaded_keeper_config \<Rightarrow> token_config \<Rightarrow>
     loaded_plan \<Rightarrow> vela_mandate \<Rightarrow> (bool \<times> verror) list" where
  "pull_checks E c pc kc tc plan mandate =
     (let now = unix_timestamp E in
     [(pu_payer c = lkc_keeper_authority kc \<or> pu_payer c = md_subscriber mandate, Vela UnauthorizedKeeper),
      (lp_billing_type plan = md_billing_type mandate, Vela BillingTypeMismatch),
      (lp_status plan = PlanActive, Vela PlanNotActive),
      (lp_billing_mint plan \<noteq> default_key \<longrightarrow> pu_wrapped_usdc_mint c = lp_billing_mint plan,
       Vela TokenChangeNotSupported),
      (lp_billing_mint plan = default_key \<longrightarrow> pu_wrapped_usdc_mint c = lpc_wrapped_usdc_mint pc,
       Vela UsdcMintMismatch),
      (tk_enabled tc, Vela TokenDisabled),
      (tk_mint tc = pu_wrapped_usdc_mint c, Vela TokenNotRegistered),
      (md_status mandate = MandateActive, Vela MandateNotActive),
      (pu_plan c = md_plan mandate, Anchor RequireKeysEqViolated),
      (lp_merchant plan = pu_merchant c, Anchor RequireKeysEqViolated),
      (md_subscriber mandate = pu_subscriber c, Anchor RequireKeysEqViolated),
      (md_merchant mandate = pu_merchant c, Anchor RequireKeysEqViolated),
      (md_last_billing_recorded_pull mandate = md_pulls_executed mandate, Vela PendingBillingRecord),
      (i64_of 0 < md_expiry mandate \<longrightarrow> now < md_expiry mandate, Vela MandateExpired),
      (md_pulls_executed mandate < md_max_pulls mandate, Vela MaxPullsExceeded),
      (md_next_payment_due mandate \<le> now, Vela PullTooEarly)])"

text \<open>
  A change of plan that is due is applied first. The new plan is an extra account, after the
  usage report if there is one; its amount is whatever the plan says now.
\<close>

definition apply_plan :: "pubkey \<Rightarrow> loaded_plan \<Rightarrow> vela_mandate \<Rightarrow> vela_mandate" where
  "apply_plan plan_key plan m =
     clear_pending (m\<lparr>md_plan := plan_key, md_amount := lp_mandate_amount plan,
       md_frequency := lp_mandate_frequency plan, md_max_pulls := lp_max_pulls plan,
       md_billing_type := lp_billing_type plan, md_version := CURRENT_ACCOUNT_VERSION\<rparr>)"

definition apply_pending_change ::
  "env \<Rightarrow> store \<Rightarrow> pubkey list \<Rightarrow> nat \<Rightarrow> loaded_plan \<Rightarrow> vela_mandate \<Rightarrow>
     verror + (vela_mandate \<times> loaded_plan \<times> (pubkey \<times> pubkey \<times> i64) option)" where
  "apply_pending_change E s remaining pending_plan_index active_plan mandate =
     (if \<not> (md_pending_change_type mandate = 2 \<and> md_pending_effective_at mandate \<le> unix_timestamp E)
      then Inr (mandate, active_plan, None)
      else if length remaining \<le> pending_plan_index then Inl (Vela PendingPlanAccountMissing)
      else if remaining ! pending_plan_index \<noteq> md_pending_new_plan mandate
      then Inl (Vela PendingPlanAccountMissing) else
      case load_plan_account E s (remaining ! pending_plan_index) of Inl e \<Rightarrow> Inl e | Inr pending_plan \<Rightarrow>
     (case require_all
         [(lp_merchant pending_plan = md_merchant mandate, Vela UnauthorizedUpgrade),
          (lp_status pending_plan = PlanActive, Vela PlanNotActive),
          (lp_billing_type pending_plan = md_billing_type mandate, Vela BillingTypeMismatch),
          (lp_billing_mint active_plan \<noteq> default_key \<and> lp_billing_mint pending_plan \<noteq> default_key \<longrightarrow>
             lp_billing_mint pending_plan = lp_billing_mint active_plan, Vela TokenChangeNotSupported)] of
        Inl e \<Rightarrow> Inl e | Inr _ \<Rightarrow>
      Inr (apply_plan (md_pending_new_plan mandate) pending_plan mandate, pending_plan,
           Some (md_plan mandate, md_pending_new_plan mandate, unix_timestamp E))))"

text \<open>The approval: it must exist at its address, and be for this mandate and this period.\<close>

definition pull_approval_for ::
  "env \<Rightarrow> store \<Rightarrow> pubkey \<Rightarrow> pubkey \<Rightarrow> i64 \<Rightarrow> i64 \<Rightarrow> verror + pull_approval" where
  "pull_approval_for E s k mandate period_start period_end =
     (if k \<noteq> pda E [pull_approval_seed, key_bytes mandate] then Inl (Vela ApprovalNotGranted) else
      if acc_owner (s k) \<noteq> program_id \<or> data_is_empty (s k) then Inl (Vela ApprovalNotGranted) else
      case try_deserialize E KPullApproval dec_pull_approval (acc_data (s k)) of
        None \<Rightarrow> Inl (Vela ApprovalNotGranted)
      | Some approval \<Rightarrow>
     (case require_all
         [(pa_approved approval, Vela ApprovalNotGranted),
          (pa_mandate approval = mandate, Vela ApprovalNotGranted),
          (pa_period_start approval = period_start \<and> pa_period_end approval = period_end, Vela PeriodMismatch),
          (unix_timestamp E \<le> pa_valid_until approval, Vela ApprovalExpired)] of Inl e \<Rightarrow> Inl e | Inr _ \<Rightarrow>
      Inr approval))"

definition validate_usage_report_for_settlement ::
  "env \<Rightarrow> store \<Rightarrow> pubkey \<Rightarrow> pubkey \<Rightarrow> pubkey \<Rightarrow> i64 \<Rightarrow> i64 \<Rightarrow> verror + unit" where
  "validate_usage_report_for_settlement E s k mandate merchant period_start period_end =
     (if acc_owner (s k) \<noteq> program_id then Inl (Vela BillingTypeMismatch) else
      if k \<noteq> usage_report_address E mandate period_start then Inl (Vela PeriodMismatch) else
      case try_deserialize E KUsageReport dec_usage_report (acc_data (s k)) of
        None \<Rightarrow> Inl (Vela PeriodMismatch)
      | Some report \<Rightarrow> require_all
         [(ur_mandate report = mandate, Vela BillingTypeMismatch),
          (ur_merchant report = merchant, Vela BillingTypeMismatch),
          (ur_period_start report = period_start \<and> ur_period_end report = period_end, Vela PeriodMismatch),
          (\<not> ur_settled report, Vela UsageReportAlreadySettled)])"

definition SETTLED_OFFSET :: nat where
  "SETTLED_OFFSET = 8 + 32 + 32 + 8 + 8 + (32 * MAX_USAGE_COMPUTATION_CIPHERTEXTS) + 1 + 16 + 32"

definition mark_usage_report_settled :: "pubkey \<Rightarrow> store \<Rightarrow> verror + store" where
  "mark_usage_report_settled k s =
     (if length (acc_data (s k)) \<le> SETTLED_OFFSET then Inl (Vela PeriodMismatch)
      else Inr (set_data s k ((acc_data (s k))[SETTLED_OFFSET := 1])))"

text \<open>
  A flat plan charges the mandate's amount, which the approval must cover; a usage plan
  charges the approved amount, which the mandate's cap must cover. Credit goes first.
\<close>

definition base_charge :: "loaded_plan \<Rightarrow> vela_mandate \<Rightarrow> u64 \<Rightarrow> verror + u64" where
  "base_charge plan mandate approved_amount =
     (if lp_is_flat plan
      then (if md_amount mandate \<le> approved_amount then Inr (md_amount mandate)
            else Inl (Vela AmountExceedsPlanAmount))
      else (if approved_amount \<le> md_amount mandate then Inr approved_amount
            else Inl (Vela AmountExceedsPlanAmount)))"

definition use_credit :: "u64 \<Rightarrow> vela_mandate \<Rightarrow> u64 \<times> vela_mandate" where
  "use_credit base_charge_amount m =
     (let credit_used = min base_charge_amount (md_credit_balance m) in
      (saturating_sub base_charge_amount credit_used,
       m\<lparr>md_credit_balance := saturating_sub (md_credit_balance m) credit_used\<rparr>))"

definition count_pull :: "i64 \<Rightarrow> vela_mandate \<Rightarrow> verror + vela_mandate" where
  "count_pull now m =
     (case ok_or (i64_try_from_u64 (md_frequency m)) (Vela Overflow) of Inl e \<Rightarrow> Inl e | Inr frequency \<Rightarrow>
     (case ok_or (checked_add (md_pulls_executed m) 1) (Vela Overflow) of Inl e \<Rightarrow> Inl e | Inr pulls_executed \<Rightarrow>
     (case ok_or (i64_checked_add (md_next_payment_due m) frequency) (Vela Overflow) of
        Inl e \<Rightarrow> Inl e | Inr next_payment_due \<Rightarrow>
      let m = m\<lparr>md_pulls_executed := pulls_executed, md_next_payment_due := next_payment_due,
                md_last_pull_at := now\<rparr>;
          m = (if md_billing_type m = Usage then m\<lparr>md_last_billing_recorded_pull := pulls_executed\<rparr> else m)
      in Inr (if md_max_pulls m \<le> pulls_executed then m\<lparr>md_status := MandateIsExpired\<rparr> else m))))"

definition pull_transfer_accounts :: "pull_accounts \<Rightarrow> transfer_accounts" where
  "pull_transfer_accounts c =
     \<lparr>tr_source = pu_subscriber_wrapped_account c, tr_mint = pu_wrapped_usdc_mint c,
      tr_destination = pu_merchant_wrapped_account c, tr_authority = pu_mandate c,
      tr_protocol_program = pu_protocol_program c, tr_wrapping_vault = pu_wrapping_vault c,
      tr_protocol_config = pu_protocol_config c, tr_pull_approval = pu_pull_approval c,
      tr_token_config = pu_token_config c, tr_system_program = pu_system_program c,
      tr_extra_account_meta_list = pu_extra_account_meta_list c, tr_hook_program = pu_hook_program c,
      tr_token_2022_program = pu_token_2022_program c\<rparr>"

definition invoke_billing_transfer ::
  "env \<Rightarrow> pull_accounts \<Rightarrow> token_config \<Rightarrow> u64 \<Rightarrow> u8 list list list \<Rightarrow> pubkey \<Rightarrow> store \<Rightarrow> verror + store" where
  "invoke_billing_transfer E c tc charge_amount signer_seed_groups expected_destination_owner s =
     (case validate_token_2022_transfer_accounts E s (pu_subscriber_wrapped_account c)
             (pu_merchant_wrapped_account c) (pu_wrapped_usdc_mint c) (pu_token_2022_program c) (pu_mandate c)
             expected_destination_owner of Inl e \<Rightarrow> Inl e | Inr _ \<Rightarrow>
      invoke_transfer_checked_with_hook E (pull_transfer_accounts c) charge_amount (tk_decimals tc)
        signer_seed_groups s)"

text \<open>The seeds the mandate signs with: its own for a current one, the plan's for a legacy one.\<close>

definition pull_signer_seeds :: "bool \<Rightarrow> vela_mandate \<Rightarrow> u8 list list" where
  "pull_signer_seeds legacy_layout m =
     (if legacy_layout then legacy_mandate_seeds (md_subscriber m) (md_plan m)
      else mandate_seeds (md_subscriber m) (md_merchant m) (md_mandate_index m)) @ [[md_bump m]]"

definition execute_pull ::
  "env \<Rightarrow> pull_accounts \<Rightarrow> pubkey list \<Rightarrow> store \<Rightarrow> verror + (store \<times> vela_event list)" where
  "execute_pull E c remaining s =
     (case anchor_account E KTokenConfig dec_token_config s (pu_token_config c) of
        Inl e \<Rightarrow> Inl e | Inr tc \<Rightarrow>
     (case require_all (pull_constraints E c tc) of Inl e \<Rightarrow> Inl e | Inr _ \<Rightarrow>
     (case load_keeper_config E s (pu_keeper_config c) of Inl e \<Rightarrow> Inl e | Inr kc \<Rightarrow>
     (case load_protocol_config E s (pu_protocol_config c) of Inl e \<Rightarrow> Inl e | Inr pc \<Rightarrow>
     (case require_all (pull_config_checks c pc) of Inl e \<Rightarrow> Inl e | Inr _ \<Rightarrow>
     (case load_plan_account E s (pu_plan c) of Inl e \<Rightarrow> Inl e | Inr current_plan \<Rightarrow>
     (case load_mandate_account E s (pu_mandate c) of Inl e \<Rightarrow> Inl e | Inr l \<Rightarrow>
     (case validate_loaded_mandate_address E (pu_mandate c) l of Inl e \<Rightarrow> Inl e | Inr _ \<Rightarrow>
      let legacy_layout = lm_is_legacy l; mandate = lm_into_current l; now = unix_timestamp E in
     (case require_all (pull_checks E c pc kc tc current_plan mandate) of Inl e \<Rightarrow> Inl e | Inr _ \<Rightarrow>
     (case mandate_billing_period mandate of Inl e \<Rightarrow> Inl e | Inr (period_start, period_end) \<Rightarrow>
      let usage = (md_billing_type mandate = Usage) in
      if usage \<and> remaining = [] then Inl (Vela PeriodMismatch) else
     (case apply_pending_change E s remaining (if usage then 1 else 0) current_plan mandate of
        Inl e \<Rightarrow> Inl e | Inr (mandate, active_plan, auto_applied_change) \<Rightarrow>
     (case pull_approval_for E s (pu_pull_approval c) (pu_mandate c) period_start period_end of
        Inl e \<Rightarrow> Inl e | Inr approval \<Rightarrow>
     (case (if usage
            then validate_usage_report_for_settlement E s (hd remaining) (pu_mandate c) (md_merchant mandate)
                   (pa_period_start approval) (pa_period_end approval)
            else Inr ()) of Inl e \<Rightarrow> Inl e | Inr _ \<Rightarrow>
     (case base_charge active_plan mandate (pa_approved_amount approval) of Inl e \<Rightarrow> Inl e | Inr base \<Rightarrow>
      let (charge_amount, mandate) = use_credit base mandate in
     (case (if 0 < charge_amount
            then invoke_billing_transfer E c tc charge_amount [pull_signer_seeds legacy_layout mandate]
                   (md_merchant mandate) s
            else Inr s) of Inl e \<Rightarrow> Inl e | Inr s1 \<Rightarrow>
     (case count_pull now mandate of Inl e \<Rightarrow> Inl e | Inr mandate \<Rightarrow>
     (case write_mandate E (pu_mandate c) mandate legacy_layout s1 of Inl e \<Rightarrow> Inl e | Inr s2 \<Rightarrow>
     (case (if usage then mark_usage_report_settled (hd remaining) s2 else Inr s2) of
        Inl e \<Rightarrow> Inl e | Inr s3 \<Rightarrow>
     (case close_program_account (pu_pull_approval c) (pu_payer c) s3 of Inl e \<Rightarrow> Inl e | Inr s4 \<Rightarrow>
      Inr (s4, case auto_applied_change of None \<Rightarrow> []
               | Some (old_plan, new_plan, applied_at) \<Rightarrow>
                   [MandateUpgradeFinalized 1 (pu_mandate c) (pu_wrapped_usdc_mint c)
                      (event_token_symbol (pu_wrapped_usdc_mint c) (lpc_wrapped_usdc_mint pc)) old_plan new_plan
                      (i64_of 0) 2 applied_at now]))))))))))))))))))))"

end
