(* ===== verification/Mandate_Lifecycle.thy ===== *)
theory Mandate_Lifecycle
  imports Billing Machine
begin

text \<open>
  What the handlers of subscriptions and billing do to a stored mandate: a transition system
  on the mandate, the proof that every handler makes one of its steps on the mandate it is
  given and leaves every other mandate alone, and what follows for every sequence of them.
\<close>

section \<open>The transition system\<close>

datatype mandate_op =
    StepCancel
  | StepSchedule pubkey pubkey u64 u64
  | StepCallOff pubkey
  | StepPull i64 "(pubkey \<times> loaded_plan) option" u64
  | StepKeep

text \<open>
  A schedule names its signer, the new plan with its amount, and the slot; a pull its time,
  the plan it changes to first (if a change is due) and the amount before credit.
\<close>

definition changed_plan :: "(pubkey \<times> loaded_plan) option \<Rightarrow> vela_mandate \<Rightarrow> vela_mandate" where
  "changed_plan change m = (case change of None \<Rightarrow> m | Some (k, p) \<Rightarrow> apply_plan k p m)"

definition pull_step_checks ::
  "i64 \<Rightarrow> (pubkey \<times> loaded_plan) option \<Rightarrow> u64 \<Rightarrow> vela_mandate \<Rightarrow> (bool \<times> verror) list" where
  "pull_step_checks now change base m =
     [(md_status m = MandateActive, Vela MandateNotActive),
      (md_last_billing_recorded_pull m = md_pulls_executed m, Vela PendingBillingRecord),
      (i64_of 0 < md_expiry m \<longrightarrow> now < md_expiry m, Vela MandateExpired),
      (md_pulls_executed m < md_max_pulls m, Vela MaxPullsExceeded),
      (md_next_payment_due m \<le> now, Vela PullTooEarly),
      (change \<noteq> None \<longleftrightarrow> md_pending_change_type m = 2 \<and> md_pending_effective_at m \<le> now,
       Vela PendingPlanAccountMissing),
      (case change of None \<Rightarrow> True
       | Some (k, p) \<Rightarrow> k = md_pending_new_plan m \<and> lp_merchant p = md_merchant m \<and>
           lp_billing_type p = md_billing_type m, Vela UnauthorizedUpgrade),
      (base \<le> md_amount (changed_plan change m), Vela AmountExceedsPlanAmount)]"

fun mandate_step :: "mandate_op \<Rightarrow> vela_mandate \<Rightarrow> verror + vela_mandate" where
  "mandate_step StepCancel m =
     (if md_status m \<noteq> MandateActive then Inl (Vela MandateNotActive)
      else Inr (m\<lparr>md_status := MandateCancelled\<rparr>))"
| "mandate_step (StepSchedule signer new_plan new_amount now_slot) m =
     (case require_all
         [(md_status m = MandateActive, Vela MandateNotActive),
          (signer = md_subscriber m \<or> signer = md_merchant m, Vela UnauthorizedUpgrade),
          (md_amount m < new_amount \<longrightarrow> signer = md_subscriber m, Vela UnauthorizedUpgrade)] of
        Inl e \<Rightarrow> Inl e | Inr _ \<Rightarrow> Inr (schedule_pending new_plan now_slot m))"
| "mandate_step (StepCallOff signer) m =
     (case require_all
         [(md_status m = MandateActive, Vela MandateNotActive),
          (has_pending_change m, Vela NoPendingChange),
          (signer = md_subscriber m \<or> signer = md_merchant m, Vela UnauthorizedUpgrade)] of
        Inl e \<Rightarrow> Inl e | Inr _ \<Rightarrow> Inr ((clear_pending m)\<lparr>md_version := CURRENT_ACCOUNT_VERSION\<rparr>))"
| "mandate_step (StepPull now change base) m =
     (case require_all (pull_step_checks now change base m) of Inl e \<Rightarrow> Inl e | Inr _ \<Rightarrow>
      count_pull now (snd (use_credit base (changed_plan change m))))"
| "mandate_step StepKeep m = Inr m"

text \<open>What a pull does to the counters and dates of a mandate.\<close>

lemma count_pull_Inr:
  assumes "count_pull now m = Inr m'"
  shows "unat (md_pulls_executed m') = unat (md_pulls_executed m) + 1"
    "sval (md_next_payment_due m') = sval (md_next_payment_due m) + uint (md_frequency m)"
    "md_last_pull_at m' = now" "md_credit_balance m' = md_credit_balance m"
    "md_last_billing_recorded_pull m' =
       (if md_billing_type m = Usage then md_pulls_executed m' else md_last_billing_recorded_pull m)"
    "md_status m' = (if md_max_pulls m \<le> md_pulls_executed m' then MandateIsExpired else md_status m)"
    "m' = m\<lparr>md_pulls_executed := md_pulls_executed m', md_next_payment_due := md_next_payment_due m',
       md_last_pull_at := md_last_pull_at m', md_last_billing_recorded_pull := md_last_billing_recorded_pull m',
       md_status := md_status m'\<rparr>"
proof -
  obtain f n d where f: "i64_try_from_u64 (md_frequency m) = Some f"
    "checked_add (md_pulls_executed m) 1 = Some n" "i64_checked_add (md_next_payment_due m) f = Some d"
    and m': "m' = (let x = m\<lparr>md_pulls_executed := n, md_next_payment_due := d, md_last_pull_at := now\<rparr>;
        x = (if md_billing_type x = Usage then x\<lparr>md_last_billing_recorded_pull := n\<rparr> else x)
      in if md_max_pulls x \<le> n then x\<lparr>md_status := MandateIsExpired\<rparr> else x)"
    using assms by (auto simp: count_pull_def ok_simps Let_def)
  have n: "unat n = unat (md_pulls_executed m) + 1" "sval d = sval (md_next_payment_due m) + uint (md_frequency m)"
    using f by (simp_all add: arith_simps)
  show "unat (md_pulls_executed m') = unat (md_pulls_executed m) + 1"
    "sval (md_next_payment_due m') = sval (md_next_payment_due m) + uint (md_frequency m)"
    "md_last_pull_at m' = now" "md_credit_balance m' = md_credit_balance m"
    "md_last_billing_recorded_pull m' =
       (if md_billing_type m = Usage then md_pulls_executed m' else md_last_billing_recorded_pull m)"
    "md_status m' = (if md_max_pulls m \<le> md_pulls_executed m' then MandateIsExpired else md_status m)"
    "m' = m\<lparr>md_pulls_executed := md_pulls_executed m', md_next_payment_due := md_next_payment_due m',
       md_last_pull_at := md_last_pull_at m', md_last_billing_recorded_pull := md_last_billing_recorded_pull m',
       md_status := md_status m'\<rparr>"
    using n by (simp_all add: m' Let_def)
qed

lemma apply_plan_fields [simp]:
  "md_subscriber (apply_plan k p m) = md_subscriber m" "md_merchant (apply_plan k p m) = md_merchant m"
  "md_start_date (apply_plan k p m) = md_start_date m" "md_expiry (apply_plan k p m) = md_expiry m"
  "md_pulls_executed (apply_plan k p m) = md_pulls_executed m"
  "md_next_payment_due (apply_plan k p m) = md_next_payment_due m"
  "md_last_billing_recorded_pull (apply_plan k p m) = md_last_billing_recorded_pull m"
  "md_status (apply_plan k p m) = md_status m" "md_bump (apply_plan k p m) = md_bump m"
  "md_mandate_index (apply_plan k p m) = md_mandate_index m"
  "md_version (apply_plan k p m) = CURRENT_ACCOUNT_VERSION" "valid_vela_mandate (apply_plan k p m)"
  "md_amount (apply_plan k p m) = lp_mandate_amount p" "md_frequency (apply_plan k p m) = lp_mandate_frequency p"
  "md_max_pulls (apply_plan k p m) = lp_max_pulls p" "md_plan (apply_plan k p m) = k"
  "md_billing_type (apply_plan k p m) = lp_billing_type p" "md_pending_change_type (apply_plan k p m) = 0"
  "md_credit_balance (apply_plan k p m) = md_credit_balance m"
  by (simp_all add: apply_plan_def clear_pending_def valid_vela_mandate_def)

lemma use_credit_snd:
  "snd (use_credit base m) = m\<lparr>md_credit_balance := saturating_sub (md_credit_balance m) (min base (md_credit_balance m))\<rparr>"
  by (simp add: use_credit_def Let_def)

text \<open>
  The order of the life of a mandate: who it is between never changes, pulls and due dates
  only go forward, and a mandate that is not active any more stays as it is.
\<close>

definition mandate_le :: "vela_mandate \<Rightarrow> vela_mandate \<Rightarrow> bool" where
  "mandate_le m m' \<longleftrightarrow>
     md_subscriber m' = md_subscriber m \<and> md_merchant m' = md_merchant m \<and>
     md_mandate_index m' = md_mandate_index m \<and> md_bump m' = md_bump m \<and>
     md_start_date m' = md_start_date m \<and> md_expiry m' = md_expiry m \<and>
     md_billing_type m' = md_billing_type m \<and>
     md_pulls_executed m \<le> md_pulls_executed m' \<and> md_next_payment_due m \<le> md_next_payment_due m' \<and>
     md_credit_balance m' \<le> md_credit_balance m \<and>
     (md_status m \<noteq> MandateActive \<longrightarrow> m' = m)"

definition mandate_inv :: "vela_mandate \<Rightarrow> bool" where
  "mandate_inv m \<longleftrightarrow> valid_vela_mandate m \<and> md_version m = CURRENT_ACCOUNT_VERSION \<and>
     md_last_billing_recorded_pull m \<le> md_pulls_executed m \<and>
     (md_status m = MandateActive \<longrightarrow> md_pulls_executed m < md_max_pulls m)"

lemma pull_step_Inr:
  assumes "mandate_step (StepPull now change base) m = Inr m'"
  shows "list_all fst (pull_step_checks now change base m)"
    "count_pull now (snd (use_credit base (changed_plan change m))) = Inr m'"
  using assms unfolding mandate_step.simps case_sum_Inr require_all_Inr by blast+

lemma changed_plan_fields [simp]:
  "md_subscriber (changed_plan ch m) = md_subscriber m" "md_merchant (changed_plan ch m) = md_merchant m"
  "md_start_date (changed_plan ch m) = md_start_date m" "md_expiry (changed_plan ch m) = md_expiry m"
  "md_pulls_executed (changed_plan ch m) = md_pulls_executed m"
  "md_next_payment_due (changed_plan ch m) = md_next_payment_due m"
  "md_last_billing_recorded_pull (changed_plan ch m) = md_last_billing_recorded_pull m"
  "md_status (changed_plan ch m) = md_status m" "md_bump (changed_plan ch m) = md_bump m"
  "md_mandate_index (changed_plan ch m) = md_mandate_index m"
  "md_credit_balance (changed_plan ch m) = md_credit_balance m"
  by (auto simp: changed_plan_def split: option.splits)

lemma changed_plan_storable:
  "valid_vela_mandate m \<Longrightarrow> md_version m = CURRENT_ACCOUNT_VERSION \<Longrightarrow>
     valid_vela_mandate (changed_plan ch m) \<and> md_version (changed_plan ch m) = CURRENT_ACCOUNT_VERSION"
  by (auto simp: changed_plan_def split: option.splits)

lemma changed_plan_type:
  "list_all fst (pull_step_checks now ch base m) \<Longrightarrow> md_billing_type (changed_plan ch m) = md_billing_type m"
  by (auto simp: changed_plan_def pull_step_checks_def split: option.splits)

lemma pull_step_effect:
  assumes "mandate_step (StepPull now change base) m = Inr m'" "mandate_inv m"
  shows "mandate_inv m' \<and> mandate_le m m' \<and> md_status m = MandateActive"
proof -
  note p = pull_step_Inr [OF assms(1)]
  let ?m1 = "snd (use_credit base (changed_plan change m))"
  note c = count_pull_Inr [OF p(2)]
  have act: "md_status m = MandateActive" "md_last_billing_recorded_pull m = md_pulls_executed m"
    using p(1) by (simp_all add: pull_step_checks_def)
  have m1: "md_subscriber ?m1 = md_subscriber m" "md_merchant ?m1 = md_merchant m"
    "md_mandate_index ?m1 = md_mandate_index m" "md_bump ?m1 = md_bump m" "md_start_date ?m1 = md_start_date m"
    "md_expiry ?m1 = md_expiry m" "md_billing_type ?m1 = md_billing_type m"
    "md_pulls_executed ?m1 = md_pulls_executed m" "md_next_payment_due ?m1 = md_next_payment_due m"
    "md_status ?m1 = md_status m" "md_last_billing_recorded_pull ?m1 = md_last_billing_recorded_pull m"
    by (simp_all add: use_credit_snd changed_plan_type [OF p(1)])
  have credit: "md_credit_balance ?m1 \<le> md_credit_balance m"
    by (simp add: use_credit_snd word_le_nat_alt arith_simps)
  have valid: "valid_vela_mandate ?m1 \<and> md_version ?m1 = CURRENT_ACCOUNT_VERSION"
    using changed_plan_storable [of m change] assms(2)
    by (simp add: use_credit_snd mandate_inv_def valid_vela_mandate_def)
  obtain a b d e g where m': "m' = ?m1\<lparr>md_pulls_executed := a, md_next_payment_due := b,
      md_last_pull_at := d, md_last_billing_recorded_pull := e, md_status := g\<rparr>"
    using c(7) by blast
  have le: "md_pulls_executed m \<le> md_pulls_executed m'"
    using c(1) m1(8) by (simp add: word_le_nat_alt)
  have due: "md_next_payment_due m \<le> md_next_payment_due m'"
    using c(2) m1(9) by (simp add: less_eq_i64_def)
  have fields: "md_subscriber m' = md_subscriber m" "md_merchant m' = md_merchant m"
    "md_mandate_index m' = md_mandate_index m" "md_bump m' = md_bump m" "md_start_date m' = md_start_date m"
    "md_expiry m' = md_expiry m" "md_billing_type m' = md_billing_type m" "md_max_pulls m' = md_max_pulls ?m1"
    using m1 by (simp_all add: m')
  have "valid_vela_mandate m' \<and> md_version m' = CURRENT_ACCOUNT_VERSION"
    using valid by (simp add: m' valid_vela_mandate_def)
  moreover have "md_last_billing_recorded_pull m' \<le> md_pulls_executed m'"
    using c(5) m1(11) act(2) le by simp
  moreover have "md_status m' = MandateActive \<Longrightarrow> md_pulls_executed m' < md_max_pulls m'"
    using c(6) fields(8) by (auto split: if_splits)
  ultimately show ?thesis
    using fields le due credit c(4) act(1) by (simp add: mandate_inv_def mandate_le_def)
qed

lemma schedule_call_off_effect:
  assumes "mandate_inv m"
  shows "mandate_step (StepSchedule a b c d) m = Inr m' \<Longrightarrow> mandate_inv m' \<and> mandate_le m m'"
    "mandate_step (StepCallOff a) m = Inr m' \<Longrightarrow> mandate_inv m' \<and> mandate_le m m'"
  using assms
  by (auto simp: case_sum_Inr ok_simps schedule_pending_def clear_pending_def mandate_inv_def mandate_le_def
      valid_vela_mandate_def)

lemma mandate_step_effect:
  assumes "mandate_step x m = Inr m'" "mandate_inv m"
  shows "mandate_inv m' \<and> mandate_le m m'"
proof (cases x)
  case StepCancel
  then show ?thesis using assms by (auto simp: mandate_inv_def mandate_le_def valid_vela_mandate_def split: if_splits)
next
  case StepSchedule
  then show ?thesis using schedule_call_off_effect(1) [OF assms(2)] assms(1) by blast
next
  case StepCallOff
  then show ?thesis using schedule_call_off_effect(2) [OF assms(2)] assms(1) by blast
next
  case StepPull
  then show ?thesis using pull_step_effect [OF _ assms(2)] assms(1) by blast
next
  case StepKeep
  then show ?thesis using assms by (auto simp: mandate_inv_def mandate_le_def)
qed

interpretation mandate_machine: monotone_machine mandate_step mandate_inv mandate_le
proof unfold_locales
  show "mandate_inv s \<Longrightarrow> mandate_step x s = Inr s' \<Longrightarrow> mandate_inv s'" for s x s'
    using mandate_step_effect by blast
  show "mandate_le s s" for s by (simp add: mandate_le_def)
  show "mandate_le s t \<Longrightarrow> mandate_le t u \<Longrightarrow> mandate_le s u" for s t u
    by (auto simp: mandate_le_def)
  show "mandate_inv s \<Longrightarrow> mandate_step x s = Inr s' \<Longrightarrow> mandate_le s s'" for s x s'
    using mandate_step_effect by blast
qed

section \<open>Current mandates in the store\<close>

text \<open>
  The lemmas are about mandates in the current layout. A legacy mandate has no place for a
  pending change or a credit, so the transition system does not describe it.
\<close>

definition current_mandate :: "env \<Rightarrow> store \<Rightarrow> pubkey \<Rightarrow> verror + vela_mandate" where
  "current_mandate E s k =
     (case load_mandate_account E s k of
        Inr (CurrentMandate m) \<Rightarrow> Inr m
      | Inr (LegacyMandate _) \<Rightarrow> Inl (Vela MandateVersionUnsupported)
      | Inl e \<Rightarrow> Inl e)"

abbreviation write_current_mandate :: "env \<Rightarrow> pubkey \<Rightarrow> vela_mandate \<Rightarrow> store \<Rightarrow> verror + store" where
  "write_current_mandate E k m \<equiv> write_mandate E k m False"

abbreviation storable_current :: "vela_mandate \<Rightarrow> bool" where
  "storable_current m \<equiv> valid_vela_mandate m \<and> md_version m = CURRENT_ACCOUNT_VERSION"

lemma current_mandate_Inr:
  "current_mandate E s k = Inr m \<longleftrightarrow> load_mandate_account E s k = Inr (CurrentMandate m)"
  by (auto simp: current_mandate_def split: sum.splits loaded_mandate.splits)

interpretation current_store: stored_account current_mandate write_current_mandate storable_current
proof unfold_locales
  fix E E' :: env and k j :: pubkey and x :: vela_mandate and s s' :: store
  have put: "write_mandate_account E k (CurrentMandate x) = write_current_mandate E k x"
    by (intro ext) (simp add: write_mandate_account_def)
  show "write_current_mandate E k x s = Inr s' \<Longrightarrow> storable_current x \<Longrightarrow> acc_owner (s k) = program_id \<Longrightarrow>
      current_mandate E s' k = Inr x"
    using mandate_store.load_written [of E k "CurrentMandate x" s s']
    by (simp add: put current_mandate_Inr storable_mandate_def)
  show "write_current_mandate E k x s = Inr s' \<Longrightarrow> j \<noteq> k \<Longrightarrow> s' j = s j"
    using mandate_store.write_frame [of E k "CurrentMandate x"] by (simp add: put)
  show "write_current_mandate E k x s = Inr s' \<Longrightarrow>
      acc_owner (s' k) = acc_owner (s k) \<and> acc_lamports (s' k) = acc_lamports (s k)"
    using mandate_store.write_keeps [of E k "CurrentMandate x"] by (simp add: put)
  show "current_mandate E s k = Inr x \<Longrightarrow> storable_current x"
    using mandate_store.load_storable [of E s k "CurrentMandate x"]
    by (simp add: current_mandate_Inr storable_mandate_def)
  show "current_mandate E s k = Inr x \<Longrightarrow> acc_owner (s k) = program_id"
    using mandate_store.load_owner [of E s k] by (simp add: current_mandate_Inr)
  show "acc_owner (s' k) = acc_owner (s k) \<Longrightarrow> acc_data (s' k) = acc_data (s k) \<Longrightarrow>
      current_mandate E s' k = current_mandate E s k"
    using mandate_store.load_local [of s' k s E] by (simp add: current_mandate_def)
  show "disc E' = disc E \<Longrightarrow> current_mandate E' s k = current_mandate E s k"
    using mandate_store.load_disc [of E' E s k] by (simp add: current_mandate_def)
qed

text \<open>What a handler does to the stored mandates: a step on one, nothing on the others.\<close>

definition mandates_kept :: "env \<Rightarrow> store \<Rightarrow> store \<Rightarrow> bool" where
  "mandates_kept E s s' \<longleftrightarrow> (\<forall>j m. current_mandate E s j = Inr m \<longrightarrow> current_mandate E s' j = Inr m)"

definition mandate_effect :: "env \<Rightarrow> pubkey \<Rightarrow> mandate_op \<Rightarrow> store \<Rightarrow> store \<Rightarrow> bool" where
  "mandate_effect E k x s s' \<longleftrightarrow>
     (\<forall>m. current_mandate E s k = Inr m \<longrightarrow>
        (\<exists>m'. mandate_step x m = Inr m' \<and> current_mandate E s' k = Inr m')) \<and>
     (\<forall>j m. j \<noteq> k \<longrightarrow> current_mandate E s j = Inr m \<longrightarrow> current_mandate E s' j = Inr m)"

named_theorems kept_intros

lemma mandates_kept_refl [kept_intros]: "mandates_kept E s s"
  by (simp add: mandates_kept_def)

lemma mandates_kept_trans: "mandates_kept E s s1 \<Longrightarrow> mandates_kept E s1 s2 \<Longrightarrow> mandates_kept E s s2"
  by (simp add: mandates_kept_def)

lemma accounts_kept_mandates [kept_intros]: "accounts_kept s s' \<Longrightarrow> mandates_kept E s s'"
  using current_store.kept_load by (simp add: mandates_kept_def)

lemma call_keeps_mandates [kept_intros]:
  "keeps_program_accounts E \<Longrightarrow> invoke E c seeds s = Inr s' \<Longrightarrow> mandates_kept E s s'"
  by (intro accounts_kept_mandates accounts_kept_call)

text \<open>An account of another kind, or of another owner, is no mandate.\<close>

lemma mandate_starts: "current_mandate E s k = Inr m \<Longrightarrow> starts_with (acc_data (s k)) (disc E KVelaMandate)"
  by (auto simp: current_mandate_Inr load_mandate_account_def Let_def split: if_splits)

lemma other_kind_no_mandate:
  "distinct_discriminators E \<Longrightarrow> starts_with (acc_data (s k)) (disc E j) \<Longrightarrow> j \<noteq> KVelaMandate \<Longrightarrow>
     current_mandate E s k \<noteq> Inr m"
  using mandate_starts [of E s k m] distinct_discriminatorsD(2) [of E "acc_data (s k)"] by blast

lemma touch_keeps_mandates:
  assumes "\<And>m. current_mandate E s k \<noteq> Inr m"
    "\<And>j. j \<noteq> k \<Longrightarrow> acc_owner (s' j) = acc_owner (s j) \<and> acc_data (s' j) = acc_data (s j)"
  shows "mandates_kept E s s'"
proof -
  have "current_mandate E s' j = current_mandate E s j" if "j \<noteq> k" for j
    using assms(2) [OF that] by (intro current_store.load_local) simp_all
  then show ?thesis using assms(1) by (metis mandates_kept_def)
qed

lemma mandate_effect_kept:
  "mandates_kept E s s1 \<Longrightarrow> mandate_effect E k x s1 s2 \<Longrightarrow> mandates_kept E s2 s3 \<Longrightarrow> mandate_effect E k x s s3"
  unfolding mandates_kept_def mandate_effect_def by meson

lemma mandates_kept_effect: "mandates_kept E s s' \<Longrightarrow> mandate_effect E k StepKeep s s'"
  by (simp add: mandates_kept_def mandate_effect_def)

lemma pull_step_storable:
  assumes "mandate_step (StepPull now change base) m = Inr m'" "storable_current m"
  shows "storable_current m'"
proof -
  let ?m1 = "snd (use_credit base (changed_plan change m))"
  have "storable_current ?m1"
    using changed_plan_storable [of m change] assms(2) by (simp add: use_credit_snd valid_vela_mandate_def)
  moreover obtain a b d e g where "m' = ?m1\<lparr>md_pulls_executed := a, md_next_payment_due := b,
      md_last_pull_at := d, md_last_billing_recorded_pull := e, md_status := g\<rparr>"
    using count_pull_Inr(7) [OF pull_step_Inr(2) [OF assms(1)]] by blast
  ultimately show ?thesis by (simp add: valid_vela_mandate_def)
qed

lemma mandate_step_storable:
  assumes "mandate_step x m = Inr m'" "storable_current m"
  shows "storable_current m'"
proof (cases x)
  case StepPull
  with assms show ?thesis using pull_step_storable by blast
qed (use assms in \<open>auto simp: ok_simps case_sum_Inr schedule_pending_def clear_pending_def valid_vela_mandate_def
    split: if_splits\<close>)

lemma mandate_effectI:
  assumes "load_mandate_account E s k = Inr l" "mandates_kept E s s1"
    "mandate_step x (lm_into_current l) = Inr m'" "write_mandate E k m' (lm_is_legacy l) s1 = Inr s'"
  shows "mandate_effect E k x s s'"
proof -
  have frame: "s' j = s1 j" if "j \<noteq> k" for j
    using assms(4) that by (auto simp: write_mandate_def write_account_Inr split: if_splits)
  have "current_mandate E s' j = Inr m" if "j \<noteq> k" "current_mandate E s j = Inr m" for j m
  proof -
    have "current_mandate E s' j = current_mandate E s1 j"
      using frame [OF that(1)] by (intro current_store.load_local) simp_all
    then show ?thesis using that(2) assms(2) by (simp add: mandates_kept_def)
  qed
  moreover have "mandate_step x m = Inr m' \<and> current_mandate E s' k = Inr m'"
    if m: "current_mandate E s k = Inr m" for m
  proof -
    have l: "l = CurrentMandate m" using m assms(1) by (simp add: current_mandate_Inr)
    have "current_mandate E s1 k = Inr m" using m assms(2) by (simp add: mandates_kept_def)
    then have "acc_owner (s1 k) = program_id" by (rule current_store.load_owner)
    moreover have "storable_current m'"
      using mandate_step_storable assms(3) current_store.load_storable [OF m] by (simp add: l)
    ultimately show ?thesis
      using current_store.load_written [of E k m' s1 s'] assms(3,4) by (simp add: l)
  qed
  ultimately show ?thesis unfolding mandate_effect_def by blast
qed

text \<open>Writing the merchant's account and closing an account of the program.\<close>

lemma merchant_exit_keeps_mandates:
  assumes "distinct_discriminators E" "anchor_exit k (disc E KMerchantState @ bs) s = Inr s'"
    "starts_with (acc_data (s k)) (disc E KMerchantState)"
  shows "mandates_kept E s s'"
proof (rule touch_keeps_mandates)
  show "current_mandate E s k \<noteq> Inr m" for m
    using assms(1,3) by (rule other_kind_no_mandate) simp
  show "j \<noteq> k \<Longrightarrow> acc_owner (s' j) = acc_owner (s j) \<and> acc_data (s' j) = acc_data (s j)" for j
    using assms(2) by (simp add: anchor_exit_Inr)
qed

lemma close_keeps_mandates:
  "close_program_account k r s = Inr s' \<Longrightarrow> (\<And>m. current_mandate E s k \<noteq> Inr m) \<Longrightarrow> mandates_kept E s s'"
  using close_program_account_data by (intro touch_keeps_mandates [of E s k]) blast+

section \<open>The handlers of subscriptions\<close>

lemma cancellable_mandate_Inr:
  assumes "cancellable_mandate E c s = Inr (legacy, m, plan)"
  obtains l where "load_mandate_account E s (cn_mandate c) = Inr l" "legacy = lm_is_legacy l"
    "m = lm_into_current l" "load_plan_account E s (cn_plan c) = Inr plan"
    "lp_billing_type plan = md_billing_type m" "cn_plan c = md_plan m" "cn_merchant c = lp_merchant plan"
    "md_merchant m = lp_merchant plan"
    "resolve_merchant_credential_mint E s (cn_merchant_state c) (lp_merchant plan) (lp_credential_mint plan) =
       Inr (cn_credential_mint c)"
proof -
  note un = assms [unfolded cancellable_mandate_def]
  from un obtain l where l: "load_mandate_account E s (cn_mandate c) = Inr l"
    unfolding handler_inversion by blast
  note un = un [unfolded l sum.case Let_def]
  from un show thesis
    unfolding handler_inversion require_all_Inr
    by (elim exE conjE) (rule that [OF l], simp_all add: require_plan_billing_type_def ok_simps split: if_splits)
qed

lemma cancel_Inr:
  assumes "cancel E c s = Inr s'"
  obtains legacy m plan s1 s2 where "cancellable_mandate E c s = Inr (legacy, m, plan)"
    "is_signer E (cn_authority c)" "md_subscriber m = cn_subscriber c" "cn_authority c = cn_subscriber c"
    "md_status m = MandateActive"
    "invoke E (Burn (cn_credential_mint c) (cn_subscriber_credential_account c) (cn_authority c) 1) [] s = Inr s1"
    "s2 = s1 \<or> invoke E (RevokeDelegate (cn_token_program c) (cn_subscriber_token_account c) (cn_authority c)) [] s1 = Inr s2"
    "write_mandate E (cn_mandate c) (m\<lparr>md_status := MandateCancelled\<rparr>) legacy s2 = Inr s'"
proof -
  note un = assms [unfolded cancel_def]
  from un obtain q where q: "cancellable_mandate E c s = Inr q" unfolding handler_inversion by blast
  obtain legacy m plan where qs: "q = (legacy, m, plan)" by (cases q)
  note un = un [unfolded q qs sum.case prod.case]
  from un obtain s1 where s1: "invoke E (Burn (cn_credential_mint c) (cn_subscriber_credential_account c)
      (cn_authority c) 1) [] s = Inr s1" unfolding handler_inversion by blast
  note un = un [unfolded s1 sum.case]
  from un obtain s2 where s2: "(if acc_owner (s1 (cn_subscriber_token_account c)) = cn_token_program c \<and>
               \<not> data_is_empty (s1 (cn_subscriber_token_account c))
            then invoke E (RevokeDelegate (cn_token_program c) (cn_subscriber_token_account c) (cn_authority c)) [] s1
            else Inr s1) = Inr s2" and
    wr: "write_mandate E (cn_mandate c) (m\<lparr>md_status := MandateCancelled\<rparr>) legacy s2 = Inr s'"
    unfolding case_sum_Inr by blast
  from s2 have "s2 = s1 \<or> invoke E (RevokeDelegate (cn_token_program c) (cn_subscriber_token_account c)
      (cn_authority c)) [] s1 = Inr s2" by (auto split: if_splits)
  with q wr s1 un show thesis
    unfolding qs case_sum_Inr require_all_Inr by (elim exE conjE) (rule that, auto)
qed

lemma cancel_effect:
  assumes "cancel E c s = Inr s'" "keeps_program_accounts E"
  shows "mandate_effect E (cn_mandate c) StepCancel s s'"
  using assms(1)
proof (cases rule: cancel_Inr)
  case (1 legacy m plan s1 s2)
  obtain l where l: "load_mandate_account E s (cn_mandate c) = Inr l" "legacy = lm_is_legacy l" "m = lm_into_current l"
    using 1(1) by (rule cancellable_mandate_Inr)
  have "accounts_kept s s1" using 1(6) by (rule accounts_kept_call [OF assms(2)])
  moreover have "accounts_kept s1 s2" using 1(7) accounts_kept_call [OF assms(2)] by auto
  ultimately have "mandates_kept E s s2" by (intro accounts_kept_mandates) (rule accounts_kept_trans)
  then show ?thesis using mandate_effectI [OF l(1), of s2 StepCancel] 1(5,8) by (simp add: l)
qed

lemma admin_cancel_Inr:
  assumes "admin_cancel E c s = Inr s'"
  obtains legacy m plan s1 pc authority seeds where "cancellable_mandate E c s = Inr (legacy, m, plan)"
    "is_signer E (cn_authority c)" "load_protocol_config E s (cn_protocol_config c) = Inr pc"
    "cn_protocol_config c = pda E [protocol_config_seed]"
    "cn_authority c = lpc_admin pc" "md_subscriber m = cn_subscriber c" "md_status m = MandateActive"
    "invoke E (Burn (cn_credential_mint c) (cn_subscriber_credential_account c) authority 1) seeds s = Inr s1"
    "write_mandate E (cn_mandate c) (m\<lparr>md_status := MandateCancelled\<rparr>) legacy s1 = Inr s'"
proof -
  note un = assms [unfolded admin_cancel_def]
  from un obtain q where q: "cancellable_mandate E c s = Inr q" unfolding handler_inversion by blast
  obtain legacy m plan where qs: "q = (legacy, m, plan)" by (cases q)
  note un = un [unfolded q qs sum.case prod.case]
  from un q show thesis
    unfolding qs handler_inversion require_all_Inr by (elim exE conjE) (rule that, auto)
qed

lemma admin_cancel_effect:
  assumes "admin_cancel E c s = Inr s'" "keeps_program_accounts E"
  shows "mandate_effect E (cn_mandate c) StepCancel s s'"
  using assms(1)
proof (cases rule: admin_cancel_Inr)
  case (1 legacy m plan s1 pc authority seeds)
  obtain l where l: "load_mandate_account E s (cn_mandate c) = Inr l" "legacy = lm_is_legacy l" "m = lm_into_current l"
    using 1(1) by (rule cancellable_mandate_Inr)
  have "mandates_kept E s s1" using 1(8) by (rule call_keeps_mandates [OF assms(2)])
  then show ?thesis using mandate_effectI [OF l(1), of s1 StepCancel] 1(7,9) by (simp add: l)
qed

lemma active_current_mandate_Inr:
  "active_current_mandate E s k = Inr m \<longleftrightarrow>
     current_mandate E s k = Inr m \<and> md_status m = MandateActive \<and>
     validate_loaded_mandate_address E k (CurrentMandate m) = Inr ()"
proof (cases "load_mandate_account E s k")
  case (Inr l)
  then show ?thesis by (cases l) (auto simp: active_current_mandate_def current_mandate_def ok_simps)
qed (simp add: active_current_mandate_def current_mandate_def)

lemma write_current_effect:
  assumes "current_mandate E s k = Inr m" "mandate_step x m = Inr m'" "write_current_mandate E k m' s = Inr s'"
  shows "mandate_effect E k x s s'"
  using mandate_effectI [of E s k "CurrentMandate m" s x m' s'] assms mandates_kept_refl [of E s]
  by (simp add: current_mandate_Inr)

lemma schedule_plan_change_Inr:
  assumes "schedule_plan_change E c s = Inr (s', ev)"
  obtains m plan where "is_signer E (ma_authority c)" "current_mandate E s (ma_mandate c) = Inr m"
    "load_plan_account E s (ma_plan c) = Inr plan" "lp_status plan = PlanActive"
    "lp_merchant plan = md_merchant m"
    "mandate_step (StepSchedule (ma_authority c) (ma_plan c) (lp_mandate_amount plan) (slot E)) m =
       Inr (schedule_pending (ma_plan c) (slot E) m)"
    "s' = s \<or> write_current_mandate E (ma_mandate c) (schedule_pending (ma_plan c) (slot E) m) s = Inr s'"
proof -
  note un = assms [unfolded schedule_plan_change_def]
  from un obtain m where m: "active_current_mandate E s (ma_mandate c) = Inr m" unfolding handler_inversion by blast
  note un = un [unfolded m sum.case]
  from un obtain plan where p: "load_plan_account E s (ma_plan c) = Inr plan" unfolding handler_inversion by blast
  note un = un [unfolded p sum.case Let_def]
  have sg: "is_signer E (ma_authority c)"
    and ok: "lp_status plan = PlanActive" "lp_merchant plan = md_merchant m"
    "ma_authority c = md_subscriber m \<or> ma_authority c = md_merchant m"
    "md_amount m < lp_mandate_amount plan \<longrightarrow> ma_authority c = md_subscriber m"
    using un unfolding case_sum_Inr if_Inl_Inr require_all_Inr by auto
  have w: "s' = s \<or> write_current_mandate E (ma_mandate c) (schedule_pending (ma_plan c) (slot E) m) s = Inr s'"
    using un unfolding case_sum_Inr if_Inl_Inr
    by (elim exE conjE) (auto simp: ok_simps split: if_splits)
  from ok have step: "mandate_step (StepSchedule (ma_authority c) (ma_plan c) (lp_mandate_amount plan) (slot E)) m =
       Inr (schedule_pending (ma_plan c) (slot E) m)"
    using m by (simp add: active_current_mandate_Inr)
  show thesis
    by (rule that [OF sg _ p ok(1,2) step w]) (use m in \<open>simp add: active_current_mandate_Inr\<close>)
qed

lemma schedule_plan_change_effect:
  assumes "schedule_plan_change E c s = Inr (s', ev)"
  shows "\<exists>x. (x = StepKeep \<or> (\<exists>a. x = StepSchedule (ma_authority c) (ma_plan c) a (slot E))) \<and>
    mandate_effect E (ma_mandate c) x s s'"
  using assms
proof (cases rule: schedule_plan_change_Inr)
  case (1 m plan)
  from 1(7) show ?thesis
  proof
    assume "s' = s"
    then show ?thesis using mandates_kept_effect mandates_kept_refl by blast
  next
    assume "write_current_mandate E (ma_mandate c) (schedule_pending (ma_plan c) (slot E) m) s = Inr s'"
    then show ?thesis using write_current_effect [OF 1(2,6)] by blast
  qed
qed

lemma cancel_plan_change_Inr:
  assumes "cancel_plan_change E c s = Inr (s', ev)"
  obtains m where "is_signer E (ma_authority c)" "current_mandate E s (ma_mandate c) = Inr m"
    "mandate_step (StepCallOff (ma_authority c)) m = Inr ((clear_pending m)\<lparr>md_version := CURRENT_ACCOUNT_VERSION\<rparr>)"
    "write_current_mandate E (ma_mandate c) ((clear_pending m)\<lparr>md_version := CURRENT_ACCOUNT_VERSION\<rparr>) s = Inr s'"
proof -
  note un = assms [unfolded cancel_plan_change_def]
  from un obtain m where m: "active_current_mandate E s (ma_mandate c) = Inr m" unfolding handler_inversion by blast
  note un = un [unfolded m sum.case Let_def]
  show thesis
    using un m unfolding handler_inversion require_all_Inr
    by (elim exE conjE) (rule that, auto simp: active_current_mandate_Inr ok_simps)
qed

lemma cancel_plan_change_effect:
  assumes "cancel_plan_change E c s = Inr (s', ev)"
  shows "mandate_effect E (ma_mandate c) (StepCallOff (ma_authority c)) s s'"
  using assms by (cases rule: cancel_plan_change_Inr) (rule write_current_effect)

text \<open>Creating an account of the program keeps every account it had.\<close>

lemma created_written_kept:
  assumes "accounts_kept s s1" "acc_owner (s k) \<noteq> program_id" "write_mandate E k m legacy s1 = Inr s2"
  shows "accounts_kept s s2"
  using assms(3)
  by (intro accounts_kept_foreign [OF assms(1,2)]) (auto simp: write_mandate_def write_account_Inr split: if_splits)

lemma kept_starts:
  "accounts_kept s s' \<Longrightarrow> acc_owner (s k) = program_id \<Longrightarrow> starts_with (acc_data (s k)) d \<Longrightarrow>
     starts_with (acc_data (s' k)) d"
  by (simp add: accounts_kept_def)

lemma anchor_account_starts:
  "anchor_account E kd dec s k = Inr x \<Longrightarrow>
     acc_owner (s k) = program_id \<and> starts_with (acc_data (s k)) (disc E kd)"
  by (auto simp: anchor_account_Inr intro: try_deserialize_starts)

lemma subscribe_Inr:
  assumes "subscribe E c s = Inr s'"
  obtains ms plan s1 s2 s3 s4 authority sg seeds expiry due m counter where
    "anchor_account E KMerchantState dec_merchant_state s (sb_merchant_state c) = Inr ms"
    "is_signer E (sb_subscriber c)" "load_plan_account E s (sb_plan c) = Inr plan" "lp_status plan = PlanActive"
    "sb_merchant c = lp_merchant plan"
    "sb_mandate c = pda E (mandate_seeds (sb_subscriber c) (lp_merchant plan) (ms_mandate_counter ms))"
    "invoke E (CreateAssociatedTokenIdempotent (sb_subscriber c) (sb_subscriber_credential_account c)
       (sb_subscriber c) (sb_credential_mint c) (sb_token_2022_program c)) [] s = Inr s1"
    "invoke E (CreateAccount (sb_subscriber c) (sb_mandate c) (minimum_balance E vela_mandate_size)
       vela_mandate_size program_id) seeds s1 = Inr s2"
    "invoke E (MintTo (sb_credential_mint c) (sb_subscriber_credential_account c) authority 1) sg s2 = Inr s3"
    "lp_expiry plan (unix_timestamp E) = Inr expiry" "lp_initial_next_payment_due plan (unix_timestamp E) = Inr due"
    "m = new_mandate (sb_subscriber c) (sb_plan c) plan (unix_timestamp E) expiry due
       (snd (find_pda E (mandate_seeds (sb_subscriber c) (lp_merchant plan) (ms_mandate_counter ms)) program_id))
       (ms_mandate_counter ms)"
    "write_current_mandate E (sb_mandate c) m s3 = Inr s4"
    "unat counter = unat (ms_mandate_counter ms) + 1"
    "anchor_exit (sb_merchant_state c)
       (disc E KMerchantState @ enc_merchant_state (ms\<lparr>ms_mandate_counter := counter\<rparr>)) s4 = Inr s'"
proof -
  note un = assms [unfolded subscribe_def]
  from un obtain ms where ms: "anchor_account E KMerchantState dec_merchant_state s (sb_merchant_state c) = Inr ms"
    unfolding handler_inversion by blast
  note un = un [unfolded ms sum.case]
  from un obtain tc where tc: "anchor_account E KTokenConfig dec_token_config s (sb_token_config c) = Inr tc"
    unfolding handler_inversion by blast
  note un = un [unfolded tc sum.case]
  from un have sg: "is_signer E (sb_subscriber c)"
    unfolding case_sum_Inr require_all_Inr subscribe_constraints_def by auto
  from un obtain plan where p: "load_plan_account E s (sb_plan c) = Inr plan"
    unfolding handler_inversion by blast
  note un = un [unfolded p sum.case Let_def]
  from un have ok: "lp_status plan = PlanActive" "sb_merchant c = lp_merchant plan"
      "sb_mandate c = pda E (mandate_seeds (sb_subscriber c) (lp_merchant plan) (ms_mandate_counter ms))"
    unfolding case_sum_Inr require_all_Inr by auto
  from un obtain s1 where s1: "invoke E (CreateAssociatedTokenIdempotent (sb_subscriber c) (sb_subscriber_credential_account c)
       (sb_subscriber c) (sb_credential_mint c) (sb_token_2022_program c)) [] s = Inr s1"
    unfolding handler_inversion by blast
  note un = un [unfolded s1 sum.case]
  from un obtain counter where n: "checked_add (ms_mandate_counter ms) 1 = Some counter"
    unfolding handler_inversion ok_or_Inr by blast
  note un = un [unfolded n ok_or.simps sum.case]
  from un show thesis
    unfolding handler_inversion
    by (elim exE conjE) (rule that [OF ms sg p ok s1], (assumption | rule refl)+,
      use n in \<open>simp_all add: arith_simps\<close>)
qed

lemma subscribe_effect:
  assumes "subscribe E c s = Inr s'" "keeps_program_accounts E" "creates_fresh E" "distinct_discriminators E"
  shows "mandates_kept E s s'"
    "\<exists>ms plan expiry due. load_plan_account E s (sb_plan c) = Inr plan \<and>
       anchor_account E KMerchantState dec_merchant_state s (sb_merchant_state c) = Inr ms \<and>
       lp_expiry plan (unix_timestamp E) = Inr expiry \<and>
       lp_initial_next_payment_due plan (unix_timestamp E) = Inr due \<and>
       current_mandate E s' (sb_mandate c) = Inr (new_mandate (sb_subscriber c) (sb_plan c) plan (unix_timestamp E)
         expiry due (snd (find_pda E (mandate_seeds (sb_subscriber c) (lp_merchant plan) (ms_mandate_counter ms))
         program_id)) (ms_mandate_counter ms)) \<and>
       is_signer E (sb_subscriber c) \<and> lp_status plan = PlanActive \<and> sb_merchant c = lp_merchant plan"
proof -
  obtain ms plan s1 s2 s3 s4 authority sg seeds expiry due m counter where
    ms: "anchor_account E KMerchantState dec_merchant_state s (sb_merchant_state c) = Inr ms" and
    p: "is_signer E (sb_subscriber c)" "load_plan_account E s (sb_plan c) = Inr plan" "lp_status plan = PlanActive"
      "sb_merchant c = lp_merchant plan"
      "lp_expiry plan (unix_timestamp E) = Inr expiry" "lp_initial_next_payment_due plan (unix_timestamp E) = Inr due" and
    s1: "invoke E (CreateAssociatedTokenIdempotent (sb_subscriber c) (sb_subscriber_credential_account c)
       (sb_subscriber c) (sb_credential_mint c) (sb_token_2022_program c)) [] s = Inr s1" and
    s2: "invoke E (CreateAccount (sb_subscriber c) (sb_mandate c) (minimum_balance E vela_mandate_size)
       vela_mandate_size program_id) seeds s1 = Inr s2" and
    s3: "invoke E (MintTo (sb_credential_mint c) (sb_subscriber_credential_account c) authority 1) sg s2 = Inr s3" and
    m: "m = new_mandate (sb_subscriber c) (sb_plan c) plan (unix_timestamp E) expiry due
       (snd (find_pda E (mandate_seeds (sb_subscriber c) (lp_merchant plan) (ms_mandate_counter ms)) program_id))
       (ms_mandate_counter ms)" and
    s4: "write_current_mandate E (sb_mandate c) m s3 = Inr s4" and
    ex: "anchor_exit (sb_merchant_state c)
       (disc E KMerchantState @ enc_merchant_state (ms\<lparr>ms_mandate_counter := counter\<rparr>)) s4 = Inr s'"
    using assms(1) by (cases rule: subscribe_Inr) blast
  let ?k = "sb_mandate c" and ?r = "sb_merchant_state c"
  have fresh: "acc_owner (s1 ?k) = system_program_id" "acc_owner (s2 ?k) = program_id"
    using creates_freshD(2) [OF assms(3) s2] by (simp_all add: created_fresh_def)
  have k1: "accounts_kept s s1" by (rule accounts_kept_call [OF assms(2) s1])
  have k3: "accounts_kept s1 s3"
    using accounts_kept_call [OF assms(2) s2] accounts_kept_call [OF assms(2) s3] by (rule accounts_kept_trans)
  have k4: "accounts_kept s1 s4"
    by (rule created_written_kept [OF k3 _ s4]) (simp add: fresh)
  have kept: "accounts_kept s s4" using k1 k4 by (rule accounts_kept_trans)
  have r: "acc_owner (s ?r) = program_id" "starts_with (acc_data (s ?r)) (disc E KMerchantState)"
    using anchor_account_starts [OF ms] by simp_all
  have r4: "starts_with (acc_data (s4 ?r)) (disc E KMerchantState)" by (rule kept_starts [OF kept r])
  have k5: "mandates_kept E s4 s'" by (rule merchant_exit_keeps_mandates [OF assms(4) ex r4])
  show "mandates_kept E s s'"
    using accounts_kept_mandates [OF kept] k5 by (rule mandates_kept_trans)
  have "acc_owner (s3 ?k) = program_id"
    using accounts_kept_call [OF assms(2) s3] fresh(2) by (simp add: accounts_kept_def)
  then have "current_mandate E s4 ?k = Inr m"
    by (intro current_store.load_written [OF s4]) (simp_all add: m new_mandate_def valid_vela_mandate_def)
  with k5 have "current_mandate E s' ?k = Inr m" by (simp add: mandates_kept_def)
  with ms p show "\<exists>ms plan expiry due. load_plan_account E s (sb_plan c) = Inr plan \<and>
       anchor_account E KMerchantState dec_merchant_state s (sb_merchant_state c) = Inr ms \<and>
       lp_expiry plan (unix_timestamp E) = Inr expiry \<and>
       lp_initial_next_payment_due plan (unix_timestamp E) = Inr due \<and>
       current_mandate E s' (sb_mandate c) = Inr (new_mandate (sb_subscriber c) (sb_plan c) plan (unix_timestamp E)
         expiry due (snd (find_pda E (mandate_seeds (sb_subscriber c) (lp_merchant plan) (ms_mandate_counter ms))
         program_id)) (ms_mandate_counter ms)) \<and>
       is_signer E (sb_subscriber c) \<and> lp_status plan = PlanActive \<and> sb_merchant c = lp_merchant plan"
    unfolding m by blast
qed

text \<open>How many bytes a decoder has read.\<close>

named_theorems decoded_length

lemma decoded_lengths [decoded_length]:
  "dec_word n bs = Some (x, r) \<Longrightarrow> length bs = n + length r" for x :: "'l::len word"
  by (auto simp: dec_word_def split: if_splits)

lemma decoded_length_i64 [decoded_length]: "dec_i64 bs = Some (y, r) \<Longrightarrow> length bs = 8 + length r"
  by (auto simp: dec_i64_def dest: decoded_length)

lemma decoded_length_bytes [decoded_length]: "dec_bytes n bs = Some (z, r) \<Longrightarrow> length bs = n + length r"
  by (auto simp: dec_bytes_def split: if_splits)

lemma decoded_length_u8 [decoded_length]: "dec_u8 bs = Some (b, r) \<Longrightarrow> length bs = 1 + length r"
  by (cases bs) auto

lemma decoded_length_enums [decoded_length]:
  "dec_mandate_status bs = Some (st, r) \<Longrightarrow> length bs = 1 + length r"
  "dec_billing_type bs = Some (t, r) \<Longrightarrow> length bs = 1 + length r"
  by (cases bs; auto split: if_splits)+

lemma dec_vela_mandate_length:
  assumes "dec_vela_mandate bs = Some (m, r)"
  shows "length bs = 260 + length r"
  using assms unfolding dec_vela_mandate_def
  by (elim bind_SomeE) (drule decoded_length | simp)+

lemma current_mandate_length:
  assumes "current_mandate E s k = Inr m" "distinct_discriminators E"
  shows "vela_mandate_size \<le> length (acc_data (s k))"
proof -
  obtain r where "dec_vela_mandate (drop 8 (acc_data (s k))) = Some (m, r)"
    using assms distinct_discriminatorsD(1) [OF assms(2), of KVelaMandate]
    by (auto simp: current_mandate_Inr load_mandate_account_def try_deserialize_def Let_def
        split: if_splits option.splits)
  then have "length (drop 8 (acc_data (s k))) = 260 + length r" by (rule dec_vela_mandate_length)
  then show ?thesis by (simp add: vela_mandate_size_def)
qed

lemma write_current_room:
  assumes "current_mandate E s k = Inr m" "distinct_discriminators E" "accounts_kept s s1" "storable_current m'"
  shows "\<exists>s2. write_current_mandate E k m' s1 = Inr s2"
proof -
  have "acc_data (s1 k) = acc_data (s k)"
    using current_store.load_owner [OF assms(1)] assms(3) by (simp add: accounts_kept_def)
  then have "268 \<le> length (acc_data (s1 k))"
    using current_mandate_length [OF assms(1,2)] by (simp add: vela_mandate_size_def)
  moreover have "length (disc E KVelaMandate @ enc_vela_mandate m') = 268"
    using vela_mandate_codec.length_enc [of m'] distinct_discriminatorsD(1) [OF assms(2)] assms(4) by simp
  ultimately show ?thesis by (auto simp: write_mandate_def write_account_def write_data_def)
qed

lemma ensure_min_mandate_size_kept:
  assumes "ensure_min_mandate_size E p k s = Inr s'" "keeps_program_accounts E" "distinct_discriminators E"
  shows "mandates_kept E s s'"
proof (cases "vela_mandate_size \<le> length (acc_data (s k))")
  case True
  then show ?thesis using assms(1) by (simp add: ensure_min_mandate_size_def mandates_kept_refl)
next
  case False
  then have no: "current_mandate E s k \<noteq> Inr m" for m
    using current_mandate_length [OF _ assms(3)] by blast
  obtain s1 where "(if acc_lamports (s k) < minimum_balance E vela_mandate_size
      then invoke E (SystemTransfer p k (minimum_balance E vela_mandate_size - acc_lamports (s k))) [] s
      else Inr s) = Inr s1" and "\<exists>bs. s' = set_data s1 k bs"
    using assms(1) unfolding ensure_min_mandate_size_def Let_def if_not_P [OF False] case_sum_Inr by blast
  then have s1: "s1 = s \<or> (\<exists>c seeds. invoke E c seeds s = Inr s1)" and "\<exists>bs. s' = set_data s1 k bs"
    by (auto split: if_splits)
  then obtain bs where s': "s' = set_data s1 k bs" by blast
  from s1 have "accounts_kept s s1" using accounts_kept_call [OF assms(2)] by auto
  then have "mandates_kept E s s1" by (intro accounts_kept_mandates)
  moreover have "current_mandate E s' j = current_mandate E s1 j" if "j \<noteq> k" for j
    using that by (intro current_store.load_local) (simp_all add: s')
  ultimately show ?thesis using no by (metis mandates_kept_def)
qed

lemma update_mandate_Inr:
  assumes "update_mandate E c amount frequency max_pulls billing_type plan s = Inr s'"
  obtains l s1 where "load_mandate_account E s (ma_mandate c) = Inr l"
    "is_signer E (ma_authority c)" "md_merchant (lm_into_current l) = ma_authority c"
    "md_status (lm_into_current l) = MandateActive"
    "ensure_min_mandate_size E (ma_authority c) (ma_mandate c) s = Inr s1"
    "write_mandate_account E (ma_mandate c) l s1 = Inr s'"
proof -
  note un = assms [unfolded update_mandate_def]
  from un obtain l where l: "load_mandate_account E s (ma_mandate c) = Inr l"
    unfolding handler_inversion by blast
  note un = un [unfolded l sum.case Let_def]
  from un obtain s1 where s1: "ensure_min_mandate_size E (ma_authority c) (ma_mandate c) s = Inr s1"
    unfolding handler_inversion by blast
  note un = un [unfolded s1 sum.case Let_def]
  show thesis
    using un unfolding case_sum_Inr require_all_Inr
    by (elim exE conjE) (rule that [OF l _ _ _ s1], auto)
qed

lemma update_mandate_effect:
  assumes "update_mandate E c amount frequency max_pulls billing_type plan s = Inr s'"
    "keeps_program_accounts E" "distinct_discriminators E"
  shows "mandate_effect E (ma_mandate c) StepKeep s s'"
  using assms(1)
proof (cases rule: update_mandate_Inr)
  case (1 l s1)
  have wr: "write_mandate E (ma_mandate c) (lm_into_current l) (lm_is_legacy l) s1 = Inr s'"
    using 1(6) by (cases l) (simp_all add: write_mandate_account_def)
  have "mandates_kept E s s1" by (rule ensure_min_mandate_size_kept [OF 1(5) assms(2,3)])
  then show ?thesis using mandate_effectI [OF 1(1) _ _ wr] by simp
qed

lemma close_mandate_Inr:
  assumes "close_mandate E c s = Inr s'"
  obtains l where "load_mandate_account E s (ma_mandate c) = Inr l" "is_signer E (ma_authority c)"
    "ma_authority c = md_subscriber (lm_into_current l)" "ma_subscriber c = md_subscriber (lm_into_current l)"
    "md_status (lm_into_current l) \<noteq> MandateActive"
    "close_program_account (ma_mandate c) (ma_subscriber c) s = Inr s'"
proof -
  note un = assms [unfolded close_mandate_def]
  from un obtain l where l: "load_mandate_account E s (ma_mandate c) = Inr l"
    unfolding handler_inversion by blast
  note un = un [unfolded l sum.case Let_def]
  show thesis
    using un unfolding handler_inversion require_all_Inr
    by (elim exE conjE) (rule that [OF l], auto)
qed

lemma submit_usage_report_Inr:
  assumes "submit_usage_report E c a b cts nonce key s = Inr s'"
  obtains s1 seeds l plan bs where "is_signer E (ra_merchant c)"
    "ra_usage_report c = usage_report_address E (ra_mandate c) a"
    "invoke E (InitAccount (ra_merchant c) (ra_usage_report c) (minimum_balance E usage_report_size)
       usage_report_size program_id) seeds s = Inr s1"
    "load_mandate_account E s1 (ra_mandate c) = Inr l"
    "md_merchant (lm_into_current l) = ra_merchant c" "md_status (lm_into_current l) = MandateActive"
    "md_billing_type (lm_into_current l) = Usage" "md_plan (lm_into_current l) = ra_usage_plan c"
    "load_plan_account E s1 (ra_usage_plan c) = Inr plan" "lp_status plan = PlanActive"
    "mandate_billing_period (lm_into_current l) = Inr (a, b)" "b \<le> unix_timestamp E"
    "anchor_exit (ra_usage_report c) bs s1 = Inr s'"
proof -
  let ?seeds = "[usage_report_seed, key_bytes (ra_mandate c), i64_le a] @
    [[snd (find_pda E [usage_report_seed, key_bytes (ra_mandate c), i64_le a] program_id)]]"
  note un = assms [unfolded submit_usage_report_def Let_def]
  from un obtain s1 where s1: "invoke E (InitAccount (ra_merchant c) (ra_usage_report c)
      (minimum_balance E usage_report_size) usage_report_size program_id) [?seeds] s = Inr s1"
    unfolding handler_inversion by blast
  note un = un [unfolded s1 sum.case]
  from un obtain l where l: "load_mandate_account E s1 (ra_mandate c) = Inr l"
    unfolding handler_inversion by blast
  note un = un [unfolded l sum.case]
  from un obtain plan where p: "load_plan_account E s1 (ra_usage_plan c) = Inr plan"
    unfolding handler_inversion by blast
  note un = un [unfolded p sum.case]
  from un obtain t where "mandate_billing_period (lm_into_current l) = Inr t"
    unfolding handler_inversion by blast
  then obtain ps pe where pr: "mandate_billing_period (lm_into_current l) = Inr (ps, pe)" by (cases t) simp
  note un = un [unfolded pr sum.case prod.case]
  show thesis
    using un unfolding handler_inversion require_all_Inr
    by (elim exE conjE) (rule that [OF _ _ s1 l _ _ _ _ p],
        auto simp: usage_report_address_def pr)
qed

lemma submit_usage_report_effect:
  assumes "submit_usage_report E c a b cts nonce key s = Inr s'" "keeps_program_accounts E" "creates_fresh E"
  shows "accounts_kept s s'"
  using assms(1)
proof (cases rule: submit_usage_report_Inr)
  case (1 s1 seeds l plan bs)
  have "accounts_kept s s1" by (rule accounts_kept_call [OF assms(2) 1(3)])
  then show ?thesis
    using 1(13) creates_freshD(1) [OF assms(3) 1(3)]
    by (elim accounts_kept_foreign [of s s1 "ra_usage_report c"]) (simp_all add: anchor_exit_Inr created_fresh_def)
qed

section \<open>Migrating a mandate\<close>

lemma migrate_mandate_Inr:
  assumes "migrate_mandate E c s = Inr s'"
  obtains ms pc l s1 s2 s3 seeds m bs where
    "anchor_account E KMerchantState dec_merchant_state s (mg_merchant_state c) = Inr ms"
    "is_signer E (mg_admin c)" "load_protocol_config E s (mg_protocol_config c) = Inr pc" "mg_admin c = lpc_admin pc"
    "load_mandate_account E s (mg_legacy_mandate c) = Inr (LegacyMandate l)"
    "invoke E (CreateAccount (mg_admin c) (mg_migrated_mandate c) (minimum_balance E vela_mandate_size)
       vela_mandate_size program_id) seeds s = Inr s1"
    "write_current_mandate E (mg_migrated_mandate c) m s1 = Inr s2"
    "close_program_account (mg_legacy_mandate c) (mg_admin c) s2 = Inr s3"
    "anchor_exit (mg_merchant_state c) (disc E KMerchantState @ bs) s3 = Inr s'"
proof -
  note un = assms [unfolded migrate_mandate_def]
  from un obtain ms where ms: "anchor_account E KMerchantState dec_merchant_state s (mg_merchant_state c) = Inr ms"
    unfolding handler_inversion by blast
  note un = un [unfolded ms sum.case]
  from un obtain pc where pc: "load_protocol_config E s (mg_protocol_config c) = Inr pc" "mg_admin c = lpc_admin pc"
    and sg: "is_signer E (mg_admin c)"
    unfolding case_sum_Inr if_Inl_Inr require_all_Inr by auto
  note un = un [unfolded pc(1) sum.case]
  from un obtain l' where l': "load_mandate_account E s (mg_legacy_mandate c) = Inr l'"
    unfolding handler_inversion by blast
  note un = un [unfolded l' sum.case Let_def]
  from un have "lm_is_legacy l'" unfolding case_sum_Inr if_Inl_Inr by auto
  then obtain l where l: "load_mandate_account E s (mg_legacy_mandate c) = Inr (LegacyMandate l)"
    using l' by (cases l') auto
  show thesis
    using un unfolding handler_inversion
    by (elim exE conjE) (rule that [OF ms sg pc l], assumption+)
qed

lemma migrate_mandate_effect:
  assumes "migrate_mandate E c s = Inr s'" "keeps_program_accounts E" "creates_fresh E" "distinct_discriminators E"
  shows "mandates_kept E s s'"
  using assms(1)
proof (cases rule: migrate_mandate_Inr)
  case (1 ms pc l s1 s2 s3 seeds m bs)
  let ?k = "mg_migrated_mandate c" and ?o = "mg_legacy_mandate c" and ?r = "mg_merchant_state c"
  have "acc_owner (s ?k) = system_program_id"
    using creates_freshD(2) [OF assms(3) 1(6)] by (simp add: created_fresh_def)
  then have kept: "accounts_kept s s2"
    by (intro created_written_kept [OF accounts_kept_call [OF assms(2) 1(6)] _ 1(7)]) simp
  have legacy: "load_mandate_account E s2 ?o = Inr (LegacyMandate l)"
    by (rule mandate_store.kept_load [OF kept 1(5)])
  then have close: "mandates_kept E s2 s3"
    by (intro close_keeps_mandates [OF 1(8)]) (simp add: current_mandate_def)
  have r: "acc_owner (s ?r) = program_id" "starts_with (acc_data (s ?r)) (disc E KMerchantState)"
    using anchor_account_starts [OF 1(1)] by simp_all
  have r2: "starts_with (acc_data (s2 ?r)) (disc E KMerchantState)" by (rule kept_starts [OF kept r])
  have "starts_with (acc_data (s2 ?o)) (disc E KVelaMandate)"
    using legacy by (auto simp: load_mandate_account_def Let_def split: if_splits)
  then have "?r \<noteq> ?o"
    using r2 distinct_discriminatorsD(2) [OF assms(4), of "acc_data (s2 ?o)" KVelaMandate KMerchantState] by auto
  then have "acc_data (s3 ?r) = acc_data (s2 ?r)" using close_program_account_data [OF 1(8)] by simp
  then have "mandates_kept E s3 s'" using merchant_exit_keeps_mandates [OF assms(4) 1(9)] r2 by simp
  then show ?thesis
    using accounts_kept_mandates [OF kept] close mandates_kept_trans by blast
qed

section \<open>A pull\<close>

lemma pull_approval_for_Inr:
  "pull_approval_for E s k mandate a b = Inr approval \<longleftrightarrow>
     k = pda E [pull_approval_seed, key_bytes mandate] \<and> acc_owner (s k) = program_id \<and>
     \<not> data_is_empty (s k) \<and>
     try_deserialize E KPullApproval dec_pull_approval (acc_data (s k)) = Some approval \<and>
     pa_approved approval \<and> pa_mandate approval = mandate \<and> pa_period_start approval = a \<and>
     pa_period_end approval = b \<and> unix_timestamp E \<le> pa_valid_until approval"
  by (auto simp: pull_approval_for_def ok_simps split: option.splits)

lemma apply_pending_change_Inr:
  assumes "apply_pending_change E s remaining i plan m = Inr (m', plan', auto_applied)"
  obtains (None) "\<not> (md_pending_change_type m = 2 \<and> md_pending_effective_at m \<le> unix_timestamp E)"
      "m' = m" "plan' = plan" "auto_applied = None"
  | (Some) "md_pending_change_type m = 2" "md_pending_effective_at m \<le> unix_timestamp E"
      "load_plan_account E s (md_pending_new_plan m) = Inr plan'" "lp_merchant plan' = md_merchant m"
      "lp_status plan' = PlanActive" "lp_billing_type plan' = md_billing_type m"
      "m' = apply_plan (md_pending_new_plan m) plan' m"
      "auto_applied = Some (md_plan m, md_pending_new_plan m, unix_timestamp E)"
proof (cases "md_pending_change_type m = 2 \<and> md_pending_effective_at m \<le> unix_timestamp E")
  case True
  then have eq: "(\<not> (md_pending_change_type m = 2 \<and> md_pending_effective_at m \<le> unix_timestamp E)) = False" by simp
  note un = assms [unfolded apply_pending_change_def eq if_False]
  from un have i: "i < length remaining" "remaining ! i = md_pending_new_plan m" by (auto split: if_splits)
  from un obtain p where p: "load_plan_account E s (remaining ! i) = Inr p"
    unfolding if_Inl_Inr case_sum_Inr by blast
  note un = un [unfolded p sum.case]
  from un have "(m', plan', auto_applied) = (apply_plan (md_pending_new_plan m) p m, p,
            Some (md_plan m, md_pending_new_plan m, unix_timestamp E))"
    "lp_merchant p = md_merchant m" "lp_status p = PlanActive" "lp_billing_type p = md_billing_type m"
    unfolding if_Inl_Inr case_sum_Inr require_all_Inr by auto
  then show thesis using True that(2) p i by auto
next
  case False
  then show thesis using assms by (intro that(1)) (auto simp: apply_pending_change_def)
qed

text \<open>The amount of a pull: within the mandate's amount and within the approval.\<close>

lemma base_charge_Inr:
  "base_charge plan m approved = Inr base \<longleftrightarrow>
     (if lp_is_flat plan then base = md_amount m \<and> md_amount m \<le> approved
      else base = approved \<and> approved \<le> md_amount m)"
  by (auto simp: base_charge_def)

text \<open>
  The core of a pull that returns: the mandate and plan it found, the mandate after the due
  change, the approval, the amount, the transfer and the four writes.
\<close>

lemma execute_pull_Inr:
  assumes "execute_pull E c remaining s = Inr (s', ev)"
  obtains tc kc pc plan l a b m1 plan1 ch approval base s1 s2 s3 m2 where
    "anchor_account E KTokenConfig dec_token_config s (pu_token_config c) = Inr tc"
    "list_all fst (pull_constraints E c tc)"
    "load_keeper_config E s (pu_keeper_config c) = Inr kc"
    "load_protocol_config E s (pu_protocol_config c) = Inr pc" "list_all fst (pull_config_checks c pc)"
    "load_plan_account E s (pu_plan c) = Inr plan" "load_mandate_account E s (pu_mandate c) = Inr l"
    "validate_loaded_mandate_address E (pu_mandate c) l = Inr ()"
    "list_all fst (pull_checks E c pc kc tc plan (lm_into_current l))"
    "mandate_billing_period (lm_into_current l) = Inr (a, b)"
    "md_billing_type (lm_into_current l) = Usage \<Longrightarrow> remaining \<noteq> []"
    "apply_pending_change E s remaining (if md_billing_type (lm_into_current l) = Usage then 1 else 0)
       plan (lm_into_current l) = Inr (m1, plan1, ch)"
    "pull_approval_for E s (pu_pull_approval c) (pu_mandate c) a b = Inr approval"
    "md_billing_type (lm_into_current l) = Usage \<Longrightarrow>
       validate_usage_report_for_settlement E s (hd remaining) (pu_mandate c) (md_merchant m1) a b = Inr ()"
    "base_charge plan1 m1 (pa_approved_amount approval) = Inr base"
    "if 0 < fst (use_credit base m1)
     then invoke_billing_transfer E c tc (fst (use_credit base m1))
            [pull_signer_seeds (lm_is_legacy l) (snd (use_credit base m1))]
            (md_merchant (snd (use_credit base m1))) s = Inr s1
     else s1 = s"
    "count_pull (unix_timestamp E) (snd (use_credit base m1)) = Inr m2"
    "write_mandate E (pu_mandate c) m2 (lm_is_legacy l) s1 = Inr s2"
    "if md_billing_type (lm_into_current l) = Usage then mark_usage_report_settled (hd remaining) s2 = Inr s3
     else s3 = s2"
    "close_program_account (pu_pull_approval c) (pu_payer c) s3 = Inr s'"
proof -
  note un = assms [unfolded execute_pull_def]
  from un obtain tc where tc: "anchor_account E KTokenConfig dec_token_config s (pu_token_config c) = Inr tc"
    "list_all fst (pull_constraints E c tc)"
    unfolding case_sum_Inr require_all_Inr by blast
  note un = un [unfolded tc(1) sum.case]
  from un obtain kc where kc: "load_keeper_config E s (pu_keeper_config c) = Inr kc"
    unfolding handler_inversion by blast
  note un = un [unfolded kc sum.case]
  from un obtain pc where pc: "load_protocol_config E s (pu_protocol_config c) = Inr pc"
    "list_all fst (pull_config_checks c pc)"
    unfolding case_sum_Inr require_all_Inr by blast
  note un = un [unfolded pc(1) sum.case]
  from un obtain plan where p: "load_plan_account E s (pu_plan c) = Inr plan"
    unfolding handler_inversion by blast
  note un = un [unfolded p sum.case]
  from un obtain l where l1: "load_mandate_account E s (pu_mandate c) = Inr l"
    unfolding handler_inversion by blast
  note un = un [unfolded l1 sum.case Let_def]
  from un have l2: "validate_loaded_mandate_address E (pu_mandate c) l = Inr ()"
    unfolding case_sum_Inr by auto
  note un = un [unfolded l2 sum.case] and l = l1 l2
  from un have ok: "list_all fst (pull_checks E c pc kc tc plan (lm_into_current l))"
    unfolding case_sum_Inr require_all_Inr by blast
  from un obtain pr where pr: "mandate_billing_period (lm_into_current l) = Inr pr"
    unfolding handler_inversion by blast
  obtain a b where prs: "pr = (a, b)" by (cases pr)
  note un = un [unfolded pr prs sum.case prod.case]
  from un obtain ap where ap: "apply_pending_change E s remaining
      (if md_billing_type (lm_into_current l) = Usage then 1 else 0) plan (lm_into_current l) = Inr ap"
    and nonempty: "md_billing_type (lm_into_current l) = Usage \<longrightarrow> remaining \<noteq> []"
    unfolding case_sum_Inr if_Inl_Inr by blast
  obtain m1 plan1 ch where aps: "ap = (m1, plan1, ch)" by (cases ap)
  note un = un [unfolded ap aps sum.case prod.case]
  from un obtain approval where av: "pull_approval_for E s (pu_pull_approval c) (pu_mandate c) a b = Inr approval"
    unfolding handler_inversion by blast
  then have per: "pa_period_start approval = a" "pa_period_end approval = b"
    by (simp_all add: pull_approval_for_Inr)
  note un = un [unfolded av per sum.case]
  from un obtain base where base: "base_charge plan1 m1 (pa_approved_amount approval) = Inr base"
    unfolding handler_inversion by blast
  note un = un [unfolded base sum.case]
  have usage: "md_billing_type (lm_into_current l) = Usage \<Longrightarrow>
       validate_usage_report_for_settlement E s (hd remaining) (pu_mandate c) (md_merchant m1) a b = Inr ()"
    using un unfolding case_sum_Inr if_Inl_Inr by auto
  obtain s1 m2 s2 s3 where
    s1: "(if 0 < fst (use_credit base m1)
            then invoke_billing_transfer E c tc (fst (use_credit base m1))
                   [pull_signer_seeds (lm_is_legacy l) (snd (use_credit base m1))]
                   (md_merchant (snd (use_credit base m1))) s
            else Inr s) = Inr s1" and
    m2: "count_pull (unix_timestamp E) (snd (use_credit base m1)) = Inr m2" and
    s2: "write_mandate E (pu_mandate c) m2 (lm_is_legacy l) s1 = Inr s2" and
    s3: "(if md_billing_type (lm_into_current l) = Usage then mark_usage_report_settled (hd remaining) s2
            else Inr s2) = Inr s3" and
    s4: "close_program_account (pu_pull_approval c) (pu_payer c) s3 = Inr s'"
    using un unfolding if_Inl_Inr case_sum_Inr case_prod_unfold by auto
  show thesis
    by (rule that [OF tc kc pc p l ok pr [unfolded prs] _ ap [unfolded aps] av usage base _ m2 s2 _ s4])
       (use nonempty s1 s3 in \<open>auto split: if_splits\<close>)
qed

text \<open>The pull of a mandate, in the terms of the transition system.\<close>

definition due_change :: "i64 \<Rightarrow> vela_mandate \<Rightarrow> loaded_plan \<Rightarrow> (pubkey \<times> loaded_plan) option" where
  "due_change now m new_plan =
     (if md_pending_change_type m = 2 \<and> md_pending_effective_at m \<le> now
      then Some (md_pending_new_plan m, new_plan) else None)"

lemma pull_is_step:
  assumes "list_all fst (pull_checks E c pc kc tc plan m)"
    "apply_pending_change E s remaining i plan m = Inr (m1, plan1, ch)"
    "base_charge plan1 m1 approved = Inr base" "count_pull (unix_timestamp E) (snd (use_credit base m1)) = Inr m2"
  shows "m1 = changed_plan (due_change (unix_timestamp E) m plan1) m"
    "mandate_step (StepPull (unix_timestamp E) (due_change (unix_timestamp E) m plan1) base) m = Inr m2"
proof -
  let ?ch = "due_change (unix_timestamp E) m plan1"
  have base: "base \<le> md_amount m1" using assms(3) by (auto simp: base_charge_Inr split: if_splits)
  show m1: "m1 = changed_plan ?ch m"
    using assms(2) by (cases rule: apply_pending_change_Inr) (auto simp: due_change_def changed_plan_def)
  have "case ?ch of None \<Rightarrow> True | Some (k, p) \<Rightarrow> k = md_pending_new_plan m \<and> lp_merchant p = md_merchant m \<and>
           lp_billing_type p = md_billing_type m"
    using assms(2) by (cases rule: apply_pending_change_Inr) (auto simp: due_change_def)
  then have "list_all fst (pull_step_checks (unix_timestamp E) ?ch base m)"
    using assms(1) base unfolding m1 by (simp add: pull_step_checks_def pull_checks_def Let_def due_change_def)
  then show "mandate_step (StepPull (unix_timestamp E) ?ch base) m = Inr m2"
    using assms(4) unfolding m1 by (simp add: case_sum_Inr require_all_Inr)
qed

lemma billing_transfer_Inr:
  "invoke_billing_transfer E c tc amount seeds owner s = Inr s' \<Longrightarrow>
     invoke E (TransferChecked (pu_token_2022_program c) (pu_subscriber_wrapped_account c)
       (pu_wrapped_usdc_mint c) (pu_merchant_wrapped_account c) (pu_mandate c) amount (tk_decimals tc)
       (transfer_hook_account_metas (pull_transfer_accounts c))) seeds s = Inr s' \<and>
     (\<exists>src dst. unpack_token E (acc_data (s (pu_subscriber_wrapped_account c))) = Some src \<and>
        unpack_token E (acc_data (s (pu_merchant_wrapped_account c))) = Some dst \<and>
        ta_owner src = pu_mandate c \<and> ta_owner dst = owner \<and> ta_mint src = pu_wrapped_usdc_mint c \<and>
        ta_mint dst = pu_wrapped_usdc_mint c)"
  unfolding invoke_billing_transfer_def case_sum_Inr
  by (auto simp: invoke_transfer_checked_with_hook_def validate_token_2022_transfer_accounts_def
      pull_transfer_accounts_def require_all_Inr split: if_splits option.splits)

lemma billing_transfer_kept:
  "invoke_billing_transfer E c tc amount seeds owner s = Inr s' \<Longrightarrow> keeps_program_accounts E \<Longrightarrow>
     accounts_kept s s'"
  by (drule billing_transfer_Inr [THEN conjunct1]) (rule accounts_kept_call)

lemma usage_report_for_settlement_Inr:
  "validate_usage_report_for_settlement E s k mandate merchant a b = Inr u \<longleftrightarrow>
     acc_owner (s k) = program_id \<and> k = usage_report_address E mandate a \<and>
     (\<exists>r. try_deserialize E KUsageReport dec_usage_report (acc_data (s k)) = Some r \<and>
        ur_mandate r = mandate \<and> ur_merchant r = merchant \<and> ur_period_start r = a \<and> ur_period_end r = b \<and>
        \<not> ur_settled r)"
  by (auto simp: validate_usage_report_for_settlement_def require_all_Inr split: option.splits)

lemma mark_settled_Inr:
  "mark_usage_report_settled k s = Inr s' \<Longrightarrow> s' = set_data s k ((acc_data (s k))[SETTLED_OFFSET := 1])"
  by (auto simp: mark_usage_report_settled_def split: if_splits)

text \<open>The accounts of a pull are of different kinds, so they are different accounts.\<close>

lemma kinds_differ:
  "distinct_discriminators E \<Longrightarrow> starts_with (acc_data (s j)) (disc E a) \<Longrightarrow>
     starts_with (acc_data (s k)) (disc E b) \<Longrightarrow> a \<noteq> b \<Longrightarrow> j \<noteq> k"
  using distinct_discriminatorsD(2) [of E "acc_data (s k)" a b] by auto

lemma loaded_mandate_starts:
  "load_mandate_account E s k = Inr l \<Longrightarrow> starts_with (acc_data (s k)) (disc E KVelaMandate)"
  by (auto simp: load_mandate_account_def Let_def split: if_splits)

lemma write_mandate_frame: "write_mandate E k m legacy s = Inr s' \<Longrightarrow> j \<noteq> k \<Longrightarrow> s' j = s j"
  by (auto simp: write_mandate_def write_account_Inr split: if_splits)

text \<open>What follows the mandate's write: the report is marked and the approval closed.\<close>

lemma pull_tail:
  assumes "distinct_discriminators E" "accounts_kept s s1" "load_mandate_account E s k = Inr l"
    "pull_approval_for E s ap mandate a b = Inr approval"
    "usage \<Longrightarrow> validate_usage_report_for_settlement E s u mandate merchant a b = Inr ()"
    "write_mandate E k m legacy s1 = Inr s2"
    "if usage then mark_usage_report_settled u s2 = Inr s3 else s3 = s2"
    "close_program_account ap payer s3 = Inr s'"
  shows "mandates_kept E s2 s' \<and> ap \<noteq> k \<and> (usage \<longrightarrow> u \<noteq> k \<and> u \<noteq> ap \<and> acc_data (s2 u) = acc_data (s u))"
proof -
  have k: "starts_with (acc_data (s k)) (disc E KVelaMandate)" by (rule loaded_mandate_starts [OF assms(3)])
  have a: "starts_with (acc_data (s ap)) (disc E KPullApproval)" "acc_owner (s ap) = program_id"
    using assms(4) by (auto simp: pull_approval_for_Inr intro: try_deserialize_starts)
  have ak: "ap \<noteq> k" using assms(1) a(1) k by (rule kinds_differ) simp
  have u: "starts_with (acc_data (s u)) (disc E KUsageReport) \<and> acc_owner (s u) = program_id" if usage
    using assms(5) [OF that] by (auto simp: usage_report_for_settlement_Inr intro: try_deserialize_starts)
  have uk: "u \<noteq> k \<and> u \<noteq> ap" if usage
    using kinds_differ [where E = E and s = s and j = u and a = KUsageReport and k = k and b = KVelaMandate]
      kinds_differ [where E = E and s = s and j = u and a = KUsageReport and k = ap and b = KPullApproval]
      assms(1) k a(1) u [OF that] by simp
  have same: "acc_data (s2 j) = acc_data (s j)" if "j \<noteq> k" "acc_owner (s j) = program_id" for j
    using write_mandate_frame [OF assms(6) that(1)] assms(2) that(2) by (simp add: accounts_kept_def)
  have s3: "mandates_kept E s2 s3 \<and> acc_data (s3 ap) = acc_data (s2 ap)"
  proof (cases usage)
    case True
    then have s3: "s3 = set_data s2 u ((acc_data (s2 u))[SETTLED_OFFSET := 1])"
      using assms(7) by (simp add: mark_settled_Inr)
    have "starts_with (acc_data (s2 u)) (disc E KUsageReport)" using u [OF True] uk [OF True] same by simp
    then have "mandates_kept E s2 s3"
      by (intro touch_keeps_mandates [of E s2 u]) (use other_kind_no_mandate [OF assms(1)] s3 in auto)
    moreover have "ap \<noteq> u" using uk [OF True] by auto
    ultimately show ?thesis by (simp add: s3)
  qed (use assms(7) mandates_kept_refl in simp)
  have "starts_with (acc_data (s3 ap)) (disc E KPullApproval)" using a ak same s3 by simp
  then have "mandates_kept E s3 s'"
    by (intro close_keeps_mandates [OF assms(8)]) (use other_kind_no_mandate [OF assms(1)] in auto)
  with s3 have "mandates_kept E s2 s'" using mandates_kept_trans by blast
  with ak uk u same show ?thesis by blast
qed

lemma execute_pull_effect:
  assumes "execute_pull E c remaining s = Inr (s', ev)" "keeps_program_accounts E" "distinct_discriminators E"
  shows "\<exists>ch base. mandate_effect E (pu_mandate c) (StepPull (unix_timestamp E) ch base) s s'"
  using assms(1)
proof (cases rule: execute_pull_Inr)
  case (1 tc kc pc plan l a b m1 plan1 ch approval base s1 s2 s3 m2)
  have kept: "accounts_kept s s1"
    using 1(16) billing_transfer_kept [OF _ assms(2)] by (auto split: if_splits)
  have "mandate_effect E (pu_mandate c) (StepPull (unix_timestamp E) (due_change (unix_timestamp E)
      (lm_into_current l) plan1) base) s s2"
    by (rule mandate_effectI [OF 1(7) accounts_kept_mandates [OF kept] pull_is_step(2) [OF 1(9,12,15,17)] 1(18)])
  moreover have "mandates_kept E s2 s'"
    using pull_tail [OF assms(3) kept 1(7,13,14,18,19,20)] by blast
  ultimately show ?thesis using mandate_effect_kept [OF mandates_kept_refl] by blast
qed

section \<open>Runs of handlers\<close>

datatype mandate_call =
    CallSubscribe subscribe_accounts
  | CallCancel cancel_accounts
  | CallAdminCancel cancel_accounts
  | CallCloseMandate mandate_accounts
  | CallUpdateMandate mandate_accounts "u64 option" "u64 option" "u64 option" "billing_type option" "pubkey option"
  | CallSchedule mandate_accounts
  | CallCallOff mandate_accounts
  | CallMigrateMandate migrate_mandate_accounts
  | CallReport report_accounts i64 i64 "u8 list list" u128 "u8 list"
  | CallExecutePull pull_accounts "pubkey list"

fun do_mandate_call :: "env \<times> mandate_call \<Rightarrow> store \<Rightarrow> verror + store" where
  "do_mandate_call (E, CallSubscribe c) s = subscribe E c s"
| "do_mandate_call (E, CallCancel c) s = cancel E c s"
| "do_mandate_call (E, CallAdminCancel c) s = admin_cancel E c s"
| "do_mandate_call (E, CallCloseMandate c) s = close_mandate E c s"
| "do_mandate_call (E, CallUpdateMandate c a f n t p) s = update_mandate E c a f n t p s"
| "do_mandate_call (E, CallSchedule c) s = map_sum id fst (schedule_plan_change E c s)"
| "do_mandate_call (E, CallCallOff c) s = map_sum id fst (cancel_plan_change E c s)"
| "do_mandate_call (E, CallMigrateMandate c) s = migrate_mandate E c s"
| "do_mandate_call (E, CallReport c a b cts nonce key) s = submit_usage_report E c a b cts nonce key s"
| "do_mandate_call (E, CallExecutePull c remaining) s = map_sum id fst (execute_pull E c remaining s)"

text \<open>
  The environment of a call in a run about one mandate. The call that closes that mandate
  ends its life, and the runs are about the time before.
\<close>

definition mandate_runtime :: "env \<Rightarrow> pubkey \<Rightarrow> env \<times> mandate_call \<Rightarrow> bool" where
  "mandate_runtime E k x \<longleftrightarrow>
     same_program E x \<and> creates_fresh (fst x) \<and> distinct_discriminators (fst x) \<and>
     (case snd x of CallCloseMandate c \<Rightarrow> ma_mandate c \<noteq> k | _ \<Rightarrow> True)"

lemma close_mandate_effect:
  assumes "close_mandate E c s = Inr s'" "ma_mandate c \<noteq> k" "current_mandate E s k = Inr m"
  shows "current_mandate E s' k = Inr m"
  using assms(1)
proof (cases rule: close_mandate_Inr)
  case (1 l)
  have "current_mandate E s' k = current_mandate E s k"
    using close_program_account_data [OF 1(6), of k] assms(2) by (intro current_store.load_local) simp_all
  then show ?thesis using assms(3) by simp
qed

text \<open>The steps a call may make.\<close>

fun call_step :: "env \<Rightarrow> mandate_call \<Rightarrow> mandate_op \<Rightarrow> bool" where
  "call_step E (CallCancel c) x = (x = StepCancel)"
| "call_step E (CallAdminCancel c) x = (x = StepCancel)"
| "call_step E (CallSchedule c) x =
     (x = StepKeep \<or> (\<exists>a. x = StepSchedule (ma_authority c) (ma_plan c) a (slot E)))"
| "call_step E (CallCallOff c) x = (x = StepCallOff (ma_authority c))"
| "call_step E (CallExecutePull c remaining) x = (\<exists>ch base. x = StepPull (unix_timestamp E) ch base)"
| "call_step E c x = (x = StepKeep)"

lemma do_mandate_call_effect:
  assumes "do_mandate_call (E, c) s = Inr s'" "keeps_program_accounts E" "creates_fresh E"
    "distinct_discriminators E" "\<And>a. c \<noteq> CallCloseMandate a"
  shows "\<exists>k x. call_step E c x \<and> mandate_effect E k x s s'"
proof -
  have keep: "call_step E c StepKeep \<Longrightarrow> mandates_kept E s s' \<Longrightarrow> ?thesis" using mandates_kept_effect by blast
  show ?thesis
  proof (cases c)
    case (CallSubscribe a)
    then show ?thesis using assms(1) by (intro keep subscribe_effect(1) [OF _ assms(2-4)]) simp_all
  next
    case (CallMigrateMandate a)
    then show ?thesis using assms(1) by (intro keep migrate_mandate_effect [OF _ assms(2-4)]) simp_all
  next
    case (CallReport a x y cts nonce key)
    then show ?thesis
      using assms(1) by (intro keep accounts_kept_mandates submit_usage_report_effect [OF _ assms(2,3)]) simp_all
  next
    case (CallUpdateMandate a x y z t p)
    then show ?thesis using assms update_mandate_effect by fastforce
  next
    case (CallExecutePull a r)
    then obtain ev where "execute_pull E a r s = Inr (s', ev)" using assms(1) by (auto simp: map_sum_Inr)
    from execute_pull_effect [OF this assms(2,4)] show ?thesis by (auto simp: CallExecutePull)
  next
    case (CallSchedule a)
    then obtain ev where "schedule_plan_change E a s = Inr (s', ev)" using assms(1) by (auto simp: map_sum_Inr)
    from schedule_plan_change_effect [OF this] show ?thesis unfolding CallSchedule call_step.simps by blast
  qed (use assms cancel_effect admin_cancel_effect cancel_plan_change_effect in \<open>fastforce simp: map_sum_Inr\<close>)+
qed

lemma mandate_effect_view:
  assumes "mandate_effect E k' x s s'" "current_mandate E s k = Inr m"
  shows "current_mandate E s' k = Inr m \<or> (\<exists>y m'. mandate_step y m = Inr m' \<and> current_mandate E s' k = Inr m')"
  using assms by (cases "k = k'") (auto simp: mandate_effect_def)

interpretation mandate_sim: simulation mandate_step mandate_inv do_mandate_call "mandate_runtime E k"
  "stored_view current_mandate E k" for E :: env and k :: pubkey
proof unfold_locales
  fix x :: "env \<times> mandate_call" and c c' s
  assume x: "mandate_runtime E k x" "do_mandate_call x c = Inr c'"
    and v: "stored_view current_mandate E k c = Some s"
  obtain E' call where E': "x = (E', call)" by (cases x)
  have E: "disc E' = disc E" "keeps_program_accounts E'" "creates_fresh E'" "distinct_discriminators E'"
    using x(1) by (simp_all add: mandate_runtime_def same_program_def E')
  have load: "current_mandate E' t k = current_mandate E t k" for t by (rule current_store.load_disc [OF E(1)])
  have m: "current_mandate E' c k = Inr s" using v by (simp add: stored_view_Some load)
  have "current_mandate E' c' k = Inr s \<or>
      (\<exists>y s'. mandate_step y s = Inr s' \<and> current_mandate E' c' k = Inr s')"
  proof (cases "\<exists>a. call = CallCloseMandate a")
    case True
    then show ?thesis using x m close_mandate_effect by (auto simp: mandate_runtime_def E')
  next
    case False
    then obtain k' y where "mandate_effect E' k' y c c'"
      using do_mandate_call_effect [OF x(2) [unfolded E'] E(2-4)] by blast
    then show ?thesis by (rule mandate_effect_view [OF _ m])
  qed
  then show "stored_view current_mandate E k c' = Some s \<or>
      (\<exists>y s'. mandate_step y s = Inr s' \<and> stored_view current_mandate E k c' = Some s')"
    by (simp add: stored_view_Some load)
qed

end
