(* ===== verification/Billing_Samples.thy ===== *)
theory Billing_Samples
  imports Mandate_Lifecycle
begin

text \<open>
  A concrete store with a mandate, its plan, an approval and a usage report, with the mint's account list, on which the
  theorems about subscriptions and billing are tried.
\<close>

section \<open>The accounts\<close>

lemma sample_billing_addresses [simp]:
  "sample_address (mandate_seed # r) = 27911" "sample_address (pull_approval_seed # r) = 24840"
  "sample_address (usage_report_seed # r) = 29964" "sample_address (usage_plan_seed # r) = 29962"
  "sample_address (extra_account_metas_seed # r) = 25875"
  by (simp_all add: sample_address_def mandate_seed_def pull_approval_seed_def usage_report_seed_def
      usage_plan_seed_def extra_account_metas_seed_def bytes_def)

definition sample_metered_plan :: usage_plan where
  "sample_metered_plan =
     \<lparr>up_merchant = 1, up_plan_id = 0, up_unit_name = replicate 32 0,
      up_tiers = replicate 5 \<lparr>pt_up_to = 0, pt_rate_per_unit = 1, pt_padding = 0\<rparr>, up_tier_count = 1,
      up_max_charge_per_period = 70, up_settlement_frequency = 3600, up_credential_mint = 8,
      up_billing_mint = 3, up_status = PlanActive, up_bump = 255, up_version = 1,
      up_reserved = replicate 32 0\<rparr>"

definition sample_mandate :: vela_mandate where
  "sample_mandate =
     (new_mandate 4 28676 (FlatPlan sample_plan) (i64_of 100) (i64_of 50500) (i64_of 7300) 255 0)
       \<lparr>md_credit_balance := 2\<rparr>"

definition sample_metered_mandate :: vela_mandate where
  "sample_metered_mandate =
     new_mandate 4 29962 (UsagePlan sample_metered_plan) (i64_of 100) (i64_of 0) (i64_of 7300) 255 0"

text \<open>A mandate whose change to the metered plan, noted at a cap of 60, is due.\<close>

definition sample_changing_mandate :: vela_mandate where
  "sample_changing_mandate =
     sample_metered_mandate\<lparr>md_amount := 60, md_pending_change_type := 2, md_pending_new_plan := 29962,
       md_pending_effective_at := i64_of 7300\<rparr>"

definition sample_approval :: pull_approval where
  "sample_approval =
     \<lparr>pa_mandate = 27911, pa_period_start = i64_of 3700, pa_period_end = i64_of 7300,
      pa_valid_until = i64_of 9000, pa_approved = True, pa_approved_amount = 65,
      pa_created_at = i64_of 7000, pa_bump = 255\<rparr>"

definition sample_report :: usage_report where
  "sample_report =
     \<lparr>ur_mandate = 27911, ur_merchant = 1, ur_period_start = i64_of 3700, ur_period_end = i64_of 7300,
      ur_computation_ciphertext = replicate 13 (replicate 32 0), ur_ciphertext_count = 1, ur_nonce = 0,
      ur_pub_key = replicate 32 0, ur_settled = False, ur_created_at = i64_of 7300, ur_bump = 255\<rparr>"

definition billing_store :: "vela_mandate \<Rightarrow> store" where
  "billing_store m =
     sample_store
       ((27911, owned_by program_id (sample_disc KVelaMandate @ enc_vela_mandate m)) #
        (24840, owned_by program_id (sample_disc KPullApproval @ enc_pull_approval sample_approval)) #
        (29964, owned_by program_id (sample_disc KUsageReport @ enc_usage_report sample_report)) #
        (28676, owned_by program_id (sample_disc KVelaPlan @ enc_vela_plan sample_plan)) #
        (29962, owned_by program_id (sample_disc KUsagePlan @ enc_usage_plan sample_metered_plan)) #
        (27912, owned_by program_id (sample_disc KMerchantState @ enc_merchant_state sample_merchant)) #
        (50, owned_by 22 (sample_token 3 27911)) # (51, owned_by 22 (sample_token 3 1)) #
        (25875, owned_by transfer_hook_program_id (replicate 8 1)) # sample_config_accounts)"

lemma billing_store_simps [simp]:
  "billing_store m 27911 = owned_by program_id (sample_disc KVelaMandate @ enc_vela_mandate m)"
  "billing_store m 24840 = owned_by program_id (sample_disc KPullApproval @ enc_pull_approval sample_approval)"
  "billing_store m 29964 = owned_by program_id (sample_disc KUsageReport @ enc_usage_report sample_report)"
  "billing_store m 28676 = owned_by program_id (sample_disc KVelaPlan @ enc_vela_plan sample_plan)"
  "billing_store m 29962 = owned_by program_id (sample_disc KUsagePlan @ enc_usage_plan sample_metered_plan)"
  "billing_store m 50 = owned_by 22 (sample_token 3 27911)" "billing_store m 51 = owned_by 22 (sample_token 3 1)"
  "billing_store m 25350 = owned_by program_id (sample_disc KProtocolConfig @ enc_protocol_config sample_protocol_config)"
  "billing_store m 27405 = owned_by program_id (sample_disc KKeeperConfig @ enc_keeper_config sample_keeper_config)"
  "billing_store m 29708 = owned_by program_id (sample_disc KTokenConfig @ enc_token_config sample_token_config)"
  "billing_store m 25875 = owned_by transfer_hook_program_id (replicate 8 1)"
  "billing_store m 3 = owned_by 22 []"
  "billing_store m 4 = \<lparr>acc_owner = 0, acc_lamports = 0, acc_data = []\<rparr>"
  by (simp_all add: billing_store_def sample_store_def sample_config_accounts_def)

section \<open>Loading them\<close>

lemma sample_mandate_fields [simp]:
  "md_subscriber sample_mandate = 4" "md_merchant sample_mandate = 1" "md_plan sample_mandate = 28676"
  "md_amount sample_mandate = 5" "md_frequency sample_mandate = 3600" "md_billing_type sample_mandate = Flat"
  "md_expiry sample_mandate = i64_of 50500" "md_max_pulls sample_mandate = 12" "md_pulls_executed sample_mandate = 0"
  "md_next_payment_due sample_mandate = i64_of 7300" "md_last_billing_recorded_pull sample_mandate = 0"
  "md_status sample_mandate = MandateActive" "md_credit_balance sample_mandate = 2"
  "md_pending_change_type sample_mandate = 0" "md_mandate_index sample_mandate = 0" "md_bump sample_mandate = 255"
  by (simp_all add: sample_mandate_def new_mandate_def sample_plan_def)

lemma sample_metered_mandate_fields [simp]:
  "md_subscriber sample_metered_mandate = 4" "md_merchant sample_metered_mandate = 1"
  "md_plan sample_metered_mandate = 29962" "md_amount sample_metered_mandate = 70"
  "md_frequency sample_metered_mandate = 3600" "md_billing_type sample_metered_mandate = Usage"
  "md_expiry sample_metered_mandate = i64_of 0" "md_max_pulls sample_metered_mandate = - 1"
  "md_pulls_executed sample_metered_mandate = 0" "md_next_payment_due sample_metered_mandate = i64_of 7300"
  "md_last_billing_recorded_pull sample_metered_mandate = 0" "md_status sample_metered_mandate = MandateActive"
  "md_credit_balance sample_metered_mandate = 0" "md_pending_change_type sample_metered_mandate = 0"
  "md_mandate_index sample_metered_mandate = 0" "md_bump sample_metered_mandate = 255"
  by (simp_all add: sample_metered_mandate_def new_mandate_def sample_metered_plan_def)

lemma sample_mandates_ok:
  "storable_current sample_mandate" "storable_current sample_metered_mandate" "storable_current sample_changing_mandate"
  "mandate_inv sample_mandate"
  by (simp_all add: mandate_inv_def sample_mandate_def sample_metered_mandate_def sample_changing_mandate_def
      new_mandate_def valid_vela_mandate_def sample_plan_def)

lemma current_mandate_sample:
  assumes "storable_current m"
  shows "current_mandate (creating_env now sg) (billing_store m) 27911 = Inr m"
  using assms vela_mandate_codec.try_deserialize_enc [of m "creating_env now sg" KVelaMandate "[]"]
  by (simp add: current_mandate_Inr load_mandate_account_def Let_def starts_with_def)

lemma sample_plans_load:
  "load_plan_account (creating_env now sg) (billing_store m) 28676 = Inr (FlatPlan sample_plan)"
  "load_plan_account (creating_env now sg) (billing_store m) 29962 = Inr (UsagePlan sample_metered_plan)"
proof -
  show "load_plan_account (creating_env now sg) (billing_store m) 28676 = Inr (FlatPlan sample_plan)"
    using sample_plan_valid(1) vela_plan_codec.try_deserialize_enc [of sample_plan "creating_env now sg" KVelaPlan "[]"]
    by (simp add: load_plan_flat flat_plan_at_def plan_address_def storable_plan_def)
  have v: "valid_usage_plan sample_metered_plan" "up_version sample_metered_plan = CURRENT_ACCOUNT_VERSION"
    by (simp_all add: valid_usage_plan_def sample_metered_plan_def CURRENT_ACCOUNT_VERSION_def)
  show "load_plan_account (creating_env now sg) (billing_store m) 29962 = Inr (UsagePlan sample_metered_plan)"
    using v usage_plan_codec.try_deserialize_enc [of sample_metered_plan "creating_env now sg" KUsagePlan "[]"]
    by (intro load_plan_usage) (simp_all add: usage_plan_at_def usage_plan_address_def)
qed

lemma sample_configs_load:
  "load_protocol_config (creating_env now sg) (billing_store m) 25350 = Inr (CurrentProtocolConfig sample_protocol_config)"
  "load_keeper_config (creating_env now sg) (billing_store m) 27405 = Inr (CurrentKeeperConfig sample_keeper_config)"
  "anchor_account (creating_env now sg) KTokenConfig dec_token_config (billing_store m) 29708 = Inr sample_token_config"
  using protocol_config_codec.try_deserialize_enc
      [of sample_protocol_config "creating_env now sg" KProtocolConfig "[]"]
    keeper_config_codec.try_deserialize_enc [of sample_keeper_config "creating_env now sg" KKeeperConfig "[]"]
    token_config_codec.try_deserialize_enc [of sample_token_config "creating_env now sg" KTokenConfig "[]"]
    sample_config_valid
  by (simp_all add: load_protocol_config_def load_keeper_config_def anchor_account_Inr Let_def
      sample_protocol_config_def new_protocol_config_def sample_keeper_config_def new_keeper_config_def)

lemma sample_approval_reads:
  "try_deserialize (creating_env now sg) KPullApproval dec_pull_approval
     (sample_disc KPullApproval @ enc_pull_approval sample_approval) = Some sample_approval"
  using pull_approval_codec.try_deserialize_enc [of sample_approval "creating_env now sg" KPullApproval "[]"]
  by (simp add: valid_pull_approval_def)

lemma sample_report_reads:
  "try_deserialize (creating_env now sg) KUsageReport dec_usage_report
     (sample_disc KUsageReport @ enc_usage_report sample_report) = Some sample_report"
  "length (sample_disc KUsageReport @ enc_usage_report sample_report) = usage_report_size"
  using usage_report_codec.try_deserialize_enc [of sample_report "creating_env now sg" KUsageReport "[]"]
    usage_report_codec.length_enc [of sample_report]
  by (simp_all add: valid_usage_report_def sample_report_def usage_report_size_def
      MAX_USAGE_COMPUTATION_CIPHERTEXTS_def)

section \<open>A pull on them\<close>

definition sample_pull_accounts :: "pubkey \<Rightarrow> pull_accounts" where
  "sample_pull_accounts plan =
     \<lparr>pu_payer = 4, pu_subscriber = 4, pu_merchant = 1, pu_keeper_config = 27405, pu_plan = plan,
      pu_mandate = 27911, pu_subscriber_wrapped_account = 50, pu_merchant_wrapped_account = 51,
      pu_wrapped_usdc_mint = 3, pu_pull_approval = 24840, pu_token_config = 29708,
      pu_protocol_config = 25350, pu_wrapping_vault = 33, pu_hook_program = transfer_hook_program_id,
      pu_extra_account_meta_list = 25875, pu_protocol_program = program_id, pu_token_2022_program = 22,
      pu_system_program = system_program_id\<rparr>"

lemma sample_pull_accounts_simps [simp]:
  "pu_payer (sample_pull_accounts p) = 4" "pu_subscriber (sample_pull_accounts p) = 4"
  "pu_merchant (sample_pull_accounts p) = 1" "pu_keeper_config (sample_pull_accounts p) = 27405"
  "pu_plan (sample_pull_accounts p) = p" "pu_mandate (sample_pull_accounts p) = 27911"
  "pu_subscriber_wrapped_account (sample_pull_accounts p) = 50"
  "pu_merchant_wrapped_account (sample_pull_accounts p) = 51"
  "pu_wrapped_usdc_mint (sample_pull_accounts p) = 3" "pu_pull_approval (sample_pull_accounts p) = 24840"
  "pu_token_config (sample_pull_accounts p) = 29708" "pu_protocol_config (sample_pull_accounts p) = 25350"
  "pu_wrapping_vault (sample_pull_accounts p) = 33" "pu_hook_program (sample_pull_accounts p) = transfer_hook_program_id"
  "pu_extra_account_meta_list (sample_pull_accounts p) = 25875"
  "pu_protocol_program (sample_pull_accounts p) = program_id" "pu_token_2022_program (sample_pull_accounts p) = 22"
  "pu_system_program (sample_pull_accounts p) = system_program_id"
  by (simp_all add: sample_pull_accounts_def)

lemma sample_pull_constraints:
  "list_all fst (pull_constraints (creating_env now [4]) (sample_pull_accounts p) sample_token_config)"
  "list_all fst (pull_config_checks (sample_pull_accounts p) (CurrentProtocolConfig sample_protocol_config))"
  by (simp_all add: pull_constraints_def pull_config_checks_def is_signer_def sample_protocol_config_def
      new_protocol_config_def transfer_hook_program_id_def)

lemma sample_pull_checks:
  "list_all fst (pull_checks (creating_env (i64_of 7300) [4]) (sample_pull_accounts 28676)
     (CurrentProtocolConfig sample_protocol_config) kc sample_token_config (FlatPlan sample_plan) sample_mandate)"
  "list_all fst (pull_checks (creating_env (i64_of 7300) [4]) (sample_pull_accounts 29962)
     (CurrentProtocolConfig sample_protocol_config) kc sample_token_config (UsagePlan sample_metered_plan)
     sample_metered_mandate)"
  "list_all fst (pull_checks (creating_env (i64_of 7300) [4]) (sample_pull_accounts 29962)
     (CurrentProtocolConfig sample_protocol_config) kc sample_token_config (UsagePlan sample_metered_plan)
     sample_changing_mandate)"
  by (simp_all add: pull_checks_def Let_def sample_plan_def sample_metered_plan_def sample_token_config_def
      sample_changing_mandate_def new_token_config_def word_gt_0 less_i64_def less_eq_i64_def in_i64_def)

lemma sample_address_checks:
  "validate_loaded_mandate_address (creating_env now sg) 27911 (CurrentMandate m) = Inr ()"
  by (simp add: validate_loaded_mandate_address_def derive_v2_mandate_address_def
      derive_legacy_mandate_address_def mandate_seeds_def legacy_mandate_seeds_def Let_def)

lemma sample_approval_for:
  "pull_approval_for (creating_env (i64_of 7300) sg) (billing_store m) 24840 27911 (i64_of 3700) (i64_of 7300) =
     Inr sample_approval"
  using sample_approval_reads
  by (simp add: pull_approval_for_Inr data_is_empty_def sample_disc_nonempty sample_approval_def less_eq_i64_def in_i64_def)

lemma sample_report_for:
  "validate_usage_report_for_settlement (creating_env now sg) (billing_store m) 29964 27911 1 (i64_of 3700) (i64_of 7300) =
     Inr ()"
  using sample_report_reads(1)
  by (simp add: usage_report_for_settlement_Inr usage_report_address_def sample_report_def)

lemma sample_billing_transfer:
  "invoke_billing_transfer (creating_env now sg) (sample_pull_accounts p) sample_token_config n seeds 1 (billing_store m) =
     Inr (billing_store m)"
  by (simp add: invoke_billing_transfer_def validate_token_2022_transfer_accounts_def
      invoke_transfer_checked_with_hook_def is_token_program_def pull_transfer_accounts_def sample_invoke_def)

end
