(* ===== verification/Mandate_Guarantees.thy ===== *)
theory Mandate_Guarantees
  imports Billing_Samples
begin

text \<open>
  What the handlers of subscriptions and billing guarantee about a mandate, over every
  sequence of calls: it only moves forward, it is pulled at most once a period, and every
  change of it was authorised; what subscribing stores, and who may close a mandate.
\<close>

section \<open>Sequences of calls\<close>

text \<open>
  C6: Whatever handlers of subscriptions and billing are called on the store, in whatever order
  and by whom (short of the subscriber closing the mandate), a mandate stays stored and well
  formed, its parties, index and dates of start and expiry stay as they are, its pulls and
  its due date only go forward, its credit only shrinks, it is never active with all its
  pulls used, and once it is cancelled or expired it does not change at all.
\<close>

theorem mandates_only_move_forward:
  assumes "list_all (mandate_runtime E k) calls" "current_mandate E s k = Inr m" "mandate_inv m"
  shows "\<exists>m'. current_mandate E (run do_mandate_call calls s) k = Inr m' \<and> mandate_inv m' \<and> mandate_le m m'"
proof -
  obtain ys where "stored_view current_mandate E k (run do_mandate_call calls s) = Some (run mandate_step ys m)"
    using mandate_sim.run_simulated [OF assms(1)] assms(2) by (meson stored_view_Some)
  then show ?thesis
    using mandate_machine.run_inv [OF assms(3)] mandate_machine.run_le [OF assms(3)] by (simp add: stored_view_Some)
qed

text \<open>
  The same machine up to a time and without changes of plan: what a pull adds to the pulls it
  adds, times the frequency, to the due date, and no period is pulled before it is due.
\<close>

definition steady_step :: "i64 \<Rightarrow> mandate_op \<Rightarrow> vela_mandate \<Rightarrow> verror + vela_mandate" where
  "steady_step until x m =
     (case x of
        StepSchedule _ _ _ _ \<Rightarrow> Inl (Vela UnauthorizedUpgrade)
      | StepPull now _ _ \<Rightarrow> if now \<le> until then mandate_step x m else Inl (Vela PullTooEarly)
      | _ \<Rightarrow> mandate_step x m)"

definition steady :: "i64 \<Rightarrow> vela_mandate \<Rightarrow> vela_mandate \<Rightarrow> bool" where
  "steady until m0 m \<longleftrightarrow>
     md_pending_change_type m = 0 \<and> md_frequency m = md_frequency m0 \<and>
     md_pulls_executed m0 \<le> md_pulls_executed m \<and>
     sval (md_next_payment_due m) = sval (md_next_payment_due m0) +
       (int (unat (md_pulls_executed m)) - int (unat (md_pulls_executed m0))) * uint (md_frequency m0) \<and>
     (md_pulls_executed m = md_pulls_executed m0 \<or>
      sval (md_next_payment_due m) \<le> sval until + uint (md_frequency m0))"

lemma steady_pull:
  assumes "steady until m0 m" "mandate_step (StepPull now ch base) m = Inr m'" "now \<le> until"
  shows "steady until m0 m'"
proof -
  note p = pull_step_Inr [OF assms(2)]
  have "ch = None"
    using p(1) assms(1) by (cases ch) (simp_all add: pull_step_checks_def steady_def)
  then have m1: "snd (use_credit base (changed_plan ch m)) =
      m\<lparr>md_credit_balance := saturating_sub (md_credit_balance m) (min base (md_credit_balance m))\<rparr>"
    by (simp add: changed_plan_def use_credit_snd)
  note c = count_pull_Inr [OF p(2), unfolded m1]
  have due: "sval (md_next_payment_due m) \<le> sval now"
    using p(1) by (simp add: pull_step_checks_def less_eq_i64_def)
  have f: "md_frequency m' = md_frequency m" "md_pending_change_type m' = md_pending_change_type m"
  proof -
    obtain a b d e g where m': "m' = m\<lparr>md_credit_balance := saturating_sub (md_credit_balance m) (min base (md_credit_balance m)),
        md_pulls_executed := a, md_next_payment_due := b, md_last_pull_at := d,
        md_last_billing_recorded_pull := e, md_status := g\<rparr>"
      using c(7) by blast
    show "md_frequency m' = md_frequency m" "md_pending_change_type m' = md_pending_change_type m"
      by (simp_all add: m')
  qed
  have s: "md_frequency m = md_frequency m0" "md_pending_change_type m = 0"
    "unat (md_pulls_executed m0) \<le> unat (md_pulls_executed m)"
    "sval (md_next_payment_due m) = sval (md_next_payment_due m0) +
       (int (unat (md_pulls_executed m)) - int (unat (md_pulls_executed m0))) * uint (md_frequency m0)"
    using assms(1) by (simp_all add: steady_def word_le_nat_alt)
  have "sval (md_next_payment_due m') = sval (md_next_payment_due m0) +
       (int (unat (md_pulls_executed m')) - int (unat (md_pulls_executed m0))) * uint (md_frequency m0)"
    using c(1,2) s(1,4) by (simp add: algebra_simps)
  moreover have "sval (md_next_payment_due m') \<le> sval until + uint (md_frequency m0)"
    using c(2) due assms(3) s(1) by (simp add: less_eq_i64_def)
  moreover have "md_pulls_executed m0 \<le> md_pulls_executed m'"
    using c(1) s(3) by (simp add: word_le_nat_alt)
  ultimately show ?thesis using f s(1,2) by (simp add: steady_def)
qed

interpretation steady_machine: machine "steady_step until" "steady until m0" for until m0
proof unfold_locales
  fix x s s' assume s: "steady until m0 s" and x: "steady_step until x s = Inr s'"
  show "steady until m0 s'"
  proof (cases x)
    case (StepPull now ch base)
    with x have "mandate_step (StepPull now ch base) s = Inr s'" "now \<le> until"
      by (auto simp: steady_step_def split: if_splits)
    then show ?thesis by (rule steady_pull [OF s])
  qed (use s x in \<open>auto simp: steady_step_def steady_def case_sum_Inr ok_simps clear_pending_def split: if_splits\<close>)
qed

text \<open>The view that follows a mandate as long as no change of plan is pending.\<close>

definition steady_view :: "env \<Rightarrow> pubkey \<Rightarrow> store \<Rightarrow> vela_mandate option" where
  "steady_view E k s = stored_view current_mandate E k s"

definition steady_runtime :: "env \<Rightarrow> pubkey \<Rightarrow> i64 \<Rightarrow> env \<times> mandate_call \<Rightarrow> bool" where
  "steady_runtime E k until x \<longleftrightarrow>
     mandate_runtime E k x \<and> unix_timestamp (fst x) \<le> until \<and> (\<forall>a. snd x \<noteq> CallSchedule a)"

lemma call_view:
  assumes "mandate_runtime E k (E', c)" "do_mandate_call (E', c) s = Inr s'" "current_mandate E s k = Inr m"
  shows "current_mandate E s' k = Inr m \<or>
    (\<exists>y m'. call_step E' c y \<and> mandate_step y m = Inr m' \<and> current_mandate E s' k = Inr m')"
proof -
  have E: "disc E' = disc E" "keeps_program_accounts E'" "creates_fresh E'" "distinct_discriminators E'"
    using assms(1) by (simp_all add: mandate_runtime_def same_program_def)
  have load: "current_mandate E' t k = current_mandate E t k" for t by (rule current_store.load_disc [OF E(1)])
  show ?thesis
  proof (cases "\<exists>a. c = CallCloseMandate a")
    case True
    then show ?thesis
      using assms close_mandate_effect [of E' _ s s' k m] by (auto simp: mandate_runtime_def load)
  next
    case False
    then obtain k' y where y: "call_step E' c y" "mandate_effect E' k' y s s'"
      using do_mandate_call_effect [OF assms(2) E(2-4)] by blast
    have m: "current_mandate E' s k = Inr m" using assms(3) by (simp add: load)
    have "current_mandate E' s' k = Inr m \<or> (\<exists>m'. mandate_step y m = Inr m' \<and> current_mandate E' s' k = Inr m')"
      using y(2) m unfolding mandate_effect_def by (cases "k = k'") blast+
    then show ?thesis using y(1) unfolding load by blast
  qed
qed

interpretation steady_sim: simulation "steady_step until" "steady until m0" do_mandate_call
  "steady_runtime E k until" "stored_view current_mandate E k" for E :: env and k :: pubkey and until m0
proof unfold_locales
  fix x :: "env \<times> mandate_call" and c c' s
  assume x: "steady_runtime E k until x" "do_mandate_call x c = Inr c'"
    and v: "stored_view current_mandate E k c = Some s"
  obtain E' call where E': "x = (E', call)" by (cases x)
  have rt: "mandate_runtime E k (E', call)" "unix_timestamp E' \<le> until" "\<And>a. call \<noteq> CallSchedule a"
    using x(1) by (simp_all add: steady_runtime_def E')
  have "current_mandate E c' k = Inr s \<or>
    (\<exists>y s'. call_step E' call y \<and> mandate_step y s = Inr s' \<and> current_mandate E c' k = Inr s')"
    using call_view [OF rt(1) x(2) [unfolded E']] v by (simp add: stored_view_Some)
  moreover have "steady_step until y s = mandate_step y s" if "call_step E' call y" for y
    using that rt(2,3) by (cases call) (auto simp: steady_step_def)
  ultimately show "stored_view current_mandate E k c' = Some s \<or>
      (\<exists>y s'. steady_step until y s = Inr s' \<and> stored_view current_mandate E k c' = Some s')"
    by (metis stored_view_Some)
qed

text \<open>
  C18: Up to any time, and as long as no change of plan is scheduled, a mandate is pulled at most
  once per period that has come due: the pulls of any sequence of calls, times the
  frequency, fit into the time from the first due date to one period after the end, and the
  due date moves by exactly one frequency for each pull.
\<close>

theorem pulls_bounded_by_elapsed_periods:
  assumes "list_all (steady_runtime E k until) calls" "current_mandate E s k = Inr m"
    "md_pending_change_type m = 0"
  shows "\<exists>m'. current_mandate E (run do_mandate_call calls s) k = Inr m' \<and>
    md_pulls_executed m \<le> md_pulls_executed m' \<and>
    sval (md_next_payment_due m') = sval (md_next_payment_due m) +
      (int (unat (md_pulls_executed m')) - int (unat (md_pulls_executed m))) * uint (md_frequency m) \<and>
    (int (unat (md_pulls_executed m')) - int (unat (md_pulls_executed m))) * uint (md_frequency m) \<le>
      max 0 (sval until + uint (md_frequency m) - sval (md_next_payment_due m))"
proof -
  have "steady until m m" using assms(3) by (simp add: steady_def)
  then obtain m' where m': "current_mandate E (run do_mandate_call calls s) k = Inr m'" "steady until m m'"
    using steady_sim.run_view_inv [OF assms(1)] assms(2) by (fastforce simp: stored_view_Some)
  from m'(2) have "(int (unat (md_pulls_executed m')) - int (unat (md_pulls_executed m))) * uint (md_frequency m) \<le>
      max 0 (sval until + uint (md_frequency m) - sval (md_next_payment_due m))"
    unfolding steady_def by (elim conjE disjE) (simp_all add: le_max_iff_disj)
  with m' show ?thesis by (auto simp: steady_def)
qed

section \<open>Who may change a mandate\<close>

text \<open>
  The changes of a mandate the protocol knows, with the signatures each needs. What a pull
  changes is the transition system's \<open>StepPull\<close>.
\<close>

definition authorised_change :: "env \<Rightarrow> store \<Rightarrow> vela_mandate \<Rightarrow> vela_mandate \<Rightarrow> bool" where
  "authorised_change E s m m' \<longleftrightarrow>
     m' = m \<or>
     m' = m\<lparr>md_status := MandateCancelled\<rparr> \<and> md_status m = MandateActive \<and>
       (is_signer E (md_subscriber m) \<or>
        (\<exists>pc. load_protocol_config E s (pda E [protocol_config_seed]) = Inr pc \<and> is_signer E (lpc_admin pc))) \<or>
     (\<exists>k p. m' = schedule_pending k (slot E) m \<and> load_plan_account E s k = Inr p \<and>
        lp_merchant p = md_merchant m \<and> lp_status p = PlanActive \<and>
        (is_signer E (md_subscriber m) \<or> is_signer E (md_merchant m) \<and> lp_mandate_amount p \<le> md_amount m)) \<or>
     m' = clear_pending m \<and> has_pending_change m \<and>
       (is_signer E (md_subscriber m) \<or> is_signer E (md_merchant m)) \<or>
     (\<exists>kc ch base. load_keeper_config E s (pda E [keeper_config_seed]) = Inr kc \<and>
        (is_signer E (lkc_keeper_authority kc) \<or> is_signer E (md_subscriber m)) \<and>
        mandate_step (StepPull (unix_timestamp E) ch base) m = Inr m')"

lemma effect_at:
  assumes "mandate_effect E k' x s s'" "current_mandate E s k = Inr m"
  obtains "current_mandate E s' k = Inr m"
  | m' where "k' = k" "mandate_step x m = Inr m'" "current_mandate E s' k = Inr m'"
  using assms that unfolding mandate_effect_def by (cases "k' = k") auto

lemma pull_is_authorised:
  assumes "execute_pull E c remaining s = Inr (s', ev)" "keeps_program_accounts E" "distinct_discriminators E"
    "current_mandate E s k = Inr m"
  shows "\<exists>m'. current_mandate E s' k = Inr m' \<and> authorised_change E s m m'"
proof -
  obtain ch base where eff: "mandate_effect E (pu_mandate c) (StepPull (unix_timestamp E) ch base) s s'"
    using execute_pull_effect [OF assms(1-3)] by blast
  from eff assms(4) show ?thesis
  proof (cases rule: effect_at)
    case 1
    then show ?thesis by (auto simp: authorised_change_def)
  next
    case (2 m')
    from assms(1) obtain tc kc pc plan where
      kc: "list_all fst (pull_constraints E c tc)" "load_keeper_config E s (pu_keeper_config c) = Inr kc"
      "list_all fst (pull_checks E c pc kc tc plan m)"
    proof (cases rule: execute_pull_Inr)
      case (1 tc kc pc plan l a b m1 plan1 ch approval base s1 s2 s3 m2)
      have "l = CurrentMandate m" using 1(7) 2(1) assms(4) by (simp add: current_mandate_Inr)
      with 1(2,3,9) show thesis by (intro that) simp_all
    qed
    then have "load_keeper_config E s (pda E [keeper_config_seed]) = Inr kc"
      "is_signer E (lkc_keeper_authority kc) \<or> is_signer E (md_subscriber m)"
      by (auto simp: pull_constraints_def pull_checks_def Let_def)
    with 2 show ?thesis unfolding authorised_change_def by blast
  qed
qed

lemma cancels_are_authorised:
  assumes "current_mandate E s k = Inr m" "keeps_program_accounts E"
  shows "cancel E c s = Inr s' \<Longrightarrow> \<exists>m'. current_mandate E s' k = Inr m' \<and> authorised_change E s m m'"
    "admin_cancel E c s = Inr s' \<Longrightarrow> \<exists>m'. current_mandate E s' k = Inr m' \<and> authorised_change E s m m'"
proof -
  have st: "mandate_step StepCancel m = Inr m' \<longleftrightarrow>
      md_status m = MandateActive \<and> m' = m\<lparr>md_status := MandateCancelled\<rparr>" for m'
    by auto
  assume c: "cancel E c s = Inr s'"
  from cancel_effect [OF c assms(2)] assms(1) show "\<exists>m'. current_mandate E s' k = Inr m' \<and> authorised_change E s m m'"
  proof (cases rule: effect_at)
    case 1
    then show ?thesis by (auto simp: authorised_change_def)
  next
    case (2 m')
    from c have "is_signer E (md_subscriber m)"
    proof (cases rule: cancel_Inr)
      case (1 legacy x plan s1 s2)
      obtain l where "load_mandate_account E s (cn_mandate c) = Inr l" "x = lm_into_current l"
        using 1(1) by (rule cancellable_mandate_Inr)
      with 2(1) assms(1) 1(2-4) show ?thesis by (auto simp: current_mandate_Inr)
    qed
    with 2 show ?thesis unfolding st authorised_change_def by blast
  qed
next
  have st: "mandate_step StepCancel m = Inr m' \<longleftrightarrow>
      md_status m = MandateActive \<and> m' = m\<lparr>md_status := MandateCancelled\<rparr>" for m'
    by auto
  assume c: "admin_cancel E c s = Inr s'"
  from admin_cancel_effect [OF c assms(2)] assms(1)
  show "\<exists>m'. current_mandate E s' k = Inr m' \<and> authorised_change E s m m'"
  proof (cases rule: effect_at)
    case 1
    then show ?thesis by (auto simp: authorised_change_def)
  next
    case (2 m')
    from c have "\<exists>pc. load_protocol_config E s (pda E [protocol_config_seed]) = Inr pc \<and> is_signer E (lpc_admin pc)"
      by (cases rule: admin_cancel_Inr) auto
    with 2 show ?thesis unfolding st authorised_change_def by blast
  qed
qed

lemma plan_changes_are_authorised:
  assumes "current_mandate E s k = Inr m"
  shows "schedule_plan_change E c s = Inr (s', ev) \<Longrightarrow>
      \<exists>m'. current_mandate E s' k = Inr m' \<and> authorised_change E s m m'"
    "cancel_plan_change E c s = Inr (s', ev) \<Longrightarrow>
      \<exists>m'. current_mandate E s' k = Inr m' \<and> authorised_change E s m m'"
proof -
  assume c: "schedule_plan_change E c s = Inr (s', ev)"
  then show "\<exists>m'. current_mandate E s' k = Inr m' \<and> authorised_change E s m m'"
  proof (cases rule: schedule_plan_change_Inr)
    case (1 x plan)
    show ?thesis
    proof (cases "s' = s")
      case False
      then have w: "write_current_mandate E (ma_mandate c) (schedule_pending (ma_plan c) (slot E) x) s = Inr s'"
        using 1(7) by simp
      from write_current_effect [OF 1(2,6) w] assms show ?thesis
      proof (cases rule: effect_at)
        case (2 m')
        then have x: "x = m" using 1(2) assms by simp
        have m': "m' = schedule_pending (ma_plan c) (slot E) m" using 2(2) 1(6) by (simp add: x)
        have "is_signer E (md_subscriber m) \<or> is_signer E (md_merchant m) \<and> lp_mandate_amount plan \<le> md_amount m"
          using 1(1,6) unfolding x mandate_step.simps case_sum_Inr require_all_Inr by auto
        with m' 2(3) 1(3-5) show ?thesis unfolding authorised_change_def x by blast
      qed (auto simp: authorised_change_def)
    qed (use assms in \<open>auto simp: authorised_change_def\<close>)
  qed
next
  assume c: "cancel_plan_change E c s = Inr (s', ev)"
  then show "\<exists>m'. current_mandate E s' k = Inr m' \<and> authorised_change E s m m'"
  proof (cases rule: cancel_plan_change_Inr)
    case (1 x)
    from write_current_effect [OF 1(2-4)] assms show ?thesis
    proof (cases rule: effect_at)
      case (2 m')
      have x: "x = m" using 1(2) assms 2(1) by simp
      have "(clear_pending m)\<lparr>md_version := CURRENT_ACCOUNT_VERSION\<rparr> = clear_pending m"
        using current_store.load_storable [OF assms] by (simp add: clear_pending_def)
      then have m': "m' = clear_pending m" using 2(2) 1(3) by (simp add: x)
      have "has_pending_change m" "ma_authority c = md_subscriber m \<or> ma_authority c = md_merchant m"
        using 1(3) unfolding x mandate_step.simps case_sum_Inr require_all_Inr by simp_all
      then have "has_pending_change m" "is_signer E (md_subscriber m) \<or> is_signer E (md_merchant m)"
        using 1(1) by auto
      with m' 2(3) show ?thesis unfolding authorised_change_def by blast
    qed (auto simp: authorised_change_def)
  qed
qed

text \<open>
  Every change of a mandate was authorised. A call that returns leaves a mandate as it is, or
  cancels it with the signature of its subscriber or of the protocol's administrator, or
  notes a change to an active plan of its merchant with the signature of the subscriber, or
  of the merchant if the new amount is no larger, or calls such a change off with the
  signature of one of the two, or pulls it with the signature of the keeper or the
  subscriber, by the rules of a pull.
\<close>

theorem mandate_changes_are_authorised:
  assumes "do_mandate_call (E, c) s = Inr s'" "current_mandate E s k = Inr m" "mandate_runtime E k (E, c)"
  shows "\<exists>m'. current_mandate E s' k = Inr m' \<and> authorised_change E s m m'"
proof -
  have E: "keeps_program_accounts E" "creates_fresh E" "distinct_discriminators E"
    using assms(3) by (simp_all add: mandate_runtime_def same_program_def)
  have quiet: ?thesis if "\<And>x. call_step E c x \<Longrightarrow> x = StepKeep"
    using call_view [OF assms(3,1,2)] that by (fastforce simp: authorised_change_def)
  show ?thesis
  proof (cases c)
    case (CallCancel a)
    then show ?thesis using assms(1) cancels_are_authorised(1) [OF assms(2) E(1)] by simp
  next
    case (CallAdminCancel a)
    then show ?thesis using assms(1) cancels_are_authorised(2) [OF assms(2) E(1)] by simp
  next
    case (CallSchedule a)
    then show ?thesis using assms(1) plan_changes_are_authorised(1) [OF assms(2)] by (auto simp: map_sum_Inr)
  next
    case (CallCallOff a)
    then show ?thesis using assms(1) plan_changes_are_authorised(2) [OF assms(2)] by (auto simp: map_sum_Inr)
  next
    case (CallExecutePull a r)
    then show ?thesis using assms(1) pull_is_authorised [OF _ E(1,3) assms(2)] by (auto simp: map_sum_Inr)
  qed (rule quiet, simp)+
qed

section \<open>Subscribing and closing\<close>

text \<open>
  Subscribing stores an active mandate of the signing subscriber on the plan's present terms,
  unused and without credit or pending change, and leaves every mandate there was alone; for
  a plan with at least one pull it satisfies the invariant of the runs.
\<close>

theorem subscribe_stores_the_plans_terms:
  assumes "subscribe E c s = Inr s'" "keeps_program_accounts E" "creates_fresh E" "distinct_discriminators E"
  shows "\<exists>m p. current_mandate E s' (sb_mandate c) = Inr m \<and> load_plan_account E s (sb_plan c) = Inr p \<and>
    is_signer E (md_subscriber m) \<and> md_subscriber m = sb_subscriber c \<and> md_plan m = sb_plan c \<and>
    md_merchant m = lp_merchant p \<and> lp_status p = PlanActive \<and> md_status m = MandateActive \<and>
    md_amount m = lp_mandate_amount p \<and> md_frequency m = lp_mandate_frequency p \<and>
    md_max_pulls m = lp_max_pulls p \<and> md_billing_type m = lp_billing_type p \<and>
    lp_expiry p (unix_timestamp E) = Inr (md_expiry m) \<and>
    lp_initial_next_payment_due p (unix_timestamp E) = Inr (md_next_payment_due m) \<and>
    md_pulls_executed m = 0 \<and> md_credit_balance m = 0 \<and> \<not> has_pending_change m \<and>
    (0 < lp_max_pulls p \<longrightarrow> mandate_inv m) \<and>
    (\<forall>j x. current_mandate E s j = Inr x \<longrightarrow> current_mandate E s' j = Inr x)"
proof -
  obtain ms :: merchant_state and p expiry due where *: "load_plan_account E s (sb_plan c) = Inr p"
    "lp_expiry p (unix_timestamp E) = Inr expiry" "lp_initial_next_payment_due p (unix_timestamp E) = Inr due"
    "current_mandate E s' (sb_mandate c) = Inr (new_mandate (sb_subscriber c) (sb_plan c) p (unix_timestamp E)
       expiry due (snd (find_pda E (mandate_seeds (sb_subscriber c) (lp_merchant p) (ms_mandate_counter ms))
       program_id)) (ms_mandate_counter ms))"
    "is_signer E (sb_subscriber c)" "lp_status p = PlanActive"
    using subscribe_effect(2) [OF assms] by (elim exE conjE) (rule that, assumption+)
  then show ?thesis
    using subscribe_effect(1) [OF assms]
    by (intro exI conjI) (assumption, assumption, simp_all add: new_mandate_def has_pending_change_def
        mandate_inv_def valid_vela_mandate_def mandates_kept_def)
qed

text \<open>
  Only its subscriber closes a mandate, only once it is cancelled or expired, and gets its
  lamports back; no other account's data changes.
\<close>

theorem only_the_subscriber_closes_a_final_mandate:
  assumes "close_mandate E c s = Inr s'" "current_mandate E s (ma_mandate c) = Inr m" "ma_subscriber c \<noteq> ma_mandate c"
  shows "is_signer E (md_subscriber m) \<and> md_status m \<noteq> MandateActive \<and>
    acc_data (s' (ma_mandate c)) = [] \<and> acc_owner (s' (ma_mandate c)) = system_program_id \<and>
    unat (acc_lamports (s' (md_subscriber m))) =
      unat (acc_lamports (s (md_subscriber m))) + unat (acc_lamports (s (ma_mandate c))) \<and>
    (\<forall>j. j \<noteq> ma_mandate c \<longrightarrow> acc_data (s' j) = acc_data (s j) \<and> acc_owner (s' j) = acc_owner (s j))"
  using assms(1)
proof (cases rule: close_mandate_Inr)
  case (1 l)
  have l: "lm_into_current l = m" using 1(1) assms(2) by (simp add: current_mandate_Inr)
  show ?thesis
    using close_program_account_closed [OF 1(6)] close_program_account_data [OF 1(6)]
      close_program_account_refund [OF 1(6)] assms(3) 1(2-5) by (auto simp: l)
qed

section \<open>Instances\<close>

theorem mandates_only_move_forward_witness:
  "\<exists>m'. current_mandate (creating_env (i64_of 0) [])
     (run do_mandate_call
       [(creating_env (i64_of 7300) [4], CallExecutePull (sample_pull_accounts 28676) [])]
       (billing_store sample_mandate)) 27911 = Inr m' \<and> mandate_inv m' \<and> mandate_le sample_mandate m'"
  by (rule mandates_only_move_forward [OF _ current_mandate_sample])
     (simp_all add: mandate_runtime_def same_program_def sample_mandates_ok)

theorem pulls_bounded_by_elapsed_periods_witness:
  "\<exists>m'. current_mandate (creating_env (i64_of 0) [])
     (run do_mandate_call
       [(creating_env (i64_of 7300) [4], CallExecutePull (sample_pull_accounts 28676) [])]
       (billing_store sample_mandate)) 27911 = Inr m' \<and>
     int (unat (md_pulls_executed m')) * 3600 \<le> 3600"
proof -
  let ?E = "creating_env (i64_of 0) []"
  have "\<exists>m'. current_mandate ?E (run do_mandate_call
       [(creating_env (i64_of 7300) [4], CallExecutePull (sample_pull_accounts 28676) [])]
       (billing_store sample_mandate)) 27911 = Inr m' \<and>
    md_pulls_executed sample_mandate \<le> md_pulls_executed m' \<and>
    sval (md_next_payment_due m') = sval (md_next_payment_due sample_mandate) +
      (int (unat (md_pulls_executed m')) - int (unat (md_pulls_executed sample_mandate))) * uint (md_frequency sample_mandate) \<and>
    (int (unat (md_pulls_executed m')) - int (unat (md_pulls_executed sample_mandate))) * uint (md_frequency sample_mandate) \<le>
      max 0 (sval (i64_of 7300) + uint (md_frequency sample_mandate) - sval (md_next_payment_due sample_mandate))"
    by (rule pulls_bounded_by_elapsed_periods [OF _ current_mandate_sample])
       (simp_all add: steady_runtime_def mandate_runtime_def same_program_def sample_mandates_ok less_eq_i64_def)
  then show ?thesis by (auto simp: in_i64_def)
qed

definition sample_mandate_accounts :: mandate_accounts where
  "sample_mandate_accounts =
     \<lparr>ma_authority = 4, ma_subscriber = 4, ma_mandate = 27911, ma_plan = 28676, ma_protocol_config = 25350,
      ma_system_program = system_program_id\<rparr>"

lemma sample_call_off_returns:
  "\<exists>s' ev. cancel_plan_change (creating_env (i64_of 7300) [4]) sample_mandate_accounts (billing_store sample_changing_mandate) =
     Inr (s', ev)"
proof -
  let ?E = "creating_env (i64_of 7300) [4]" and ?s = "billing_store sample_changing_mandate"
  have act: "active_current_mandate ?E ?s 27911 = Inr sample_changing_mandate"
    by (simp add: active_current_mandate_Inr current_mandate_sample sample_mandates_ok sample_address_checks)
       (simp add: sample_changing_mandate_def)
  let ?m = "(clear_pending sample_changing_mandate)\<lparr>md_version := CURRENT_ACCOUNT_VERSION\<rparr>"
  have len: "length (enc_vela_mandate ?m) = length (enc_vela_mandate sample_changing_mandate)"
    using vela_mandate_codec.length_enc [of ?m] vela_mandate_codec.length_enc [of sample_changing_mandate]
      sample_mandates_ok(3) by (simp add: valid_vela_mandate_def clear_pending_def)
  have wr: "\<exists>s'. write_current_mandate ?E 27911 ?m ?s = Inr s'"
    using len by (simp add: write_mandate_def write_account_def write_data_def)
  have fields: "has_pending_change sample_changing_mandate" "md_subscriber sample_changing_mandate = 4"
    by (simp_all add: has_pending_change_def sample_changing_mandate_def)
  from wr show ?thesis
    by (auto simp: cancel_plan_change_def sample_mandate_accounts_def is_signer_def sample_configs_load act fields)
qed

theorem mandate_changes_are_authorised_witness:
  "\<exists>s' m'. current_mandate (creating_env (i64_of 7300) [4]) s' 27911 = Inr m' \<and>
     authorised_change (creating_env (i64_of 7300) [4]) (billing_store sample_changing_mandate) sample_changing_mandate m'"
proof -
  obtain s' ev where "cancel_plan_change (creating_env (i64_of 7300) [4]) sample_mandate_accounts
      (billing_store sample_changing_mandate) = Inr (s', ev)"
    using sample_call_off_returns by blast
  then have "do_mandate_call (creating_env (i64_of 7300) [4], CallCallOff sample_mandate_accounts)
      (billing_store sample_changing_mandate) = Inr s'" by simp
  from mandate_changes_are_authorised [OF this current_mandate_sample [OF sample_mandates_ok(3)]]
  show ?thesis by (auto simp: mandate_runtime_def same_program_def)
qed

definition subscribe_store :: store where
  "subscribe_store = (billing_store sample_mandate)(27911 := \<lparr>acc_owner = system_program_id, acc_lamports = 0, acc_data = []\<rparr>)"

definition sample_subscribe_accounts :: subscribe_accounts where
  "sample_subscribe_accounts =
     \<lparr>sb_subscriber = 4, sb_merchant = 1, sb_merchant_state = 27912, sb_plan = 28676, sb_mandate = 27911,
      sb_credential_mint = 8, sb_billing_mint = 3, sb_token_config = 29708,
      sb_subscriber_credential_account = associated_token_address (creating_env (i64_of 100) [4]) 4 8 22,
      sb_token_program = 21, sb_token_2022_program = 22, sb_associated_token_program = 23,
      sb_system_program = system_program_id\<rparr>"

lemma subscribe_store_simps [simp]:
  "subscribe_store 27911 = \<lparr>acc_owner = system_program_id, acc_lamports = 0, acc_data = []\<rparr>"
  "k \<noteq> 27911 \<Longrightarrow> subscribe_store k = billing_store sample_mandate k"
  by (simp_all add: subscribe_store_def)

lemma billing_store_merchant [simp]:
  "billing_store m 27912 = owned_by program_id (sample_disc KMerchantState @ enc_merchant_state sample_merchant)"
  by (simp add: billing_store_def sample_store_def)

lemma sample_subscribe_returns:
  "\<exists>s'. subscribe (creating_env (i64_of 100) [4]) sample_subscribe_accounts subscribe_store = Inr s'"
proof -
  let ?E = "creating_env (i64_of 100) [4]" and ?s = subscribe_store
  have plan: "load_plan_account ?E ?s 28676 = Inr (FlatPlan sample_plan)"
    using sample_plan_valid(1) vela_plan_codec.try_deserialize_enc [of sample_plan ?E KVelaPlan "[]"]
    by (simp add: load_plan_flat flat_plan_at_def plan_address_def storable_plan_def)
  have ms: "anchor_account ?E KMerchantState dec_merchant_state ?s 27912 = Inr sample_merchant"
    using merchant_state_codec.try_deserialize_enc [OF sample_merchant_valid, of ?E KMerchantState "[]"]
    by (simp add: anchor_account_Inr)
  have tc: "anchor_account ?E KTokenConfig dec_token_config ?s 29708 = Inr sample_token_config"
    using token_config_codec.try_deserialize_enc [of sample_token_config ?E KTokenConfig "[]"] sample_config_valid(3)
    by (simp add: anchor_account_Inr)
  have tk: "tk_enabled sample_token_config" "tk_billing_rail sample_token_config = TransferHook"
    "tk_mint sample_token_config = 3"
    by (simp_all add: sample_token_config_def new_token_config_def)
  have count: "ms_mandate_counter sample_merchant = 0" "ms_credential_mint sample_merchant = 8"
    by (simp_all add: sample_merchant_def new_merchant_state_def)
  have "load_merchant_state ?E ?s 27912 1 = Inr (CurrentMerchantState sample_merchant)"
    by (rule sample_merchant_loads) simp_all
  then have cred: "resolve_merchant_credential_mint ?E ?s 27912 1 8 = Inr 8"
    by (simp add: sample_disc_nonempty resolve_merchant_credential_mint_def data_is_empty_def count Let_def)
  have e: "i64_checked_add (i64_of 100) (I64 50400) = Some (i64_of 50500)"
    "i64_checked_add (i64_of 100) (I64 7200) = Some (i64_of 7300)"
    by (simp_all add: i64_checked_add_def in_i64_def)
  have d: "lp_expiry (FlatPlan sample_plan) (i64_of 100) = Inr (i64_of 50500)"
    "lp_initial_next_payment_due (FlatPlan sample_plan) (i64_of 100) = Inr (i64_of 7300)"
    by (simp_all add: sample_plan_def compute_flat_expiry_def add_delay_def checked_mul_def checked_add_def
        i64_try_from_u64_def e)
  have one: "checked_add (0 :: u64) 1 = Some 1" by (simp add: checked_add_def)
  have len: "length (enc_vela_mandate (new_mandate 4 28676 (FlatPlan sample_plan) (i64_of 100) (i64_of 50500) (i64_of 7300) 255 0)) = 260"
    by (rule vela_mandate_codec.length_enc) (simp add: valid_vela_mandate_def new_mandate_def)
  have merl: "length (enc_merchant_state (sample_merchant\<lparr>ms_mandate_counter := 1\<rparr>)) = 146"
    by (rule merchant_state_codec.length_enc) (use sample_merchant_valid in \<open>simp add: valid_merchant_state_def\<close>)
  have fields: "lp_merchant (FlatPlan sample_plan) = 1" "lp_status (FlatPlan sample_plan) = PlanActive"
    "lp_billing_mint (FlatPlan sample_plan) = 3" "lp_credential_mint (FlatPlan sample_plan) = 8"
    by (simp_all add: sample_plan_def)
  show ?thesis
    using len merl length_sample_merchant
    by (simp add: subscribe_def sample_subscribe_accounts_def ms tc plan fields subscribe_constraints_def is_signer_def
        billing_token_checks_def tk count cred Let_def mandate_seeds_def one data_is_empty_def sample_invoke_def
        credential_authority_def plan_credential_seeds_def d write_mandate_def write_account_def write_data_def
        anchor_exit_def vela_mandate_size_def del: lp_merchant.simps lp_status.simps lp_billing_mint.simps
        lp_credential_mint.simps lp_expiry.simps lp_initial_next_payment_due.simps)
qed

theorem subscribe_stores_the_plans_terms_witness:
  "\<exists>s' m. current_mandate (creating_env (i64_of 100) [4]) s' 27911 = Inr m \<and> md_subscriber m = 4 \<and>
     md_status m = MandateActive"
proof -
  obtain s' where s': "subscribe (creating_env (i64_of 100) [4]) sample_subscribe_accounts subscribe_store = Inr s'"
    using sample_subscribe_returns by blast
  have k: "sb_mandate sample_subscribe_accounts = 27911" "sb_subscriber sample_subscribe_accounts = 4"
    by (simp_all add: sample_subscribe_accounts_def)
  from subscribe_stores_the_plans_terms [OF s' creating_env_runtime sample_distinct_discriminators(2)]
  show ?thesis unfolding k by blast
qed

theorem only_the_subscriber_closes_a_final_mandate_witness:
  "\<exists>s'. close_mandate (creating_env (i64_of 0) [4]) sample_mandate_accounts
      (billing_store (sample_mandate\<lparr>md_status := MandateCancelled\<rparr>)) = Inr s' \<and> acc_data (s' 27911) = [] \<and>
     unat (acc_lamports (s' 4)) = 1000"
proof -
  let ?E = "creating_env (i64_of 0) [4]" and ?m = "sample_mandate\<lparr>md_status := MandateCancelled\<rparr>"
  have m: "current_mandate ?E (billing_store ?m) 27911 = Inr ?m"
    by (rule current_mandate_sample) (use sample_mandates_ok in \<open>simp add: valid_vela_mandate_def\<close>)
  then have l: "load_mandate_account ?E (billing_store ?m) 27911 = Inr (CurrentMandate ?m)"
    by (simp add: current_mandate_Inr)
  have "\<exists>s'. close_mandate ?E sample_mandate_accounts (billing_store ?m) = Inr s'"
    by (simp add: close_mandate_def sample_mandate_accounts_def is_signer_def l sample_address_checks
        close_program_account_def checked_add_def Let_def)
  then obtain s' where s': "close_mandate ?E sample_mandate_accounts (billing_store ?m) = Inr s'" by blast
  from only_the_subscriber_closes_a_final_mandate [OF s', of ?m] m show ?thesis
    using s' by (auto simp: sample_mandate_accounts_def)
qed

end
