(* ===== verification/Pull_Safety.thy ===== *)
theory Pull_Safety
  imports Billing_Samples
begin

text \<open>
  What a pull of \<open>execute_pull\<close> guarantees: which approval it uses, the one transfer
  it makes, what it stores, that a usage period is settled once, and when it goes through.
\<close>

section \<open>Settling a usage report\<close>

text \<open>Changing a byte that a decoder does not read.\<close>

lemma dec_word_beyond:
  "dec_word n bs = Some (x, r) \<Longrightarrow> n \<le> i \<Longrightarrow> dec_word n (bs[i := b]) = Some (x, r[i - n := b])"
  for x :: "'l::len word"
  by (auto simp: dec_word_def drop_update_swap split: if_splits)

lemma dec_i64_beyond:
  "dec_i64 bs = Some (x, r) \<Longrightarrow> 8 \<le> i \<Longrightarrow> dec_i64 (bs[i := b]) = Some (x, r[i - 8 := b])"
  by (auto simp: dec_i64_def dest: dec_word_beyond)

lemma dec_bytes_beyond:
  "dec_bytes n bs = Some (x, r) \<Longrightarrow> n \<le> i \<Longrightarrow> dec_bytes n (bs[i := b]) = Some (x, r[i - n := b])"
  by (auto simp: dec_bytes_def drop_update_swap split: if_splits)

lemma dec_u8_beyond:
  "dec_u8 bs = Some (x, r) \<Longrightarrow> 1 \<le> i \<Longrightarrow> dec_u8 (bs[i := b]) = Some (x, r[i - 1 := b])"
  by (cases bs; cases i) auto

lemma dec_blocks_beyond:
  "dec_seq (dec_bytes k) n bs = Some (xs, r) \<Longrightarrow> n * k \<le> i \<Longrightarrow>
     dec_seq (dec_bytes k) n (bs[i := b]) = Some (xs, r[i - n * k := b])"
proof (induction n arbitrary: bs xs i)
  case (Suc n)
  then obtain y ys bs' where y: "dec_bytes k bs = Some (y, bs')" "dec_seq (dec_bytes k) n bs' = Some (ys, r)"
    "xs = y # ys"
    by (auto simp: bind_eq_Some_conv)
  have "dec_bytes k (bs[i := b]) = Some (y, bs'[i - k := b])"
    using Suc.prems(2) by (intro dec_bytes_beyond [OF y(1)]) simp
  moreover have "dec_seq (dec_bytes k) n (bs'[i - k := b]) = Some (ys, r[i - k - n * k := b])"
    using Suc.prems(2) by (intro Suc.IH [OF y(2)]) simp
  ultimately show ?case by (simp add: y(3))
qed simp

lemma settled_byte:
  assumes "dec_usage_report bs = Some (r, rest)"
  shows "dec_usage_report (bs[545 := 1]) = Some (r\<lparr>ur_settled := True\<rparr>, rest)"
proof -
  from assms obtain x1 x2 x3 x4 x5 x6 x7 x8 x9 x10 x11 b1 b2 b3 b4 b5 b6 b7 b8 b9 b10 b11 where
    d: "dec_key bs = Some (x1, b1)" "dec_key b1 = Some (x2, b2)" "dec_i64 b2 = Some (x3, b3)"
      "dec_i64 b3 = Some (x4, b4)" "dec_seq (dec_bytes 32) 13 b4 = Some (x5, b5)" "dec_u8 b5 = Some (x6, b6)"
      "dec_u128 b6 = Some (x7, b7)" "dec_bytes 32 b7 = Some (x8, b8)" "dec_bool b8 = Some (x9, b9)"
      "dec_i64 b9 = Some (x10, b10)" "dec_u8 b10 = Some (x11, b11)" and
    r: "r = \<lparr>ur_mandate = x1, ur_merchant = x2, ur_period_start = x3, ur_period_end = x4,
       ur_computation_ciphertext = x5, ur_ciphertext_count = x6, ur_nonce = x7, ur_pub_key = x8,
       ur_settled = x9, ur_created_at = x10, ur_bump = x11\<rparr>" "rest = b11"
    unfolding dec_usage_report_def by (elim bind_SomeE) (auto intro: that)
  have "dec_key (bs[545 := 1]) = Some (x1, b1[513 := 1])" "dec_key (b1[513 := 1]) = Some (x2, b2[481 := 1])"
    "dec_i64 (b2[481 := 1]) = Some (x3, b3[473 := 1])" "dec_i64 (b3[473 := 1]) = Some (x4, b4[465 := 1])"
    "dec_seq (dec_bytes 32) 13 (b4[465 := 1]) = Some (x5, b5[49 := 1])"
    "dec_u8 (b5[49 := 1]) = Some (x6, b6[48 := 1])" "dec_u128 (b6[48 := 1]) = Some (x7, b7[32 := 1])"
    "dec_bytes 32 (b7[32 := 1]) = Some (x8, b8[0 := 1])"
    using dec_word_beyond [OF d(1)] dec_word_beyond [OF d(2)] dec_i64_beyond [OF d(3)] dec_i64_beyond [OF d(4)]
      dec_blocks_beyond [OF d(5)] dec_u8_beyond [OF d(6)] dec_word_beyond [OF d(7)] dec_bytes_beyond [OF d(8)]
    by simp_all
  moreover have "dec_bool (b8[0 := 1]) = Some (True, b9)" using d(9) by (cases b8) (auto split: if_splits)
  ultimately show ?thesis using d(10,11) by (simp add: dec_usage_report_def r)
qed

lemma settled_report:
  assumes "mark_usage_report_settled k s = Inr s'" "distinct_discriminators E"
    "try_deserialize E KUsageReport dec_usage_report (acc_data (s k)) = Some r"
  shows "try_deserialize E KUsageReport dec_usage_report (acc_data (s' k)) = Some (r\<lparr>ur_settled := True\<rparr>)"
proof -
  let ?bs = "acc_data (s k)"
  have d: "length (disc E KUsageReport) = 8" by (rule distinct_discriminatorsD(1) [OF assms(2)])
  have s': "acc_data (s' k) = ?bs[553 := 1]"
    using mark_settled_Inr [OF assms(1)] by (simp add: SETTLED_OFFSET_def MAX_USAGE_COMPUTATION_CIPHERTEXTS_def)
  obtain rest where r: "take 8 ?bs = disc E KUsageReport" "dec_usage_report (drop 8 ?bs) = Some (r, rest)"
    using assms(3) by (auto simp: try_deserialize_def d split: if_splits option.splits)
  have "drop 8 (?bs[553 := 1]) = (drop 8 ?bs)[545 := 1]" by (simp add: drop_update_swap)
  then show ?thesis using r settled_byte [OF r(2)] by (simp add: try_deserialize_def s' d)
qed

text \<open>
  Settling a report by poking its flag is the same as writing the report back with the flag
  set: the byte at the offset the code computes is the flag's, and every other field of the
  report reads as before.
\<close>

theorem settling_pokes_the_flag:
  assumes "distinct_discriminators E"
    "try_deserialize E KUsageReport dec_usage_report (acc_data (s k)) = Some r"
    "usage_report_size \<le> length (acc_data (s k))"
  shows "\<exists>s'. mark_usage_report_settled k s = Inr s' \<and>
    try_deserialize E KUsageReport dec_usage_report (acc_data (s' k)) = Some (r\<lparr>ur_settled := True\<rparr>) \<and>
    (\<forall>j. j \<noteq> k \<longrightarrow> s' j = s j)"
proof -
  have "SETTLED_OFFSET < length (acc_data (s k))"
    using assms(3) by (simp add: SETTLED_OFFSET_def usage_report_size_def)
  then have m: "mark_usage_report_settled k s = Inr (set_data s k ((acc_data (s k))[SETTLED_OFFSET := 1]))"
    by (simp add: mark_usage_report_settled_def)
  from m settled_report [OF m assms(1,2)] show ?thesis by auto
qed

section \<open>What a pull does\<close>

lemma use_credit_fst:
  "unat (fst (use_credit base m)) = unat base - min (unat base) (unat (md_credit_balance m))"
  by (simp add: use_credit_def Let_def arith_simps min_def word_le_nat_alt)

lemma use_credit_left:
  "unat (md_credit_balance (snd (use_credit base m))) = unat (md_credit_balance m) - unat base"
  by (simp add: use_credit_snd arith_simps min_def word_le_nat_alt)

text \<open>The pull of a current mandate, with the accounts it touches.\<close>

lemma execute_pull_current:
  assumes "execute_pull E c remaining s = Inr (s', ev)" "keeps_program_accounts E" "distinct_discriminators E"
    "current_mandate E s (pu_mandate c) = Inr m"
  obtains tc pc kc plan plan1 ch a approval base s1 s2 s3 m' where
    "load_protocol_config E s (pda E [protocol_config_seed]) = Inr pc" "\<not> lpc_paused pc"
    "load_plan_account E s (md_plan m) = Inr plan"
    "apply_pending_change E s remaining (if md_billing_type m = Usage then 1 else 0) plan m =
       Inr (changed_plan (due_change (unix_timestamp E) m plan1) m, plan1, ch)"
    "pull_approval_for E s (pu_pull_approval c) (pu_mandate c) a (md_next_payment_due m) = Inr approval"
    "uint (md_frequency m) < 2 ^ 63" "sval a = sval (md_next_payment_due m) - uint (md_frequency m)"
    "base_charge plan1 (changed_plan (due_change (unix_timestamp E) m plan1) m) (pa_approved_amount approval) = Inr base"
    "if fst (use_credit base m) = 0 then s1 = s
     else invoke_billing_transfer E c tc (fst (use_credit base m))
       [pull_signer_seeds False (changed_plan (due_change (unix_timestamp E) m plan1) m)] (md_merchant m) s = Inr s1"
    "mandate_step (StepPull (unix_timestamp E) (due_change (unix_timestamp E) m plan1) base) m = Inr m'"
    "write_current_mandate E (pu_mandate c) m' s1 = Inr s2"
    "md_billing_type m = Usage \<Longrightarrow>
       validate_usage_report_for_settlement E s (hd remaining) (pu_mandate c) (md_merchant m) a
         (md_next_payment_due m) = Inr ()"
    "if md_billing_type m = Usage then mark_usage_report_settled (hd remaining) s2 = Inr s3 else s3 = s2"
    "close_program_account (pu_pull_approval c) (pu_payer c) s3 = Inr s'"
    "list_all fst (pull_checks E c pc kc tc plan m)" "accounts_kept s s1"
    "current_mandate E s' (pu_mandate c) = Inr m'"
    "md_billing_type m = Usage \<Longrightarrow> hd remaining \<noteq> pu_pull_approval c \<and>
       acc_data (s2 (hd remaining)) = acc_data (s (hd remaining))"
  using assms(1)
proof (cases rule: execute_pull_Inr)
  case (1 tc kc pc plan l a b m1 plan1 ch approval base s1 s2 s3 m2)
  have l: "l = CurrentMandate m" using 1(7) assms(4) by (simp add: current_mandate_Inr)
  note 1 = 1 [unfolded l lm_into_current.simps lm_is_legacy.simps]
  note step = pull_is_step [OF 1(9,12,15,17)]
  let ?m1 = "changed_plan (due_change (unix_timestamp E) m plan1) m"
  have fst: "fst (use_credit base m1) = fst (use_credit base m)"
    "pull_signer_seeds False (snd (use_credit base m1)) = pull_signer_seeds False ?m1"
    "md_merchant (snd (use_credit base m1)) = md_merchant m"
    by (simp_all add: use_credit_def Let_def step(1) pull_signer_seeds_def)
  have "pu_plan c = md_plan m" using 1(9) by (simp add: pull_checks_def Let_def)
  moreover have "pu_protocol_config c = pda E [protocol_config_seed]" "\<not> lpc_paused pc"
    using 1(2,5) by (simp_all add: pull_constraints_def pull_config_checks_def)
  moreover have "b = md_next_payment_due m" "uint (md_frequency m) < 2 ^ 63"
    "sval a = sval (md_next_payment_due m) - uint (md_frequency m)"
    using 1(10) by (simp_all add: mandate_billing_period_Inr)
  moreover have "md_merchant m1 = md_merchant m" by (simp add: step(1))
  moreover have "if fst (use_credit base m) = 0 then s1 = s
     else invoke_billing_transfer E c tc (fst (use_credit base m)) [pull_signer_seeds False ?m1] (md_merchant m) s = Inr s1"
    using 1(16) by (simp add: fst word_neq_0_conv split: if_splits)
  moreover have kept: "accounts_kept s s1"
    using 1(16) billing_transfer_kept [OF _ assms(2)] by (auto split: if_splits)
  moreover have tail: "mandates_kept E s2 s'" "md_billing_type m = Usage \<Longrightarrow>
      hd remaining \<noteq> pu_pull_approval c \<and> acc_data (s2 (hd remaining)) = acc_data (s (hd remaining))"
    using pull_tail [OF assms(3) kept 1(7,13,14,18,19,20)] by blast+
  moreover have "current_mandate E s' (pu_mandate c) = Inr m2"
  proof -
    have "acc_owner (s1 (pu_mandate c)) = program_id"
      using current_store.load_owner [OF assms(4)] kept by (simp add: accounts_kept_def)
    then have "current_mandate E s2 (pu_mandate c) = Inr m2"
      using current_store.load_written [OF 1(18)] mandate_step_storable [OF step(2)]
        current_store.load_storable [OF assms(4)] by blast
    then show ?thesis using tail(1) by (simp add: mandates_kept_def)
  qed
  ultimately show thesis
    using 1 step
    by (intro that [where tc = tc and pc = pc and kc = kc and plan = plan and ?plan1.0 = plan1 and ch = ch and a = a and
        approval = approval and base = base and ?s1.0 = s1 and ?s2.0 = s2 and ?s3.0 = s3 and m' = m2]) simp_all
qed

lemma base_charge_bounds:
  "base_charge plan m approved = Inr base \<Longrightarrow> base \<le> approved \<and> base \<le> md_amount m \<and>
     (lp_is_flat plan \<longrightarrow> base = md_amount m) \<and> (\<not> lp_is_flat plan \<longrightarrow> base = approved)"
  by (auto simp: base_charge_Inr split: if_splits)

text \<open>
  C1: A pull that returns makes at most one transfer. It is covered by an approval stored at the
  mandate's approval address, granted for this mandate and exactly the period that ends at
  the due date, and not past its validity; the charge is at most the approved amount and at
  most the mandate's amount, less the credit; if anything is left after the credit it goes
  from a token account of the mandate to one of the merchant, in the mandate's mint, and no
  other account outside the program changes its data; the mandate is stored as the rules of a
  pull say, and the approval is closed.
\<close>

theorem pull_makes_one_approved_transfer:
  assumes "execute_pull E c remaining s = Inr (s', ev)" "keeps_program_accounts E" "distinct_discriminators E"
    "current_mandate E s (pu_mandate c) = Inr m"
  shows "\<exists>approval plan1 base m1 m' s1 charge.
    try_deserialize E KPullApproval dec_pull_approval (acc_data (s (pu_pull_approval c))) = Some approval \<and>
    pu_pull_approval c = pda E [pull_approval_seed, key_bytes (pu_mandate c)] \<and>
    pa_approved approval \<and> pa_mandate approval = pu_mandate c \<and> unix_timestamp E \<le> pa_valid_until approval \<and>
    pa_period_end approval = md_next_payment_due m \<and>
    sval (pa_period_start approval) = sval (md_next_payment_due m) - uint (md_frequency m) \<and>
    m1 = changed_plan (due_change (unix_timestamp E) m plan1) m \<and>
    base \<le> pa_approved_amount approval \<and> base \<le> md_amount m1 \<and>
    unat charge = unat base - min (unat base) (unat (md_credit_balance m)) \<and>
    (if charge = 0 then s1 = s
     else (\<exists>d src dst. invoke E (TransferChecked (pu_token_2022_program c) (pu_subscriber_wrapped_account c)
             (pu_wrapped_usdc_mint c) (pu_merchant_wrapped_account c) (pu_mandate c) charge d
             (transfer_hook_account_metas (pull_transfer_accounts c))) [pull_signer_seeds False m1] s = Inr s1 \<and>
           unpack_token E (acc_data (s (pu_subscriber_wrapped_account c))) = Some src \<and> ta_owner src = pu_mandate c \<and>
           unpack_token E (acc_data (s (pu_merchant_wrapped_account c))) = Some dst \<and> ta_owner dst = md_merchant m)) \<and>
    (\<forall>j. acc_owner (s1 j) \<noteq> program_id \<longrightarrow> acc_data (s' j) = acc_data (s1 j)) \<and>
    mandate_step (StepPull (unix_timestamp E) (due_change (unix_timestamp E) m plan1) base) m = Inr m' \<and>
    current_mandate E s' (pu_mandate c) = Inr m' \<and>
    acc_data (s' (pu_pull_approval c)) = [] \<and> acc_owner (s' (pu_pull_approval c)) = system_program_id"
  using assms
proof (cases rule: execute_pull_current)
  case (1 tc pc kc plan plan1 ch a approval base s1 s2 s3 m')
  let ?k = "pu_mandate c" and ?ap = "pu_pull_approval c"
  let ?m1 = "changed_plan (due_change (unix_timestamp E) m plan1) m" and ?charge = "fst (use_credit base m)"
  have own: "acc_owner (s1 ?k) = program_id"
    using current_store.load_owner [OF assms(4)] 1(16) by (simp add: accounts_kept_def)
  have frame: "acc_data (s' j) = acc_data (s1 j)" if "acc_owner (s1 j) \<noteq> program_id" for j
  proof -
    have "acc_owner (s ?ap) = program_id" using 1(5) unfolding pull_approval_for_Inr by blast
    then have "j \<noteq> ?ap" using that 1(16) by (auto simp: accounts_kept_def)
    moreover have "md_billing_type m = Usage \<Longrightarrow> j \<noteq> hd remaining"
      using 1(12) that 1(16) by (auto simp: usage_report_for_settlement_Inr accounts_kept_def)
    moreover have "j \<noteq> ?k" using own that by auto
    ultimately show ?thesis
      using close_program_account_data [OF 1(14)] 1(13) write_mandate_frame [OF 1(11)]
      by (auto dest: mark_settled_Inr split: if_splits)
  qed
  have transfer: "if ?charge = 0 then s1 = s
     else (\<exists>d src dst. invoke E (TransferChecked (pu_token_2022_program c) (pu_subscriber_wrapped_account c)
             (pu_wrapped_usdc_mint c) (pu_merchant_wrapped_account c) ?k ?charge d
             (transfer_hook_account_metas (pull_transfer_accounts c))) [pull_signer_seeds False ?m1] s = Inr s1 \<and>
           unpack_token E (acc_data (s (pu_subscriber_wrapped_account c))) = Some src \<and> ta_owner src = ?k \<and>
           unpack_token E (acc_data (s (pu_merchant_wrapped_account c))) = Some dst \<and> ta_owner dst = md_merchant m)"
    using 1(9) billing_transfer_Inr by (fastforce split: if_splits)
  note ap = 1(5) [unfolded pull_approval_for_Inr]
  have per: "sval (pa_period_start approval) = sval (md_next_payment_due m) - uint (md_frequency m)"
    using ap 1(7) by blast
  show ?thesis
    by (intro exI [of _ approval] exI [of _ plan1] exI [of _ base] exI [of _ ?m1] exI [of _ m'] exI [of _ s1]
        exI [of _ ?charge] conjI refl use_credit_fst per transfer 1(10,17))
       (use ap base_charge_bounds [OF 1(8)] frame close_program_account_closed [OF 1(14)] in blast)+
qed

text \<open>
  C19: A usage period is charged once. A pull of a usage mandate takes an unsettled report for
  exactly the period it charges and leaves it settled and otherwise unchanged, so that no
  later settlement of that report passes.
\<close>

theorem usage_period_settled_once:
  assumes "execute_pull E c remaining s = Inr (s', ev)" "keeps_program_accounts E" "distinct_discriminators E"
    "current_mandate E s (pu_mandate c) = Inr m" "md_billing_type m = Usage"
  shows "\<exists>r. try_deserialize E KUsageReport dec_usage_report (acc_data (s (hd remaining))) = Some r \<and>
    \<not> ur_settled r \<and> ur_mandate r = pu_mandate c \<and> ur_period_end r = md_next_payment_due m \<and>
    try_deserialize E KUsageReport dec_usage_report (acc_data (s' (hd remaining))) = Some (r\<lparr>ur_settled := True\<rparr>) \<and>
    (\<forall>mandate merchant a b u. validate_usage_report_for_settlement E s' (hd remaining) mandate merchant a b \<noteq> Inr u)"
  using assms(1-4)
proof (cases rule: execute_pull_current)
  case (1 tc pc kc plan plan1 ch a approval base s1 s2 s3 m')
  let ?u = "hd remaining"
  note tail = 1(18) [OF assms(5)]
  from 1(12) [OF assms(5)] obtain r where r: "\<not> ur_settled r"
    "try_deserialize E KUsageReport dec_usage_report (acc_data (s ?u)) = Some r"
    "ur_mandate r = pu_mandate c" "ur_period_end r = md_next_payment_due m"
    by (auto simp: usage_report_for_settlement_Inr)
  have "mark_usage_report_settled ?u s2 = Inr s3" using 1(13) assms(5) by simp
  from settled_report [OF this assms(3)] r tail
  have "try_deserialize E KUsageReport dec_usage_report (acc_data (s3 ?u)) = Some (r\<lparr>ur_settled := True\<rparr>)" by simp
  then have s': "try_deserialize E KUsageReport dec_usage_report (acc_data (s' ?u)) = Some (r\<lparr>ur_settled := True\<rparr>)"
    using close_program_account_data [OF 1(14), of ?u] tail by simp
  then have "validate_usage_report_for_settlement E s' ?u mandate merchant a b \<noteq> Inr u" for mandate merchant a b u
    by (simp add: usage_report_for_settlement_Inr)
  with r s' show ?thesis by blast
qed

text \<open>A change of plan that is due takes the new plan's terms as they are at the pull.\<close>

lemma due_change_takes_the_plans_present_terms:
  assumes "execute_pull E c remaining s = Inr (s', ev)" "keeps_program_accounts E" "distinct_discriminators E"
    "current_mandate E s (pu_mandate c) = Inr m"
    "md_pending_change_type m = 2" "md_pending_effective_at m \<le> unix_timestamp E"
  shows "\<exists>p m'. load_plan_account E s (md_pending_new_plan m) = Inr p \<and> lp_merchant p = md_merchant m \<and>
    lp_status p = PlanActive \<and> current_mandate E s' (pu_mandate c) = Inr m' \<and>
    md_plan m' = md_pending_new_plan m \<and> md_amount m' = lp_mandate_amount p \<and>
    md_frequency m' = lp_mandate_frequency p \<and> md_max_pulls m' = lp_max_pulls p \<and> \<not> has_pending_change m'"
  using assms(1-4)
proof (cases rule: execute_pull_current)
  case (1 tc pc kc plan plan1 ch a approval base s1 s2 s3 m')
  have ch: "due_change (unix_timestamp E) m plan1 = Some (md_pending_new_plan m, plan1)"
    using assms(5,6) by (simp add: due_change_def)
  have p: "load_plan_account E s (md_pending_new_plan m) = Inr plan1" "lp_merchant plan1 = md_merchant m"
      "lp_status plan1 = PlanActive"
    using 1(4) assms(5,6) by (cases rule: apply_pending_change_Inr; simp)+
  let ?m1 = "snd (use_credit base (apply_plan (md_pending_new_plan m) plan1 m))"
  have "count_pull (unix_timestamp E) ?m1 = Inr m'"
    using pull_step_Inr(2) [OF 1(10)] by (simp add: ch changed_plan_def)
  then obtain x1 x2 x3 x4 x5 where m': "m' = ?m1\<lparr>md_pulls_executed := x1, md_next_payment_due := x2,
      md_last_pull_at := x3, md_last_billing_recorded_pull := x4, md_status := x5\<rparr>"
    using count_pull_Inr(7) by blast
  have "md_plan m' = md_pending_new_plan m \<and> md_amount m' = lp_mandate_amount plan1 \<and>
    md_frequency m' = lp_mandate_frequency plan1 \<and> md_max_pulls m' = lp_max_pulls plan1 \<and> \<not> has_pending_change m'"
    by (simp add: m' use_credit_snd has_pending_change_def)
  with p 1(17) show ?thesis by blast
qed

section \<open>When a pull goes through\<close>

text \<open>
  A pull that passes every check returns: the converse of \<open>execute_pull_Inr\<close> for current
  mandates. The transfer is the only part the program does not decide.
\<close>

lemma execute_pull_returns:
  assumes "anchor_account E KTokenConfig dec_token_config s (pu_token_config c) = Inr tc"
    "list_all fst (pull_constraints E c tc)"
    "load_keeper_config E s (pu_keeper_config c) = Inr kc"
    "load_protocol_config E s (pu_protocol_config c) = Inr pc" "list_all fst (pull_config_checks c pc)"
    "load_plan_account E s (pu_plan c) = Inr plan" "current_mandate E s (pu_mandate c) = Inr m"
    "validate_loaded_mandate_address E (pu_mandate c) (CurrentMandate m) = Inr ()"
    "list_all fst (pull_checks E c pc kc tc plan m)" "mandate_billing_period m = Inr (a, b)"
    "apply_pending_change E s remaining (if md_billing_type m = Usage then 1 else 0) plan m = Inr (m1, plan1, ch)"
    "pull_approval_for E s (pu_pull_approval c) (pu_mandate c) a b = Inr approval"
    "md_billing_type m = Usage \<Longrightarrow> remaining \<noteq> [] \<and>
       validate_usage_report_for_settlement E s (hd remaining) (pu_mandate c) (md_merchant m1) a b = Inr () \<and>
       usage_report_size \<le> length (acc_data (s (hd remaining)))"
    "base_charge plan1 m1 (pa_approved_amount approval) = Inr base"
    "if 0 < fst (use_credit base m1)
     then invoke_billing_transfer E c tc (fst (use_credit base m1)) [pull_signer_seeds False m1] (md_merchant m1) s = Inr s1
     else s1 = s"
    "count_pull (unix_timestamp E) (snd (use_credit base m1)) = Inr m'"
    "keeps_program_accounts E" "distinct_discriminators E"
    "unat (acc_lamports (s1 (pu_payer c))) + unat (acc_lamports (s1 (pu_pull_approval c))) < 2 ^ 64"
  shows "\<exists>s' ev. execute_pull E c remaining s = Inr (s', ev)"
proof -
  let ?k = "pu_mandate c" and ?ap = "pu_pull_approval c" and ?u = "hd remaining"
  let ?usage = "md_billing_type m = Usage"
  have load: "load_mandate_account E s ?k = Inr (CurrentMandate m)"
    using assms(7) by (simp add: current_mandate_Inr)
  have kept: "accounts_kept s s1"
    using assms(15) billing_transfer_kept [OF _ assms(17)] by (auto split: if_splits)
  obtain n m2 where cr: "use_credit base m1 = (n, m2)" by (cases "use_credit base m1")
  have m2: "md_merchant m2 = md_merchant m1" "pull_signer_seeds False m2 = pull_signer_seeds False m1"
    using cr by (auto simp: use_credit_def Let_def pull_signer_seeds_def)
  have tr: "(if 0 < n then invoke_billing_transfer E c tc n [pull_signer_seeds False m2] (md_merchant m2) s else Inr s) = Inr s1"
    using assms(15) by (auto simp: cr m2)
  have step: "mandate_step (StepPull (unix_timestamp E) (due_change (unix_timestamp E) m plan1) base) m = Inr m'"
    by (rule pull_is_step(2) [OF assms(9,11,14,16)])
  obtain s2 where s2: "write_current_mandate E ?k m' s1 = Inr s2"
    using write_current_room [OF assms(7,18) kept mandate_step_storable [OF step current_store.load_storable [OF assms(7)]]]
    by blast
  have ap: "acc_owner (s ?ap) = program_id" "starts_with (acc_data (s ?ap)) (disc E KPullApproval)"
    "pa_period_start approval = a" "pa_period_end approval = b"
    using assms(12) by (auto simp: pull_approval_for_Inr intro: try_deserialize_starts)
  have k: "starts_with (acc_data (s ?k)) (disc E KVelaMandate)" by (rule loaded_mandate_starts [OF load])
  have ne: "?ap \<noteq> ?k" using assms(18) ap(2) k by (rule kinds_differ) simp
  have u: "starts_with (acc_data (s ?u)) (disc E KUsageReport) \<and> acc_owner (s ?u) = program_id" if ?usage
    using assms(13) [OF that] by (auto simp: usage_report_for_settlement_Inr intro: try_deserialize_starts)
  have uk: "?u \<noteq> ?k \<and> ?u \<noteq> ?ap" if ?usage
    using kinds_differ [where E = E and s = s and j = ?u and a = KUsageReport and k = ?k and b = KVelaMandate]
      kinds_differ [where E = E and s = s and j = ?u and a = KUsageReport and k = ?ap and b = KPullApproval]
      assms(18) k ap(2) u [OF that] by simp
  have room: "SETTLED_OFFSET < length (acc_data (s2 ?u))" if ?usage
    using assms(13) [OF that] write_mandate_frame [OF s2, of ?u] uk [OF that] u [OF that] kept
    by (simp add: accounts_kept_def SETTLED_OFFSET_def usage_report_size_def)
  define s3 where "s3 = (if ?usage then set_data s2 ?u ((acc_data (s2 ?u))[SETTLED_OFFSET := 1]) else s2)"
  have mark: "(if ?usage then mark_usage_report_settled ?u s2 else Inr s2) = Inr s3"
    using room by (auto simp: s3_def mark_usage_report_settled_def)
  have "acc_lamports (s2 j) = acc_lamports (s1 j)" for j
    using write_mandate_frame [OF s2, of j] current_store.write_keeps [OF s2] by (cases "j = ?k") simp_all
  then have lam: "acc_lamports (s3 j) = acc_lamports (s1 j)" for j by (simp add: s3_def set_data_def)
  have "acc_owner (s2 ?ap) = program_id"
    using write_mandate_frame [OF s2 ne] ap(1) kept by (simp add: accounts_kept_def)
  then have own: "acc_owner (s3 ?ap) = program_id" by (auto simp: s3_def set_data_def)
  have "\<exists>s4. close_program_account ?ap (pu_payer c) s3 = Inr s4"
    using assms(19) by (simp add: close_program_account_def own lam Let_def checked_add_def)
  then obtain s4 where s4: "close_program_account ?ap (pu_payer c) s3 = Inr s4" by blast
  have all: "require_all cs = Inr ()" if "list_all fst cs" for cs :: "(bool \<times> verror) list"
    using that by (simp add: require_all_Inr)
  have m': "count_pull (unix_timestamp E) m2 = Inr m'" using assms(16) by (simp add: cr)
  have some: "(?usage \<and> remaining = []) = False" using assms(13) by auto
  have report: "(if ?usage then validate_usage_report_for_settlement E s ?u ?k (md_merchant m1) a b else Inr ()) = Inr ()"
    using assms(13) by auto
  show ?thesis
    unfolding execute_pull_def assms(1,3,4,6) load sum.case all [OF assms(2)] all [OF assms(5)] lm_into_current.simps
      lm_is_legacy.simps Let_def assms(8) all [OF assms(9)] assms(10) prod.case some if_False assms(11,12) ap(3,4)
      report assms(14) cr tr m' s2 mark s4
    by simp
qed

lemma count_pull_room:
  assumes "unat (md_pulls_executed m) + 1 < 2 ^ 64" "uint (md_frequency m) < 2 ^ 63"
    "sval (md_next_payment_due m) + uint (md_frequency m) < 2 ^ 63"
  shows "\<exists>m'. count_pull now m = Inr m'"
proof -
  have "in_i64 (uint (md_frequency m))" "in_i64 (sval (md_next_payment_due m) + uint (md_frequency m))"
    using assms(2,3) sval_range [of "md_next_payment_due m"] uint_nonnegative [of "md_frequency m"]
    unfolding in_i64_def by linarith+
  then have "i64_try_from_u64 (md_frequency m) = Some (i64_of (uint (md_frequency m)))"
    "i64_checked_add (md_next_payment_due m) (i64_of (uint (md_frequency m))) =
       Some (i64_of (sval (md_next_payment_due m) + uint (md_frequency m)))"
    using assms(2) by (simp_all add: arith_simps)
  moreover have "\<exists>n. checked_add (md_pulls_executed m) 1 = Some n"
    using assms(1) by (simp add: checked_add_def)
  ultimately show ?thesis by (auto simp: count_pull_def Let_def)
qed

lemma use_credit_part:
  assumes "md_credit_balance m < base"
  shows "use_credit base m = (base - md_credit_balance m, m\<lparr>md_credit_balance := 0\<rparr>)" "0 < base - md_credit_balance m"
  using assms less_imp_le [OF assms]
  by (simp_all add: use_credit_def Let_def saturating_sub_def min_def leD word_less_nat_alt unat_sub_if')

lemma pulls_have_room:
  assumes "list_all fst (pull_checks E c pc kc tc plan m)"
  shows "unat (md_pulls_executed m) + 1 < 2 ^ 64"
proof -
  have "md_pulls_executed m < md_max_pulls m" using assms by (simp add: pull_checks_def Let_def)
  then show ?thesis using unsigned_less [of "md_max_pulls m", where ?'a = nat] by (simp add: word_less_nat_alt)
qed

text \<open>
  C30: An approved pull of a flat mandate goes through. If the accounts, the configuration, the
  mandate and its plan pass the checks at this time, no change of plan is due, the approval
  covers the amount, the counters and dates have room and the token program accepts the
  transfer of what is left after the credit, then the pull returns, with one more pull
  counted, the due date one frequency on and the credit used up.
\<close>

theorem approved_flat_pull_goes_through:
  assumes "anchor_account E KTokenConfig dec_token_config s (pu_token_config c) = Inr tc"
    "list_all fst (pull_constraints E c tc)"
    "load_keeper_config E s (pu_keeper_config c) = Inr kc"
    "load_protocol_config E s (pu_protocol_config c) = Inr pc" "list_all fst (pull_config_checks c pc)"
    "load_plan_account E s (pu_plan c) = Inr plan" "lp_is_flat plan"
    "current_mandate E s (pu_mandate c) = Inr m" "md_billing_type m = Flat"
    "validate_loaded_mandate_address E (pu_mandate c) (CurrentMandate m) = Inr ()"
    "list_all fst (pull_checks E c pc kc tc plan m)"
    "\<not> (md_pending_change_type m = 2 \<and> md_pending_effective_at m \<le> unix_timestamp E)"
    "pull_approval_for E s (pu_pull_approval c) (pu_mandate c) a (md_next_payment_due m) = Inr approval"
    "md_amount m \<le> pa_approved_amount approval"
    "uint (md_frequency m) < 2 ^ 63" "sval a = sval (md_next_payment_due m) - uint (md_frequency m)"
    "sval (md_next_payment_due m) + uint (md_frequency m) < 2 ^ 63"
    "md_credit_balance m < md_amount m"
    "invoke_billing_transfer E c tc (md_amount m - md_credit_balance m) [pull_signer_seeds False m] (md_merchant m) s = Inr s1"
    "keeps_program_accounts E" "distinct_discriminators E"
    "unat (acc_lamports (s1 (pu_payer c))) + unat (acc_lamports (s1 (pu_pull_approval c))) < 2 ^ 64"
  shows "\<exists>s' ev m'. execute_pull E c remaining s = Inr (s', ev) \<and> current_mandate E s' (pu_mandate c) = Inr m' \<and>
    unat (md_pulls_executed m') = unat (md_pulls_executed m) + 1 \<and> md_credit_balance m' = 0 \<and>
    sval (md_next_payment_due m') = sval (md_next_payment_due m) + uint (md_frequency m)"
proof -
  note credit = use_credit_part(1) [OF assms(18)] and pos = use_credit_part(2) [OF assms(18)]
  have period: "mandate_billing_period m = Inr (a, md_next_payment_due m)"
    using assms(15,16) by (simp add: mandate_billing_period_Inr)
  obtain m' where m': "count_pull (unix_timestamp E) (m\<lparr>md_credit_balance := 0\<rparr>) = Inr m'"
    using count_pull_room [of "m\<lparr>md_credit_balance := 0\<rparr>"] pulls_have_room [OF assms(11)] assms(15,17) by auto
  have change: "apply_pending_change E s remaining (if md_billing_type m = Usage then 1 else 0) plan m = Inr (m, plan, None)"
    using assms(12) by (simp add: apply_pending_change_def)
  have base: "base_charge plan m (pa_approved_amount approval) = Inr (md_amount m)"
    using assms(7,14) by (simp add: base_charge_def)
  have "\<exists>s' ev. execute_pull E c remaining s = Inr (s', ev)"
    by (rule execute_pull_returns [OF assms(1-6,8,10,11) period change assms(13) _ base _ _ assms(20,21,22)])
       (use assms(9,19) pos m' in \<open>simp_all add: credit\<close>)
  then obtain s' ev where r: "execute_pull E c remaining s = Inr (s', ev)" by blast
  from r assms(20,21,8) show ?thesis
  proof (cases rule: execute_pull_current)
    case (1 tc' pc' kc' plan' plan1 ch a' approval' base s1' s2 s3 m2)
    have due: "due_change (unix_timestamp E) m p = None" for p using assms(12) by (simp add: due_change_def)
    have "pu_plan c = md_plan m" using assms(11) by (simp add: pull_checks_def Let_def)
    then have "plan' = plan" using 1(3) assms(6) by simp
    moreover have "plan1 = plan'" using 1(4) assms(12) by (simp add: apply_pending_change_def)
    ultimately have "base = md_amount m" using 1(8) assms(7) by (simp add: due changed_plan_def base_charge_Inr)
    then have "count_pull (unix_timestamp E) (m\<lparr>md_credit_balance := 0\<rparr>) = Inr m2"
      using pull_step_Inr(2) [OF 1(10)] by (simp add: due changed_plan_def credit)
    note c = count_pull_Inr [OF this]
    have "unat (md_pulls_executed m2) = unat (md_pulls_executed m) + 1" "md_credit_balance m2 = 0"
      "sval (md_next_payment_due m2) = sval (md_next_payment_due m) + uint (md_frequency m)"
      using c(1,2,4) by simp_all
    with r 1(17) show ?thesis by blast
  qed
qed

text \<open>
  C33: A change of plan that falls due is charged at the new plan's terms of the day, unchecked against what the subscriber
  agreed to when it was noted. If the pull passes the checks, the new plan is named, active, of the mandate's merchant,
  of its kind and in its token, and the approval fits the new plan's amount alone (equal to it or larger for a flat plan; for a
  usage plan the approved charge is at most its cap), then, whatever amount, frequency and number
  of pulls the mandate had, the pull returns: it pays that charge less the credit and stores the plan's present terms.
\<close>

theorem due_change_is_charged_at_the_plans_present_terms:
  assumes "anchor_account E KTokenConfig dec_token_config s (pu_token_config c) = Inr tc"
    "list_all fst (pull_constraints E c tc)"
    "load_keeper_config E s (pu_keeper_config c) = Inr kc"
    "load_protocol_config E s (pu_protocol_config c) = Inr pc" "list_all fst (pull_config_checks c pc)"
    "load_plan_account E s (pu_plan c) = Inr plan" "current_mandate E s (pu_mandate c) = Inr m"
    "validate_loaded_mandate_address E (pu_mandate c) (CurrentMandate m) = Inr ()"
    "list_all fst (pull_checks E c pc kc tc plan m)"
    "md_pending_change_type m = 2" "md_pending_effective_at m \<le> unix_timestamp E"
    "i = (if md_billing_type m = Usage then 1 else 0)" "i < length remaining" "remaining ! i = md_pending_new_plan m"
    "load_plan_account E s (md_pending_new_plan m) = Inr p" "lp_merchant p = md_merchant m" "lp_status p = PlanActive"
    "lp_billing_type p = md_billing_type m" "lp_billing_mint p = lp_billing_mint plan"
    "pull_approval_for E s (pu_pull_approval c) (pu_mandate c) a (md_next_payment_due m) = Inr approval"
    "md_billing_type m = Usage \<Longrightarrow>
       validate_usage_report_for_settlement E s (hd remaining) (pu_mandate c) (md_merchant m) a (md_next_payment_due m) = Inr () \<and>
       usage_report_size \<le> length (acc_data (s (hd remaining)))"
    "charge = (if lp_is_flat p then lp_mandate_amount p else pa_approved_amount approval)"
    "if lp_is_flat p then charge \<le> pa_approved_amount approval else charge \<le> lp_mandate_amount p"
    "md_credit_balance m < charge"
    "uint (md_frequency m) < 2 ^ 63" "sval a = sval (md_next_payment_due m) - uint (md_frequency m)"
    "uint (lp_mandate_frequency p) < 2 ^ 63" "sval (md_next_payment_due m) + uint (lp_mandate_frequency p) < 2 ^ 63"
    "invoke_billing_transfer E c tc (charge - md_credit_balance m) [pull_signer_seeds False m] (md_merchant m) s = Inr s1"
    "keeps_program_accounts E" "distinct_discriminators E"
    "unat (acc_lamports (s1 (pu_payer c))) + unat (acc_lamports (s1 (pu_pull_approval c))) < 2 ^ 64"
  shows "\<exists>s' ev m'. execute_pull E c remaining s = Inr (s', ev) \<and> current_mandate E s' (pu_mandate c) = Inr m' \<and>
    md_plan m' = md_pending_new_plan m \<and> md_amount m' = lp_mandate_amount p \<and>
    md_frequency m' = lp_mandate_frequency p \<and> md_max_pulls m' = lp_max_pulls p \<and> \<not> has_pending_change m'"
proof -
  let ?m1 = "apply_plan (md_pending_new_plan m) p m"
  have m1: "md_merchant ?m1 = md_merchant m" "pull_signer_seeds False ?m1 = pull_signer_seeds False m"
    "md_credit_balance ?m1 = md_credit_balance m" "md_amount ?m1 = lp_mandate_amount p"
    "md_pulls_executed ?m1 = md_pulls_executed m" "md_frequency ?m1 = lp_mandate_frequency p"
    "md_next_payment_due ?m1 = md_next_payment_due m"
    by (simp_all add: apply_plan_def clear_pending_def pull_signer_seeds_def)
  note credit = use_credit_part [of ?m1 charge, unfolded m1(3), OF assms(24)]
  have period: "mandate_billing_period m = Inr (a, md_next_payment_due m)"
    using assms(25,26) by (simp add: mandate_billing_period_Inr)
  obtain m' where m': "count_pull (unix_timestamp E) (?m1\<lparr>md_credit_balance := 0\<rparr>) = Inr m'"
    using count_pull_room [of "?m1\<lparr>md_credit_balance := 0\<rparr>"] pulls_have_room [OF assms(9)] assms(27,28) m1(5-7) by auto
  have change: "apply_pending_change E s remaining (if md_billing_type m = Usage then 1 else 0) plan m =
      Inr (?m1, p, Some (md_plan m, md_pending_new_plan m, unix_timestamp E))"
    unfolding assms(12) [symmetric] using assms(10,11,13-19) by (simp add: apply_pending_change_def)
  have base: "base_charge p ?m1 (pa_approved_amount approval) = Inr charge"
    using assms(22,23) m1(4) by (simp add: base_charge_def split: if_splits)
  have report: "md_billing_type m = Usage \<Longrightarrow> remaining \<noteq> [] \<and>
       validate_usage_report_for_settlement E s (hd remaining) (pu_mandate c) (md_merchant ?m1) a (md_next_payment_due m) = Inr () \<and>
       usage_report_size \<le> length (acc_data (s (hd remaining)))"
    using assms(13,21) m1(1) by auto
  have "\<exists>s' ev. execute_pull E c remaining s = Inr (s', ev)"
    by (rule execute_pull_returns [OF assms(1-9) period change assms(20) report base _ _ assms(30-32)])
       (use assms(29) m' in \<open>simp_all only: credit m1 fst_conv snd_conv if_True\<close>)
  then obtain s' ev where r: "execute_pull E c remaining s = Inr (s', ev)" by blast
  from due_change_takes_the_plans_present_terms [OF r assms(30,31,7,10,11)] assms(15) r show ?thesis by auto
qed

section \<open>Instances\<close>

lemma sample_billing_pull_returns:
  "\<exists>s' ev. execute_pull (creating_env (i64_of 7300) [4]) (sample_pull_accounts 28676) [] (billing_store sample_mandate) =
     Inr (s', ev)"
proof -
  let ?E = "creating_env (i64_of 7300) [4]" and ?s = "billing_store sample_mandate"
  have m: "current_mandate ?E ?s 27911 = Inr sample_mandate"
    by (rule current_mandate_sample [OF sample_mandates_ok(1)])
  have per: "mandate_billing_period sample_mandate = Inr (i64_of 3700, i64_of 7300)"
    by (simp add: mandate_billing_period_Inr in_i64_def)
  have cnt: "\<exists>m'. count_pull (i64_of 7300) (sample_mandate\<lparr>md_credit_balance := 0\<rparr>) = Inr m'"
    by (simp add: count_pull_def i64_try_from_u64_def checked_add_def i64_checked_add_def in_i64_def Let_def)
  then obtain m' where m': "count_pull (i64_of 7300) (sample_mandate\<lparr>md_credit_balance := 0\<rparr>) = Inr m'" by blast
  have cr: "use_credit 5 sample_mandate = (3, sample_mandate\<lparr>md_credit_balance := 0\<rparr>)"
    by (simp add: use_credit_def Let_def saturating_sub_def)
  show ?thesis
    by (rule execute_pull_returns [where tc = sample_token_config and plan = "FlatPlan sample_plan" and
          kc = "CurrentKeeperConfig sample_keeper_config" and pc = "CurrentProtocolConfig sample_protocol_config" and
          m = sample_mandate and a = "i64_of 3700" and b = "i64_of 7300" and ?m1.0 = sample_mandate and
          ?plan1.0 = "FlatPlan sample_plan" and ch = None and approval = sample_approval and base = 5 and
          ?s1.0 = ?s and m' = m'])
       (simp_all add: sample_configs_load sample_pull_constraints sample_plans_load m sample_address_checks
          sample_pull_checks per apply_pending_change_def sample_approval_for cr m' sample_billing_transfer,
        simp_all add: base_charge_def sample_approval_def)
qed

lemma sample_metered_pull_returns:
  "\<exists>s' ev. execute_pull (creating_env (i64_of 7300) [4]) (sample_pull_accounts 29962) [29964]
     (billing_store sample_metered_mandate) = Inr (s', ev)"
proof -
  let ?E = "creating_env (i64_of 7300) [4]" and ?s = "billing_store sample_metered_mandate"
  have m: "current_mandate ?E ?s 27911 = Inr sample_metered_mandate"
    by (rule current_mandate_sample [OF sample_mandates_ok(2)])
  have per: "mandate_billing_period sample_metered_mandate = Inr (i64_of 3700, i64_of 7300)"
    by (simp add: mandate_billing_period_Inr in_i64_def)
  have rl: "8 + length (enc_usage_report sample_report) = usage_report_size"
    using sample_report_reads(2) by simp
  have cr: "use_credit 65 sample_metered_mandate = (65, sample_metered_mandate)"
    by (simp add: use_credit_def Let_def saturating_sub_def)
  have cnt: "\<exists>m'. count_pull (i64_of 7300) sample_metered_mandate = Inr m'"
    by (simp add: count_pull_def i64_try_from_u64_def checked_add_def i64_checked_add_def in_i64_def Let_def)
  then obtain m' where m': "count_pull (i64_of 7300) sample_metered_mandate = Inr m'" by blast
  show ?thesis
    by (rule execute_pull_returns [where tc = sample_token_config and plan = "UsagePlan sample_metered_plan" and
          kc = "CurrentKeeperConfig sample_keeper_config" and pc = "CurrentProtocolConfig sample_protocol_config" and
          m = sample_metered_mandate and a = "i64_of 3700" and b = "i64_of 7300" and ?m1.0 = sample_metered_mandate and
          ?plan1.0 = "UsagePlan sample_metered_plan" and ch = None and approval = sample_approval and base = 65 and
          ?s1.0 = ?s and m' = m'])
       (simp_all add: sample_configs_load sample_pull_constraints sample_plans_load m sample_address_checks
          sample_pull_checks per apply_pending_change_def sample_approval_for cr m' sample_billing_transfer sample_report_for
          rl,
        simp_all add: base_charge_def sample_approval_def)
qed

theorem settling_pokes_the_flag_witness:
  "\<exists>s'. mark_usage_report_settled 29964 (billing_store sample_mandate) = Inr s' \<and>
     try_deserialize (creating_env (i64_of 0) []) KUsageReport dec_usage_report (acc_data (s' 29964)) =
       Some (sample_report\<lparr>ur_settled := True\<rparr>)"
proof -
  have "usage_report_size \<le> length (acc_data (billing_store sample_mandate 29964))"
    using sample_report_reads(2) by simp
  then show ?thesis
    using settling_pokes_the_flag [of "creating_env (i64_of 0) []" "billing_store sample_mandate" 29964 sample_report]
      sample_report_reads(1) by auto
qed

theorem pull_makes_one_approved_transfer_witness:
  "\<exists>s' m'. current_mandate (creating_env (i64_of 7300) [4]) s' 27911 = Inr m' \<and> acc_data (s' 24840) = []"
proof -
  obtain s' ev where r: "execute_pull (creating_env (i64_of 7300) [4]) (sample_pull_accounts 28676) []
      (billing_store sample_mandate) = Inr (s', ev)"
    using sample_billing_pull_returns by blast
  have m: "current_mandate (creating_env (i64_of 7300) [4]) (billing_store sample_mandate)
      (pu_mandate (sample_pull_accounts 28676)) = Inr sample_mandate"
    using current_mandate_sample [OF sample_mandates_ok(1)] by simp
  show ?thesis
    using pull_makes_one_approved_transfer [OF r creating_env_runtime(1) sample_distinct_discriminators(2) m]
    unfolding sample_pull_accounts_simps by blast
qed

theorem usage_period_settled_once_witness:
  "\<exists>(s' :: store) r. try_deserialize (creating_env (i64_of 7300) [4]) KUsageReport dec_usage_report (acc_data (s' 29964)) = Some r \<and>
     ur_settled r"
proof -
  obtain s' ev where r: "execute_pull (creating_env (i64_of 7300) [4]) (sample_pull_accounts 29962) [29964]
      (billing_store sample_metered_mandate) = Inr (s', ev)"
    using sample_metered_pull_returns by blast
  have m: "current_mandate (creating_env (i64_of 7300) [4]) (billing_store sample_metered_mandate)
      (pu_mandate (sample_pull_accounts 29962)) = Inr sample_metered_mandate"
    using current_mandate_sample [OF sample_mandates_ok(2)] by simp
  obtain x where "try_deserialize (creating_env (i64_of 7300) [4]) KUsageReport dec_usage_report (acc_data (s' 29964)) =
      Some (x\<lparr>ur_settled := True\<rparr>)"
    using usage_period_settled_once [OF r creating_env_runtime(1) sample_distinct_discriminators(2) m]
    unfolding list.sel by auto
  then show ?thesis by (intro exI conjI) (assumption, simp)
qed

text \<open>A mandate with a cap of 60 is charged 65 and has a cap of 70 from then on.\<close>

theorem due_change_is_charged_at_the_plans_present_terms_witness:
  "\<exists>s' ev m'. md_amount sample_changing_mandate = 60 \<and> pa_approved_amount sample_approval = 65 \<and>
     execute_pull (creating_env (i64_of 7300) [4]) (sample_pull_accounts 29962) [29964, 29962]
       (billing_store sample_changing_mandate) = Inr (s', ev) \<and>
     current_mandate (creating_env (i64_of 7300) [4]) s' 27911 = Inr m' \<and> md_amount m' = 70"
proof -
  let ?E = "creating_env (i64_of 7300) [4]" and ?s = "billing_store sample_changing_mandate"
  let ?c = "sample_pull_accounts 29962" and ?p = "UsagePlan sample_metered_plan"
  have m: "current_mandate ?E ?s 27911 = Inr sample_changing_mandate"
    by (rule current_mandate_sample [OF sample_mandates_ok(3)])
  have f: "md_billing_type sample_changing_mandate = Usage" "md_next_payment_due sample_changing_mandate = i64_of 7300"
    "md_frequency sample_changing_mandate = 3600" "md_pending_change_type sample_changing_mandate = 2"
    "md_pending_effective_at sample_changing_mandate = i64_of 7300" "md_pending_new_plan sample_changing_mandate = 29962"
    "md_merchant sample_changing_mandate = 1" "md_credit_balance sample_changing_mandate = 0"
    "md_amount sample_changing_mandate = 60"
    by (simp_all add: sample_changing_mandate_def)
  have p: "lp_merchant ?p = 1" "lp_status ?p = PlanActive" "lp_billing_type ?p = Usage" "lp_mandate_amount ?p = 70"
    "lp_mandate_frequency ?p = 3600"
    by (simp_all add: sample_metered_plan_def)
  have rl: "8 + length (enc_usage_report sample_report) = usage_report_size"
    using sample_report_reads(2) by simp
  have ok: "pa_approved_amount sample_approval = 65" by (simp add: sample_approval_def)
  have "\<exists>s' ev m'. execute_pull ?E ?c [29964, 29962] ?s = Inr (s', ev) \<and>
      current_mandate ?E s' (pu_mandate ?c) = Inr m' \<and> md_plan m' = md_pending_new_plan sample_changing_mandate \<and>
      md_amount m' = lp_mandate_amount ?p \<and> md_frequency m' = lp_mandate_frequency ?p \<and>
      md_max_pulls m' = lp_max_pulls ?p \<and> \<not> has_pending_change m'"
    by (rule due_change_is_charged_at_the_plans_present_terms [where tc = sample_token_config and plan = ?p and
          kc = "CurrentKeeperConfig sample_keeper_config" and pc = "CurrentProtocolConfig sample_protocol_config" and
          m = sample_changing_mandate and a = "i64_of 3700" and approval = sample_approval and p = ?p and i = 1 and
          charge = 65 and ?s1.0 = ?s])
       (simp_all add: sample_configs_load sample_pull_constraints sample_plans_load m sample_address_checks
          sample_pull_checks f p sample_approval_for sample_billing_transfer sample_report_for rl ok in_i64_def
          del: lp_merchant.simps lp_status.simps lp_billing_type.simps lp_mandate_amount.simps lp_mandate_frequency.simps)
  then show ?thesis unfolding p(4) sample_pull_accounts_simps using f(9) ok by blast
qed

theorem approved_flat_pull_goes_through_witness:
  "\<exists>s' ev m'. execute_pull (creating_env (i64_of 7300) [4]) (sample_pull_accounts 28676) [] (billing_store sample_mandate) =
     Inr (s', ev) \<and> current_mandate (creating_env (i64_of 7300) [4]) s' 27911 = Inr m' \<and>
     unat (md_pulls_executed m') = 1"
proof -
  let ?E = "creating_env (i64_of 7300) [4]" and ?s = "billing_store sample_mandate"
  have m: "current_mandate ?E ?s 27911 = Inr sample_mandate"
    by (rule current_mandate_sample [OF sample_mandates_ok(1)])
  have "\<exists>s' ev m'. execute_pull ?E (sample_pull_accounts 28676) [] ?s = Inr (s', ev) \<and>
      current_mandate ?E s' (pu_mandate (sample_pull_accounts 28676)) = Inr m' \<and>
      unat (md_pulls_executed m') = unat (md_pulls_executed sample_mandate) + 1 \<and> md_credit_balance m' = 0 \<and>
      sval (md_next_payment_due m') = sval (md_next_payment_due sample_mandate) + uint (md_frequency sample_mandate)"
    by (rule approved_flat_pull_goes_through [where tc = sample_token_config and plan = "FlatPlan sample_plan" and
          kc = "CurrentKeeperConfig sample_keeper_config" and pc = "CurrentProtocolConfig sample_protocol_config" and
          m = sample_mandate and a = "i64_of 3700" and approval = sample_approval and ?s1.0 = ?s])
       (simp_all add: sample_configs_load sample_pull_constraints sample_plans_load m sample_address_checks
          sample_pull_checks sample_approval_for sample_billing_transfer in_i64_def,
        simp_all add: sample_approval_def)
  then show ?thesis by auto
qed

end
