(* ===== verification/Proration.thy ===== *)
theory Proration
  imports Runtime
begin

text \<open>
  The prorated difference of two plan amounts (\<open>instructions/proration.rs\<close>), which an
  immediate change of plan charges or credits. The code computes with \<open>PreciseNumber\<close> of the
  \<open>spl_math\<close> crate, a fixed-point number with twelve decimal places; its operations are the
  parameter \<open>precise_numbers\<close>, and what the crate documents of them is \<open>twelve_places\<close>.
  The result is an \<open>i128\<close>, here an integer with the range check written out.
\<close>

section \<open>The library's numbers\<close>

record 'p precise_numbers =
  pn_new :: "u128 \<Rightarrow> 'p option"
  pn_mul :: "'p \<Rightarrow> 'p \<Rightarrow> 'p option"
  pn_div :: "'p \<Rightarrow> 'p \<Rightarrow> 'p option"
  pn_sub :: "'p \<Rightarrow> 'p \<Rightarrow> 'p option"
  pn_ge :: "'p \<Rightarrow> 'p \<Rightarrow> bool"
  pn_floor :: "'p \<Rightarrow> 'p option"
  pn_to_imprecise :: "'p \<Rightarrow> u128 option"

definition precise :: "'p precise_numbers \<Rightarrow> u128 \<Rightarrow> verror + 'p" where
  "precise P n = ok_or (pn_new P n) (Vela MathOverflow)"

definition precise_mul :: "'p precise_numbers \<Rightarrow> 'p \<Rightarrow> 'p \<Rightarrow> verror + 'p" where
  "precise_mul P lhs rhs = ok_or (pn_mul P lhs rhs) (Vela MathOverflow)"

definition precise_div :: "'p precise_numbers \<Rightarrow> 'p \<Rightarrow> 'p \<Rightarrow> verror + 'p" where
  "precise_div P lhs rhs = ok_or (pn_div P lhs rhs) (Vela MathOverflow)"

definition precise_sub :: "'p precise_numbers \<Rightarrow> 'p \<Rightarrow> 'p \<Rightarrow> vela_error \<Rightarrow> verror + 'p" where
  "precise_sub P lhs rhs error_code = ok_or (pn_sub P lhs rhs) (Vela error_code)"

definition floor_to_u128 :: "'p precise_numbers \<Rightarrow> 'p \<Rightarrow> verror + u128" where
  "floor_to_u128 P x =
     (case ok_or (pn_floor P x) (Vela MathOverflow) of Inl e \<Rightarrow> Inl e | Inr f \<Rightarrow>
      ok_or (pn_to_imprecise P f) (Vela MathOverflow))"

definition compute_proration :: "'p precise_numbers \<Rightarrow> u64 \<Rightarrow> u64 \<Rightarrow> u64 \<Rightarrow> u64 \<Rightarrow> verror + int" where
  "compute_proration P plan_amount_old plan_amount_new elapsed_seconds period_total_seconds =
     (if period_total_seconds = 0 then Inl (Vela MathDivByZero) else
      if period_total_seconds < elapsed_seconds then Inl (Vela InvalidElapsed) else
      case precise P (ucast plan_amount_old) of Inl e \<Rightarrow> Inl e | Inr old \<Rightarrow>
     (case precise P (ucast plan_amount_new) of Inl e \<Rightarrow> Inl e | Inr new_amount \<Rightarrow>
     (case precise P (ucast elapsed_seconds) of Inl e \<Rightarrow> Inl e | Inr elapsed \<Rightarrow>
     (case precise P (ucast period_total_seconds) of Inl e \<Rightarrow> Inl e | Inr period_total \<Rightarrow>
     (case precise_sub P period_total elapsed MathUnderflow of Inl e \<Rightarrow> Inl e | Inr remaining \<Rightarrow>
     (case precise_mul P old elapsed of Inl e \<Rightarrow> Inl e | Inr old_elapsed \<Rightarrow>
     (case precise_div P old_elapsed period_total of Inl e \<Rightarrow> Inl e | Inr used_old \<Rightarrow>
     (case precise_sub P old used_old MathUnderflow of Inl e \<Rightarrow> Inl e | Inr unused_old \<Rightarrow>
     (case precise_mul P new_amount remaining of Inl e \<Rightarrow> Inl e | Inr new_remaining \<Rightarrow>
     (case precise_div P new_remaining period_total of Inl e \<Rightarrow> Inl e | Inr new_for_remaining \<Rightarrow>
      let is_charge = pn_ge P new_for_remaining unused_old in
     (case (if is_charge then precise_sub P new_for_remaining unused_old MathUnderflow
            else precise_sub P unused_old new_for_remaining MathUnderflow) of
        Inl e \<Rightarrow> Inl e | Inr signed_delta \<Rightarrow>
     (case floor_to_u128 P signed_delta of Inl e \<Rightarrow> Inl e | Inr raw \<Rightarrow>
      if \<not> unat raw < 2 ^ 127 then Inl (Vela MathOverflow) else
      Inr (if is_charge then int (unat raw) else - int (unat raw))))))))))))))"

section \<open>What the library documents\<close>

text \<open>
  Every number stands for a multiple of the smallest place. Whole numbers and their products
  are exact, a difference is exact or refused, a quotient of whole numbers is within one
  place of the true one and on the same side of every whole number.
\<close>

definition ONE :: nat where
  "ONE = 1000000000000"

definition twelve_places :: "'p precise_numbers \<Rightarrow> ('p \<Rightarrow> nat) \<Rightarrow> bool" where
  "twelve_places P v \<longleftrightarrow>
     (\<forall>n. \<exists>z. pn_new P n = Some z \<and> v z = unat n * ONE) \<and>
     (\<forall>x y a b. v x = a * ONE \<longrightarrow> v y = b * ONE \<longrightarrow> a < 2 ^ 64 \<longrightarrow> b < 2 ^ 64 \<longrightarrow>
        (\<exists>z. pn_mul P x y = Some z \<and> v z = a * b * ONE)) \<and>
     (\<forall>x y a b. v x = a * ONE \<longrightarrow> v y = b * ONE \<longrightarrow> a < 2 ^ 128 \<longrightarrow> 0 < b \<longrightarrow> b < 2 ^ 64 \<longrightarrow>
        (\<exists>z. pn_div P x y = Some z \<and> v z * b \<le> a * ONE + b \<and> a * ONE \<le> v z * b + b \<and>
           (\<forall>c. a \<le> c * b \<longrightarrow> v z \<le> c * ONE) \<and> (\<forall>c. c * b \<le> a \<longrightarrow> c * ONE \<le> v z))) \<and>
     (\<forall>x y. v y \<le> v x \<longrightarrow> (\<exists>z. pn_sub P x y = Some z \<and> v z = v x - v y)) \<and>
     (\<forall>x y. v x < v y \<longrightarrow> pn_sub P x y = None) \<and>
     (\<forall>x y. pn_ge P x y \<longleftrightarrow> v y \<le> v x) \<and>
     (\<forall>x. \<exists>z. pn_floor P x = Some z \<and> v z = v x div ONE * ONE) \<and>
     (\<forall>x a. v x = a * ONE \<longrightarrow> a < 2 ^ 128 \<longrightarrow> pn_to_imprecise P x = Some (of_nat a))"

lemma twelve_placesD:
  assumes "twelve_places P v"
  shows "\<exists>z. pn_new P n = Some z \<and> v z = unat n * ONE"
    "v x = a * ONE \<Longrightarrow> v y = b * ONE \<Longrightarrow> a < 2 ^ 64 \<Longrightarrow> b < 2 ^ 64 \<Longrightarrow>
       \<exists>z. pn_mul P x y = Some z \<and> v z = a * b * ONE"
    "v x = a * ONE \<Longrightarrow> v y = b * ONE \<Longrightarrow> a < 2 ^ 128 \<Longrightarrow> 0 < b \<Longrightarrow> b < 2 ^ 64 \<Longrightarrow>
       \<exists>z. pn_div P x y = Some z \<and> v z * b \<le> a * ONE + b \<and> a * ONE \<le> v z * b + b \<and>
         (\<forall>c. a \<le> c * b \<longrightarrow> v z \<le> c * ONE) \<and> (\<forall>c. c * b \<le> a \<longrightarrow> c * ONE \<le> v z)"
    "v y \<le> v x \<Longrightarrow> \<exists>z. pn_sub P x y = Some z \<and> v z = v x - v y"
    "pn_ge P x y \<longleftrightarrow> v y \<le> v x"
    "\<exists>z. pn_floor P x = Some z \<and> v z = v x div ONE * ONE"
    "v x = a * ONE \<Longrightarrow> a < 2 ^ 128 \<Longrightarrow> pn_to_imprecise P x = Some (of_nat a)"
  using assms unfolding twelve_places_def by blast+

text \<open>A fixed-point instance: multiples of the smallest place, quotients rounded down.\<close>

definition fixed_point :: "nat precise_numbers" where
  "fixed_point =
     \<lparr>pn_new = \<lambda>n. Some (unat n * ONE), pn_mul = \<lambda>x y. Some (x * y div ONE),
      pn_div = \<lambda>x y. if y = 0 then None else Some (x * ONE div y),
      pn_sub = \<lambda>x y. if y \<le> x then Some (x - y) else None, pn_ge = \<lambda>x y. y \<le> x,
      pn_floor = \<lambda>x. Some (x div ONE * ONE),
      pn_to_imprecise = \<lambda>x. if x div ONE < 2 ^ 128 then Some (of_nat (x div ONE)) else None\<rparr>"

lemma twelve_places_fixed_point: "twelve_places fixed_point (\<lambda>x. x)"
proof -
  have quotient: "a * ONE * ONE div (b * ONE) = a * ONE div b" "a * ONE div b * b \<le> a * ONE + b"
    "a * ONE \<le> a * ONE div b * b + b" "a \<le> c * b \<Longrightarrow> a * ONE div b \<le> c * ONE"
    "c * b \<le> a \<Longrightarrow> c * ONE \<le> a * ONE div b" if "0 < b" for a b c
  proof -
    show "a * ONE * ONE div (b * ONE) = a * ONE div b"
      by (metis ONE_def mult.assoc mult.commute div_mult2_eq nonzero_mult_div_cancel_right zero_neq_numeral)
    show "a * ONE div b * b \<le> a * ONE + b" by (simp add: trans_le_add1)
    show "a * ONE \<le> a * ONE div b * b + b"
      using mod_less_divisor [OF that, of "a * ONE"] div_mult_mod_eq [of "a * ONE" b] by linarith
    assume "a \<le> c * b"
    then have "a * ONE \<le> c * ONE * b" by (simp add: ONE_def)
    then show "a * ONE div b \<le> c * ONE"
      using that by (metis div_le_mono nonzero_mult_div_cancel_right not_gr_zero)
  next
    assume "c * b \<le> a"
    then have "c * ONE * b \<le> a * ONE" by (simp add: ONE_def)
    then show "c * ONE \<le> a * ONE div b"
      using that by (metis div_le_mono nonzero_mult_div_cancel_right not_gr_zero)
  qed
  then show ?thesis
    unfolding twelve_places_def fixed_point_def by (auto simp: ONE_def)
qed

section \<open>The result\<close>

text \<open>The two sides of the difference, in the smallest place.\<close>

lemma proration_parts:
  fixes old new el span :: nat
  assumes "0 < span" "el \<le> span"
    "q * span \<le> old * el * ONE + span" "old * el * ONE \<le> q * span + span" "q \<le> old * ONE"
    "r * span \<le> new * (span - el) * ONE + span" "new * (span - el) * ONE \<le> r * span + span"
  shows "\<bar>(int r - int (old * ONE - q)) * int span - (int new - int old) * int (span - el) * int ONE\<bar> \<le> 2 * int span"
proof -
  have U: "int (old * ONE - q) = int old * int ONE - int q" using assms(5) by (simp add: of_nat_diff)
  have d: "int (span - el) = int span - int el" using assms(2) by (simp add: of_nat_diff)
  have "int q * int span \<le> int old * int el * int ONE + int span"
    "int old * int el * int ONE \<le> int q * int span + int span"
    "int r * int span \<le> int new * (int span - int el) * int ONE + int span"
    "int new * (int span - int el) * int ONE \<le> int r * int span + int span"
    using assms(3,4,6,7) unfolding d [symmetric] of_nat_mult [symmetric] of_nat_add [symmetric] of_nat_le_iff
    by simp_all
  then show ?thesis unfolding U d by (simp add: algebra_simps abs_le_iff)
qed

text \<open>
  The result for times within the period: never an error, and the exact difference cut
  toward zero, up to two of the smallest places.
\<close>

definition prorates :: "nat \<Rightarrow> nat \<Rightarrow> nat \<Rightarrow> nat \<Rightarrow> int \<Rightarrow> bool" where
  "prorates old new el span d \<longleftrightarrow>
     \<bar>d\<bar> * int span * int ONE \<le> \<bar>int new - int old\<bar> * int (span - el) * int ONE + 2 * int span \<and>
     \<bar>int new - int old\<bar> * int (span - el) * int ONE < (\<bar>d\<bar> + 1) * int span * int ONE + 2 * int span \<and>
     (0 < d \<longrightarrow> old < new) \<and> (d < 0 \<longrightarrow> new < old) \<and> - int old \<le> d \<and> d \<le> int new"

lemma prorates_floor:
  fixes old new el span U N :: nat
  assumes "0 < span" "el \<le> span" "U \<le> old * ONE" "N \<le> new * ONE"
    "\<bar>(int N - int U) * int span - (int new - int old) * int (span - el) * int ONE\<bar> \<le> 2 * int span"
  shows "U \<le> N \<Longrightarrow> prorates old new el span (int ((N - U) div ONE))"
    "N < U \<Longrightarrow> prorates old new el span (- int ((U - N) div ONE))"
proof -
  let ?x = "(int new - int old) * int (span - el) * int ONE"
  have absx: "\<bar>?x\<bar> = \<bar>int new - int old\<bar> * int (span - el) * int ONE" by (simp add: abs_mult)
  have one: "0 < ONE" "3 \<le> int ONE" by (simp_all add: ONE_def)
  have cut: "int (D div ONE) * int ONE \<le> int D" "int D < (int (D div ONE) + 1) * int ONE" for D :: nat
  proof -
    have "D div ONE * ONE \<le> D" "D < (D div ONE + 1) * ONE"
      using one(1) by (simp_all add: dividend_less_div_times)
    then have "int (D div ONE * ONE) \<le> int D" "int D < int ((D div ONE + 1) * ONE)"
      unfolding of_nat_le_iff of_nat_less_iff by blast+
    then show "int (D div ONE) * int ONE \<le> int D" "int D < (int (D div ONE) + 1) * int ONE"
      by (simp_all add: algebra_simps)
  qed
  have step: "prorates old new el span d"
    if "\<bar>d\<bar> = int (D div ONE)" "int D = \<bar>int N - int U\<bar>" "0 < d \<Longrightarrow> U < N" "d < 0 \<Longrightarrow> N < U" for d D
  proof -
    have D: "\<bar>int D * int span - \<bar>?x\<bar>\<bar> \<le> 2 * int span"
    proof -
      have "int D * int span = \<bar>(int N - int U) * int span\<bar>" by (simp add: that(2) abs_mult)
      then show ?thesis
        using abs_triangle_ineq3 [of "(int N - int U) * int span" ?x] assms(5) by linarith
    qed
    have 1: "\<bar>d\<bar> * int ONE \<le> int D" "int D < (\<bar>d\<bar> + 1) * int ONE" using cut [of D] that(1) by simp_all
    have a: "\<bar>d\<bar> * int span * int ONE \<le> int D * int span" and b: "int D * int span < (\<bar>d\<bar> + 1) * int span * int ONE"
      using mult_right_mono [OF 1(1), of "int span"] mult_strict_right_mono [OF 1(2), of "int span"] assms(1)
      by (simp_all add: mult_ac)
    have big: "int span * 3 \<le> int D * int span" if "d \<noteq> 0"
    proof -
      have "1 * int ONE \<le> \<bar>d\<bar> * int ONE" by (rule mult_right_mono) (use that in auto)
      then have "3 \<le> int D" using 1(1) one(2) by linarith
      then show ?thesis using mult_right_mono [of 3 "int D" "int span"] by (simp add: mult.commute)
    qed
    have sign: "0 < d \<longrightarrow> old < new" "d < 0 \<longrightarrow> new < old"
    proof -
      show "0 < d \<longrightarrow> old < new"
      proof
        assume d: "0 < d"
        then have "int D = int N - int U" using that(2,3) by simp
        then have "int span * 3 \<le> (int N - int U) * int span" using big d by (metis less_irrefl)
        then have "0 < ?x" using assms(1,5) by linarith
        then show "old < new" by (auto simp: zero_less_mult_iff)
      qed
      show "d < 0 \<longrightarrow> new < old"
      proof
        assume d: "d < 0"
        then have e: "int D = int U - int N" using that(2,4) by simp
        have "int D * int span = - ((int N - int U) * int span)" unfolding e by (simp add: algebra_simps)
        then have "int span * 3 \<le> - ((int N - int U) * int span)" using big d by (metis less_irrefl)
        then have "?x < 0" using assms(1,5) by linarith
        then show "new < old" by (auto simp: mult_less_0_iff)
      qed
    qed
    have "\<bar>d\<bar> \<le> int old" if "d < 0"
    proof -
      have "\<bar>d\<bar> * int ONE \<le> int old * int ONE"
        using 1(1) that \<open>d < 0 \<Longrightarrow> N < U\<close> \<open>int D = \<bar>int N - int U\<bar>\<close> assms(3) by (simp flip: of_nat_mult)
      then show ?thesis using one(1) by (simp del: abs_of_neg)
    qed
    moreover have "\<bar>d\<bar> \<le> int new" if "0 < d"
    proof -
      have "\<bar>d\<bar> * int ONE \<le> int new * int ONE"
        using 1(1) that \<open>0 < d \<Longrightarrow> U < N\<close> \<open>int D = \<bar>int N - int U\<bar>\<close> assms(4) by (simp flip: of_nat_mult)
      then show ?thesis using one(1) by (simp del: abs_of_pos)
    qed
    ultimately have "- int old \<le> d \<and> d \<le> int new" by (cases "0 < d"; cases "d < 0") auto
    then show ?thesis
      using a b D sign unfolding prorates_def absx [symmetric] by (simp add: abs_le_iff)
  qed
  show "prorates old new el span (int ((N - U) div ONE))" if "U \<le> N"
    by (rule step [of _ "N - U"]) (use that in \<open>auto simp: of_nat_diff intro: le_neq_implies_less\<close>)
  show "prorates old new el span (- int ((U - N) div ONE))" if "N < U"
    by (rule step [of _ "U - N"]) (use that in \<open>auto simp: of_nat_diff\<close>)
qed

text \<open>What the code computes: the two sides, and the whole part of their difference.\<close>

definition whole_difference :: "nat \<Rightarrow> nat \<Rightarrow> int" where
  "whole_difference u n = (if u \<le> n then int ((n - u) div ONE) else - int ((u - n) div ONE))"

definition quotient_of :: "nat \<Rightarrow> nat \<Rightarrow> nat \<Rightarrow> bool" where
  "quotient_of a b q \<longleftrightarrow> q * b \<le> a * ONE + b \<and> a * ONE \<le> q * b + b \<and>
     (\<forall>c. a \<le> c * b \<longrightarrow> q \<le> c * ONE) \<and> (\<forall>c. c * b \<le> a \<longrightarrow> c * ONE \<le> q)"

lemma compute_proration_parts:
  assumes "twelve_places P v" "0 < span" "el \<le> span"
  shows "\<exists>q f. quotient_of (unat old * unat el) (unat span) q \<and>
    quotient_of (unat new * (unat span - unat el)) (unat span) f \<and>
    compute_proration P old new el span = Inr (whole_difference (unat old * ONE - q) f)"
proof -
  have lt: "unat x < 2 ^ 64" "unat (ucast x :: u128) = unat x" for x :: u64
    using unsigned_less [of x] by (simp_all add: unsigned_ucast_eq take_bit_nat_eq_self)
  have tot: "0 < unat span" "unat el \<le> unat span" using assms(2,3) by (simp_all add: word_gt_0 word_le_nat_alt unat_gt_0)
  let ?r = "unat span - unat el"
  have r: "?r < 2 ^ 64" using lt(1) [of span] by linarith
  have big: "a * b < 2 ^ 128" if "a < 2 ^ 64" "b < 2 ^ 64" for a b :: nat
    using mult_strict_mono [OF that] by simp
  obtain o' n' e' t' where new: "pn_new P (ucast old) = Some o'" "v o' = unat old * ONE"
    "pn_new P (ucast new) = Some n'" "v n' = unat new * ONE"
    "pn_new P (ucast el) = Some e'" "v e' = unat el * ONE"
    "pn_new P (ucast span) = Some t'" "v t' = unat span * ONE"
    using twelve_placesD(1) [OF assms(1)] lt(2) by metis
  obtain r' where rem: "pn_sub P t' e' = Some r'" "v r' = ?r * ONE"
    using twelve_placesD(4) [OF assms(1), of e' t'] tot by (auto simp: new diff_mult_distrib)
  obtain m' where mul: "pn_mul P o' e' = Some m'" "v m' = unat old * unat el * ONE"
    using twelve_placesD(2) [OF assms(1) new(2,6) lt(1) lt(1)] by blast
  obtain q' where q: "pn_div P m' t' = Some q'" "v q' \<le> unat old * ONE"
    and Q: "quotient_of (unat old * unat el) (unat span) (v q')"
    using twelve_placesD(3) [OF assms(1) mul(2) new(8) big [OF lt(1) lt(1)] tot(1) lt(1)] tot(2)
    unfolding quotient_of_def by (metis mult_le_mono2)
  obtain u' where u: "pn_sub P o' q' = Some u'" "v u' = unat old * ONE - v q'"
    using twelve_placesD(4) [OF assms(1), of q' o'] q(2) by (auto simp: new)
  obtain p' where p: "pn_mul P n' r' = Some p'" "v p' = unat new * ?r * ONE"
    using twelve_placesD(2) [OF assms(1) new(4) rem(2) lt(1) r] by blast
  obtain f' where f: "pn_div P p' t' = Some f'" "v f' \<le> unat new * ONE"
    and F: "quotient_of (unat new * ?r) (unat span) (v f')"
    using twelve_placesD(3) [OF assms(1) p(2) new(8) big [OF lt(1) r] tot(1) lt(1)]
    unfolding quotient_of_def by (metis diff_le_self mult_le_mono2)
  have U: "v u' \<le> unat old * ONE" by (simp add: u)
  have fl: "\<exists>z. pn_floor P x = Some z \<and> pn_to_imprecise P z = Some (of_nat (v x div ONE)) \<and>
      unat (of_nat (v x div ONE) :: u128) = v x div ONE \<and> v x div ONE < 2 ^ 127"
    if "v x \<le> unat y * ONE" for x and y :: u64
  proof -
    have "v x div ONE \<le> unat y" using div_le_mono [OF that, of ONE] by (simp add: ONE_def)
    then have b: "v x div ONE < 2 ^ 64" using lt(1) [of y] by linarith
    then have c: "v x div ONE < 2 ^ 128" "v x div ONE < 2 ^ 127" by simp_all
    obtain z where z: "pn_floor P x = Some z" "v z = v x div ONE * ONE" using twelve_placesD(6) [OF assms(1)] by blast
    then show ?thesis using twelve_placesD(7) [OF assms(1) z(2) c(1)] c by (simp add: unat_of_nat take_bit_nat_eq_self unsigned_of_nat)
  qed
  note defs = compute_proration_def precise_def precise_mul_def precise_div_def precise_sub_def floor_to_u128_def
    whole_difference_def new rem mul q(1) u(1) p(1) f(1) twelve_placesD(5) [OF assms(1)]
  have "compute_proration P old new el span = Inr (whole_difference (v u') (v f'))"
  proof (cases "v u' \<le> v f'")
    case True
    then obtain d' where d: "pn_sub P f' u' = Some d'" "v d' = v f' - v u'"
      using twelve_placesD(4) [OF assms(1)] by blast
    have "v d' \<le> unat new * ONE" using d f(2) by simp
    from fl [OF this] show ?thesis using assms(2,3) True by (auto simp: defs d)
  next
    case False
    then obtain d' where d: "pn_sub P u' f' = Some d'" "v d' = v u' - v f'"
      using twelve_placesD(4) [OF assms(1), of f' u'] by auto
    have "v d' \<le> unat old * ONE" using d U by simp
    from fl [OF this] show ?thesis using assms(2,3) False by (auto simp: defs d)
  qed
  with Q F show ?thesis unfolding u(2) by blast
qed

text \<open>
  A proration within a period of positive length never fails and is within two of the smallest places of the
  library's numbers of the difference cut toward zero.
\<close>

lemma prorated_within_two_places:
  assumes "twelve_places P v" "0 < span" "el \<le> span"
  shows "\<exists>d. compute_proration P old new el span = Inr d \<and> prorates (unat old) (unat new) (unat el) (unat span) d"
proof -
  have tot: "0 < unat span" "unat el \<le> unat span" using assms(2,3) by (simp_all add: word_gt_0 word_le_nat_alt unat_gt_0)
  obtain q f where qf: "quotient_of (unat old * unat el) (unat span) q"
    "quotient_of (unat new * (unat span - unat el)) (unat span) f"
    "compute_proration P old new el span = Inr (whole_difference (unat old * ONE - q) f)"
    using compute_proration_parts [OF assms] by blast
  have le: "q \<le> unat old * ONE" "f \<le> unat new * ONE"
    using qf(1,2) tot unfolding quotient_of_def by (metis mult_le_mono2, metis diff_le_self mult_le_mono2)
  have parts: "\<bar>(int f - int (unat old * ONE - q)) * int (unat span) -
      (int (unat new) - int (unat old)) * int (unat span - unat el) * int ONE\<bar> \<le> 2 * int (unat span)"
    using qf(1,2) le(1) unfolding quotient_of_def by (intro proration_parts [OF tot]) blast+
  have "prorates (unat old) (unat new) (unat el) (unat span) (whole_difference (unat old * ONE - q) f)"
    using prorates_floor [OF tot diff_le_self le(2) parts] by (simp add: whole_difference_def not_le)
  with qf(3) show ?thesis by blast
qed

text \<open>At the two ends of the period the result is exact.\<close>

lemma prorated_at_the_ends:
  assumes "twelve_places P v" "0 < span"
  shows "compute_proration P old new 0 span = Inr (int (unat new) - int (unat old))"
    "compute_proration P old new span span = Inr 0"
proof -
  have tot: "0 < unat span" using assms(2) by (simp add: unat_gt_0 word_gt_0)
  have exact: "quotient_of (c * b) b q \<Longrightarrow> q = c * ONE" for b c q
    unfolding quotient_of_def by (metis le_antisym order_refl)
  have diff: "whole_difference (a * ONE) (b * ONE) = int b - int a" for a b
  proof -
    have "(b * ONE - a * ONE) div ONE = b - a" "(a * ONE - b * ONE) div ONE = a - b"
      by (simp_all add: ONE_def flip: diff_mult_distrib)
    then show ?thesis by (auto simp: whole_difference_def ONE_def of_nat_diff)
  qed
  obtain q f where "quotient_of (0 * unat span) (unat span) q" "quotient_of (unat new * unat span) (unat span) f"
    "compute_proration P old new 0 span = Inr (whole_difference (unat old * ONE - q) f)"
    using compute_proration_parts [OF assms, of 0 old new] by auto
  then show "compute_proration P old new 0 span = Inr (int (unat new) - int (unat old))"
    using exact [of 0 "unat span" q] exact [of "unat new" "unat span" f] diff [of "unat old" "unat new"] by simp
  obtain q f where "quotient_of (unat old * unat span) (unat span) q" "quotient_of (0 * unat span) (unat span) f"
    "compute_proration P old new span span = Inr (whole_difference (unat old * ONE - q) f)"
    using compute_proration_parts [OF assms order_refl, of old new] by auto
  then show "compute_proration P old new span span = Inr 0"
    using exact [of "unat old" "unat span" q] exact [of 0 "unat span" f] diff [of 0 0] by simp
qed

text \<open>A period is far shorter than the places allow, so that the two places make at most one unit of difference.\<close>

lemma prorates_exact:
  assumes "prorates old new el span d" "0 < span" "2 * span < ONE"
  shows "\<bar>d\<bar> * int span \<le> \<bar>int new - int old\<bar> * int (span - el)"
    "\<bar>int new - int old\<bar> * int (span - el) \<le> (\<bar>d\<bar> + 1) * int span"
proof -
  let ?X = "\<bar>int new - int old\<bar> * int (span - el)" and ?D = "\<bar>d\<bar> * int span"
  have one: "0 < int ONE" "2 * int span < int ONE" using assms(3) by (simp_all add: ONE_def)
  have "?D * int ONE < (?X + 1) * int ONE" "?X * int ONE < (?D + int span + 1) * int ONE"
    using assms(1) one unfolding prorates_def by (simp_all add: algebra_simps)
  then have "?D < ?X + 1" "?X < ?D + int span + 1" using one(1) by (simp_all only: mult_less_cancel_right_pos)
  then show "?D \<le> ?X" "?X \<le> (\<bar>d\<bar> + 1) * int span" by (simp_all add: algebra_simps)
qed

text \<open>
  C23: A proration within a period of positive length (below fifteen thousand years, so that the library's places do not show)
  never fails. Its size is never above the prorated difference of the two amounts, and is that
  difference cut toward zero, except where the difference is a whole number: there it may be one less. It is
  positive only if the new amount is larger, negative only if it is smaller, and the whole difference at the start of the
  period and nothing at its end.
\<close>

theorem prorated_difference:
  assumes "twelve_places P v" "0 < span" "el \<le> span" "2 * unat span < 1000000000000"
  shows "\<exists>d. compute_proration P old new el span = Inr d \<and>
    (let exact = \<bar>int (unat new) - int (unat old)\<bar> * (int (unat span) - int (unat el)) in
       \<bar>d\<bar> = exact div int (unat span) \<or>
       int (unat span) dvd exact \<and> 0 < exact \<and> \<bar>d\<bar> = exact div int (unat span) - 1) \<and>
    (0 < d \<longrightarrow> old < new) \<and> (d < 0 \<longrightarrow> new < old) \<and>
    (el = 0 \<longrightarrow> d = int (unat new) - int (unat old)) \<and> (el = span \<longrightarrow> d = 0)"
proof -
  obtain d where d: "compute_proration P old new el span = Inr d" "prorates (unat old) (unat new) (unat el) (unat span) d"
    using prorated_within_two_places [OF assms(1-3)] by blast
  have tot: "0 < unat span" "2 * unat span < ONE" "unat el \<le> unat span"
    using assms(2-4) by (simp_all add: unat_gt_0 word_gt_0 ONE_def word_le_nat_alt)
  define X N where "X = \<bar>int (unat new) - int (unat old)\<bar> * (int (unat span) - int (unat el))" and "N = int (unat span)"
  have N: "0 < N" using tot(1) by (simp only: N_def of_nat_0_less_iff)
  have X: "\<bar>d\<bar> * N \<le> X" "X \<le> (\<bar>d\<bar> + 1) * N"
    using prorates_exact [OF d(2) tot(1,2)] by (simp_all only: X_def N_def of_nat_diff [OF tot(3)])
  have "\<bar>d\<bar> = X div N \<or> N dvd X \<and> 0 < X \<and> \<bar>d\<bar> = X div N - 1"
  proof (cases "X = (\<bar>d\<bar> + 1) * N")
    case True
    then show ?thesis using N by (simp add: zero_less_mult_iff)
  next
    case False
    then have "X div N = \<bar>d\<bar>"
      using X N by (intro int_div_pos_eq [where r = "X - \<bar>d\<bar> * N"]) (simp_all add: algebra_simps)
    then show ?thesis by simp
  qed
  moreover have "0 < d \<longrightarrow> old < new" "d < 0 \<longrightarrow> new < old"
    using d(2) by (simp_all add: prorates_def word_less_nat_alt)
  moreover have "el = 0 \<longrightarrow> d = int (unat new) - int (unat old)" "el = span \<longrightarrow> d = 0"
    using d(1) prorated_at_the_ends [OF assms(1,2), of old new] by auto
  ultimately show ?thesis using d(1) unfolding X_def N_def Let_def by blast
qed

theorem prorated_difference_witness:
  "compute_proration fixed_point 10000001 20000000 1296000 2592000 = Inr 4999999 \<and>
   compute_proration fixed_point 1 4 1 3 = Inr 1 \<and>
   (\<exists>d. compute_proration fixed_point 1 4 1 3 = Inr d \<and> (\<bar>d\<bar> = 2 \<or> \<bar>d\<bar> = 1))"
proof -
  have "compute_proration fixed_point 10000001 20000000 1296000 2592000 = Inr 4999999"
    "compute_proration fixed_point 1 4 1 3 = Inr 1"
    by (simp_all add: compute_proration_def precise_def precise_mul_def precise_div_def precise_sub_def floor_to_u128_def
        fixed_point_def ONE_def)
  then show ?thesis using prorated_difference [OF twelve_places_fixed_point, of 3 1 1 4] by simp
qed

end
