(* ===== verification/Plan_Upgrade.thy ===== *)
theory Plan_Upgrade
  imports Mandate_Lifecycle Proration
begin

text \<open>
  The immediate change of a mandate's plan (\<open>instructions/plans/update_mandate_plan.rs\<close>): the
  rest of the current period is prorated, the difference charged under an approval or put to
  the mandate's credit, and the mandate takes the terms of the new plan. Its effect on the
  stored mandates is shown here, what follows from it in \<open>Upgrade_Guarantees\<close>.
\<close>

section \<open>The handler\<close>

record upgrade_accounts =
  ug_authority :: pubkey
  ug_new_plan :: pubkey
  ug_mandate :: pubkey
  ug_subscriber_wrapped_account :: pubkey
  ug_merchant_wrapped_account :: pubkey
  ug_wrapped_usdc_mint :: pubkey
  ug_pull_approval :: pubkey
  ug_token_config :: pubkey
  ug_protocol_config :: pubkey
  ug_wrapping_vault :: pubkey
  ug_hook_program :: pubkey
  ug_extra_account_meta_list :: pubkey
  ug_protocol_program :: pubkey
  ug_token_2022_program :: pubkey
  ug_system_program :: pubkey

definition upgrade_constraints :: "env \<Rightarrow> upgrade_accounts \<Rightarrow> token_config \<Rightarrow> (bool \<times> verror) list" where
  "upgrade_constraints E c tc =
     [(is_signer E (ug_authority c), Anchor AccountNotSigner),
      (ug_token_2022_program c = token_2022_id E, Anchor InvalidProgramId),
      (ug_system_program c = system_program_id, Anchor InvalidProgramId),
      (create_address E [token_config_seed, key_bytes (ug_wrapped_usdc_mint c), [tk_bump tc]] program_id =
         Some (ug_token_config c), Anchor ConstraintSeeds),
      (ug_protocol_config c = pda E [protocol_config_seed], Anchor ConstraintSeeds),
      (ug_extra_account_meta_list c =
         fst (find_pda E [extra_account_metas_seed, key_bytes (ug_wrapped_usdc_mint c)] (ug_hook_program c)),
       Anchor ConstraintSeeds),
      (ug_protocol_program c = program_id, Anchor ConstraintAddress)]"

definition upgrade_config_checks :: "upgrade_accounts \<Rightarrow> loaded_protocol_config \<Rightarrow> (bool \<times> verror) list" where
  "upgrade_config_checks c pc =
     [(\<not> lpc_paused pc, Vela ProtocolPaused),
      (lpc_transfer_hook_program_id pc \<noteq> default_key, Vela InvalidProtocolConfig),
      (ug_hook_program c = lpc_transfer_hook_program_id pc, Vela InvalidProtocolConfig),
      (ug_wrapping_vault c = lpc_wrapping_vault pc, Vela VaultMismatch)]"

definition upgrade_checks ::
  "upgrade_accounts \<Rightarrow> token_config \<Rightarrow> loaded_plan \<Rightarrow> vela_mandate \<Rightarrow> (bool \<times> verror) list" where
  "upgrade_checks c tc new_plan mandate =
     (let authority = ug_authority c;
          is_subscriber = (authority = md_subscriber mandate);
          is_merchant = (authority = md_merchant mandate) in
     [(lp_merchant new_plan = md_merchant mandate, Vela UnauthorizedUpgrade),
      (lp_status new_plan = PlanActive, Vela PlanNotActive),
      (lp_billing_mint new_plan \<noteq> default_key \<longrightarrow> ug_wrapped_usdc_mint c = lp_billing_mint new_plan,
       Vela TokenChangeNotSupported),
      (tk_enabled tc, Vela TokenDisabled),
      (tk_mint tc = ug_wrapped_usdc_mint c, Vela TokenNotRegistered),
      (is_subscriber \<or> is_merchant, Vela UnauthorizedUpgrade),
      (md_amount mandate < lp_mandate_amount new_plan \<longrightarrow> is_subscriber, Vela UnauthorizedUpgrade)])"

text \<open>How much of the current period is over; before it none, after it all.\<close>

definition elapsed_in_period :: "vela_mandate \<Rightarrow> i64 \<Rightarrow> verror + u64" where
  "elapsed_in_period mandate clock_now =
     (let period_total_seconds = md_frequency mandate in
      case ok_or (i64_try_from_u64 period_total_seconds) (Vela Overflow) of Inl e \<Rightarrow> Inl e | Inr period_total_i64 \<Rightarrow>
     (case ok_or (i64_checked_sub (md_next_payment_due mandate) period_total_i64) (Vela Overflow) of
        Inl e \<Rightarrow> Inl e | Inr period_start \<Rightarrow>
      if clock_now \<le> period_start then Inr 0 else
      if md_next_payment_due mandate \<le> clock_now then Inr period_total_seconds else
      ok_or (u64_try_from_i64 (i64_of (sval clock_now - sval period_start))) (Vela Overflow)))"

definition upgrade_approval :: "env \<Rightarrow> store \<Rightarrow> upgrade_accounts \<Rightarrow> vela_mandate \<Rightarrow> u64 \<Rightarrow> verror + unit" where
  "upgrade_approval E s c mandate charge_amount =
     (let k = ug_pull_approval c in
      if k \<noteq> pda E [pull_approval_seed, key_bytes (ug_mandate c)] then Inl (Vela ApprovalNotGranted) else
      if acc_owner (s k) \<noteq> program_id \<or> data_is_empty (s k) then Inl (Vela ApprovalNotGranted) else
      case ok_or (try_deserialize E KPullApproval dec_pull_approval (acc_data (s k))) (Vela ApprovalNotGranted) of
        Inl e \<Rightarrow> Inl e | Inr approval \<Rightarrow>
      if \<not> pa_approved approval then Inl (Vela ApprovalNotGranted) else
      if pa_mandate approval \<noteq> ug_mandate c then Inl (Vela ApprovalNotGranted) else
     (case mandate_billing_period mandate of Inl e \<Rightarrow> Inl e | Inr (period_start, period_end) \<Rightarrow>
      require_all
        [(pa_period_start approval = period_start \<and> pa_period_end approval = period_end, Vela PeriodMismatch),
         (unix_timestamp E \<le> pa_valid_until approval, Vela ApprovalExpired),
         (charge_amount \<le> pa_approved_amount approval, Vela AmountExceedsPlanAmount)]))"

definition upgrade_transfer_accounts :: "upgrade_accounts \<Rightarrow> transfer_accounts" where
  "upgrade_transfer_accounts c =
     \<lparr>tr_source = ug_subscriber_wrapped_account c, tr_mint = ug_wrapped_usdc_mint c,
      tr_destination = ug_merchant_wrapped_account c, tr_authority = ug_mandate c,
      tr_protocol_program = ug_protocol_program c, tr_wrapping_vault = ug_wrapping_vault c,
      tr_protocol_config = ug_protocol_config c, tr_pull_approval = ug_pull_approval c,
      tr_token_config = ug_token_config c, tr_system_program = ug_system_program c,
      tr_extra_account_meta_list = ug_extra_account_meta_list c, tr_hook_program = ug_hook_program c,
      tr_token_2022_program = ug_token_2022_program c\<rparr>"

text \<open>
  A positive difference is transferred under the approval, which is closed; a negative one is
  added to the credit.
\<close>

definition settle_difference ::
  "env \<Rightarrow> upgrade_accounts \<Rightarrow> vela_mandate \<Rightarrow> int \<Rightarrow> store \<Rightarrow> verror + (store \<times> vela_mandate)" where
  "settle_difference E c mandate signed_delta s =
     (if 0 < signed_delta then
        if \<not> signed_delta < 2 ^ 64 then Inl (Vela MathOverflow) else
        let charge_amount = word_of_int signed_delta in
        case upgrade_approval E s c mandate charge_amount of Inl e \<Rightarrow> Inl e | Inr _ \<Rightarrow>
       (case invoke_stream_transfer E (upgrade_transfer_accounts c) (ug_mandate c) (md_merchant mandate) charge_amount
               [mandate_seeds (md_subscriber mandate) (md_merchant mandate) (md_mandate_index mandate) @
                [[md_bump mandate]]] s of Inl e \<Rightarrow> Inl e | Inr s1 \<Rightarrow>
       (case close_program_account (ug_pull_approval c) (ug_authority c) s1 of Inl e \<Rightarrow> Inl e | Inr s2 \<Rightarrow>
        Inr (s2, mandate)))
      else if signed_delta < 0 then
        if \<not> - signed_delta < 2 ^ 64 then Inl (Vela MathOverflow) else
        case ok_or (checked_add (md_credit_balance mandate) (word_of_int (- signed_delta))) (Vela Overflow) of
          Inl e \<Rightarrow> Inl e | Inr credit \<Rightarrow> Inr (s, mandate\<lparr>md_credit_balance := credit\<rparr>)
      else Inr (s, mandate))"

definition update_mandate_plan ::
  "'p precise_numbers \<Rightarrow> env \<Rightarrow> upgrade_accounts \<Rightarrow> store \<Rightarrow> verror + (store \<times> vela_event list)" where
  "update_mandate_plan P E c s =
     (case anchor_account E KTokenConfig dec_token_config s (ug_token_config c) of
        Inl e \<Rightarrow> Inl e | Inr tc \<Rightarrow>
     (case require_all (upgrade_constraints E c tc) of Inl e \<Rightarrow> Inl e | Inr _ \<Rightarrow>
     (case load_protocol_config E s (ug_protocol_config c) of Inl e \<Rightarrow> Inl e | Inr pc \<Rightarrow>
     (case require_all (upgrade_config_checks c pc) of Inl e \<Rightarrow> Inl e | Inr _ \<Rightarrow>
     (case active_current_mandate E s (ug_mandate c) of Inl e \<Rightarrow> Inl e | Inr mandate \<Rightarrow>
     (case load_plan_account E s (ug_new_plan c) of Inl e \<Rightarrow> Inl e | Inr new_plan \<Rightarrow>
     (case require_all (upgrade_checks c tc new_plan mandate) of Inl e \<Rightarrow> Inl e | Inr _ \<Rightarrow>
      if md_plan mandate = ug_new_plan c then Inr (s, []) else
      let now = unix_timestamp E; old_plan = md_plan mandate; mint_key = ug_wrapped_usdc_mint c;
          symbol = event_token_symbol mint_key (lpc_wrapped_usdc_mint pc) in
     (case elapsed_in_period mandate now of Inl e \<Rightarrow> Inl e | Inr elapsed_seconds \<Rightarrow>
     (case compute_proration P (md_amount mandate) (lp_mandate_amount new_plan) elapsed_seconds
             (md_frequency mandate) of Inl e \<Rightarrow> Inl e | Inr signed_delta \<Rightarrow>
      if \<not> in_i64 signed_delta then Inl (Vela MathOverflow) else
     (case settle_difference E c mandate signed_delta s of Inl e \<Rightarrow> Inl e | Inr (s1, mandate) \<Rightarrow>
     (case write_mandate E (ug_mandate c) (apply_plan (ug_new_plan c) new_plan mandate) False s1 of
        Inl e \<Rightarrow> Inl e | Inr s2 \<Rightarrow>
      Inr (s2,
        [MandateUpgradeInitiated 1 (ug_mandate c) mint_key symbol old_plan (ug_new_plan c)
           (i64_of signed_delta) 1 (ug_authority c) now now] @
        (if signed_delta < 0
         then [MandateCreditAdded 1 (ug_mandate c) mint_key symbol old_plan (ug_new_plan c)
                 (word_of_int (- signed_delta)) (md_credit_balance mandate) now now]
         else []) @
        [MandateUpgradeFinalized 1 (ug_mandate c) mint_key symbol old_plan (ug_new_plan c)
           (i64_of signed_delta) 1 now now]))))))))))))"

section \<open>What the handler does\<close>

lemma upgrade_approval_Inr:
  "upgrade_approval E s c m n = Inr u \<longleftrightarrow>
     ug_pull_approval c = pda E [pull_approval_seed, key_bytes (ug_mandate c)] \<and>
     acc_owner (s (ug_pull_approval c)) = program_id \<and>
     \<not> data_is_empty (s (ug_pull_approval c)) \<and>
     (\<exists>approval a b. try_deserialize E KPullApproval dec_pull_approval (acc_data (s (ug_pull_approval c))) = Some approval \<and>
        pa_approved approval \<and> pa_mandate approval = ug_mandate c \<and> mandate_billing_period m = Inr (a, b) \<and>
        pa_period_start approval = a \<and> pa_period_end approval = b \<and>
        unix_timestamp E \<le> pa_valid_until approval \<and> n \<le> pa_approved_amount approval)"
  by (auto simp: upgrade_approval_def ok_simps Let_def)

text \<open>A returning call either found nothing to change or settled the difference and wrote the terms.\<close>

lemma update_mandate_plan_Inr:
  assumes "update_mandate_plan P E c s = Inr (s', ev)"
  obtains tc pc m plan where
    "anchor_account E KTokenConfig dec_token_config s (ug_token_config c) = Inr tc"
    "list_all fst (upgrade_constraints E c tc)"
    "load_protocol_config E s (ug_protocol_config c) = Inr pc" "list_all fst (upgrade_config_checks c pc)"
    "current_mandate E s (ug_mandate c) = Inr m" "md_status m = MandateActive"
    "load_plan_account E s (ug_new_plan c) = Inr plan" "list_all fst (upgrade_checks c tc plan m)"
    "md_plan m = ug_new_plan c \<and> s' = s \<or>
     md_plan m \<noteq> ug_new_plan c \<and>
     (\<exists>el d s1 m1. elapsed_in_period m (unix_timestamp E) = Inr el \<and>
        compute_proration P (md_amount m) (lp_mandate_amount plan) el (md_frequency m) = Inr d \<and> in_i64 d \<and>
        settle_difference E c m d s = Inr (s1, m1) \<and>
        write_current_mandate E (ug_mandate c) (apply_plan (ug_new_plan c) plan m1) s1 = Inr s')"
proof -
  note un = assms [unfolded update_mandate_plan_def]
  from un obtain tc where tc: "anchor_account E KTokenConfig dec_token_config s (ug_token_config c) = Inr tc"
    "list_all fst (upgrade_constraints E c tc)"
    unfolding case_sum_Inr require_all_Inr by blast
  note un = un [unfolded tc(1) sum.case]
  from un obtain pc where pc: "load_protocol_config E s (ug_protocol_config c) = Inr pc"
    "list_all fst (upgrade_config_checks c pc)"
    unfolding case_sum_Inr require_all_Inr by blast
  note un = un [unfolded pc(1) sum.case]
  from un obtain m where m: "active_current_mandate E s (ug_mandate c) = Inr m" unfolding handler_inversion by blast
  note un = un [unfolded m sum.case]
  from un obtain plan where plan: "load_plan_account E s (ug_new_plan c) = Inr plan"
    "list_all fst (upgrade_checks c tc plan m)"
    unfolding case_sum_Inr require_all_Inr by blast
  note un = un [unfolded plan(1) sum.case]
  have m': "current_mandate E s (ug_mandate c) = Inr m" "md_status m = MandateActive"
    using m by (auto simp: active_current_mandate_Inr)
  show thesis
  proof (rule that [OF tc pc m' plan])
    show "md_plan m = ug_new_plan c \<and> s' = s \<or>
     md_plan m \<noteq> ug_new_plan c \<and>
     (\<exists>el d s1 m1. elapsed_in_period m (unix_timestamp E) = Inr el \<and>
        compute_proration P (md_amount m) (lp_mandate_amount plan) el (md_frequency m) = Inr d \<and> in_i64 d \<and>
        settle_difference E c m d s = Inr (s1, m1) \<and>
        write_current_mandate E (ug_mandate c) (apply_plan (ug_new_plan c) plan m1) s1 = Inr s')"
    proof (cases "md_plan m = ug_new_plan c")
      case True
      then show ?thesis using un unfolding case_sum_Inr by auto
    next
      case False
      from un obtain el where el: "elapsed_in_period m (unix_timestamp E) = Inr el"
        unfolding if_not_P [OF False] handler_inversion by blast
      note un = un [unfolded if_not_P [OF False] el sum.case Let_def]
      from un obtain d where d: "compute_proration P (md_amount m) (lp_mandate_amount plan) el (md_frequency m) = Inr d"
        unfolding handler_inversion by blast
      note un = un [unfolded d sum.case]
      show ?thesis using un False el d unfolding case_sum_Inr if_Inl_Inr case_prod_unfold by auto
    qed
  qed
qed

lemma unat_word_of_int: "0 \<le> n \<Longrightarrow> n < 2 ^ 64 \<Longrightarrow> int (unat (word_of_int n :: u64)) = n"
  by (simp add: uint_word_of_int_eq take_bit_int_eq_self)

lemma settle_difference_Inr:
  assumes "settle_difference E c m d s = Inr (s1, m1)"
  obtains (Charge) s0 where "0 < d" "d < 2 ^ 64" "upgrade_approval E s c m (word_of_int d) = Inr ()"
      "invoke_stream_transfer E (upgrade_transfer_accounts c) (ug_mandate c) (md_merchant m) (word_of_int d)
         [mandate_seeds (md_subscriber m) (md_merchant m) (md_mandate_index m) @ [[md_bump m]]] s = Inr s0"
      "close_program_account (ug_pull_approval c) (ug_authority c) s0 = Inr s1" "m1 = m"
  | (Credit) credit where "d < 0" "- d < 2 ^ 64" "int (unat credit) = int (unat (md_credit_balance m)) - d"
      "s1 = s" "m1 = m\<lparr>md_credit_balance := credit\<rparr>"
  | (Nothing) "d = 0" "s1 = s" "m1 = m"
proof (cases "0 < d")
  case True
  with assms obtain s0 where "d < 2 ^ 64" "upgrade_approval E s c m (word_of_int d) = Inr ()"
      "invoke_stream_transfer E (upgrade_transfer_accounts c) (ug_mandate c) (md_merchant m) (word_of_int d)
         [mandate_seeds (md_subscriber m) (md_merchant m) (md_mandate_index m) @ [[md_bump m]]] s = Inr s0"
      "close_program_account (ug_pull_approval c) (ug_authority c) s0 = Inr s1" "m1 = m"
    by (auto simp: settle_difference_def case_sum_Inr Let_def split: if_splits)
  with True show thesis by (rule Charge)
next
  case not_charge: False
  show thesis
  proof (cases "d < 0")
    case True
    with assms not_charge obtain credit where "- d < 2 ^ 64" "s1 = s" "m1 = m\<lparr>md_credit_balance := credit\<rparr>"
      and c: "checked_add (md_credit_balance m) (word_of_int (- d)) = Some credit"
      by (auto simp: settle_difference_def ok_simps split: if_splits)
    moreover have "int (unat (word_of_int (- d) :: u64)) = - d"
      using \<open>- d < 2 ^ 64\<close> True by (intro unat_word_of_int) simp_all
    then have "int (unat credit) = int (unat (md_credit_balance m)) - d"
      using c unfolding checked_add_Some by linarith
    ultimately show thesis using True by (intro Credit)
  next
    case False
    with not_charge have "d = 0" by simp
    then show thesis using assms by (intro Nothing) (simp_all add: settle_difference_def)
  qed
qed

text \<open>The difference settled, every mandate is as it was.\<close>

lemma settle_difference_kept:
  assumes "settle_difference E c m d s = Inr (s1, m1)" "keeps_program_accounts E" "distinct_discriminators E"
  shows "mandates_kept E s s1"
  using assms(1)
proof (cases rule: settle_difference_Inr)
  case (Charge s0)
  have kept: "accounts_kept s s0"
    using Charge(4) by (rule invoke_stream_transfer_call) (rule accounts_kept_call [OF assms(2)])
  have "starts_with (acc_data (s (ug_pull_approval c))) (disc E KPullApproval)"
    "acc_owner (s (ug_pull_approval c)) = program_id"
    using Charge(3) by (auto simp: upgrade_approval_Inr intro: try_deserialize_starts)
  then have "starts_with (acc_data (s0 (ug_pull_approval c))) (disc E KPullApproval)"
    using kept_starts [OF kept] by blast
  then have "mandates_kept E s0 s1"
    by (intro close_keeps_mandates [OF Charge(5)]) (use other_kind_no_mandate [OF assms(3)] in auto)
  then show ?thesis using mandates_kept_trans [OF accounts_kept_mandates [OF kept]] by blast
qed (simp_all add: mandates_kept_refl)

text \<open>The mandate afterwards: the terms of the new plan, and the credit.\<close>

definition upgraded :: "pubkey \<Rightarrow> loaded_plan \<Rightarrow> u64 \<Rightarrow> vela_mandate \<Rightarrow> vela_mandate" where
  "upgraded k plan credit m = apply_plan k plan (m\<lparr>md_credit_balance := credit\<rparr>)"

definition upgrade_outcome ::
  "'p precise_numbers \<Rightarrow> env \<Rightarrow> upgrade_accounts \<Rightarrow> vela_mandate \<Rightarrow> loaded_plan \<Rightarrow> int \<Rightarrow> u64 \<Rightarrow> bool" where
  "upgrade_outcome P E c m plan d credit \<longleftrightarrow>
     is_signer E (ug_authority c) \<and> lp_merchant plan = md_merchant m \<and> lp_status plan = PlanActive \<and>
     (ug_authority c = md_subscriber m \<or> ug_authority c = md_merchant m) \<and>
     (md_amount m < lp_mandate_amount plan \<longrightarrow> ug_authority c = md_subscriber m) \<and>
     (\<exists>el. elapsed_in_period m (unix_timestamp E) = Inr el \<and>
        compute_proration P (md_amount m) (lp_mandate_amount plan) el (md_frequency m) = Inr d) \<and>
     int (unat credit) = int (unat (md_credit_balance m)) + max 0 (- d)"

lemma update_mandate_plan_effect:
  assumes "update_mandate_plan P E c s = Inr (s', ev)" "keeps_program_accounts E" "distinct_discriminators E"
  obtains (Same) m where "current_mandate E s (ug_mandate c) = Inr m" "md_plan m = ug_new_plan c" "s' = s"
  | (Changed) m plan d s1 m1 credit where "current_mandate E s (ug_mandate c) = Inr m" "md_status m = MandateActive"
      "md_plan m \<noteq> ug_new_plan c" "load_plan_account E s (ug_new_plan c) = Inr plan"
      "upgrade_outcome P E c m plan d credit"
      "settle_difference E c m d s = Inr (s1, m1)" "mandates_kept E s s1"
      "write_current_mandate E (ug_mandate c) (upgraded (ug_new_plan c) plan credit m) s1 = Inr s'"
      "current_mandate E s' (ug_mandate c) = Inr (upgraded (ug_new_plan c) plan credit m)"
      "\<And>j m'. j \<noteq> ug_mandate c \<Longrightarrow> current_mandate E s j = Inr m' \<Longrightarrow> current_mandate E s' j = Inr m'"
  using assms(1)
proof (cases rule: update_mandate_plan_Inr)
  case (1 tc pc m plan)
  show thesis
  proof (cases "md_plan m = ug_new_plan c")
    case True
    then show thesis using 1(5,9) Same by blast
  next
    case False
    with 1(9) obtain el d s1 m1 where el: "elapsed_in_period m (unix_timestamp E) = Inr el"
      "compute_proration P (md_amount m) (lp_mandate_amount plan) el (md_frequency m) = Inr d"
      and set: "settle_difference E c m d s = Inr (s1, m1)"
      and w: "write_current_mandate E (ug_mandate c) (apply_plan (ug_new_plan c) plan m1) s1 = Inr s'"
      by blast
    have m1: "m1 = m\<lparr>md_credit_balance := md_credit_balance m1\<rparr>"
      "int (unat (md_credit_balance m1)) = int (unat (md_credit_balance m)) + max 0 (- d)"
      using set by (cases rule: settle_difference_Inr; simp)+
    have up: "apply_plan (ug_new_plan c) plan m1 = upgraded (ug_new_plan c) plan (md_credit_balance m1) m"
      unfolding upgraded_def using m1(1) by simp
    have kept: "mandates_kept E s s1" by (rule settle_difference_kept [OF set assms(2,3)])
    have s1: "current_mandate E s1 (ug_mandate c) = Inr m" using kept 1(5) by (simp add: mandates_kept_def)
    have out: "upgrade_outcome P E c m plan d (md_credit_balance m1)"
      using 1(2,8) el m1(2) by (auto simp: upgrade_outcome_def upgrade_constraints_def upgrade_checks_def Let_def)
    have after: "current_mandate E s' (ug_mandate c) = Inr (upgraded (ug_new_plan c) plan (md_credit_balance m1) m)"
      by (rule current_store.load_write [OF s1 w [unfolded up]]) (simp add: upgraded_def)
    have others: "current_mandate E s' j = Inr m'" if "j \<noteq> ug_mandate c" "current_mandate E s j = Inr m'" for j m'
      using current_store.load_other [OF w that(1)] kept that(2) by (simp add: mandates_kept_def)
    show thesis by (rule Changed [OF 1(5,6) False 1(7) out set kept w [unfolded up] after others])
  qed
qed

end
