(* ===== verification/Upgrade_Guarantees.thy ===== *)
theory Upgrade_Guarantees
  imports Plan_Upgrade Billing_Samples
begin

text \<open>
  What an immediate change of plan guarantees, and what it does not: who may make it, what it
  charges and credits, and two things the subscriber did not agree to or did not pay for.
\<close>

section \<open>What a change settles\<close>

text \<open>How much of the period a change takes as over: the seconds since its start, cut to the period.\<close>

lemma elapsed_in_period_Inr:
  assumes "elapsed_in_period m now = Inr el"
  shows "uint el = max 0 (min (uint (md_frequency m)) (sval now - (sval (md_next_payment_due m) - uint (md_frequency m))))"
proof -
  from assms obtain f start where f: "sval f = uint (md_frequency m)" "sval start = sval (md_next_payment_due m) - sval f"
    and el: "(if now \<le> start then Inr 0 else
      if md_next_payment_due m \<le> now then Inr (md_frequency m) else
      ok_or (u64_try_from_i64 (i64_of (sval now - sval start))) (Vela Overflow)) = Inr el"
    by (auto simp: elapsed_in_period_def ok_simps arith_simps Let_def)
  define F where "F = uint (md_frequency m)"
  have lt: "0 \<le> F" "F < 2 ^ 63" using sval_range [of f] f(1) uint_nonnegative [of "md_frequency m"] by (simp_all add: F_def)
  show ?thesis
    using el f lt unfolding F_def [symmetric]
    by (auto simp: less_eq_i64_def ok_or_Inr u64_try_from_i64_Some in_i64_def max_def min_def F_def [symmetric] split: if_splits)
qed

text \<open>
  C22: An immediate change of plan that returns was signed by the subscriber, or by the merchant
  if the new amount is no larger; the new plan is an active one of the mandate's merchant, and
  the difference is the proration of the two amounts over what is left of the current period. A positive difference is
  charged once: it is the one transfer between the accounts before the call and those after it, from an account
  of the mandate to one of the merchant, covered by an unexpired approval for the mandate and
  its current period of at least the difference, which is closed; no other account but the mandate's changes its data. A negative
  difference goes to the credit, and then no account but the mandate's changes. Afterwards the mandate has the new plan's terms and
  nothing pending.
\<close>

theorem immediate_change_settles_the_period:
  assumes "update_mandate_plan P E c s = Inr (s', ev)" "keeps_program_accounts E" "distinct_discriminators E"
    "current_mandate E s (ug_mandate c) = Inr m" "md_plan m \<noteq> ug_new_plan c"
  shows "\<exists>plan el d credit. load_plan_account E s (ug_new_plan c) = Inr plan \<and>
    lp_merchant plan = md_merchant m \<and> lp_status plan = PlanActive \<and> md_status m = MandateActive \<and>
    (is_signer E (md_subscriber m) \<or> is_signer E (md_merchant m) \<and> lp_mandate_amount plan \<le> md_amount m) \<and>
    uint el = max 0 (min (uint (md_frequency m))
      (sval (unix_timestamp E) - (sval (md_next_payment_due m) - uint (md_frequency m)))) \<and>
    compute_proration P (md_amount m) (lp_mandate_amount plan) el (md_frequency m) = Inr d \<and>
    int (unat credit) = int (unat (md_credit_balance m)) + max 0 (- d) \<and>
    current_mandate E s' (ug_mandate c) = Inr (upgraded (ug_new_plan c) plan credit m) \<and>
    (if 0 < d
     then \<exists>a dec s1 src dst.
       ug_pull_approval c = pda E [pull_approval_seed, key_bytes (ug_mandate c)] \<and>
       acc_owner (s (ug_pull_approval c)) = program_id \<and>
       try_deserialize E KPullApproval dec_pull_approval (acc_data (s (ug_pull_approval c))) = Some a \<and>
       pa_approved a \<and> pa_mandate a = ug_mandate c \<and> unix_timestamp E \<le> pa_valid_until a \<and>
       d \<le> int (unat (pa_approved_amount a)) \<and> pa_period_end a = md_next_payment_due m \<and>
       sval (pa_period_start a) = sval (md_next_payment_due m) - uint (md_frequency m) \<and>
       invoke E (TransferChecked (ug_token_2022_program c) (ug_subscriber_wrapped_account c)
         (ug_wrapped_usdc_mint c) (ug_merchant_wrapped_account c) (ug_mandate c) (word_of_int d) dec
         (transfer_hook_account_metas (upgrade_transfer_accounts c)))
         [mandate_seeds (md_subscriber m) (md_merchant m) (md_mandate_index m) @ [[md_bump m]]] s = Inr s1 \<and>
       unpack_token E (acc_data (s (ug_subscriber_wrapped_account c))) = Some src \<and>
       unpack_token E (acc_data (s (ug_merchant_wrapped_account c))) = Some dst \<and>
       ta_owner src = ug_mandate c \<and> ta_owner dst = md_merchant m \<and>
       acc_data (s' (ug_pull_approval c)) = [] \<and> acc_owner (s' (ug_pull_approval c)) = system_program_id \<and>
       (\<forall>j. j \<noteq> ug_mandate c \<longrightarrow> j \<noteq> ug_pull_approval c \<longrightarrow>
          acc_data (s' j) = acc_data (s1 j) \<and> acc_owner (s' j) = acc_owner (s1 j))
     else \<forall>j. j \<noteq> ug_mandate c \<longrightarrow> s' j = s j)"
  using assms(1-3)
proof (cases rule: update_mandate_plan_effect)
  case (Same m')
  then show ?thesis using assms(4,5) by simp
next
  case (Changed m' plan d s1 m1 credit)
  have m: "m' = m" using Changed(1) assms(4) by simp
  note ch = Changed [unfolded m]
  have frame: "s' j = s1 j" if "j \<noteq> ug_mandate c" for j
    using current_store.write_frame [OF ch(8) that] .
  obtain el where el: "elapsed_in_period m (unix_timestamp E) = Inr el"
    "compute_proration P (md_amount m) (lp_mandate_amount plan) el (md_frequency m) = Inr d"
    using ch(5) unfolding upgrade_outcome_def by blast
  let ?ap = "ug_pull_approval c"
  let ?transfer = "\<lambda>a dec s1 src dst.
       ?ap = pda E [pull_approval_seed, key_bytes (ug_mandate c)] \<and> acc_owner (s ?ap) = program_id \<and>
       try_deserialize E KPullApproval dec_pull_approval (acc_data (s ?ap)) = Some a \<and>
       pa_approved a \<and> pa_mandate a = ug_mandate c \<and> unix_timestamp E \<le> pa_valid_until a \<and>
       d \<le> int (unat (pa_approved_amount a)) \<and> pa_period_end a = md_next_payment_due m \<and>
       sval (pa_period_start a) = sval (md_next_payment_due m) - uint (md_frequency m) \<and>
       invoke E (TransferChecked (ug_token_2022_program c) (ug_subscriber_wrapped_account c)
         (ug_wrapped_usdc_mint c) (ug_merchant_wrapped_account c) (ug_mandate c) (word_of_int d) dec
         (transfer_hook_account_metas (upgrade_transfer_accounts c)))
         [mandate_seeds (md_subscriber m) (md_merchant m) (md_mandate_index m) @ [[md_bump m]]] s = Inr s1 \<and>
       unpack_token E (acc_data (s (ug_subscriber_wrapped_account c))) = Some src \<and>
       unpack_token E (acc_data (s (ug_merchant_wrapped_account c))) = Some dst \<and>
       ta_owner src = ug_mandate c \<and> ta_owner dst = md_merchant m \<and>
       acc_data (s' ?ap) = [] \<and> acc_owner (s' ?ap) = system_program_id \<and>
       (\<forall>j. j \<noteq> ug_mandate c \<longrightarrow> j \<noteq> ?ap \<longrightarrow> acc_data (s' j) = acc_data (s1 j) \<and> acc_owner (s' j) = acc_owner (s1 j))"
  have settled: "if 0 < d then \<exists>a dec s1 src dst. ?transfer a dec s1 src dst else \<forall>j. j \<noteq> ug_mandate c \<longrightarrow> s' j = s j"
    using ch(6)
  proof (cases rule: settle_difference_Inr)
    case (Charge s0)
    from Charge(3) obtain a where a: "?ap = pda E [pull_approval_seed, key_bytes (ug_mandate c)]"
      "acc_owner (s ?ap) = program_id" "try_deserialize E KPullApproval dec_pull_approval (acc_data (s ?ap)) = Some a"
      "pa_approved a" "pa_mandate a = ug_mandate c" "unix_timestamp E \<le> pa_valid_until a"
      "word_of_int d \<le> pa_approved_amount a" "mandate_billing_period m = Inr (pa_period_start a, pa_period_end a)"
      unfolding upgrade_approval_Inr by blast
    have "d = int (unat (word_of_int d :: u64))" using Charge(1,2) by (simp only: unat_word_of_int order_less_imp_le)
    then have "d \<le> int (unat (pa_approved_amount a))" using a(7) unfolding word_le_nat_alt by linarith
    moreover have "?ap \<noteq> ug_mandate c"
      using try_deserialize_starts [OF a(3)] mandate_starts [OF assms(4)] by (rule kinds_differ [OF assms(3)]) simp
    then have "acc_data (s' ?ap) = [] \<and> acc_owner (s' ?ap) = system_program_id"
      using frame close_program_account_closed [OF Charge(5)] by simp
    moreover have "\<forall>j. j \<noteq> ug_mandate c \<longrightarrow> j \<noteq> ?ap \<longrightarrow> acc_data (s' j) = acc_data (s0 j) \<and> acc_owner (s' j) = acc_owner (s0 j)"
      using frame close_program_account_data [OF Charge(5)] by simp
    moreover obtain dec where "invoke E (TransferChecked (ug_token_2022_program c) (ug_subscriber_wrapped_account c)
            (ug_wrapped_usdc_mint c) (ug_merchant_wrapped_account c) (ug_mandate c) (word_of_int d) dec
            (transfer_hook_account_metas (upgrade_transfer_accounts c)))
            [mandate_seeds (md_subscriber m) (md_merchant m) (md_mandate_index m) @ [[md_bump m]]] s = Inr s0"
      by (rule invoke_stream_transfer_call [OF Charge(4)]) (auto simp: upgrade_transfer_accounts_def)
    moreover obtain src dst where "unpack_token E (acc_data (s (ug_subscriber_wrapped_account c))) = Some src"
      "unpack_token E (acc_data (s (ug_merchant_wrapped_account c))) = Some dst"
      "ta_owner src = ug_mandate c" "ta_owner dst = md_merchant m"
      by (rule invoke_stream_transfer_checked [OF Charge(4)]) (auto simp: upgrade_transfer_accounts_def)
    ultimately have "?transfer a dec s0 src dst"
      using a(1-6) a(8) [unfolded mandate_billing_period_Inr] by (intro conjI) (assumption | blast)+
    then show ?thesis using Charge(1) unfolding if_P [OF Charge(1)] by blast
  qed (use frame in simp_all)
  have party: "is_signer E (md_subscriber m) \<or> is_signer E (md_merchant m) \<and> lp_mandate_amount plan \<le> md_amount m"
    "lp_merchant plan = md_merchant m" "lp_status plan = PlanActive"
    "int (unat credit) = int (unat (md_credit_balance m)) + max 0 (- d)"
    using ch(5) unfolding upgrade_outcome_def by (auto simp: not_less)
  show ?thesis
    by (intro exI [of _ plan] exI [of _ el] exI [of _ d] exI [of _ credit] conjI
        ch(2,4,9) party el(2) elapsed_in_period_Inr [OF el(1)] settled)
qed

section \<open>Credit for a period that was never paid\<close>

text \<open>Before the period no time of it is over, and from its end on all of it.\<close>

lemma elapsed_outside:
  assumes "elapsed_in_period m now = Inr el"
  shows "sval now \<le> sval (md_next_payment_due m) - uint (md_frequency m) \<Longrightarrow> el = 0"
    "md_next_payment_due m \<le> now \<Longrightarrow> 0 < md_frequency m \<Longrightarrow> el = md_frequency m"
proof -
  from assms obtain f start where f: "sval f = uint (md_frequency m)" "sval start = sval (md_next_payment_due m) - sval f"
    and el: "(if now \<le> start then Inr 0 else
      if md_next_payment_due m \<le> now then Inr (md_frequency m) else
      ok_or (u64_try_from_i64 (i64_of (sval now - sval start))) (Vela Overflow)) = Inr el"
    by (auto simp: elapsed_in_period_def ok_simps arith_simps Let_def)
  show "sval now \<le> sval (md_next_payment_due m) - uint (md_frequency m) \<Longrightarrow> el = 0"
    using el f by (simp add: less_eq_i64_def)
  assume due: "md_next_payment_due m \<le> now" "0 < md_frequency m"
  then have "0 < uint (md_frequency m)" by (simp add: word_less_def)
  then show "el = md_frequency m" using el f due by (auto simp: less_eq_i64_def split: if_splits)
qed

text \<open>
  C24: A change to a cheaper plan before the current period begins, as in a trial, credits the whole
  difference of the amounts, whether or not the mandate was ever pulled; nothing but the
  mandate changes.
\<close>

theorem unpaid_difference_is_credited:
  assumes "twelve_places P v" "update_mandate_plan P E c s = Inr (s', ev)"
    "keeps_program_accounts E" "distinct_discriminators E"
    "current_mandate E s (ug_mandate c) = Inr m" "md_plan m \<noteq> ug_new_plan c"
    "load_plan_account E s (ug_new_plan c) = Inr plan" "lp_mandate_amount plan < md_amount m" "0 < md_frequency m"
    "sval (unix_timestamp E) \<le> sval (md_next_payment_due m) - uint (md_frequency m)"
  shows "\<exists>m'. current_mandate E s' (ug_mandate c) = Inr m' \<and> md_pulls_executed m' = md_pulls_executed m \<and>
    md_amount m' = lp_mandate_amount plan \<and>
    unat (md_credit_balance m') = unat (md_credit_balance m) + (unat (md_amount m) - unat (lp_mandate_amount plan)) \<and>
    (\<forall>j. j \<noteq> ug_mandate c \<longrightarrow> s' j = s j)"
  using assms(2-4)
proof (cases rule: update_mandate_plan_effect)
  case (Same m')
  then show ?thesis using assms(5,6) by simp
next
  case (Changed m' plan' d s1 m1 credit)
  have eq: "m' = m" "plan' = plan" using Changed(1,4) assms(5,7) by simp_all
  note ch = Changed [unfolded eq]
  obtain el where el: "elapsed_in_period m (unix_timestamp E) = Inr el"
    "compute_proration P (md_amount m) (lp_mandate_amount plan) el (md_frequency m) = Inr d"
    using ch(5) by (auto simp: upgrade_outcome_def)
  have "el = 0" by (rule elapsed_outside(1) [OF el(1) assms(10)])
  then have d: "d = int (unat (lp_mandate_amount plan)) - int (unat (md_amount m))"
    using el(2) prorated_at_the_ends(1) [OF assms(1,9)] by simp
  have less: "unat (lp_mandate_amount plan) < unat (md_amount m)" using assms(8) by (simp add: word_less_nat_alt)
  then have "d < 0" unfolding d by linarith
  with ch(6) have "s1 = s" by (cases rule: settle_difference_Inr) simp_all
  moreover have "unat credit = unat (md_credit_balance m) + (unat (md_amount m) - unat (lp_mandate_amount plan))"
    using ch(5) less unfolding upgrade_outcome_def d by linarith
  ultimately show ?thesis
    using ch(9) current_store.write_frame [OF ch(8)] by (auto simp: upgraded_def)
qed

section \<open>Instances\<close>

definition sample_upgrade_accounts :: "pubkey \<Rightarrow> pubkey \<Rightarrow> upgrade_accounts" where
  "sample_upgrade_accounts signer plan =
     \<lparr>ug_authority = signer, ug_new_plan = plan, ug_mandate = 27911, ug_subscriber_wrapped_account = 50,
      ug_merchant_wrapped_account = 51, ug_wrapped_usdc_mint = 3, ug_pull_approval = 24840,
      ug_token_config = 29708, ug_protocol_config = 25350, ug_wrapping_vault = 33,
      ug_hook_program = transfer_hook_program_id, ug_extra_account_meta_list = 25875,
      ug_protocol_program = program_id, ug_token_2022_program = 22, ug_system_program = system_program_id\<rparr>"

lemma sample_upgrade_accounts_simps [simp]:
  "ug_authority (sample_upgrade_accounts a p) = a" "ug_new_plan (sample_upgrade_accounts a p) = p"
  "ug_mandate (sample_upgrade_accounts a p) = 27911" "ug_pull_approval (sample_upgrade_accounts a p) = 24840"
  "ug_token_config (sample_upgrade_accounts a p) = 29708" "ug_protocol_config (sample_upgrade_accounts a p) = 25350"
  "ug_wrapped_usdc_mint (sample_upgrade_accounts a p) = 3"
  by (simp_all add: sample_upgrade_accounts_def)

lemma sample_upgrade_passes:
  "list_all fst (upgrade_constraints (creating_env now [a]) (sample_upgrade_accounts a p) sample_token_config)"
  "list_all fst (upgrade_config_checks (sample_upgrade_accounts a p) (CurrentProtocolConfig sample_protocol_config))"
  by (simp_all add: upgrade_constraints_def upgrade_config_checks_def sample_upgrade_accounts_def is_signer_def
      sample_protocol_config_def new_protocol_config_def transfer_hook_program_id_def)

text \<open>A change on the sample store goes through once its own checks and the settlement do.\<close>

lemma sample_upgrade_returns:
  assumes "storable_current m" "md_status m = MandateActive" "md_plan m \<noteq> p"
    "load_plan_account (creating_env now [a]) (billing_store m) p = Inr plan"
    "list_all fst (upgrade_checks (sample_upgrade_accounts a p) sample_token_config plan m)"
    "elapsed_in_period m now = Inr el"
    "compute_proration P (md_amount m) (lp_mandate_amount plan) el (md_frequency m) = Inr d" "in_i64 d"
    "settle_difference (creating_env now [a]) (sample_upgrade_accounts a p) m d (billing_store m) = Inr (s1, m1)"
    "valid_vela_mandate m1" "acc_data (s1 27911) = acc_data (billing_store m 27911)"
  shows "\<exists>s' ev. update_mandate_plan P (creating_env now [a]) (sample_upgrade_accounts a p) (billing_store m) = Inr (s', ev)"
proof -
  let ?E = "creating_env now [a]" and ?c = "sample_upgrade_accounts a p"
  have m: "active_current_mandate ?E (billing_store m) 27911 = Inr m"
    using current_mandate_sample [OF assms(1)] assms(2) by (simp add: active_current_mandate_Inr sample_address_checks)
  have "length (enc_vela_mandate (apply_plan p plan m1)) = 260" "length (enc_vela_mandate m) = 260"
    using assms(1) by (simp_all add: vela_mandate_codec.length_enc)
  then obtain s2 where "write_mandate ?E 27911 (apply_plan p plan m1) False s1 = Inr s2"
    using assms(11) by (auto simp: write_mandate_def write_account_def write_data_def)
  then show ?thesis
    unfolding update_mandate_plan_def
    using assms(3-9) m sample_upgrade_passes
    by (simp add: sample_configs_load case_sum_Inr require_all_Inr Let_def)
qed

text \<open>
  A mandate of amount 70 and one of amount 5, both of a plan that is not stored, due at 7300
  with a period of 3600, never pulled, without credit.
\<close>

definition sample_changeable :: "u64 \<Rightarrow> u64 \<Rightarrow> vela_mandate" where
  "sample_changeable amount frequency =
     sample_mandate\<lparr>md_plan := 77, md_amount := amount, md_frequency := frequency, md_max_pulls := 3,
       md_credit_balance := 0\<rparr>"

lemma sample_changeable_fields [simp]:
  "md_plan (sample_changeable a f) = 77" "md_amount (sample_changeable a f) = a"
  "md_frequency (sample_changeable a f) = f" "md_credit_balance (sample_changeable a f) = 0"
  "md_status (sample_changeable a f) = MandateActive" "md_merchant (sample_changeable a f) = 1"
  "md_subscriber (sample_changeable a f) = 4" "md_pulls_executed (sample_changeable a f) = 0"
  "md_max_pulls (sample_changeable a f) = 3"
  "md_next_payment_due (sample_changeable a f) = i64_of 7300" "storable_current (sample_changeable a f)"
  "length (md_pending_nonce_short (sample_changeable a f)) = 8" "length (md_reserved_v3 (sample_changeable a f)) = 7"
  using sample_mandates_ok(1) by (simp_all add: sample_changeable_def valid_vela_mandate_def)

lemma sample_plan_terms:
  "vp_merchant sample_plan = 1" "vp_status sample_plan = PlanActive" "vp_billing_mint sample_plan = 3"
  "vp_amount sample_plan = 5" "vp_frequency sample_plan = 3600" "vp_max_pulls sample_plan = 12"
  "up_merchant sample_metered_plan = 1" "up_status sample_metered_plan = PlanActive"
  "up_billing_mint sample_metered_plan = 3" "up_max_charge_per_period sample_metered_plan = 70"
  "tk_enabled sample_token_config" "tk_mint sample_token_config = 3"
  by (simp_all add: sample_plan_def sample_metered_plan_def sample_token_config_def new_token_config_def)

theorem unpaid_difference_is_credited_witness:
  "\<exists>s' m'. md_pulls_executed (sample_changeable 70 3600) = 0 \<and>
     current_mandate (creating_env (i64_of 200) [4]) s' 27911 = Inr m' \<and> md_pulls_executed m' = 0 \<and>
     md_amount m' = 5 \<and> unat (md_credit_balance m') = 65"
proof -
  let ?E = "creating_env (i64_of 200) [4]" and ?c = "sample_upgrade_accounts 4 28676" and ?m = "sample_changeable 70 3600"
  have el: "elapsed_in_period ?m (i64_of 200) = Inr 0"
    by (simp add: elapsed_in_period_def i64_try_from_u64_def i64_checked_sub_def less_eq_i64_def in_i64_def)
  have d: "compute_proration fixed_point 70 5 0 3600 = Inr (- 65)"
    using prorated_at_the_ends(1) [OF twelve_places_fixed_point, of 3600 70 5] by simp
  have "\<exists>s' ev. update_mandate_plan fixed_point ?E ?c (billing_store ?m) = Inr (s', ev)"
    by (rule sample_upgrade_returns [where d = "- 65" and plan = "FlatPlan sample_plan" and el = 0 and
          ?s1.0 = "billing_store ?m" and ?m1.0 = "?m\<lparr>md_credit_balance := 65\<rparr>"])
       (simp_all add: sample_plans_load sample_plan_terms upgrade_checks_def el d in_i64_def
          settle_difference_def checked_add_def valid_vela_mandate_def)
  then obtain s' ev where r: "update_mandate_plan fixed_point ?E ?c (billing_store ?m) = Inr (s', ev)" by blast
  have "current_mandate ?E (billing_store ?m) (ug_mandate ?c) = Inr ?m"
    using current_mandate_sample [of ?m] by simp
  from unpaid_difference_is_credited [OF twelve_places_fixed_point r creating_env_runtime(1)
      sample_distinct_discriminators(2) this, of "FlatPlan sample_plan"]
  show ?thesis by (auto simp: sample_plans_load sample_plan_terms in_i64_def)
qed

text \<open>
  The merchant alone can change how often and how many times a mandate is charged: there is
  a call that only the merchant signed, after which an active mandate of the same amount is
  due every hour instead of every day, and for twelve pulls instead of three.
\<close>

theorem merchant_alone_changes_the_cadence:
  "\<exists>(E :: env) c s s' ev m m'. keeps_program_accounts E \<and> distinct_discriminators E \<and> signers E = [md_merchant m] \<and>
     md_subscriber m \<noteq> md_merchant m \<and> current_mandate E s (ug_mandate c) = Inr m \<and>
     update_mandate_plan fixed_point E c s = Inr (s', ev) \<and> current_mandate E s' (ug_mandate c) = Inr m' \<and>
     md_amount m' = md_amount m \<and> md_frequency m = 86400 \<and> md_frequency m' = 3600 \<and>
     md_max_pulls m = 3 \<and> md_max_pulls m' = 12"
proof -
  let ?E = "creating_env (i64_of 7300) [1]" and ?c = "sample_upgrade_accounts 1 28676" and ?m = "sample_changeable 5 86400"
  have el: "elapsed_in_period ?m (i64_of 7300) = Inr 86400"
    by (simp add: elapsed_in_period_def i64_try_from_u64_def i64_checked_sub_def less_eq_i64_def in_i64_def)
  have d: "compute_proration fixed_point 5 5 86400 86400 = Inr 0"
    using prorated_at_the_ends(2) [OF twelve_places_fixed_point, of 86400 5 5] by simp
  have "\<exists>s' ev. update_mandate_plan fixed_point ?E ?c (billing_store ?m) = Inr (s', ev)"
    by (rule sample_upgrade_returns [where d = 0 and plan = "FlatPlan sample_plan" and el = 86400 and
          ?s1.0 = "billing_store ?m" and ?m1.0 = ?m])
       (simp_all add: sample_plans_load sample_plan_terms upgrade_checks_def el d in_i64_def
          settle_difference_def valid_vela_mandate_def)
  then obtain s' ev where r: "update_mandate_plan fixed_point ?E ?c (billing_store ?m) = Inr (s', ev)" by blast
  have m: "current_mandate ?E (billing_store ?m) 27911 = Inr ?m"
    using current_mandate_sample [of ?m] by simp
  from r creating_env_runtime(1) sample_distinct_discriminators(2)
  have "\<exists>m'. current_mandate ?E s' 27911 = Inr m' \<and> md_amount m' = 5 \<and> md_frequency m' = 3600 \<and> md_max_pulls m' = 12"
    by (cases rule: update_mandate_plan_effect)
       (use m in \<open>auto simp: upgraded_def sample_plans_load sample_plan_terms\<close>)
  then obtain m' where "current_mandate ?E s' 27911 = Inr m'" "md_amount m' = 5" "md_frequency m' = 3600"
    "md_max_pulls m' = 12"
    by blast
  with r m show ?thesis
    by (intro exI [of _ ?E] exI [of _ ?c] exI [of _ "billing_store ?m"] exI [of _ s'] exI [of _ ev] exI [of _ ?m]
        exI [of _ m'] conjI) simp_all
qed

theorem immediate_change_settles_the_period_witness:
  "\<exists>s' plan el d credit.
     compute_proration fixed_point 5 (lp_mandate_amount plan) el 3600 = Inr d \<and> uint el = 1800 \<and> d = 32 \<and>
     acc_data (s' 24840) = [] \<and>
     current_mandate (creating_env (i64_of 5500) [4]) s' 27911 = Inr (upgraded 29962 plan credit (sample_changeable 5 3600))"
proof -
  let ?E = "creating_env (i64_of 5500) [4]" and ?c = "sample_upgrade_accounts 4 29962" and ?m = "sample_changeable 5 3600"
  let ?s = "billing_store ?m"
  have el: "elapsed_in_period ?m (i64_of 5500) = Inr 1800"
    by (simp add: elapsed_in_period_def i64_try_from_u64_def i64_checked_sub_def u64_try_from_i64_def
        less_eq_i64_def in_i64_def) (simp add: i64_of_def)
  have d: "compute_proration fixed_point 5 70 1800 3600 = Inr 32"
    by (simp add: compute_proration_def precise_def precise_mul_def precise_div_def precise_sub_def floor_to_u128_def
        fixed_point_def ONE_def)
  have ap: "upgrade_approval ?E ?s ?c ?m 32 = Inr ()"
    using sample_approval_reads
    by (simp add: upgrade_approval_Inr data_is_empty_def sample_disc_nonempty sample_approval_def mandate_billing_period_Inr
        less_eq_i64_def in_i64_def)
  have tc: "try_deserialize ?E KTokenConfig dec_token_config (acc_data (?s 29708)) = Some sample_token_config"
    using sample_configs_load(3) [of "i64_of 5500" "[4]" ?m] by (simp add: anchor_account_Inr)
  have tr: "invoke_stream_transfer ?E (upgrade_transfer_accounts ?c) 27911 1 32 seeds ?s = Inr ?s" for seeds
    using tc by (simp add: invoke_stream_transfer_def validate_token_2022_transfer_accounts_def upgrade_transfer_accounts_def
        sample_upgrade_accounts_def invoke_transfer_checked_with_hook_def is_token_program_def sample_invoke_def)
  obtain s1 where cl: "close_program_account 24840 4 ?s = Inr s1"
    by (simp add: close_program_account_def checked_add_def Let_def)
  have s1: "settle_difference ?E ?c ?m 32 ?s = Inr (s1, ?m)" "acc_data (s1 27911) = acc_data (?s 27911)"
    using ap tr cl close_program_account_data [OF cl, of 27911] by (simp_all add: settle_difference_def)
  have "\<exists>s' ev. update_mandate_plan fixed_point ?E ?c ?s = Inr (s', ev)"
    by (rule sample_upgrade_returns [where d = 32 and plan = "UsagePlan sample_metered_plan" and el = 1800 and
          ?s1.0 = s1 and ?m1.0 = ?m])
       (simp_all add: sample_plans_load sample_plan_terms upgrade_checks_def el d s1 in_i64_def valid_vela_mandate_def)
  then obtain s' ev where r: "update_mandate_plan fixed_point ?E ?c ?s = Inr (s', ev)" by blast
  have m: "current_mandate ?E ?s (ug_mandate ?c) = Inr ?m" using current_mandate_sample [of ?m] by simp
  have "md_plan ?m \<noteq> ug_new_plan ?c" by simp
  note settled = immediate_change_settles_the_period [OF r creating_env_runtime(1) sample_distinct_discriminators(2) m this,
      unfolded sample_upgrade_accounts_simps]
  obtain plan el' d' credit where p: "load_plan_account ?E ?s 29962 = Inr plan"
    "uint el' = max 0 (min (uint (md_frequency ?m))
      (sval (unix_timestamp ?E) - (sval (md_next_payment_due ?m) - uint (md_frequency ?m))))"
    "compute_proration fixed_point (md_amount ?m) (lp_mandate_amount plan) el' (md_frequency ?m) = Inr d'"
    "current_mandate ?E s' 27911 = Inr (upgraded 29962 plan credit ?m)" "0 < d' \<longrightarrow> acc_data (s' 24840) = []"
    using settled
    by (elim exE conjE) (rule that, assumption+, rule impI, simp only: if_True, elim exE conjE, assumption)
  have el': "uint el' = 1800" using p(2) by (simp add: in_i64_def)
  then have "el' = 1800" by (simp add: word_uint_eq_iff)
  moreover have "lp_mandate_amount plan = 70" using p(1) by (auto simp: sample_plans_load sample_plan_terms)
  ultimately have "d' = 32" using p(3) d by simp
  with p el' show ?thesis
    by (intro exI [of _ s'] exI [of _ plan] exI [of _ el'] exI [of _ d'] exI [of _ credit]) simp
qed

end
