(* ===== verification/Computations.thy ===== *)
theory Computations
  imports Usage_Pricing Billing
begin

text \<open>
  The confidential computations: the request record of one computation
  (\<open>state/arcium_request.rs\<close>, \<open>instructions/arcium/arcium_request_state.rs\<close>), the accounts of the
  computation network (\<open>instructions/arcium/arcium_accounts.rs\<close>), the three requests that queue a
  computation (\<open>instructions/billing/request_*.rs\<close>) and the three callbacks that take its result
  (\<open>instructions/billing/*_callback.rs\<close>). What they guarantee is in
  \<open>Computation_Guarantees\<close>.
\<close>

section \<open>The request record\<close>

datatype arcium_request_flow = FlowValidation | FlowUsageComputation | FlowBillingRecord

fun enc_arcium_request_flow :: "arcium_request_flow \<Rightarrow> u8 list" where
  "enc_arcium_request_flow FlowValidation = [0]"
| "enc_arcium_request_flow FlowUsageComputation = [1]"
| "enc_arcium_request_flow FlowBillingRecord = [2]"

fun dec_arcium_request_flow :: "arcium_request_flow decoder" where
  "dec_arcium_request_flow [] = None"
| "dec_arcium_request_flow (b # bs) =
     (if b = 0 then Some (FlowValidation, bs) else if b = 1 then Some (FlowUsageComputation, bs)
      else if b = 2 then Some (FlowBillingRecord, bs) else None)"

lemma dec_enc_arcium_request_flow [simp]: "dec_arcium_request_flow (enc_arcium_request_flow x @ r) = Some (x, r)"
  by (cases x) simp_all

lemma length_enc_arcium_request_flow [simp]: "length (enc_arcium_request_flow x) = 1"
  by (cases x) simp_all

datatype arcium_request_status = RequestPending | RequestCompleted | RequestAborted

fun enc_arcium_request_status :: "arcium_request_status \<Rightarrow> u8 list" where
  "enc_arcium_request_status RequestPending = [0]"
| "enc_arcium_request_status RequestCompleted = [1]"
| "enc_arcium_request_status RequestAborted = [2]"

fun dec_arcium_request_status :: "arcium_request_status decoder" where
  "dec_arcium_request_status [] = None"
| "dec_arcium_request_status (b # bs) =
     (if b = 0 then Some (RequestPending, bs) else if b = 1 then Some (RequestCompleted, bs)
      else if b = 2 then Some (RequestAborted, bs) else None)"

lemma dec_enc_arcium_request_status [simp]:
  "dec_arcium_request_status (enc_arcium_request_status x @ r) = Some (x, r)"
  by (cases x) simp_all

lemma length_enc_arcium_request_status [simp]: "length (enc_arcium_request_status x) = 1"
  by (cases x) simp_all

record arcium_request =
  rq_mandate :: pubkey
  rq_flow :: arcium_request_flow
  rq_subject :: "u8 list"
  rq_computation_offset :: u64
  rq_request_nonce :: u64
  rq_status :: arcium_request_status
  rq_created_at :: i64
  rq_completed_at :: i64
  rq_bump :: u8
  rq_version :: u8
  rq_reserved :: "u8 list"

definition valid_arcium_request :: "arcium_request \<Rightarrow> bool" where
  "valid_arcium_request m \<longleftrightarrow> length (rq_subject m) = 8 \<and> length (rq_reserved m) = 32"

definition enc_arcium_request :: "arcium_request \<Rightarrow> u8 list" where
  "enc_arcium_request m =
     key_bytes (rq_mandate m) @
     enc_arcium_request_flow (rq_flow m) @
     rq_subject m @
     u64_le (rq_computation_offset m) @
     u64_le (rq_request_nonce m) @
     enc_arcium_request_status (rq_status m) @
     i64_le (rq_created_at m) @
     i64_le (rq_completed_at m) @
     [rq_bump m] @
     [rq_version m] @
     rq_reserved m"

definition dec_arcium_request :: "arcium_request decoder" where
  "dec_arcium_request bs = do {
     (x_mandate, bs) \<leftarrow> dec_key bs;
     (x_flow, bs) \<leftarrow> dec_arcium_request_flow bs;
     (x_subject, bs) \<leftarrow> dec_bytes 8 bs;
     (x_computation_offset, bs) \<leftarrow> dec_u64 bs;
     (x_request_nonce, bs) \<leftarrow> dec_u64 bs;
     (x_status, bs) \<leftarrow> dec_arcium_request_status bs;
     (x_created_at, bs) \<leftarrow> dec_i64 bs;
     (x_completed_at, bs) \<leftarrow> dec_i64 bs;
     (x_bump, bs) \<leftarrow> dec_u8 bs;
     (x_version, bs) \<leftarrow> dec_u8 bs;
     (x_reserved, bs) \<leftarrow> dec_bytes 32 bs;
     Some (\<lparr>rq_mandate = x_mandate,
       rq_flow = x_flow,
       rq_subject = x_subject,
       rq_computation_offset = x_computation_offset,
       rq_request_nonce = x_request_nonce,
       rq_status = x_status,
       rq_created_at = x_created_at,
       rq_completed_at = x_completed_at,
       rq_bump = x_bump,
       rq_version = x_version,
       rq_reserved = x_reserved\<rparr>, bs)
   }"

interpretation arcium_request_codec: fixed_borsh enc_arcium_request dec_arcium_request valid_arcium_request 108
proof unfold_locales
  show "valid_arcium_request x \<Longrightarrow> dec_arcium_request (enc_arcium_request x @ r) = Some (x, r)" for x r
    by (simp add: enc_arcium_request_def dec_arcium_request_def valid_arcium_request_def)
  show "dec_arcium_request bs = Some (x, r) \<Longrightarrow> valid_arcium_request x" for bs x r
    unfolding dec_arcium_request_def by (elim bind_SomeE) (auto simp: valid_arcium_request_def)
  show "valid_arcium_request x \<Longrightarrow> length (enc_arcium_request x) = 108" for x
    by (simp add: enc_arcium_request_def valid_arcium_request_def)
qed

definition arcium_request_size :: nat where
  "arcium_request_size = 8 + 32 + 1 + 8 + 8 + 8 + 1 + 8 + 8 + 1 + 1 + 32"

definition arcium_request_seed :: "u8 list" where
  "arcium_request_seed = bytes ''arcium_request''"

definition validation_flow_seed :: "u8 list" where
  "validation_flow_seed = bytes ''validation''"

definition usage_flow_seed :: "u8 list" where
  "usage_flow_seed = bytes ''usage''"

definition billing_flow_seed :: "u8 list" where
  "billing_flow_seed = bytes ''billing''"

text \<open>
  A record is reused: a pending one refuses a new start, a completed one takes it. It is
  pending from the start until a callback completes it.
\<close>

definition start_arcium_request ::
  "arcium_request \<Rightarrow> pubkey \<Rightarrow> arcium_request_flow \<Rightarrow> u8 list \<Rightarrow> u64 \<Rightarrow> u64 \<Rightarrow> u8 \<Rightarrow> i64 \<Rightarrow> verror + arcium_request" where
  "start_arcium_request request mandate flow subject computation_offset request_nonce bump now =
     (if rq_created_at request \<noteq> i64_of 0 \<and> rq_status request = RequestPending
      then Inl (Vela ArciumRequestAlreadyPending) else
      Inr \<lparr>rq_mandate = mandate, rq_flow = flow, rq_subject = subject, rq_computation_offset = computation_offset,
           rq_request_nonce = request_nonce, rq_status = RequestPending, rq_created_at = now,
           rq_completed_at = i64_of 0, rq_bump = bump, rq_version = CURRENT_ACCOUNT_VERSION,
           rq_reserved = replicate 32 0\<rparr>)"

definition validate_pending_arcium_request ::
  "arcium_request \<Rightarrow> pubkey \<Rightarrow> arcium_request_flow \<Rightarrow> u8 list \<Rightarrow> verror + u64" where
  "validate_pending_arcium_request request mandate flow subject =
     (if rq_mandate request \<noteq> mandate then Inl (Vela InvalidArciumRequestState) else
      if \<not> (rq_flow request = flow \<and> rq_subject request = subject \<and> rq_status request = RequestPending)
      then Inl (Vela InvalidArciumRequestState) else Inr (rq_computation_offset request))"

definition complete_arcium_request :: "arcium_request \<Rightarrow> i64 \<Rightarrow> verror + arcium_request" where
  "complete_arcium_request request now =
     (if rq_status request \<noteq> RequestPending then Inl (Vela InvalidArciumRequestState)
      else Inr (request\<lparr>rq_status := RequestCompleted, rq_completed_at := now\<rparr>))"

section \<open>The computation network\<close>

text \<open>
  The network's program and libraries are not part of the repository. What the handlers use of
  them is a parameter: the program and the fixed addresses, the seeds of its accounts, the
  offset of a circuit, the program generated check that a callback comes from the network, the call that queues a computation, the reader of
  a cluster account, and the verification of a signed output against a cluster and the
  computation's account, for the three kinds of output.
\<close>

datatype computation_arg =
    ArgX25519 "u8 list" | PlainU128 u128 | EncryptedU64 "u8 list" | EncryptedI64 "u8 list"
  | PlainU64 u64 | PlainI64 i64 | PlainU8 u8

record callback_instruction =
  cb_program_id :: pubkey
  cb_discriminator :: "u8 list"
  cb_accounts :: "(pubkey \<times> bool) list"

record queued_computation =
  qc_signer :: pubkey
  qc_sign_seed :: pubkey
  qc_comp :: pubkey
  qc_mxe :: pubkey
  qc_mempool :: pubkey
  qc_executing_pool :: pubkey
  qc_comp_def_acc :: pubkey
  qc_cluster :: pubkey
  qc_pool_account :: pubkey
  qc_system_program :: pubkey
  qc_clock :: pubkey
  qc_arcium_program :: pubkey
  qc_mxe_program :: pubkey
  qc_comp_def_offset :: u32
  qc_signer_pda_bump :: u8
  qc_computation_offset :: u64
  qc_args :: "computation_arg list"
  qc_callback :: callback_instruction

record ('c, 'o) arcium =
  arcium_program_id :: pubkey
  arcium_fee_pool_address :: pubkey
  arcium_clock_address :: pubkey
  instructions_sysvar_id :: pubkey
  cluster_pda_seed :: "u8 list"
  mempool_pda_seed :: "u8 list"
  execpool_pda_seed :: "u8 list"
  comp_pda_seed :: "u8 list"
  comp_def_pda_seed :: "u8 list"
  mxe_pda_seed :: "u8 list"
  sign_pda_seed :: "u8 list"
  comp_def_offset :: "string \<Rightarrow> u32"
  callback_allowed :: "store \<Rightarrow> verror + unit"
  queue_computation :: "queued_computation \<Rightarrow> store \<Rightarrow> verror + store"
  read_cluster :: "u8 list \<Rightarrow> 'c option"
  verify_validation :: "'o \<Rightarrow> 'c \<Rightarrow> pubkey \<Rightarrow> account \<Rightarrow> bool option"
  verify_charge :: "'o \<Rightarrow> 'c \<Rightarrow> pubkey \<Rightarrow> account \<Rightarrow> u64 option"
  verify_record :: "'o \<Rightarrow> 'c \<Rightarrow> pubkey \<Rightarrow> account \<Rightarrow> (u8 list list \<times> u128) option"

definition u32_le :: "u32 \<Rightarrow> u8 list" where
  "u32_le w = le_bytes 4 w"

definition cluster_id_from_offset :: "u64 \<Rightarrow> verror + u32" where
  "cluster_id_from_offset cluster_offset =
     (if unat cluster_offset < 2 ^ 32 then Inr (ucast cluster_offset) else Inl (Vela InvalidArciumAccount))"

definition arcium_pda :: "env \<Rightarrow> ('c, 'o) arcium \<Rightarrow> u8 list list \<Rightarrow> pubkey" where
  "arcium_pda E A seeds = fst (find_pda E seeds (arcium_program_id A))"

definition derive_cluster_pubkey :: "env \<Rightarrow> ('c, 'o) arcium \<Rightarrow> u32 \<Rightarrow> pubkey" where
  "derive_cluster_pubkey E A cluster_id = arcium_pda E A [cluster_pda_seed A, u32_le cluster_id]"

definition derive_mempool_pubkey :: "env \<Rightarrow> ('c, 'o) arcium \<Rightarrow> u32 \<Rightarrow> pubkey" where
  "derive_mempool_pubkey E A cluster_id = arcium_pda E A [mempool_pda_seed A, u32_le cluster_id]"

definition derive_execpool_pubkey :: "env \<Rightarrow> ('c, 'o) arcium \<Rightarrow> u32 \<Rightarrow> pubkey" where
  "derive_execpool_pubkey E A cluster_id = arcium_pda E A [execpool_pda_seed A, u32_le cluster_id]"

definition derive_computation_pubkey :: "env \<Rightarrow> ('c, 'o) arcium \<Rightarrow> u32 \<Rightarrow> u64 \<Rightarrow> pubkey" where
  "derive_computation_pubkey E A cluster_id computation_offset =
     arcium_pda E A [comp_pda_seed A, u32_le cluster_id, u64_le computation_offset]"

definition derive_comp_def_pubkey_for_mxe :: "env \<Rightarrow> ('c, 'o) arcium \<Rightarrow> string \<Rightarrow> pubkey \<Rightarrow> pubkey" where
  "derive_comp_def_pubkey_for_mxe E A circuit_name mxe_program_id =
     arcium_pda E A [comp_def_pda_seed A, key_bytes mxe_program_id, u32_le (comp_def_offset A circuit_name)]"

definition derive_mxe_pubkey :: "env \<Rightarrow> ('c, 'o) arcium \<Rightarrow> pubkey \<Rightarrow> pubkey" where
  "derive_mxe_pubkey E A mxe_program_id = arcium_pda E A [mxe_pda_seed A, key_bytes mxe_program_id]"

text \<open>The offset of a computation is the first eight bytes of a derived address.\<close>

definition derive_request_offset :: "env \<Rightarrow> u8 list \<Rightarrow> pubkey \<Rightarrow> u8 list list \<Rightarrow> u64" where
  "derive_request_offset E domain mandate extra_slices =
     of_le_bytes (take 8 (key_bytes (pda E ([domain, key_bytes mandate] @ extra_slices))))"

definition derive_validation_computation_offset :: "env \<Rightarrow> pubkey \<Rightarrow> i64 \<Rightarrow> u64 \<Rightarrow> u64" where
  "derive_validation_computation_offset E mandate next_payment_due request_nonce =
     derive_request_offset E (bytes ''validate_mandate'') mandate [i64_le next_payment_due, u64_le request_nonce]"

definition derive_billing_computation_offset :: "env \<Rightarrow> pubkey \<Rightarrow> u64 \<Rightarrow> u64 \<Rightarrow> u64" where
  "derive_billing_computation_offset E mandate pulls_executed request_nonce =
     derive_request_offset E (bytes ''record_billing_event'') mandate [u64_le pulls_executed, u64_le request_nonce]"

definition derive_usage_computation_offset :: "env \<Rightarrow> pubkey \<Rightarrow> i64 \<Rightarrow> u64 \<Rightarrow> u64" where
  "derive_usage_computation_offset E mandate period_start request_nonce =
     derive_request_offset E (bytes ''usage'') mandate [i64_le period_start, u64_le request_nonce]"

section \<open>Checks of the network's accounts\<close>

definition validate_cluster_configuration :: "env \<Rightarrow> ('c, 'o) arcium \<Rightarrow> pubkey \<Rightarrow> u64 \<Rightarrow> verror + unit" where
  "validate_cluster_configuration E A cluster_pubkey cluster_offset =
     (case cluster_id_from_offset cluster_offset of Inl _ \<Rightarrow> Inl (Vela InvalidProtocolConfig) | Inr cluster_id \<Rightarrow>
      if cluster_pubkey \<noteq> derive_cluster_pubkey E A cluster_id then Inl (Vela InvalidProtocolConfig) else Inr ())"

definition validate_protocol_config :: "env \<Rightarrow> ('c, 'o) arcium \<Rightarrow> protocol_config \<Rightarrow> verror + unit" where
  "validate_protocol_config E A config =
     validate_cluster_configuration E A (pc_cluster_pubkey config) (pc_cluster_offset config)"

text \<open>
  The accounts of a request, in the order of the \<open>Accounts\<close> structs; \<open>rqa_result\<close> is the
  account that takes the result (the approval, or the billing record), and a usage request
  also has the report.
\<close>

record request_accounts =
  rqa_payer :: pubkey
  rqa_config :: pubkey
  rqa_mxe_account :: pubkey
  rqa_sign_pda_account :: pubkey
  rqa_mempool_account :: pubkey
  rqa_executing_pool :: pubkey
  rqa_computation_account :: pubkey
  rqa_comp_def_account :: pubkey
  rqa_cluster_account :: pubkey
  rqa_pool_account :: pubkey
  rqa_clock_account :: pubkey
  rqa_plan :: pubkey
  rqa_mandate :: pubkey
  rqa_usage_report :: pubkey
  rqa_result :: pubkey
  rqa_request_state :: pubkey
  rqa_system_program :: pubkey
  rqa_arcium_program :: pubkey

definition validate_queue_accounts ::
  "env \<Rightarrow> ('c, 'o) arcium \<Rightarrow> request_accounts \<Rightarrow> u64 \<Rightarrow> u64 \<Rightarrow> string \<Rightarrow> pubkey \<Rightarrow> verror + unit" where
  "validate_queue_accounts E A c cluster_offset computation_offset circuit_name mxe_program_id =
     (case cluster_id_from_offset cluster_offset of Inl e \<Rightarrow> Inl e | Inr cluster_id \<Rightarrow>
      require_all
        [(rqa_mxe_account c = derive_mxe_pubkey E A mxe_program_id, Vela InvalidArciumAccount),
         (rqa_mempool_account c = derive_mempool_pubkey E A cluster_id, Vela InvalidArciumAccount),
         (rqa_executing_pool c = derive_execpool_pubkey E A cluster_id, Vela InvalidArciumAccount),
         (rqa_computation_account c = derive_computation_pubkey E A cluster_id computation_offset,
          Vela InvalidArciumAccount),
         (rqa_comp_def_account c = derive_comp_def_pubkey_for_mxe E A circuit_name mxe_program_id,
          Vela InvalidArciumAccount),
         (rqa_cluster_account c = derive_cluster_pubkey E A cluster_id, Vela InvalidArciumAccount),
         (rqa_pool_account c = arcium_fee_pool_address A, Vela InvalidArciumAccount),
         (rqa_clock_account c = arcium_clock_address A, Vela InvalidArciumAccount)])"

definition build_callback_instruction ::
  "env \<Rightarrow> ('c, 'o) arcium \<Rightarrow> u8 list \<Rightarrow> u64 \<Rightarrow> u64 \<Rightarrow> string \<Rightarrow> pubkey \<Rightarrow> (pubkey \<times> bool) list \<Rightarrow>
     verror + callback_instruction" where
  "build_callback_instruction E A discriminator computation_offset cluster_offset circuit_name mxe_program_id extra_accs =
     (case cluster_id_from_offset cluster_offset of Inl e \<Rightarrow> Inl e | Inr cluster_id \<Rightarrow>
      Inr \<lparr>cb_program_id = program_id, cb_discriminator = discriminator,
           cb_accounts =
             [(arcium_program_id A, False),
              (derive_comp_def_pubkey_for_mxe E A circuit_name mxe_program_id, False),
              (derive_mxe_pubkey E A mxe_program_id, False),
              (derive_computation_pubkey E A cluster_id computation_offset, False),
              (derive_cluster_pubkey E A cluster_id, False),
              (instructions_sysvar_id A, False)] @ extra_accs\<rparr>)"

text \<open>The accounts of a callback, and which of them its instruction marks writable.\<close>

record callback_accounts =
  cba_arcium_program :: pubkey
  cba_comp_def_account :: pubkey
  cba_mxe_account :: pubkey
  cba_computation_account :: pubkey
  cba_cluster_account :: pubkey
  cba_instructions_sysvar :: pubkey
  cba_request_state :: pubkey
  cba_result :: pubkey
  cba_config :: pubkey
  cba_mandate :: pubkey
  cba_usage_report :: pubkey
  cba_plan :: pubkey
  cba_writable :: "pubkey list"

definition validate_static_callback_accounts ::
  "env \<Rightarrow> ('c, 'o) arcium \<Rightarrow> callback_accounts \<Rightarrow> string \<Rightarrow> pubkey \<Rightarrow> verror + unit" where
  "validate_static_callback_accounts E A c circuit_name mxe_program_id =
     require_all
       [(cba_mxe_account c = derive_mxe_pubkey E A mxe_program_id, Vela InvalidArciumAccount),
        (cba_comp_def_account c = derive_comp_def_pubkey_for_mxe E A circuit_name mxe_program_id,
         Vela InvalidArciumAccount)]"

definition validate_callback_binding ::
  "env \<Rightarrow> ('c, 'o) arcium \<Rightarrow> protocol_config \<Rightarrow> callback_accounts \<Rightarrow> u64 \<Rightarrow> verror + unit" where
  "validate_callback_binding E A config c computation_offset =
     (case validate_protocol_config E A config of Inl e \<Rightarrow> Inl e | Inr _ \<Rightarrow>
     (case cluster_id_from_offset (pc_cluster_offset config) of Inl _ \<Rightarrow> Inl (Vela InvalidCallbackBinding) | Inr cluster_id \<Rightarrow>
      require_all
        [(cba_cluster_account c = pc_cluster_pubkey config, Vela InvalidCallbackBinding),
         (cba_cluster_account c = derive_cluster_pubkey E A cluster_id, Vela InvalidCallbackBinding),
         (cba_computation_account c = derive_computation_pubkey E A cluster_id computation_offset,
          Vela InvalidCallbackBinding)]))"

definition deserialize_cluster :: "('c, 'o) arcium \<Rightarrow> store \<Rightarrow> pubkey \<Rightarrow> verror + 'c" where
  "deserialize_cluster A s k = ok_or (read_cluster A (acc_data (s k))) (Vela AbortedComputation)"

section \<open>The billing record\<close>

record billing_event =
  be_mandate :: pubkey
  be_merchant :: pubkey
  be_subscriber :: pubkey
  be_plan_id :: u64
  be_encrypted_blob :: "u8 list list"
  be_nonce :: u128
  be_created_at :: i64
  be_bump :: u8

definition valid_billing_event :: "billing_event \<Rightarrow> bool" where
  "valid_billing_event m \<longleftrightarrow> length (be_encrypted_blob m) = 10 \<and> (\<forall>b \<in> set (be_encrypted_blob m). length b = 32)"

definition enc_billing_event :: "billing_event \<Rightarrow> u8 list" where
  "enc_billing_event m =
     key_bytes (be_mandate m) @
     key_bytes (be_merchant m) @
     key_bytes (be_subscriber m) @
     u64_le (be_plan_id m) @
     concat (be_encrypted_blob m) @
     le_bytes 16 (be_nonce m) @
     i64_le (be_created_at m) @
     [be_bump m]"

definition dec_billing_event :: "billing_event decoder" where
  "dec_billing_event bs = do {
     (x_mandate, bs) \<leftarrow> dec_key bs;
     (x_merchant, bs) \<leftarrow> dec_key bs;
     (x_subscriber, bs) \<leftarrow> dec_key bs;
     (x_plan_id, bs) \<leftarrow> dec_u64 bs;
     (x_encrypted_blob, bs) \<leftarrow> dec_seq (dec_bytes 32) 10 bs;
     (x_nonce, bs) \<leftarrow> dec_u128 bs;
     (x_created_at, bs) \<leftarrow> dec_i64 bs;
     (x_bump, bs) \<leftarrow> dec_u8 bs;
     Some (\<lparr>be_mandate = x_mandate,
       be_merchant = x_merchant,
       be_subscriber = x_subscriber,
       be_plan_id = x_plan_id,
       be_encrypted_blob = x_encrypted_blob,
       be_nonce = x_nonce,
       be_created_at = x_created_at,
       be_bump = x_bump\<rparr>, bs)
   }"

interpretation billing_event_codec: fixed_borsh enc_billing_event dec_billing_event valid_billing_event 449
proof unfold_locales
  show "valid_billing_event x \<Longrightarrow> dec_billing_event (enc_billing_event x @ r) = Some (x, r)" for x r
    by (simp add: enc_billing_event_def dec_billing_event_def valid_billing_event_def)
  show "dec_billing_event bs = Some (x, r) \<Longrightarrow> valid_billing_event x" for bs x r
    unfolding dec_billing_event_def by (elim bind_SomeE) (auto simp: valid_billing_event_def)
  show "valid_billing_event x \<Longrightarrow> length (enc_billing_event x) = 449" for x
    by (simp add: enc_billing_event_def valid_billing_event_def)
qed

definition billing_event_size :: nat where
  "billing_event_size = 8 + 32 + 32 + 32 + 8 + (32 * 10) + 16 + 8 + 1"

definition billing_event_seed :: "u8 list" where
  "billing_event_seed = bytes ''billing''"

section \<open>Accounts a request creates if they are missing\<close>

text \<open>
  Anchor's \<open>init_if_needed\<close>: an account of the system program is created, and read without its
  discriminator, which is only written when the instruction ends; any other must be an account
  of the kind, of the given size and exempt from rent. Accounts marked \<open>mut\<close> are written
  back at the end, in the order of the struct.
\<close>

definition init_if_needed ::
  "env \<Rightarrow> pubkey \<Rightarrow> account_kind \<Rightarrow> 'a decoder \<Rightarrow> nat \<Rightarrow> u8 list list \<Rightarrow> pubkey \<Rightarrow> store \<Rightarrow> verror + ('a \<times> store)" where
  "init_if_needed E payer kd dec space seeds k s =
     (if k \<noteq> pda E seeds then Inl (Anchor ConstraintSeeds) else
      if acc_owner (s k) = system_program_id then
        (case invoke E (InitAccount payer k (minimum_balance E space) space program_id)
                [seeds @ [[snd (find_pda E seeds program_id)]]] s of Inl e \<Rightarrow> Inl e | Inr s1 \<Rightarrow>
        (case ok_or (dec (drop (length (disc E kd)) (acc_data (s1 k)))) (Anchor AccountDidNotDeserialize) of
           Inl e \<Rightarrow> Inl e | Inr (x, _) \<Rightarrow> Inr (x, s1)))
      else
        (case anchor_account E kd dec s k of Inl e \<Rightarrow> Inl e | Inr x \<Rightarrow>
         if length (acc_data (s k)) \<noteq> space then Inl (Anchor ConstraintSpace) else
         if acc_lamports (s k) < minimum_balance E space then Inl (Anchor ConstraintRentExempt) else
         Inr (x, s)))"

fun exit_all :: "(pubkey \<times> u8 list) list \<Rightarrow> store \<Rightarrow> verror + store" where
  "exit_all [] s = Inr s"
| "exit_all ((k, bs) # xs) s = (case anchor_exit k bs s of Inl e \<Rightarrow> Inl e | Inr s' \<Rightarrow> exit_all xs s')"

definition arcium_signer_size :: nat where
  "arcium_signer_size = 9"

section \<open>Queueing a computation\<close>

definition request_constraints :: "env \<Rightarrow> ('c, 'o) arcium \<Rightarrow> request_accounts \<Rightarrow> (bool \<times> verror) list" where
  "request_constraints E A c =
     [(is_signer E (rqa_payer c), Anchor AccountNotSigner),
      (rqa_system_program c = system_program_id, Anchor InvalidProgramId),
      (rqa_arcium_program c = arcium_program_id A, Anchor InvalidProgramId),
      (rqa_config c = pda E [protocol_config_seed], Anchor ConstraintSeeds)]"

text \<open>The accounts every request opens: the signer of the call, the result and the record.\<close>

definition open_request ::
  "env \<Rightarrow> ('c, 'o) arcium \<Rightarrow> request_accounts \<Rightarrow> account_kind \<Rightarrow> 'a decoder \<Rightarrow> nat \<Rightarrow> u8 list list \<Rightarrow> u8 list list \<Rightarrow>
     store \<Rightarrow> verror + ('a \<times> arcium_request \<times> store)" where
  "open_request E A c kd dec space result_seeds request_seeds s =
     (case require_all (request_constraints E A c) of Inl e \<Rightarrow> Inl e | Inr _ \<Rightarrow>
     (case init_if_needed E (rqa_payer c) KArciumSigner dec_u8 arcium_signer_size [sign_pda_seed A]
             (rqa_sign_pda_account c) s of Inl e \<Rightarrow> Inl e | Inr (_, s1) \<Rightarrow>
     (case init_if_needed E (rqa_payer c) kd dec space result_seeds (rqa_result c) s1 of
        Inl e \<Rightarrow> Inl e | Inr (result, s2) \<Rightarrow>
     (case init_if_needed E (rqa_payer c) KArciumRequestState dec_arcium_request arcium_request_size request_seeds
             (rqa_request_state c) s2 of Inl e \<Rightarrow> Inl e | Inr (request, s3) \<Rightarrow>
      Inr (result, request, s3)))))"

text \<open>What a request hands to the network, and the accounts written back afterwards.\<close>

definition computation_of ::
  "env \<Rightarrow> ('c, 'o) arcium \<Rightarrow> request_accounts \<Rightarrow> pubkey \<Rightarrow> string \<Rightarrow> u64 \<Rightarrow> computation_arg list \<Rightarrow>
     callback_instruction \<Rightarrow> queued_computation" where
  "computation_of E A c mxe_program_id circuit_name computation_offset args cb =
     \<lparr>qc_signer = rqa_payer c, qc_sign_seed = rqa_sign_pda_account c, qc_comp = rqa_computation_account c,
      qc_mxe = rqa_mxe_account c, qc_mempool = rqa_mempool_account c, qc_executing_pool = rqa_executing_pool c,
      qc_comp_def_acc = rqa_comp_def_account c, qc_cluster = rqa_cluster_account c,
      qc_pool_account = rqa_pool_account c, qc_system_program = rqa_system_program c,
      qc_clock = rqa_clock_account c, qc_arcium_program = rqa_arcium_program c, qc_mxe_program = mxe_program_id,
      qc_comp_def_offset = comp_def_offset A circuit_name,
      qc_signer_pda_bump = snd (find_pda E [sign_pda_seed A] program_id),
      qc_computation_offset = computation_offset, qc_args = args, qc_callback = cb\<rparr>"

definition queue_request ::
  "env \<Rightarrow> ('c, 'o) arcium \<Rightarrow> request_accounts \<Rightarrow> protocol_config \<Rightarrow> u8 list \<Rightarrow> string \<Rightarrow> u64 \<Rightarrow>
     computation_arg list \<Rightarrow> (pubkey \<times> bool) list \<Rightarrow> (pubkey \<times> u8 list) list \<Rightarrow> store \<Rightarrow> verror + store" where
  "queue_request E A c config discriminator circuit_name computation_offset args extra_accs exits s =
     (let mxe_program_id = effective_mxe_program_id config in
      case build_callback_instruction E A discriminator computation_offset (pc_cluster_offset config) circuit_name
             mxe_program_id extra_accs of Inl e \<Rightarrow> Inl e | Inr cb \<Rightarrow>
     (case queue_computation A (computation_of E A c mxe_program_id circuit_name computation_offset args cb) s of
        Inl e \<Rightarrow> Inl e | Inr s1 \<Rightarrow>
      exit_all ((rqa_sign_pda_account c,
                 disc E KArciumSigner @ [snd (find_pda E [sign_pda_seed A] program_id)]) # exits) s1))"

text \<open>An approval that still covers the period refuses a new request; otherwise it is cleared.\<close>

definition approval_stands :: "pull_approval \<Rightarrow> pubkey \<Rightarrow> i64 \<Rightarrow> i64 \<Rightarrow> i64 \<Rightarrow> bool" where
  "approval_stands approval mandate period_start period_end now \<longleftrightarrow>
     pa_approved approval \<and> pa_mandate approval = mandate \<and> pa_period_start approval = period_start \<and>
     pa_period_end approval = period_end \<and> now \<le> pa_valid_until approval"

definition cleared_approval :: "u8 \<Rightarrow> pull_approval" where
  "cleared_approval bump =
     \<lparr>pa_mandate = default_key, pa_period_start = i64_of 0, pa_period_end = i64_of 0, pa_valid_until = i64_of 0,
      pa_approved = False, pa_approved_amount = 0, pa_created_at = i64_of 0, pa_bump = bump\<rparr>"

definition VALIDATE_MANDATE_CIRCUIT :: string where
  "VALIDATE_MANDATE_CIRCUIT = ''validate_mandate_v2''"

definition USAGE_CHARGE_CIRCUIT :: string where
  "USAGE_CHARGE_CIRCUIT = ''usage_charge_v2''"

definition TIERED_PRICING_CIRCUIT :: string where
  "TIERED_PRICING_CIRCUIT = ''tiered_pricing_v2''"

definition RECORD_BILLING_EVENT_CIRCUIT :: string where
  "RECORD_BILLING_EVENT_CIRCUIT = ''record_billing_event_v2''"

section \<open>The three requests\<close>

definition VALIDATE_MANDATE_CALLBACK_DISCRIMINATOR :: "u8 list" where
  "VALIDATE_MANDATE_CALLBACK_DISCRIMINATOR = [18, 21, 173, 122, 11, 126, 79, 200]"

definition USAGE_COMPUTATION_CALLBACK_DISCRIMINATOR :: "u8 list" where
  "USAGE_COMPUTATION_CALLBACK_DISCRIMINATOR = [201, 76, 6, 25, 189, 59, 96, 63]"

definition RECORD_BILLING_EVENT_CALLBACK_DISCRIMINATOR :: "u8 list" where
  "RECORD_BILLING_EVENT_CALLBACK_DISCRIMINATOR = [123, 164, 16, 122, 130, 206, 223, 55]"

definition validation_request_seeds :: "pubkey \<Rightarrow> i64 \<Rightarrow> u8 list list" where
  "validation_request_seeds mandate due = [arcium_request_seed, validation_flow_seed, key_bytes mandate, i64_le due]"

definition usage_request_seeds :: "pubkey \<Rightarrow> i64 \<Rightarrow> u8 list list" where
  "usage_request_seeds mandate period_start =
     [arcium_request_seed, usage_flow_seed, key_bytes mandate, i64_le period_start]"

definition billing_request_seeds :: "pubkey \<Rightarrow> u64 \<Rightarrow> u8 list list" where
  "billing_request_seeds mandate pulls_executed =
     [arcium_request_seed, billing_flow_seed, key_bytes mandate, u64_le pulls_executed]"

text \<open>
  The validation of a flat mandate's pull. The ciphertexts are the caller's: nothing here
  relates them to the mandate.
\<close>

definition validation_args :: "u8 list \<Rightarrow> u128 \<Rightarrow> u8 list list \<Rightarrow> computation_arg list" where
  "validation_args pub_key nonce cts =
     [ArgX25519 pub_key, PlainU128 nonce, EncryptedU64 (cts ! 0), EncryptedU64 (cts ! 1), EncryptedU64 (cts ! 2),
      EncryptedI64 (cts ! 3), EncryptedI64 (cts ! 4), EncryptedI64 (cts ! 5), EncryptedU64 (cts ! 6),
      EncryptedU64 (cts ! 7)]"

definition request_validation ::
  "env \<Rightarrow> ('c, 'o) arcium \<Rightarrow> request_accounts \<Rightarrow> u64 \<Rightarrow> i64 \<Rightarrow> u8 list list \<Rightarrow> u8 list \<Rightarrow> u128 \<Rightarrow> store \<Rightarrow>
     verror + store" where
  "request_validation E A c requested_computation_offset next_payment_due_seed ciphertext pub_key nonce s =
     (let approval_seeds = [pull_approval_seed, key_bytes (rqa_mandate c)];
          request_seeds = validation_request_seeds (rqa_mandate c) next_payment_due_seed;
          approval_bump = snd (find_pda E approval_seeds program_id);
          request_bump = snd (find_pda E request_seeds program_id); now = unix_timestamp E in
      case open_request E A c KPullApproval dec_pull_approval pull_approval_size approval_seeds request_seeds s of
        Inl e \<Rightarrow> Inl e | Inr (approval, request, s0) \<Rightarrow>
     (case load_mandate_account E s0 (rqa_mandate c) of Inl e \<Rightarrow> Inl e | Inr l \<Rightarrow>
     (case validate_loaded_mandate_address E (rqa_mandate c) l of Inl e \<Rightarrow> Inl e | Inr _ \<Rightarrow>
      let mandate = lm_into_current l in
     (case load_plan_account E s0 (rqa_plan c) of Inl e \<Rightarrow> Inl e | Inr plan \<Rightarrow>
      if rqa_plan c \<noteq> md_plan mandate then Inl (Vela PlanNotActive) else
     (case require_plan_billing_type plan Flat of Inl e \<Rightarrow> Inl e | Inr _ \<Rightarrow>
     (case require_all
         [(md_status mandate = MandateActive, Vela MandateNotActive),
          (md_amount mandate = lp_mandate_amount plan, Vela PlanNotActive),
          (md_pulls_executed mandate < md_max_pulls mandate, Vela MaxPullsExceeded),
          (i64_of 0 < md_expiry mandate \<longrightarrow> now < md_expiry mandate, Vela MandateExpired),
          (md_next_payment_due mandate \<le> now, Vela PullTooEarly),
          (next_payment_due_seed = md_next_payment_due mandate, Vela InvalidArciumRequestState),
          (lp_status plan = PlanActive, Vela PlanNotActive),
          (length ciphertext = 8, Vela InvalidCiphertextInput)] of Inl e \<Rightarrow> Inl e | Inr _ \<Rightarrow>
     (case load_protocol_config E s0 (rqa_config c) of Inl e \<Rightarrow> Inl e | Inr lc \<Rightarrow>
      let config = lpc_into_current lc in
     (case validate_protocol_config E A config of Inl e \<Rightarrow> Inl e | Inr _ \<Rightarrow>
     (case ok_or (checked_add (md_validation_request_nonce mandate) 1) (Vela Overflow) of
        Inl e \<Rightarrow> Inl e | Inr next_request_nonce \<Rightarrow>
      let computation_offset =
            derive_validation_computation_offset E (rqa_mandate c) (md_next_payment_due mandate) next_request_nonce in
     (case require_all
         [(requested_computation_offset = computation_offset, Vela InvalidComputationOffset),
          (rqa_cluster_account c = pc_cluster_pubkey config, Vela InvalidArciumAccount)] of
        Inl e \<Rightarrow> Inl e | Inr _ \<Rightarrow>
     (case validate_queue_accounts E A c (pc_cluster_offset config) computation_offset VALIDATE_MANDATE_CIRCUIT
             (effective_mxe_program_id config) of Inl e \<Rightarrow> Inl e | Inr _ \<Rightarrow>
     (case mandate_billing_period mandate of Inl e \<Rightarrow> Inl e | Inr (period_start, period_end) \<Rightarrow>
      if approval_stands approval (rqa_mandate c) period_start period_end now
      then Inl (Vela ApprovalAlreadyExists) else
     (case start_arcium_request request (rqa_mandate c) FlowValidation (i64_le next_payment_due_seed)
             computation_offset next_request_nonce request_bump now of Inl e \<Rightarrow> Inl e | Inr request \<Rightarrow>
     (case write_mandate E (rqa_mandate c) (mandate\<lparr>md_validation_request_nonce := next_request_nonce\<rparr>)
             (lm_is_legacy l) s0 of Inl e \<Rightarrow> Inl e | Inr s1 \<Rightarrow>
      queue_request E A c config VALIDATE_MANDATE_CALLBACK_DISCRIMINATOR VALIDATE_MANDATE_CIRCUIT
        computation_offset (validation_args pub_key nonce ciphertext)
        [(rqa_request_state c, True), (rqa_result c, True), (rqa_config c, False), (rqa_mandate c, False)]
        [(rqa_result c, disc E KPullApproval @ enc_pull_approval (cleared_approval approval_bump)),
         (rqa_request_state c, disc E KArciumRequestState @ enc_arcium_request request)] s1))))))))))))))"

text \<open>
  The charge of a usage report. The plan's values are in plain, and are those the report's
  hash was made of.
\<close>

definition usage_circuit :: "usage_plan \<Rightarrow> string" where
  "usage_circuit plan = (if up_tier_count plan = 1 then USAGE_CHARGE_CIRCUIT else TIERED_PRICING_CIRCUIT)"

definition usage_args :: "usage_plan \<Rightarrow> usage_report \<Rightarrow> computation_arg list" where
  "usage_args plan report =
     [ArgX25519 (ur_pub_key report), PlainU128 (ur_nonce report), EncryptedU64 (ur_computation_ciphertext report ! 0)] @
     (if up_tier_count plan = 1
      then [PlainU64 (pt_rate_per_unit (up_tiers plan ! 0)), PlainU64 (up_max_charge_per_period plan)]
      else map (PlainU64 \<circ> pt_up_to) (up_tiers plan) @ map (PlainU64 \<circ> pt_rate_per_unit) (up_tiers plan) @
           [PlainU8 (up_tier_count plan), PlainU64 (up_max_charge_per_period plan)])"

text \<open>The report and the plan are read by Anchor, with their addresses from their own fields.\<close>

definition usage_request_inputs ::
  "env \<Rightarrow> request_accounts \<Rightarrow> store \<Rightarrow> verror + (usage_plan \<times> usage_report)" where
  "usage_request_inputs E c s =
     (case anchor_account E KUsagePlan dec_usage_plan s (rqa_plan c) of Inl e \<Rightarrow> Inl e | Inr plan \<Rightarrow>
     (case anchor_account E KUsageReport dec_usage_report s (rqa_usage_report c) of Inl e \<Rightarrow> Inl e | Inr report \<Rightarrow>
     (case require_all
         [(create_address E [usage_plan_seed, key_bytes (up_merchant plan), u64_le (up_plan_id plan), [up_bump plan]]
             program_id = Some (rqa_plan c), Anchor ConstraintSeeds),
          (create_address E [usage_report_seed, key_bytes (rqa_mandate c), i64_le (ur_period_start report),
             [ur_bump report]] program_id = Some (rqa_usage_report c), Anchor ConstraintSeeds)] of
        Inl e \<Rightarrow> Inl e | Inr _ \<Rightarrow> Inr (plan, report))))"

definition request_usage_computation ::
  "env \<Rightarrow> ('c, 'o) arcium \<Rightarrow> request_accounts \<Rightarrow> u64 \<Rightarrow> store \<Rightarrow> verror + store" where
  "request_usage_computation E A c requested_computation_offset s =
     (case usage_request_inputs E c s of Inl e \<Rightarrow> Inl e | Inr (plan, report) \<Rightarrow>
      let approval_seeds = [pull_approval_seed, key_bytes (rqa_mandate c)];
          request_seeds = usage_request_seeds (rqa_mandate c) (ur_period_start report);
          approval_bump = snd (find_pda E approval_seeds program_id);
          request_bump = snd (find_pda E request_seeds program_id); now = unix_timestamp E in
     (case open_request E A c KPullApproval dec_pull_approval pull_approval_size approval_seeds request_seeds s of
        Inl e \<Rightarrow> Inl e | Inr (approval, request, s0) \<Rightarrow>
     (case load_mandate_account E s0 (rqa_mandate c) of Inl e \<Rightarrow> Inl e | Inr l \<Rightarrow>
     (case validate_loaded_mandate_address E (rqa_mandate c) l of Inl e \<Rightarrow> Inl e | Inr _ \<Rightarrow>
      let mandate = lm_into_current l in
     (case require_all
         [(md_billing_type mandate = Usage, Vela BillingTypeMismatch),
          (rqa_plan c = md_plan mandate, Vela PlanNotActive),
          (md_status mandate = MandateActive, Vela MandateNotActive),
          (\<not> ur_settled report, Vela UsageReportAlreadySettled),
          (ur_mandate report = rqa_mandate c, Vela BillingTypeMismatch),
          (ur_merchant report = md_merchant mandate, Vela BillingTypeMismatch)] of Inl e \<Rightarrow> Inl e | Inr _ \<Rightarrow>
     (case mandate_billing_period mandate of Inl e \<Rightarrow> Inl e | Inr (period_start, period_end) \<Rightarrow>
     (case require_all
         [(ur_period_start report = period_start \<and> ur_period_end report = period_end, Vela PeriodMismatch),
          (period_end \<le> now, Vela PullTooEarly)] of Inl e \<Rightarrow> Inl e | Inr _ \<Rightarrow>
     (case load_protocol_config E s0 (rqa_config c) of Inl e \<Rightarrow> Inl e | Inr lc \<Rightarrow>
      let config = lpc_into_current lc in
     (case validate_protocol_config E A config of Inl e \<Rightarrow> Inl e | Inr _ \<Rightarrow>
     (case ok_or (checked_add (md_validation_request_nonce mandate) 1) (Vela Overflow) of
        Inl e \<Rightarrow> Inl e | Inr next_request_nonce \<Rightarrow>
      let computation_offset =
            derive_usage_computation_offset E (rqa_mandate c) (ur_period_start report) next_request_nonce in
     (case require_all
         [(requested_computation_offset = computation_offset, Vela InvalidComputationOffset),
          (rqa_cluster_account c = pc_cluster_pubkey config, Vela InvalidArciumAccount),
          (ur_ciphertext_count report = of_nat USAGE_UNITS_CIPHERTEXT_COUNT, Vela InvalidCiphertextInput),
          (0 < up_tier_count plan \<and> up_tier_count plan \<le> 5, Vela InvalidTierCount)] of
        Inl e \<Rightarrow> Inl e | Inr _ \<Rightarrow>
     (case validate_usage_pricing_bounds (take (unat (up_tier_count plan)) (up_tiers plan))
             (up_max_charge_per_period plan) of Inl e \<Rightarrow> Inl e | Inr _ \<Rightarrow>
      if ur_computation_ciphertext report ! 1 \<noteq>
         usage_plan_terms_hash_from_parts E (rqa_plan c) (up_merchant plan) (up_plan_id plan) (up_tiers plan)
           (up_tier_count plan) (up_max_charge_per_period plan) (up_settlement_frequency plan)
      then Inl (Vela InvalidCiphertextInput) else
     (case validate_queue_accounts E A c (pc_cluster_offset config) computation_offset (usage_circuit plan)
             (effective_mxe_program_id config) of Inl e \<Rightarrow> Inl e | Inr _ \<Rightarrow>
      if approval_stands approval (rqa_mandate c) period_start period_end now
      then Inl (Vela ApprovalAlreadyExists) else
     (case start_arcium_request request (rqa_mandate c) FlowUsageComputation (i64_le (ur_period_start report))
             computation_offset next_request_nonce request_bump now of Inl e \<Rightarrow> Inl e | Inr request \<Rightarrow>
     (case write_mandate E (rqa_mandate c) (mandate\<lparr>md_validation_request_nonce := next_request_nonce\<rparr>)
             (lm_is_legacy l) s0 of Inl e \<Rightarrow> Inl e | Inr s1 \<Rightarrow>
      queue_request E A c config USAGE_COMPUTATION_CALLBACK_DISCRIMINATOR (usage_circuit plan)
        computation_offset (usage_args plan report)
        [(rqa_request_state c, True), (rqa_result c, True), (rqa_config c, False), (rqa_mandate c, False),
         (rqa_usage_report c, True)]
        [(rqa_usage_report c, disc E KUsageReport @ enc_usage_report report),
         (rqa_result c, disc E KPullApproval @ enc_pull_approval (cleared_approval approval_bump)),
         (rqa_request_state c, disc E KArciumRequestState @ enc_arcium_request request)] s1)))))))))))))))"

text \<open>The encrypted record of a pull of a flat mandate, from values that are already public.\<close>

definition cleared_event :: "u8 \<Rightarrow> billing_event" where
  "cleared_event bump =
     \<lparr>be_mandate = default_key, be_merchant = default_key, be_subscriber = default_key, be_plan_id = 0,
      be_encrypted_blob = replicate 10 (replicate 32 0), be_nonce = 0, be_created_at = i64_of 0, be_bump = bump\<rparr>"

definition request_billing_record ::
  "env \<Rightarrow> ('c, 'o) arcium \<Rightarrow> request_accounts \<Rightarrow> u64 \<Rightarrow> u64 \<Rightarrow> store \<Rightarrow> verror + store" where
  "request_billing_record E A c requested_computation_offset pulls_executed_seed s =
     (case anchor_account E KVelaPlan dec_vela_plan s (rqa_plan c) of Inl e \<Rightarrow> Inl e | Inr plan \<Rightarrow>
      if create_address E [plan_seed, key_bytes (vp_merchant plan), u64_le (vp_plan_id plan), [vp_bump plan]]
           program_id \<noteq> Some (rqa_plan c) then Inl (Anchor ConstraintSeeds) else
      let event_seeds = [billing_event_seed, key_bytes (rqa_mandate c), u64_le pulls_executed_seed];
          request_seeds = billing_request_seeds (rqa_mandate c) pulls_executed_seed;
          event_bump = snd (find_pda E event_seeds program_id);
          request_bump = snd (find_pda E request_seeds program_id) in
     (case open_request E A c KBillingEvent dec_billing_event billing_event_size event_seeds request_seeds s of
        Inl e \<Rightarrow> Inl e | Inr (event, request, s0) \<Rightarrow>
     (case load_mandate_account E s0 (rqa_mandate c) of Inl e \<Rightarrow> Inl e | Inr l \<Rightarrow>
     (case validate_loaded_mandate_address E (rqa_mandate c) l of Inl e \<Rightarrow> Inl e | Inr _ \<Rightarrow>
      let mandate = lm_into_current l in
     (case require_all
         [(0 < md_pulls_executed mandate, Vela ApprovalNotGranted),
          (pulls_executed_seed = md_pulls_executed mandate, Vela InvalidComputationOffset),
          (rqa_plan c = md_plan mandate, Vela PlanNotActive),
          (md_last_billing_recorded_pull mandate < md_pulls_executed mandate, Vela BillingEventAlreadyExists)] of
        Inl e \<Rightarrow> Inl e | Inr _ \<Rightarrow>
     (case load_protocol_config E s0 (rqa_config c) of Inl e \<Rightarrow> Inl e | Inr lc \<Rightarrow>
      let config = lpc_into_current lc in
     (case validate_protocol_config E A config of Inl e \<Rightarrow> Inl e | Inr _ \<Rightarrow>
     (case ok_or (checked_add (md_billing_request_nonce mandate) 1) (Vela Overflow) of
        Inl e \<Rightarrow> Inl e | Inr next_request_nonce \<Rightarrow>
      let computation_offset =
            derive_billing_computation_offset E (rqa_mandate c) (md_pulls_executed mandate) next_request_nonce in
     (case require_all
         [(requested_computation_offset = computation_offset, Vela InvalidComputationOffset),
          (rqa_cluster_account c = pc_cluster_pubkey config, Vela InvalidArciumAccount)] of
        Inl e \<Rightarrow> Inl e | Inr _ \<Rightarrow>
     (case validate_queue_accounts E A c (pc_cluster_offset config) computation_offset RECORD_BILLING_EVENT_CIRCUIT
             (effective_mxe_program_id config) of Inl e \<Rightarrow> Inl e | Inr _ \<Rightarrow>
     (case ok_or (i64_try_from_u64 (vp_frequency plan)) (Vela Overflow) of Inl e \<Rightarrow> Inl e | Inr frequency \<Rightarrow>
      let billing_period_end = md_next_payment_due mandate in
     (case ok_or (i64_checked_sub billing_period_end frequency) (Vela Overflow) of
        Inl e \<Rightarrow> Inl e | Inr billing_period_start \<Rightarrow>
      if be_created_at event \<noteq> i64_of 0 then Inl (Vela BillingEventAlreadyExists) else
     (case start_arcium_request request (rqa_mandate c) FlowBillingRecord (u64_le pulls_executed_seed)
             computation_offset next_request_nonce request_bump (unix_timestamp E) of
        Inl e \<Rightarrow> Inl e | Inr request \<Rightarrow>
     (case write_mandate E (rqa_mandate c) (mandate\<lparr>md_billing_request_nonce := next_request_nonce\<rparr>)
             (lm_is_legacy l) s0 of Inl e \<Rightarrow> Inl e | Inr s1 \<Rightarrow>
      queue_request E A c config RECORD_BILLING_EVENT_CALLBACK_DISCRIMINATOR RECORD_BILLING_EVENT_CIRCUIT
        computation_offset
        [PlainU64 (vp_amount plan), PlainI64 (md_last_pull_at mandate), PlainU64 (md_pulls_executed mandate),
         PlainI64 billing_period_start, PlainI64 billing_period_end, PlainU64 0]
        [(rqa_request_state c, True), (rqa_result c, True), (rqa_config c, False), (rqa_mandate c, False),
         (rqa_plan c, False)]
        [(rqa_result c, disc E KBillingEvent @ enc_billing_event (cleared_event event_bump)),
         (rqa_request_state c, disc E KArciumRequestState @ enc_arcium_request request)] s1))))))))))))))"

section \<open>The three callbacks\<close>

definition callback_constraints ::
  "('c, 'o) arcium \<Rightarrow> env \<Rightarrow> callback_accounts \<Rightarrow> u8 list list \<Rightarrow> u8 list list \<Rightarrow> (bool \<times> verror) list" where
  "callback_constraints A E c record_seeds result_seeds =
     [(cba_arcium_program c = arcium_program_id A, Anchor InvalidProgramId),
      (cba_instructions_sysvar c = instructions_sysvar_id A, Anchor ConstraintAddress),
      (create_address E record_seeds program_id = Some (cba_request_state c), Anchor ConstraintSeeds),
      (cba_request_state c \<in> set (cba_writable c), Anchor ConstraintMut),
      (cba_result c = pda E result_seeds, Anchor ConstraintSeeds),
      (cba_result c \<in> set (cba_writable c), Anchor ConstraintMut),
      (cba_config c = pda E [protocol_config_seed], Anchor ConstraintSeeds)]"

text \<open>
  What all three do first: the configuration, the accounts of the network, and the pending
  request the computation was queued for. The result is the cluster that must have signed.
\<close>

definition bind_callback ::
  "env \<Rightarrow> ('c, 'o) arcium \<Rightarrow> callback_accounts \<Rightarrow> string list \<Rightarrow> arcium_request \<Rightarrow> arcium_request_flow \<Rightarrow> u8 list \<Rightarrow>
     store \<Rightarrow> verror + 'c" where
  "bind_callback E A c circuits request flow subject s =
     (case load_protocol_config E s (cba_config c) of Inl e \<Rightarrow> Inl e | Inr lc \<Rightarrow>
      let config = lpc_into_current lc; mxe_program_id = effective_mxe_program_id config in
     (case validate_protocol_config E A config of Inl e \<Rightarrow> Inl e | Inr _ \<Rightarrow>
      if list_all (\<lambda>circuit. validate_static_callback_accounts E A c circuit mxe_program_id \<noteq> Inr ()) circuits
      then Inl (Vela InvalidArciumAccount) else
     (case validate_pending_arcium_request request (cba_mandate c) flow subject of
        Inl e \<Rightarrow> Inl e | Inr computation_offset \<Rightarrow>
     (case validate_callback_binding E A config c computation_offset of Inl e \<Rightarrow> Inl e | Inr _ \<Rightarrow>
      deserialize_cluster A s (cba_cluster_account c)))))"

definition granted_approval :: "pubkey \<Rightarrow> i64 \<Rightarrow> i64 \<Rightarrow> i64 \<Rightarrow> bool \<Rightarrow> u64 \<Rightarrow> i64 \<Rightarrow> u8 \<Rightarrow> pull_approval" where
  "granted_approval mandate period_start period_end valid_until approved amount now bump =
     \<lparr>pa_mandate = mandate, pa_period_start = period_start, pa_period_end = period_end,
      pa_valid_until = valid_until, pa_approved = approved, pa_approved_amount = amount,
      pa_created_at = now, pa_bump = bump\<rparr>"

definition validate_mandate_callback ::
  "env \<Rightarrow> ('c, 'o) arcium \<Rightarrow> callback_accounts \<Rightarrow> 'o \<Rightarrow> store \<Rightarrow> verror + store" where
  "validate_mandate_callback E A c output s =
     (case anchor_account E KArciumRequestState dec_arcium_request s (cba_request_state c) of
        Inl e \<Rightarrow> Inl e | Inr request \<Rightarrow>
     (case anchor_account E KPullApproval dec_pull_approval s (cba_result c) of Inl e \<Rightarrow> Inl e | Inr _ \<Rightarrow>
     (case anchor_account E KVelaMandate dec_vela_mandate s (cba_mandate c) of Inl e \<Rightarrow> Inl e | Inr mandate \<Rightarrow>
      let approval_seeds = [pull_approval_seed, key_bytes (cba_mandate c)] in
     (case require_all
         (callback_constraints A E c
            (validation_request_seeds (cba_mandate c) (md_next_payment_due mandate) @ [[rq_bump request]])
            approval_seeds) of Inl e \<Rightarrow> Inl e | Inr _ \<Rightarrow>
     (case callback_allowed A s of Inl e \<Rightarrow> Inl e | Inr _ \<Rightarrow>
     (case bind_callback E A c [VALIDATE_MANDATE_CIRCUIT] request FlowValidation
             (i64_le (md_next_payment_due mandate)) s of Inl e \<Rightarrow> Inl e | Inr cluster \<Rightarrow>
     (case ok_or (verify_validation A output cluster (cba_computation_account c) (s (cba_computation_account c)))
             (Vela AbortedComputation) of Inl e \<Rightarrow> Inl e | Inr result \<Rightarrow>
     (case require_all
         [(md_status mandate = MandateActive, Vela MandateNotActive),
          (md_billing_type mandate = Flat, Vela BillingTypeMismatch)] of Inl e \<Rightarrow> Inl e | Inr _ \<Rightarrow>
      let now = unix_timestamp E in
     (case mandate_billing_period mandate of Inl e \<Rightarrow> Inl e | Inr (period_start, period_end) \<Rightarrow>
     (case ok_or (i64_checked_add now (i64_of PULL_APPROVAL_TTL_SECONDS)) (Vela Overflow) of
        Inl e \<Rightarrow> Inl e | Inr valid_until \<Rightarrow>
     (case complete_arcium_request request now of Inl e \<Rightarrow> Inl e | Inr request \<Rightarrow>
      exit_all
        [(cba_request_state c, disc E KArciumRequestState @ enc_arcium_request request),
         (cba_result c, disc E KPullApproval @ enc_pull_approval
            (granted_approval (cba_mandate c) period_start period_end valid_until result (md_amount mandate) now
               (snd (find_pda E approval_seeds program_id))))] s)))))))))))"

definition usage_charge_callback ::
  "env \<Rightarrow> ('c, 'o) arcium \<Rightarrow> callback_accounts \<Rightarrow> 'o \<Rightarrow> store \<Rightarrow> verror + store" where
  "usage_charge_callback E A c output s =
     (case anchor_account E KArciumRequestState dec_arcium_request s (cba_request_state c) of
        Inl e \<Rightarrow> Inl e | Inr request \<Rightarrow>
     (case anchor_account E KPullApproval dec_pull_approval s (cba_result c) of Inl e \<Rightarrow> Inl e | Inr _ \<Rightarrow>
     (case anchor_account E KVelaMandate dec_vela_mandate s (cba_mandate c) of Inl e \<Rightarrow> Inl e | Inr mandate \<Rightarrow>
     (case anchor_account E KUsageReport dec_usage_report s (cba_usage_report c) of Inl e \<Rightarrow> Inl e | Inr report \<Rightarrow>
      let approval_seeds = [pull_approval_seed, key_bytes (cba_mandate c)] in
     (case require_all
         (callback_constraints A E c
            (usage_request_seeds (cba_mandate c) (ur_period_start report) @ [[rq_bump request]]) approval_seeds @
          [(create_address E [usage_report_seed, key_bytes (cba_mandate c), i64_le (ur_period_start report),
              [ur_bump report]] program_id = Some (cba_usage_report c), Anchor ConstraintSeeds),
           (cba_usage_report c \<in> set (cba_writable c), Anchor ConstraintMut)]) of
        Inl e \<Rightarrow> Inl e | Inr _ \<Rightarrow>
     (case callback_allowed A s of Inl e \<Rightarrow> Inl e | Inr _ \<Rightarrow>
     (case bind_callback E A c [USAGE_CHARGE_CIRCUIT, TIERED_PRICING_CIRCUIT] request FlowUsageComputation
             (i64_le (ur_period_start report)) s of Inl e \<Rightarrow> Inl e | Inr cluster \<Rightarrow>
     (case ok_or (verify_charge A output cluster (cba_computation_account c) (s (cba_computation_account c)))
             (Vela AbortedComputation) of Inl e \<Rightarrow> Inl e | Inr computed_charge \<Rightarrow>
     (case require_all
         [(ur_mandate report = cba_mandate c, Vela BillingTypeMismatch),
          (ur_merchant report = md_merchant mandate, Vela BillingTypeMismatch),
          (md_status mandate = MandateActive, Vela MandateNotActive),
          (md_billing_type mandate = Usage, Vela BillingTypeMismatch),
          (\<not> ur_settled report, Vela UsageReportAlreadySettled)] of Inl e \<Rightarrow> Inl e | Inr _ \<Rightarrow>
     (case mandate_billing_period mandate of Inl e \<Rightarrow> Inl e | Inr (period_start, period_end) \<Rightarrow>
     (case require_all
         [(ur_period_start report = period_start \<and> ur_period_end report = period_end, Vela PeriodMismatch),
          (computed_charge \<le> md_amount mandate, Vela AmountExceedsPlanAmount)] of Inl e \<Rightarrow> Inl e | Inr _ \<Rightarrow>
      let now = unix_timestamp E in
     (case ok_or (i64_checked_add now (i64_of PULL_APPROVAL_TTL_SECONDS)) (Vela Overflow) of
        Inl e \<Rightarrow> Inl e | Inr valid_until \<Rightarrow>
     (case complete_arcium_request request now of Inl e \<Rightarrow> Inl e | Inr request \<Rightarrow>
      exit_all
        [(cba_request_state c, disc E KArciumRequestState @ enc_arcium_request request),
         (cba_result c, disc E KPullApproval @ enc_pull_approval
            (granted_approval (cba_mandate c) period_start period_end valid_until True computed_charge now
               (snd (find_pda E approval_seeds program_id)))),
         (cba_usage_report c, disc E KUsageReport @ enc_usage_report report)] s)))))))))))))"

definition record_billing_event_callback ::
  "env \<Rightarrow> ('c, 'o) arcium \<Rightarrow> callback_accounts \<Rightarrow> 'o \<Rightarrow> store \<Rightarrow> verror + store" where
  "record_billing_event_callback E A c output s =
     (case anchor_account E KArciumRequestState dec_arcium_request s (cba_request_state c) of
        Inl e \<Rightarrow> Inl e | Inr request \<Rightarrow>
     (case anchor_account E KBillingEvent dec_billing_event s (cba_result c) of Inl e \<Rightarrow> Inl e | Inr event \<Rightarrow>
     (case anchor_account E KVelaMandate dec_vela_mandate s (cba_mandate c) of Inl e \<Rightarrow> Inl e | Inr mandate \<Rightarrow>
     (case anchor_account E KVelaPlan dec_vela_plan s (cba_plan c) of Inl e \<Rightarrow> Inl e | Inr plan \<Rightarrow>
      let event_seeds = [billing_event_seed, key_bytes (cba_mandate c), u64_le (md_pulls_executed mandate)] in
     (case require_all
         (callback_constraints A E c
            (billing_request_seeds (cba_mandate c) (md_pulls_executed mandate) @ [[rq_bump request]]) event_seeds @
          [(cba_mandate c \<in> set (cba_writable c), Anchor ConstraintMut)]) of Inl e \<Rightarrow> Inl e | Inr _ \<Rightarrow>
     (case callback_allowed A s of Inl e \<Rightarrow> Inl e | Inr _ \<Rightarrow>
     (case bind_callback E A c [RECORD_BILLING_EVENT_CIRCUIT] request FlowBillingRecord
             (u64_le (md_pulls_executed mandate)) s of Inl e \<Rightarrow> Inl e | Inr cluster \<Rightarrow>
     (case ok_or (verify_record A output cluster (cba_computation_account c) (s (cba_computation_account c)))
             (Vela AbortedComputation) of Inl e \<Rightarrow> Inl e | Inr (ciphertexts, nonce) \<Rightarrow>
     (case require_all
         [(cba_plan c = md_plan mandate, Vela PlanNotActive),
          (be_created_at event = i64_of 0, Vela BillingEventAlreadyExists)] of Inl e \<Rightarrow> Inl e | Inr _ \<Rightarrow>
      let now = unix_timestamp E in
     (case complete_arcium_request request now of Inl e \<Rightarrow> Inl e | Inr request \<Rightarrow>
      exit_all
        [(cba_request_state c, disc E KArciumRequestState @ enc_arcium_request request),
         (cba_result c, disc E KBillingEvent @ enc_billing_event
            \<lparr>be_mandate = cba_mandate c, be_merchant = md_merchant mandate, be_subscriber = md_subscriber mandate,
             be_plan_id = vp_plan_id plan, be_encrypted_blob = ciphertexts, be_nonce = nonce, be_created_at = now,
             be_bump = snd (find_pda E event_seeds program_id)\<rparr>),
         (cba_mandate c, disc E KVelaMandate @ enc_vela_mandate
            (mandate\<lparr>md_last_billing_recorded_pull := md_pulls_executed mandate\<rparr>))] s))))))))))"

end
