(* ===== verification/Computation_Guarantees.thy ===== *)
theory Computation_Guarantees
  imports Computations Mandate_Lifecycle
begin

text \<open>
  What the requests and callbacks of the confidential computations guarantee: an approval comes
  only from a verified output for a pending request, a request takes one answer, one whose
  computation was aborted stays pending, and a pull is recorded once.
\<close>

section \<open>Opening and writing back accounts\<close>

text \<open>The network's program cannot change this program's accounts.\<close>

definition network_keeps :: "('c, 'o) arcium \<Rightarrow> bool" where
  "network_keeps A \<longleftrightarrow> (\<forall>q s s'. queue_computation A q s = Inr s' \<longrightarrow> accounts_kept s s')"

text \<open>An account of a kind, or a new one that is still zero.\<close>

definition opened :: "env \<Rightarrow> account_kind \<Rightarrow> store \<Rightarrow> pubkey \<Rightarrow> bool" where
  "opened E kd s k \<longleftrightarrow> acc_owner (s k) = program_id \<and>
     (starts_with (acc_data (s k)) (disc E kd) \<or> (\<exists>n. acc_data (s k) = replicate n 0))"

lemma opened_kept: "accounts_kept s s' \<Longrightarrow> opened E kd s k \<Longrightarrow> opened E kd s' k"
  by (auto simp: opened_def accounts_kept_def)

lemma opened_differs:
  "distinct_discriminators E \<Longrightarrow> opened E kd s k \<Longrightarrow> starts_with (acc_data (s j)) (disc E kd') \<Longrightarrow> kd \<noteq> kd' \<Longrightarrow> k \<noteq> j"
  using zero_data_starts [of E _ kd'] distinct_discriminatorsD(2) [of E "acc_data (s j)" kd kd']
  by (auto simp: opened_def)

lemma init_if_needed_Inr:
  assumes "init_if_needed E p kd dec n seeds k s = Inr (x, s')" "keeps_program_accounts E" "creates_fresh E"
  obtains (Fresh) r where "k = pda E seeds" "accounts_kept s s'" "opened E kd s' k" "acc_owner (s k) = system_program_id"
      "acc_data (s' k) = replicate n 0" "dec (replicate (n - length (disc E kd)) 0) = Some (x, r)"
  | (Existing) "k = pda E seeds" "s' = s" "opened E kd s k" "acc_owner (s k) = program_id"
      "try_deserialize E kd dec (acc_data (s k)) = Some x" "length (acc_data (s k)) = n"
proof (cases "acc_owner (s k) = system_program_id")
  case True
  with assms(1) obtain sd r where k: "k = pda E seeds"
    and inv: "invoke E (InitAccount p k (minimum_balance E n) n program_id) sd s = Inr s'"
    and d: "dec (drop (length (disc E kd)) (acc_data (s' k))) = Some (x, r)"
    by (auto simp: init_if_needed_def ok_simps)
  have new: "acc_owner (s' k) = program_id" "acc_data (s' k) = replicate n 0"
    using creates_freshD(1) [OF assms(3) inv] by (simp_all add: created_fresh_def)
  show thesis
    by (rule Fresh [OF k accounts_kept_call [OF assms(2) inv] _ True new(2)]) (use new d in \<open>auto simp: opened_def\<close>)
next
  case False
  with assms(1) have "k = pda E seeds" "s' = s" "acc_owner (s k) = program_id"
    "try_deserialize E kd dec (acc_data (s k)) = Some x" "length (acc_data (s k)) = n"
    by (auto simp: init_if_needed_def ok_simps)
  then show thesis by (intro Existing) (auto simp: opened_def intro: try_deserialize_starts)
qed

lemma init_if_needed_opens:
  assumes "init_if_needed E p kd dec n seeds k s = Inr (x, s')" "keeps_program_accounts E" "creates_fresh E"
  shows "k = pda E seeds" "accounts_kept s s'" "opened E kd s' k"
    "acc_owner (s k) = system_program_id \<or> starts_with (acc_data (s k)) (disc E kd)"
  using assms by (cases rule: init_if_needed_Inr; auto intro: try_deserialize_starts)+

lemma exit_all_frame: "exit_all xs s = Inr s' \<Longrightarrow> k \<notin> fst ` set xs \<Longrightarrow> s' k = s k"
  by (induction xs arbitrary: s) (force simp: case_sum_Inr anchor_exit_Inr)+

lemma exit_all_owner: "exit_all xs s = Inr s' \<Longrightarrow> acc_owner (s' k) = acc_owner (s k)"
  by (induction xs arbitrary: s) (auto simp: case_sum_Inr anchor_exit_Inr set_data_def split: if_splits)

lemma exit_all_append:
  "exit_all (xs @ ys) s = Inr s' \<longleftrightarrow> (\<exists>s1. exit_all xs s = Inr s1 \<and> exit_all ys s1 = Inr s')"
  by (induction xs arbitrary: s) (auto simp: case_sum_Inr)

lemma exit_all_last:
  assumes "exit_all (xs @ (k, bs) # ys) s = Inr s'" "k \<notin> fst ` set ys"
  shows "\<exists>r. acc_data (s' k) = bs @ r"
  using assms exit_all_frame [of ys _ s' k] by (fastforce simp: exit_all_append case_sum_Inr anchor_exit_Inr)

lemma exit_all_written:
  assumes "exit_all xs s = Inr s'" "k \<in> fst ` set xs"
  shows "\<exists>bs r. (k, bs) \<in> set xs \<and> acc_data (s' k) = bs @ r"
  using assms
proof (induction xs arbitrary: s)
  case (Cons x xs)
  obtain j bs where x: "x = (j, bs)" by (cases x)
  from Cons.prems(1) obtain s1 where s1: "anchor_exit j bs s = Inr s1" "exit_all xs s1 = Inr s'"
    by (auto simp: x case_sum_Inr)
  show ?case
  proof (cases "k \<in> fst ` set xs")
    case True
    with Cons.IH [OF s1(2)] show ?thesis by auto
  next
    case False
    then have "k = j" using Cons.prems(2) by (simp add: x)
    with exit_all_frame [OF s1(2) False] s1(1) show ?thesis by (auto simp: x anchor_exit_Inr)
  qed
qed simp

text \<open>The three accounts a request opens are distinct from the accounts of other kinds.\<close>

lemma open_request_Inr:
  assumes "open_request E A c kd dec n result_seeds request_seeds s = Inr (result, request, s0)"
    "keeps_program_accounts E" "creates_fresh E"
  obtains s1 s2 where "list_all fst (request_constraints E A c)" "accounts_kept s s0"
    "init_if_needed E (rqa_payer c) kd dec n result_seeds (rqa_result c) s1 = Inr (result, s2)"
    "init_if_needed E (rqa_payer c) KArciumRequestState dec_arcium_request arcium_request_size request_seeds
       (rqa_request_state c) s2 = Inr (request, s0)"
    "accounts_kept s s1" "opened E kd s2 (rqa_result c)"
    "opened E KArciumSigner s0 (rqa_sign_pda_account c)" "opened E kd s0 (rqa_result c)"
    "opened E KArciumRequestState s0 (rqa_request_state c)"
proof -
  note un = assms(1) [unfolded open_request_def]
  from un obtain x1 s1 where s1: "init_if_needed E (rqa_payer c) KArciumSigner dec_u8 arcium_signer_size [sign_pda_seed A]
             (rqa_sign_pda_account c) s = Inr (x1, s1)"
    and ok: "list_all fst (request_constraints E A c)"
    unfolding case_sum_Inr case_prod_unfold require_all_Inr by (metis prod.collapse)
  note un = un [unfolded s1 sum.case prod.case]
  from un obtain s2 where s2: "init_if_needed E (rqa_payer c) kd dec n result_seeds (rqa_result c) s1 = Inr (result, s2)"
    and s3: "init_if_needed E (rqa_payer c) KArciumRequestState dec_arcium_request arcium_request_size request_seeds
       (rqa_request_state c) s2 = Inr (request, s0)"
    unfolding case_sum_Inr case_prod_unfold by auto
  note o1 = init_if_needed_opens [OF s1 assms(2,3)] and o2 = init_if_needed_opens [OF s2 assms(2,3)]
    and o3 = init_if_needed_opens [OF s3 assms(2,3)]
  have k: "accounts_kept s1 s0" "accounts_kept s s0" using o1(2) o2(2) o3(2) accounts_kept_trans by blast+
  show thesis
    by (rule that [OF ok k(2) s2 s3 o1(2) o2(3) opened_kept [OF k(1) o1(3)] opened_kept [OF o3(2) o2(3)] o3(3)])
qed

lemma open_request_distinct:
  assumes "open_request E A c kd dec n result_seeds request_seeds s = Inr (result, request, s0)"
    "keeps_program_accounts E" "creates_fresh E" "distinct_discriminators E" "kd \<noteq> KArciumRequestState"
  shows "rqa_result c \<noteq> rqa_request_state c"
  using assms(1-3)
proof (cases rule: open_request_Inr)
  case (1 s1 s2)
  from init_if_needed_opens(4) [OF 1(4) assms(2,3)] show ?thesis
  proof
    assume "acc_owner (s2 (rqa_request_state c)) = system_program_id"
    then show ?thesis using 1(6) by (auto simp: opened_def)
  next
    assume "starts_with (acc_data (s2 (rqa_request_state c))) (disc E KArciumRequestState)"
    then show ?thesis using opened_differs [OF assms(4) 1(6)] assms(5) by blast
  qed
qed

lemma queue_request_Inr:
  assumes "queue_request E A c config d circuit off args extra exits s = Inr s'" "network_keeps A"
  obtains cb s1 where "build_callback_instruction E A d off (pc_cluster_offset config) circuit
      (effective_mxe_program_id config) extra = Inr cb"
    "queue_computation A (computation_of E A c (effective_mxe_program_id config) circuit off args cb) s = Inr s1"
    "accounts_kept s s1"
    "exit_all ((rqa_sign_pda_account c, disc E KArciumSigner @ [snd (find_pda E [sign_pda_seed A] program_id)]) # exits) s1 = Inr s'"
  using assms unfolding queue_request_def network_keeps_def Let_def case_sum_Inr by blast

section \<open>What a request leaves alone\<close>

lemma load_mandate_starts:
  "load_mandate_account E s k = Inr l \<Longrightarrow> starts_with (acc_data (s k)) (disc E KVelaMandate)"
  by (auto simp: load_mandate_account_def Let_def split: if_splits)

lemma write_mandate_Inr:
  assumes "write_mandate E k m legacy s = Inr s'"
  obtains r where "s' = set_data s k (disc E KVelaMandate @ r)"
  using assms by (auto simp: write_mandate_def write_account_Inr split: if_splits)

lemma set_data_outside [simp]: "k \<in> K \<Longrightarrow> kept_outside K s (set_data s k bs)"
  by (auto simp: kept_outside_def set_data_def)

lemma exit_all_outside: "exit_all xs s = Inr s' \<Longrightarrow> fst ` set xs \<subseteq> K \<Longrightarrow> kept_outside K s s'"
  using exit_all_frame [of xs s s'] exit_all_owner [of xs s s'] unfolding kept_outside_def subset_eq by fastforce

text \<open>
  A request in its parts: it opened its accounts, wrote the mandate with a new nonce, started
  the record, and queued the computation. The accounts it may have changed are the ones it
  writes back, the network's signer and the mandate.
\<close>

definition signer_exit :: "env \<Rightarrow> ('c, 'o) arcium \<Rightarrow> request_accounts \<Rightarrow> pubkey \<times> u8 list" where
  "signer_exit E A c =
     (rqa_sign_pda_account c, disc E KArciumSigner @ [snd (find_pda E [sign_pda_seed A] program_id)])"

definition nonce_update :: "vela_mandate \<Rightarrow> vela_mandate \<Rightarrow> bool" where
  "nonce_update m m' \<longleftrightarrow>
     (\<exists>n. m' = m\<lparr>md_validation_request_nonce := n\<rparr> \<or> m' = m\<lparr>md_billing_request_nonce := n\<rparr>)"

definition request_done ::
  "env \<Rightarrow> ('c, 'o) arcium \<Rightarrow> request_accounts \<Rightarrow> account_kind \<Rightarrow> 'a decoder \<Rightarrow> arcium_request_flow \<Rightarrow> u8 list \<Rightarrow> 'a \<Rightarrow>
     arcium_request \<Rightarrow> arcium_request \<Rightarrow> (pubkey \<times> u8 list) list \<Rightarrow> store \<Rightarrow> store \<Rightarrow> bool" where
  "request_done E A c kd dec flow subject result request request' exits s s' \<longleftrightarrow>
     (\<exists>n rs qs s0 l m s1 s2 off nonce bump.
        open_request E A c kd dec n rs qs s = Inr (result, request, s0) \<and>
        load_mandate_account E s0 (rqa_mandate c) = Inr l \<and> nonce_update (lm_into_current l) m \<and>
        start_arcium_request request (rqa_mandate c) flow subject off nonce bump (unix_timestamp E) = Inr request' \<and>
        write_mandate E (rqa_mandate c) m (lm_is_legacy l) s0 = Inr s1 \<and>
        accounts_kept s1 s2 \<and> exit_all (signer_exit E A c # exits) s2 = Inr s')"

lemma request_done_Inr:
  assumes "request_done E A c kd dec flow subject result request request' exits s s'"
    "keeps_program_accounts E" "creates_fresh E"
  obtains s0 l m r s1 s2 where
    "accounts_kept s s0" "opened E KArciumSigner s0 (rqa_sign_pda_account c)" "opened E kd s0 (rqa_result c)"
    "opened E KArciumRequestState s0 (rqa_request_state c)" "load_mandate_account E s0 (rqa_mandate c) = Inr l"
    "nonce_update (lm_into_current l) m" "write_mandate E (rqa_mandate c) m (lm_is_legacy l) s0 = Inr s1"
    "s1 = set_data s0 (rqa_mandate c) (disc E KVelaMandate @ r)"
    "accounts_kept s1 s2" "exit_all (signer_exit E A c # exits) s2 = Inr s'"
proof -
  from assms(1) obtain n rs qs s0 l m s1 s2 where
    o: "open_request E A c kd dec n rs qs s = Inr (result, request, s0)" and
    r: "load_mandate_account E s0 (rqa_mandate c) = Inr l" "nonce_update (lm_into_current l) m"
      "write_mandate E (rqa_mandate c) m (lm_is_legacy l) s0 = Inr s1"
      "accounts_kept s1 s2" "exit_all (signer_exit E A c # exits) s2 = Inr s'"
    unfolding request_done_def by blast
  from write_mandate_Inr [OF r(3)] obtain w where w: "s1 = set_data s0 (rqa_mandate c) (disc E KVelaMandate @ w)" by blast
  have op: "opened E KArciumSigner s0 (rqa_sign_pda_account c)" "opened E kd s0 (rqa_result c)"
    "opened E KArciumRequestState s0 (rqa_request_state c)" "accounts_kept s s0"
    by (rule open_request_Inr [OF o assms(2,3)]; assumption)+
  show thesis by (rule that [OF op(4,1-3) r(1-3) w r(4,5)])
qed

lemma request_done_outside:
  assumes "request_done E A c kd dec flow subject result request request' exits s s'"
    "keeps_program_accounts E" "creates_fresh E"
  shows "kept_outside ({rqa_sign_pda_account c, rqa_mandate c} \<union> fst ` set exits) s s'"
  using assms
proof (cases rule: request_done_Inr)
  case (1 s0 l m r s1 s2)
  let ?K = "{rqa_sign_pda_account c, rqa_mandate c} \<union> fst ` set exits"
  have a: "kept_outside ?K s s1"
    by (rule kept_outside_trans [OF accounts_kept_outside [OF 1(1)]]) (simp add: 1(8))
  have b: "kept_outside ?K s2 s'" by (rule exit_all_outside [OF 1(10)]) (auto simp: signer_exit_def)
  show ?thesis by (rule kept_outside_trans [OF a kept_outside_trans [OF accounts_kept_outside [OF 1(9)] b]])
qed

text \<open>An account of a kind other than the signer and the mandate changes only if it is written back.\<close>

lemma request_keeps:
  assumes "request_done E A c kd dec flow subject result request request' exits s s'"
    "keeps_program_accounts E" "creates_fresh E" "distinct_discriminators E"
    "acc_owner (s k) = program_id" "starts_with (acc_data (s k)) (disc E kk)" "kk \<noteq> KArciumSigner" "kk \<noteq> KVelaMandate"
    "k \<notin> fst ` set exits"
  shows "acc_owner (s' k) = program_id \<and> acc_data (s' k) = acc_data (s k)"
  using assms(1-3)
proof (cases rule: request_done_Inr)
  case (1 s0 l m r s1 s2)
  have d: "starts_with (acc_data (s0 k)) (disc E kk)" using 1(1) assms(5,6) by (simp add: accounts_kept_def)
  have "k \<noteq> rqa_sign_pda_account c" using opened_differs [OF assms(4) 1(2) d] assms(7) by metis
  moreover have "k \<noteq> rqa_mandate c"
    using distinct_discriminatorsD(2) [OF assms(4) load_mandate_starts [OF 1(5)]] d assms(8) by metis
  ultimately show ?thesis using kept_outsideD [OF request_done_outside [OF assms(1-3)] assms(5)] assms(9) by auto
qed

text \<open>The data an account ends with, if it is one of those a request writes.\<close>

lemma request_writes:
  assumes "request_done E A c kd dec flow subject result request request' exits s s'"
    "keeps_program_accounts E" "creates_fresh E" "acc_owner (s k) = program_id" "acc_data (s' k) \<noteq> acc_data (s k)"
  obtains "starts_with (acc_data (s' k)) (disc E KArciumSigner)"
  | "starts_with (acc_data (s' k)) (disc E KVelaMandate)"
  | bs r where "(k, bs) \<in> set exits" "acc_data (s' k) = bs @ r"
  using assms(1-3)
proof (cases rule: request_done_Inr)
  case (1 s0 l m w s1 s2)
  from kept_outsideD(2) [OF request_done_outside [OF assms(1-3)] assms(4)] assms(5)
  consider "k \<in> fst ` set (signer_exit E A c # exits)" | "k \<notin> fst ` set (signer_exit E A c # exits)" "k = rqa_mandate c"
    by (auto simp: signer_exit_def)
  then show thesis
  proof cases
    assume "k \<in> fst ` set (signer_exit E A c # exits)"
    from exit_all_written [OF 1(10) this] show thesis using that(1,3) by (auto simp: signer_exit_def)
  next
    assume k: "k \<notin> fst ` set (signer_exit E A c # exits)" "k = rqa_mandate c"
    have "acc_data (s' k) = acc_data (s1 k)"
      using exit_all_frame [OF 1(10) k(1)] 1(9) mandate_store.load_owner [OF 1(5)] k(2) by (simp add: 1(8) accounts_kept_def)
    then show thesis using that(2) k(2) by (simp add: 1(8))
  qed
qed

section \<open>What the three requests do\<close>

lemma request_validation_Inr:
  assumes "request_validation E A c off due cts key nonce s = Inr s'" "network_keeps A"
  obtains approval request request' bump where
    "request_done E A c KPullApproval dec_pull_approval FlowValidation (i64_le due) approval request request'
        [(rqa_result c, disc E KPullApproval @ enc_pull_approval (cleared_approval bump)),
         (rqa_request_state c, disc E KArciumRequestState @ enc_arcium_request request')] s s'"
proof -
  let ?bump = "snd (find_pda E [pull_approval_seed, key_bytes (rqa_mandate c)] program_id)"
  from assms(1) obtain approval request request' s0 s1 l config n off' where
    r: "open_request E A c KPullApproval dec_pull_approval pull_approval_size [pull_approval_seed, key_bytes (rqa_mandate c)]
       (validation_request_seeds (rqa_mandate c) due) s = Inr (approval, request, s0)"
    "load_mandate_account E s0 (rqa_mandate c) = Inr l"
    "start_arcium_request request (rqa_mandate c) FlowValidation (i64_le due) off' n
       (snd (find_pda E (validation_request_seeds (rqa_mandate c) due) program_id)) (unix_timestamp E) = Inr request'"
    "write_mandate E (rqa_mandate c) (lm_into_current l\<lparr>md_validation_request_nonce := n\<rparr>) (lm_is_legacy l) s0 = Inr s1" and
    q: "queue_request E A c config VALIDATE_MANDATE_CALLBACK_DISCRIMINATOR VALIDATE_MANDATE_CIRCUIT off'
        (validation_args key nonce cts)
        [(rqa_request_state c, True), (rqa_result c, True), (rqa_config c, False), (rqa_mandate c, False)]
        [(rqa_result c, disc E KPullApproval @ enc_pull_approval (cleared_approval ?bump)),
         (rqa_request_state c, disc E KArciumRequestState @ enc_arcium_request request')] s1 = Inr s'"
    unfolding request_validation_def Let_def case_sum_Inr case_prod_unfold
    by (elim exE conjE) (auto simp: case_sum_Inr split: if_splits)
  from queue_request_Inr [OF q assms(2)] show thesis
    using r that unfolding request_done_def nonce_update_def signer_exit_def by (metis (no_types))
qed

lemma request_usage_Inr:
  assumes "request_usage_computation E A c off s = Inr s'" "network_keeps A"
  obtains plan report approval request request' bump where
    "usage_request_inputs E c s = Inr (plan, report)"
    "request_done E A c KPullApproval dec_pull_approval FlowUsageComputation (i64_le (ur_period_start report))
        approval request request'
        [(rqa_usage_report c, disc E KUsageReport @ enc_usage_report report),
         (rqa_result c, disc E KPullApproval @ enc_pull_approval (cleared_approval bump)),
         (rqa_request_state c, disc E KArciumRequestState @ enc_arcium_request request')] s s'"
proof -
  let ?bump = "snd (find_pda E [pull_approval_seed, key_bytes (rqa_mandate c)] program_id)"
  from assms(1) obtain plan report approval request request' s0 s1 l config n off' where
    i: "usage_request_inputs E c s = Inr (plan, report)" and
    r: "open_request E A c KPullApproval dec_pull_approval pull_approval_size [pull_approval_seed, key_bytes (rqa_mandate c)]
       (usage_request_seeds (rqa_mandate c) (ur_period_start report)) s = Inr (approval, request, s0)"
    "load_mandate_account E s0 (rqa_mandate c) = Inr l"
    "start_arcium_request request (rqa_mandate c) FlowUsageComputation (i64_le (ur_period_start report)) off' n
       (snd (find_pda E (usage_request_seeds (rqa_mandate c) (ur_period_start report)) program_id))
       (unix_timestamp E) = Inr request'"
    "write_mandate E (rqa_mandate c) (lm_into_current l\<lparr>md_validation_request_nonce := n\<rparr>) (lm_is_legacy l) s0 = Inr s1" and
    q: "queue_request E A c config USAGE_COMPUTATION_CALLBACK_DISCRIMINATOR (usage_circuit plan)
        off' (usage_args plan report)
        [(rqa_request_state c, True), (rqa_result c, True), (rqa_config c, False), (rqa_mandate c, False),
         (rqa_usage_report c, True)]
        [(rqa_usage_report c, disc E KUsageReport @ enc_usage_report report),
         (rqa_result c, disc E KPullApproval @ enc_pull_approval (cleared_approval ?bump)),
         (rqa_request_state c, disc E KArciumRequestState @ enc_arcium_request request')] s1 = Inr s'"
    unfolding request_usage_computation_def Let_def case_sum_Inr case_prod_unfold
    by (elim exE conjE) (auto simp: case_sum_Inr split: if_splits)
  from queue_request_Inr [OF q assms(2)] show thesis
    using i r that unfolding request_done_def nonce_update_def signer_exit_def by (metis (no_types))
qed

lemma request_record_Inr:
  assumes "request_billing_record E A c off pulls s = Inr s'" "network_keeps A"
  obtains event request request' bump where
    "be_created_at event = i64_of 0"
    "request_done E A c KBillingEvent dec_billing_event FlowBillingRecord (u64_le pulls) event request request'
        [(rqa_result c, disc E KBillingEvent @ enc_billing_event (cleared_event bump)),
         (rqa_request_state c, disc E KArciumRequestState @ enc_arcium_request request')] s s'"
proof -
  let ?bump = "snd (find_pda E [billing_event_seed, key_bytes (rqa_mandate c), u64_le pulls] program_id)"
  from assms(1) obtain plan event request request' s0 s1 l config n off' a b where
    r: "be_created_at event = i64_of 0"
    "open_request E A c KBillingEvent dec_billing_event billing_event_size
       [billing_event_seed, key_bytes (rqa_mandate c), u64_le pulls]
       (billing_request_seeds (rqa_mandate c) pulls) s = Inr (event, request, s0)"
    "load_mandate_account E s0 (rqa_mandate c) = Inr l"
    "start_arcium_request request (rqa_mandate c) FlowBillingRecord (u64_le pulls) off' n
       (snd (find_pda E (billing_request_seeds (rqa_mandate c) pulls) program_id)) (unix_timestamp E) = Inr request'"
    "write_mandate E (rqa_mandate c) (lm_into_current l\<lparr>md_billing_request_nonce := n\<rparr>) (lm_is_legacy l) s0 = Inr s1" and
    q: "queue_request E A c config RECORD_BILLING_EVENT_CALLBACK_DISCRIMINATOR RECORD_BILLING_EVENT_CIRCUIT
        off' a b
        [(rqa_result c, disc E KBillingEvent @ enc_billing_event (cleared_event ?bump)),
         (rqa_request_state c, disc E KArciumRequestState @ enc_arcium_request request')] s1 = Inr s'"
    unfolding request_billing_record_def Let_def case_sum_Inr case_prod_unfold
    by (elim exE conjE) (auto simp: case_sum_Inr split: if_splits)
  from queue_request_Inr [OF q assms(2)] show thesis
    using r that unfolding request_done_def nonce_update_def signer_exit_def by (metis (no_types))
qed

section \<open>What the three callbacks do\<close>

text \<open>The pending request a callback answers, and the cluster that has to have signed the output.\<close>

definition answers ::
  "env \<Rightarrow> ('c, 'o) arcium \<Rightarrow> callback_accounts \<Rightarrow> arcium_request_flow \<Rightarrow> u8 list \<Rightarrow> arcium_request \<Rightarrow> 'c \<Rightarrow> store \<Rightarrow> bool" where
  "answers E A c flow subject request cluster s \<longleftrightarrow>
     anchor_account E KArciumRequestState dec_arcium_request s (cba_request_state c) = Inr request \<and>
     rq_mandate request = cba_mandate c \<and> rq_flow request = flow \<and> rq_subject request = subject \<and>
     rq_status request = RequestPending \<and>
     (\<exists>cluster_id. cba_cluster_account c = derive_cluster_pubkey E A cluster_id \<and>
        cba_computation_account c = derive_computation_pubkey E A cluster_id (rq_computation_offset request)) \<and>
     deserialize_cluster A s (cba_cluster_account c) = Inr cluster"

lemma bind_callback_Inr:
  assumes "bind_callback E A c circuits request flow subject s = Inr cluster"
    "anchor_account E KArciumRequestState dec_arcium_request s (cba_request_state c) = Inr request"
  shows "answers E A c flow subject request cluster s"
  using assms unfolding answers_def bind_callback_def Let_def
  by (auto simp: case_sum_Inr require_all_Inr validate_pending_arcium_request_def validate_callback_binding_def
      split: if_splits)

lemma validate_mandate_callback_Inr:
  assumes "validate_mandate_callback E A c output s = Inr s'"
  obtains request cluster approval mandate result period_start period_end valid_until bump where
    "answers E A c FlowValidation (i64_le (md_next_payment_due mandate)) request cluster s"
    "anchor_account E KPullApproval dec_pull_approval s (cba_result c) = Inr approval"
    "anchor_account E KVelaMandate dec_vela_mandate s (cba_mandate c) = Inr mandate"
    "verify_validation A output cluster (cba_computation_account c) (s (cba_computation_account c)) = Some result"
    "md_status mandate = MandateActive" "md_billing_type mandate = Flat"
    "mandate_billing_period mandate = Inr (period_start, period_end)"
    "i64_checked_add (unix_timestamp E) (i64_of PULL_APPROVAL_TTL_SECONDS) = Some valid_until"
    "exit_all
        [(cba_request_state c, disc E KArciumRequestState @
            enc_arcium_request (request\<lparr>rq_status := RequestCompleted, rq_completed_at := unix_timestamp E\<rparr>)),
         (cba_result c, disc E KPullApproval @ enc_pull_approval
            (granted_approval (cba_mandate c) period_start period_end valid_until result (md_amount mandate)
               (unix_timestamp E) bump))] s = Inr s'"
proof -
  from assms obtain request cluster approval mandate result period_start period_end valid_until bump request' where
    a: "anchor_account E KArciumRequestState dec_arcium_request s (cba_request_state c) = Inr request"
    "bind_callback E A c [VALIDATE_MANDATE_CIRCUIT] request FlowValidation (i64_le (md_next_payment_due mandate)) s =
       Inr cluster" and
    r: "anchor_account E KPullApproval dec_pull_approval s (cba_result c) = Inr approval"
    "anchor_account E KVelaMandate dec_vela_mandate s (cba_mandate c) = Inr mandate"
    "verify_validation A output cluster (cba_computation_account c) (s (cba_computation_account c)) = Some result"
    "md_status mandate = MandateActive" "md_billing_type mandate = Flat"
    "mandate_billing_period mandate = Inr (period_start, period_end)"
    "i64_checked_add (unix_timestamp E) (i64_of PULL_APPROVAL_TTL_SECONDS) = Some valid_until" and
    c: "complete_arcium_request request (unix_timestamp E) = Inr request'" and
    x: "exit_all
        [(cba_request_state c, disc E KArciumRequestState @ enc_arcium_request request'),
         (cba_result c, disc E KPullApproval @ enc_pull_approval
            (granted_approval (cba_mandate c) period_start period_end valid_until result (md_amount mandate)
               (unix_timestamp E) bump))] s = Inr s'"
    unfolding validate_mandate_callback_def Let_def case_sum_Inr case_prod_unfold
    by (elim exE conjE) (auto simp: case_sum_Inr require_all_Inr ok_or_Inr simp del: exit_all.simps split: if_splits)
  have "request' = request\<lparr>rq_status := RequestCompleted, rq_completed_at := unix_timestamp E\<rparr>"
    using c by (simp add: complete_arcium_request_def split: if_splits)
  from that [OF bind_callback_Inr [OF a(2,1)] r x [unfolded this]] show thesis .
qed

lemma usage_charge_callback_Inr:
  assumes "usage_charge_callback E A c output s = Inr s'"
  obtains request cluster approval mandate report charge period_start period_end valid_until bump where
    "answers E A c FlowUsageComputation (i64_le (ur_period_start report)) request cluster s"
    "anchor_account E KPullApproval dec_pull_approval s (cba_result c) = Inr approval"
    "anchor_account E KVelaMandate dec_vela_mandate s (cba_mandate c) = Inr mandate"
    "anchor_account E KUsageReport dec_usage_report s (cba_usage_report c) = Inr report"
    "verify_charge A output cluster (cba_computation_account c) (s (cba_computation_account c)) = Some charge"
    "md_status mandate = MandateActive" "md_billing_type mandate = Usage" "\<not> ur_settled report"
    "ur_mandate report = cba_mandate c" "ur_period_start report = period_start" "ur_period_end report = period_end"
    "charge \<le> md_amount mandate"
    "mandate_billing_period mandate = Inr (period_start, period_end)"
    "i64_checked_add (unix_timestamp E) (i64_of PULL_APPROVAL_TTL_SECONDS) = Some valid_until"
    "exit_all
        [(cba_request_state c, disc E KArciumRequestState @
            enc_arcium_request (request\<lparr>rq_status := RequestCompleted, rq_completed_at := unix_timestamp E\<rparr>)),
         (cba_result c, disc E KPullApproval @ enc_pull_approval
            (granted_approval (cba_mandate c) period_start period_end valid_until True charge
               (unix_timestamp E) bump)),
         (cba_usage_report c, disc E KUsageReport @ enc_usage_report report)] s = Inr s'"
proof -
  from assms obtain request cluster approval mandate report charge period_start period_end valid_until bump request' where
    a: "anchor_account E KArciumRequestState dec_arcium_request s (cba_request_state c) = Inr request"
    "bind_callback E A c [USAGE_CHARGE_CIRCUIT, TIERED_PRICING_CIRCUIT] request FlowUsageComputation
       (i64_le (ur_period_start report)) s = Inr cluster" and
    r: "anchor_account E KPullApproval dec_pull_approval s (cba_result c) = Inr approval"
    "anchor_account E KVelaMandate dec_vela_mandate s (cba_mandate c) = Inr mandate"
    "anchor_account E KUsageReport dec_usage_report s (cba_usage_report c) = Inr report"
    "verify_charge A output cluster (cba_computation_account c) (s (cba_computation_account c)) = Some charge"
    "md_status mandate = MandateActive" "md_billing_type mandate = Usage" "\<not> ur_settled report"
    "ur_mandate report = cba_mandate c" "ur_period_start report = period_start" "ur_period_end report = period_end"
    "charge \<le> md_amount mandate"
    "mandate_billing_period mandate = Inr (period_start, period_end)"
    "i64_checked_add (unix_timestamp E) (i64_of PULL_APPROVAL_TTL_SECONDS) = Some valid_until" and
    c: "complete_arcium_request request (unix_timestamp E) = Inr request'" and
    x: "exit_all
        [(cba_request_state c, disc E KArciumRequestState @ enc_arcium_request request'),
         (cba_result c, disc E KPullApproval @ enc_pull_approval
            (granted_approval (cba_mandate c) period_start period_end valid_until True charge
               (unix_timestamp E) bump)),
         (cba_usage_report c, disc E KUsageReport @ enc_usage_report report)] s = Inr s'"
    unfolding usage_charge_callback_def Let_def case_sum_Inr case_prod_unfold
    by (elim exE conjE) (auto simp: case_sum_Inr require_all_Inr ok_or_Inr simp del: exit_all.simps split: if_splits)
  have "request' = request\<lparr>rq_status := RequestCompleted, rq_completed_at := unix_timestamp E\<rparr>"
    using c by (simp add: complete_arcium_request_def split: if_splits)
  from that [OF bind_callback_Inr [OF a(2,1)] r x [unfolded this]] show thesis .
qed

lemma record_billing_event_callback_Inr:
  assumes "record_billing_event_callback E A c output s = Inr s'"
  obtains request cluster event mandate plan blob bump where
    "answers E A c FlowBillingRecord (u64_le (md_pulls_executed mandate)) request cluster s"
    "anchor_account E KBillingEvent dec_billing_event s (cba_result c) = Inr event" "be_created_at event = i64_of 0"
    "anchor_account E KVelaMandate dec_vela_mandate s (cba_mandate c) = Inr mandate"
    "anchor_account E KVelaPlan dec_vela_plan s (cba_plan c) = Inr plan" "cba_plan c = md_plan mandate"
    "verify_record A output cluster (cba_computation_account c) (s (cba_computation_account c)) = Some blob"
    "cba_mandate c \<in> set (cba_writable c)"
    "exit_all
        [(cba_request_state c, disc E KArciumRequestState @
            enc_arcium_request (request\<lparr>rq_status := RequestCompleted, rq_completed_at := unix_timestamp E\<rparr>)),
         (cba_result c, disc E KBillingEvent @ enc_billing_event
            \<lparr>be_mandate = cba_mandate c, be_merchant = md_merchant mandate, be_subscriber = md_subscriber mandate,
             be_plan_id = vp_plan_id plan, be_encrypted_blob = fst blob, be_nonce = snd blob,
             be_created_at = unix_timestamp E, be_bump = bump\<rparr>),
         (cba_mandate c, disc E KVelaMandate @ enc_vela_mandate
            (mandate\<lparr>md_last_billing_recorded_pull := md_pulls_executed mandate\<rparr>))] s = Inr s'"
proof -
  from assms obtain request cluster event mandate plan blob bump request' where
    a: "anchor_account E KArciumRequestState dec_arcium_request s (cba_request_state c) = Inr request"
    "bind_callback E A c [RECORD_BILLING_EVENT_CIRCUIT] request FlowBillingRecord
       (u64_le (md_pulls_executed mandate)) s = Inr cluster" and
    r: "anchor_account E KBillingEvent dec_billing_event s (cba_result c) = Inr event" "be_created_at event = i64_of 0"
    "anchor_account E KVelaMandate dec_vela_mandate s (cba_mandate c) = Inr mandate"
    "anchor_account E KVelaPlan dec_vela_plan s (cba_plan c) = Inr plan" "cba_plan c = md_plan mandate"
    "verify_record A output cluster (cba_computation_account c) (s (cba_computation_account c)) = Some blob"
    "cba_mandate c \<in> set (cba_writable c)" and
    c: "complete_arcium_request request (unix_timestamp E) = Inr request'" and
    x: "exit_all
        [(cba_request_state c, disc E KArciumRequestState @ enc_arcium_request request'),
         (cba_result c, disc E KBillingEvent @ enc_billing_event
            \<lparr>be_mandate = cba_mandate c, be_merchant = md_merchant mandate, be_subscriber = md_subscriber mandate,
             be_plan_id = vp_plan_id plan, be_encrypted_blob = fst blob, be_nonce = snd blob,
             be_created_at = unix_timestamp E, be_bump = bump\<rparr>),
         (cba_mandate c, disc E KVelaMandate @ enc_vela_mandate
            (mandate\<lparr>md_last_billing_recorded_pull := md_pulls_executed mandate\<rparr>))] s = Inr s'"
    unfolding record_billing_event_callback_def Let_def case_sum_Inr case_prod_unfold
    by (elim exE conjE) (auto simp: case_sum_Inr require_all_Inr ok_or_Inr simp del: exit_all.simps split: if_splits)
  have "request' = request\<lparr>rq_status := RequestCompleted, rq_completed_at := unix_timestamp E\<rparr>"
    using c by (simp add: complete_arcium_request_def split: if_splits)
  from that [OF bind_callback_Inr [OF a(2,1)] r x [unfolded this]] show thesis .
qed

end
