(* ===== verification/Computation_Samples.thy ===== *)
theory Computation_Samples
  imports Computation_Guarantees Billing_Samples
begin

text \<open>
  A concrete network and concrete requests, on which the theorems about the computations are
  tried: the network takes every computation and changes nothing, and an output is the charge
  it stands for, which verifies or not as the network is made.
\<close>

section \<open>A network\<close>

definition sample_network :: "bool \<Rightarrow> (unit, u64) arcium" where
  "sample_network signs =
     \<lparr>arcium_program_id = 109, arcium_fee_pool_address = 107, arcium_clock_address = 108,
      instructions_sysvar_id = 110, cluster_pda_seed = replicate 91 0, mempool_pda_seed = replicate 101 0,
      execpool_pda_seed = replicate 102 0, comp_pda_seed = replicate 103 0, comp_def_pda_seed = replicate 104 0,
      mxe_pda_seed = replicate 105 0, sign_pda_seed = replicate 106 0, comp_def_offset = (\<lambda>name. of_nat (length name)),
      callback_allowed = (\<lambda>_. Inr ()), queue_computation = (\<lambda>_ s. Inr s), read_cluster = (\<lambda>_. Some ()),
      verify_validation = (\<lambda>_ _ _ _. if signs then Some True else None),
      verify_charge = (\<lambda>out _ _ _. if signs then Some out else None),
      verify_record = (\<lambda>_ _ _ _. if signs then Some (replicate 10 (replicate 32 0), 0) else None)\<rparr>"

lemma sample_network_simps [simp]:
  "arcium_program_id (sample_network v) = 109" "arcium_fee_pool_address (sample_network v) = 107"
  "arcium_clock_address (sample_network v) = 108" "instructions_sysvar_id (sample_network v) = 110"
  "cluster_pda_seed (sample_network v) = replicate 91 0" "mempool_pda_seed (sample_network v) = replicate 101 0"
  "execpool_pda_seed (sample_network v) = replicate 102 0" "comp_pda_seed (sample_network v) = replicate 103 0"
  "comp_def_pda_seed (sample_network v) = replicate 104 0" "mxe_pda_seed (sample_network v) = replicate 105 0"
  "sign_pda_seed (sample_network v) = replicate 106 0" "callback_allowed (sample_network v) s = Inr ()"
  "queue_computation (sample_network v) q s = Inr s" "read_cluster (sample_network v) bs = Some ()"
  "verify_validation (sample_network v) out cl k x = (if v then Some True else None)"
  "verify_charge (sample_network v) out cl k x = (if v then Some out else None)"
  "verify_record (sample_network v) out cl k x = (if v then Some (replicate 10 (replicate 32 0), 0) else None)"
  by (simp_all add: sample_network_def)

lemma sample_network_keeps [simp]: "network_keeps (sample_network v)"
  by (simp add: network_keeps_def)

lemma sample_network_addresses [simp]:
  "n < 256 \<Longrightarrow> 0 < n \<Longrightarrow> sample_address (replicate n 0 # r) = of_nat n"
  by (simp add: sample_address_def)

lemma sample_request_addresses [simp]: "sample_address (arcium_request_seed # r) = 24846" "sample_address (billing_event_seed # r) = 25095"
  by (simp_all add: sample_address_def arcium_request_seed_def billing_event_seed_def bytes_def)

lemma derived_sample_addresses [simp]:
  "derive_cluster_pubkey (creating_env now sg) (sample_network v) i = 91"
  "derive_mempool_pubkey (creating_env now sg) (sample_network v) i = 101"
  "derive_execpool_pubkey (creating_env now sg) (sample_network v) i = 102"
  "derive_computation_pubkey (creating_env now sg) (sample_network v) i off = 103"
  "derive_comp_def_pubkey_for_mxe (creating_env now sg) (sample_network v) nm mxe = 104"
  "derive_mxe_pubkey (creating_env now sg) (sample_network v) mxe = 105"
  by (simp_all add: derive_cluster_pubkey_def derive_mempool_pubkey_def derive_execpool_pubkey_def
      derive_computation_pubkey_def derive_comp_def_pubkey_for_mxe_def derive_mxe_pubkey_def arcium_pda_def)

section \<open>A pending request and its callback\<close>

definition sample_request :: "arcium_request_flow \<Rightarrow> u8 list \<Rightarrow> arcium_request" where
  "sample_request flow subject =
     \<lparr>rq_mandate = 27911, rq_flow = flow, rq_subject = subject, rq_computation_offset = 5, rq_request_nonce = 1,
      rq_status = RequestPending, rq_created_at = i64_of 7300, rq_completed_at = i64_of 0, rq_bump = 255,
      rq_version = CURRENT_ACCOUNT_VERSION, rq_reserved = replicate 32 0\<rparr>"

definition requested_store :: store where
  "requested_store = (billing_store sample_mandate)
     (24846 := owned_by program_id (sample_disc KArciumRequestState @
        enc_arcium_request (sample_request FlowValidation (i64_le (i64_of 7300)))))"

definition sample_callback :: callback_accounts where
  "sample_callback =
     \<lparr>cba_arcium_program = 109, cba_comp_def_account = 104, cba_mxe_account = 105, cba_computation_account = 103,
      cba_cluster_account = 91, cba_instructions_sysvar = 110, cba_request_state = 24846, cba_result = 24840,
      cba_config = 25350, cba_mandate = 27911, cba_usage_report = 29964, cba_plan = 28676,
      cba_writable = [24846, 24840]\<rparr>"

lemma sample_request_reads:
  "anchor_account (creating_env now sg) KArciumRequestState dec_arcium_request requested_store 24846 =
     Inr (sample_request FlowValidation (i64_le (i64_of 7300)))"
  using arcium_request_codec.try_deserialize_enc [of "sample_request FlowValidation (i64_le (i64_of 7300))"
      "creating_env now sg" KArciumRequestState "[]"]
  by (simp add: anchor_account_Inr requested_store_def sample_request_def valid_arcium_request_def)

lemma requested_store_simps [simp]:
  "k \<noteq> 24846 \<Longrightarrow> requested_store k = billing_store sample_mandate k"
  "requested_store 24846 = owned_by program_id (sample_disc KArciumRequestState @
     enc_arcium_request (sample_request FlowValidation (i64_le (i64_of 7300))))"
  by (simp_all add: requested_store_def)

lemma requested_store_loads:
  "anchor_account (creating_env now sg) KPullApproval dec_pull_approval requested_store 24840 = Inr sample_approval"
  "anchor_account (creating_env now sg) KVelaMandate dec_vela_mandate requested_store 27911 = Inr sample_mandate"
  "load_protocol_config (creating_env now sg) requested_store 25350 = Inr (CurrentProtocolConfig sample_protocol_config)"
proof -
  show "anchor_account (creating_env now sg) KPullApproval dec_pull_approval requested_store 24840 = Inr sample_approval"
    using sample_approval_reads by (simp add: anchor_account_Inr)
  show "anchor_account (creating_env now sg) KVelaMandate dec_vela_mandate requested_store 27911 = Inr sample_mandate"
    using sample_mandates_ok(1) vela_mandate_codec.try_deserialize_enc [of sample_mandate "creating_env now sg" KVelaMandate "[]"]
    by (simp add: anchor_account_Inr)
  show "load_protocol_config (creating_env now sg) requested_store 25350 = Inr (CurrentProtocolConfig sample_protocol_config)"
    using sample_configs_load(1) [of now sg sample_mandate] by (simp add: load_protocol_config_def)
qed

lemma sample_mandate_period: "mandate_billing_period sample_mandate = Inr (i64_of 3700, i64_of 7300)"
  by (simp add: mandate_billing_period_def i64_try_from_u64_def i64_checked_sub_def in_i64_def)

lemma sample_config_cluster [simp]:
  "cluster_id_from_offset (pc_cluster_offset sample_protocol_config) = Inr 456"
  "pc_cluster_pubkey sample_protocol_config = 91"
  "validate_protocol_config (creating_env now sg) (sample_network v) sample_protocol_config = Inr ()"
proof -
  show c: "cluster_id_from_offset (pc_cluster_offset sample_protocol_config) = Inr 456" "pc_cluster_pubkey sample_protocol_config = 91"
    by (simp_all add: sample_protocol_config_def new_protocol_config_def cluster_id_from_offset_def)
  show "validate_protocol_config (creating_env now sg) (sample_network v) sample_protocol_config = Inr ()"
    by (simp add: validate_protocol_config_def validate_cluster_configuration_def c)
qed

definition sample_granted :: pull_approval where
  "sample_granted = granted_approval 27911 (i64_of 3700) (i64_of 7300) (i64_of 11000) True 5 (i64_of 7400) 255"

definition answered_store :: store where
  "answered_store = set_data
     (set_data requested_store 24846 (sample_disc KArciumRequestState @ enc_arcium_request
        (sample_request FlowValidation (i64_le (i64_of 7300))\<lparr>rq_status := RequestCompleted, rq_completed_at := i64_of 7400\<rparr>)))
     24840 (sample_disc KPullApproval @ enc_pull_approval sample_granted)"

lemma sample_request_length [simp]:
  "length (enc_arcium_request (sample_request FlowValidation (i64_le d))) = 108"
  "length (enc_arcium_request (sample_request FlowValidation (i64_le d)\<lparr>rq_status := st, rq_completed_at := t\<rparr>)) = 108"
  by (rule arcium_request_codec.length_enc, simp add: sample_request_def valid_arcium_request_def)+

lemma sample_approval_length [simp]: "length (enc_pull_approval a) = 74"
  by (rule pull_approval_codec.length_enc) (simp add: valid_pull_approval_def)

lemma sample_binding:
  "bind_callback (creating_env now sg) (sample_network v) sample_callback [VALIDATE_MANDATE_CIRCUIT]
     (sample_request FlowValidation (i64_le (i64_of 7300))) FlowValidation (i64_le (i64_of 7300)) requested_store = Inr ()"
  using requested_store_loads(3)
  by (simp add: bind_callback_def sample_callback_def Let_def validate_static_callback_accounts_def
      validate_pending_arcium_request_def sample_request_def validate_callback_binding_def deserialize_cluster_def)

lemma sample_validation_answered:
  "validate_mandate_callback (creating_env (i64_of 7400) sg) (sample_network True) sample_callback 0 requested_store =
     Inr answered_store"
proof -
  have c: "cba_request_state sample_callback = 24846" "cba_result sample_callback = 24840" "cba_mandate sample_callback = 27911"
    "cba_computation_account sample_callback = 103"
    by (simp_all add: sample_callback_def)
  have k: "require_all (callback_constraints (sample_network True) (creating_env (i64_of 7400) sg) sample_callback
      (validation_request_seeds 27911 (i64_of 7300) @ [[b]]) [pull_approval_seed, key_bytes 27911]) = Inr ()" for b
    by (simp add: callback_constraints_def sample_callback_def validation_request_seeds_def)
  have t: "i64_checked_add (i64_of 7400) (i64_of PULL_APPROVAL_TTL_SECONDS) = Some (i64_of 11000)"
    by (simp add: i64_checked_add_def PULL_APPROVAL_TTL_SECONDS_def in_i64_def)
  have r: "complete_arcium_request (sample_request FlowValidation (i64_le (i64_of 7300))) (i64_of 7400) =
      Inr (sample_request FlowValidation (i64_le (i64_of 7300))\<lparr>rq_status := RequestCompleted, rq_completed_at := i64_of 7400\<rparr>)"
    by (simp add: complete_arcium_request_def sample_request_def)
  show ?thesis
    using k
    by (simp add: validate_mandate_callback_def c sample_request_reads requested_store_loads sample_binding t r Let_def
        sample_mandate_period anchor_exit_def answered_store_def sample_granted_def)
qed

section \<open>A usage request\<close>

definition sample_committed_report :: usage_report where
  "sample_committed_report = sample_report
     \<lparr>ur_computation_ciphertext := replicate 32 7 #
        usage_plan_terms_hash_from_parts (creating_env (i64_of 7300) []) 29962 1 0 (up_tiers sample_metered_plan) 1 70 3600 #
        replicate 11 (replicate 32 0)\<rparr>"

definition reported_store :: store where
  "reported_store = (billing_store sample_metered_mandate)
     (24840 := \<lparr>acc_owner = 0, acc_lamports = 0, acc_data = []\<rparr>,
      29964 := owned_by program_id (sample_disc KUsageReport @ enc_usage_report sample_committed_report))"

definition sample_usage_request :: request_accounts where
  "sample_usage_request =
     \<lparr>rqa_payer = 4, rqa_config = 25350, rqa_mxe_account = 105, rqa_sign_pda_account = 106, rqa_mempool_account = 101,
      rqa_executing_pool = 102, rqa_computation_account = 103, rqa_comp_def_account = 104, rqa_cluster_account = 91,
      rqa_pool_account = 107, rqa_clock_account = 108, rqa_plan = 29962, rqa_mandate = 27911, rqa_usage_report = 29964,
      rqa_result = 24840, rqa_request_state = 24846, rqa_system_program = system_program_id, rqa_arcium_program = 109\<rparr>"

lemma sample_usage_request_simps [simp]:
  "rqa_payer sample_usage_request = 4" "rqa_config sample_usage_request = 25350"
  "rqa_mxe_account sample_usage_request = 105" "rqa_sign_pda_account sample_usage_request = 106"
  "rqa_mempool_account sample_usage_request = 101" "rqa_executing_pool sample_usage_request = 102"
  "rqa_computation_account sample_usage_request = 103" "rqa_comp_def_account sample_usage_request = 104"
  "rqa_cluster_account sample_usage_request = 91" "rqa_pool_account sample_usage_request = 107"
  "rqa_clock_account sample_usage_request = 108" "rqa_plan sample_usage_request = 29962"
  "rqa_mandate sample_usage_request = 27911" "rqa_usage_report sample_usage_request = 29964"
  "rqa_result sample_usage_request = 24840" "rqa_request_state sample_usage_request = 24846"
  "rqa_system_program sample_usage_request = system_program_id" "rqa_arcium_program sample_usage_request = 109"
  by (simp_all add: sample_usage_request_def)

lemma sample_committed_fields [simp]:
  "ur_mandate sample_committed_report = 27911" "ur_merchant sample_committed_report = 1"
  "ur_period_start sample_committed_report = i64_of 3700" "ur_period_end sample_committed_report = i64_of 7300"
  "\<not> ur_settled sample_committed_report" "ur_ciphertext_count sample_committed_report = 1"
  "ur_computation_ciphertext sample_committed_report ! 0 = replicate 32 7" "ur_bump sample_committed_report = 255"
  "ur_computation_ciphertext sample_committed_report ! 1 =
     usage_plan_terms_hash_from_parts (creating_env now sg) 29962 1 0 (up_tiers sample_metered_plan) 1 70 3600"
  by (simp_all add: sample_committed_report_def sample_report_def usage_plan_terms_hash_from_parts_def
      creating_env_def sample_env_def)

lemma sample_committed_valid: "valid_usage_report sample_committed_report"
  by (simp add: valid_usage_report_def sample_committed_report_def sample_report_def
      usage_plan_terms_hash_from_parts_def creating_env_def sample_env_def MAX_USAGE_COMPUTATION_CIPHERTEXTS_def)

lemma reported_inputs:
  "usage_request_inputs (creating_env now sg) sample_usage_request reported_store =
     Inr (sample_metered_plan, sample_committed_report)"
proof -
  have v: "valid_usage_plan sample_metered_plan"
    by (simp add: valid_usage_plan_def sample_metered_plan_def)
  have a: "anchor_account (creating_env now sg) KUsagePlan dec_usage_plan reported_store 29962 = Inr sample_metered_plan"
    using usage_plan_codec.try_deserialize_enc [OF v, of "creating_env now sg" KUsagePlan "[]"]
    by (simp add: anchor_account_Inr reported_store_def)
  have b: "anchor_account (creating_env now sg) KUsageReport dec_usage_report reported_store 29964 = Inr sample_committed_report"
    using usage_report_codec.try_deserialize_enc [OF sample_committed_valid, of "creating_env now sg" KUsageReport "[]"]
    by (simp add: anchor_account_Inr reported_store_def)
  show ?thesis by (simp add: usage_request_inputs_def a b)
qed

text \<open>Fresh accounts read as an empty approval and an empty record.\<close>

definition empty_request :: arcium_request where
  "empty_request =
     \<lparr>rq_mandate = 0, rq_flow = FlowValidation, rq_subject = replicate 8 0, rq_computation_offset = 0,
      rq_request_nonce = 0, rq_status = RequestPending, rq_created_at = i64_of 0, rq_completed_at = i64_of 0,
      rq_bump = 0, rq_version = 0, rq_reserved = replicate 32 0\<rparr>"

lemma le_bytes_zero: "le_bytes n (0 :: 'a::len word) = replicate n 0"
  by (simp add: le_bytes_def map_replicate_const)

lemma i64_le_zero [simp]: "i64_le (i64_of 0) = replicate 8 0"
  by (simp add: i64_le_def i64_of_def le_bytes_zero)

lemma zero_approval_reads: "dec_pull_approval (replicate 74 0) = Some (cleared_approval 0, [])"
proof -
  have "enc_pull_approval (cleared_approval 0) = replicate 74 0"
    by (rule replicate_eqI)
      (auto simp: enc_pull_approval_def cleared_approval_def le_bytes_zero)
  then show ?thesis using pull_approval_codec.dec_enc [of "cleared_approval 0" "[]"] by (simp add: valid_pull_approval_def)
qed

lemma zero_request_reads: "dec_arcium_request (replicate 108 0) = Some (empty_request, [])"
proof -
  have v: "valid_arcium_request empty_request" by (simp add: valid_arcium_request_def empty_request_def)
  have "enc_arcium_request empty_request = replicate 108 0"
    by (rule replicate_eqI) (use arcium_request_codec.length_enc [OF v] in
      \<open>auto simp: enc_arcium_request_def empty_request_def le_bytes_zero\<close>)
  then show ?thesis using arcium_request_codec.dec_enc [OF v, of "[]"] by simp
qed

definition fresh_account :: "nat \<Rightarrow> account" where
  "fresh_account n = \<lparr>acc_owner = program_id, acc_lamports = 0, acc_data = replicate n 0\<rparr>"

lemma fresh_account_simps [simp]:
  "acc_owner (fresh_account n) = program_id" "acc_data (fresh_account n) = replicate n 0" "acc_lamports (fresh_account n) = 0"
  by (simp_all add: fresh_account_def)

definition opened_store :: store where
  "opened_store = reported_store(106 := fresh_account 9, 24840 := fresh_account 82, 24846 := fresh_account 116)"

lemma system_program_zero: "system_program_id = 0"
  by (simp add: system_program_id_def)

lemma init_fresh:
  assumes "acc_owner (s k) = system_program_id" "sample_address seeds = k" "dec (replicate (n - 8) 0) = Some (x, r)"
  shows "init_if_needed (creating_env now sg) p kd dec n seeds k s = Inr (x, s(k := fresh_account n))"
  using assms by (simp add: init_if_needed_def sample_invoke_def fresh_account_def)

lemma sample_accounts_open:
  "open_request (creating_env now [4]) (sample_network v) sample_usage_request KPullApproval dec_pull_approval pull_approval_size
     [pull_approval_seed, key_bytes 27911] (usage_request_seeds 27911 d) reported_store =
     Inr (cleared_approval 0, empty_request, opened_store)"
proof -
  have c: "require_all (request_constraints (creating_env now [4]) (sample_network v) sample_usage_request) = Inr ()"
    by (simp add: request_constraints_def is_signer_def)
  have own: "acc_owner (reported_store 106) = system_program_id" "acc_owner (reported_store 24840) = system_program_id"
    "acc_owner (reported_store 24846) = system_program_id"
    by (simp_all add: reported_store_def billing_store_def sample_store_def sample_config_accounts_def system_program_zero)
  have one: "init_if_needed (creating_env now [4]) 4 KArciumSigner dec_u8 9 [replicate 106 0] 106 reported_store =
      Inr (0, reported_store(106 := fresh_account 9))"
    by (rule init_fresh) (simp_all add: own)
  have two: "init_if_needed (creating_env now [4]) 4 KPullApproval dec_pull_approval 82 [pull_approval_seed, key_bytes 27911] 24840
      (reported_store(106 := fresh_account 9)) = Inr (cleared_approval 0, reported_store(106 := fresh_account 9, 24840 := fresh_account 82))"
    by (rule init_fresh) (simp_all add: own zero_approval_reads)
  have three: "init_if_needed (creating_env now [4]) 4 KArciumRequestState dec_arcium_request 116 (usage_request_seeds 27911 d) 24846
      (reported_store(106 := fresh_account 9, 24840 := fresh_account 82)) = Inr (empty_request, opened_store)"
    by (subst init_fresh) (simp_all add: own zero_request_reads opened_store_def usage_request_seeds_def)
  show ?thesis
    by (simp add: open_request_def c arcium_signer_size_def one two three pull_approval_size_def arcium_request_size_def)
qed

lemma opened_store_simps [simp]:
  "opened_store 24840 = fresh_account 82" "opened_store 24846 = fresh_account 116" "opened_store 106 = fresh_account 9"
  "opened_store 29964 = owned_by program_id (sample_disc KUsageReport @ enc_usage_report sample_committed_report)"
  "opened_store 27911 = owned_by program_id (sample_disc KVelaMandate @ enc_vela_mandate sample_metered_mandate)"
  "opened_store 25350 = owned_by program_id (sample_disc KProtocolConfig @ enc_protocol_config sample_protocol_config)"
  by (simp_all add: opened_store_def reported_store_def)

lemma opened_store_loads:
  "load_mandate_account (creating_env now sg) opened_store 27911 = Inr (CurrentMandate sample_metered_mandate)"
  "load_protocol_config (creating_env now sg) opened_store 25350 = Inr (CurrentProtocolConfig sample_protocol_config)"
proof -
  have "load_mandate_account (creating_env now sg) (billing_store sample_metered_mandate) 27911 =
      Inr (CurrentMandate sample_metered_mandate)"
    using current_mandate_sample [OF sample_mandates_ok(2)] by (simp add: current_mandate_Inr)
  then show "load_mandate_account (creating_env now sg) opened_store 27911 = Inr (CurrentMandate sample_metered_mandate)"
    by (simp add: load_mandate_account_def)
  show "load_protocol_config (creating_env now sg) opened_store 25350 = Inr (CurrentProtocolConfig sample_protocol_config)"
    using sample_configs_load(1) [of now sg sample_mandate] by (simp add: load_protocol_config_def)
qed

lemma sample_metered_period: "mandate_billing_period sample_metered_mandate = Inr (i64_of 3700, i64_of 7300)"
  by (simp add: mandate_billing_period_def i64_try_from_u64_def i64_checked_sub_def in_i64_def)

lemma sample_metered_fields [simp]:
  "up_merchant sample_metered_plan = 1" "up_plan_id sample_metered_plan = 0" "up_tier_count sample_metered_plan = 1"
  "up_max_charge_per_period sample_metered_plan = 70" "up_settlement_frequency sample_metered_plan = 3600"
  "md_validation_request_nonce sample_metered_mandate = 0"
  by (simp_all add: sample_metered_plan_def sample_metered_mandate_def new_mandate_def)

lemma sample_pricing_bounds:
  "validate_usage_pricing_bounds (take 1 (up_tiers sample_metered_plan)) 70 = Inr ()"
  by (simp add: sample_metered_plan_def validate_usage_pricing_bounds_def word_le_nat_alt safe_bounds)

definition sample_usage_offset :: u64 where
  "sample_usage_offset = derive_usage_computation_offset (creating_env (i64_of 7300) [4]) 27911 (i64_of 3700) 1"

definition started_request :: arcium_request where
  "started_request =
     \<lparr>rq_mandate = 27911, rq_flow = FlowUsageComputation, rq_subject = i64_le (i64_of 3700),
      rq_computation_offset = sample_usage_offset, rq_request_nonce = 1, rq_status = RequestPending,
      rq_created_at = i64_of 7300, rq_completed_at = i64_of 0, rq_bump = 255, rq_version = CURRENT_ACCOUNT_VERSION,
      rq_reserved = replicate 32 0\<rparr>"

lemma started_request_length [simp]: "length (enc_arcium_request started_request) = 108"
  by (rule arcium_request_codec.length_enc) (simp add: started_request_def valid_arcium_request_def)

lemma sample_usage_started:
  "start_arcium_request empty_request 27911 FlowUsageComputation (i64_le (i64_of 3700)) sample_usage_offset 1 255
     (i64_of 7300) = Inr started_request"
  by (simp add: start_arcium_request_def empty_request_def started_request_def)

lemma sample_nonce_written:
  "\<exists>s1. write_mandate (creating_env now sg) 27911 (sample_metered_mandate\<lparr>md_validation_request_nonce := 1\<rparr>) False
     opened_store = Inr s1 \<and> (\<forall>k. k \<noteq> 27911 \<longrightarrow> s1 k = opened_store k)"
proof -
  let ?m = "sample_metered_mandate\<lparr>md_validation_request_nonce := 1\<rparr>"
  have "length (enc_vela_mandate ?m) = 260" "length (enc_vela_mandate sample_metered_mandate) = 260"
    by (rule vela_mandate_codec.length_enc, use sample_mandates_ok(2) in \<open>simp add: valid_vela_mandate_def\<close>)+
  then show ?thesis by (auto simp: write_mandate_def write_account_Inr)
qed

lemma sample_usage_queued:
  assumes "s1 24840 = fresh_account 82" "s1 24846 = fresh_account 116" "s1 106 = fresh_account 9"
    "s1 29964 = owned_by program_id (sample_disc KUsageReport @ enc_usage_report sample_committed_report)"
  shows "\<exists>s'. queue_request (creating_env now [4]) (sample_network v) sample_usage_request sample_protocol_config d circuit off args extra
    [(29964, sample_disc KUsageReport @ enc_usage_report sample_committed_report),
     (24840, sample_disc KPullApproval @ enc_pull_approval (cleared_approval b)),
     (24846, sample_disc KArciumRequestState @ enc_arcium_request started_request)] s1 = Inr s'"
  using assms
  by (simp add: queue_request_def Let_def build_callback_instruction_def anchor_exit_def)

lemma cleared_never_stands: "\<not> approval_stands (cleared_approval b) k d e now"
  by (simp add: approval_stands_def cleared_approval_def)

lemma sample_usage_requested:
  "\<exists>s'. request_usage_computation (creating_env (i64_of 7300) [4]) (sample_network v) sample_usage_request
     sample_usage_offset reported_store = Inr s'"
proof -
  let ?E = "creating_env (i64_of 7300) [4]"
  from sample_nonce_written [of "i64_of 7300" "[4]"] obtain s1 where
    w: "write_mandate ?E 27911 (sample_metered_mandate\<lparr>md_validation_request_nonce := 1\<rparr>) False opened_store = Inr s1" and
    s1: "\<And>k. k \<noteq> 27911 \<Longrightarrow> s1 k = opened_store k" by blast
  from sample_usage_queued [of s1] s1 obtain s' where
    q: "queue_request ?E (sample_network v) sample_usage_request sample_protocol_config
       USAGE_COMPUTATION_CALLBACK_DISCRIMINATOR (usage_circuit sample_metered_plan) sample_usage_offset
       (usage_args sample_metered_plan sample_committed_report)
       [(24846, True), (24840, True), (25350, False), (27911, False), (29964, True)]
    [(29964, sample_disc KUsageReport @ enc_usage_report sample_committed_report),
     (24840, sample_disc KPullApproval @ enc_pull_approval (cleared_approval 255)),
     (24846, sample_disc KArciumRequestState @ enc_arcium_request started_request)] s1 = Inr s'"
    by fastforce
  have offset: "derive_usage_computation_offset ?E 27911 (i64_of 3700) 1 = sample_usage_offset"
    by (simp add: sample_usage_offset_def)
  have queue: "validate_queue_accounts ?E (sample_network v) sample_usage_request (pc_cluster_offset sample_protocol_config)
      off circuit mxe = Inr ()" for off circuit mxe
    by (simp add: validate_queue_accounts_def)
  have nonce: "checked_add (0 :: u64) 1 = Some 1" by (simp add: checked_add_def)
  note hash = sample_committed_fields(9) [of "i64_of 7300" "[4]"]
  show ?thesis
    by (simp add: request_usage_computation_def Let_def reported_inputs sample_accounts_open opened_store_loads
        sample_address_checks sample_metered_period offset nonce queue hash [unfolded One_nat_def] sample_pricing_bounds [unfolded One_nat_def] cleared_never_stands
        sample_usage_started w q USAGE_UNITS_CIPHERTEXT_COUNT_def less_eq_i64_def)
qed

end
