(* ===== verification/Computation_Safety.thy ===== *)
theory Computation_Safety
  imports Computation_Samples
begin

text \<open>
  What every sequence of requests and callbacks guarantees: an approval comes only from a
  verified output for the pending request of its mandate and period; a request whose
  computation never verifies stays pending; a recorded billing event is final; and of a
  mandate only the counters of the requests change.
\<close>

section \<open>The calls\<close>

datatype 'o computation_call =
    RequestValidation request_accounts u64 i64 "u8 list list" "u8 list" u128
  | RequestUsage request_accounts u64
  | RequestRecord request_accounts u64 u64
  | ValidationCallback callback_accounts 'o
  | UsageCallback callback_accounts 'o
  | RecordCallback callback_accounts 'o

fun do_computation_call :: "('c, 'o) arcium \<Rightarrow> env \<times> 'o computation_call \<Rightarrow> store \<Rightarrow> verror + store" where
  "do_computation_call A (E, RequestValidation c off due cts key nonce) s = request_validation E A c off due cts key nonce s"
| "do_computation_call A (E, RequestUsage c off) s = request_usage_computation E A c off s"
| "do_computation_call A (E, RequestRecord c off pulls) s = request_billing_record E A c off pulls s"
| "do_computation_call A (E, ValidationCallback c out) s = validate_mandate_callback E A c out s"
| "do_computation_call A (E, UsageCallback c out) s = usage_charge_callback E A c out s"
| "do_computation_call A (E, RecordCallback c out) s = record_billing_event_callback E A c out s"

fun requested_record :: "'o computation_call \<Rightarrow> pubkey option" where
  "requested_record (RequestValidation c _ _ _ _ _) = Some (rqa_request_state c)"
| "requested_record (RequestUsage c _) = Some (rqa_request_state c)"
| "requested_record (RequestRecord c _ _) = Some (rqa_request_state c)"
| "requested_record _ = None"

text \<open>What the runtime grants every call: the same addresses and discriminators, and its rules.\<close>

definition computation_runtime :: "env \<Rightarrow> ('c, 'o) arcium \<Rightarrow> env \<times> 'o computation_call \<Rightarrow> bool" where
  "computation_runtime E A x \<longleftrightarrow>
     same_program E x \<and> find_pda (fst x) = find_pda E \<and> creates_fresh (fst x) \<and> distinct_discriminators (fst x) \<and>
     network_keeps A"

lemma computation_runtimeD:
  assumes "computation_runtime E A (E', call)"
  shows "disc E' = disc E" "find_pda E' = find_pda E" "keeps_program_accounts E'" "creates_fresh E'"
    "distinct_discriminators E'" "network_keeps A"
  using assms by (simp_all add: computation_runtime_def same_program_def)

lemma anchor_account_disc:
  "disc E' = disc E \<Longrightarrow> anchor_account E' kd dec s k = anchor_account E kd dec s k"
  by (simp add: anchor_account_def try_deserialize_def)

section \<open>Which account is of which kind\<close>

lemma anchored_kind:
  "distinct_discriminators E \<Longrightarrow> anchor_account E kd dec s k = Inr x \<Longrightarrow> anchor_account E kd' dec' s k = Inr y \<Longrightarrow> kd = kd'"
  using anchor_account_starts [of E kd dec s k x] anchor_account_starts [of E kd' dec' s k y] distinct_discriminatorsD(2) by blast

lemma written_kind:
  "distinct_discriminators E \<Longrightarrow> acc_data (s k) = (disc E kd @ bs) @ r \<Longrightarrow> anchor_account E kd' dec s k = Inr x \<Longrightarrow> kd = kd'"
  using anchor_account_starts [of E kd' dec s k x] distinct_discriminatorsD(2) [of E "acc_data (s k)" kd kd'] by simp

lemma anchored_local:
  "acc_owner (s' k) = acc_owner (s k) \<Longrightarrow> acc_data (s' k) = acc_data (s k) \<Longrightarrow>
     anchor_account E kd dec s' k = anchor_account E kd dec s k"
  by (simp add: anchor_account_def)

lemma kept_anchored: "accounts_kept s s' \<Longrightarrow> anchor_account E kd dec s k = Inr x \<Longrightarrow> anchor_account E kd dec s' k = Inr x"
  by (auto simp: anchor_account_Inr accounts_kept_def)

lemma opened_kind:
  "distinct_discriminators E \<Longrightarrow> opened E kd s k \<Longrightarrow> anchor_account E kd' dec s k = Inr x \<Longrightarrow> kd = kd'"
  using opened_differs [of E kd s k k kd'] anchor_account_starts [of E kd' dec s k x] by blast

text \<open>What a request reads from an account it opens, and that was the program's, is what the account holds.\<close>

lemma init_if_needed_anchored:
  assumes "init_if_needed E p kd dec n seeds k s = Inr (x, s')" "keeps_program_accounts E" "creates_fresh E"
    "acc_owner (s k) = program_id"
  shows "anchor_account E kd dec s k = Inr x"
  using assms(1-3) by (cases rule: init_if_needed_Inr) (use assms(4) in \<open>auto simp: anchor_account_Inr\<close>)

lemma kept_back: "accounts_kept s s' \<Longrightarrow> acc_owner (s k) = program_id \<Longrightarrow> anchor_account E kd dec s' k = anchor_account E kd dec s k"
  by (simp add: accounts_kept_def anchor_account_def)

lemma open_request_anchored:
  assumes "open_request E A c kd dec n rs qs s = Inr (result, request, s0)"
    "keeps_program_accounts E" "creates_fresh E"
  shows "acc_owner (s (rqa_result c)) = program_id \<Longrightarrow> anchor_account E kd dec s (rqa_result c) = Inr result"
    "acc_owner (s (rqa_request_state c)) = program_id \<Longrightarrow>
       anchor_account E KArciumRequestState dec_arcium_request s (rqa_request_state c) = Inr request"
proof -
  obtain s1 s2 where r: "accounts_kept s s1" "init_if_needed E (rqa_payer c) kd dec n rs (rqa_result c) s1 = Inr (result, s2)"
    "init_if_needed E (rqa_payer c) KArciumRequestState dec_arcium_request arcium_request_size qs
       (rqa_request_state c) s2 = Inr (request, s0)"
    by (rule open_request_Inr [OF assms]) blast
  have k: "accounts_kept s s2" using accounts_kept_trans [OF r(1) init_if_needed_opens(2) [OF r(2) assms(2,3)]] .
  show "acc_owner (s (rqa_result c)) = program_id \<Longrightarrow> anchor_account E kd dec s (rqa_result c) = Inr result"
    using init_if_needed_anchored [OF r(2) assms(2,3)] kept_back [OF r(1)] accounts_kept_owner [OF r(1)] by metis
  show "acc_owner (s (rqa_request_state c)) = program_id \<Longrightarrow>
       anchor_account E KArciumRequestState dec_arcium_request s (rqa_request_state c) = Inr request"
    using init_if_needed_anchored [OF r(3) assms(2,3)] kept_back [OF k] accounts_kept_owner [OF k] by metis
qed

lemma request_reads:
  assumes "request_done E A c kd dec flow subject result request request' exits s s'"
    "keeps_program_accounts E" "creates_fresh E"
  shows "acc_owner (s (rqa_result c)) = program_id \<Longrightarrow> anchor_account E kd dec s (rqa_result c) = Inr result"
    "acc_owner (s (rqa_request_state c)) = program_id \<Longrightarrow>
       anchor_account E KArciumRequestState dec_arcium_request s (rqa_request_state c) = Inr request"
    "\<not> (rq_created_at request \<noteq> i64_of 0 \<and> rq_status request = RequestPending)"
proof -
  from assms(1) obtain n rs qs s0 off nonce bump where
    o: "open_request E A c kd dec n rs qs s = Inr (result, request, s0)" and
    st: "start_arcium_request request (rqa_mandate c) flow subject off nonce bump (unix_timestamp E) = Inr request'"
    unfolding request_done_def by blast
  note open_request_anchored [OF o assms(2,3)]
  then show "acc_owner (s (rqa_result c)) = program_id \<Longrightarrow> anchor_account E kd dec s (rqa_result c) = Inr result"
    "acc_owner (s (rqa_request_state c)) = program_id \<Longrightarrow>
       anchor_account E KArciumRequestState dec_arcium_request s (rqa_request_state c) = Inr request" by blast+
  show "\<not> (rq_created_at request \<noteq> i64_of 0 \<and> rq_status request = RequestPending)"
    using st by (simp add: start_arcium_request_def split: if_splits)
qed

section \<open>A request whose computation never verifies\<close>

text \<open>
  The network's answer to an aborted computation never verifies: no output does, against any
  cluster, for the address of the computation the request was queued with.
\<close>

definition abandoned :: "env \<Rightarrow> ('c, 'o) arcium \<Rightarrow> arcium_request \<Rightarrow> bool" where
  "abandoned E A rq \<longleftrightarrow>
     (\<forall>output cluster cluster_id x.
        let k = derive_computation_pubkey E A cluster_id (rq_computation_offset rq) in
        verify_validation A output cluster k x = None \<and> verify_charge A output cluster k x = None \<and>
        verify_record A output cluster k x = None)"

text \<open>A verified output, of the kind any of the callbacks takes.\<close>

definition verified :: "('c, 'o) arcium \<Rightarrow> 'o \<Rightarrow> 'c \<Rightarrow> pubkey \<Rightarrow> account \<Rightarrow> bool" where
  "verified A output cluster k x \<longleftrightarrow>
     verify_validation A output cluster k x \<noteq> None \<or> verify_charge A output cluster k x \<noteq> None \<or>
     verify_record A output cluster k x \<noteq> None"

lemma abandonedD:
  "abandoned E A rq \<Longrightarrow> answers E' A c flow subject rq cluster s \<Longrightarrow> find_pda E' = find_pda E \<Longrightarrow>
     \<not> verified A output cluster (cba_computation_account c) x"
  by (auto simp: verified_def abandoned_def answers_def Let_def derive_computation_pubkey_def arcium_pda_def)

abbreviation stored_request :: "env \<Rightarrow> store \<Rightarrow> pubkey \<Rightarrow> verror + arcium_request" where
  "stored_request E s k \<equiv> anchor_account E KArciumRequestState dec_arcium_request s k"

abbreviation stored_event :: "env \<Rightarrow> store \<Rightarrow> pubkey \<Rightarrow> verror + billing_event" where
  "stored_event E s k \<equiv> anchor_account E KBillingEvent dec_billing_event s k"

lemma answers_request: "answers E A c flow subject rq cluster s \<Longrightarrow> stored_request E s (cba_request_state c) = Inr rq"
  by (simp add: answers_def)

definition blocked :: "arcium_request \<Rightarrow> bool" where
  "blocked rq \<longleftrightarrow> rq_created_at rq \<noteq> i64_of 0 \<and> rq_status rq = RequestPending"

text \<open>A request that names the record of a blocked one fails.\<close>

lemma request_not_blocked:
  assumes "request_done E A c kd dec flow subject result request request' exits s s'"
    "keeps_program_accounts E" "creates_fresh E" "acc_owner (s (rqa_request_state c)) = program_id"
  shows "\<exists>rq. stored_request E s (rqa_request_state c) = Inr rq \<and> \<not> blocked rq"
  using request_reads(2,3) [OF assms(1-3)] assms(4) by (simp add: blocked_def)

lemma requested_not_blocked:
  assumes "do_computation_call A (E, call) s = Inr s'" "network_keeps A" "keeps_program_accounts E" "creates_fresh E"
    "requested_record call = Some k" "acc_owner (s k) = program_id"
  shows "\<exists>rq. stored_request E s k = Inr rq \<and> \<not> blocked rq"
proof (cases call)
  case (RequestValidation c off due cts key nonce)
  then have h: "request_validation E A c off due cts key nonce s = Inr s'" and k: "k = rqa_request_state c"
    using assms(1,5) by simp_all
  show ?thesis
    unfolding k by (rule request_validation_Inr [OF h assms(2)]) (rule request_not_blocked, assumption, use assms(3,4,6) k in simp_all)
next
  case (RequestUsage c off)
  then have h: "request_usage_computation E A c off s = Inr s'" and k: "k = rqa_request_state c"
    using assms(1,5) by simp_all
  show ?thesis
    unfolding k by (rule request_usage_Inr [OF h assms(2)]) (rule request_not_blocked, assumption, use assms(3,4,6) k in simp_all)
next
  case (RequestRecord c off pulls)
  then have h: "request_billing_record E A c off pulls s = Inr s'" and k: "k = rqa_request_state c"
    using assms(1,5) by simp_all
  show ?thesis
    unfolding k by (rule request_record_Inr [OF h assms(2)]) (rule request_not_blocked, assumption, use assms(3,4,6) k in simp_all)
qed (use assms(5) in simp_all)

text \<open>
  What a call does to an account with a discriminator: nothing, or it is a billing event without
  a date, a record a request takes, the one a verified output answers, or of another kind.
\<close>

inductive rewritten :: "env \<Rightarrow> ('c, 'o) arcium \<Rightarrow> 'o computation_call \<Rightarrow> store \<Rightarrow> pubkey \<Rightarrow> bool" for E A call s k where
  Undated: "stored_event E s k = Inr ev \<Longrightarrow> be_created_at ev = i64_of 0 \<Longrightarrow> rewritten E A call s k"
| Requested: "requested_record call = Some k \<Longrightarrow> rewritten E A call s k"
| Answered: "answers E A c flow subject rq cluster s \<Longrightarrow> cba_request_state c = k \<Longrightarrow>
    verified A output cluster (cba_computation_account c) (s (cba_computation_account c)) \<Longrightarrow> rewritten E A call s k"
| Otherwise: "starts_with (acc_data (s k)) (disc E kd) \<Longrightarrow> kd \<noteq> KBillingEvent \<Longrightarrow> kd \<noteq> KArciumRequestState \<Longrightarrow>
    rewritten E A call s k"

definition data_kept :: "store \<Rightarrow> store \<Rightarrow> pubkey \<Rightarrow> bool" where
  "data_kept s s' k \<longleftrightarrow> acc_owner (s' k) = acc_owner (s k) \<and> acc_data (s' k) = acc_data (s k)"

lemma request_rewrites:
  assumes "request_done E A c kd dec flow subject result request request' exits s s'"
    "keeps_program_accounts E" "creates_fresh E" "distinct_discriminators E"
    "acc_owner (s k) = program_id" "starts_with (acc_data (s k)) (disc E kk)"
    "requested_record call = Some (rqa_request_state c)" "kd \<noteq> KArciumRequestState"
    "\<And>j. j \<in> fst ` set exits \<Longrightarrow> j = rqa_request_state c \<or> j = rqa_result c \<or> rewritten E A call s j"
    "kd = KBillingEvent \<Longrightarrow> acc_owner (s (rqa_result c)) = program_id \<Longrightarrow> rewritten E A call s (rqa_result c)"
  shows "data_kept s s' k \<or> rewritten E A call s k"
  using assms(1-3)
proof (cases rule: request_done_Inr)
  case (1 s0 l m r s1 s2)
  have d: "starts_with (acc_data (s0 k)) (disc E kk)" using 1(1) assms(5,6) by (simp add: accounts_kept_def)
  have ow: "kk \<noteq> KBillingEvent \<Longrightarrow> kk \<noteq> KArciumRequestState \<Longrightarrow> rewritten E A call s k"
    by (rule rewritten.Otherwise, rule assms(6))
  have same: "kk = j" if "opened E j s0 k" for j using opened_differs [OF assms(4) that d] by blast
  show ?thesis
  proof (cases "k \<in> {rqa_sign_pda_account c, rqa_mandate c} \<union> fst ` set exits")
    case False
    then show ?thesis
      using kept_outsideD [OF request_done_outside [OF assms(1-3)] assms(5)] assms(5) by (simp add: data_kept_def)
  next
    case True
    then consider "k = rqa_sign_pda_account c" | "k = rqa_mandate c" | "k = rqa_request_state c" | "k = rqa_result c"
      | "rewritten E A call s k"
      using assms(9) [of k] by auto
    then have "rewritten E A call s k"
    proof cases
      assume "k = rqa_sign_pda_account c"
      then have "kk = KArciumSigner" using same 1(2) by simp
      then show ?thesis using ow by simp
    next
      assume "k = rqa_mandate c"
      then have "kk = KVelaMandate" using distinct_discriminatorsD(2) [OF assms(4) d] load_mandate_starts [OF 1(5)] by simp
      then show ?thesis using ow by simp
    next
      assume "k = rqa_result c"
      then show ?thesis using same 1(3) ow assms(5,8,10) by (cases "kd = KBillingEvent") simp_all
    qed (use assms(7) Requested in auto)
    then show ?thesis ..
  qed
qed

lemma callback_rewrites:
  assumes "exit_all exits s = Inr s'"
    "\<And>j. j \<in> fst ` set exits \<Longrightarrow> rewritten E A call s j"
  shows "data_kept s s' k \<or> rewritten E A call s k"
  using exit_all_frame [OF assms(1), of k] assms(2) [of k] by (cases "k \<in> fst ` set exits") (auto simp: data_kept_def)

lemma anchored_otherwise:
  "anchor_account E kd dec s k = Inr x \<Longrightarrow> kd \<noteq> KBillingEvent \<Longrightarrow> kd \<noteq> KArciumRequestState \<Longrightarrow> rewritten E A call s k"
  by (rule rewritten.Otherwise [of s k E kd]) (simp_all add: anchor_account_starts)

lemma call_rewrites:
  assumes "do_computation_call A (E, call) s = Inr s'" "computation_runtime E0 A (E, call)"
    "acc_owner (s k) = program_id" "starts_with (acc_data (s k)) (disc E kk)"
  shows "data_kept s s' k \<or> rewritten E A call s k"
proof -
  note rt = computation_runtimeD [OF assms(2)]
  show ?thesis
  proof (cases call)
    case (RequestValidation c off due cts key nonce)
    then have h: "request_validation E A c off due cts key nonce s = Inr s'" using assms(1) by simp
    from request_validation_Inr [OF h rt(6)] obtain approval request request' bump where d:
      "request_done E A c KPullApproval dec_pull_approval FlowValidation (i64_le due) approval request request'
        [(rqa_result c, disc E KPullApproval @ enc_pull_approval (cleared_approval bump)),
         (rqa_request_state c, disc E KArciumRequestState @ enc_arcium_request request')] s s'" by blast
    show ?thesis by (intro request_rewrites [OF d rt(3-5) assms(3,4)]) (auto simp: RequestValidation)
  next
    case (RequestUsage c off)
    then have h: "request_usage_computation E A c off s = Inr s'" using assms(1) by simp
    from request_usage_Inr [OF h rt(6)] obtain plan report approval request request' bump where
      i: "usage_request_inputs E c s = Inr (plan, report)" and d:
      "request_done E A c KPullApproval dec_pull_approval FlowUsageComputation (i64_le (ur_period_start report))
        approval request request'
        [(rqa_usage_report c, disc E KUsageReport @ enc_usage_report report),
         (rqa_result c, disc E KPullApproval @ enc_pull_approval (cleared_approval bump)),
         (rqa_request_state c, disc E KArciumRequestState @ enc_arcium_request request')] s s'" by blast
    have "anchor_account E KUsageReport dec_usage_report s (rqa_usage_report c) = Inr report"
      using i by (auto simp: usage_request_inputs_def case_sum_Inr)
    then have "rewritten E A call s (rqa_usage_report c)" by (rule anchored_otherwise) simp_all
    then show ?thesis
      by (intro request_rewrites [OF d rt(3-5) assms(3,4)]) (auto simp: RequestUsage)
  next
    case (RequestRecord c off pulls)
    then have h: "request_billing_record E A c off pulls s = Inr s'" using assms(1) by simp
    from request_record_Inr [OF h rt(6)] obtain event request request' bump where e: "be_created_at event = i64_of 0" and d:
      "request_done E A c KBillingEvent dec_billing_event FlowBillingRecord (u64_le pulls) event request request'
        [(rqa_result c, disc E KBillingEvent @ enc_billing_event (cleared_event bump)),
         (rqa_request_state c, disc E KArciumRequestState @ enc_arcium_request request')] s s'" by blast
    have "rewritten E A call s (rqa_result c)" if "acc_owner (s (rqa_result c)) = program_id"
      by (rule rewritten.Undated [OF request_reads(1) [OF d rt(3,4) that] e])
    then show ?thesis
      by (intro request_rewrites [OF d rt(3-5) assms(3,4)]) (auto simp: RequestRecord)
  next
    case (ValidationCallback c out)
    then have h: "validate_mandate_callback E A c out s = Inr s'" using assms(1) by simp
    show ?thesis
      using h
    proof (cases rule: validate_mandate_callback_Inr)
      case (1 request cluster approval mandate result period_start period_end valid_until bump)
      have "rewritten E A call s (cba_request_state c)"
        by (rule rewritten.Answered [OF 1(1) refl]) (unfold verified_def, use 1(4) in blast)
      moreover have "rewritten E A call s (cba_result c)" by (rule anchored_otherwise [OF 1(2)]) simp_all
      ultimately show ?thesis by (intro callback_rewrites [OF 1(9)]) auto
    qed
  next
    case (UsageCallback c out)
    then have h: "usage_charge_callback E A c out s = Inr s'" using assms(1) by simp
    show ?thesis
      using h
    proof (cases rule: usage_charge_callback_Inr)
      case (1 request cluster approval mandate report charge period_start period_end valid_until bump)
      have "rewritten E A call s (cba_request_state c)"
        by (rule rewritten.Answered [OF 1(1) refl]) (unfold verified_def, use 1(5) in blast)
      moreover have "rewritten E A call s (cba_result c)" by (rule anchored_otherwise [OF 1(2)]) simp_all
      moreover have "rewritten E A call s (cba_usage_report c)" by (rule anchored_otherwise [OF 1(4)]) simp_all
      ultimately show ?thesis by (intro callback_rewrites [OF 1(15)]) auto
    qed
  next
    case (RecordCallback c out)
    then have h: "record_billing_event_callback E A c out s = Inr s'" using assms(1) by simp
    show ?thesis
      using h
    proof (cases rule: record_billing_event_callback_Inr)
      case (1 request cluster event mandate plan blob bump)
      have "rewritten E A call s (cba_request_state c)"
        by (rule rewritten.Answered [OF 1(1) refl]) (unfold verified_def, use 1(7) in blast)
      moreover have "rewritten E A call s (cba_result c)" by (rule rewritten.Undated [OF 1(2,3)])
      moreover have "rewritten E A call s (cba_mandate c)" by (rule anchored_otherwise [OF 1(4)]) simp_all
      ultimately show ?thesis by (intro callback_rewrites [OF 1(9)]) auto
    qed
  qed
qed

section \<open>Over every sequence of calls\<close>

lemma data_kept_anchored: "data_kept s s' k \<Longrightarrow> anchor_account E kd dec s' k = anchor_account E kd dec s k"
  by (simp add: data_kept_def anchor_account_def)

interpretation abandoned_machine: guarded_machine "do_computation_call A" "computation_runtime E A"
  "\<lambda>s. stored_request E s k = Inr rq \<and> blocked rq \<and> abandoned E A rq" for A E k rq
proof unfold_locales
  fix x s s'
  assume good: "computation_runtime E A x" and call: "do_computation_call A x s = Inr s'"
    and i: "stored_request E s k = Inr rq \<and> blocked rq \<and> abandoned E A rq"
  obtain E' call where x: "x = (E', call)" by (cases x)
  note rt = computation_runtimeD [OF good [unfolded x]]
  have r: "stored_request E' s k = Inr rq" using i by (simp add: anchor_account_disc [OF rt(1)])
  have "\<not> rewritten E' A call s k"
  proof
    assume "rewritten E' A call s k"
    then show False
    proof cases
      case (Undated ev)
      then show ?thesis using anchored_kind [OF rt(5) r Undated(1)] by simp
    next
      case Requested
      then show ?thesis using requested_not_blocked [OF call [unfolded x] rt(6,3,4)] anchor_account_starts [OF r] r i by fastforce
    next
      case (Answered c flow subject rq' cluster out)
      have "rq' = rq" using answers_request [OF Answered(1)] Answered(2) r by simp
      with abandonedD [OF _ Answered(1) rt(2)] Answered(3) i show ?thesis by simp
    next
      case (Otherwise kd)
      then show ?thesis using anchor_account_starts [OF r] distinct_discriminatorsD(2) [OF rt(5)] by blast
    qed
  qed
  then have "data_kept s s' k" using call_rewrites [OF call [unfolded x] good [unfolded x]] anchor_account_starts [OF r] by blast
  then show "stored_request E s' k = Inr rq \<and> blocked rq \<and> abandoned E A rq" using data_kept_anchored i by metis
qed

interpretation recorded_machine: guarded_machine "do_computation_call A" "computation_runtime E A"
  "\<lambda>s. stored_event E s k = Inr ev \<and> be_created_at ev \<noteq> i64_of 0" for A E k ev
proof unfold_locales
  fix x s s'
  assume good: "computation_runtime E A x" and call: "do_computation_call A x s = Inr s'"
    and i: "stored_event E s k = Inr ev \<and> be_created_at ev \<noteq> i64_of 0"
  obtain E' call where x: "x = (E', call)" by (cases x)
  note rt = computation_runtimeD [OF good [unfolded x]]
  have r: "stored_event E' s k = Inr ev" using i by (simp add: anchor_account_disc [OF rt(1)])
  have "\<not> rewritten E' A call s k"
  proof
    assume "rewritten E' A call s k"
    then show False
    proof cases
      case Requested
      then obtain rq where rq: "stored_request E' s k = Inr rq"
        using requested_not_blocked [OF call [unfolded x] rt(6,3,4)] anchor_account_starts [OF r] by blast
      show ?thesis using anchored_kind [OF rt(5) r rq] by simp
    next
      case (Answered c flow subject rq cluster out)
      have rq: "stored_request E' s k = Inr rq" using answers_request [OF Answered(1)] Answered(2) by simp
      show ?thesis using anchored_kind [OF rt(5) r rq] by simp
    next
      case (Otherwise kd)
      then show ?thesis using anchor_account_starts [OF r] distinct_discriminatorsD(2) [OF rt(5)] by blast
    qed (use r i in simp)
  qed
  then have "data_kept s s' k" using call_rewrites [OF call [unfolded x] good [unfolded x]] anchor_account_starts [OF r] by blast
  then show "stored_event E s' k = Inr ev \<and> be_created_at ev \<noteq> i64_of 0" using data_kept_anchored i by metis
qed

text \<open>
  A request whose computation was aborted stays pending for good: as long as no output
  verifies for the address its computation was queued with, no sequence of requests and
  callbacks changes its record, and every later request that names the record fails, so the
  mandate gets no approval for that period. Nothing in the program marks a request aborted.
\<close>

theorem aborted_computation_blocks_its_request:
  assumes "list_all (computation_runtime E A) calls" "stored_request E s k = Inr rq"
    "rq_status rq = RequestPending" "rq_created_at rq \<noteq> i64_of 0" "abandoned E A rq"
  shows "stored_request E (run (do_computation_call A) calls s) k = Inr rq \<and>
    (\<forall>E' call. computation_runtime E A (E', call) \<and> requested_record call = Some k \<longrightarrow>
       (\<exists>e. do_computation_call A (E', call) (run (do_computation_call A) calls s) = Inl e))"
proof -
  let ?s = "run (do_computation_call A) calls s"
  have b: "blocked rq" using assms(3,4) by (simp add: blocked_def)
  then have r: "stored_request E ?s k = Inr rq" using abandoned_machine.run_keeps [OF assms(1)] assms(2,5) by blast
  moreover have "\<exists>e. do_computation_call A (E', call) ?s = Inl e"
    if x: "computation_runtime E A (E', call)" "requested_record call = Some k" for E' call
  proof (cases "do_computation_call A (E', call) ?s")
    case (Inr s')
    note rt = computation_runtimeD [OF x(1)]
    show ?thesis
      using requested_not_blocked [OF Inr rt(6,3,4) x(2)] anchor_account_starts [OF r] r b by (auto simp: anchor_account_disc [OF rt(1)])
  qed simp
  ultimately show ?thesis by blast
qed

text \<open>
  The record of a billing event is final: once it has a date, no sequence of requests and
  callbacks changes it, and every request or callback for the same record fails, so a pull is
  recorded at most once.
\<close>

theorem recorded_billing_event_is_final:
  assumes "list_all (computation_runtime E A) calls" "stored_event E s k = Inr ev" "be_created_at ev \<noteq> i64_of 0"
  shows "stored_event E (run (do_computation_call A) calls s) k = Inr ev \<and>
    (\<forall>E' c off pulls. computation_runtime E A (E', RequestRecord c off pulls) \<and> rqa_result c = k \<longrightarrow>
       (\<exists>e. request_billing_record E' A c off pulls (run (do_computation_call A) calls s) = Inl e)) \<and>
    (\<forall>E' c out. computation_runtime E A (E', RecordCallback c out) \<and> cba_result c = k \<longrightarrow>
       (\<exists>e. record_billing_event_callback E' A c out (run (do_computation_call A) calls s) = Inl e))"
proof -
  let ?s = "run (do_computation_call A) calls s"
  have r: "stored_event E ?s k = Inr ev" using recorded_machine.run_keeps [OF assms(1)] assms(2,3) by blast
  moreover have "\<exists>e. request_billing_record E' A c off pulls ?s = Inl e"
    if x: "computation_runtime E A (E', RequestRecord c off pulls)" "rqa_result c = k" for E' c off pulls
  proof (cases "request_billing_record E' A c off pulls ?s")
    case (Inr s')
    note rt = computation_runtimeD [OF x(1)]
    from request_record_Inr [OF Inr rt(6)] obtain event request request' bump where
      e: "be_created_at event = i64_of 0" and d:
      "request_done E' A c KBillingEvent dec_billing_event FlowBillingRecord (u64_le pulls) event request request'
        [(rqa_result c, disc E' KBillingEvent @ enc_billing_event (cleared_event bump)),
         (rqa_request_state c, disc E' KArciumRequestState @ enc_arcium_request request')] ?s s'" by blast
    have "stored_event E' ?s k = Inr event" using request_reads(1) [OF d rt(3,4)] anchor_account_starts [OF r] x(2) by simp
    then show ?thesis using r e assms(3) by (simp add: anchor_account_disc [OF rt(1)])
  qed simp
  moreover have "\<exists>e. record_billing_event_callback E' A c out ?s = Inl e"
    if x: "computation_runtime E A (E', RecordCallback c out)" "cba_result c = k" for E' c out
  proof (cases "record_billing_event_callback E' A c out ?s")
    case (Inr s')
    note rt = computation_runtimeD [OF x(1)]
    show ?thesis
      by (rule record_billing_event_callback_Inr [OF Inr])
        (use r x(2) assms(3) in \<open>simp add: anchor_account_disc [OF rt(1)]\<close>)
  qed simp
  ultimately show ?thesis by blast
qed

section \<open>Where an approval comes from\<close>

abbreviation stored_approval :: "env \<Rightarrow> store \<Rightarrow> pubkey \<Rightarrow> verror + pull_approval" where
  "stored_approval E s k \<equiv> anchor_account E KPullApproval dec_pull_approval s k"

lemma written_approval:
  assumes "distinct_discriminators E" "acc_data (s k) = (disc E kd @ bs) @ r" "stored_approval E s k = Inr a"
  shows "kd = KPullApproval"
  by (rule written_kind [OF assms])

lemma written_approval_is:
  assumes "acc_data (s k) = (disc E KPullApproval @ enc_pull_approval x) @ r" "stored_approval E s k = Inr a"
  shows "a = x"
  using assms pull_approval_codec.try_deserialize_enc [of x E KPullApproval r]
  by (simp add: anchor_account_Inr valid_pull_approval_def)

lemma request_never_approves:
  assumes "request_done E A c kd dec flow subject result request request' exits s s'"
    "keeps_program_accounts E" "creates_fresh E" "distinct_discriminators E" "acc_owner (s k) = program_id"
    "acc_data (s' k) \<noteq> acc_data (s k)" "stored_approval E s' k = Inr a"
    "\<And>j bs. (j, bs) \<in> set exits \<Longrightarrow> \<exists>kd x. bs = disc E kd @ x \<and>
       (kd = KPullApproval \<longrightarrow> (\<exists>bump. x = enc_pull_approval (cleared_approval bump)))"
  shows "\<not> pa_approved a"
  using assms(1-3,5,6)
proof (cases rule: request_writes)
  case (3 bs r)
  from assms(8) [OF 3(1)] obtain kd x where x: "bs = disc E kd @ x"
    "kd = KPullApproval \<longrightarrow> (\<exists>bump. x = enc_pull_approval (cleared_approval bump))" by blast
  have "kd = KPullApproval" by (rule written_approval [OF assms(4) 3(2) [unfolded x(1)] assms(7)])
  with x obtain bump where "bs = disc E KPullApproval @ enc_pull_approval (cleared_approval bump)" by blast
  from written_approval_is [OF 3(2) [unfolded this] assms(7)] show ?thesis by (simp add: cleared_approval_def)
qed (use anchor_account_starts [OF assms(7)] distinct_discriminatorsD(2) [OF assms(4)] in blast)+

text \<open>What a callback grants: the period of an active mandate, for an hour, and its request completed.\<close>

definition grants :: "env \<Rightarrow> callback_accounts \<Rightarrow> arcium_request \<Rightarrow> vela_mandate \<Rightarrow> pull_approval \<Rightarrow> store \<Rightarrow> store \<Rightarrow> bool" where
  "grants E c request mandate a s s' \<longleftrightarrow>
     anchor_account E KVelaMandate dec_vela_mandate s (cba_mandate c) = Inr mandate \<and>
     md_status mandate = MandateActive \<and> pa_mandate a = cba_mandate c \<and>
     mandate_billing_period mandate = Inr (pa_period_start a, pa_period_end a) \<and>
     sval (pa_valid_until a) = sval (unix_timestamp E) + 3600 \<and>
     stored_request E s' (cba_request_state c) =
       Inr (request\<lparr>rq_status := RequestCompleted, rq_completed_at := unix_timestamp E\<rparr>)"

lemma callback_writes:
  assumes "exit_all exits s = Inr s'" "acc_data (s' k) \<noteq> acc_data (s k)"
  obtains bs r where "(k, bs) \<in> set exits" "acc_data (s' k) = bs @ r"
  using exit_all_frame [OF assms(1), of k] exit_all_written [OF assms(1), of k] assms(2)
  by (cases "k \<in> fst ` set exits") auto

lemma completed_request:
  assumes "exit_all ((k, disc E KArciumRequestState @ enc_arcium_request rq) # exits) s = Inr s'"
    "stored_request E s k = Inr rq0" "valid_arcium_request rq" "k \<notin> fst ` set exits"
  shows "stored_request E s' k = Inr rq"
proof -
  from exit_all_last [of "[]" k "disc E KArciumRequestState @ enc_arcium_request rq" exits s s'] assms(1,4) obtain r
    where r: "acc_data (s' k) = disc E KArciumRequestState @ enc_arcium_request rq @ r"
    by (auto simp del: exit_all.simps)
  show ?thesis
    using exit_all_owner [OF assms(1), of k] anchor_account_starts [OF assms(2)]
    by (simp add: anchor_account_Inr r arcium_request_codec.try_deserialize_enc [OF assms(3)])
qed

lemma stored_request_valid: "stored_request E s k = Inr rq \<Longrightarrow> valid_arcium_request rq"
  by (auto simp: anchor_account_Inr dest: arcium_request_codec.try_deserialize_valid)

lemma granted_period:
  assumes "i64_checked_add now (i64_of PULL_APPROVAL_TTL_SECONDS) = Some valid_until"
  shows "sval valid_until = sval now + 3600"
  using assms by (simp add: arith_simps PULL_APPROVAL_TTL_SECONDS_def in_i64_def)

lemma validation_grants:
  assumes "validate_mandate_callback E A c out s = Inr s'" "distinct_discriminators E"
    "acc_data (s' k) \<noteq> acc_data (s k)" "stored_approval E s' k = Inr a" "pa_approved a"
  shows "\<exists>request cluster mandate. cba_result c = k \<and> grants E c request mandate a s s' \<and>
    md_billing_type mandate = Flat \<and> pa_approved_amount a = md_amount mandate \<and>
    answers E A c FlowValidation (i64_le (md_next_payment_due mandate)) request cluster s \<and>
    verify_validation A out cluster (cba_computation_account c) (s (cba_computation_account c)) = Some True"
  using assms(1)
proof (cases rule: validate_mandate_callback_Inr)
  case (1 request cluster approval mandate result period_start period_end valid_until bump)
  from callback_writes [OF 1(9) assms(3)] obtain bs r where b: "(k, bs) \<in> set [(cba_request_state c, disc E KArciumRequestState @
            enc_arcium_request (request\<lparr>rq_status := RequestCompleted, rq_completed_at := unix_timestamp E\<rparr>)),
         (cba_result c, disc E KPullApproval @ enc_pull_approval
            (granted_approval (cba_mandate c) period_start period_end valid_until result (md_amount mandate)
               (unix_timestamp E) bump))]" "acc_data (s' k) = bs @ r" .
  have "bs \<noteq> disc E KArciumRequestState @ x" for x
    using written_approval [OF assms(2) _ assms(4), of KArciumRequestState x r] b(2) by auto
  with b have k: "k = cba_result c" and w: "acc_data (s' k) = (disc E KPullApproval @ enc_pull_approval
            (granted_approval (cba_mandate c) period_start period_end valid_until result (md_amount mandate)
               (unix_timestamp E) bump)) @ r" by auto
  note a = written_approval_is [OF w assms(4)]
  have rq: "stored_request E s (cba_request_state c) = Inr request" by (rule answers_request [OF 1(1)])
  have "cba_request_state c \<noteq> cba_result c" using anchored_kind [OF assms(2) rq, of KPullApproval] 1(2) by auto
  then have "stored_request E s' (cba_request_state c) =
      Inr (request\<lparr>rq_status := RequestCompleted, rq_completed_at := unix_timestamp E\<rparr>)"
    using completed_request [OF 1(9) rq] stored_request_valid [OF rq] by (simp add: valid_arcium_request_def)
  with 1 k a assms(5) granted_period [OF 1(8)] show ?thesis
    unfolding grants_def granted_approval_def by (intro exI [of _ request] exI [of _ cluster] exI [of _ mandate]) simp
qed

lemma usage_grants:
  assumes "usage_charge_callback E A c out s = Inr s'" "distinct_discriminators E"
    "acc_data (s' k) \<noteq> acc_data (s k)" "stored_approval E s' k = Inr a" "pa_approved a"
  shows "\<exists>request cluster mandate. cba_result c = k \<and> grants E c request mandate a s s' \<and>
    md_billing_type mandate = Usage \<and> pa_approved_amount a \<le> md_amount mandate \<and>
    answers E A c FlowUsageComputation (i64_le (pa_period_start a)) request cluster s \<and>
    verify_charge A out cluster (cba_computation_account c) (s (cba_computation_account c)) = Some (pa_approved_amount a)"
  using assms(1)
proof (cases rule: usage_charge_callback_Inr)
  case (1 request cluster approval mandate report charge period_start period_end valid_until bump)
  from callback_writes [OF 1(15) assms(3)] obtain bs r where b: "(k, bs) \<in> set [(cba_request_state c, disc E KArciumRequestState @
            enc_arcium_request (request\<lparr>rq_status := RequestCompleted, rq_completed_at := unix_timestamp E\<rparr>)),
         (cba_result c, disc E KPullApproval @ enc_pull_approval
            (granted_approval (cba_mandate c) period_start period_end valid_until True charge
               (unix_timestamp E) bump)),
         (cba_usage_report c, disc E KUsageReport @ enc_usage_report report)]" "acc_data (s' k) = bs @ r" .
  have "bs \<noteq> disc E kd @ x" if "kd \<noteq> KPullApproval" for kd x
    using written_approval [OF assms(2) _ assms(4), of kd x r] b(2) that by auto
  with b have k: "k = cba_result c" and w: "acc_data (s' k) = (disc E KPullApproval @ enc_pull_approval
            (granted_approval (cba_mandate c) period_start period_end valid_until True charge
               (unix_timestamp E) bump)) @ r" by auto
  note a = written_approval_is [OF w assms(4)]
  have rq: "stored_request E s (cba_request_state c) = Inr request" by (rule answers_request [OF 1(1)])
  have "cba_request_state c \<noteq> cba_result c" "cba_request_state c \<noteq> cba_usage_report c"
    using anchored_kind [OF assms(2) rq, of KPullApproval] anchored_kind [OF assms(2) rq, of KUsageReport] 1(2,4) by auto
  then have "stored_request E s' (cba_request_state c) =
      Inr (request\<lparr>rq_status := RequestCompleted, rq_completed_at := unix_timestamp E\<rparr>)"
    using completed_request [OF 1(15) rq] stored_request_valid [OF rq] by (simp add: valid_arcium_request_def)
  with 1 k a assms(5) granted_period [OF 1(14)] show ?thesis
    unfolding grants_def granted_approval_def by (intro exI [of _ request] exI [of _ cluster] exI [of _ mandate]) simp
qed

text \<open>
  C8: A pull is approved only by the network: when a request or callback leaves a changed,
  approved approval, the call was a callback whose output verified for the pending request of
  the mandate's current period; a flat mandate's is approved for its amount, a usage mandate's
  for the computed charge, at most its amount; it is good for one hour, and the request is
  completed, so no other callback can use it.
\<close>

theorem approval_needs_a_verified_output:
  assumes "do_computation_call A (E, call) s = Inr s'" "computation_runtime E A (E, call)" "acc_owner (s k) = program_id"
    "acc_data (s' k) \<noteq> acc_data (s k)" "stored_approval E s' k = Inr a" "pa_approved a"
  shows "\<exists>c out request cluster mandate. cba_result c = k \<and> grants E c request mandate a s s' \<and>
    (call = ValidationCallback c out \<and> md_billing_type mandate = Flat \<and> pa_approved_amount a = md_amount mandate \<and>
       answers E A c FlowValidation (i64_le (md_next_payment_due mandate)) request cluster s \<and>
       verify_validation A out cluster (cba_computation_account c) (s (cba_computation_account c)) = Some True \<or>
     call = UsageCallback c out \<and> md_billing_type mandate = Usage \<and> pa_approved_amount a \<le> md_amount mandate \<and>
       answers E A c FlowUsageComputation (i64_le (pa_period_start a)) request cluster s \<and>
       verify_charge A out cluster (cba_computation_account c) (s (cba_computation_account c)) =
         Some (pa_approved_amount a))"
proof -
  note rt = computation_runtimeD [OF assms(2)]
  show ?thesis
  proof (cases call)
    case (RequestValidation c off due cts key nonce)
    then have h: "request_validation E A c off due cts key nonce s = Inr s'" using assms(1) by simp
    have "\<not> pa_approved a"
      by (rule request_validation_Inr [OF h rt(6)], rule request_never_approves, assumption)
        (use rt assms(3-5) in auto)
    with assms(6) show ?thesis by simp
  next
    case (RequestUsage c off)
    then have h: "request_usage_computation E A c off s = Inr s'" using assms(1) by simp
    have "\<not> pa_approved a"
      by (rule request_usage_Inr [OF h rt(6)], rule request_never_approves, assumption)
        (use rt assms(3-5) in auto)
    with assms(6) show ?thesis by simp
  next
    case (RequestRecord c off pulls)
    then have h: "request_billing_record E A c off pulls s = Inr s'" using assms(1) by simp
    have "\<not> pa_approved a"
      by (rule request_record_Inr [OF h rt(6)], rule request_never_approves, assumption)
        (use rt assms(3-5) in auto)
    with assms(6) show ?thesis by simp
  next
    case (ValidationCallback c out)
    then have h: "validate_mandate_callback E A c out s = Inr s'" using assms(1) by simp
    from validation_grants [OF h rt(5) assms(4-6)] ValidationCallback show ?thesis by blast
  next
    case (UsageCallback c out)
    then have h: "usage_charge_callback E A c out s = Inr s'" using assms(1) by simp
    from usage_grants [OF h rt(5) assms(4-6)] UsageCallback show ?thesis by blast
  next
    case (RecordCallback c out)
    then have h: "record_billing_event_callback E A c out s = Inr s'" using assms(1) by simp
    show ?thesis
      using h
    proof (cases rule: record_billing_event_callback_Inr)
      case (1 request cluster event mandate plan blob bump)
      have False
        by (rule callback_writes [OF 1(9) assms(4)]) (use written_approval [OF rt(5) _ assms(5)] in \<open>auto simp del: append_assoc\<close>)
      then show ?thesis ..
    qed
  qed
qed

section \<open>What of a mandate the computations change\<close>

definition bookkeeping :: "vela_mandate \<Rightarrow> vela_mandate \<Rightarrow> bool" where
  "bookkeeping m m' \<longleftrightarrow>
     (\<exists>v b l. m' = m\<lparr>md_validation_request_nonce := v, md_billing_request_nonce := b, md_last_billing_recorded_pull := l\<rparr>)"

lemma bookkeepingI:
  "m' = m\<lparr>md_validation_request_nonce := v, md_billing_request_nonce := b, md_last_billing_recorded_pull := l\<rparr> \<Longrightarrow> bookkeeping m m'"
  by (auto simp: bookkeeping_def)

lemma bookkeeping_refl [simp]: "bookkeeping m m"
  by (rule bookkeepingI [where v = "md_validation_request_nonce m" and b = "md_billing_request_nonce m"
        and l = "md_last_billing_recorded_pull m"]) simp

lemma bookkeeping_nonce:
  assumes "nonce_update m m'"
  shows "bookkeeping m m'"
proof -
  from assms obtain n where "m' = m\<lparr>md_validation_request_nonce := n\<rparr> \<or> m' = m\<lparr>md_billing_request_nonce := n\<rparr>"
    by (auto simp: nonce_update_def)
  then show ?thesis
    using bookkeepingI [of m' "md_last_billing_recorded_pull m" "md_billing_request_nonce m" n m]
      bookkeepingI [of m' "md_last_billing_recorded_pull m" n "md_validation_request_nonce m" m] by auto
qed

lemma bookkeeping_recorded: "bookkeeping m (m\<lparr>md_last_billing_recorded_pull := l\<rparr>)"
  by (rule bookkeepingI [where v = "md_validation_request_nonce m" and b = "md_billing_request_nonce m" and l = l]) simp

lemma bookkeeping_trans: "bookkeeping m m1 \<Longrightarrow> bookkeeping m1 m2 \<Longrightarrow> bookkeeping m m2"
  unfolding bookkeeping_def by auto blast

lemma nonce_update_storable: "nonce_update m m' \<Longrightarrow> storable_current m \<Longrightarrow> storable_current m'"
  by (auto simp: nonce_update_def valid_vela_mandate_def)

lemma kept_mandate:
  "acc_owner (s' k) = acc_owner (s k) \<Longrightarrow> acc_data (s' k) = acc_data (s k) \<Longrightarrow> current_mandate E s k = Inr m \<Longrightarrow>
     current_mandate E s' k = Inr m"
  using current_store.load_local [of s' k s E] by simp

lemma request_books:
  assumes "request_done E A c kd dec flow subject result request request' exits s s'"
    "keeps_program_accounts E" "creates_fresh E" "distinct_discriminators E" "current_mandate E s k = Inr m"
    "kd \<noteq> KVelaMandate" "\<And>j. j \<in> fst ` set exits \<Longrightarrow> j = rqa_request_state c \<or> j = rqa_result c \<or>
       (\<exists>kd. kd \<noteq> KVelaMandate \<and> starts_with (acc_data (s j)) (disc E kd))"
  shows "\<exists>m'. current_mandate E s' k = Inr m' \<and> (m' = m \<or> nonce_update m m')"
  using assms(1-3)
proof (cases rule: request_done_Inr)
  case (1 s0 l m1 r s1 s2)
  have own: "acc_owner (s k) = program_id" by (rule current_store.load_owner [OF assms(5)])
  have m0: "current_mandate E s0 k = Inr m" by (rule current_store.kept_load [OF 1(1) assms(5)])
  have not: "k \<noteq> j" if "opened E kd' s0 j" "kd' \<noteq> KVelaMandate" for j kd'
    using opened_differs [OF assms(4) that(1) mandate_starts [OF m0] that(2)] by metis
  have sign: "k \<noteq> rqa_sign_pda_account c" "k \<noteq> rqa_result c" "k \<noteq> rqa_request_state c"
    using not [OF 1(2)] not [OF 1(3) assms(6)] not [OF 1(4)] by simp_all
  have ex: "k \<notin> fst ` set (signer_exit E A c # exits)"
  proof
    assume "k \<in> fst ` set (signer_exit E A c # exits)"
    with sign obtain kd' where "kd' \<noteq> KVelaMandate" "starts_with (acc_data (s k)) (disc E kd')"
      using assms(7) [of k] by (auto simp: signer_exit_def)
    then show False using mandate_starts [OF assms(5)] distinct_discriminatorsD(2) [OF assms(4)] by blast
  qed
  have last: "s' k = s2 k" by (rule exit_all_frame [OF 1(10) ex])
  show ?thesis
  proof (cases "k = rqa_mandate c")
    case True
    have l: "l = CurrentMandate m" using 1(5) m0 by (simp add: current_mandate_Inr True)
    have w: "current_mandate E s1 k = Inr m1"
      using current_store.load_written [of E k m1 s0 s1] 1(6,7) nonce_update_storable [OF _ current_store.load_storable [OF m0]]
        current_store.load_owner [OF m0] by (simp add: l True)
    have "current_mandate E s' k = Inr m1"
      by (rule kept_mandate [OF _ _ current_store.kept_load [OF 1(9) w]]) (simp_all add: last)
    moreover have "nonce_update m m1" using 1(6) by (simp add: l)
    ultimately show ?thesis by blast
  next
    case False
    have w: "current_mandate E s1 k = Inr m" by (rule kept_mandate [OF _ _ m0]) (simp_all add: 1(8) False)
    have "current_mandate E s' k = Inr m"
      by (rule kept_mandate [OF _ _ current_store.kept_load [OF 1(9) w]]) (simp_all add: last)
    then show ?thesis by simp
  qed
qed

lemma callback_books:
  assumes "exit_all exits s = Inr s'" "current_mandate E s k = Inr m"
    "\<And>j. j \<in> fst ` set exits \<Longrightarrow> j \<noteq> k"
  shows "current_mandate E s' k = Inr m"
proof -
  have "s' k = s k" using exit_all_frame [OF assms(1), of k] assms(3) by blast
  then show ?thesis by (intro kept_mandate [OF _ _ assms(2)]) simp_all
qed

lemma mandate_not_other:
  "distinct_discriminators E \<Longrightarrow> current_mandate E s k = Inr m \<Longrightarrow> anchor_account E kd dec s j = Inr x \<Longrightarrow> kd \<noteq> KVelaMandate \<Longrightarrow> j \<noteq> k"
  using anchor_account_starts [of E kd dec s j x] mandate_starts [of E s k m] distinct_discriminatorsD(2) [of E "acc_data (s k)"] by blast

lemma anchored_mandate:
  assumes "current_mandate E s k = Inr m" "anchor_account E KVelaMandate dec_vela_mandate s k = Inr m'"
  shows "m' = m"
  using assms by (auto simp: current_mandate_Inr load_mandate_account_def anchor_account_Inr Let_def split: if_splits option.splits)

lemma record_books:
  assumes "record_billing_event_callback E A c out s = Inr s'" "distinct_discriminators E" "current_mandate E s k = Inr m"
  shows "current_mandate E s' k = Inr m \<or>
    cba_mandate c = k \<and> current_mandate E s' k = Inr (m\<lparr>md_last_billing_recorded_pull := md_pulls_executed m\<rparr>) \<and>
    (\<exists>cluster blob. verify_record A out cluster (cba_computation_account c) (s (cba_computation_account c)) = Some blob)"
  using assms(1)
proof (cases rule: record_billing_event_callback_Inr)
  case (1 request cluster event mandate plan blob bump)
  have other: "cba_request_state c \<noteq> k" "cba_result c \<noteq> k"
    using mandate_not_other [OF assms(2,3) answers_request [OF 1(1)]] mandate_not_other [OF assms(2,3) 1(2)] by simp_all
  show ?thesis
  proof (cases "cba_mandate c = k")
    case False
    with other show ?thesis by (intro disjI1 callback_books [OF 1(9) assms(3)]) auto
  next
    case True
    let ?m = "m\<lparr>md_last_billing_recorded_pull := md_pulls_executed m\<rparr>"
    have m: "mandate = m" using anchored_mandate [OF assms(3)] 1(4) True by simp
    have st: "storable_current m" by (rule current_store.load_storable [OF assms(3)])
    obtain r where d: "acc_data (s' k) = disc E KVelaMandate @ enc_vela_mandate ?m @ r"
      using exit_all_written [OF 1(9), of k] other True by (auto simp: m simp del: exit_all.simps)
    have "acc_owner (s' k) = program_id" using exit_all_owner [OF 1(9)] current_store.load_owner [OF assms(3)] by simp
    moreover have "valid_vela_mandate ?m" "md_version ?m = CURRENT_ACCOUNT_VERSION" using st by (simp_all add: valid_vela_mandate_def)
    ultimately have "current_mandate E s' k = Inr ?m"
      by (simp add: current_mandate_Inr load_mandate_account_def Let_def d vela_mandate_codec.try_deserialize_enc)
    then show ?thesis using True 1(7) by blast
  qed
qed

text \<open>
  A request moves one of the two nonces of a mandate, whoever pays for it; a record callback whose output verifies
  notes the pulls made so far as recorded; no other call of the computations changes a mandate.
\<close>

lemma call_books_exact:
  assumes "do_computation_call A (E, call) s = Inr s'" "computation_runtime E0 A (E, call)" "current_mandate E s k = Inr m"
  shows "\<exists>m'. current_mandate E s' k = Inr m' \<and>
    (m' = m \<or> requested_record call \<noteq> None \<and> nonce_update m m' \<or>
     (\<exists>c out cluster blob. call = RecordCallback c out \<and> cba_mandate c = k \<and>
        verify_record A out cluster (cba_computation_account c) (s (cba_computation_account c)) = Some blob \<and>
        m' = m\<lparr>md_last_billing_recorded_pull := md_pulls_executed m\<rparr>))"
proof -
  note rt = computation_runtimeD [OF assms(2)]
  note other = mandate_not_other [OF rt(5) assms(3)]
  show ?thesis
  proof (cases call)
    case (RequestValidation c off due cts key nonce)
    then have h: "request_validation E A c off due cts key nonce s = Inr s'" using assms(1) by simp
    have "\<exists>m'. current_mandate E s' k = Inr m' \<and> (m' = m \<or> nonce_update m m')"
      by (rule request_validation_Inr [OF h rt(6)], rule request_books, assumption) (use rt assms(3) in auto)
    then show ?thesis by (auto simp: RequestValidation)
  next
    case (RequestUsage c off)
    then have h: "request_usage_computation E A c off s = Inr s'" using assms(1) by simp
    from request_usage_Inr [OF h rt(6)] obtain plan report approval request request' bump where
      i: "usage_request_inputs E c s = Inr (plan, report)" and d:
      "request_done E A c KPullApproval dec_pull_approval FlowUsageComputation (i64_le (ur_period_start report))
        approval request request'
        [(rqa_usage_report c, disc E KUsageReport @ enc_usage_report report),
         (rqa_result c, disc E KPullApproval @ enc_pull_approval (cleared_approval bump)),
         (rqa_request_state c, disc E KArciumRequestState @ enc_arcium_request request')] s s'" by blast
    have "anchor_account E KUsageReport dec_usage_report s (rqa_usage_report c) = Inr report"
      using i by (auto simp: usage_request_inputs_def case_sum_Inr)
    from anchor_account_starts [OF this] have "\<exists>kd. kd \<noteq> KVelaMandate \<and> starts_with (acc_data (s (rqa_usage_report c))) (disc E kd)" by blast
    then have "\<exists>m'. current_mandate E s' k = Inr m' \<and> (m' = m \<or> nonce_update m m')"
      by (intro request_books [OF d rt(3-5) assms(3)]) auto
    then show ?thesis by (auto simp: RequestUsage)
  next
    case (RequestRecord c off pulls)
    then have h: "request_billing_record E A c off pulls s = Inr s'" using assms(1) by simp
    have "\<exists>m'. current_mandate E s' k = Inr m' \<and> (m' = m \<or> nonce_update m m')"
      by (rule request_record_Inr [OF h rt(6)], rule request_books, assumption) (use rt assms(3) in auto)
    then show ?thesis by (auto simp: RequestRecord)
  next
    case (ValidationCallback c out)
    then have h: "validate_mandate_callback E A c out s = Inr s'" using assms(1) by simp
    show ?thesis
      using h
    proof (cases rule: validate_mandate_callback_Inr)
      case (1 request cluster approval mandate result period_start period_end valid_until bump)
      from callback_books [OF 1(9) assms(3)] other [OF answers_request [OF 1(1)]] other [OF 1(2)] show ?thesis by auto
    qed
  next
    case (UsageCallback c out)
    then have h: "usage_charge_callback E A c out s = Inr s'" using assms(1) by simp
    show ?thesis
      using h
    proof (cases rule: usage_charge_callback_Inr)
      case (1 request cluster approval mandate report charge period_start period_end valid_until bump)
      from callback_books [OF 1(15) assms(3)] other [OF answers_request [OF 1(1)]] other [OF 1(2)] other [OF 1(4)]
      show ?thesis by auto
    qed
  next
    case (RecordCallback c out)
    then show ?thesis using record_books [OF _ rt(5) assms(3)] assms(1) by fastforce
  qed
qed

lemma call_books:
  assumes "do_computation_call A (E, call) s = Inr s'" "computation_runtime E0 A (E, call)" "current_mandate E s k = Inr m"
  shows "\<exists>m'. current_mandate E s' k = Inr m' \<and> bookkeeping m m'"
  using call_books_exact [OF assms] bookkeeping_nonce bookkeeping_recorded by fastforce

interpretation books_machine: guarded_machine "do_computation_call A" "computation_runtime E A"
  "\<lambda>s. \<exists>m'. current_mandate E s k = Inr m' \<and> bookkeeping m m'" for A E k m
proof unfold_locales
  fix x s s'
  assume good: "computation_runtime E A x" and call: "do_computation_call A x s = Inr s'"
    and "\<exists>m'. current_mandate E s k = Inr m' \<and> bookkeeping m m'"
  then obtain m1 where m1: "current_mandate E s k = Inr m1" "bookkeeping m m1" by blast
  obtain E' call where x: "x = (E', call)" by (cases x)
  note rt = computation_runtimeD [OF good [unfolded x]]
  have load: "current_mandate E' t k = current_mandate E t k" for t by (rule current_store.load_disc [OF rt(1)])
  from call_books [OF call [unfolded x] good [unfolded x], of k m1] m1 show
    "\<exists>m'. current_mandate E s' k = Inr m' \<and> bookkeeping m m'" by (auto simp: load intro: bookkeeping_trans)
qed

text \<open>
  Requests and callbacks cannot touch the terms, the parties, the dates or the pull count
  of a mandate: over every sequence of them, only its two request nonces and the number of the
  last recorded pull change.
\<close>

theorem computations_only_keep_books:
  assumes "list_all (computation_runtime E A) calls" "current_mandate E s k = Inr m"
  shows "\<exists>v b l. current_mandate E (run (do_computation_call A) calls s) k =
    Inr (m\<lparr>md_validation_request_nonce := v, md_billing_request_nonce := b, md_last_billing_recorded_pull := l\<rparr>)"
proof -
  have "\<exists>m'. current_mandate E (run (do_computation_call A) calls s) k = Inr m' \<and> bookkeeping m m'"
    by (rule books_machine.run_keeps [OF assms(1)]) (use assms(2) in simp)
  then show ?thesis unfolding bookkeeping_def by blast
qed

section \<open>The properties on concrete calls\<close>

lemma sample_runtime: "computation_runtime (creating_env (i64_of 7400) []) (sample_network v) (creating_env (i64_of 7400) [], call)"
  by (simp add: computation_runtime_def same_program_def)

lemma sample_granted_reads:
  "stored_approval (creating_env now sg) answered_store 24840 = Inr sample_granted"
  using pull_approval_codec.try_deserialize_enc [of sample_granted "creating_env now sg" KPullApproval "[]"]
  by (simp add: anchor_account_Inr answered_store_def valid_pull_approval_def)

lemma sample_granted_new: "acc_data (answered_store 24840) \<noteq> acc_data (requested_store 24840)"
proof
  assume eq: "acc_data (answered_store 24840) = acc_data (requested_store 24840)"
  have "stored_approval (creating_env (i64_of 0) []) answered_store 24840 =
      stored_approval (creating_env (i64_of 0) []) requested_store 24840"
    by (rule anchored_local) (use eq in \<open>simp_all add: answered_store_def\<close>)
  then have "sample_granted = sample_approval" by (simp only: sample_granted_reads requested_store_loads sum.inject)
  then have "pa_valid_until sample_granted = pa_valid_until sample_approval" by simp
  then show False by (simp add: sample_granted_def granted_approval_def sample_approval_def i64_of_def)
qed

theorem approval_needs_a_verified_output_witness:
  "\<exists>request mandate. grants (creating_env (i64_of 7400) []) sample_callback request mandate sample_granted
      requested_store answered_store \<and> md_billing_type mandate = Flat \<and> pa_approved_amount sample_granted = md_amount mandate"
proof -
  have call: "do_computation_call (sample_network True) (creating_env (i64_of 7400) [], ValidationCallback sample_callback 0)
      requested_store = Inr answered_store" by (simp add: sample_validation_answered)
  show ?thesis
    using approval_needs_a_verified_output [OF call sample_runtime _ sample_granted_new sample_granted_reads]
    by (auto simp: sample_granted_def granted_approval_def)
qed

theorem aborted_computation_blocks_its_request_witness:
  "\<exists>e. do_computation_call (sample_network False) (creating_env (i64_of 7400) [],
       RequestValidation (sample_usage_request\<lparr>rqa_plan := 28676\<rparr>) 0 (i64_of 7300) [] [] 0)
     (run (do_computation_call (sample_network False))
        [(creating_env (i64_of 7400) [], ValidationCallback sample_callback 0)] requested_store) = Inl e"
proof -
  have a: "abandoned (creating_env (i64_of 7400) []) (sample_network False) rq" for rq
    by (simp add: abandoned_def)
  show ?thesis
    using aborted_computation_blocks_its_request [where calls =
        "[(creating_env (i64_of 7400) [], ValidationCallback sample_callback 0)]", OF _ sample_request_reads _ _ a] sample_runtime
    by (auto simp: sample_request_def i64_of_def simp del: run.simps do_computation_call.simps)
qed

definition sample_event :: billing_event where
  "sample_event = (cleared_event 255)\<lparr>be_mandate := 27911, be_created_at := i64_of 7300\<rparr>"

definition recorded_store :: store where
  "recorded_store = (billing_store sample_mandate)
     (25095 := owned_by program_id (sample_disc KBillingEvent @ enc_billing_event sample_event))"

theorem recorded_billing_event_is_final_witness:
  "stored_event (creating_env (i64_of 7400) []) (run (do_computation_call (sample_network True))
     [(creating_env (i64_of 7400) [], RecordCallback (sample_callback\<lparr>cba_result := 25095\<rparr>) 0)] recorded_store) 25095 =
   Inr sample_event"
proof -
  have "stored_event (creating_env (i64_of 7400) []) recorded_store 25095 = Inr sample_event"
    using billing_event_codec.try_deserialize_enc [of sample_event "creating_env (i64_of 7400) []" KBillingEvent "[]"]
    by (simp add: anchor_account_Inr recorded_store_def sample_event_def cleared_event_def valid_billing_event_def)
  from recorded_billing_event_is_final [where A = "sample_network True" and
      calls = "[(creating_env (i64_of 7400) [], RecordCallback (sample_callback\<lparr>cba_result := 25095\<rparr>) 0)]", OF _ this]
  show ?thesis using sample_runtime
    by (simp add: sample_event_def cleared_event_def i64_of_def del: run.simps do_computation_call.simps)
qed

theorem computations_only_keep_books_witness:
  "\<exists>v b l. current_mandate (creating_env (i64_of 7400) []) (run (do_computation_call (sample_network True))
       [(creating_env (i64_of 7400) [], ValidationCallback sample_callback 0)] (billing_store sample_mandate)) 27911 =
     Inr (sample_mandate\<lparr>md_validation_request_nonce := v, md_billing_request_nonce := b, md_last_billing_recorded_pull := l\<rparr>)"
  using computations_only_keep_books [where A = "sample_network True" and
      calls = "[(creating_env (i64_of 7400) [], ValidationCallback sample_callback 0)]",
      OF _ current_mandate_sample [OF sample_mandates_ok(1)]]
    sample_runtime by (simp del: run.simps)

end
