(* ===== verification/Usage_Computation.thy ===== *)
theory Usage_Computation
  imports Computation_Samples
begin

text \<open>
  What a usage request makes the network compute: the parameters of the two pricing circuits
  (\<open>encrypted-ixs/src/lib.rs\<close>) against the arguments the request queues, in their order.
\<close>

section \<open>The circuits on queued arguments\<close>

fun plain_u64 :: "computation_arg \<Rightarrow> u64 option" where
  "plain_u64 (PlainU64 x) = Some x"
| "plain_u64 _ = None"

fun plain_u8 :: "computation_arg \<Rightarrow> u8 option" where
  "plain_u8 (PlainU8 x) = Some x"
| "plain_u8 _ = None"

text \<open>
  The circuits take the shared key and nonce, the encrypted units (\<open>decrypt\<close> is what the network
  makes of them), and then their plain parameters one by one; a list of other arguments is none of theirs.
\<close>

fun run_usage_circuit :: "(u8 list \<Rightarrow> u64) \<Rightarrow> string \<Rightarrow> computation_arg list \<Rightarrow> u64 option" where
  "run_usage_circuit decrypt circuit (ArgX25519 key # PlainU128 nonce # EncryptedU64 units # ps) =
     (if circuit = USAGE_CHARGE_CIRCUIT \<and> length ps = 2 then do {
        rate_per_unit \<leftarrow> plain_u64 (ps ! 0);
        max_charge \<leftarrow> plain_u64 (ps ! 1);
        Some (usage_charge (decrypt units) rate_per_unit max_charge) }
      else if circuit = TIERED_PRICING_CIRCUIT \<and> length ps = 12 then do {
        tier0_up_to \<leftarrow> plain_u64 (ps ! 0);
        tier1_up_to \<leftarrow> plain_u64 (ps ! 1);
        tier2_up_to \<leftarrow> plain_u64 (ps ! 2);
        tier3_up_to \<leftarrow> plain_u64 (ps ! 3);
        tier4_up_to \<leftarrow> plain_u64 (ps ! 4);
        tier0_rate \<leftarrow> plain_u64 (ps ! 5);
        tier1_rate \<leftarrow> plain_u64 (ps ! 6);
        tier2_rate \<leftarrow> plain_u64 (ps ! 7);
        tier3_rate \<leftarrow> plain_u64 (ps ! 8);
        tier4_rate \<leftarrow> plain_u64 (ps ! 9);
        tier_count \<leftarrow> plain_u8 (ps ! 10);
        max_charge \<leftarrow> plain_u64 (ps ! 11);
        Some (tiered_pricing (decrypt units) tier0_up_to tier1_up_to tier2_up_to tier3_up_to tier4_up_to
                tier0_rate tier1_rate tier2_rate tier3_rate tier4_rate tier_count max_charge) }
      else None)"
| "run_usage_circuit decrypt circuit _ = None"

lemma circuits_differ [simp]: "USAGE_CHARGE_CIRCUIT \<noteq> TIERED_PRICING_CIRCUIT" "TIERED_PRICING_CIRCUIT \<noteq> USAGE_CHARGE_CIRCUIT"
  by (simp_all add: USAGE_CHARGE_CIRCUIT_def TIERED_PRICING_CIRCUIT_def)

lemma five_tiers: "length ts = 5 \<Longrightarrow> \<exists>a b c d e. ts = [a, b, c, d, e]"
  by (auto simp: numeral_eq_Suc length_Suc_conv)

lemma usage_circuit_runs:
  assumes "length (up_tiers plan) = 5"
  shows "run_usage_circuit decrypt (usage_circuit plan) (usage_args plan report) =
    Some (usage_computation_output plan (decrypt (ur_computation_ciphertext report ! 0)))"
proof -
  from five_tiers [OF assms] obtain a b c d e where "up_tiers plan = [a, b, c, d, e]" by blast
  then show ?thesis
    by (simp add: usage_circuit_def usage_args_def usage_computation_output_def Let_def)
qed

section \<open>What a usage request queues\<close>

lemma usage_request_queued:
  assumes "request_usage_computation E A c off s = Inr s'"
  obtains plan report config cb off' s1 s2 where "usage_request_inputs E c s = Inr (plan, report)"
    "ur_mandate report = rqa_mandate c" "\<not> ur_settled report" "ur_period_end report \<le> unix_timestamp E"
    "ur_computation_ciphertext report ! 1 =
       usage_plan_terms_hash_from_parts E (rqa_plan c) (up_merchant plan) (up_plan_id plan) (up_tiers plan)
         (up_tier_count plan) (up_max_charge_per_period plan) (up_settlement_frequency plan)"
    "validate_usage_pricing_bounds (take (unat (up_tier_count plan)) (up_tiers plan)) (up_max_charge_per_period plan) = Inr ()"
    "queue_computation A (computation_of E A c (effective_mxe_program_id config) (usage_circuit plan) off'
       (usage_args plan report) cb) s1 = Inr s2"
proof -
  from assms obtain plan report config off' s1 m ps pe extra exits where
    i: "usage_request_inputs E c s = Inr (plan, report)" and
    m: "mandate_billing_period m = Inr (ps, pe)" "ur_period_end report = pe" "pe \<le> unix_timestamp E" and
    r: "ur_mandate report = rqa_mandate c" "\<not> ur_settled report"
      "ur_computation_ciphertext report ! 1 =
         usage_plan_terms_hash_from_parts E (rqa_plan c) (up_merchant plan) (up_plan_id plan) (up_tiers plan)
           (up_tier_count plan) (up_max_charge_per_period plan) (up_settlement_frequency plan)"
      "validate_usage_pricing_bounds (take (unat (up_tier_count plan)) (up_tiers plan)) (up_max_charge_per_period plan) = Inr ()" and
    q: "queue_request E A c config USAGE_COMPUTATION_CALLBACK_DISCRIMINATOR (usage_circuit plan) off'
        (usage_args plan report) extra exits s1 = Inr s'"
    unfolding request_usage_computation_def Let_def case_sum_Inr case_prod_unfold
    by (elim exE conjE) (auto simp: case_sum_Inr require_all_Inr split: if_splits)
  from q obtain cb s2 where "queue_computation A (computation_of E A c (effective_mxe_program_id config) (usage_circuit plan) off'
       (usage_args plan report) cb) s1 = Inr s2"
    unfolding queue_request_def Let_def case_sum_Inr by blast
  with i m r that show thesis by metis
qed

text \<open>
  A usage request hands the network the terms the report was committed to, in the order the
  circuit takes them: what the circuit computes from the queued arguments is the output of the
  plan the report's hash was made of, for the report's units, of an unsettled report of this
  mandate whose period has ended.
\<close>

theorem usage_request_queues_the_committed_terms:
  assumes "request_usage_computation E A c off s = Inr s'"
  shows "\<exists>plan report q s1 s2.
    anchor_account E KUsagePlan dec_usage_plan s (rqa_plan c) = Inr plan \<and>
    anchor_account E KUsageReport dec_usage_report s (rqa_usage_report c) = Inr report \<and>
    ur_mandate report = rqa_mandate c \<and> \<not> ur_settled report \<and> ur_period_end report \<le> unix_timestamp E \<and>
    ur_computation_ciphertext report ! 1 =
      usage_plan_terms_hash_from_parts E (rqa_plan c) (up_merchant plan) (up_plan_id plan) (up_tiers plan)
        (up_tier_count plan) (up_max_charge_per_period plan) (up_settlement_frequency plan) \<and>
    queue_computation A q s1 = Inr s2 \<and> qc_comp_def_offset q = comp_def_offset A (usage_circuit plan) \<and>
    (\<forall>decrypt. run_usage_circuit decrypt (usage_circuit plan) (qc_args q) =
       Some (usage_computation_output plan (decrypt (ur_computation_ciphertext report ! 0))))"
proof -
  from usage_request_queued [OF assms] obtain plan report config cb off' s1 s2 where
    i: "usage_request_inputs E c s = Inr (plan, report)" and
    r: "ur_mandate report = rqa_mandate c" "\<not> ur_settled report" "ur_period_end report \<le> unix_timestamp E"
      "ur_computation_ciphertext report ! 1 =
         usage_plan_terms_hash_from_parts E (rqa_plan c) (up_merchant plan) (up_plan_id plan) (up_tiers plan)
           (up_tier_count plan) (up_max_charge_per_period plan) (up_settlement_frequency plan)" and
    q: "queue_computation A (computation_of E A c (effective_mxe_program_id config) (usage_circuit plan) off'
       (usage_args plan report) cb) s1 = Inr s2" by metis
  from i have a: "anchor_account E KUsagePlan dec_usage_plan s (rqa_plan c) = Inr plan"
    "anchor_account E KUsageReport dec_usage_report s (rqa_usage_report c) = Inr report"
    by (auto simp: usage_request_inputs_def case_sum_Inr)
  have "length (up_tiers plan) = 5"
    using a(1) by (auto simp: anchor_account_Inr valid_usage_plan_def dest: usage_plan_codec.try_deserialize_valid)
  from usage_circuit_runs [OF this] a r q show ?thesis
    by (intro exI [of _ plan] exI [of _ report] exI conjI) (auto simp: computation_of_def)
qed

section \<open>The property on a concrete request\<close>

theorem usage_request_queues_the_committed_terms_witness:
  "\<exists>plan. anchor_account (creating_env (i64_of 7300) [4]) KUsagePlan dec_usage_plan reported_store 29962 = Inr plan \<and>
     run_usage_circuit (\<lambda>_. 50) (usage_circuit plan) (usage_args plan sample_committed_report) = Some (usage_computation_output plan 50)"
proof -
  from sample_usage_requested [of True] obtain s' where
    "request_usage_computation (creating_env (i64_of 7300) [4]) (sample_network True) sample_usage_request
       sample_usage_offset reported_store = Inr s'" by blast
  from usage_request_queues_the_committed_terms [OF this] show ?thesis
    using usage_circuit_runs usage_plan_codec.try_deserialize_valid
    by (fastforce simp: anchor_account_Inr valid_usage_plan_def)
qed

end
