(* ===== verification/Callback_Instructions.thy ===== *)
theory Callback_Instructions
  imports Computation_Samples
begin

text \<open>
  The callback instruction a request queues against the callback it is meant for: the accounts the
  instruction names, and which of them it marks writable, decide whether the callback can run at all.
\<close>

section \<open>Running a queued instruction\<close>

text \<open>
  The accounts of a call made from a queued instruction: the listed addresses in their order,
  the last four for the configuration, the mandate and what else the callback takes, and no account writable
  that the instruction does not mark so.
\<close>

definition runs_callback :: "callback_instruction \<Rightarrow> callback_accounts \<Rightarrow> pubkey list \<Rightarrow> bool" where
  "runs_callback cb c extra \<longleftrightarrow>
     map fst (cb_accounts cb) =
       [cba_arcium_program c, cba_comp_def_account c, cba_mxe_account c, cba_computation_account c,
        cba_cluster_account c, cba_instructions_sysvar c, cba_request_state c, cba_result c, cba_config c,
        cba_mandate c] @ extra \<and>
     (\<forall>k \<in> set (cba_writable c). (k, True) \<in> set (cb_accounts cb))"

lemma queued_callback_accounts:
  assumes "build_callback_instruction E A d off co circuit mxe
      [(request, True), (result, True), (config, False), (mandate, False), (plan, False)] = Inr cb"
    "runs_callback cb c extra"
  shows "cba_mandate c = mandate" "k \<in> set (cba_writable c) \<Longrightarrow> k = request \<or> k = result"
  using assms by (auto simp: build_callback_instruction_def runs_callback_def case_sum_Inr)

lemma queued_callback_discriminator:
  "build_callback_instruction E A d off co circuit mxe extra = Inr cb \<Longrightarrow> cb_discriminator cb = d"
  by (auto simp: build_callback_instruction_def case_sum_Inr)

lemma request_record_queued:
  assumes "request_billing_record E A c off pulls s = Inr s'"
    "keeps_program_accounts E" "creates_fresh E" "distinct_discriminators E"
  obtains q s1 s2 mxe off' and config :: protocol_config where "queue_computation A q s1 = Inr s2"
    "build_callback_instruction E A RECORD_BILLING_EVENT_CALLBACK_DISCRIMINATOR off' (pc_cluster_offset config)
       RECORD_BILLING_EVENT_CIRCUIT mxe
       [(rqa_request_state c, True), (rqa_result c, True), (rqa_config c, False), (rqa_mandate c, False),
        (rqa_plan c, False)] = Inr (qc_callback q)"
    "rqa_mandate c \<noteq> rqa_request_state c" "rqa_mandate c \<noteq> rqa_result c"
proof -
  from assms(1) obtain event request s0 l config n off' args exits s1 where
    o: "open_request E A c KBillingEvent dec_billing_event billing_event_size
       [billing_event_seed, key_bytes (rqa_mandate c), u64_le pulls]
       (billing_request_seeds (rqa_mandate c) pulls) s = Inr (event, request, s0)" and
    m: "load_mandate_account E s0 (rqa_mandate c) = Inr l" and
    q: "queue_request E A c config RECORD_BILLING_EVENT_CALLBACK_DISCRIMINATOR RECORD_BILLING_EVENT_CIRCUIT
        off' args [(rqa_request_state c, True), (rqa_result c, True), (rqa_config c, False), (rqa_mandate c, False),
          (rqa_plan c, False)] exits s1 = Inr s'"
    unfolding request_billing_record_def Let_def case_sum_Inr case_prod_unfold
    by (elim exE conjE) (auto simp: case_sum_Inr split: if_splits)
  from o assms(2,3) have other: "rqa_mandate c \<noteq> rqa_request_state c \<and> rqa_mandate c \<noteq> rqa_result c"
  proof (cases rule: open_request_Inr)
    case (1 s1 s2)
    show ?thesis
      using opened_differs [OF assms(4) 1(8) load_mandate_starts [OF m]]
        opened_differs [OF assms(4) 1(9) load_mandate_starts [OF m]] by auto
  qed
  from q obtain cb s2 where
    b: "build_callback_instruction E A RECORD_BILLING_EVENT_CALLBACK_DISCRIMINATOR off' (pc_cluster_offset config)
       RECORD_BILLING_EVENT_CIRCUIT (effective_mxe_program_id config)
       [(rqa_request_state c, True), (rqa_result c, True), (rqa_config c, False), (rqa_mandate c, False),
        (rqa_plan c, False)] = Inr cb" and
    qq: "queue_computation A (computation_of E A c (effective_mxe_program_id config) RECORD_BILLING_EVENT_CIRCUIT off'
       args cb) s1 = Inr s2"
    unfolding queue_request_def Let_def case_sum_Inr by blast
  have "qc_callback (computation_of E A c mxe circ off' args cb) = cb" for mxe circ by (simp add: computation_of_def)
  then have b': "build_callback_instruction E A RECORD_BILLING_EVENT_CALLBACK_DISCRIMINATOR off' (pc_cluster_offset config)
       RECORD_BILLING_EVENT_CIRCUIT (effective_mxe_program_id config)
       [(rqa_request_state c, True), (rqa_result c, True), (rqa_config c, False), (rqa_mandate c, False),
        (rqa_plan c, False)] =
      Inr (qc_callback (computation_of E A c (effective_mxe_program_id config) RECORD_BILLING_EVENT_CIRCUIT off' args cb))"
    using b by simp
  show thesis by (rule that [OF qq b']) (use other in simp_all)
qed

text \<open>
  C14: The callback instruction a billing record request queues can never run: it names the mandate
  as not writable, and the callback takes the mandate as a writable account. Every call made from the
  instruction, by whatever output and in whatever later state, fails, so no such request is answered
  and no pull is marked as recorded.
\<close>

theorem queued_record_callback_always_fails:
  assumes "request_billing_record E A c off pulls s = Inr s'"
    "keeps_program_accounts E" "creates_fresh E" "distinct_discriminators E"
  shows "\<exists>q s1 s2. queue_computation A q s1 = Inr s2 \<and>
    cb_discriminator (qc_callback q) = RECORD_BILLING_EVENT_CALLBACK_DISCRIMINATOR \<and>
    (\<forall>E' c' out t. runs_callback (qc_callback q) c' [cba_plan c'] \<longrightarrow>
       (\<exists>e. record_billing_event_callback E' A c' out t = Inl e))"
proof -
  from assms obtain q s1 s2 mxe off' and config :: protocol_config where q: "queue_computation A q s1 = Inr s2" and
    b: "build_callback_instruction E A RECORD_BILLING_EVENT_CALLBACK_DISCRIMINATOR off' (pc_cluster_offset config)
       RECORD_BILLING_EVENT_CIRCUIT mxe
       [(rqa_request_state c, True), (rqa_result c, True), (rqa_config c, False), (rqa_mandate c, False),
        (rqa_plan c, False)] = Inr (qc_callback q)" and
    d: "rqa_mandate c \<noteq> rqa_request_state c" "rqa_mandate c \<noteq> rqa_result c"
    by (rule request_record_queued)
  have fails: "\<exists>e. record_billing_event_callback E' A c' out t = Inl e"
    if r: "runs_callback (qc_callback q) c' [cba_plan c']" for E' c' out t
  proof (cases "record_billing_event_callback E' A c' out t")
    case (Inr t')
    then have "cba_mandate c' \<in> set (cba_writable c')" by (rule record_billing_event_callback_Inr)
    with queued_callback_accounts [OF b r] d show ?thesis by auto
  qed simp
  moreover have "cb_discriminator (qc_callback q) = RECORD_BILLING_EVENT_CALLBACK_DISCRIMINATOR"
    by (rule queued_callback_discriminator [OF b])
  ultimately show ?thesis using q by blast
qed

section \<open>The property on a concrete request\<close>

definition pulled_mandate :: vela_mandate where
  "pulled_mandate = sample_mandate\<lparr>md_pulls_executed := 1\<rparr>"

definition sample_record_request :: request_accounts where
  "sample_record_request = sample_usage_request\<lparr>rqa_plan := 28676, rqa_result := 25095\<rparr>"

definition opened_record_store :: store where
  "opened_record_store = (billing_store pulled_mandate)
     (106 := fresh_account 9, 25095 := fresh_account 457, 24846 := fresh_account 116)"

lemma sample_record_request_simps [simp]:
  "rqa_plan sample_record_request = 28676" "rqa_result sample_record_request = 25095"
  "rqa_payer sample_record_request = 4" "rqa_config sample_record_request = 25350"
  "rqa_mxe_account sample_record_request = 105" "rqa_sign_pda_account sample_record_request = 106"
  "rqa_mempool_account sample_record_request = 101" "rqa_executing_pool sample_record_request = 102"
  "rqa_computation_account sample_record_request = 103" "rqa_comp_def_account sample_record_request = 104"
  "rqa_cluster_account sample_record_request = 91" "rqa_pool_account sample_record_request = 107"
  "rqa_clock_account sample_record_request = 108" "rqa_mandate sample_record_request = 27911"
  "rqa_request_state sample_record_request = 24846"
  "rqa_system_program sample_record_request = system_program_id" "rqa_arcium_program sample_record_request = 109"
  by (simp_all add: sample_record_request_def)

lemma zero_event_reads: "dec_billing_event (replicate 449 0) = Some (cleared_event 0, [])"
proof -
  have v: "valid_billing_event (cleared_event 0)" by (simp add: valid_billing_event_def cleared_event_def)
  have "enc_billing_event (cleared_event 0) = replicate 449 0"
    by (rule replicate_eqI)
      (use billing_event_codec.length_enc [OF v] in \<open>auto simp: enc_billing_event_def cleared_event_def le_bytes_zero\<close>)
  then show ?thesis using billing_event_codec.dec_enc [OF v, of "[]"] by simp
qed

lemma sample_record_opens:
  "open_request (creating_env now [4]) (sample_network v) sample_record_request KBillingEvent dec_billing_event billing_event_size
     [billing_event_seed, key_bytes 27911, n] (billing_request_seeds 27911 d) (billing_store pulled_mandate) =
     Inr (cleared_event 0, empty_request, opened_record_store)"
proof -
  let ?s = "billing_store pulled_mandate"
  have c: "require_all (request_constraints (creating_env now [4]) (sample_network v) sample_record_request) = Inr ()"
    by (simp add: request_constraints_def is_signer_def)
  have own: "acc_owner (?s 106) = system_program_id" "acc_owner (?s 25095) = system_program_id"
    "acc_owner (?s 24846) = system_program_id"
    by (simp_all add: billing_store_def sample_store_def sample_config_accounts_def system_program_zero)
  have one: "init_if_needed (creating_env now [4]) 4 KArciumSigner dec_u8 9 [replicate 106 0] 106 ?s =
      Inr (0, ?s(106 := fresh_account 9))"
    by (rule init_fresh) (simp_all add: own)
  have two: "init_if_needed (creating_env now [4]) 4 KBillingEvent dec_billing_event 457 [billing_event_seed, key_bytes 27911, n] 25095
      (?s(106 := fresh_account 9)) = Inr (cleared_event 0, ?s(106 := fresh_account 9, 25095 := fresh_account 457))"
    by (rule init_fresh) (simp_all add: own zero_event_reads)
  have three: "init_if_needed (creating_env now [4]) 4 KArciumRequestState dec_arcium_request 116 (billing_request_seeds 27911 d) 24846
      (?s(106 := fresh_account 9, 25095 := fresh_account 457)) = Inr (empty_request, opened_record_store)"
    by (subst init_fresh) (simp_all add: own zero_request_reads opened_record_store_def billing_request_seeds_def)
  show ?thesis
    by (simp add: open_request_def c arcium_signer_size_def one two three billing_event_size_def arcium_request_size_def)
qed

lemma opened_record_simps [simp]:
  "opened_record_store 25095 = fresh_account 457" "opened_record_store 24846 = fresh_account 116"
  "opened_record_store 106 = fresh_account 9"
  "opened_record_store 27911 = owned_by program_id (sample_disc KVelaMandate @ enc_vela_mandate pulled_mandate)"
  "opened_record_store 25350 = owned_by program_id (sample_disc KProtocolConfig @ enc_protocol_config sample_protocol_config)"
  by (simp_all add: opened_record_store_def)

lemma pulled_mandate_ok: "storable_current pulled_mandate"
  using sample_mandates_ok(1) by (simp add: pulled_mandate_def valid_vela_mandate_def)

lemma opened_record_loads:
  "load_mandate_account (creating_env now sg) opened_record_store 27911 = Inr (CurrentMandate pulled_mandate)"
  "load_protocol_config (creating_env now sg) opened_record_store 25350 = Inr (CurrentProtocolConfig sample_protocol_config)"
proof -
  have "load_mandate_account (creating_env now sg) (billing_store pulled_mandate) 27911 = Inr (CurrentMandate pulled_mandate)"
    using current_mandate_sample [OF pulled_mandate_ok] by (simp add: current_mandate_Inr)
  then show "load_mandate_account (creating_env now sg) opened_record_store 27911 = Inr (CurrentMandate pulled_mandate)"
    by (simp add: load_mandate_account_def)
  show "load_protocol_config (creating_env now sg) opened_record_store 25350 = Inr (CurrentProtocolConfig sample_protocol_config)"
    using sample_configs_load(1) [of now sg sample_mandate] by (simp add: load_protocol_config_def)
qed

lemma pulled_fields [simp]:
  "md_subscriber pulled_mandate = 4" "md_merchant pulled_mandate = 1" "md_plan pulled_mandate = 28676"
  "md_pulls_executed pulled_mandate = 1" "md_last_billing_recorded_pull pulled_mandate = 0"
  "md_next_payment_due pulled_mandate = i64_of 7300" "md_mandate_index pulled_mandate = 0" "md_bump pulled_mandate = 255"
  "md_billing_request_nonce pulled_mandate = 0"
  by (simp_all add: pulled_mandate_def sample_mandate_def new_mandate_def sample_plan_def)

lemma pulled_nonce_written:
  "\<exists>s1. write_mandate (creating_env now sg) 27911 (pulled_mandate\<lparr>md_billing_request_nonce := 1\<rparr>) False
     opened_record_store = Inr s1 \<and> (\<forall>k. k \<noteq> 27911 \<longrightarrow> s1 k = opened_record_store k)"
proof -
  let ?m = "pulled_mandate\<lparr>md_billing_request_nonce := 1\<rparr>"
  have "length (enc_vela_mandate ?m) = 260" "length (enc_vela_mandate pulled_mandate) = 260"
    by (rule vela_mandate_codec.length_enc, use pulled_mandate_ok in \<open>simp add: valid_vela_mandate_def\<close>)+
  then show ?thesis by (auto simp: write_mandate_def write_account_Inr)
qed

definition sample_record_offset :: u64 where
  "sample_record_offset = derive_billing_computation_offset (creating_env (i64_of 7400) [4]) 27911 1 1"

definition record_request :: arcium_request where
  "record_request =
     \<lparr>rq_mandate = 27911, rq_flow = FlowBillingRecord, rq_subject = u64_le 1,
      rq_computation_offset = sample_record_offset, rq_request_nonce = 1, rq_status = RequestPending,
      rq_created_at = i64_of 7400, rq_completed_at = i64_of 0, rq_bump = 255, rq_version = CURRENT_ACCOUNT_VERSION,
      rq_reserved = replicate 32 0\<rparr>"

lemma record_request_length [simp]: "length (enc_arcium_request record_request) = 108"
  by (rule arcium_request_codec.length_enc) (simp add: record_request_def valid_arcium_request_def)

lemma cleared_event_length [simp]: "length (enc_billing_event (cleared_event b)) = 449"
  by (rule billing_event_codec.length_enc) (simp add: cleared_event_def valid_billing_event_def)

lemma record_request_started:
  "start_arcium_request empty_request 27911 FlowBillingRecord (u64_le 1) sample_record_offset 1 255
     (i64_of 7400) = Inr record_request"
  by (simp add: start_arcium_request_def empty_request_def record_request_def)

lemma sample_record_queued:
  assumes "s1 25095 = fresh_account 457" "s1 24846 = fresh_account 116" "s1 106 = fresh_account 9"
  shows "\<exists>s'. queue_request (creating_env now [4]) (sample_network v) sample_record_request sample_protocol_config d circuit off args extra
    [(25095, sample_disc KBillingEvent @ enc_billing_event (cleared_event b)),
     (24846, sample_disc KArciumRequestState @ enc_arcium_request record_request)] s1 = Inr s'"
  using assms by (simp add: queue_request_def Let_def build_callback_instruction_def anchor_exit_def)

lemma sample_plan_anchored:
  "anchor_account (creating_env now sg) KVelaPlan dec_vela_plan (billing_store m) 28676 = Inr sample_plan"
  using sample_plan_valid(1) vela_plan_codec.try_deserialize_enc [of sample_plan "creating_env now sg" KVelaPlan "[]"]
  by (simp add: anchor_account_Inr storable_plan_def)

lemma sample_record_requested:
  "\<exists>s'. request_billing_record (creating_env (i64_of 7400) [4]) (sample_network True) sample_record_request
     sample_record_offset 1 (billing_store pulled_mandate) = Inr s'"
proof -
  let ?E = "creating_env (i64_of 7400) [4]"
  from pulled_nonce_written [of "i64_of 7400" "[4]"] obtain s1 where
    w: "write_mandate ?E 27911 (pulled_mandate\<lparr>md_billing_request_nonce := 1\<rparr>) False opened_record_store = Inr s1" and
    s1: "\<And>k. k \<noteq> 27911 \<Longrightarrow> s1 k = opened_record_store k" by blast
  have fresh: "s1 25095 = fresh_account 457" "s1 24846 = fresh_account 116" "s1 106 = fresh_account 9" by (simp_all add: s1)
  have offset: "derive_billing_computation_offset ?E 27911 1 1 = sample_record_offset"
    by (simp add: sample_record_offset_def)
  have queue: "validate_queue_accounts ?E (sample_network True) sample_record_request (pc_cluster_offset sample_protocol_config)
      off circuit mxe = Inr ()" for off circuit mxe
    by (simp add: validate_queue_accounts_def)
  have nonce: "checked_add (0 :: u64) 1 = Some 1" by (simp add: checked_add_def)
  have plan: "vp_merchant sample_plan = 1" "vp_plan_id sample_plan = 0" "vp_frequency sample_plan = 3600"
    by (simp_all add: sample_plan_def)
  have event: "be_created_at (cleared_event 0) = i64_of 0" by (simp add: cleared_event_def)
  have period: "i64_try_from_u64 3600 = Some (i64_of 3600)" "i64_checked_sub (i64_of 7300) (i64_of 3600) = Some (i64_of 3700)"
    by (simp_all add: i64_try_from_u64_def i64_checked_sub_def in_i64_def i64_of_def)
  show ?thesis
    using sample_record_queued [OF fresh]
    by (simp add: request_billing_record_def Let_def sample_plan_anchored sample_record_opens opened_record_loads
        sample_address_checks offset nonce queue plan event period record_request_started w)
qed

theorem queued_record_callback_always_fails_witness:
  "\<exists>q :: queued_computation. cb_discriminator (qc_callback q) = RECORD_BILLING_EVENT_CALLBACK_DISCRIMINATOR \<and>
     (\<forall>E' c' out t. runs_callback (qc_callback q) c' [cba_plan c'] \<longrightarrow>
        (\<exists>e. record_billing_event_callback E' (sample_network True) c' out t = Inl e))"
proof -
  from sample_record_requested obtain s' where
    r: "request_billing_record (creating_env (i64_of 7400) [4]) (sample_network True) sample_record_request
      sample_record_offset 1 (billing_store pulled_mandate) = Inr s'" by blast
  show ?thesis
    using queued_record_callback_always_fails [OF r creating_env_runtime sample_distinct_discriminators(2)]
    by blast
qed

end
