(* ===== verification/Computation_Setup.thy ===== *)
theory Computation_Setup
  imports Computation_Guarantees
begin

text \<open>
  The registration of the four circuits with the computation network
  (\<open>instructions/arcium/init_comp_defs.rs\<close>). What the build generates for a circuit, and the
  network's program that takes the registration, are parameters.
\<close>

section \<open>What is registered\<close>

record 'p circuit_metadata =
  cm_params :: "string \<Rightarrow> 'p list"
  cm_outputs :: "string \<Rightarrow> 'p list"
  cm_weight :: "string \<Rightarrow> u64"
  cm_compiled_circuit :: "string \<Rightarrow> u8 list"

record comp_def_accounts =
  cd_payer :: pubkey
  cd_mxe_program :: pubkey
  cd_mxe_account :: pubkey
  cd_comp_def_account :: pubkey
  cd_address_lookup_table :: pubkey
  cd_lut_program :: pubkey
  cd_arcium_program :: pubkey
  cd_system_program :: pubkey

record 'p comp_def_registration =
  cr_signer :: pubkey
  cr_mxe_program :: pubkey
  cr_mxe_acc :: pubkey
  cr_comp_def_acc :: pubkey
  cr_address_lookup_table :: pubkey
  cr_lut_program :: pubkey
  cr_arcium_program :: pubkey
  cr_system_program :: pubkey
  cr_params :: "'p list"
  cr_outputs :: "'p list"
  cr_comp_def_offset :: u32
  cr_compiled_circuit_len :: u32
  cr_weight :: u64

record ('c, 'o, 'p) arcium_registry = "('c, 'o) arcium" +
  lut_program_id :: pubkey
  init_computation_def :: "'p comp_def_registration \<Rightarrow> store \<Rightarrow> verror + store"

definition validate_registered_mxe_account :: "env \<Rightarrow> ('c, 'o, 'p) arcium_registry \<Rightarrow> pubkey \<Rightarrow> pubkey \<Rightarrow> verror + unit" where
  "validate_registered_mxe_account E A mxe_account mxe_program_id =
     (if mxe_account \<noteq> fst (find_pda E [mxe_pda_seed A, key_bytes mxe_program_id] (arcium_program_id A))
      then Inl (Vela InvalidArciumAccount) else Inr ())"

text \<open>The four structs have the same fields and constraints, in this order.\<close>

definition comp_def_constraints :: "env \<Rightarrow> ('c, 'o, 'p) arcium_registry \<Rightarrow> comp_def_accounts \<Rightarrow> (bool \<times> verror) list" where
  "comp_def_constraints E A c =
     [(is_signer E (cd_payer c), Anchor AccountNotSigner),
      (cd_lut_program c = lut_program_id A, Anchor ConstraintAddress),
      (cd_arcium_program c = arcium_program_id A, Anchor InvalidProgramId),
      (cd_system_program c = system_program_id, Anchor InvalidProgramId)]"

definition registration_of ::
  "('c, 'o, 'p) arcium_registry \<Rightarrow> 'p circuit_metadata \<Rightarrow> comp_def_accounts \<Rightarrow> string \<Rightarrow> string \<Rightarrow> 'p comp_def_registration" where
  "registration_of A G c circuit_name file_name =
     \<lparr>cr_signer = cd_payer c, cr_mxe_program = cd_mxe_program c, cr_mxe_acc = cd_mxe_account c,
      cr_comp_def_acc = cd_comp_def_account c, cr_address_lookup_table = cd_address_lookup_table c,
      cr_lut_program = cd_lut_program c, cr_arcium_program = cd_arcium_program c,
      cr_system_program = cd_system_program c, cr_params = cm_params G file_name, cr_outputs = cm_outputs G file_name,
      cr_comp_def_offset = comp_def_offset A circuit_name,
      cr_compiled_circuit_len = of_nat (length (cm_compiled_circuit G file_name)), cr_weight = cm_weight G file_name\<rparr>"

section \<open>The four handlers\<close>

definition init_comp_def ::
  "env \<Rightarrow> ('c, 'o, 'p) arcium_registry \<Rightarrow> 'p circuit_metadata \<Rightarrow> comp_def_accounts \<Rightarrow> string \<Rightarrow> string \<Rightarrow> store \<Rightarrow>
     verror + store" where
  "init_comp_def E A G c circuit_name file_name s =
     (case require_all (comp_def_constraints E A c) of Inl e \<Rightarrow> Inl e | Inr _ \<Rightarrow>
     (case validate_registered_mxe_account E A (cd_mxe_account c) (cd_mxe_program c) of Inl e \<Rightarrow> Inl e | Inr _ \<Rightarrow>
      init_computation_def A (registration_of A G c circuit_name file_name) s))"

definition init_validate_mandate_comp_def ::
  "env \<Rightarrow> ('c, 'o, 'p) arcium_registry \<Rightarrow> 'p circuit_metadata \<Rightarrow> comp_def_accounts \<Rightarrow> store \<Rightarrow> verror + store" where
  "init_validate_mandate_comp_def E A G c s = init_comp_def E A G c VALIDATE_MANDATE_CIRCUIT ''validate_mandate'' s"

definition init_record_billing_comp_def ::
  "env \<Rightarrow> ('c, 'o, 'p) arcium_registry \<Rightarrow> 'p circuit_metadata \<Rightarrow> comp_def_accounts \<Rightarrow> store \<Rightarrow> verror + store" where
  "init_record_billing_comp_def E A G c s = init_comp_def E A G c RECORD_BILLING_EVENT_CIRCUIT ''record_billing_event'' s"

definition init_usage_charge_comp_def ::
  "env \<Rightarrow> ('c, 'o, 'p) arcium_registry \<Rightarrow> 'p circuit_metadata \<Rightarrow> comp_def_accounts \<Rightarrow> store \<Rightarrow> verror + store" where
  "init_usage_charge_comp_def E A G c s = init_comp_def E A G c USAGE_CHARGE_CIRCUIT ''usage_charge'' s"

definition init_tiered_pricing_comp_def ::
  "env \<Rightarrow> ('c, 'o, 'p) arcium_registry \<Rightarrow> 'p circuit_metadata \<Rightarrow> comp_def_accounts \<Rightarrow> store \<Rightarrow> verror + store" where
  "init_tiered_pricing_comp_def E A G c s = init_comp_def E A G c TIERED_PRICING_CIRCUIT ''tiered_pricing'' s"

text \<open>
  A registration only needs a signer: nothing compares it with the protocol's admin. It hands the
  network the definition of the circuit under the offset the requests use.
\<close>

lemma init_comp_def_Inr:
  "init_comp_def E A G c circuit_name file_name s = Inr s' \<longleftrightarrow>
     list_all fst (comp_def_constraints E A c) \<and>
     cd_mxe_account c = fst (find_pda E [mxe_pda_seed A, key_bytes (cd_mxe_program c)] (arcium_program_id A)) \<and>
     init_computation_def A (registration_of A G c circuit_name file_name) s = Inr s'"
  by (auto simp: init_comp_def_def validate_registered_mxe_account_def case_sum_Inr require_all_Inr)

lemma registered_offsets:
  "cr_comp_def_offset (registration_of A G c circuit_name file_name) = comp_def_offset A circuit_name"
  by (simp add: registration_of_def)

end
