(* ===== verification/Config_Setup.thy ===== *)
theory Config_Setup
  imports Computations
begin

text \<open>
  The first configuration of the protocol and its update
  (\<open>instructions/config/init_config.rs\<close>): only the key that may upgrade the program creates it.
\<close>

section \<open>The loader's accounts\<close>

text \<open>
  The states of the upgradeable loader, which is part of the chain. Its address and the reader
  of its accounts are a parameter.
\<close>

datatype loader_state =
    LoaderUninitialized
  | LoaderBuffer
  | LoaderProgram pubkey
  | LoaderProgramData "pubkey option"

record upgradeable_loader =
  loader_id :: pubkey
  read_loader :: "u8 list \<Rightarrow> loader_state option"

record init_config_accounts =
  ic_admin :: pubkey
  ic_program :: pubkey
  ic_program_data :: pubkey
  ic_mxe_account :: pubkey
  ic_config :: pubkey
  ic_system_program :: pubkey

definition validate_program_upgrade_authority ::
  "upgradeable_loader \<Rightarrow> store \<Rightarrow> init_config_accounts \<Rightarrow> verror + unit" where
  "validate_program_upgrade_authority L s c =
     (case require_all
         [(ic_program c = program_id, Vela InvalidProtocolConfig),
          (acc_owner (s (ic_program c)) = loader_id L, Vela InvalidProtocolConfig),
          (acc_owner (s (ic_program_data c)) = loader_id L, Vela InvalidProtocolConfig)] of
        Inl e \<Rightarrow> Inl e | Inr _ \<Rightarrow>
     (case ok_or (read_loader L (acc_data (s (ic_program c)))) (Vela InvalidProtocolConfig) of
        Inl e \<Rightarrow> Inl e | Inr program_state \<Rightarrow>
     (case program_state of
        LoaderProgram programdata_address \<Rightarrow>
          if ic_program_data c \<noteq> programdata_address then Inl (Vela InvalidProtocolConfig) else
         (case ok_or (read_loader L (acc_data (s (ic_program_data c)))) (Vela InvalidProtocolConfig) of
            Inl e \<Rightarrow> Inl e | Inr program_data_state \<Rightarrow>
         (case program_data_state of
            LoaderProgramData (Some upgrade_authority) \<Rightarrow>
              if ic_admin c \<noteq> upgrade_authority then Inl (Vela UnauthorizedAdmin) else Inr ()
          | LoaderProgramData None \<Rightarrow> Inl (Vela UnauthorizedAdmin)
          | _ \<Rightarrow> Inl (Vela InvalidProtocolConfig)))
      | _ \<Rightarrow> Inl (Vela InvalidProtocolConfig))))"

section \<open>Creating and updating the configuration\<close>

definition normalize_mxe_program_id :: "pubkey \<Rightarrow> pubkey" where
  "normalize_mxe_program_id mxe_program_id = (if mxe_program_id = default_key then program_id else mxe_program_id)"

definition validate_mxe_account :: "env \<Rightarrow> ('c, 'o) arcium \<Rightarrow> pubkey \<Rightarrow> pubkey \<Rightarrow> verror + unit" where
  "validate_mxe_account E A mxe_account mxe_program_id =
     (if mxe_account \<noteq> derive_mxe_pubkey E A mxe_program_id then Inl (Vela InvalidProtocolConfig) else Inr ())"

definition init_config ::
  "env \<Rightarrow> ('c, 'o) arcium \<Rightarrow> upgradeable_loader \<Rightarrow> init_config_accounts \<Rightarrow> pubkey \<Rightarrow> cluster_type \<Rightarrow> u64 \<Rightarrow> pubkey \<Rightarrow>
     store \<Rightarrow> verror + store" where
  "init_config E A L c cluster_pubkey cluster_type cluster_offset mxe_program_id s =
     (case require_all
         [(is_signer E (ic_admin c), Anchor AccountNotSigner),
          (ic_program c = program_id, Anchor ConstraintAddress),
          (ic_config c = pda E [protocol_config_seed], Anchor ConstraintSeeds),
          (ic_system_program c = system_program_id, Anchor InvalidProgramId)] of
        Inl e \<Rightarrow> Inl e | Inr _ \<Rightarrow>
      let bump = snd (find_pda E [protocol_config_seed] program_id) in
     (case invoke E (InitAccount (ic_admin c) (ic_config c) (minimum_balance E protocol_config_size)
                       protocol_config_size program_id) [[protocol_config_seed, [bump]]] s of
        Inl e \<Rightarrow> Inl e | Inr s1 \<Rightarrow>
     (case validate_program_upgrade_authority L s1 c of Inl e \<Rightarrow> Inl e | Inr _ \<Rightarrow>
     (case validate_cluster_configuration E A cluster_pubkey cluster_offset of Inl e \<Rightarrow> Inl e | Inr _ \<Rightarrow>
      let mxe_program_id = normalize_mxe_program_id mxe_program_id in
     (case validate_mxe_account E A (ic_mxe_account c) mxe_program_id of Inl e \<Rightarrow> Inl e | Inr _ \<Rightarrow>
      anchor_exit (ic_config c) (disc E KProtocolConfig @ enc_protocol_config
        (new_protocol_config (ic_admin c) cluster_pubkey cluster_type cluster_offset mxe_program_id bump)) s1)))))"

record update_config_accounts = config_accounts +
  uc_mxe_account :: pubkey

definition update_config ::
  "env \<Rightarrow> ('c, 'o) arcium \<Rightarrow> update_config_accounts \<Rightarrow> pubkey \<Rightarrow> cluster_type \<Rightarrow> u64 \<Rightarrow> pubkey \<Rightarrow> store \<Rightarrow>
     verror + store" where
  "update_config E A c cluster_pubkey cluster_type cluster_offset mxe_program_id s =
     (case require_all
         [(is_signer E (ca_admin c), Anchor AccountNotSigner),
          (ca_config c = pda E [protocol_config_seed], Anchor ConstraintSeeds),
          (ca_system_program c = system_program_id, Anchor InvalidProgramId)] of
        Inl e \<Rightarrow> Inl e | Inr _ \<Rightarrow>
     (case validate_cluster_configuration E A cluster_pubkey cluster_offset of Inl e \<Rightarrow> Inl e | Inr _ \<Rightarrow>
      let mxe_program_id = normalize_mxe_program_id mxe_program_id in
     (case validate_mxe_account E A (uc_mxe_account c) mxe_program_id of Inl e \<Rightarrow> Inl e | Inr _ \<Rightarrow>
     (case load_protocol_config E s (ca_config c) of Inl e \<Rightarrow> Inl e | Inr existing \<Rightarrow>
      if ca_admin c \<noteq> lpc_admin existing then Inl (Vela UnauthorizedAdmin) else
     (case upgrade_protocol_config E (ca_admin c) (ca_config c) s of Inl e \<Rightarrow> Inl e | Inr (config, s1) \<Rightarrow>
      write_protocol_config E (ca_config c)
        (config\<lparr>pc_cluster_pubkey := cluster_pubkey, pc_cluster_type := cluster_type,
                pc_cluster_offset := cluster_offset, pc_mxe_program_id := mxe_program_id\<rparr>) s1)))))"

end
