(* ===== verification/Wrapped_Token.thy ===== *)
theory Wrapped_Token
  imports Computations Agents Merchant
begin

text \<open>
  The wrapped token and the merchants' credentials: the creation of the wrapped mint
  (\<open>instructions/token/init_wrapped_mint.rs\<close>), of a merchant's credential mint
  (\<open>init_merchant_credential.rs\<close>), and wrapping and unwrapping (\<open>wrap.rs\<close>, \<open>unwrap.rs\<close>).
\<close>

section \<open>The mints\<close>

text \<open>
  The sizes of a Token-2022 mint with extensions and of its metadata come from the token
  library and are a parameter; a size that cannot be computed is an error of the library.
\<close>

datatype mint_extension =
    ExtTransferHook | ExtTransferFeeConfig | ExtMetadataPointer | ExtPermanentDelegate | ExtNonTransferable

record mint_library =
  mint_account_len :: "mint_extension list \<Rightarrow> program_error + nat"
  metadata_len :: "pubkey \<Rightarrow> pubkey \<Rightarrow> string \<Rightarrow> string \<Rightarrow> string \<Rightarrow> program_error + nat"

definition WRAPPED_USDC_NAME :: string where
  "WRAPPED_USDC_NAME = ''Vela Wrapped USDC''"

definition WRAPPED_USDC_SYMBOL :: string where
  "WRAPPED_USDC_SYMBOL = ''sUSDC''"

definition WRAPPED_USDC_URI :: string where
  "WRAPPED_USDC_URI = []"

definition TRANSFER_FEE_BASIS_POINTS :: u16 where
  "TRANSFER_FEE_BASIS_POINTS = 0"

definition TRANSFER_FEE_MAXIMUM :: u64 where
  "TRANSFER_FEE_MAXIMUM = 0"

definition CREDENTIAL_DECIMALS :: u8 where
  "CREDENTIAL_DECIMALS = 0"

text \<open>Calls one after the other; the first that fails stops the handler.\<close>

fun invoke_all :: "env \<Rightarrow> (cpi \<times> u8 list list list) list \<Rightarrow> store \<Rightarrow> verror + store" where
  "invoke_all E [] s = Inr s"
| "invoke_all E ((call, seeds) # cs) s =
     (case invoke E call seeds s of Inl e \<Rightarrow> Inl e | Inr s' \<Rightarrow> invoke_all E cs s')"

record init_wrapped_accounts =
  iw_admin :: pubkey
  iw_config :: pubkey
  iw_mint_authority :: pubkey
  iw_wrapped_usdc_mint :: pubkey
  iw_spl_usdc_mint :: pubkey
  iw_wrapping_vault :: pubkey
  iw_token_2022_program :: pubkey
  iw_spl_token_program :: pubkey
  iw_associated_token_program :: pubkey
  iw_system_program :: pubkey

text \<open>The calls that create the mint, in order; only the last is signed by the mint authority.\<close>

definition wrapped_mint_calls ::
  "env \<Rightarrow> init_wrapped_accounts \<Rightarrow> nat \<Rightarrow> nat \<Rightarrow> (cpi \<times> u8 list list list) list" where
  "wrapped_mint_calls E c mint_len funded_mint_len =
     (let mint = iw_wrapped_usdc_mint c; authority = iw_mint_authority c;
          mint_authority_bump = snd (find_pda E [mint_authority_seed] program_id) in
      [(CreateAccount (iw_admin c) mint (minimum_balance E funded_mint_len) mint_len (iw_token_2022_program c), []),
       (SetUpMint mint (TransferHookSetup authority transfer_hook_program_id), []),
       (SetUpMint mint (TransferFeeSetup authority authority TRANSFER_FEE_BASIS_POINTS TRANSFER_FEE_MAXIMUM), []),
       (SetUpMint mint (MetadataPointerSetup authority mint), []),
       (SetUpMint mint (PermanentDelegateSetup authority), []),
       (SetUpMint mint (MintSetup authority (Some authority) USDC_DECIMALS), []),
       (SetUpMint mint (MetadataSetup authority authority WRAPPED_USDC_NAME WRAPPED_USDC_SYMBOL WRAPPED_USDC_URI),
        [[mint_authority_seed, [mint_authority_bump]]])])"

definition init_wrapped_mint ::
  "env \<Rightarrow> mint_library \<Rightarrow> init_wrapped_accounts \<Rightarrow> store \<Rightarrow> verror + store" where
  "init_wrapped_mint E M c s =
     (case spl_mint E s (iw_spl_usdc_mint c) of Inl e \<Rightarrow> Inl e | Inr _ \<Rightarrow>
     (case require_all
         [(is_signer E (iw_admin c), Anchor AccountNotSigner),
          (iw_config c = pda E [protocol_config_seed], Anchor ConstraintSeeds),
          (iw_mint_authority c = pda E [mint_authority_seed], Anchor ConstraintSeeds),
          (is_signer E (iw_wrapped_usdc_mint c), Anchor AccountNotSigner),
          (iw_token_2022_program c = token_2022_id E, Anchor InvalidProgramId),
          (iw_spl_token_program c = token_id E, Anchor InvalidProgramId),
          (iw_associated_token_program c = associated_token_id E, Anchor InvalidProgramId),
          (iw_system_program c = system_program_id, Anchor InvalidProgramId)] of
        Inl e \<Rightarrow> Inl e | Inr _ \<Rightarrow>
     (case init_associated_token E (iw_admin c) (iw_wrapping_vault c) (iw_mint_authority c) (iw_spl_usdc_mint c)
             (iw_spl_token_program c) s of Inl e \<Rightarrow> Inl e | Inr s1 \<Rightarrow>
     (case spl_token E s1 (iw_wrapping_vault c) of Inl e \<Rightarrow> Inl e | Inr vault \<Rightarrow>
     (case load_protocol_config E s1 (iw_config c) of Inl e \<Rightarrow> Inl e | Inr existing_config \<Rightarrow>
      if lpc_admin existing_config \<noteq> iw_admin c then Inl (Vela UnauthorizedAdmin) else
     (case upgrade_protocol_config E (iw_admin c) (iw_config c) s1 of Inl e \<Rightarrow> Inl e | Inr (config, s2) \<Rightarrow>
      if pc_wrapped_usdc_mint config \<noteq> default_key then Inl (Vela WrappedMintAlreadyInitialized) else
     (case mint_account_len M [ExtTransferHook, ExtTransferFeeConfig, ExtMetadataPointer, ExtPermanentDelegate] of
        Inl _ \<Rightarrow> Inl (Program InvalidInstructionData) | Inr mint_len \<Rightarrow>
     (case metadata_len M (iw_mint_authority c) (iw_wrapped_usdc_mint c) WRAPPED_USDC_NAME WRAPPED_USDC_SYMBOL
             WRAPPED_USDC_URI of Inl _ \<Rightarrow> Inl (Program InvalidInstructionData) | Inr metadata \<Rightarrow>
      if 2 ^ 64 \<le> mint_len + metadata then Inl (Vela Overflow) else
     (case invoke_all E (wrapped_mint_calls E c mint_len (mint_len + metadata)) s2 of Inl e \<Rightarrow> Inl e | Inr s3 \<Rightarrow>
      if ta_mint vault \<noteq> iw_spl_usdc_mint c then Inl (Vela UsdcMintMismatch) else
      if ta_owner vault \<noteq> iw_mint_authority c then Inl (Vela VaultMismatch) else
      write_protocol_config E (iw_config c)
        (config\<lparr>pc_wrapped_usdc_mint := iw_wrapped_usdc_mint c, pc_wrapping_vault := iw_wrapping_vault c\<rparr>) s3)))))))))"

section \<open>A merchant's credential\<close>

record init_credential_accounts =
  im_merchant :: pubkey
  im_merchant_state :: pubkey
  im_credential_mint :: pubkey
  im_system_program :: pubkey
  im_token_2022_program :: pubkey

definition merchant_credential_seed :: "u8 list" where
  "merchant_credential_seed = bytes ''merchant-credential''"

definition credential_mint_calls ::
  "env \<Rightarrow> init_credential_accounts \<Rightarrow> nat \<Rightarrow> u8 \<Rightarrow> (cpi \<times> u8 list list list) list" where
  "credential_mint_calls E c mint_len credential_bump =
     (let mint = im_credential_mint c in
      [(CreateAccount (im_merchant c) mint (minimum_balance E mint_len) mint_len (im_token_2022_program c),
        [[merchant_credential_seed, key_bytes (im_merchant c), [credential_bump]]]),
       (SetUpMint mint NonTransferableSetup, []),
       (SetUpMint mint (PermanentDelegateSetup (im_merchant_state c)), []),
       (SetUpMint mint (MintSetup (im_merchant_state c) None CREDENTIAL_DECIMALS), [])])"

definition init_merchant_credential ::
  "env \<Rightarrow> mint_library \<Rightarrow> init_credential_accounts \<Rightarrow> store \<Rightarrow> verror + store" where
  "init_merchant_credential E M c s =
     (case require_all
         [(is_signer E (im_merchant c), Anchor AccountNotSigner),
          (im_merchant_state c = pda E [merchant_seed, key_bytes (im_merchant c)], Anchor ConstraintSeeds),
          (im_system_program c = system_program_id, Anchor InvalidProgramId),
          (im_token_2022_program c = token_2022_id E, Anchor RequireKeysEqViolated)] of
        Inl e \<Rightarrow> Inl e | Inr _ \<Rightarrow>
      let (expected_credential_key, credential_bump) =
            find_pda E [merchant_credential_seed, key_bytes (im_merchant c)] program_id in
      if im_credential_mint c \<noteq> expected_credential_key then Inl (Program InvalidSeeds) else
     (case ensure_merchant_state E (im_merchant c) (im_merchant_state c) (im_merchant c)
             (snd (find_pda E [merchant_seed, key_bytes (im_merchant c)] program_id)) s of
        Inl e \<Rightarrow> Inl e | Inr (merchant_state, s1) \<Rightarrow>
      if ms_credential_mint merchant_state \<noteq> default_key then
        (if ms_credential_mint merchant_state = im_credential_mint c then Inr s1
         else Inl (Program AccountAlreadyInitialized))
      else
     (case mint_account_len M [ExtNonTransferable, ExtPermanentDelegate] of
        Inl e \<Rightarrow> Inl (Program e) | Inr mint_len \<Rightarrow>
     (case invoke_all E (credential_mint_calls E c mint_len credential_bump) s1 of Inl e \<Rightarrow> Inl e | Inr s2 \<Rightarrow>
      write_merchant_state E (im_merchant_state c)
        (merchant_state\<lparr>ms_credential_mint := im_credential_mint c\<rparr>) s2))))"

section \<open>Wrapping and unwrapping\<close>

record wrap_accounts =
  wr_subscriber :: pubkey
  wr_config :: pubkey
  wr_spl_usdc_mint :: pubkey
  wr_wrapped_usdc_mint :: pubkey
  wr_subscriber_usdc_account :: pubkey
  wr_destination_wrapped_account :: pubkey
  wr_destination_authority :: pubkey
  wr_wrapping_vault :: pubkey
  wr_mint_authority :: pubkey
  wr_spl_token_program :: pubkey
  wr_token_2022_program :: pubkey

definition wrap_constraints ::
  "env \<Rightarrow> store \<Rightarrow> wrap_accounts \<Rightarrow> token_account \<Rightarrow> token_account \<Rightarrow> token_account \<Rightarrow> (bool \<times> verror) list" where
  "wrap_constraints E s c usdc destination vault =
     [(is_signer E (wr_subscriber c), Anchor AccountNotSigner),
      (wr_config c = pda E [protocol_config_seed], Anchor ConstraintSeeds),
      (ta_owner usdc = wr_subscriber c, Anchor ConstraintRaw),
      (ta_mint usdc = wr_spl_usdc_mint c, Anchor ConstraintRaw),
      (ta_mint destination = wr_wrapped_usdc_mint c, Anchor ConstraintTokenMint),
      (acc_owner (s (wr_destination_wrapped_account c)) = wr_token_2022_program c, Anchor ConstraintTokenProgram),
      (ta_mint vault = wr_spl_usdc_mint c, Vela UsdcMintMismatch),
      (ta_owner vault = wr_mint_authority c, Vela VaultMismatch),
      (wr_mint_authority c = pda E [mint_authority_seed], Anchor ConstraintSeeds),
      (wr_spl_token_program c = token_id E, Anchor InvalidProgramId),
      (wr_token_2022_program c = token_2022_id E, Anchor InvalidProgramId)]"

definition wrap :: "env \<Rightarrow> wrap_accounts \<Rightarrow> u64 \<Rightarrow> store \<Rightarrow> verror + store" where
  "wrap E c amount s =
     (case spl_mint E s (wr_spl_usdc_mint c) of Inl e \<Rightarrow> Inl e | Inr _ \<Rightarrow>
     (case interface_mint E s (wr_wrapped_usdc_mint c) of Inl e \<Rightarrow> Inl e | Inr _ \<Rightarrow>
     (case spl_token E s (wr_subscriber_usdc_account c) of Inl e \<Rightarrow> Inl e | Inr usdc \<Rightarrow>
     (case interface_token E s (wr_destination_wrapped_account c) of Inl e \<Rightarrow> Inl e | Inr destination \<Rightarrow>
     (case spl_token E s (wr_wrapping_vault c) of Inl e \<Rightarrow> Inl e | Inr vault \<Rightarrow>
     (case require_all (wrap_constraints E s c usdc destination vault) of Inl e \<Rightarrow> Inl e | Inr _ \<Rightarrow>
     (case load_protocol_config E s (wr_config c) of Inl e \<Rightarrow> Inl e | Inr config \<Rightarrow>
     (case require_all
         [(lpc_wrapped_usdc_mint config \<noteq> default_key, Vela WrappedMintNotInitialized),
          (wr_wrapped_usdc_mint c = lpc_wrapped_usdc_mint config, Vela UsdcMintMismatch),
          (wr_wrapping_vault c = lpc_wrapping_vault config, Vela VaultMismatch),
          (ta_owner destination = wr_destination_authority c, Vela TransferNotAuthorized)] of
        Inl e \<Rightarrow> Inl e | Inr _ \<Rightarrow>
     (case invoke E (SplTransferChecked (wr_subscriber_usdc_account c) (wr_spl_usdc_mint c) (wr_wrapping_vault c)
                       (wr_subscriber c) amount USDC_DECIMALS) [] s of Inl e \<Rightarrow> Inl e | Inr s1 \<Rightarrow>
      invoke E (MintTo (wr_wrapped_usdc_mint c) (wr_destination_wrapped_account c) (wr_mint_authority c) amount)
        [[mint_authority_seed, [snd (find_pda E [mint_authority_seed] program_id)]]] s1)))))))))"

record unwrap_accounts =
  un_user :: pubkey
  un_config :: pubkey
  un_spl_usdc_mint :: pubkey
  un_wrapped_usdc_mint :: pubkey
  un_user_wrapped_account :: pubkey
  un_user_usdc_account :: pubkey
  un_wrapping_vault :: pubkey
  un_mint_authority :: pubkey
  un_spl_token_program :: pubkey
  un_token_2022_program :: pubkey

definition unwrap_constraints ::
  "env \<Rightarrow> store \<Rightarrow> unwrap_accounts \<Rightarrow> token_account \<Rightarrow> token_account \<Rightarrow> (bool \<times> verror) list" where
  "unwrap_constraints E s c wrapped usdc =
     [(is_signer E (un_user c), Anchor AccountNotSigner),
      (un_config c = pda E [protocol_config_seed], Anchor ConstraintSeeds)] @
     token_constraints s (un_user_wrapped_account c) wrapped (un_wrapped_usdc_mint c) (un_user c)
       (un_token_2022_program c) @
     [(ta_owner usdc = un_user c, Anchor ConstraintRaw),
      (ta_mint usdc = un_spl_usdc_mint c, Anchor ConstraintRaw),
      (un_mint_authority c = pda E [mint_authority_seed], Anchor ConstraintSeeds),
      (un_spl_token_program c = token_id E, Anchor InvalidProgramId),
      (un_token_2022_program c = token_2022_id E, Anchor InvalidProgramId)]"

definition unwrap :: "env \<Rightarrow> unwrap_accounts \<Rightarrow> u64 \<Rightarrow> store \<Rightarrow> verror + store" where
  "unwrap E c amount s =
     (case spl_mint E s (un_spl_usdc_mint c) of Inl e \<Rightarrow> Inl e | Inr _ \<Rightarrow>
     (case interface_mint E s (un_wrapped_usdc_mint c) of Inl e \<Rightarrow> Inl e | Inr _ \<Rightarrow>
     (case interface_token E s (un_user_wrapped_account c) of Inl e \<Rightarrow> Inl e | Inr wrapped \<Rightarrow>
     (case spl_token E s (un_user_usdc_account c) of Inl e \<Rightarrow> Inl e | Inr usdc \<Rightarrow>
     (case spl_token E s (un_wrapping_vault c) of Inl e \<Rightarrow> Inl e | Inr _ \<Rightarrow>
     (case require_all (unwrap_constraints E s c wrapped usdc) of Inl e \<Rightarrow> Inl e | Inr _ \<Rightarrow>
     (case load_protocol_config E s (un_config c) of Inl e \<Rightarrow> Inl e | Inr config \<Rightarrow>
     (case require_all
         [(un_wrapped_usdc_mint c = lpc_wrapped_usdc_mint config, Vela UsdcMintMismatch),
          (un_wrapping_vault c = lpc_wrapping_vault config, Vela VaultMismatch)] of
        Inl e \<Rightarrow> Inl e | Inr _ \<Rightarrow>
     (case invoke E (Burn (un_wrapped_usdc_mint c) (un_user_wrapped_account c) (un_user c) amount) [] s of
        Inl e \<Rightarrow> Inl e | Inr s1 \<Rightarrow>
      invoke E (SplTransferChecked (un_wrapping_vault c) (un_spl_usdc_mint c) (un_user_usdc_account c)
                  (un_mint_authority c) amount USDC_DECIMALS)
        [[mint_authority_seed, [snd (find_pda E [mint_authority_seed] program_id)]]] s1)))))))))"

end
