(* ===== verification/Config_Guarantees.thy ===== *)
theory Config_Guarantees
  imports Config_Setup Wrapped_Token Machine Computation_Samples
begin

text \<open>
  What the configuration's instructions guarantee: only its admin changes it, the admin and the
  wrapped mint stay what they are once set, and only the key that may upgrade the program creates it.
\<close>

section \<open>The configuration's calls\<close>

datatype config_call =
    PauseProtocol config_accounts
  | UnpauseProtocol config_accounts
  | InitConfig init_config_accounts pubkey cluster_type u64 pubkey
  | UpdateConfig update_config_accounts pubkey cluster_type u64 pubkey
  | InitWrappedMint init_wrapped_accounts

fun do_config_call ::
  "('c, 'o) arcium \<Rightarrow> upgradeable_loader \<Rightarrow> mint_library \<Rightarrow> env \<times> config_call \<Rightarrow> store \<Rightarrow> verror + store" where
  "do_config_call A L M (E, PauseProtocol c) s = pause_protocol E c s"
| "do_config_call A L M (E, UnpauseProtocol c) s = unpause_protocol E c s"
| "do_config_call A L M (E, InitConfig c k t off mxe) s = init_config E A L c k t off mxe s"
| "do_config_call A L M (E, UpdateConfig c k t off mxe) s = update_config E A c k t off mxe s"
| "do_config_call A L M (E, InitWrappedMint c) s = init_wrapped_mint E M c s"

text \<open>The configuration stored at its address, in either layout, and how a call may change it.\<close>

definition stored_config :: "env \<Rightarrow> store \<Rightarrow> verror + loaded_protocol_config" where
  "stored_config E s = load_protocol_config E s (pda E [protocol_config_seed])"

definition upgraded_config :: "loaded_protocol_config \<Rightarrow> protocol_config" where
  "upgraded_config l =
     (let c = lpc_into_current l in
      (if pc_transfer_hook_program_id c = default_key then c\<lparr>pc_transfer_hook_program_id := transfer_hook_program_id\<rparr>
       else c)\<lparr>pc_version := CURRENT_ACCOUNT_VERSION\<rparr>)"

inductive config_change :: "env \<Rightarrow> protocol_config \<Rightarrow> protocol_config \<Rightarrow> bool" for E where
  Paused: "config_change E c (c\<lparr>pc_paused := True, pc_paused_at := unix_timestamp E\<rparr>)"
| Unpaused: "config_change E c (c\<lparr>pc_paused := False, pc_paused_at := i64_of 0\<rparr>)"
| Moved: "config_change E c (c\<lparr>pc_cluster_pubkey := k, pc_cluster_type := t, pc_cluster_offset := off,
    pc_mxe_program_id := mxe\<rparr>)"
| Wrapped: "pc_wrapped_usdc_mint c = default_key \<Longrightarrow> is_signer E mint \<Longrightarrow>
    config_change E c (c\<lparr>pc_wrapped_usdc_mint := mint, pc_wrapping_vault := vault\<rparr>)"

lemma upgraded_config_fields [simp]:
  "pc_admin (upgraded_config l) = lpc_admin l" "pc_version (upgraded_config l) = CURRENT_ACCOUNT_VERSION"
  "pc_bump (upgraded_config l) = pc_bump (lpc_into_current l)"
  "pc_wrapped_usdc_mint (upgraded_config l) = lpc_wrapped_usdc_mint l" "pc_wrapping_vault (upgraded_config l) = lpc_wrapping_vault l"
  by (cases l; simp add: upgraded_config_def Let_def)+

text \<open>Reading it depends on the account alone.\<close>

lemma load_protocol_config_local:
  "acc_owner (s' k) = acc_owner (s k) \<Longrightarrow> acc_data (s' k) = acc_data (s k) \<Longrightarrow>
     load_protocol_config E s' k = load_protocol_config E s k"
  unfolding load_protocol_config_def by (simp only:)

lemma load_protocol_config_kept:
  "accounts_kept s s' \<Longrightarrow> load_protocol_config E s k = Inr l \<Longrightarrow> load_protocol_config E s' k = Inr l"
  using load_protocol_config_owner [of E s k l] load_protocol_config_local [of s' k s E]
  unfolding accounts_kept_def by metis

lemma load_protocol_config_env:
  "disc E' = disc E \<Longrightarrow> find_pda E' = find_pda E \<Longrightarrow> load_protocol_config E' s k = load_protocol_config E s k"
  unfolding load_protocol_config_def pda_def try_deserialize_def by (simp only:)

lemma load_protocol_config_back:
  assumes "accounts_kept s s'" "acc_owner (s k) = program_id" "load_protocol_config E s' k = Inr l"
  shows "load_protocol_config E s k = Inr l"
  using assms load_protocol_config_local [of s' k s E] by (simp add: accounts_kept_def)

lemma upgrade_protocol_config_Inr:
  assumes "upgrade_protocol_config E p k s = Inr (c, s')" "keeps_program_accounts E"
  obtains l where "load_protocol_config E s k = Inr l" "c = upgraded_config l"
    "load_protocol_config E s' k = Inr (CurrentProtocolConfig c)"
proof -
  from assms(1) obtain l s1 where l: "load_protocol_config E s k = Inr l"
    and r: "resize_protocol_config_account E p k s = Inr s1" and c: "c = upgraded_config l"
    and w: "write_protocol_config E k c s1 = Inr s'"
    unfolding upgrade_protocol_config_def case_sum_Inr Let_def upgraded_config_def by auto
  have "acc_owner (s1 k) = program_id"
    using r load_protocol_config_owner [OF l] keeps_program_accountsD [OF assms(2)]
    by (fastforce simp: resize_protocol_config_account_def resize_account_def Let_def case_sum_Inr set_data_def
        split: if_splits)
  with load_protocol_config_written [OF w] load_protocol_config_owner [OF l]
  show thesis by (intro that [OF l c]) (simp add: c)
qed

lemma config_written:
  assumes "load_protocol_config E s k = Inr l" "write_protocol_config E k c s = Inr s'" "pc_version c = CURRENT_ACCOUNT_VERSION"
  shows "load_protocol_config E s' k = Inr (CurrentProtocolConfig c)"
  using load_protocol_config_written [OF assms(2,3)] load_protocol_config_owner [OF assms(1)] by blast

text \<open>An upgrade followed by a write of a changed configuration.\<close>

definition reconfigured :: "env \<Rightarrow> pubkey \<Rightarrow> store \<Rightarrow> store \<Rightarrow> bool" where
  "reconfigured E admin s s' \<longleftrightarrow>
     (\<exists>l c. stored_config E s = Inr l \<and> admin = lpc_admin l \<and> is_signer E admin \<and> config_change E (upgraded_config l) c \<and>
        stored_config E s' = Inr (CurrentProtocolConfig c))"

lemma reconfiguredI:
  assumes "load_protocol_config E s k = Inr l" "admin = lpc_admin l" "is_signer E admin" "k = pda E [protocol_config_seed]"
    "upgrade_protocol_config E p k s = Inr (c, s2)" "keeps_program_accounts E" "accounts_kept s2 s3"
    "write_protocol_config E k c' s3 = Inr s'" "config_change E c c'"
  shows "reconfigured E admin s s'"
proof -
  from upgrade_protocol_config_Inr [OF assms(5,6)] obtain l' where
    u: "load_protocol_config E s k = Inr l'" "c = upgraded_config l'" "load_protocol_config E s2 k = Inr (CurrentProtocolConfig c)" .
  have l: "l' = l" using u(1) assms(1) by simp
  have v: "pc_version c' = CURRENT_ACCOUNT_VERSION" using assms(9) by (cases rule: config_change.cases) (simp_all add: u(2))
  have "load_protocol_config E s3 k = Inr (CurrentProtocolConfig c)"
    using load_protocol_config_kept [OF assms(7) u(3)] .
  from config_written [OF this assms(8) v] have "stored_config E s' = Inr (CurrentProtocolConfig c')"
    by (simp add: stored_config_def assms(4))
  then show ?thesis
    unfolding reconfigured_def using assms(1-4,9) u(2) l by (auto simp: stored_config_def)
qed

lemma pause_reconfigures:
  assumes "pause_protocol E c s = Inr s'" "keeps_program_accounts E"
  shows "reconfigured E (ca_admin c) s s'"
proof -
  from assms(1) obtain l u where "load_protocol_config E s (ca_config c) = Inr l" "ca_admin c = lpc_admin l"
    "is_signer E (ca_admin c)" "ca_config c = pda E [protocol_config_seed]"
    "upgrade_protocol_config E (ca_admin c) (ca_config c) s = Inr u"
    "write_protocol_config E (ca_config c) ((fst u)\<lparr>pc_paused := True, pc_paused_at := unix_timestamp E\<rparr>) (snd u) = Inr s'"
    unfolding pause_protocol_def config_constraints_def by (auto simp: case_sum_Inr require_all_Inr split: if_splits)
  then show ?thesis
    by (cases u) (auto intro!: reconfiguredI [OF _ _ _ _ _ assms(2) accounts_kept_refl _ config_change.Paused])
qed

lemma unpause_reconfigures:
  assumes "unpause_protocol E c s = Inr s'" "keeps_program_accounts E"
  shows "reconfigured E (ca_admin c) s s'"
proof -
  from assms(1) obtain l u where "load_protocol_config E s (ca_config c) = Inr l" "ca_admin c = lpc_admin l"
    "is_signer E (ca_admin c)" "ca_config c = pda E [protocol_config_seed]"
    "upgrade_protocol_config E (ca_admin c) (ca_config c) s = Inr u"
    "write_protocol_config E (ca_config c) ((fst u)\<lparr>pc_paused := False, pc_paused_at := i64_of 0\<rparr>) (snd u) = Inr s'"
    unfolding unpause_protocol_def config_constraints_def by (auto simp: case_sum_Inr require_all_Inr split: if_splits)
  then show ?thesis
    by (cases u) (auto intro!: reconfiguredI [OF _ _ _ _ _ assms(2) accounts_kept_refl _ config_change.Unpaused])
qed

lemma update_reconfigures:
  assumes "update_config E A c k t off mxe s = Inr s'" "keeps_program_accounts E"
  shows "reconfigured E (ca_admin c) s s'"
proof -
  from assms(1) obtain l x s1 where "load_protocol_config E s (ca_config c) = Inr l" "ca_admin c = lpc_admin l"
    "is_signer E (ca_admin c)" "ca_config c = pda E [protocol_config_seed]"
    "upgrade_protocol_config E (ca_admin c) (ca_config c) s = Inr (x, s1)"
    "write_protocol_config E (ca_config c) (x\<lparr>pc_cluster_pubkey := k, pc_cluster_type := t, pc_cluster_offset := off,
       pc_mxe_program_id := normalize_mxe_program_id mxe\<rparr>) s1 = Inr s'"
    unfolding update_config_def Let_def by (auto simp: case_sum_Inr require_all_Inr split: if_splits)
  then show ?thesis
    by (auto intro!: reconfiguredI [OF _ _ _ _ _ assms(2) accounts_kept_refl _ config_change.Moved])
qed

lemma invoke_all_kept:
  "keeps_program_accounts E \<Longrightarrow> invoke_all E cs s = Inr s' \<Longrightarrow> accounts_kept s s'"
  by (induction E cs s rule: invoke_all.induct)
    (auto simp: case_sum_Inr intro: accounts_kept_trans accounts_kept_call)

lemma wrapping_reconfigures:
  assumes "init_wrapped_mint E M c s = Inr s'" "keeps_program_accounts E"
    "acc_owner (s (pda E [protocol_config_seed])) = program_id"
  shows "reconfigured E (iw_admin c) s s'"
proof -
  from assms(1) obtain l x s1 s2 s3 n m where
    l: "load_protocol_config E s1 (iw_config c) = Inr l" "iw_admin c = lpc_admin l"
    "is_signer E (iw_admin c)" "iw_config c = pda E [protocol_config_seed]" and
    s1: "init_associated_token E (iw_admin c) (iw_wrapping_vault c) (iw_mint_authority c) (iw_spl_usdc_mint c)
             (iw_spl_token_program c) s = Inr s1" and
    u: "upgrade_protocol_config E (iw_admin c) (iw_config c) s1 = Inr (x, s2)" and
    s3: "invoke_all E (wrapped_mint_calls E c n m) s2 = Inr s3" and
    w: "write_protocol_config E (iw_config c)
       (x\<lparr>pc_wrapped_usdc_mint := iw_wrapped_usdc_mint c, pc_wrapping_vault := iw_wrapping_vault c\<rparr>) s3 = Inr s'" and
    new: "pc_wrapped_usdc_mint x = default_key" "is_signer E (iw_wrapped_usdc_mint c)"
    unfolding init_wrapped_mint_def Let_def by (auto simp: case_sum_Inr require_all_Inr split: if_splits)
  have "reconfigured E (iw_admin c) s1 s'"
    by (rule reconfiguredI [OF l u assms(2) invoke_all_kept [OF assms(2) s3] w config_change.Wrapped [OF new]])
  then show ?thesis
    using load_protocol_config_back [OF init_associated_token_kept [OF s1 assms(2)] assms(3)]
    unfolding reconfigured_def stored_config_def by blast
qed

text \<open>The creation of the configuration, in its parts.\<close>

lemma init_config_Inr:
  assumes "init_config E A L c k t off mxe s = Inr s'"
  obtains s1 bump m seeds where "is_signer E (ic_admin c)" "ic_program c = program_id"
    "ic_config c = pda E [protocol_config_seed]"
    "invoke E (InitAccount (ic_admin c) (ic_config c) m protocol_config_size program_id) seeds s = Inr s1"
    "validate_program_upgrade_authority L s1 c = Inr ()" "validate_cluster_configuration E A k off = Inr ()"
    "anchor_exit (ic_config c) (disc E KProtocolConfig @ enc_protocol_config
       (new_protocol_config (ic_admin c) k t off (normalize_mxe_program_id mxe) bump)) s1 = Inr s'"
  using assms unfolding init_config_def Let_def case_sum_Inr require_all_Inr
  by (elim exE conjE) simp

lemma config_exists:
  assumes "creates_fresh E" "init_config E A L c k t off mxe s = Inr s'"
  shows "acc_owner (s (pda E [protocol_config_seed])) = system_program_id"
  using assms(2) creates_freshD(1) [OF assms(1)]
  by (cases rule: init_config_Inr) (auto simp: created_fresh_def)

text \<open>A call on a configuration that exists is a change by its admin.\<close>

lemma config_call_reconfigures:
  assumes "do_config_call A L M (E, call) s = Inr s'" "keeps_program_accounts E" "creates_fresh E"
    "stored_config E s = Inr l"
  shows "\<exists>c. is_signer E (lpc_admin l) \<and> config_change E (upgraded_config l) c \<and> stored_config E s' = Inr (CurrentProtocolConfig c)"
proof -
  have own: "acc_owner (s (pda E [protocol_config_seed])) = program_id"
    using load_protocol_config_owner [OF assms(4) [unfolded stored_config_def]] by simp
  have "\<exists>admin. reconfigured E admin s s'"
  proof (cases call)
    case (PauseProtocol c)
    then show ?thesis using assms(1) pause_reconfigures [OF _ assms(2)] by fastforce
  next
    case (UnpauseProtocol c)
    then show ?thesis using assms(1) unpause_reconfigures [OF _ assms(2)] by fastforce
  next
    case (InitConfig c k t off mxe)
    then have "init_config E A L c k t off mxe s = Inr s'" using assms(1) by simp
    from config_exists [OF assms(3) this] own show ?thesis by simp
  next
    case (UpdateConfig c k t off mxe)
    then show ?thesis using assms(1) update_reconfigures [OF _ assms(2)] by fastforce
  next
    case (InitWrappedMint c)
    then show ?thesis using assms(1) wrapping_reconfigures [of E M c s s'] assms(2) own by auto
  qed
  then show ?thesis using assms(4) unfolding reconfigured_def by auto
qed

section \<open>Over every sequence of calls\<close>

text \<open>What the runtime grants every call: the same addresses and discriminators, and its rules.\<close>

definition config_runtime :: "env \<Rightarrow> env \<times> config_call \<Rightarrow> bool" where
  "config_runtime E x \<longleftrightarrow>
     disc (fst x) = disc E \<and> find_pda (fst x) = find_pda E \<and> keeps_program_accounts (fst x) \<and> creates_fresh (fst x)"

lemma config_step:
  assumes "config_runtime E x" "do_config_call A L M x s = Inr s'" "stored_config E s = Inr l"
  shows "\<exists>c. is_signer (fst x) (lpc_admin l) \<and> config_change (fst x) (upgraded_config l) c \<and>
    stored_config E s' = Inr (CurrentProtocolConfig c)"
proof -
  obtain E' call where x: "x = (E', call)" by (cases x)
  note rt = assms(1) [unfolded x config_runtime_def fst_conv]
  have e: "stored_config E' t = stored_config E t" for t
    using rt load_protocol_config_env [of E' E] by (simp add: stored_config_def pda_def)
  show ?thesis
    using config_call_reconfigures [OF assms(2) [unfolded x], of l] rt assms(3) by (simp add: x e)
qed

text \<open>What no change touches: the admin and the bump, and the wrapped mint and its vault once they are set.\<close>

definition settled_config :: "protocol_config \<Rightarrow> loaded_protocol_config \<Rightarrow> bool" where
  "settled_config c l \<longleftrightarrow> lpc_admin l = pc_admin c \<and> pc_bump (lpc_into_current l) = pc_bump c \<and>
     (pc_wrapped_usdc_mint c \<noteq> default_key \<longrightarrow>
        lpc_wrapped_usdc_mint l = pc_wrapped_usdc_mint c \<and> lpc_wrapping_vault l = pc_wrapping_vault c)"

lemma settled_change:
  assumes "config_change E (upgraded_config l) c'" "settled_config c l"
  shows "settled_config c (CurrentProtocolConfig c')"
  using assms by (cases rule: config_change.cases) (auto simp: settled_config_def)

interpretation settled_machine: guarded_machine "do_config_call A L M" "config_runtime E"
  "\<lambda>s. \<exists>l. stored_config E s = Inr l \<and> settled_config c l" for A L M E c
  by unfold_locales (blast dest: config_step intro: settled_change)

interpretation unsigned_machine: guarded_machine "do_config_call A L M"
  "\<lambda>x. config_runtime E x \<and> \<not> is_signer (fst x) (lpc_admin l)" "\<lambda>s. stored_config E s = Inr l" for A L M E l
  by unfold_locales (blast dest: config_step)

text \<open>
  Over every sequence of calls that create, pause, move or wrap, the protocol's configuration keeps its
  admin, and its wrapped mint and vault once they are set; the mint can be set only while it is unset.
\<close>

theorem wrapped_mint_is_fixed_once_set:
  assumes "list_all (config_runtime E) calls" "stored_config E s = Inr l"
  shows "\<exists>l'. stored_config E (run (do_config_call A L M) calls s) = Inr l' \<and> lpc_admin l' = lpc_admin l \<and>
    (lpc_wrapped_usdc_mint l \<noteq> default_key \<longrightarrow>
       lpc_wrapped_usdc_mint l' = lpc_wrapped_usdc_mint l \<and> lpc_wrapping_vault l' = lpc_wrapping_vault l)"
proof -
  have "\<exists>l'. stored_config E (run (do_config_call A L M) calls s) = Inr l' \<and> settled_config (upgraded_config l) l'"
    by (rule settled_machine.run_keeps [OF assms(1)]) (use assms(2) in \<open>simp add: settled_config_def\<close>)
  then show ?thesis by (auto simp: settled_config_def)
qed

text \<open>
  Without a signature of its admin no sequence of these calls changes the protocol's configuration,
  not even its layout.
\<close>

theorem only_the_admin_changes_the_configuration:
  assumes "list_all (config_runtime E) calls" "list_all (\<lambda>(E', _). \<not> is_signer E' (lpc_admin l)) calls"
    "stored_config E s = Inr l"
  shows "stored_config E (run (do_config_call A L M) calls s) = Inr l"
  by (rule unsigned_machine.run_keeps) (use assms in \<open>auto simp: list_all_iff\<close>)

text \<open>
  The system program changes the owner and the data of no account but the one it creates: the
  payer only loses lamports.
\<close>

definition creates_alone :: "env \<Rightarrow> bool" where
  "creates_alone E \<longleftrightarrow>
     (\<forall>payer k l n p seeds s s' j. invoke E (InitAccount payer k l n p) seeds s = Inr s' \<longrightarrow> j \<noteq> k \<longrightarrow>
        acc_owner (s' j) = acc_owner (s j) \<and> acc_data (s' j) = acc_data (s j))"

text \<open>The loader's two accounts at a successful check.\<close>

lemma validate_program_upgrade_authority_Inr:
  assumes "validate_program_upgrade_authority L s c = Inr ()"
  shows "ic_program c = program_id" "acc_owner (s program_id) = loader_id L" "acc_owner (s (ic_program_data c)) = loader_id L"
    "read_loader L (acc_data (s program_id)) = Some (LoaderProgram (ic_program_data c))"
    "read_loader L (acc_data (s (ic_program_data c))) = Some (LoaderProgramData (Some (ic_admin c)))"
proof -
  from assms obtain p where checks: "list_all fst
      [(ic_program c = program_id, Vela InvalidProtocolConfig), (acc_owner (s (ic_program c)) = loader_id L, Vela InvalidProtocolConfig),
       (acc_owner (s (ic_program_data c)) = loader_id L, Vela InvalidProtocolConfig)]"
    "read_loader L (acc_data (s (ic_program c))) = Some p" and rest: "(case p of
        LoaderProgram a \<Rightarrow> if ic_program_data c \<noteq> a then Inl (Vela InvalidProtocolConfig) else
         (case ok_or (read_loader L (acc_data (s (ic_program_data c)))) (Vela InvalidProtocolConfig) of
            Inl e \<Rightarrow> Inl e
          | Inr (LoaderProgramData (Some x)) \<Rightarrow> if ic_admin c \<noteq> x then Inl (Vela UnauthorizedAdmin) else Inr ()
          | Inr (LoaderProgramData None) \<Rightarrow> Inl (Vela UnauthorizedAdmin)
          | Inr _ \<Rightarrow> Inl (Vela InvalidProtocolConfig))
      | _ \<Rightarrow> Inl (Vela InvalidProtocolConfig)) = Inr ()"
    unfolding validate_program_upgrade_authority_def case_sum_Inr require_all_Inr ok_or_Inr by blast
  from rest have "p = LoaderProgram (ic_program_data c) \<and>
      read_loader L (acc_data (s (ic_program_data c))) = Some (LoaderProgramData (Some (ic_admin c)))"
    by (auto simp: ok_or_Inr split: loader_state.splits sum.splits option.splits if_splits)
  then show "ic_program c = program_id" "acc_owner (s program_id) = loader_id L"
    "acc_owner (s (ic_program_data c)) = loader_id L"
    "read_loader L (acc_data (s program_id)) = Some (LoaderProgram (ic_program_data c))"
    "read_loader L (acc_data (s (ic_program_data c))) = Some (LoaderProgramData (Some (ic_admin c)))"
    using checks by auto
qed

text \<open>
  C25: Only the key that may upgrade the program creates the configuration: before the call the
  loader's record of this program leads to the program data whose upgrade authority is the admin that
  signed. It does so only while there is no configuration, with
  itself as the admin and a cluster whose address belongs to its number; it starts unpaused, with no wrapped mint.
\<close>

theorem the_upgrade_authority_creates_the_configuration:
  assumes "init_config E A L c k t off mxe s = Inr s'" "creates_fresh E" "creates_alone E" "loader_id L \<noteq> program_id"
  shows "is_signer E (ic_admin c) \<and> acc_owner (s (pda E [protocol_config_seed])) = system_program_id \<and>
    acc_owner (s program_id) = loader_id L \<and> acc_owner (s (ic_program_data c)) = loader_id L \<and>
    read_loader L (acc_data (s program_id)) = Some (LoaderProgram (ic_program_data c)) \<and>
    read_loader L (acc_data (s (ic_program_data c))) = Some (LoaderProgramData (Some (ic_admin c))) \<and>
    (\<exists>n. cluster_id_from_offset off = Inr n \<and> k = derive_cluster_pubkey E A n) \<and>
    (\<exists>c0. stored_config E s' = Inr (CurrentProtocolConfig c0) \<and> pc_admin c0 = ic_admin c \<and> \<not> pc_paused c0 \<and>
       pc_wrapped_usdc_mint c0 = default_key)"
  using assms(1)
proof (cases rule: init_config_Inr)
  case (1 s1 bump m seeds)
  let ?c = "new_protocol_config (ic_admin c) k t off (normalize_mxe_program_id mxe) bump"
  note authority = validate_program_upgrade_authority_Inr [OF 1(5)]
  have cluster: "\<exists>n. cluster_id_from_offset off = Inr n \<and> k = derive_cluster_pubkey E A n"
    using 1(6) unfolding validate_cluster_configuration_def by (auto split: sum.splits if_splits)
  have new: "acc_owner (s1 (ic_config c)) = program_id" "acc_owner (s (ic_config c)) = system_program_id"
    using creates_freshD(1) [OF assms(2) 1(4)] by (simp_all add: created_fresh_def)
  have kept: "acc_owner (s1 j) = acc_owner (s j) \<and> acc_data (s1 j) = acc_data (s j)" if "acc_owner (s1 j) = loader_id L" for j
    using assms(3) 1(4) that new(1) assms(4) unfolding creates_alone_def by metis
  have v: "valid_protocol_config ?c" "pc_version ?c = CURRENT_ACCOUNT_VERSION"
    by (simp_all add: new_protocol_config_def valid_protocol_config_def)
  have "stored_config E s' = Inr (CurrentProtocolConfig ?c)"
    using 1(7) new(1) 1(3) v
    by (auto simp: stored_config_def load_protocol_config_def anchor_exit_Inr Let_def
        protocol_config_codec.try_deserialize_enc)
  then show ?thesis
    using 1(1,3) new(2) authority kept [OF authority(2)] kept [OF authority(3)] cluster
    by (auto simp: new_protocol_config_def)
qed

section \<open>The properties on concrete calls\<close>

definition sample_loader :: upgradeable_loader where
  "sample_loader =
     \<lparr>loader_id = 30, read_loader = (\<lambda>bs. if bs = [1] then Some (LoaderProgram 40)
        else if bs = [2] then Some (LoaderProgramData (Some 7)) else None)\<rparr>"

definition sample_library :: mint_library where
  "sample_library = \<lparr>mint_account_len = (\<lambda>_. Inr 400), metadata_len = (\<lambda>_ _ _ _ _. Inr 100)\<rparr>"

definition sample_config_call :: config_accounts where
  "sample_config_call = \<lparr>ca_admin = 90, ca_config = 25350, ca_system_program = system_program_id\<rparr>"

lemma sample_stored_config:
  "stored_config (creating_env now sg) (billing_store sample_mandate) = Inr (CurrentProtocolConfig sample_protocol_config)"
  using sample_configs_load(1) [of now sg sample_mandate] by (simp add: stored_config_def)

lemma sample_config_names:
  "pc_admin sample_protocol_config = 90" "pc_wrapped_usdc_mint sample_protocol_config = 3"
  "pc_wrapping_vault sample_protocol_config = 33"
  by (simp_all add: sample_protocol_config_def new_protocol_config_def)

lemma sample_config_runtime: "config_runtime (creating_env now sg) (creating_env now' sg', call)"
  by (simp add: config_runtime_def creating_env_def sample_env_def)
    (use creating_env_runtime [of now' sg'] in \<open>simp add: creating_env_def sample_env_def\<close>)

theorem wrapped_mint_is_fixed_once_set_witness:
  "\<exists>l. stored_config (creating_env (i64_of 5) [90]) (run (do_config_call (sample_network True) sample_loader sample_library)
       [(creating_env (i64_of 5) [90], PauseProtocol sample_config_call),
        (creating_env (i64_of 6) [90], UnpauseProtocol sample_config_call)] (billing_store sample_mandate)) = Inr l \<and>
     lpc_admin l = 90 \<and> lpc_wrapped_usdc_mint l = 3 \<and> lpc_wrapping_vault l = 33"
  using wrapped_mint_is_fixed_once_set [OF _ sample_stored_config,
      of "i64_of 5" "[90]" "[(creating_env (i64_of 5) [90], PauseProtocol sample_config_call),
        (creating_env (i64_of 6) [90], UnpauseProtocol sample_config_call)]" "sample_network True" sample_loader sample_library]
  by (simp add: sample_config_runtime sample_config_names)

theorem only_the_admin_changes_the_configuration_witness:
  "stored_config (creating_env (i64_of 5) [91]) (run (do_config_call (sample_network True) sample_loader sample_library)
     [(creating_env (i64_of 5) [91], PauseProtocol sample_config_call)] (billing_store sample_mandate)) =
     Inr (CurrentProtocolConfig sample_protocol_config)"
  by (rule only_the_admin_changes_the_configuration [OF _ _ sample_stored_config])
    (simp_all add: sample_config_runtime sample_config_names is_signer_def)

definition sample_init_accounts :: init_config_accounts where
  "sample_init_accounts =
     \<lparr>ic_admin = 7, ic_program = program_id, ic_program_data = 40, ic_mxe_account = 105, ic_config = 25350,
      ic_system_program = system_program_id\<rparr>"

definition deployed_store :: store where
  "deployed_store = sample_store [(program_id, owned_by 30 [1]), (40, owned_by 30 [2])]"

lemma sample_config_initialised:
  "\<exists>s'. init_config (creating_env now [7]) (sample_network True) sample_loader sample_init_accounts 91 Cerberus 456
     default_key deployed_store = Inr s'"
proof -
  have keys: "program_id \<noteq> 40" "program_id \<noteq> 25350" by (simp_all add: program_id_def)
  have c: "validate_cluster_configuration (creating_env now [7]) (sample_network True) 91 456 = Inr ()"
    by (simp add: validate_cluster_configuration_def cluster_id_from_offset_def)
  have len: "length (enc_protocol_config (new_protocol_config a k t off mxe b)) = 212" for a k t off mxe b
    by (rule protocol_config_codec.length_enc) (simp add: valid_protocol_config_def)
  show ?thesis
    using keys keys [symmetric]
    by (simp add: len init_config_def Let_def sample_init_accounts_def is_signer_def sample_invoke_def deployed_store_def
        sample_store_def validate_program_upgrade_authority_def sample_loader_def validate_mxe_account_def c
        anchor_exit_def protocol_config_size_def system_program_id_def)
qed

lemma creating_env_alone: "creates_alone (creating_env now sg)"
  by (auto simp: creates_alone_def sample_invoke_def split: if_splits)

theorem the_upgrade_authority_creates_the_configuration_witness:
  "\<exists>s' c0. read_loader sample_loader (acc_data (deployed_store 40)) = Some (LoaderProgramData (Some 7)) \<and>
     stored_config (creating_env (i64_of 5) [7]) s' = Inr (CurrentProtocolConfig c0) \<and> pc_admin c0 = 7 \<and>
     \<not> pc_paused c0 \<and> pc_wrapped_usdc_mint c0 = default_key"
proof -
  from sample_config_initialised [of "i64_of 5"] obtain s' where
    "init_config (creating_env (i64_of 5) [7]) (sample_network True) sample_loader sample_init_accounts 91 Cerberus 456
       default_key deployed_store = Inr s'" by blast
  moreover have "loader_id sample_loader \<noteq> program_id" by (simp add: sample_loader_def program_id_def)
  ultimately have "read_loader sample_loader (acc_data (deployed_store (ic_program_data sample_init_accounts))) =
      Some (LoaderProgramData (Some (ic_admin sample_init_accounts))) \<and>
    (\<exists>c0. stored_config (creating_env (i64_of 5) [7]) s' = Inr (CurrentProtocolConfig c0) \<and>
      pc_admin c0 = ic_admin sample_init_accounts \<and> \<not> pc_paused c0 \<and> pc_wrapped_usdc_mint c0 = default_key)"
    using the_upgrade_authority_creates_the_configuration [OF _ creating_env_runtime(2) creating_env_alone] by blast
  then show ?thesis by (auto simp: sample_init_accounts_def)
qed

end
