(* ===== verification/Token_Backing.thy ===== *)
theory Token_Backing
  imports Config_Guarantees
begin

text \<open>
  The backing of the wrapped token: under the documented behaviour of the token programs, every
  sequence of wrapping and unwrapping mints and burns exactly what the vault takes in and releases.
\<close>

section \<open>What the token programs do\<close>

text \<open>
  The documented effect of the three calls: a transfer moves the amount between the two accounts
  and nothing for an account and itself, minting and burning change the supply, and nothing else
  is touched but the token account that is minted to or burned from.
\<close>

definition same_owners :: "store \<Rightarrow> store \<Rightarrow> bool" where
  "same_owners s s' \<longleftrightarrow> (\<forall>k. acc_owner (s' k) = acc_owner (s k))"

definition same_data_but :: "pubkey set \<Rightarrow> store \<Rightarrow> store \<Rightarrow> bool" where
  "same_data_but K s s' \<longleftrightarrow> (\<forall>k. k \<notin> K \<longrightarrow> acc_data (s' k) = acc_data (s k))"

fun token_effect :: "env \<Rightarrow> cpi \<Rightarrow> store \<Rightarrow> store \<Rightarrow> bool" where
  "token_effect E (SplTransferChecked source mint destination authority amount decimals) s s' \<longleftrightarrow>
     same_owners s s' \<and> same_data_but {source, destination} s s' \<and>
     (\<exists>a b. unpack_token E (acc_data (s source)) = Some a \<and> unpack_token E (acc_data (s destination)) = Some b \<and>
        amount \<le> ta_amount a \<and>
        (if source = destination then acc_data (s' source) = acc_data (s source)
         else unat (ta_amount b) + unat amount < 2 ^ 64 \<and>
           unpack_token E (acc_data (s' source)) = Some (a\<lparr>ta_amount := ta_amount a - amount\<rparr>) \<and>
           unpack_token E (acc_data (s' destination)) = Some (b\<lparr>ta_amount := ta_amount b + amount\<rparr>)))"
| "token_effect E (MintTo mint account authority amount) s s' \<longleftrightarrow>
     same_owners s s' \<and> same_data_but {mint, account} s s' \<and>
     (\<exists>m. unpack_mint E (acc_data (s mint)) = Some m \<and> unat (mint_supply m) + unat amount < 2 ^ 64 \<and>
        unpack_mint E (acc_data (s' mint)) = Some (m\<lparr>mint_supply := mint_supply m + amount\<rparr>))"
| "token_effect E (Burn mint account authority amount) s s' \<longleftrightarrow>
     same_owners s s' \<and> same_data_but {mint, account} s s' \<and>
     (\<exists>m. unpack_mint E (acc_data (s mint)) = Some m \<and> amount \<le> mint_supply m \<and>
        unpack_mint E (acc_data (s' mint)) = Some (m\<lparr>mint_supply := mint_supply m - amount\<rparr>))"
| "token_effect E _ s s' \<longleftrightarrow> True"

definition token_programs :: "env \<Rightarrow> bool" where
  "token_programs E \<longleftrightarrow>
     token_id E \<noteq> token_2022_id E \<and>
     (\<forall>bs. unpack_token E bs \<noteq> None \<longrightarrow> unpack_mint E bs = None) \<and>
     (\<forall>c seeds s s'. invoke E c seeds s = Inr s' \<longrightarrow> token_effect E c s s')"

lemma token_programsD:
  assumes "token_programs E"
  shows "token_id E \<noteq> token_2022_id E"
    "unpack_token E bs = Some t \<Longrightarrow> unpack_mint E bs = None"
    "invoke E c seeds s = Inr s' \<Longrightarrow> token_effect E c s s'"
  using assms by (auto simp: token_programs_def)

section \<open>The books\<close>

text \<open>
  The wrapped mint and the vault the configuration names, with the vault owned by the mint
  authority, and by how much the vault's balance exceeds the supply.
\<close>

definition books :: "env \<Rightarrow> pubkey \<Rightarrow> pubkey \<Rightarrow> store \<Rightarrow> nat \<Rightarrow> nat \<Rightarrow> bool" where
  "books E mint vault s supply held \<longleftrightarrow>
     acc_owner (s vault) = token_id E \<and>
     (\<exists>m. unpack_mint E (acc_data (s mint)) = Some m \<and> unat (mint_supply m) = supply) \<and>
     (\<exists>v. unpack_token E (acc_data (s vault)) = Some v \<and> ta_owner v = pda E [mint_authority_seed] \<and>
        unat (ta_amount v) = held)"

lemma books_unique: "books E m v s a b \<Longrightarrow> books E m v s a' b' \<Longrightarrow> a' = a \<and> b' = b"
  by (auto simp: books_def)

lemma vault_is_not_the_mint: "token_programs E \<Longrightarrow> books E m v s a b \<Longrightarrow> v \<noteq> m"
  using token_programsD(2) by (fastforce simp: books_def)

text \<open>Money into the vault, money out of it, and the supply.\<close>

lemma vault_takes:
  assumes "token_programs E" "invoke E (SplTransferChecked src um v auth n d) seeds s = Inr s'" "books E m v s a b" "src \<noteq> v"
  shows "books E m v s' a (b + unat n)"
proof -
  note e = token_programsD(3) [OF assms(1,2), unfolded token_effect.simps]
  have "src \<noteq> m" using e token_programsD(2) [OF assms(1)] assms(3) by (fastforce simp: books_def)
  then show ?thesis
    using e assms(3,4) vault_is_not_the_mint [OF assms(1,3)]
    by (auto simp: books_def same_owners_def same_data_but_def unat_add_lem [THEN iffD1])
qed

lemma vault_releases:
  assumes "token_programs E" "invoke E (SplTransferChecked v um dst auth n d) seeds s = Inr s'" "books E m v s a b" "dst \<noteq> v"
  shows "unat n \<le> b \<and> books E m v s' a (b - unat n)"
proof -
  note e = token_programsD(3) [OF assms(1,2), unfolded token_effect.simps]
  have "dst \<noteq> m" using e token_programsD(2) [OF assms(1)] assms(3) by (fastforce simp: books_def)
  then show ?thesis
    using e assms(3,4) vault_is_not_the_mint [OF assms(1,3)]
    by (auto simp: books_def same_owners_def same_data_but_def unat_sub word_le_nat_alt)
qed

lemma supply_grows:
  assumes "token_programs E" "invoke E (MintTo m k auth n) seeds s = Inr s'" "books E m v s a b" "k \<noteq> v"
  shows "books E m v s' (a + unat n) b"
  using token_programsD(3) [OF assms(1,2)] assms(3,4) vault_is_not_the_mint [OF assms(1,3)]
  by (auto simp: books_def same_owners_def same_data_but_def unat_add_lem [THEN iffD1])

lemma supply_shrinks:
  assumes "token_programs E" "invoke E (Burn m k auth n) seeds s = Inr s'" "books E m v s a b" "k \<noteq> v"
  shows "unat n \<le> a \<and> books E m v s' (a - unat n) b"
  using token_programsD(3) [OF assms(1,2)] assms(3,4) vault_is_not_the_mint [OF assms(1,3)]
  by (auto simp: books_def same_owners_def same_data_but_def unat_sub word_le_nat_alt)

section \<open>Wrapping and unwrapping\<close>

definition names :: "env \<Rightarrow> pubkey \<Rightarrow> pubkey \<Rightarrow> store \<Rightarrow> bool" where
  "names E mint vault s \<longleftrightarrow>
     (\<exists>l. stored_config E s = Inr l \<and> lpc_wrapped_usdc_mint l = mint \<and> lpc_wrapping_vault l = vault)"

lemma names_kept: "accounts_kept s s' \<Longrightarrow> names E m v s \<Longrightarrow> names E m v s'"
  using load_protocol_config_kept unfolding names_def stored_config_def by blast

lemma wrap_books:
  assumes "wrap E c n s = Inr s'" "token_programs E" "keeps_program_accounts E"
    "\<not> is_signer E (pda E [mint_authority_seed])" "names E m v s" "books E m v s a b"
  shows "names E m v s' \<and> books E m v s' (a + unat n) (b + unat n)"
proof -
  from assms(1) obtain l usdc destination s1 s2 seeds where
    l: "load_protocol_config E s (wr_config c) = Inr l" "wr_config c = pda E [protocol_config_seed]"
      "wr_wrapped_usdc_mint c = lpc_wrapped_usdc_mint l" "wr_wrapping_vault c = lpc_wrapping_vault l" and
    u: "spl_token E s (wr_subscriber_usdc_account c) = Inr usdc" "ta_owner usdc = wr_subscriber c"
      "is_signer E (wr_subscriber c)" and
    d: "acc_owner (s (wr_destination_wrapped_account c)) = token_2022_id E" and
    t: "invoke E (SplTransferChecked (wr_subscriber_usdc_account c) (wr_spl_usdc_mint c) (wr_wrapping_vault c)
          (wr_subscriber c) n USDC_DECIMALS) [] s = Inr s1" and
    mt: "invoke E (MintTo (wr_wrapped_usdc_mint c) (wr_destination_wrapped_account c) (wr_mint_authority c) n) seeds s1 = Inr s'"
    unfolding wrap_def wrap_constraints_def case_sum_Inr require_all_Inr
    by auto
  have mv: "wr_wrapped_usdc_mint c = m" "wr_wrapping_vault c = v"
    using l assms(5) by (auto simp: names_def stored_config_def)
  have k: "wr_subscriber_usdc_account c \<noteq> v" "wr_destination_wrapped_account c \<noteq> v"
    using u d assms(4,6) token_programsD(1) [OF assms(2)] by (auto simp: books_def spl_token_def ok_or_Inr split: if_splits)
  note b1 = vault_takes [OF assms(2) t [unfolded mv] assms(6) k(1)]
  show ?thesis
    using supply_grows [OF assms(2) mt [unfolded mv] b1 k(2)] names_kept assms(5)
      accounts_kept_trans [OF accounts_kept_call [OF assms(3) t] accounts_kept_call [OF assms(3) mt]] by blast
qed

lemma unwrap_books:
  assumes "unwrap E c n s = Inr s'" "token_programs E" "keeps_program_accounts E"
    "\<not> is_signer E (pda E [mint_authority_seed])" "names E m v s" "books E m v s a b"
  shows "names E m v s' \<and> unat n \<le> a \<and> unat n \<le> b \<and> books E m v s' (a - unat n) (b - unat n)"
proof -
  from assms(1) obtain l usdc s1 seeds where
    l: "load_protocol_config E s (un_config c) = Inr l" "un_config c = pda E [protocol_config_seed]"
      "un_wrapped_usdc_mint c = lpc_wrapped_usdc_mint l" "un_wrapping_vault c = lpc_wrapping_vault l" and
    u: "spl_token E s (un_user_usdc_account c) = Inr usdc" "ta_owner usdc = un_user c" "is_signer E (un_user c)" and
    d: "acc_owner (s (un_user_wrapped_account c)) = token_2022_id E" and
    bn: "invoke E (Burn (un_wrapped_usdc_mint c) (un_user_wrapped_account c) (un_user c) n) [] s = Inr s1" and
    t: "invoke E (SplTransferChecked (un_wrapping_vault c) (un_spl_usdc_mint c) (un_user_usdc_account c)
          (un_mint_authority c) n USDC_DECIMALS) seeds s1 = Inr s'"
    unfolding unwrap_def unwrap_constraints_def token_constraints_def case_sum_Inr require_all_Inr
    by auto
  have mv: "un_wrapped_usdc_mint c = m" "un_wrapping_vault c = v"
    using l assms(5) by (auto simp: names_def stored_config_def)
  have k: "un_user_usdc_account c \<noteq> v" "un_user_wrapped_account c \<noteq> v"
    using u d assms(4,6) token_programsD(1) [OF assms(2)] by (auto simp: books_def spl_token_def ok_or_Inr split: if_splits)
  note b1 = supply_shrinks [OF assms(2) bn [unfolded mv] assms(6) k(2)]
  note b2 = vault_releases [OF assms(2) t [unfolded mv] b1 [THEN conjunct2] k(1)]
  show ?thesis
    using b1 b2 names_kept assms(5)
      accounts_kept_trans [OF accounts_kept_call [OF assms(3) bn] accounts_kept_call [OF assms(3) t]] by blast
qed

section \<open>Over every sequence\<close>

datatype wrapping_call = Wrap wrap_accounts u64 | Unwrap unwrap_accounts u64

fun do_wrapping_call :: "env \<times> wrapping_call \<Rightarrow> store \<Rightarrow> verror + store" where
  "do_wrapping_call (E, Wrap c n) s = wrap E c n s"
| "do_wrapping_call (E, Unwrap c n) s = unwrap E c n s"

text \<open>
  What the runtime and the token programs grant every call; a derived address has no key, so it
  never signs a transaction.
\<close>

definition wrapping_runtime :: "env \<Rightarrow> env \<times> wrapping_call \<Rightarrow> bool" where
  "wrapping_runtime E x \<longleftrightarrow>
     disc (fst x) = disc E \<and> find_pda (fst x) = find_pda E \<and> token_id (fst x) = token_id E \<and>
     unpack_token (fst x) = unpack_token E \<and> unpack_mint (fst x) = unpack_mint E \<and>
     keeps_program_accounts (fst x) \<and> token_programs (fst x) \<and> \<not> is_signer (fst x) (pda (fst x) [mint_authority_seed])"

definition backed :: "env \<Rightarrow> pubkey \<Rightarrow> pubkey \<Rightarrow> int \<Rightarrow> store \<Rightarrow> bool" where
  "backed E mint vault surplus s \<longleftrightarrow>
     names E mint vault s \<and> (\<exists>a b. books E mint vault s a b \<and> int b - int a = surplus)"

interpretation backing_machine: guarded_machine do_wrapping_call "wrapping_runtime E" "backed E m v n" for E m v n
proof unfold_locales
  fix x s s'
  assume good: "wrapping_runtime E x" and kept: "backed E m v n s" and call: "do_wrapping_call x s = Inr s'"
  obtain E' c where x: "x = (E', c)" by (cases x)
  note rt = good [unfolded x wrapping_runtime_def fst_conv]
  have e: "books E' = books E" "names E' = names E"
    using rt load_protocol_config_env [of E' E] by (auto simp: fun_eq_iff books_def names_def stored_config_def pda_def)
  from kept obtain a b where b: "names E' m v s" "books E' m v s a b" "int b - int a = n" by (auto simp: backed_def e)
  show "backed E m v n s'"
  proof (cases c)
    case (Wrap w k)
    have "wrap E' w k s = Inr s'" using call by (simp add: x Wrap)
    from wrap_books [OF this _ _ _ b(1,2)] rt have w: "names E' m v s'" "books E' m v s' (a + unat k) (b + unat k)" by auto
    moreover have "int (b + unat k) - int (a + unat k) = n" using b(3) by simp
    ultimately show ?thesis unfolding backed_def e [symmetric] by blast
  next
    case (Unwrap w k)
    have "unwrap E' w k s = Inr s'" using call by (simp add: x Unwrap)
    from unwrap_books [OF this _ _ _ b(1,2)] rt
    have u: "names E' m v s'" "unat k \<le> a" "unat k \<le> b" "books E' m v s' (a - unat k) (b - unat k)" by auto
    then have "int (b - unat k) - int (a - unat k) = n" using b(3) by (simp add: of_nat_diff)
    then show ?thesis using u unfolding backed_def e [symmetric] by blast
  qed
qed

text \<open>
  C9: The wrapped token stays backed: over every sequence of wrapping and unwrapping, by anyone and in any
  order, the vault's balance exceeds the supply by what it did before, so a supply that was covered by the vault
  stays covered.
\<close>

theorem wrapped_token_stays_backed:
  assumes "list_all (wrapping_runtime E) calls" "names E m v s" "books E m v s supply held"
  shows "\<exists>supply' held'. names E m v (run do_wrapping_call calls s) \<and>
    books E m v (run do_wrapping_call calls s) supply' held' \<and> held' + supply = held + supply' \<and>
    (supply \<le> held \<longrightarrow> supply' \<le> held')"
proof -
  have "backed E m v (int held - int supply) (run do_wrapping_call calls s)"
    by (rule backing_machine.run_keeps [OF assms(1)]) (use assms(2,3) in \<open>auto simp: backed_def\<close>)
  then show ?thesis unfolding backed_def by fastforce
qed

section \<open>The property on a concrete ledger\<close>

text \<open>A ledger that keeps its accounts in bytes and does what the token programs document.\<close>

definition ledger_token :: "token_account \<Rightarrow> u8 list" where
  "ledger_token t = 1 # key_bytes (ta_mint t) @ key_bytes (ta_owner t) @ u64_le (ta_amount t)"

definition ledger_mint :: "mint \<Rightarrow> u8 list" where
  "ledger_mint m = 2 # mint_decimals m # u64_le (mint_supply m)"

fun read_token :: "u8 list \<Rightarrow> token_account option" where
  "read_token [] = None"
| "read_token (tag # bs) = (if tag \<noteq> 1 then None else do {
     (m, bs) \<leftarrow> dec_key bs;
     (w, bs) \<leftarrow> dec_key bs;
     (n, bs) \<leftarrow> dec_u64 bs;
     Some \<lparr>ta_mint = m, ta_owner = w, ta_amount = n\<rparr> })"

fun read_mint :: "u8 list \<Rightarrow> mint option" where
  "read_mint [] = None"
| "read_mint (tag # bs) = (if tag \<noteq> 2 then None else do {
     (d, bs) \<leftarrow> dec_u8 bs;
     (n, bs) \<leftarrow> dec_u64 bs;
     Some \<lparr>mint_decimals = d, mint_supply = n\<rparr> })"

lemma read_ledger [simp]:
  "read_token (ledger_token t) = Some t" "read_mint (ledger_mint m) = Some m"
  "read_mint (ledger_token t) = None" "read_token (ledger_mint m) = None"
  using u64_codec.dec_enc [of _ "[]"] by (simp_all add: ledger_token_def ledger_mint_def)

lemma read_token_not_mint: "read_token bs \<noteq> None \<Longrightarrow> read_mint bs = None"
  by (cases bs) (auto split: if_splits)

definition ledger_supply :: "pubkey \<Rightarrow> pubkey \<Rightarrow> (u64 \<Rightarrow> u64 option) \<Rightarrow> store \<Rightarrow> verror + store" where
  "ledger_supply mint account change s =
     (if acc_owner (s mint) \<noteq> 22 then Inl (Program InvalidAccountData) else
      case read_mint (acc_data (s mint)) of None \<Rightarrow> Inl (Program InvalidAccountData) | Some m \<Rightarrow>
     (case change (mint_supply m) of None \<Rightarrow> Inl (Program InvalidAccountData) | Some n \<Rightarrow>
        Inr (set_data s mint (ledger_mint (m\<lparr>mint_supply := n\<rparr>)))))"

definition ledger_transfer :: "pubkey \<Rightarrow> pubkey \<Rightarrow> u64 \<Rightarrow> store \<Rightarrow> verror + store" where
  "ledger_transfer src dst n s =
     (if acc_owner (s src) \<noteq> 21 \<or> acc_owner (s dst) \<noteq> 21 then Inl (Program InvalidAccountData) else
      case read_token (acc_data (s src)) of None \<Rightarrow> Inl (Program InvalidAccountData) | Some a \<Rightarrow>
     (case read_token (acc_data (s dst)) of None \<Rightarrow> Inl (Program InvalidAccountData) | Some b \<Rightarrow>
      if ta_amount a < n then Inl (Program InvalidAccountData) else
      if src = dst then Inr s else
      if 2 ^ 64 \<le> unat (ta_amount b) + unat n then Inl (Program InvalidAccountData) else
      Inr (set_data (set_data s src (ledger_token (a\<lparr>ta_amount := ta_amount a - n\<rparr>)))
             dst (ledger_token (b\<lparr>ta_amount := ta_amount b + n\<rparr>)))))"

fun ledger_invoke :: "cpi \<Rightarrow> store \<Rightarrow> verror + store" where
  "ledger_invoke (SplTransferChecked src mint dst auth n d) s = ledger_transfer src dst n s"
| "ledger_invoke (MintTo mint k auth n) s = ledger_supply mint k (\<lambda>x. checked_add x n) s"
| "ledger_invoke (Burn mint k auth n) s = ledger_supply mint k (\<lambda>x. if x < n then None else Some (x - n)) s"
| "ledger_invoke _ s = Inl (Program InvalidAccountData)"

definition ledger_env :: "i64 \<Rightarrow> pubkey list \<Rightarrow> env" where
  "ledger_env now sg = (sample_env now sg)
     \<lparr>invoke := (\<lambda>c _ s. ledger_invoke c s), unpack_token := read_token, unpack_mint := read_mint\<rparr>"

lemma ledger_env_simps [simp]:
  "disc (ledger_env now sg) = sample_disc" "find_pda (ledger_env now sg) = (\<lambda>seeds _. (sample_address seeds, 255))"
  "pda (ledger_env now sg) seeds = sample_address seeds" "signers (ledger_env now sg) = sg"
  "invoke (ledger_env now sg) c sd s = ledger_invoke c s" "token_2022_id (ledger_env now sg) = 22"
  "token_id (ledger_env now sg) = 21" "unpack_token (ledger_env now sg) = read_token"
  "unpack_mint (ledger_env now sg) = read_mint"
  by (simp_all add: ledger_env_def sample_env_def pda_def)

lemma ledger_supply_Inr:
  assumes "ledger_supply k j change s = Inr s'"
  obtains m n where "acc_owner (s k) = 22" "read_mint (acc_data (s k)) = Some m" "change (mint_supply m) = Some n"
    "s' = set_data s k (ledger_mint (m\<lparr>mint_supply := n\<rparr>))"
  using assms by (auto simp: ledger_supply_def split: if_splits option.splits)

lemma ledger_programs: "token_programs (ledger_env now sg)"
proof -
  have "token_effect (ledger_env now sg) c s s'" if "ledger_invoke c s = Inr s'" for c s s'
    using that
    by (cases "(c, s)" rule: ledger_invoke.cases)
      (auto simp: same_owners_def same_data_but_def set_data_def ledger_transfer_def checked_add_def
        not_le not_less elim!: ledger_supply_Inr split: if_splits option.splits)
  then show ?thesis by (auto simp: token_programs_def read_token_not_mint)
qed

lemma ledger_keeps: "keeps_program_accounts (ledger_env now sg)"
proof -
  have p: "program_id \<noteq> 21" "program_id \<noteq> 22" by (simp_all add: program_id_def)
  have "acc_owner (s' k) = program_id \<and> acc_data (s' k) = acc_data (s k)"
    if "ledger_invoke c s = Inr s'" "acc_owner (s k) = program_id" for c s s' k
    using that p
    by (cases "(c, s)" rule: ledger_invoke.cases)
      (auto simp: set_data_def ledger_transfer_def elim!: ledger_supply_Inr split: if_splits option.splits)
  then show ?thesis by (auto simp: keeps_program_accounts_def)
qed

definition ledger_store :: store where
  "ledger_store = sample_store
     [(3, owned_by 22 (ledger_mint \<lparr>mint_decimals = 6, mint_supply = 70\<rparr>)),
      (33, owned_by 21 (ledger_token \<lparr>ta_mint = 20, ta_owner = 27918, ta_amount = 100\<rparr>)),
      (20, owned_by 21 (ledger_mint \<lparr>mint_decimals = 6, mint_supply = 1000\<rparr>)),
      (61, owned_by 21 (ledger_token \<lparr>ta_mint = 20, ta_owner = 4, ta_amount = 500\<rparr>)),
      (62, owned_by 22 (ledger_token \<lparr>ta_mint = 3, ta_owner = 4, ta_amount = 30\<rparr>)),
      (25350, owned_by program_id (sample_disc KProtocolConfig @ enc_protocol_config sample_protocol_config))]"

lemma ledger_names: "names (ledger_env now sg) 3 33 ledger_store"
proof -
  have "load_protocol_config (ledger_env now sg) ledger_store 25350 = Inr (CurrentProtocolConfig sample_protocol_config)"
    using sample_protocol_config_loads [of ledger_store now sg] load_protocol_config_env [of "ledger_env now sg" "sample_env now sg"]
    by (simp add: ledger_store_def sample_store_def ledger_env_def)
  then show ?thesis by (simp add: names_def stored_config_def sample_protocol_config_def new_protocol_config_def)
qed

definition sample_wrap :: wrap_accounts where
  "sample_wrap =
     \<lparr>wr_subscriber = 4, wr_config = 25350, wr_spl_usdc_mint = 20, wr_wrapped_usdc_mint = 3,
      wr_subscriber_usdc_account = 61, wr_destination_wrapped_account = 62, wr_destination_authority = 4,
      wr_wrapping_vault = 33, wr_mint_authority = 27918, wr_spl_token_program = 21, wr_token_2022_program = 22\<rparr>"

definition sample_unwrap :: unwrap_accounts where
  "sample_unwrap =
     \<lparr>un_user = 4, un_config = 25350, un_spl_usdc_mint = 20, un_wrapped_usdc_mint = 3, un_user_wrapped_account = 62,
      un_user_usdc_account = 61, un_wrapping_vault = 33, un_mint_authority = 27918, un_spl_token_program = 21,
      un_token_2022_program = 22\<rparr>"

text \<open>The deposit goes through and both sides of the books grow by it.\<close>

lemma sample_deposit:
  "\<exists>s'. wrap (ledger_env (i64_of 5) [4]) sample_wrap 40 ledger_store = Inr s' \<and> books (ledger_env (i64_of 5) [4]) 3 33 s' 110 140"
proof -
  have auth: "sample_address [mint_authority_seed] = 27918"
    by (simp add: sample_address_def mint_authority_seed_def bytes_def)
  have load: "load_protocol_config (ledger_env (i64_of 5) [4]) ledger_store 25350 = Inr (CurrentProtocolConfig sample_protocol_config)"
    using sample_protocol_config_loads [of ledger_store "i64_of 5" "[4]"]
      load_protocol_config_env [of "ledger_env (i64_of 5) [4]" "sample_env (i64_of 5) [4]"]
    by (simp add: ledger_store_def sample_store_def ledger_env_def)
  have "\<exists>s'. wrap (ledger_env (i64_of 5) [4]) sample_wrap 40 ledger_store = Inr s'"
    using load
    by (simp add: wrap_def sample_wrap_def spl_mint_def spl_token_def interface_mint_def interface_token_def
        is_token_program_def wrap_constraints_def is_signer_def auth ledger_store_def sample_store_def
        sample_config_names ledger_transfer_def ledger_supply_def set_data_def checked_add_def)
  moreover have "books (ledger_env (i64_of 5) [4]) 3 33 ledger_store 70 100"
    by (simp add: books_def ledger_store_def sample_store_def auth)
  ultimately show ?thesis
    using wrap_books [OF _ ledger_programs ledger_keeps _ ledger_names] by (fastforce simp: is_signer_def auth)
qed

theorem wrapped_token_stays_backed_witness:
  "\<exists>supply held. books (ledger_env (i64_of 5) [4]) 3 33
     (run do_wrapping_call [(ledger_env (i64_of 5) [4], Wrap sample_wrap 40), (ledger_env (i64_of 6) [4], Unwrap sample_unwrap 15)]
        ledger_store) supply held \<and> held = 30 + supply"
proof -
  have auth: "sample_address [mint_authority_seed] = 27918"
    by (simp add: sample_address_def mint_authority_seed_def bytes_def)
  have b: "books (ledger_env (i64_of 5) [4]) 3 33 ledger_store 70 100"
    by (simp add: books_def ledger_store_def sample_store_def auth)
  have r: "wrapping_runtime (ledger_env (i64_of 5) [4]) (ledger_env now [4], c)" for now c
    by (simp add: wrapping_runtime_def ledger_programs ledger_keeps is_signer_def auth)
  let ?calls = "[(ledger_env (i64_of 5) [4], Wrap sample_wrap 40), (ledger_env (i64_of 6) [4], Unwrap sample_unwrap 15)]"
  have "list_all (wrapping_runtime (ledger_env (i64_of 5) [4])) ?calls" by (simp add: r)
  from wrapped_token_stays_backed [OF this ledger_names b] show ?thesis by (auto simp del: run.simps)
qed

end
