(* ===== verification/Hook_Setup.thy ===== *)
theory Hook_Setup
  imports Transfer_Hook
begin

text \<open>
  The instructions of the transfer-hook program (\<open>programs/vela-transfer-hook/src/lib.rs\<close>) besides the check
  itself: the creation and the one enlargement of the account list of a mint, the fallback that turns the
  token program's call into the check, and what holds over every sequence of them.
\<close>

section \<open>The account list in its format\<close>

text \<open>
  The library that lays the list out in an account is not part of the program. Its size for a number of
  entries, the initialisation of zeroed data with a list, and the reading the token program does.
\<close>

record meta_list_format =
  list_size_of :: "nat \<Rightarrow> nat option"
  list_init :: "extra_account_meta list \<Rightarrow> u8 list \<Rightarrow> u8 list option"
  list_metas :: "u8 list \<Rightarrow> extra_account_meta list option"

text \<open>
  What the library documents: data of the size for a list, all zero, can be initialised with that list,
  keeps its length and is read back as the list.
\<close>

definition meta_list_library :: "meta_list_format \<Rightarrow> bool" where
  "meta_list_library F \<longleftrightarrow>
     (\<forall>metas n bs. list_size_of F (length metas) = Some n \<longrightarrow> list_init F metas (replicate n 0) = Some bs \<longrightarrow>
        length bs = n \<and> list_metas F bs = Some metas)"

record meta_list_accounts =
  ml_admin :: pubkey
  ml_config :: pubkey
  ml_extra_account_meta_list :: pubkey
  ml_mint :: pubkey
  ml_wrapping_vault :: pubkey
  ml_system_program :: pubkey

definition meta_list_address :: "env \<Rightarrow> pubkey \<Rightarrow> pubkey" where
  "meta_list_address E mint = fst (find_pda E [extra_account_metas_seed, key_bytes mint] transfer_hook_program_id)"

definition meta_list_constraints :: "env \<Rightarrow> meta_list_accounts \<Rightarrow> (bool \<times> verror) list" where
  "meta_list_constraints E c =
     [(is_signer E (ml_admin c), Anchor AccountNotSigner),
      (ml_system_program c = system_program_id, Anchor InvalidProgramId),
      (ml_extra_account_meta_list c = meta_list_address E (ml_mint c), Anchor ConstraintSeeds)]"

definition meta_list_checks :: "meta_list_accounts \<Rightarrow> protocol_config \<Rightarrow> (bool \<times> verror) list" where
  "meta_list_checks c config =
     [(pc_transfer_hook_program_id config = transfer_hook_program_id, Vela InvalidProtocolConfig),
      (pc_admin config = ml_admin c, Vela UnauthorizedAdmin),
      (ml_wrapping_vault c = pc_wrapping_vault config, Vela VaultMismatch)]"

text \<open>The list of a mint, with the vault and the configuration the caller passed.\<close>

definition metas_for :: "meta_list_accounts \<Rightarrow> extra_account_meta list" where
  "metas_for c = build_8_slot_account_metas program_id (ml_wrapping_vault c) (ml_config c)"

section \<open>The instructions\<close>

definition init_extra_account_meta_list ::
  "meta_list_format \<Rightarrow> env \<Rightarrow> meta_list_accounts \<Rightarrow> store \<Rightarrow> verror + store" where
  "init_extra_account_meta_list F E c s =
     (case interface_mint E s (ml_mint c) of Inl e \<Rightarrow> Inl e | Inr _ \<Rightarrow>
     (case require_all (meta_list_constraints E c) of Inl e \<Rightarrow> Inl e | Inr _ \<Rightarrow>
     (case list_size_of F 8 of None \<Rightarrow> Inl Panicked | Some space \<Rightarrow>
      let k = ml_extra_account_meta_list c;
          seeds = [extra_account_metas_seed, key_bytes (ml_mint c),
                   [snd (find_pda E [extra_account_metas_seed, key_bytes (ml_mint c)] transfer_hook_program_id)]] in
     (case invoke E (InitAccount (ml_admin c) k (minimum_balance E space) space transfer_hook_program_id) [seeds] s of
        Inl e \<Rightarrow> Inl e | Inr s1 \<Rightarrow>
     (case hook_load_protocol_config E s1 (ml_config c) of Inl e \<Rightarrow> Inl e | Inr config \<Rightarrow>
     (case require_all (meta_list_checks c config) of Inl e \<Rightarrow> Inl e | Inr _ \<Rightarrow>
     (case list_init F (metas_for c) (acc_data (s1 k)) of
        None \<Rightarrow> Inl (Program InvalidAccountData)
      | Some bs \<Rightarrow> Inr (set_data s1 k bs))))))))"

text \<open>
  The list is only rewritten when its account is smaller than the present size. The runtime refuses an
  instruction that changes the data of an account of another program; that refusal is the last branch.
\<close>

definition update_extra_account_meta_list ::
  "meta_list_format \<Rightarrow> env \<Rightarrow> meta_list_accounts \<Rightarrow> store \<Rightarrow> verror + store" where
  "update_extra_account_meta_list F E c s =
     (case interface_mint E s (ml_mint c) of Inl e \<Rightarrow> Inl e | Inr _ \<Rightarrow>
     (case require_all (meta_list_constraints E c) of Inl e \<Rightarrow> Inl e | Inr _ \<Rightarrow>
     (case hook_load_protocol_config E s (ml_config c) of Inl e \<Rightarrow> Inl e | Inr config \<Rightarrow>
     (case require_all (meta_list_checks c config) of Inl e \<Rightarrow> Inl e | Inr _ \<Rightarrow>
     (case list_size_of F 8 of None \<Rightarrow> Inl Panicked | Some new_size \<Rightarrow>
      let k = ml_extra_account_meta_list c in
      if \<not> length (acc_data (s k)) < new_size then Inl (Vela MetaListAlreadyInitialized) else
      let required = minimum_balance E new_size; current = acc_lamports (s k) in
     (case (if current < required then invoke E (SystemTransfer (ml_admin c) k (required - current)) [] s else Inr s) of
        Inl e \<Rightarrow> Inl e | Inr s1 \<Rightarrow>
     (case list_init F (metas_for c) (replicate new_size 0) of
        None \<Rightarrow> Inl (Program InvalidAccountData)
      | Some bs \<Rightarrow>
          if acc_owner (s1 k) \<noteq> transfer_hook_program_id then Inl (Program ExternalAccountDataModified)
          else Inr (set_data s1 k bs))))))))"

text \<open>
  The fallback: the token program's call carries the interface's own discriminator; the rest of its data is the amount,
  which the dispatcher of the check decodes. Any other instruction of the interface is refused.
\<close>

datatype transfer_hook_instruction = Execute | OtherInstruction

definition hook_fallback ::
  "(u8 list \<Rightarrow> transfer_hook_instruction option) \<Rightarrow> env \<Rightarrow> hook_accounts \<Rightarrow> u8 list \<Rightarrow> store \<Rightarrow> verror + unit" where
  "hook_fallback unpack E c data s =
     (case unpack data of
        None \<Rightarrow> Inl (Program InvalidInstructionData)
      | Some instruction \<Rightarrow>
         (case instruction of
            Execute \<Rightarrow>
              if length data < 8 then Inl (Program InvalidInstructionData)
              else (case dec_u64 (drop 8 data) of
                      None \<Rightarrow> Inl (Anchor InstructionDidNotDeserialize)
                    | Some (amount, _) \<Rightarrow> transfer_hook E c amount s)
          | OtherInstruction \<Rightarrow> Inl (Program InvalidInstructionData)))"

datatype hook_call =
    InitMetaList meta_list_accounts
  | UpdateMetaList meta_list_accounts
  | HookTransfer hook_accounts u64

fun do_hook_call :: "meta_list_format \<Rightarrow> env \<times> hook_call \<Rightarrow> store \<Rightarrow> verror + store" where
  "do_hook_call F (E, InitMetaList c) s = init_extra_account_meta_list F E c s"
| "do_hook_call F (E, UpdateMetaList c) s = update_extra_account_meta_list F E c s"
| "do_hook_call F (E, HookTransfer c amount) s = map_sum id (\<lambda>_. s) (transfer_hook E c amount s)"

section \<open>What the instructions leave\<close>

text \<open>The list a mint's account holds: the hook program's own, read back as the list for a vault.\<close>

definition wired :: "meta_list_format \<Rightarrow> env \<Rightarrow> store \<Rightarrow> pubkey \<Rightarrow> pubkey \<Rightarrow> bool" where
  "wired F E s mint vault \<longleftrightarrow>
     acc_owner (s (meta_list_address E mint)) = transfer_hook_program_id \<and>
     list_metas F (acc_data (s (meta_list_address E mint))) =
       Some (build_8_slot_account_metas program_id vault (pda E [protocol_config_seed]))"

lemma hook_load_protocol_config_Inr:
  "hook_load_protocol_config E s k = Inr pc \<longleftrightarrow>
     k = pda E [protocol_config_seed] \<and> acc_owner (s k) = program_id \<and> \<not> data_is_empty (s k) \<and>
     try_deserialize E KProtocolConfig dec_protocol_config (acc_data (s k)) = Some pc"
  by (auto simp: hook_load_protocol_config_def ok_or_Inr)

lemma init_meta_list_Inr:
  assumes "init_extra_account_meta_list F E c s = Inr s'"
  obtains space seeds s1 config bs where "list_all fst (meta_list_constraints E c)" "list_size_of F 8 = Some space"
    "invoke E (InitAccount (ml_admin c) (ml_extra_account_meta_list c) (minimum_balance E space) space
       transfer_hook_program_id) seeds s = Inr s1"
    "hook_load_protocol_config E s1 (ml_config c) = Inr config" "list_all fst (meta_list_checks c config)"
    "list_init F (metas_for c) (acc_data (s1 (ml_extra_account_meta_list c))) = Some bs"
    "s' = set_data s1 (ml_extra_account_meta_list c) bs"
  using assms unfolding init_extra_account_meta_list_def handler_inversion case_option_Inr require_all_Inr sum.inject
  by (elim exE conjE) (rule that, (assumption | erule sym)+)

lemma update_meta_list_Inr:
  assumes "update_extra_account_meta_list F E c s = Inr s'"
  obtains new_size s1 config bs where "list_all fst (meta_list_constraints E c)"
    "hook_load_protocol_config E s (ml_config c) = Inr config" "list_all fst (meta_list_checks c config)"
    "list_size_of F 8 = Some new_size" "length (acc_data (s (ml_extra_account_meta_list c))) < new_size"
    "s1 = s \<or> (\<exists>n. invoke E (SystemTransfer (ml_admin c) (ml_extra_account_meta_list c) n) [] s = Inr s1)"
    "list_init F (metas_for c) (replicate new_size 0) = Some bs"
    "acc_owner (s1 (ml_extra_account_meta_list c)) = transfer_hook_program_id"
    "s' = set_data s1 (ml_extra_account_meta_list c) bs"
  using assms unfolding update_extra_account_meta_list_def handler_inversion case_option_Inr require_all_Inr sum.inject
  by (elim exE conjE) (rule that, auto split: if_splits)

text \<open>Only the hook program changes its accounts, and nothing is created in place of one.\<close>

definition keeps_accounts_of :: "pubkey \<Rightarrow> env \<Rightarrow> bool" where
  "keeps_accounts_of p E \<longleftrightarrow>
     (\<forall>c seeds s s' k. invoke E c seeds s = Inr s' \<longrightarrow> acc_owner (s k) = p \<longrightarrow>
        acc_owner (s' k) = p \<and> acc_data (s' k) = acc_data (s k))"

lemma keeps_accounts_ofD:
  "keeps_accounts_of p E \<Longrightarrow> invoke E c seeds s = Inr s' \<Longrightarrow> acc_owner (s k) = p \<Longrightarrow>
     acc_owner (s' k) = p \<and> acc_data (s' k) = acc_data (s k)"
  unfolding keeps_accounts_of_def by blast

lemma hook_not_others [simp]:
  "transfer_hook_program_id \<noteq> program_id" "transfer_hook_program_id \<noteq> system_program_id"
  "program_id \<noteq> transfer_hook_program_id" "system_program_id \<noteq> transfer_hook_program_id"
  by (simp_all add: transfer_hook_program_id_def program_id_def system_program_id_def)

lemma wired_kept:
  "wired F E s mint vault \<Longrightarrow> keeps_accounts_of transfer_hook_program_id E \<Longrightarrow> invoke E c seeds s = Inr s' \<Longrightarrow>
     wired F E s' mint vault"
  by (simp add: wired_def keeps_accounts_ofD)

text \<open>
  An instruction on one mint's list, seen from any list account that is already of full size: nothing of it changes.
\<close>

lemma hook_call_keeps_list:
  assumes "do_hook_call F (E, c) s = Inr s'" "keeps_accounts_of transfer_hook_program_id E" "creates_fresh E"
    "acc_owner (s k) = transfer_hook_program_id" "list_size_of F 8 = Some n" "n \<le> length (acc_data (s k))"
  shows "acc_owner (s' k) = transfer_hook_program_id \<and> acc_data (s' k) = acc_data (s k)"
proof (cases c)
  case (InitMetaList a)
  then have "init_extra_account_meta_list F E a s = Inr s'" using assms(1) by simp
  then show ?thesis
  proof (cases rule: init_meta_list_Inr)
    case (1 space seeds s1 config bs)
    have "acc_owner (s (ml_extra_account_meta_list a)) = system_program_id"
      using creates_freshD(1) [OF assms(3) 1(3)] by (simp add: created_fresh_def)
    then have "k \<noteq> ml_extra_account_meta_list a" using assms(4) by auto
    then show ?thesis using assms(4) keeps_accounts_ofD [OF assms(2) 1(3)] by (simp add: 1(7))
  qed
next
  case (UpdateMetaList a)
  then have "update_extra_account_meta_list F E a s = Inr s'" using assms(1) by simp
  then show ?thesis
  proof (cases rule: update_meta_list_Inr)
    case (1 new_size s1 config bs)
    have "k \<noteq> ml_extra_account_meta_list a" using 1(4,5) assms(5,6) by auto
    moreover have "acc_owner (s1 k) = transfer_hook_program_id \<and> acc_data (s1 k) = acc_data (s k)"
      using 1(6) assms(4) keeps_accounts_ofD [OF assms(2)] by blast
    ultimately show ?thesis by (simp add: 1(9))
  qed
qed (use assms in \<open>auto simp: map_sum_Inr\<close>)

section \<open>Guarantees\<close>

text \<open>
  An instruction that writes a mint's account list is signed by the protocol's admin and leaves the list the
  hook relies on: the account of the hook program at the mint's list address reads back as the eight entries for the
  configured vault and the protocol configuration.
\<close>

theorem meta_list_set_by_admin:
  assumes "do_hook_call F (E, call) s = Inr s'" "call = InitMetaList c \<or> call = UpdateMetaList c"
    "meta_list_library F" "creates_fresh E" "keeps_program_accounts E"
  shows "\<exists>pc. hook_load_protocol_config E s' (pda E [protocol_config_seed]) = Inr pc \<and> is_signer E (pc_admin pc) \<and>
    pc_transfer_hook_program_id pc = transfer_hook_program_id \<and> wired F E s' (ml_mint c) (pc_wrapping_vault pc)"
proof -
  let ?k = "ml_extra_account_meta_list c"
  obtain n s1 pc bs where pc: "list_all fst (meta_list_constraints E c)" "list_all fst (meta_list_checks c pc)"
    "hook_load_protocol_config E s1 (ml_config c) = Inr pc" and
    n: "list_size_of F 8 = Some n" "list_init F (metas_for c) (replicate n 0) = Some bs" and
    s1: "acc_owner (s1 ?k) = transfer_hook_program_id" "s' = set_data s1 ?k bs"
    using assms(2)
  proof
    assume "call = InitMetaList c"
    then have "init_extra_account_meta_list F E c s = Inr s'" using assms(1) by simp
    then show thesis
    proof (cases rule: init_meta_list_Inr)
      case (1 space seeds s1 config bs)
      have "acc_owner (s1 ?k) = transfer_hook_program_id" "acc_data (s1 ?k) = replicate space 0"
        using creates_freshD(1) [OF assms(4) 1(3)] by (simp_all add: created_fresh_def)
      then show thesis using 1 by (intro that) simp_all
    qed
  next
    assume "call = UpdateMetaList c"
    then have "update_extra_account_meta_list F E c s = Inr s'" using assms(1) by simp
    then show thesis
    proof (cases rule: update_meta_list_Inr)
      case (1 new_size s1 config bs)
      have "hook_load_protocol_config E s1 (ml_config c) = Inr config"
        using 1(2,6) keeps_program_accountsD [OF assms(5)]
        by (fastforce simp: hook_load_protocol_config_Inr data_is_empty_def)
      then show thesis using 1 by (intro that) simp_all
    qed
  qed
  have conf: "ml_config c = pda E [protocol_config_seed]" "acc_owner (s1 (ml_config c)) = program_id"
    using pc(3) by (auto simp: hook_load_protocol_config_Inr)
  then have "ml_config c \<noteq> ?k" using s1(1) by auto
  then have "hook_load_protocol_config E s' (pda E [protocol_config_seed]) = Inr pc"
    using pc(3) conf(1) by (simp add: hook_load_protocol_config_Inr s1(2) data_is_empty_def)
  moreover have "length (metas_for c) = 8" by (simp add: metas_for_def build_8_slot_account_metas_def)
  then have "list_metas F bs = Some (metas_for c)"
    using assms(3) n by (metis meta_list_library_def)
  ultimately show ?thesis
    using pc(1,2) s1 conf(1)
    by (auto simp: wired_def metas_for_def meta_list_constraints_def meta_list_checks_def)
qed

interpretation list_machine: guarded_machine "do_hook_call F"
  "\<lambda>x. keeps_accounts_of transfer_hook_program_id (fst x) \<and> creates_fresh (fst x)"
  "\<lambda>s. acc_owner (s k) = transfer_hook_program_id \<and> acc_data (s k) = bs \<and>
     list_size_of F 8 = Some n \<and> n \<le> length bs" for F k bs n
proof unfold_locales
  fix x s s'
  assume good: "keeps_accounts_of transfer_hook_program_id (fst x) \<and> creates_fresh (fst x)"
    and kept: "acc_owner (s k) = transfer_hook_program_id \<and> acc_data (s k) = bs \<and> list_size_of F 8 = Some n \<and> n \<le> length bs"
    and step: "do_hook_call F x s = Inr s'"
  show "acc_owner (s' k) = transfer_hook_program_id \<and> acc_data (s' k) = bs \<and> list_size_of F 8 = Some n \<and> n \<le> length bs"
    using hook_call_keeps_list [of F "fst x" "snd x" s s' k n] good kept step by simp
qed

text \<open>
  C21: A list of full size is never written again: whoever calls the hook program, with whatever accounts and in
  whatever order, the list keeps its entries, so the vault and the configuration the hook reads cannot be
  exchanged.
\<close>

theorem full_meta_list_is_fixed:
  assumes "list_all (\<lambda>x. keeps_accounts_of transfer_hook_program_id (fst x) \<and> creates_fresh (fst x)) xs"
    "list_size_of F 8 = Some n" "n \<le> length (acc_data (s (meta_list_address E mint)))" "wired F E s mint vault"
  shows "wired F E (run (do_hook_call F) xs s) mint vault"
  using list_machine.run_keeps [OF assms(1), where F = F and k = "meta_list_address E mint" and s = s and n = n] assms(2-4)
  by (simp add: wired_def)

section \<open>On a concrete list\<close>

text \<open>A format that has room for one list, marked by its bytes.\<close>

definition sample_format :: meta_list_format where
  "sample_format =
     (let metas = build_8_slot_account_metas program_id 33 25350 in
      \<lparr>list_size_of = \<lambda>_. Some 8,
       list_init = \<lambda>xs bs. if xs = metas \<and> bs = replicate 8 0 then Some (replicate 8 1) else None,
       list_metas = \<lambda>bs. if bs = replicate 8 1 then Some metas else None\<rparr>)"

lemma sample_format_library [simp]: "meta_list_library sample_format"
  by (simp add: meta_list_library_def sample_format_def Let_def)

definition sample_meta_list_accounts :: meta_list_accounts where
  "sample_meta_list_accounts =
     \<lparr>ml_admin = 90, ml_config = 25350, ml_extra_account_meta_list = 25875, ml_mint = 3, ml_wrapping_vault = 33,
      ml_system_program = system_program_id\<rparr>"

lemma sample_meta_list_returns:
  "do_hook_call sample_format (creating_env now [90], InitMetaList sample_meta_list_accounts) (sample_store sample_config_accounts) =
     Inr ((sample_store sample_config_accounts)
       (25875 := \<lparr>acc_owner = transfer_hook_program_id, acc_lamports = 0, acc_data = replicate 8 1\<rparr>))"
proof -
  have pc: "try_deserialize (creating_env now [90]) KProtocolConfig dec_protocol_config
      (sample_disc KProtocolConfig @ enc_protocol_config sample_protocol_config) = Some sample_protocol_config"
    using protocol_config_codec.try_deserialize_enc [of sample_protocol_config "creating_env now [90]" KProtocolConfig "[]"]
      sample_config_valid(1) by simp
  show ?thesis
    using pc
    by (simp add: init_extra_account_meta_list_def sample_meta_list_accounts_def interface_mint_def is_token_program_def
        sample_store_def sample_config_accounts_def meta_list_constraints_def is_signer_def meta_list_address_def
        sample_invoke_def system_program_id_def hook_load_protocol_config_def data_is_empty_def sample_disc_def
        meta_list_checks_def sample_protocol_config_def new_protocol_config_def metas_for_def sample_format_def
        set_data_def Let_def)
qed

abbreviation listed_store :: store where
  "listed_store \<equiv> (sample_store sample_config_accounts)
     (25875 := \<lparr>acc_owner = transfer_hook_program_id, acc_lamports = 0, acc_data = replicate 8 1\<rparr>)"

theorem meta_list_set_by_admin_witness:
  "\<exists>pc :: protocol_config. wired sample_format (creating_env (i64_of 0) [90]) listed_store 3 (pc_wrapping_vault pc) \<and>
     is_signer (creating_env (i64_of 0) [90]) (pc_admin pc)"
  using meta_list_set_by_admin [OF sample_meta_list_returns [of "i64_of 0"] disjI1 [OF refl] sample_format_library
      creating_env_runtime(2,1)]
  by (simp add: sample_meta_list_accounts_def) blast

lemma creating_env_keeps_hook [simp]: "keeps_accounts_of transfer_hook_program_id (creating_env now sg)"
  by (auto simp: keeps_accounts_of_def sample_invoke_def split: cpi.splits if_splits)

theorem full_meta_list_is_fixed_witness:
  "wired sample_format (creating_env (i64_of 0) [])
     (run (do_hook_call sample_format)
       [(creating_env (i64_of 5) [90], InitMetaList sample_meta_list_accounts),
        (creating_env (i64_of 9) [90], UpdateMetaList (sample_meta_list_accounts\<lparr>ml_wrapping_vault := 34\<rparr>))]
       listed_store) 3 33"
  by (rule full_meta_list_is_fixed [where n = 8])
    (simp_all add: wired_def meta_list_address_def sample_format_def Let_def)

end
