(* ===== verification/Account_Kinds.thy ===== *)
theory Account_Kinds
  imports Agent_Limits Plan_Upgrade Computation_Safety Config_Guarantees Token_Backing Computation_Setup
begin

text \<open>
  Which accounts of the program an instruction may write, by the kind the first eight bytes of an
  account name: the composition of the parts of a handler, and the kinds every handler keeps to.
\<close>

section \<open>Writing only accounts of certain kinds\<close>

definition writes_only :: "env \<Rightarrow> account_kind set \<Rightarrow> store \<Rightarrow> store \<Rightarrow> bool" where
  "writes_only E K s s' \<longleftrightarrow>
     (\<forall>j kd. acc_owner (s j) = program_id \<longrightarrow> starts_with (acc_data (s j)) (disc E kd) \<longrightarrow> kd \<notin> K \<longrightarrow>
        acc_owner (s' j) = program_id \<and> acc_data (s' j) = acc_data (s j))"

text \<open>An account that, if the program's, is of one of the kinds or of none.\<close>

definition among :: "env \<Rightarrow> account_kind set \<Rightarrow> store \<Rightarrow> pubkey \<Rightarrow> bool" where
  "among E K s k \<longleftrightarrow>
     (acc_owner (s k) = program_id \<longrightarrow> (\<forall>kd. starts_with (acc_data (s k)) (disc E kd) \<longrightarrow> kd \<in> K))"

definition kept_but :: "pubkey \<Rightarrow> store \<Rightarrow> store \<Rightarrow> bool" where
  "kept_but k s s' \<longleftrightarrow>
     (\<forall>j. j \<noteq> k \<longrightarrow> acc_owner (s j) = program_id \<longrightarrow>
        acc_owner (s' j) = program_id \<and> acc_data (s' j) = acc_data (s j))"

lemma writes_only_trans: "writes_only E K s s1 \<Longrightarrow> writes_only E K s1 s2 \<Longrightarrow> writes_only E K s s2"
  unfolding writes_only_def by metis

lemma writes_only_refl [simp]: "writes_only E K s s"
  by (simp add: writes_only_def)

lemma writes_only_mono: "writes_only E K s s' \<Longrightarrow> K \<subseteq> L \<Longrightarrow> writes_only E L s s'"
  unfolding writes_only_def by blast

lemma accounts_kept_writes: "accounts_kept s s' \<Longrightarrow> writes_only E K s s'"
  by (simp add: accounts_kept_def writes_only_def)

lemma writes_only_disc: "disc E' = disc E \<Longrightarrow> writes_only E' K s s' = writes_only E K s s'"
  by (simp add: writes_only_def)

text \<open>One more write, to an account that was of the kinds, or foreign, in the first place.\<close>

lemma writes_at:
  "writes_only E K s s1 \<Longrightarrow> among E K s k \<Longrightarrow> kept_but k s1 s2 \<Longrightarrow> writes_only E K s s2"
  unfolding writes_only_def among_def kept_but_def by metis

lemma writes_one: "among E K s k \<Longrightarrow> kept_but k s s' \<Longrightarrow> writes_only E K s s'"
  using writes_at [OF accounts_kept_writes [OF accounts_kept_refl]] .

lemma writes_kept: "writes_only E K s s1 \<Longrightarrow> accounts_kept s1 s2 \<Longrightarrow> writes_only E K s s2"
  using writes_only_trans accounts_kept_writes by blast

lemma writes_outside: "kept_outside J s s' \<Longrightarrow> (\<And>j. j \<in> J \<Longrightarrow> among E K s j) \<Longrightarrow> writes_only E K s s'"
  unfolding writes_only_def among_def kept_outside_def by metis

lemma among_kind:
  "distinct_discriminators E \<Longrightarrow> starts_with (acc_data (s k)) (disc E kd) \<Longrightarrow> kd \<in> K \<Longrightarrow> among E K s k"
  using distinct_discriminatorsD(2) [of E "acc_data (s k)" kd] unfolding among_def by blast

lemma among_foreign: "acc_owner (s k) \<noteq> program_id \<Longrightarrow> among E K s k"
  by (simp add: among_def)

lemma among_new: "acc_owner (s k) = system_program_id \<Longrightarrow> among E K s k"
  by (simp add: among_def)

lemma among_back: "accounts_kept s s' \<Longrightarrow> among E K s' k \<Longrightarrow> among E K s k"
  unfolding among_def accounts_kept_def by metis

lemma among_opened: "distinct_discriminators E \<Longrightarrow> opened E kd s k \<Longrightarrow> kd \<in> K \<Longrightarrow> among E K s k"
  using among_kind zero_data_starts unfolding opened_def among_def by metis

lemma among_empty: "distinct_discriminators E \<Longrightarrow> data_is_empty (s k) \<Longrightarrow> among E K s k"
  using distinct_discriminatorsD(1) by (fastforce simp: among_def data_is_empty_def dest: starts_with_length)

text \<open>The writers and the closing of an account.\<close>

lemma kept_butI:
  "others_kept k s s' \<Longrightarrow> kept_but k s s'"
  "accounts_kept s s' \<Longrightarrow> kept_but k s s'"
  "store_follows load step E k x s s' \<Longrightarrow> kept_but k s s'"
  "store_refines load step E k x s s' \<Longrightarrow> kept_but k s s'"
  by (auto simp: kept_but_def others_kept_def accounts_kept_def store_follows_def store_refines_def)

lemma kept_but_trans: "kept_but k s s1 \<Longrightarrow> kept_but k s1 s2 \<Longrightarrow> kept_but k s s2"
  unfolding kept_but_def by metis

lemma kept_but_writers:
  "anchor_exit k bs s = Inr s' \<Longrightarrow> kept_but k s s'"
  "write_account k bs s = Inr s' \<Longrightarrow> kept_but k s s'"
  "close_program_account k r s = Inr s' \<Longrightarrow> kept_but k s s'"
  "write_mandate E k m legacy s = Inr s' \<Longrightarrow> kept_but k s s'"
  "write_stream_mandate E k st s = Inr s' \<Longrightarrow> kept_but k s s'"
  "write_protocol_config E k pc s = Inr s' \<Longrightarrow> kept_but k s s'"
  "write_keeper_config E k kc s = Inr s' \<Longrightarrow> kept_but k s s'"
  "write_merchant_state E k ms s = Inr s' \<Longrightarrow> kept_but k s s'"
  "write_plan E k p s = Inr s' \<Longrightarrow> kept_but k s s'"
  "write_agent_mandate E k am legacy s = Inr s' \<Longrightarrow> kept_but k s s'"
  using close_program_account_data [of k r s s']
  by (auto simp: kept_but_def anchor_exit_Inr write_account_Inr write_mandate_def write_stream_mandate_def
      write_protocol_config_def write_keeper_config_def write_merchant_state_def write_plan_def
      write_agent_mandate_def split: if_splits)


section \<open>Streams and agents\<close>

lemma stream_among:
  "distinct_discriminators E \<Longrightarrow> load_stream_mandate E s k = Inr m \<Longrightarrow> KStreamMandate \<in> K \<Longrightarrow> among E K s k"
  by (rule among_kind [where kd = KStreamMandate]) (auto simp: load_stream_mandate_def Let_def split: if_splits)

lemma stream_call_writes:
  assumes "do_stream_call (E, c) s = Inr s'" "keeps_program_accounts E" "distinct_discriminators E"
  shows "writes_only E {KStreamMandate} s s'"
proof -
  obtain k x where r: "stream_refines E k x s s'" using do_stream_call_refines [OF assms(1,2)] by blast
  then obtain m where "load_stream_mandate E s k = Inr m" by (auto simp: store_refines_def)
  from stream_among [OF assms(3) this] kept_butI(4) [OF r] show ?thesis by (blast intro: writes_one)
qed

lemma create_stream_Inr:
  assumes "create_stream_mandate E c r mx cap iv s = Inr (s', ev)"
  obtains ms s1 s2 l seeds m bs where
    "anchor_account E KMerchantState dec_merchant_state s (cs_merchant_state c) = Inr ms"
    "invoke E (CreateAccount (cs_payer c) (cs_mandate c) l stream_mandate_size program_id) seeds s = Inr s1"
    "write_stream_mandate E (cs_mandate c) m s1 = Inr s2"
    "anchor_exit (cs_merchant_state c) (disc E KMerchantState @ bs) s2 = Inr s'"
  using assms unfolding create_stream_mandate_def handler_inversion
  by (elim exE conjE) (rule that, assumption, assumption, assumption, auto)

lemma create_stream_writes:
  assumes "create_stream_mandate E c r mx cap iv s = Inr (s', ev)" "keeps_program_accounts E" "creates_fresh E"
    "distinct_discriminators E"
  shows "writes_only E {KMerchantState} s s'"
  using assms(1)
proof (cases rule: create_stream_Inr)
  case (1 ms s1 s2 l seeds m bs)
  have new: "among E {KMerchantState} s (cs_mandate c)"
    using creates_freshD(2) [OF assms(3) 1(2)] by (intro among_new) (simp add: created_fresh_def)
  have ms: "among E {KMerchantState} s (cs_merchant_state c)"
    using anchor_account_starts [OF 1(1)] by (intro among_kind [OF assms(4), where kd = KMerchantState]) simp_all
  have "writes_only E {KMerchantState} s s1" by (rule accounts_kept_writes [OF accounts_kept_call [OF assms(2) 1(2)]])
  then have "writes_only E {KMerchantState} s s2" by (rule writes_at [OF _ new kept_but_writers(5) [OF 1(3)]])
  then show ?thesis by (rule writes_at [OF _ ms kept_but_writers(1) [OF 1(4)]])
qed

lemma agent_among:
  "distinct_discriminators E \<Longrightarrow> read_agent_mandate E s k = Inr l \<Longrightarrow> KAgentMandate \<in> K \<Longrightarrow> among E K s k"
  by (rule among_kind [where kd = KAgentMandate]) (auto simp: read_agent_mandate_def Let_def split: if_splits)

lemma agent_call_writes:
  assumes "do_agent_call (E, c) s = Inr s'" "keeps_program_accounts E" "creates_fresh E" "distinct_discriminators E"
  shows "writes_only E {KAgentMandate} s s'"
proof -
  have at: ?thesis if "agent_follows E k x s s'" "accounts_kept s s0" "read_agent_mandate E s0 k = Inr l" for k x s0 l
    using agent_among [OF assms(4) that(3)] among_back [OF that(2)] kept_butI(3) [OF that(1)]
    by (blast intro: writes_one)
  have auth: ?thesis if "agent_follows E (aa_agent_mandate a) x s s'" "\<exists>q. authority_mandate E a s = Inr q"
    for a :: "'a agent_accounts_scheme" and x
  proof -
    from that(2) obtain q where q: "authority_mandate E a s = Inr q" by blast
    obtain legacy m where "q = (legacy, m)" by (cases q)
    from authority_mandate_Inr [OF q [unfolded this]] obtain l
      where "read_agent_mandate E s (aa_agent_mandate a) = Inr l" by blast
    then show ?thesis by (rule at [OF that(1) accounts_kept_refl])
  qed
  show ?thesis
  proof (cases c)
    case (CallPull a n)
    then obtain ev where h: "agent_pull E a n s = Inr (s', ev)" using assms(1) by (auto simp: map_sum_Inr)
    from agent_pull_follows [OF h assms(2,3)] obtain x where f: "agent_follows E (aa_agent_mandate a) x s s'" by blast
    from h show ?thesis
    proof (cases rule: agent_pull_Inr)
      case (1 w sv pc b s0 l i v s1 s2 s3 m')
      obtain seeds where "invoke E (InitAccount (ap_payer a) (ap_pull_approval a) (minimum_balance E pull_approval_size)
          pull_approval_size program_id) seeds s = Inr s0" using agent_pull_context_Inr [OF 1(1)] by blast
      then have "accounts_kept s s0" by (rule accounts_kept_call [OF assms(2)])
      moreover have "read_agent_mandate E s0 (aa_agent_mandate a) = Inr l"
        using 1(2) unfolding load_agent_mandate_Inr by (elim conjE)
      ultimately show ?thesis by (rule at [OF f])
    qed
  next
    case (CallAdjust a dl lc mpa mpi sv)
    then obtain ev where h: "adjust_agent_mandate E a dl lc mpa mpi sv s = Inr (s', ev)" using assms(1) by (auto simp: map_sum_Inr)
    show ?thesis
      by (rule auth [OF conjunct1 [OF adjust_agent_follows [OF h]]])
        (use h in \<open>unfold adjust_agent_mandate_def handler_inversion, blast\<close>)
  next
    case (CallPauseAgent a)
    then obtain ev where h: "pause_agent_mandate E a s = Inr (s', ev)" using assms(1) by (auto simp: map_sum_Inr)
    show ?thesis
      by (rule auth [OF conjunct1 [OF pause_agent_follows [OF h]]])
        (use h in \<open>unfold pause_agent_mandate_def handler_inversion, blast\<close>)
  next
    case (CallResumeAgent a)
    then obtain ev where h: "resume_agent_mandate E a s = Inr (s', ev)" using assms(1) by (auto simp: map_sum_Inr)
    show ?thesis
      by (rule auth [OF conjunct1 [OF resume_agent_follows [OF h]]])
        (use h in \<open>unfold resume_agent_mandate_def handler_inversion, blast\<close>)
  next
    case (CallRevoke a)
    then obtain ev where h: "revoke_agent_mandate E a s = Inr (s', ev)" using assms(1) by (auto simp: map_sum_Inr)
    show ?thesis
      by (rule auth [OF conjunct1 [OF revoke_agent_follows [OF h assms(2)]]])
        (use h in \<open>unfold revoke_agent_mandate_def handler_inversion, blast\<close>)
  next
    case (CallDrain a)
    then show ?thesis using assms(1,2) drain_agent_kept accounts_kept_writes by (fastforce simp: map_sum_Inr)
  next
    case (CallCreateAgent a dl lc mpa mpi sv n)
    then show ?thesis using assms(1-3) create_agent_effect(1) accounts_kept_writes by (fastforce simp: map_sum_Inr)
  qed
qed


section \<open>Plans and merchants\<close>

lemma plan_among:
  assumes "distinct_discriminators E" "load_plan_account E s k = Inr l" "KVelaPlan \<in> K" "KUsagePlan \<in> K"
  shows "among E K s k"
proof -
  have "starts_with (acc_data (s k)) (disc E KVelaPlan) \<or> starts_with (acc_data (s k)) (disc E KUsagePlan)"
    using assms(2) by (auto simp: load_plan_account_def Let_def split: if_splits)
  then show ?thesis using among_kind [OF assms(1)] assms(3,4) by metis
qed

lemma ensure_merchant_writes:
  assumes "ensure_merchant_state E payer k merchant bump s = Inr (ms, s')" "keeps_program_accounts E" "creates_fresh E"
    "distinct_discriminators E" "KMerchantState \<in> K"
  shows "writes_only E K s s' \<and> among E K s k"
proof -
  note e = ensure_merchant_state_kept [OF assms(1-3)]
  have "among E K s k"
    using e(7) among_empty [OF assms(4), of s k] among_kind [OF assms(4), of s k KMerchantState K] assms(5)
    by (cases "acc_owner (s k) = program_id") (auto simp: data_is_empty_def among_foreign)
  then show ?thesis using writes_one [OF _ kept_butI(1) [OF e(1)]] by blast
qed

lemma create_plan_writes:
  assumes "create_plan E c a f t n s = Inr s'" "keeps_program_accounts E" "creates_fresh E" "distinct_discriminators E"
  shows "writes_only E {KMerchantState} s s'"
proof -
  let ?K = "{KMerchantState}"
  from assms(1) obtain ms s1 s2 s3 l seeds p n1 where
    i: "invoke E (CreateAccount (cp_merchant c) (cp_plan c) l vela_plan_size program_id) seeds s1 = Inr s2" and
    w: "write_plan E (cp_plan c) p s2 = Inr s3" and
    m: "write_merchant_state E (cp_merchant_state c) (ms\<lparr>ms_plan_count := n1\<rparr>) s3 = Inr s'" and
    e: "ensure_merchant_state E (cp_merchant c) (cp_merchant_state c) (cp_merchant c)
       (snd (find_pda E [merchant_seed, key_bytes (cp_merchant c)] program_id)) s = Inr (ms, s1)"
    by (cases rule: create_plan_Inr) blast
  have e1: "writes_only E ?K s s1" "among E ?K s (cp_merchant_state c)"
    using ensure_merchant_writes [OF e assms(2-4)] by simp_all
  have "acc_owner (s1 (cp_plan c)) = system_program_id" "others_kept (cp_merchant_state c) s s1"
    using creates_freshD(2) [OF assms(3) i] ensure_merchant_state_kept(1) [OF e assms(2,3)]
    by (simp_all add: created_fresh_def)
  then have "acc_owner (s (cp_plan c)) \<noteq> program_id" unfolding others_kept_def by (metis system_not_program(1))
  then have plan: "among E ?K s (cp_plan c)" by (rule among_foreign)
  have "writes_only E ?K s s2" by (rule writes_kept [OF e1(1) accounts_kept_call [OF assms(2) i]])
  then have "writes_only E ?K s s3" by (rule writes_at [OF _ plan kept_but_writers(9) [OF w]])
  then show ?thesis by (rule writes_at [OF _ e1(2) kept_but_writers(8) [OF m]])
qed

lemma create_usage_plan_writes:
  assumes "create_usage_plan E c i u ts m f s = Inr s'" "keeps_program_accounts E" "creates_fresh E" "distinct_discriminators E"
  shows "writes_only E {KMerchantState} s s'"
proof -
  let ?K = "{KMerchantState}"
  obtain s1 l seeds ms s2 bs where
    i: "invoke E (InitAccount (cp_merchant c) (cp_plan c) l usage_plan_size program_id) seeds s = Inr s1"
    and e: "ensure_merchant_state E (cp_merchant c) (cp_merchant_state c) (cp_merchant c)
       (snd (find_pda E [merchant_seed, key_bytes (cp_merchant c)] program_id)) s1 = Inr (ms, s2)"
    and w: "anchor_exit (cp_plan c) bs s2 = Inr s'"
  proof -
    show thesis
      using assms(1) unfolding create_usage_plan_def handler_inversion
      by (elim exE conjE) (rule that, assumption, erule trans [OF _ arg_cong [where f = Inr, OF prod.collapse [symmetric]]], assumption)
  qed
  have plan: "among E ?K s (cp_plan c)"
    using creates_freshD(1) [OF assms(3) i] by (intro among_new) (simp add: created_fresh_def)
  have "writes_only E ?K s s1" by (rule accounts_kept_writes [OF accounts_kept_call [OF assms(2) i]])
  moreover have "writes_only E ?K s1 s2" using ensure_merchant_writes [OF e assms(2-4)] by simp
  ultimately have "writes_only E ?K s s2" by (rule writes_only_trans)
  then show ?thesis by (rule writes_at [OF _ plan kept_but_writers(1) [OF w]])
qed

lemma plan_call_writes:
  assumes "do_plan_call (E, c) s = Inr s'" "keeps_program_accounts E" "creates_fresh E" "distinct_discriminators E"
  shows "writes_only E {KVelaPlan, KUsagePlan, KMerchantState} s s'"
proof -
  let ?K = "{KVelaPlan, KUsagePlan, KMerchantState}"
  have wider: "writes_only E {KMerchantState} s s' \<Longrightarrow> ?thesis" by (simp add: writes_only_def)
  have at: ?thesis if "load_plan_account E s k = Inr l" "others_kept k s s'" for k l
    using plan_among [OF assms(4) that(1)] kept_butI(1) [OF that(2)] by (blast intro: writes_one)
  show ?thesis
  proof (cases c)
    case (CallCreatePlan a w f t n)
    then show ?thesis using assms(1) create_plan_writes [OF _ assms(2-4)] wider by simp
  next
    case (CallCreateUsagePlan a i u ts m f)
    then show ?thesis using assms(1) create_usage_plan_writes [OF _ assms(2-4)] wider by simp
  next
    case (CallUpdatePlan a w f t n)
    then obtain ev where "update_plan E a w f t n s = Inr (s', ev)" using assms(1) by (auto simp: map_sum_Inr)
    from update_plan_effect [OF this assms(2)] show ?thesis using at by blast
  next
    case (CallUpdateUsagePlan a ts m f)
    then obtain ev where "update_usage_plan E a ts m f s = Inr (s', ev)" using assms(1) by (auto simp: map_sum_Inr)
    from update_usage_plan_others [OF this assms(2)] show ?thesis using at by blast
  next
    case (CallMigratePlan a)
    then have "migrate_plan E a s = Inr s'" using assms(1) by simp
    from migrate_plan_loads [OF this assms(2,4)] show ?thesis using at by blast
  qed
qed


section \<open>Configuration and tokens\<close>

lemma protocol_config_among:
  assumes "distinct_discriminators E" "load_protocol_config E s k = Inr l" "KProtocolConfig \<in> K"
  shows "among E K s k"
proof (rule among_kind [OF assms(1) _ assms(3)])
  show "starts_with (acc_data (s k)) (disc E KProtocolConfig)"
    using assms(2) unfolding load_protocol_config_def by (auto simp: Let_def split: if_split_asm)
qed

lemma keeper_config_among:
  assumes "distinct_discriminators E" "load_keeper_config E s k = Inr l" "KKeeperConfig \<in> K"
  shows "among E K s k"
proof (rule among_kind [OF assms(1) _ assms(3)])
  show "starts_with (acc_data (s k)) (disc E KKeeperConfig)"
    using assms(2) unfolding load_keeper_config_def by (auto simp: Let_def split: if_split_asm)
qed

lemma resize_kept_but:
  assumes "resize_account E n payer k s = Inr s'" "keeps_program_accounts E"
  shows "kept_but k s s'"
proof -
  from assms(1) obtain s1 where s1: "s1 = s \<or> (\<exists>c. invoke E c [] s = Inr s1)" "s' = s1 \<or> (\<exists>bs. s' = set_data s1 k bs)"
    by (auto simp: resize_account_def Let_def case_sum_Inr split: if_splits)
  from s1(1) have "accounts_kept s s1" using accounts_kept_call [OF assms(2)] by auto
  moreover from s1(2) have "others_kept k s1 s'" by auto
  ultimately show ?thesis by (rule kept_but_trans [OF kept_butI(2) kept_butI(1)])
qed

lemma upgrade_kept_but:
  assumes "keeps_program_accounts E"
  shows "upgrade_protocol_config E p k s = Inr u \<Longrightarrow> kept_but k s (snd u)"
    "upgrade_keeper_config E p k s = Inr v \<Longrightarrow> kept_but k s (snd v)"
proof -
  assume "upgrade_protocol_config E p k s = Inr u"
  then obtain s1 pc where "resize_account E protocol_config_size p k s = Inr s1" "write_protocol_config E k pc s1 = Inr (snd u)"
    unfolding upgrade_protocol_config_def resize_protocol_config_account_def handler_inversion by auto
  then show "kept_but k s (snd u)" by (blast intro: kept_but_trans [OF resize_kept_but [OF _ assms] kept_but_writers(6)])
next
  assume "upgrade_keeper_config E p k s = Inr v"
  then obtain s1 kc where "resize_account E keeper_config_size p k s = Inr s1" "write_keeper_config E k kc s1 = Inr (snd v)"
    unfolding upgrade_keeper_config_def resize_keeper_config_account_def handler_inversion by auto
  then show "kept_but k s (snd v)" by (blast intro: kept_but_trans [OF resize_kept_but [OF _ assms] kept_but_writers(7)])
qed

lemma config_call_writes:
  assumes "do_config_call A L M (E, call) s = Inr s'" "keeps_program_accounts E" "creates_fresh E" "distinct_discriminators E"
  shows "writes_only E {KProtocolConfig} s s'"
proof -
  let ?K = "{KProtocolConfig}"
  have at: ?thesis if "load_protocol_config E s k = Inr l" "upgrade_protocol_config E p k s = Inr u"
    "write_protocol_config E k pc (snd u) = Inr s'" for k l p u pc
    by (rule writes_one [OF protocol_config_among [OF assms(4) that(1)] kept_but_trans
          [OF upgrade_kept_but(1) [OF assms(2) that(2)] kept_but_writers(6) [OF that(3)]]]) simp
  show ?thesis
  proof (cases call)
    case (PauseProtocol c)
    then have "pause_protocol E c s = Inr s'" using assms(1) by simp
    then show ?thesis unfolding pause_protocol_def handler_inversion by (elim exE conjE) (rule at)
  next
    case (UnpauseProtocol c)
    then have "unpause_protocol E c s = Inr s'" using assms(1) by simp
    then show ?thesis unfolding unpause_protocol_def handler_inversion by (elim exE conjE) (rule at)
  next
    case (UpdateConfig c k t off mxe)
    then have "update_config E A c k t off mxe s = Inr s'" using assms(1) by simp
    then show ?thesis unfolding update_config_def handler_inversion by (elim exE conjE) (rule at)
  next
    case (InitConfig c k t off mxe)
    then have "init_config E A L c k t off mxe s = Inr s'" using assms(1) by simp
    then show ?thesis
    proof (cases rule: init_config_Inr)
      case (1 s1 bump m seeds)
      have "among E ?K s (ic_config c)"
        using creates_freshD(1) [OF assms(3) 1(4)] by (intro among_new) (simp add: created_fresh_def)
      then show ?thesis
        by (rule writes_at [OF accounts_kept_writes [OF accounts_kept_call [OF assms(2) 1(4)]] _ kept_but_writers(1) [OF 1(7)]])
    qed
  next
    case (InitWrappedMint c)
    then have "init_wrapped_mint E M c s = Inr s'" using assms(1) by simp
    then obtain l x s1 s2 s3 n m where
      l: "load_protocol_config E s1 (iw_config c) = Inr l" and
      s1: "init_associated_token E (iw_admin c) (iw_wrapping_vault c) (iw_mint_authority c) (iw_spl_usdc_mint c)
             (iw_spl_token_program c) s = Inr s1" and
      u: "upgrade_protocol_config E (iw_admin c) (iw_config c) s1 = Inr (x, s2)" and
      s3: "invoke_all E (wrapped_mint_calls E c n m) s2 = Inr s3" and
      w: "write_protocol_config E (iw_config c)
         (x\<lparr>pc_wrapped_usdc_mint := iw_wrapped_usdc_mint c, pc_wrapping_vault := iw_wrapping_vault c\<rparr>) s3 = Inr s'"
      unfolding init_wrapped_mint_def Let_def by (auto simp: case_sum_Inr require_all_Inr split: if_splits)
    have k1: "accounts_kept s s1" by (rule init_associated_token_kept [OF s1 assms(2)])
    have a: "among E ?K s (iw_config c)" by (rule among_back [OF k1 protocol_config_among [OF assms(4) l]]) simp
    have "writes_only E ?K s s2" by (rule writes_at [OF accounts_kept_writes [OF k1] a upgrade_kept_but(1) [OF assms(2) u, unfolded snd_conv]])
    then have "writes_only E ?K s s3" by (rule writes_kept [OF _ invoke_all_kept [OF assms(2) s3]])
    then show ?thesis by (rule writes_at [OF _ a kept_but_writers(6) [OF w]])
  qed
qed

lemma keeper_writes:
  assumes "keeps_program_accounts E" "creates_fresh E" "distinct_discriminators E"
  shows "init_keeper_config E kac mode ep auth s = Inr (s', ev) \<Longrightarrow> writes_only E {} s s'"
    "update_keeper_config E kac mode' ep' auth' s = Inr (s', ev) \<Longrightarrow> writes_only E {KKeeperConfig} s s'"
proof -
  assume "init_keeper_config E kac mode ep auth s = Inr (s', ev)"
  then obtain l s1 seeds kc where
    i: "invoke E (CreateAccount (ka_admin kac) (ka_keeper_config kac) l keeper_config_size program_id) seeds s = Inr s1"
    and w: "write_keeper_config E (ka_keeper_config kac) kc s1 = Inr s'"
    unfolding init_keeper_config_def initialize_keeper_config_def handler_inversion by auto
  have "among E {} s (ka_keeper_config kac)"
    using creates_freshD(2) [OF assms(2) i] by (intro among_new) (simp add: created_fresh_def)
  then show "writes_only E {} s s'"
    by (rule writes_at [OF accounts_kept_writes [OF accounts_kept_call [OF assms(1) i]] _ kept_but_writers(7) [OF w]])
next
  assume "update_keeper_config E kac mode' ep' auth' s = Inr (s', ev)"
  then obtain l u kc s2 where l: "load_keeper_config E s (ka_keeper_config kac) = Inr l"
    and u: "upgrade_keeper_config E (ka_admin kac) (ka_keeper_config kac) s = Inr u"
    and w: "write_keeper_config E (ka_keeper_config kac) kc (snd u) = Inr s2" "s2 = s'"
    unfolding update_keeper_config_def handler_inversion
    by (elim exE conjE) (rule that, assumption, assumption, assumption, simp)
  show "writes_only E {KKeeperConfig} s s'"
    by (rule writes_one [OF keeper_config_among [OF assms(3) l] kept_but_trans
          [OF upgrade_kept_but(2) [OF assms(1) u] kept_but_writers(7) [OF w(1) [unfolded w(2)]]]]) simp
qed

lemma token_config_writes:
  assumes "keeps_program_accounts E" "creates_fresh E" "distinct_discriminators E"
  shows "init_token_config E tcc rail d s = Inr (s', ev) \<Longrightarrow> writes_only E {} s s'"
    "update_token_config E tcc en o' s = Inr (s', ev) \<Longrightarrow> writes_only E {KTokenConfig} s s'"
proof -
  assume "init_token_config E tcc rail d s = Inr (s', ev)"
  then obtain l s1 seeds bs where
    i: "invoke E (InitAccount (tca_admin tcc) (tca_token_config tcc) l token_config_size program_id) seeds s = Inr s1"
    and w: "anchor_exit (tca_token_config tcc) bs s1 = Inr s'"
    unfolding init_token_config_def handler_inversion by auto
  have "among E {} s (tca_token_config tcc)"
    using creates_freshD(1) [OF assms(2) i] by (intro among_new) (simp add: created_fresh_def)
  then show "writes_only E {} s s'"
    by (rule writes_at [OF accounts_kept_writes [OF accounts_kept_call [OF assms(1) i]] _ kept_but_writers(1) [OF w]])
next
  assume "update_token_config E tcc en o' s = Inr (s', ev)"
  then obtain tc bs where l: "anchor_account E KTokenConfig dec_token_config s (tca_token_config tcc) = Inr tc"
    and w: "anchor_exit (tca_token_config tcc) bs s = Inr s'"
    unfolding update_token_config_def handler_inversion by auto
  have "among E {KTokenConfig} s (tca_token_config tcc)"
    using anchor_account_starts [OF l] by (intro among_kind [OF assms(3), where kd = KTokenConfig]) simp_all
  then show "writes_only E {KTokenConfig} s s'" by (rule writes_one [OF _ kept_but_writers(1) [OF w]])
qed

lemma wrapping_call_writes:
  assumes "do_wrapping_call (E, c) s = Inr s'" "keeps_program_accounts E"
  shows "accounts_kept s s'"
proof (cases c)
  case (Wrap a n)
  then have "wrap E a n s = Inr s'" using assms(1) by simp
  then show ?thesis
    unfolding wrap_def handler_inversion by (blast intro: accounts_kept_trans accounts_kept_call [OF assms(2)])
next
  case (Unwrap a n)
  then have "unwrap E a n s = Inr s'" using assms(1) by simp
  then show ?thesis
    unfolding unwrap_def handler_inversion by (blast intro: accounts_kept_trans accounts_kept_call [OF assms(2)])
qed

lemma credential_writes:
  assumes "init_merchant_credential E M c s = Inr s'" "keeps_program_accounts E" "creates_fresh E" "distinct_discriminators E"
  shows "writes_only E {KMerchantState} s s'"
proof -
  from assms(1) obtain ms s1 where
    e: "ensure_merchant_state E (im_merchant c) (im_merchant_state c) (im_merchant c)
             (snd (find_pda E [merchant_seed, key_bytes (im_merchant c)] program_id)) s = Inr (ms, s1)" and
    r: "s' = s1 \<or> (\<exists>n b s2 x. invoke_all E (credential_mint_calls E c n b) s1 = Inr s2 \<and>
          write_merchant_state E (im_merchant_state c) x s2 = Inr s')"
    unfolding init_merchant_credential_def Let_def case_prod_unfold case_sum_Inr if_Inl_Inr
    by (elim exE conjE) (rule that, erule trans [OF _ arg_cong [where f = Inr, OF prod.collapse [symmetric]]],
      auto split: if_splits sum.splits)
  have e1: "writes_only E {KMerchantState} s s1" "among E {KMerchantState} s (im_merchant_state c)"
    using ensure_merchant_writes [OF e assms(2-4)] by simp_all
  from r show ?thesis
  proof (elim disjE exE conjE)
    fix n b s2 x
    assume i: "invoke_all E (credential_mint_calls E c n b) s1 = Inr s2"
      and w: "write_merchant_state E (im_merchant_state c) x s2 = Inr s'"
    have "writes_only E {KMerchantState} s s2" by (rule writes_kept [OF e1(1) invoke_all_kept [OF assms(2) i]])
    then show ?thesis by (rule writes_at [OF _ e1(2) kept_but_writers(8) [OF w]])
  qed (use e1 in simp)
qed

end
