(* ===== verification/Instruction_Kinds.thy ===== *)
theory Instruction_Kinds
  imports Account_Kinds
begin

text \<open>
  The kinds of account the handlers of mandates, billing and confidential computations write.
\<close>

section \<open>Mandates and billing\<close>

lemma mandate_among:
  "distinct_discriminators E \<Longrightarrow> load_mandate_account E s k = Inr l \<Longrightarrow> KVelaMandate \<in> K \<Longrightarrow> among E K s k"
  by (rule among_kind [where kd = KVelaMandate]) (auto dest: loaded_mandate_starts)

lemma current_among:
  "distinct_discriminators E \<Longrightarrow> current_mandate E s k = Inr m \<Longrightarrow> KVelaMandate \<in> K \<Longrightarrow> among E K s k"
  using mandate_among by (auto simp: current_mandate_Inr)

lemma anchored_among:
  assumes "distinct_discriminators E" "anchor_account E kd dec s k = Inr x" "kd \<in> K"
  shows "among E K s k"
  by (rule among_kind [OF assms(1) _ assms(3)]) (use anchor_account_starts [OF assms(2)] in blast)

lemma subscribe_writes:
  assumes "subscribe E c s = Inr s'" "keeps_program_accounts E" "creates_fresh E" "distinct_discriminators E"
  shows "writes_only E {KMerchantState} s s'"
  using assms(1)
proof (cases rule: subscribe_Inr)
  case (1 ms plan s1 s2 s3 s4 authority sg seeds expiry due m counter)
  let ?K = "{KMerchantState}"
  have k1: "accounts_kept s s1" by (rule accounts_kept_call [OF assms(2) 1(7)])
  have "among E ?K s1 (sb_mandate c)"
    using creates_freshD(2) [OF assms(3) 1(8)] by (intro among_new) (simp add: created_fresh_def)
  then have new: "among E ?K s (sb_mandate c)" by (rule among_back [OF k1])
  have "accounts_kept s s3"
    by (rule accounts_kept_trans [OF k1 accounts_kept_trans [OF accounts_kept_call [OF assms(2) 1(8)]
            accounts_kept_call [OF assms(2) 1(9)]]])
  then have "writes_only E ?K s s4" by (rule writes_at [OF accounts_kept_writes new kept_but_writers(4) [OF 1(13)]])
  then show ?thesis
    by (rule writes_at [OF _ anchored_among [OF assms(4) 1(1)] kept_but_writers(1) [OF 1(15)]]) simp
qed

lemma cancel_writes:
  assumes "keeps_program_accounts E" "distinct_discriminators E"
  shows "cancel E c s = Inr s' \<Longrightarrow> writes_only E {KVelaMandate} s s'"
    "admin_cancel E c s = Inr s' \<Longrightarrow> writes_only E {KVelaMandate} s s'"
proof -
  have at: "among E {KVelaMandate} s (cn_mandate c)" if "cancellable_mandate E c s = Inr (legacy, m, plan)" for legacy m plan
    using that by (rule cancellable_mandate_Inr) (rule mandate_among [OF assms(2)], assumption, simp)
  show "writes_only E {KVelaMandate} s s'" if h: "cancel E c s = Inr s'"
    using h
  proof (cases rule: cancel_Inr)
    case (1 legacy m plan s1 s2)
    have "accounts_kept s s2"
      using accounts_kept_call [OF assms(1) 1(6)] 1(7) accounts_kept_call [OF assms(1)] accounts_kept_trans by blast
    then show ?thesis by (rule writes_at [OF accounts_kept_writes at [OF 1(1)] kept_but_writers(4) [OF 1(8)]])
  qed
  show "writes_only E {KVelaMandate} s s'" if h: "admin_cancel E c s = Inr s'"
    using h
  proof (cases rule: admin_cancel_Inr)
    case (1 legacy m plan s1 pc authority seeds)
    show ?thesis
      by (rule writes_at [OF accounts_kept_writes [OF accounts_kept_call [OF assms(1) 1(8)]] at [OF 1(1)]
            kept_but_writers(4) [OF 1(9)]])
  qed
qed

lemma ensure_min_kept_but:
  assumes "ensure_min_mandate_size E p k s = Inr s'" "keeps_program_accounts E"
  shows "kept_but k s s'"
proof -
  from assms(1) obtain s1 where s1: "s1 = s \<or> (\<exists>c seeds. invoke E c seeds s = Inr s1)" "s' = s1 \<or> (\<exists>bs. s' = set_data s1 k bs)"
    unfolding ensure_min_mandate_size_def Let_def by (auto simp: case_sum_Inr split: if_splits)
  from s1(1) have "accounts_kept s s1" using accounts_kept_call [OF assms(2)] by auto
  moreover from s1(2) have "others_kept k s1 s'" by auto
  ultimately show ?thesis by (rule kept_but_trans [OF kept_butI(2) kept_butI(1)])
qed

lemma migrate_mandate_writes:
  assumes "migrate_mandate E c s = Inr s'" "keeps_program_accounts E" "creates_fresh E" "distinct_discriminators E"
  shows "writes_only E {KVelaMandate, KMerchantState} s s'"
  using assms(1)
proof (cases rule: migrate_mandate_Inr)
  case (1 ms pc l s1 s2 s3 seeds m bs)
  let ?K = "{KVelaMandate, KMerchantState}"
  have new: "among E ?K s (mg_migrated_mandate c)"
    using creates_freshD(2) [OF assms(3) 1(6)] by (intro among_new) (simp add: created_fresh_def)
  have old: "among E ?K s (mg_legacy_mandate c)" by (rule mandate_among [OF assms(4) 1(5)]) simp
  have ms: "among E ?K s (mg_merchant_state c)" by (rule anchored_among [OF assms(4) 1(1)]) simp
  have "writes_only E ?K s s2"
    by (rule writes_at [OF accounts_kept_writes [OF accounts_kept_call [OF assms(2) 1(6)]] new kept_but_writers(4) [OF 1(7)]])
  then have "writes_only E ?K s s3" by (rule writes_at [OF _ old kept_but_writers(3) [OF 1(8)]])
  then show ?thesis by (rule writes_at [OF _ ms kept_but_writers(1) [OF 1(9)]])
qed

lemma execute_pull_writes:
  assumes "execute_pull E c remaining s = Inr (s', ev)" "keeps_program_accounts E" "distinct_discriminators E"
  shows "writes_only E {KVelaMandate, KPullApproval, KUsageReport} s s'"
  using assms(1)
proof (cases rule: execute_pull_Inr)
  case (1 tc kc pc plan l a b m1 plan1 ch approval base s1 s2 s3 m2)
  let ?K = "{KVelaMandate, KPullApproval, KUsageReport}"
  have kept: "accounts_kept s s1" using 1(16) billing_transfer_kept [OF _ assms(2)] by (auto split: if_splits)
  have "writes_only E ?K s s2"
    by (rule writes_at [OF accounts_kept_writes [OF kept] mandate_among [OF assms(3) 1(7)] kept_but_writers(4) [OF 1(18)]]) simp
  moreover have "writes_only E ?K s s3" if w: "writes_only E ?K s s2"
  proof (cases "md_billing_type (lm_into_current l) = Usage")
    case True
    have "among E ?K s (hd remaining)"
      using 1(14) [OF True] by (intro among_kind [OF assms(3), where kd = KUsageReport])
        (auto simp: usage_report_for_settlement_Inr intro: try_deserialize_starts)
    moreover have "mark_usage_report_settled (hd remaining) s2 = Inr s3" using 1(19) True by simp
    then have "s3 = set_data s2 (hd remaining) ((acc_data (s2 (hd remaining)))[SETTLED_OFFSET := 1])"
      by (rule mark_settled_Inr)
    then have "kept_but (hd remaining) s2 s3" by (simp add: kept_butI(1))
    ultimately show ?thesis by (intro writes_at [OF w])
  qed (use 1(19) w in simp)
  moreover have "among E ?K s (pu_pull_approval c)"
    using 1(13) by (intro among_kind [OF assms(3), where kd = KPullApproval])
      (auto simp: pull_approval_for_Inr intro: try_deserialize_starts)
  ultimately show ?thesis using writes_at [OF _ _ kept_but_writers(3) [OF 1(20)]] by blast
qed

lemma update_mandate_plan_writes:
  assumes "update_mandate_plan P E c s = Inr (s', ev)" "keeps_program_accounts E" "distinct_discriminators E"
  shows "writes_only E {KVelaMandate, KPullApproval} s s'"
  using assms(1)
proof (cases rule: update_mandate_plan_Inr)
  case (1 tc pc m plan)
  let ?K = "{KVelaMandate, KPullApproval}"
  have at: "among E ?K s (ug_mandate c)" by (rule current_among [OF assms(3) 1(5)]) simp
  from 1(9) show ?thesis
  proof (elim disjE conjE exE)
    fix el d s1 m1
    assume set: "settle_difference E c m d s = Inr (s1, m1)"
      and w: "write_current_mandate E (ug_mandate c) (apply_plan (ug_new_plan c) plan m1) s1 = Inr s'"
    have "writes_only E ?K s s1"
      using set
    proof (cases rule: settle_difference_Inr)
      case (Charge s0)
      have "accounts_kept s s0" using Charge(4) by (rule invoke_stream_transfer_call) (rule accounts_kept_call [OF assms(2)])
      moreover have "among E ?K s (ug_pull_approval c)"
        using Charge(3) by (intro among_kind [OF assms(3), where kd = KPullApproval])
          (auto simp: upgrade_approval_Inr intro: try_deserialize_starts)
      ultimately show ?thesis by (rule writes_at [OF accounts_kept_writes _ kept_but_writers(3) [OF Charge(5)]])
    qed (simp_all add: accounts_kept_writes)
    then show ?thesis by (rule writes_at [OF _ at kept_but_writers(4) [OF w]])
  qed (simp add: accounts_kept_writes)
qed

fun mandate_call_kinds :: "mandate_call \<Rightarrow> account_kind set" where
  "mandate_call_kinds (CallSubscribe c) = {KMerchantState}"
| "mandate_call_kinds (CallMigrateMandate c) = {KVelaMandate, KMerchantState}"
| "mandate_call_kinds (CallReport c a b cts nonce key) = {}"
| "mandate_call_kinds (CallExecutePull c remaining) = {KVelaMandate, KPullApproval, KUsageReport}"
| "mandate_call_kinds _ = {KVelaMandate}"

lemma mandate_call_writes:
  assumes "do_mandate_call (E, c) s = Inr s'" "keeps_program_accounts E" "creates_fresh E" "distinct_discriminators E"
  shows "writes_only E (mandate_call_kinds c) s s'"
proof (cases c)
  case (CallSubscribe a)
  then show ?thesis using assms(1) subscribe_writes [OF _ assms(2-4)] by simp
next
  case (CallCancel a)
  then show ?thesis using assms(1) cancel_writes(1) [OF assms(2,4)] by simp
next
  case (CallAdminCancel a)
  then show ?thesis using assms(1) cancel_writes(2) [OF assms(2,4)] by simp
next
  case (CallCloseMandate a)
  then have "close_mandate E a s = Inr s'" using assms(1) by simp
  then have "writes_only E {KVelaMandate} s s'"
    by (rule close_mandate_Inr) (rule writes_one [OF mandate_among [OF assms(4)] kept_but_writers(3)], assumption, simp)
  then show ?thesis by (simp add: CallCloseMandate)
next
  case (CallUpdateMandate a x y z t p)
  then have "update_mandate E a x y z t p s = Inr s'" using assms(1) by simp
  then have "writes_only E {KVelaMandate} s s'"
  proof (cases rule: update_mandate_Inr)
    case (1 l s1)
    have "kept_but (ma_mandate a) s1 s'"
      using 1(6) kept_but_writers(4) by (cases l) (auto simp: write_mandate_account_def)
    then show ?thesis
      by (rule writes_one [OF mandate_among [OF assms(4) 1(1)] kept_but_trans [OF ensure_min_kept_but [OF 1(5) assms(2)]], rotated]) simp
  qed
  then show ?thesis by (simp add: CallUpdateMandate)
next
  case (CallSchedule a)
  then obtain ev where "schedule_plan_change E a s = Inr (s', ev)" using assms(1) by (auto simp: map_sum_Inr)
  then have "writes_only E {KVelaMandate} s s'"
  proof (cases rule: schedule_plan_change_Inr)
    case (1 m plan)
    have "kept_but (ma_mandate a) s s'" using 1(7) kept_but_writers(4) kept_butI(2) [OF accounts_kept_refl] by blast
    then show ?thesis by (rule writes_one [OF current_among [OF assms(4) 1(2)], rotated]) simp
  qed
  then show ?thesis by (simp add: CallSchedule)
next
  case (CallCallOff a)
  then obtain ev where "cancel_plan_change E a s = Inr (s', ev)" using assms(1) by (auto simp: map_sum_Inr)
  then have "writes_only E {KVelaMandate} s s'"
    by (rule cancel_plan_change_Inr) (rule writes_one [OF current_among [OF assms(4)] kept_but_writers(4)], assumption, simp)
  then show ?thesis by (simp add: CallCallOff)
next
  case (CallMigrateMandate a)
  then show ?thesis using assms(1) migrate_mandate_writes [OF _ assms(2-4)] by simp
next
  case (CallReport a x y cts nonce key)
  then show ?thesis using assms(1) submit_usage_report_effect [OF _ assms(2,3)] accounts_kept_writes by simp
next
  case (CallExecutePull a r)
  then obtain ev where "execute_pull E a r s = Inr (s', ev)" using assms(1) by (auto simp: map_sum_Inr)
  then show ?thesis using execute_pull_writes [OF _ assms(2,4)] by (simp add: CallExecutePull)
qed

section \<open>Confidential computations\<close>

fun computation_call_kinds :: "'o computation_call \<Rightarrow> account_kind set" where
  "computation_call_kinds (RequestValidation c off due cts key nonce) =
     {KArciumSigner, KPullApproval, KArciumRequestState, KVelaMandate}"
| "computation_call_kinds (RequestUsage c off) =
     {KArciumSigner, KPullApproval, KArciumRequestState, KVelaMandate, KUsageReport}"
| "computation_call_kinds (RequestRecord c off pulls) = {KArciumSigner, KBillingEvent, KArciumRequestState, KVelaMandate}"
| "computation_call_kinds (ValidationCallback c out) = {KArciumRequestState, KPullApproval}"
| "computation_call_kinds (UsageCallback c out) = {KArciumRequestState, KPullApproval, KUsageReport}"
| "computation_call_kinds (RecordCallback c out) = {KArciumRequestState, KBillingEvent, KVelaMandate}"

lemma request_kinds:
  assumes "request_done E A c kd dec flow subject result request request' exits s s'"
    "keeps_program_accounts E" "creates_fresh E" "distinct_discriminators E"
    "{KArciumSigner, KArciumRequestState, KVelaMandate, kd} \<subseteq> K"
    "\<And>j. j \<in> fst ` set exits \<Longrightarrow> j = rqa_request_state c \<or> j = rqa_result c \<or> among E K s j"
  shows "writes_only E K s s'"
proof (rule writes_outside [OF request_done_outside [OF assms(1-3)]])
  fix j assume j: "j \<in> {rqa_sign_pda_account c, rqa_mandate c} \<union> fst ` set exits"
  from assms(1-3) show "among E K s j"
  proof (cases rule: request_done_Inr)
    case (1 s0 l m r s1 s2)
    have "among E K s0 (rqa_sign_pda_account c)" "among E K s0 (rqa_result c)" "among E K s0 (rqa_request_state c)"
      by (rule among_opened [OF assms(4) 1(2)] among_opened [OF assms(4) 1(3)] among_opened [OF assms(4) 1(4)];
        use assms(5) in blast)+
    moreover have "among E K s0 (rqa_mandate c)" by (rule mandate_among [OF assms(4) 1(5)]) (use assms(5) in blast)
    ultimately have "among E K s (rqa_sign_pda_account c)" "among E K s (rqa_result c)"
      "among E K s (rqa_request_state c)" "among E K s (rqa_mandate c)"
      by (simp_all add: among_back [OF 1(1)])
    note written = this
    show ?thesis
    proof (cases "j \<in> fst ` set exits")
      case True
      from assms(6) [OF this] written show ?thesis by auto
    qed (use j written in auto)
  qed
qed

lemma callback_kinds:
  "exit_all exits s = Inr s' \<Longrightarrow> (\<And>j. j \<in> fst ` set exits \<Longrightarrow> among E K s j) \<Longrightarrow> writes_only E K s s'"
  using writes_outside [OF exit_all_outside [of exits s s' "fst ` set exits"]] by blast

lemma computation_call_writes:
  assumes "do_computation_call A (E, call) s = Inr s'" "keeps_program_accounts E" "creates_fresh E"
    "distinct_discriminators E" "network_keeps A"
  shows "writes_only E (computation_call_kinds call) s s'"
proof (cases call)
  case (RequestValidation c off due cts key nonce)
  then have h: "request_validation E A c off due cts key nonce s = Inr s'" using assms(1) by simp
  show ?thesis
    by (rule request_validation_Inr [OF h assms(5)], rule request_kinds, assumption)
      (use assms RequestValidation in auto)
next
  case (RequestUsage c off)
  then have h: "request_usage_computation E A c off s = Inr s'" using assms(1) by simp
  from request_usage_Inr [OF h assms(5)] obtain plan report approval request request' bump where
    i: "usage_request_inputs E c s = Inr (plan, report)" and d:
    "request_done E A c KPullApproval dec_pull_approval FlowUsageComputation (i64_le (ur_period_start report))
      approval request request'
      [(rqa_usage_report c, disc E KUsageReport @ enc_usage_report report),
       (rqa_result c, disc E KPullApproval @ enc_pull_approval (cleared_approval bump)),
       (rqa_request_state c, disc E KArciumRequestState @ enc_arcium_request request')] s s'" by blast
  have "anchor_account E KUsageReport dec_usage_report s (rqa_usage_report c) = Inr report"
    using i by (auto simp: usage_request_inputs_def case_sum_Inr)
  then have "among E (computation_call_kinds call) s (rqa_usage_report c)"
    by (rule anchored_among [OF assms(4)]) (simp add: RequestUsage)
  then show ?thesis by (intro request_kinds [OF d assms(2-4)]) (auto simp: RequestUsage)
next
  case (RequestRecord c off pulls)
  then have h: "request_billing_record E A c off pulls s = Inr s'" using assms(1) by simp
  show ?thesis
    by (rule request_record_Inr [OF h assms(5)], rule request_kinds, assumption) (use assms RequestRecord in auto)
next
  case (ValidationCallback c out)
  then have "validate_mandate_callback E A c out s = Inr s'" using assms(1) by simp
  then show ?thesis
  proof (cases rule: validate_mandate_callback_Inr)
    case (1 request cluster approval mandate result period_start period_end valid_until bump)
    have "among E (computation_call_kinds call) s (cba_request_state c)" "among E (computation_call_kinds call) s (cba_result c)"
      by (rule anchored_among [OF assms(4) answers_request [OF 1(1)]] anchored_among [OF assms(4) 1(2)]; simp add: ValidationCallback)+
    then show ?thesis by (intro callback_kinds [OF 1(9)]) auto
  qed
next
  case (UsageCallback c out)
  then have "usage_charge_callback E A c out s = Inr s'" using assms(1) by simp
  then show ?thesis
  proof (cases rule: usage_charge_callback_Inr)
    case (1 request cluster approval mandate report charge period_start period_end valid_until bump)
    have "among E (computation_call_kinds call) s (cba_request_state c)" "among E (computation_call_kinds call) s (cba_result c)"
      "among E (computation_call_kinds call) s (cba_usage_report c)"
      by (rule anchored_among [OF assms(4) answers_request [OF 1(1)]] anchored_among [OF assms(4) 1(2)]
          anchored_among [OF assms(4) 1(4)]; simp add: UsageCallback)+
    then show ?thesis by (intro callback_kinds [OF 1(15)]) auto
  qed
next
  case (RecordCallback c out)
  then have "record_billing_event_callback E A c out s = Inr s'" using assms(1) by simp
  then show ?thesis
  proof (cases rule: record_billing_event_callback_Inr)
    case (1 request cluster event mandate plan blob bump)
    have "among E (computation_call_kinds call) s (cba_request_state c)" "among E (computation_call_kinds call) s (cba_result c)"
      "among E (computation_call_kinds call) s (cba_mandate c)"
      by (rule anchored_among [OF assms(4) answers_request [OF 1(1)]] anchored_among [OF assms(4) 1(2)]
          anchored_among [OF assms(4) 1(4)]; simp add: RecordCallback)+
    then show ?thesis by (intro callback_kinds [OF 1(9)]) auto
  qed
qed

end
