(* ===== verification/Program.thy ===== *)
theory Program
  imports Instruction_Kinds
begin

text \<open>
  The program as a whole: its entry points (\<open>lib.rs\<close>), one instruction each, and the accounts each
  of them may write.
\<close>

section \<open>The entry points\<close>

text \<open>What is outside the program: the network with its registry, the loader, the token library's sizes, the
  built circuits and the fixed-point numbers.\<close>

record ('c, 'o, 'p, 'q) outside =
  network :: "('c, 'o, 'p) arcium_registry"
  loader :: upgradeable_loader
  mint_sizes :: mint_library
  circuits :: "'p circuit_metadata"
  numbers :: "'q precise_numbers"

text \<open>The four instructions that register a circuit.\<close>

datatype comp_def_call =
    ValidateMandateCompDef comp_def_accounts
  | RecordBillingCompDef comp_def_accounts
  | UsageChargeCompDef comp_def_accounts
  | TieredPricingCompDef comp_def_accounts

fun do_comp_def_call ::
  "('c, 'o, 'p) arcium_registry \<Rightarrow> 'p circuit_metadata \<Rightarrow> env \<times> comp_def_call \<Rightarrow> store \<Rightarrow> verror + store" where
  "do_comp_def_call A G (E, ValidateMandateCompDef c) s = init_validate_mandate_comp_def E A G c s"
| "do_comp_def_call A G (E, RecordBillingCompDef c) s = init_record_billing_comp_def E A G c s"
| "do_comp_def_call A G (E, UsageChargeCompDef c) s = init_usage_charge_comp_def E A G c s"
| "do_comp_def_call A G (E, TieredPricingCompDef c) s = init_tiered_pricing_comp_def E A G c s"

text \<open>An instruction of the program is a call of one of its parts.\<close>

datatype 'o instruction =
    MandateInstruction mandate_call
  | UpdateMandatePlan upgrade_accounts
  | CreateStreamMandate create_stream_accounts u64 u64 "u64 option" u32
  | StreamInstruction stream_call
  | AgentInstruction agent_call
  | PlanInstruction plan_call
  | ConfigInstruction config_call
  | InitKeeperConfig keeper_accounts keeper_mode "u8 list" pubkey
  | UpdateKeeperConfig keeper_accounts "keeper_mode option" "u8 list option" "pubkey option"
  | InitTokenConfig token_config_accounts billing_rail u8
  | UpdateTokenConfig token_config_accounts "bool option" "pubkey option"
  | WrappingInstruction wrapping_call
  | InitMerchantCredential init_credential_accounts
  | CompDefInstruction comp_def_call
  | ComputationInstruction "'o computation_call"

fun process_instruction ::
  "('c, 'o, 'p, 'q) outside \<Rightarrow> env \<times> 'o instruction \<Rightarrow> store \<Rightarrow> verror + store" where
  "process_instruction W (E, MandateInstruction c) s = do_mandate_call (E, c) s"
| "process_instruction W (E, UpdateMandatePlan c) s = map_sum id fst (update_mandate_plan (numbers W) E c s)"
| "process_instruction W (E, CreateStreamMandate c rate max_rate cap interval) s =
     map_sum id fst (create_stream_mandate E c rate max_rate cap interval s)"
| "process_instruction W (E, StreamInstruction c) s = do_stream_call (E, c) s"
| "process_instruction W (E, AgentInstruction c) s = do_agent_call (E, c) s"
| "process_instruction W (E, PlanInstruction c) s = do_plan_call (E, c) s"
| "process_instruction W (E, ConfigInstruction c) s =
     do_config_call (arcium.truncate (network W)) (loader W) (mint_sizes W) (E, c) s"
| "process_instruction W (E, InitKeeperConfig c mode endpoint authority) s =
     map_sum id fst (init_keeper_config E c mode endpoint authority s)"
| "process_instruction W (E, UpdateKeeperConfig c mode endpoint authority) s =
     map_sum id fst (update_keeper_config E c mode endpoint authority s)"
| "process_instruction W (E, InitTokenConfig c rail decimals) s = map_sum id fst (init_token_config E c rail decimals s)"
| "process_instruction W (E, UpdateTokenConfig c enabled oracle) s =
     map_sum id fst (update_token_config E c enabled oracle s)"
| "process_instruction W (E, WrappingInstruction c) s = do_wrapping_call (E, c) s"
| "process_instruction W (E, InitMerchantCredential c) s = init_merchant_credential E (mint_sizes W) c s"
| "process_instruction W (E, CompDefInstruction c) s = do_comp_def_call (network W) (circuits W) (E, c) s"
| "process_instruction W (E, ComputationInstruction c) s = do_computation_call (arcium.truncate (network W)) (E, c) s"

section \<open>The kinds of account an instruction writes\<close>

fun instruction_kinds :: "'o instruction \<Rightarrow> account_kind set" where
  "instruction_kinds (MandateInstruction c) = mandate_call_kinds c"
| "instruction_kinds (UpdateMandatePlan c) = {KVelaMandate, KPullApproval}"
| "instruction_kinds (CreateStreamMandate c rate max_rate cap interval) = {KMerchantState}"
| "instruction_kinds (StreamInstruction c) = {KStreamMandate}"
| "instruction_kinds (AgentInstruction c) = {KAgentMandate}"
| "instruction_kinds (PlanInstruction c) = {KVelaPlan, KUsagePlan, KMerchantState}"
| "instruction_kinds (ConfigInstruction c) = {KProtocolConfig}"
| "instruction_kinds (InitKeeperConfig c mode endpoint authority) = {}"
| "instruction_kinds (UpdateKeeperConfig c mode endpoint authority) = {KKeeperConfig}"
| "instruction_kinds (InitTokenConfig c rail decimals) = {}"
| "instruction_kinds (UpdateTokenConfig c enabled oracle) = {KTokenConfig}"
| "instruction_kinds (WrappingInstruction c) = {}"
| "instruction_kinds (InitMerchantCredential c) = {KMerchantState}"
| "instruction_kinds (CompDefInstruction c) = {}"
| "instruction_kinds (ComputationInstruction c) = computation_call_kinds c"

definition registry_keeps :: "('c, 'o, 'p) arcium_registry \<Rightarrow> bool" where
  "registry_keeps A \<longleftrightarrow> (\<forall>r s s'. init_computation_def A r s = Inr s' \<longrightarrow> accounts_kept s s')"

text \<open>What the runtime grants every instruction of one deployment of the program.\<close>

definition program_runtime :: "('c, 'o, 'p, 'q) outside \<Rightarrow> env \<Rightarrow> env \<times> 'o instruction \<Rightarrow> bool" where
  "program_runtime W E x \<longleftrightarrow>
     disc (fst x) = disc E \<and> find_pda (fst x) = find_pda E \<and> keeps_program_accounts (fst x) \<and>
     creates_fresh (fst x) \<and> distinct_discriminators (fst x) \<and>
     network_keeps (arcium.truncate (network W)) \<and> registry_keeps (network W)"


lemma program_runtimeD:
  assumes "program_runtime W E (E', ix)"
  shows "disc E' = disc E" "find_pda E' = find_pda E" "keeps_program_accounts E'" "creates_fresh E'"
    "distinct_discriminators E'" "network_keeps (arcium.truncate (network W))" "registry_keeps (network W)"
  using assms by (simp_all add: program_runtime_def)

lemma comp_def_call_kept:
  assumes "do_comp_def_call A G (E, c) s = Inr s'" "registry_keeps A"
  shows "accounts_kept s s'"
  using assms by (cases c) (auto simp: registry_keeps_def init_validate_mandate_comp_def_def init_record_billing_comp_def_def
      init_usage_charge_comp_def_def init_tiered_pricing_comp_def_def init_comp_def_Inr)

text \<open>Every instruction keeps to its kinds: an account of any other kind that belongs to the program keeps its data
  and its owner, whatever accounts the caller passes.\<close>

lemma instruction_writes:
  assumes "process_instruction W (E', ix) s = Inr s'" "program_runtime W E (E', ix)"
  shows "writes_only E (instruction_kinds ix) s s'"
proof -
  note rt = program_runtimeD [OF assms(2)]
  have "writes_only E' (instruction_kinds ix) s s'"
  proof (cases ix)
    case (MandateInstruction c)
    then show ?thesis using assms(1) mandate_call_writes [OF _ rt(3-5)] by simp
  next
    case (UpdateMandatePlan c)
    then show ?thesis using assms(1) update_mandate_plan_writes [OF _ rt(3,5)] by (fastforce simp: map_sum_Inr)
  next
    case (CreateStreamMandate c r mx cap iv)
    then show ?thesis using assms(1) create_stream_writes [OF _ rt(3-5)] by (fastforce simp: map_sum_Inr)
  next
    case (StreamInstruction c)
    then show ?thesis using assms(1) stream_call_writes [OF _ rt(3,5)] by simp
  next
    case (AgentInstruction c)
    then show ?thesis using assms(1) agent_call_writes [OF _ rt(3-5)] by simp
  next
    case (PlanInstruction c)
    then show ?thesis using assms(1) plan_call_writes [OF _ rt(3-5)] by simp
  next
    case (ConfigInstruction c)
    then show ?thesis using assms(1) config_call_writes [OF _ rt(3-5)] by simp
  next
    case (InitKeeperConfig c mode ep a)
    then show ?thesis using assms(1) keeper_writes(1) [OF rt(3-5)] by (fastforce simp: map_sum_Inr)
  next
    case (UpdateKeeperConfig c mode ep a)
    then show ?thesis using assms(1) keeper_writes(2) [OF rt(3-5)] by (fastforce simp: map_sum_Inr)
  next
    case (InitTokenConfig c rail d)
    then show ?thesis using assms(1) token_config_writes(1) [OF rt(3-5)] by (fastforce simp: map_sum_Inr)
  next
    case (UpdateTokenConfig c en orc)
    then show ?thesis using assms(1) token_config_writes(2) [OF rt(3-5)] by (fastforce simp: map_sum_Inr)
  next
    case (WrappingInstruction c)
    then show ?thesis using assms(1) accounts_kept_writes [OF wrapping_call_writes [OF _ rt(3)]] by simp
  next
    case (InitMerchantCredential c)
    then show ?thesis using assms(1) credential_writes [OF _ rt(3-5)] by simp
  next
    case (CompDefInstruction c)
    then show ?thesis using assms(1) accounts_kept_writes [OF comp_def_call_kept [OF _ rt(7)]] by simp
  next
    case (ComputationInstruction c)
    then show ?thesis using assms(1) computation_call_writes [OF _ rt(3-6)] by simp
  qed
  then show ?thesis by (simp add: writes_only_disc [OF rt(1)])
qed

end
