(* ===== verification/Hooked_Transfers.thy ===== *)
theory Hooked_Transfers
  imports Hook_Setup Program Pull_Safety
begin

text \<open>
  The two programs together. Token-2022 runs the hook inside every transfer of the wrapped token; here the
  hook is put into the calls the main program makes, with the accounts it reads from the list stored
  for the mint, and the main program is run on top of it: the hook refuses no payment that has passed the main program's
  own checks, except those of a mandate that is stored in the legacy layout.
\<close>

section \<open>The main program with the hook in its transfers\<close>

text \<open>The accounts of the check, in the order of its struct; the last three are placeholders.\<close>

fun hook_accounts_from :: "pubkey \<Rightarrow> pubkey \<Rightarrow> pubkey \<Rightarrow> pubkey \<Rightarrow> pubkey \<Rightarrow> pubkey list \<Rightarrow> hook_accounts option" where
  "hook_accounts_from src mint dst auth meta_list (program # vault # config # approval # token # r6 # r7 # r8 # ks) =
     Some \<lparr>th_source_token = src, th_mint = mint, th_destination_token = dst, th_owner = auth,
       th_extra_account_meta_list = meta_list, th_protocol_program = program, th_wrapping_vault = vault,
       th_protocol_config = config, th_pull_approval = approval, th_token_config = token\<rparr>"
| "hook_accounts_from src mint dst auth meta_list ks = None"

text \<open>
  What the token program does after it has moved the balances: it reads the mint's list, resolves it and calls the
  hook with the amount.
\<close>

definition run_hook ::
  "meta_list_format \<Rightarrow> env \<Rightarrow> pubkey \<Rightarrow> pubkey \<Rightarrow> pubkey \<Rightarrow> pubkey \<Rightarrow> u64 \<Rightarrow> store \<Rightarrow> verror + unit" where
  "run_hook F E src mint dst auth amount s =
     (let l = meta_list_address E mint in
      case list_metas F (acc_data (s l)) of
        None \<Rightarrow> Inl (Program InvalidAccountData)
      | Some metas \<Rightarrow>
         (case hook_accounts_from src mint dst auth l (map fst (resolve_metas E [src, mint, dst, auth, l] metas)) of
            None \<Rightarrow> Inl (Anchor AccountNotEnoughKeys)
          | Some c \<Rightarrow> transfer_hook E c amount s))"

fun hook_into ::
  "meta_list_format \<Rightarrow> pubkey \<Rightarrow> env \<Rightarrow> cpi \<Rightarrow> store \<Rightarrow> verror + store" where
  "hook_into F mint E (TransferChecked p src m dst auth amount decimals extra) s =
     (if m = mint then map_sum id (\<lambda>_. s) (run_hook F E src m dst auth amount s) else Inr s)"
| "hook_into F mint E _ s = Inr s"

definition with_hook :: "meta_list_format \<Rightarrow> pubkey \<Rightarrow> env \<Rightarrow> env" where
  "with_hook F mint E =
     E\<lparr>invoke := \<lambda>call seeds s. case invoke E call seeds s of Inl e \<Rightarrow> Inl e | Inr s1 \<Rightarrow> hook_into F mint E call s1\<rparr>"

lemma with_hook_fields [simp]:
  "find_pda (with_hook F mint E) = find_pda E" "create_address (with_hook F mint E) = create_address E"
  "disc (with_hook F mint E) = disc E" "unix_timestamp (with_hook F mint E) = unix_timestamp E"
  "slot (with_hook F mint E) = slot E" "signers (with_hook F mint E) = signers E"
  "minimum_balance (with_hook F mint E) = minimum_balance E" "token_id (with_hook F mint E) = token_id E"
  "token_2022_id (with_hook F mint E) = token_2022_id E"
  "associated_token_id (with_hook F mint E) = associated_token_id E"
  "unpack_token (with_hook F mint E) = unpack_token E" "unpack_mint (with_hook F mint E) = unpack_mint E"
  "keccak (with_hook F mint E) = keccak E"
  by (simp_all add: with_hook_def)

lemma invoke_with_hook:
  "invoke (with_hook F mint E) call seeds s = Inr s' \<longleftrightarrow>
     (\<exists>s1. invoke E call seeds s = Inr s1 \<and> hook_into F mint E call s1 = Inr s')"
  by (auto simp: with_hook_def case_sum_Inr)

lemma hook_into_same: "hook_into F mint E call s = Inr s' \<Longrightarrow> s' = s"
  by (cases call) (auto simp: map_sum_Inr split: if_splits)

text \<open>A call that returns under the hook returns the same without it.\<close>

lemma with_hook_invokes: "invoke (with_hook F mint E) call seeds s = Inr s' \<Longrightarrow> invoke E call seeds s = Inr s'"
  using hook_into_same by (fastforce simp: invoke_with_hook)

lemma with_hook_kept: "keeps_program_accounts E \<Longrightarrow> keeps_program_accounts (with_hook F mint E)"
  using with_hook_invokes unfolding keeps_program_accounts_def by meson

lemma with_hook_creates: "creates_fresh E \<Longrightarrow> creates_fresh (with_hook F mint E)"
  using with_hook_invokes unfolding creates_fresh_def by meson

lemma with_hook_discriminators [simp]: "distinct_discriminators (with_hook F mint E) = distinct_discriminators E"
  by (simp add: distinct_discriminators_def)

section \<open>What the hook accepts\<close>

text \<open>What the hook asks of the configuration, the token and the mint, whoever pays whom.\<close>

definition hook_ready :: "env \<Rightarrow> store \<Rightarrow> pubkey \<Rightarrow> pubkey \<Rightarrow> bool" where
  "hook_ready E s mint vault \<longleftrightarrow>
     (\<exists>pc. hook_load_protocol_config E s (pda E [protocol_config_seed]) = Inr pc \<and>
        pc_transfer_hook_program_id pc = transfer_hook_program_id \<and>
        (mint = pc_wrapped_usdc_mint pc \<longrightarrow> vault = pc_wrapping_vault pc)) \<and>
     (\<exists>tc. hook_load_token_config E s (pda E [token_config_seed, key_bytes mint]) mint = Inr tc \<and>
        tk_mint tc = mint \<and> tk_enabled tc \<and> tk_billing_rail tc = TransferHook) \<and>
     (\<exists>m. interface_mint E s mint = Inr m)"

text \<open>A token account of a mint and its owner.\<close>

definition holds_for :: "env \<Rightarrow> store \<Rightarrow> pubkey \<Rightarrow> pubkey \<Rightarrow> pubkey \<Rightarrow> bool" where
  "holds_for E s k mint owner \<longleftrightarrow> (\<exists>t. interface_token E s k = Inr t \<and> ta_mint t = mint \<and> ta_owner t = owner)"

text \<open>What the hook asks of the account in whose name the tokens move: a stream has accrued the amount, a mandate or
  another account of the program has an approval of it.\<close>

definition covered :: "env \<Rightarrow> store \<Rightarrow> pubkey \<Rightarrow> u64 \<Rightarrow> bool" where
  "covered E s auth amount \<longleftrightarrow>
     acc_owner (s auth) = program_id \<and>
     ((\<exists>m. try_deserialize E KStreamMandate dec_stream_mandate (acc_data (s auth)) = Some m \<and>
         hook_stream_check m (unix_timestamp E) amount = Inr ()) \<or>
      (\<exists>period a. pa_mandate a = auth \<and> pa_approved a \<and> unix_timestamp E \<le> pa_valid_until a \<and>
         amount \<le> pa_approved_amount a \<and>
         acc_owner (s (pda E [pull_approval_seed, key_bytes auth])) = program_id \<and>
         try_deserialize E KPullApproval dec_pull_approval (acc_data (s (pda E [pull_approval_seed, key_bytes auth]))) =
           Some a \<and>
         (case period of
            None \<Rightarrow> starts_with (acc_data (s auth)) (disc E KAgentMandate)
          | Some p \<Rightarrow> p = (pa_period_start a, pa_period_end a) \<and>
             (\<exists>m. try_deserialize E KVelaMandate dec_vela_mandate (acc_data (s auth)) = Some m \<and>
                mandate_billing_period m = Inr p))))"

lemma data_of_kind:
  assumes "distinct_discriminators E" "starts_with bs (disc E k)"
  shows "8 \<le> length bs" "bs \<noteq> []" "take 8 bs = disc E k"
  using assms starts_with_length [OF assms(2)] distinct_discriminatorsD(1) [OF assms(1), of k]
  by (auto simp: starts_with_def)

lemma hook_approval_accepts:
  assumes "distinct_discriminators E" "th_pull_approval c = pda E [pull_approval_seed, key_bytes (th_owner c)]"
    "acc_owner (s (th_pull_approval c)) = program_id"
    "try_deserialize E KPullApproval dec_pull_approval (acc_data (s (th_pull_approval c))) = Some a"
    "pa_mandate a = th_owner c" "pa_approved a" "unix_timestamp E \<le> pa_valid_until a" "amount \<le> pa_approved_amount a"
    "case period of None \<Rightarrow> True | Some p \<Rightarrow> p = (pa_period_start a, pa_period_end a)"
  shows "hook_approval_check E s c period amount = Inr ()"
  using assms data_of_kind [OF assms(1) try_deserialize_starts [OF assms(4)]]
  by (auto simp: hook_approval_check_def Let_def data_is_empty_def not_less split: option.splits)

lemma hook_accepts_covered:
  assumes "hook_ready E s mint vault" "holds_for E s src mint auth" "holds_for E s dst mint owner" "covered E s auth amount"
    "distinct_discriminators E"
  shows "transfer_hook E \<lparr>th_source_token = src, th_mint = mint, th_destination_token = dst, th_owner = auth,
       th_extra_account_meta_list = meta_list_address E mint, th_protocol_program = program_id,
       th_wrapping_vault = vault, th_protocol_config = pda E [protocol_config_seed],
       th_pull_approval = pda E [pull_approval_seed, key_bytes auth],
       th_token_config = pda E [token_config_seed, key_bytes mint]\<rparr> amount s = Inr ()"
    (is "transfer_hook E ?c amount s = Inr ()")
proof -
  obtain pc tc where checks: "hook_token_checks E s ?c = Inr (pc, tc)"
    and vault: "mint = pc_wrapped_usdc_mint pc \<longrightarrow> vault = pc_wrapping_vault pc"
    using assms(1-3) by (auto simp: hook_ready_def holds_for_def hook_token_checks_def meta_list_address_def)
  let ?data = "acc_data (s auth)"
  have "(if data_is_empty (s auth) then hook_approval_check E s ?c None amount else
      if length ?data < 8 then Inl (Program InvalidAccountData) else
      if take 8 ?data = disc E KStreamMandate then
       (case ok_or (try_deserialize E KStreamMandate dec_stream_mandate ?data) (Vela WrongAccountType) of
          Inl e \<Rightarrow> Inl e | Inr stream \<Rightarrow> hook_stream_check stream (unix_timestamp E) amount) else
      if take 8 ?data = disc E KVelaMandate then
       (case ok_or (try_deserialize E KVelaMandate dec_vela_mandate ?data) (Vela WrongAccountType) of
          Inl e \<Rightarrow> Inl e | Inr mandate \<Rightarrow>
       (case mandate_billing_period mandate of Inl e \<Rightarrow> Inl e | Inr period \<Rightarrow>
          hook_approval_check E s ?c (Some period) amount))
      else hook_approval_check E s ?c None amount) = Inr ()"
  proof (cases "\<exists>m. try_deserialize E KStreamMandate dec_stream_mandate ?data = Some m \<and>
      hook_stream_check m (unix_timestamp E) amount = Inr ()")
    case True
    then obtain m where m: "try_deserialize E KStreamMandate dec_stream_mandate ?data = Some m"
      "hook_stream_check m (unix_timestamp E) amount = Inr ()" by blast
    note d = data_of_kind [OF assms(5) try_deserialize_starts [OF m(1)]]
    show ?thesis using m d by (simp add: data_is_empty_def)
  next
    case False
    with assms(4) obtain period a where a: "pa_mandate a = auth" "pa_approved a" "unix_timestamp E \<le> pa_valid_until a"
      "amount \<le> pa_approved_amount a" "acc_owner (s (pda E [pull_approval_seed, key_bytes auth])) = program_id"
      "try_deserialize E KPullApproval dec_pull_approval (acc_data (s (pda E [pull_approval_seed, key_bytes auth]))) = Some a"
      "case period of None \<Rightarrow> starts_with ?data (disc E KAgentMandate)
        | Some p \<Rightarrow> p = (pa_period_start a, pa_period_end a) \<and>
           (\<exists>m. try_deserialize E KVelaMandate dec_vela_mandate ?data = Some m \<and> mandate_billing_period m = Inr p)"
      by (auto simp: covered_def)
    have ok: "hook_approval_check E s ?c q amount = Inr ()"
      if "case q of None \<Rightarrow> True | Some p \<Rightarrow> p = (pa_period_start a, pa_period_end a)" for q
      by (rule hook_approval_accepts [OF assms(5)]) (use a that in simp_all)
    have inj: "disc E k = disc E k' \<longleftrightarrow> k = k'" for k k'
      using assms(5) by (auto simp: distinct_discriminators_def dest: injD)
    show ?thesis
    proof (cases period)
      case None
      then have "starts_with ?data (disc E KAgentMandate)" using a(7) by simp
      from data_of_kind [OF assms(5) this] show ?thesis by (simp add: data_is_empty_def inj ok)
    next
      case (Some p)
      then obtain m where m: "try_deserialize E KVelaMandate dec_vela_mandate ?data = Some m"
        "mandate_billing_period m = Inr p" "p = (pa_period_start a, pa_period_end a)" using a(7) by auto
      from data_of_kind [OF assms(5) try_deserialize_starts [OF m(1)]] m show ?thesis
        by (simp add: data_is_empty_def inj ok)
    qed
  qed
  then show ?thesis
    using checks vault assms(4) by (auto simp: transfer_hook_def Let_def covered_def)
qed

section \<open>A covered transfer passes\<close>

text \<open>
  What the token program and the system program document: a transfer changes balances only, and a creation touches no
  token account and no mint.
\<close>

definition tokens_kept :: "env \<Rightarrow> store \<Rightarrow> store \<Rightarrow> bool" where
  "tokens_kept E s s' \<longleftrightarrow>
     (\<forall>k. is_token_program E (acc_owner (s k)) \<longrightarrow>
        acc_owner (s' k) = acc_owner (s k) \<and>
        (\<forall>t. unpack_token E (acc_data (s k)) = Some t \<longrightarrow>
           (\<exists>n. unpack_token E (acc_data (s' k)) = Some (t\<lparr>ta_amount := n\<rparr>))) \<and>
        (\<forall>m. unpack_mint E (acc_data (s k)) = Some m \<longrightarrow> unpack_mint E (acc_data (s' k)) = Some m))"

definition tokens_persist :: "env \<Rightarrow> bool" where
  "tokens_persist E \<longleftrightarrow>
     (\<forall>seeds s s'.
        (\<forall>p src mint dst auth n d extra.
           invoke E (TransferChecked p src mint dst auth n d extra) seeds s = Inr s' \<longrightarrow> tokens_kept E s s') \<and>
        (\<forall>payer k l n p. invoke E (InitAccount payer k l n p) seeds s = Inr s' \<longrightarrow> tokens_kept E s s'))"

lemma tokens_persistD:
  assumes "tokens_persist E"
  shows "invoke E (TransferChecked p src mint dst auth n d extra) seeds s = Inr s' \<Longrightarrow> tokens_kept E s s'"
    "invoke E (InitAccount payer k l n' p) seeds s = Inr s' \<Longrightarrow> tokens_kept E s s'"
  using assms unfolding tokens_persist_def by blast+

definition hook_runtime :: "env \<Rightarrow> bool" where
  "hook_runtime E \<longleftrightarrow>
     keeps_program_accounts E \<and> creates_fresh E \<and> distinct_discriminators E \<and> tokens_persist E \<and>
     keeps_accounts_of transfer_hook_program_id E \<and> \<not> is_token_program E program_id"

lemma hook_runtimeD:
  assumes "hook_runtime E"
  shows "keeps_program_accounts E" "creates_fresh E" "distinct_discriminators E" "tokens_persist E"
    "keeps_accounts_of transfer_hook_program_id E" "\<not> is_token_program E program_id"
  using assms by (simp_all add: hook_runtime_def)

lemma holds_for_kept: "holds_for E s k mint owner \<Longrightarrow> tokens_kept E s s' \<Longrightarrow> holds_for E s' k mint owner"
  unfolding holds_for_def interface_token_def tokens_kept_def by (fastforce simp: ok_or_Inr split: if_splits)

lemma hook_ready_kept:
  assumes "hook_ready E s mint vault" "tokens_kept E s s'" "accounts_kept s s'"
  shows "hook_ready E s' mint vault"
proof -
  have pc: "hook_load_protocol_config E s' k = Inr pc" if "hook_load_protocol_config E s k = Inr pc" for k pc
    using that assms(3) by (auto simp: hook_load_protocol_config_Inr accounts_kept_def data_is_empty_def)
  have tc: "hook_load_token_config E s' k mint = Inr tc" if "hook_load_token_config E s k mint = Inr tc" for k tc
    using that assms(3) by (auto simp: hook_load_token_config_def ok_or_Inr accounts_kept_def data_is_empty_def split: if_splits)
  have mi: "interface_mint E s' mint = Inr m" if "interface_mint E s mint = Inr m" for m
    using that assms(2) by (auto simp: interface_mint_def ok_or_Inr tokens_kept_def split: if_splits)
  show ?thesis using assms(1) pc tc mi unfolding hook_ready_def by blast
qed

lemma covered_kept:
  assumes "covered E s auth n" "accounts_kept s s'"
  shows "covered E s' auth n"
proof -
  let ?ap = "pda E [pull_approval_seed, key_bytes auth]"
  have own: "acc_owner (s auth) = program_id" using assms(1) by (simp add: covered_def)
  have ap: "acc_owner (s' ?ap) = program_id \<and> acc_data (s' ?ap) = acc_data (s ?ap)" if "acc_owner (s ?ap) = program_id"
    using that assms(2) by (simp add: accounts_kept_def)
  from assms(2) own have eq: "acc_owner (s' auth) = program_id" "acc_data (s' auth) = acc_data (s auth)"
    by (simp_all add: accounts_kept_def)
  have c: "covered E s' auth n \<longleftrightarrow> covered E s auth n" if "acc_owner (s ?ap) = program_id"
    unfolding covered_def eq own ap [OF that, THEN conjunct1] ap [OF that, THEN conjunct2] that ..
  show ?thesis
  proof (cases "acc_owner (s ?ap) = program_id")
    case True
    then show ?thesis using c assms(1) by simp
  next
    case False
    then show ?thesis using assms(1) unfolding covered_def eq own by simp
  qed
qed

lemma run_hook_covered:
  assumes "wired F E s mint vault" "hook_ready E s mint vault" "holds_for E s src mint auth" "holds_for E s dst mint owner"
    "covered E s auth n" "distinct_discriminators E"
  shows "run_hook F E src mint dst auth n s = Inr ()"
  using hook_accepts_covered [OF assms(2-6)] assms(1)
  by (simp add: run_hook_def wired_def build_8_slot_account_metas_def pda_def Let_def)

lemma covered_call_passes:
  assumes "invoke E (TransferChecked p src mint dst auth n d extra) seeds s = Inr s1" "hook_runtime E"
    "wired F E s mint vault" "hook_ready E s mint vault" "holds_for E s src mint auth" "holds_for E s dst mint owner"
    "covered E s auth n"
  shows "invoke (with_hook F mint E) (TransferChecked p src mint dst auth n d extra) seeds s = Inr s1"
proof -
  note rt = hook_runtimeD [OF assms(2)]
  note kept = accounts_kept_call [OF rt(1) assms(1)] and tok = tokens_persistD(1) [OF rt(4) assms(1)]
  have "run_hook F E src mint dst auth n s1 = Inr ()"
    by (rule run_hook_covered [OF wired_kept [OF assms(3) rt(5) assms(1)] hook_ready_kept [OF assms(4) tok kept]
          holds_for_kept [OF assms(5) tok] holds_for_kept [OF assms(6) tok] covered_kept [OF assms(7) kept] rt(3)])
  then show ?thesis using assms(1) by (simp add: invoke_with_hook)
qed

lemma with_hook_token_program [simp]: "is_token_program (with_hook F mint E) p = is_token_program E p"
  by (simp add: is_token_program_def)

lemma covered_transfer_passes:
  assumes "invoke_transfer_checked_with_hook E a n d seeds s = Inr s1" "hook_runtime E"
    "wired F E s (tr_mint a) vault" "hook_ready E s (tr_mint a) vault"
    "holds_for E s (tr_source a) (tr_mint a) (tr_authority a)" "holds_for E s (tr_destination a) (tr_mint a) owner"
    "covered E s (tr_authority a) n"
  shows "invoke_transfer_checked_with_hook (with_hook F (tr_mint a) E) a n d seeds s = Inr s1"
  using assms(1) covered_call_passes [OF _ assms(2-7)] by (auto simp: invoke_transfer_checked_Inr)

lemma validated_holds:
  assumes "validate_token_2022_transfer_accounts E s src dst mint p auth owner = Inr u" "is_token_program E p"
  shows "holds_for E s src mint auth" "holds_for E s dst mint owner"
  using assms unfolding validate_token_2022_transfer_accounts_def holds_for_def interface_token_def
  by (auto simp: ok_simps split: if_splits option.splits)

lemma with_hook_validate [simp]:
  "validate_token_2022_transfer_accounts (with_hook F mint E) = validate_token_2022_transfer_accounts E"
  by (intro ext) (unfold validate_token_2022_transfer_accounts_def with_hook_fields, rule refl)

lemma with_hook_try [simp]: "try_deserialize (with_hook F mint E) = try_deserialize E"
  by (intro ext) (simp add: try_deserialize_def)

lemma covered_stream_transfer_passes:
  assumes "invoke_stream_transfer E a (tr_authority a) owner n seeds s = Inr s1" "hook_runtime E"
    "wired F E s (tr_mint a) vault" "hook_ready E s (tr_mint a) vault" "covered E s (tr_authority a) n"
  shows "invoke_stream_transfer (with_hook F (tr_mint a) E) a (tr_authority a) owner n seeds s = Inr s1"
proof -
  from assms(1) obtain u tc where
    v: "validate_token_2022_transfer_accounts E s (tr_source a) (tr_destination a) (tr_mint a)
          (tr_token_2022_program a) (tr_authority a) owner = Inr u" and
    tc: "try_deserialize E KTokenConfig dec_token_config (acc_data (s (tr_token_config a))) = Some tc" and
    t: "invoke_transfer_checked_with_hook E a n (tk_decimals tc) seeds s = Inr s1"
    unfolding invoke_stream_transfer_def by (auto simp: case_sum_Inr case_option_Inr)
  have "is_token_program E (tr_token_2022_program a)" using t by (simp add: invoke_transfer_checked_Inr)
  from covered_transfer_passes [OF t assms(2-4) validated_holds [OF v this] assms(5)]
  show ?thesis using v tc by (simp add: invoke_stream_transfer_def)
qed

section \<open>The parts of the handlers that do not depend on the calls\<close>

named_theorems hooked \<open>what the hook does not change\<close>

lemmas hooked_fields [hooked] = with_hook_fields with_hook_token_program with_hook_try with_hook_validate

lemma hooked_runtime [hooked]:
  "pda (with_hook F mint E) = pda E" "is_signer (with_hook F mint E) = is_signer E"
  "anchor_account (with_hook F mint E) kd dec = anchor_account E kd dec"
  "interface_token (with_hook F mint E) = interface_token E" "interface_mint (with_hook F mint E) = interface_mint E"
  "spl_token (with_hook F mint E) = spl_token E"
  by (intro ext; unfold pda_def is_signer_def anchor_account_def interface_token_def interface_mint_def spl_token_def hooked;
      rule refl)+

lemma hooked_configs [hooked]:
  "load_keeper_config (with_hook F mint E) = load_keeper_config E"
  "load_protocol_config (with_hook F mint E) = load_protocol_config E"
  by (intro ext; unfold load_keeper_config_def load_protocol_config_def hooked; rule refl)+

lemma hooked_plan_address [hooked]: "validate_plan_address (with_hook F mint E) = validate_plan_address E"
proof (intro ext)
  fix k l show "validate_plan_address (with_hook F mint E) k l = validate_plan_address E k l"
    by (cases l) (simp_all add: plan_address_def usage_plan_address_def hooked)
qed

lemma hooked_plans [hooked]: "load_plan_account (with_hook F mint E) = load_plan_account E"
  by (intro ext; unfold load_plan_account_def load_usage_plan_inner_def try_current_flat_def try_current_usage_def hooked;
      rule refl)

lemma hooked_mandates [hooked]:
  "validate_loaded_mandate_address (with_hook F mint E) = validate_loaded_mandate_address E"
  "load_mandate_account (with_hook F mint E) = load_mandate_account E" "write_mandate (with_hook F mint E) = write_mandate E"
  "active_current_mandate (with_hook F mint E) = active_current_mandate E"
  by (intro ext; unfold validate_loaded_mandate_address_def derive_legacy_mandate_address_def derive_v2_mandate_address_def
      load_mandate_account_def write_mandate_def active_current_mandate_def hooked; rule refl)+

lemma hooked_pulls [hooked]:
  "pull_constraints (with_hook F mint E) = pull_constraints E" "pull_checks (with_hook F mint E) = pull_checks E"
  "apply_pending_change (with_hook F mint E) = apply_pending_change E"
  "pull_approval_for (with_hook F mint E) = pull_approval_for E"
  "validate_usage_report_for_settlement (with_hook F mint E) = validate_usage_report_for_settlement E"
  by (intro ext; unfold pull_constraints_def pull_checks_def apply_pending_change_def pull_approval_for_def
      validate_usage_report_for_settlement_def usage_report_address_def hooked; rule refl)+

lemma hooked_streams [hooked]:
  "stream_constraints (with_hook F mint E) = stream_constraints E"
  "validate_stream_transfer_accounts (with_hook F mint E) = validate_stream_transfer_accounts E"
  "load_stream_mandate (with_hook F mint E) = load_stream_mandate E"
  "validate_stream_mandate_address (with_hook F mint E) = validate_stream_mandate_address E"
  "write_stream_mandate (with_hook F mint E) = write_stream_mandate E"
  by (intro ext; unfold stream_constraints_def validate_stream_transfer_accounts_def load_stream_mandate_def
      validate_stream_mandate_address_def write_stream_mandate_def hooked; rule refl)+

lemma hooked_agents [hooked]:
  "load_agent_mandate (with_hook F mint E) = load_agent_mandate E" "write_agent_mandate (with_hook F mint E) = write_agent_mandate E"
  by (intro ext; unfold load_agent_mandate_def validate_agent_mandate_address_def read_agent_mandate_def
      write_agent_mandate_def hooked; rule refl)+

lemma hooked_upgrades [hooked]:
  "upgrade_constraints (with_hook F mint E) = upgrade_constraints E" "upgrade_approval (with_hook F mint E) = upgrade_approval E"
  by (intro ext; unfold upgrade_constraints_def upgrade_approval_def hooked; rule refl)+

section \<open>Streams\<close>

lemma settlement_covered:
  assumes "settle_accrued_in_place m now = Inr (n, m')" "0 < n"
  shows "hook_stream_check m now n = Inr ()"
proof -
  have "accruing m" using assms by (cases rule: settle_effect) auto
  then show ?thesis using settlement_accepted(2) assms(1) by blast
qed

text \<open>What a stream's payments need of the hook.\<close>

lemma stream_payment_passes:
  assumes "invoke_stream_transfer E (stream_transfer_accounts c) (sa_mandate c) owner n seeds s = Inr s1"
    "load_stream_mandate E s (sa_mandate c) = Inr m" "settle_accrued_in_place m (unix_timestamp E) = Inr (n, m')" "0 < n"
    "sa_wrapped_usdc_mint c = mint" "hook_runtime E" "wired F E s mint vault" "hook_ready E s mint vault"
  shows "invoke_stream_transfer (with_hook F mint E) (stream_transfer_accounts c) (sa_mandate c) owner n seeds s = Inr s1"
proof -
  have "acc_owner (s (sa_mandate c)) = program_id"
    "try_deserialize E KStreamMandate dec_stream_mandate (acc_data (s (sa_mandate c))) = Some m"
    using assms(2) by (auto simp: load_stream_mandate_def Let_def ok_or_Inr case_sum_Inr split: if_splits)
  then have "covered E s (sa_mandate c) n" using settlement_covered [OF assms(3,4)] by (auto simp: covered_def)
  moreover have "tr_authority (stream_transfer_accounts c) = sa_mandate c" "tr_mint (stream_transfer_accounts c) = mint"
    using assms(5) by (simp_all add: stream_transfer_accounts_def)
  ultimately show ?thesis
    using covered_stream_transfer_passes [of E "stream_transfer_accounts c" owner n seeds s s1 F vault] assms(1,6-8) by simp
qed

lemma optional_stream_payment_passes:
  assumes "(if 0 < fst q then invoke_stream_transfer E (stream_transfer_accounts c) (sa_mandate c) owner (fst q) seeds s
      else Inr s) = Inr s1"
    "load_stream_mandate E s (sa_mandate c) = Inr m"
    "(if b then settle_accrued_in_place m (unix_timestamp E) else Inr (0, m)) = Inr q"
    "sa_wrapped_usdc_mint c = mint" "hook_runtime E" "wired F E s mint vault" "hook_ready E s mint vault"
  shows "(if 0 < fst q then invoke_stream_transfer (with_hook F mint E) (stream_transfer_accounts c) (sa_mandate c) owner (fst q)
      seeds s else Inr s) = Inr s1"
  using assms stream_payment_passes [of E c owner "fst q" seeds s s1 m "snd q" mint F vault]
  by (cases q) (auto split: if_splits)

lemma pause_stream_hooked:
  assumes "pause_stream E c s = Inr r" "sa_wrapped_usdc_mint c = mint" "hook_runtime E" "wired F E s mint vault"
    "hook_ready E s mint vault"
  shows "pause_stream (with_hook F mint E) c s = Inr r"
  using assms(1) unfolding pause_stream_def hooked handler_inversion
  by (elim exE conjE, intro exI conjI) (assumption | rule optional_stream_payment_passes [OF _ _ _ assms(2-5)])+

lemma cancel_stream_hooked:
  assumes "cancel_stream E c s = Inr r" "sa_wrapped_usdc_mint c = mint" "hook_runtime E" "wired F E s mint vault"
    "hook_ready E s mint vault"
  shows "cancel_stream (with_hook F mint E) c s = Inr r"
  using assms(1) unfolding cancel_stream_def hooked handler_inversion
  by (elim exE conjE, intro exI conjI) (assumption | rule optional_stream_payment_passes [OF _ _ _ assms(2-5)])+

lemma update_stream_rate_hooked:
  assumes "update_stream_rate E c rate max_rate s = Inr r" "sa_wrapped_usdc_mint c = mint" "hook_runtime E"
    "wired F E s mint vault" "hook_ready E s mint vault"
  shows "update_stream_rate (with_hook F mint E) c rate max_rate s = Inr r"
  using assms(1) unfolding update_stream_rate_def hooked handler_inversion
  by (elim exE conjE, intro exI conjI)
    (assumption | rule optional_stream_payment_passes [where b = True, unfolded if_True, OF _ _ _ assms(2-5)])+

lemma execute_stream_hooked:
  assumes "execute_stream E c s = Inr r" "sa_wrapped_usdc_mint c = mint" "hook_runtime E"
    "wired F E s mint vault" "hook_ready E s mint vault"
  shows "execute_stream (with_hook F mint E) c s = Inr r"
proof -
  have pay: "(if fst q = 0 then x else
      case invoke_stream_transfer (with_hook F mint E) (stream_transfer_accounts c) (sa_mandate c) owner (fst q) seeds s of
        Inl e \<Rightarrow> Inl e | Inr s1 \<Rightarrow> f s1) = Inr r"
    if "(if fst q = 0 then x else
      case invoke_stream_transfer E (stream_transfer_accounts c) (sa_mandate c) owner (fst q) seeds s of
        Inl e \<Rightarrow> Inl e | Inr s1 \<Rightarrow> f s1) = Inr r" "load_stream_mandate E s (sa_mandate c) = Inr m"
      "settle_accrued_in_place m (unix_timestamp E) = Inr q" for q x owner seeds f m
  proof (cases "fst q = 0")
    case False
    then have pos: "0 < fst q" by (simp add: word_neq_0_conv)
    from that(1) False obtain s1 where s1: "invoke_stream_transfer E (stream_transfer_accounts c) (sa_mandate c) owner
        (fst q) seeds s = Inr s1" "f s1 = Inr r" by (auto simp: case_sum_Inr)
    from stream_payment_passes [OF s1(1) that(2) _ pos assms(2-5), of "snd q"] that(3) s1(2) False show ?thesis by simp
  qed (use that in simp)
  show ?thesis
    using assms(1) unfolding execute_stream_def hooked case_sum_Inr if_Inl_Inr Let_def case_prod_unfold not_not
    by (elim exE conjE, intro exI conjI) (assumption | erule (2) pay)+
qed

section \<open>Pulls, changes of plan and agents\<close>

lemma current_mandate_data:
  "current_mandate E s k = Inr m \<Longrightarrow>
     acc_owner (s k) = program_id \<and> try_deserialize E KVelaMandate dec_vela_mandate (acc_data (s k)) = Some m"
  by (auto simp: current_mandate_Inr load_mandate_account_def Let_def split: if_splits option.splits)

lemma mandate_covered:
  assumes "current_mandate E s k = Inr m" "mandate_billing_period m = Inr (pa_period_start a, pa_period_end a)"
    "ap = pda E [pull_approval_seed, key_bytes k]" "acc_owner (s ap) = program_id"
    "try_deserialize E KPullApproval dec_pull_approval (acc_data (s ap)) = Some a" "pa_approved a" "pa_mandate a = k"
    "unix_timestamp E \<le> pa_valid_until a" "n \<le> pa_approved_amount a"
  shows "covered E s k n"
  unfolding covered_def
  using current_mandate_data [OF assms(1)] assms(2-9)
  by (intro conjI disjI2 exI [of _ "Some (pa_period_start a, pa_period_end a)"] exI [of _ a]) auto

lemma approved_mandate_covered:
  assumes "current_mandate E s k = Inr m" "mandate_billing_period m = Inr p"
    "pull_approval_for E s ap k (fst p) (snd p) = Inr approval" "n \<le> pa_approved_amount approval"
  shows "covered E s k n"
  using assms(2-4) unfolding pull_approval_for_Inr by (intro mandate_covered [OF assms(1)]) auto

lemma billing_transfer_passes:
  assumes "invoke_billing_transfer E c tc n seeds owner s = Inr s1" "pu_wrapped_usdc_mint c = mint" "covered E s (pu_mandate c) n"
    "hook_runtime E" "wired F E s mint vault" "hook_ready E s mint vault"
  shows "invoke_billing_transfer (with_hook F mint E) c tc n seeds owner s = Inr s1"
proof -
  let ?a = "pull_transfer_accounts c"
  have a: "tr_mint ?a = mint" "tr_authority ?a = pu_mandate c" "tr_source ?a = pu_subscriber_wrapped_account c"
    "tr_destination ?a = pu_merchant_wrapped_account c" "tr_token_2022_program ?a = pu_token_2022_program c"
    using assms(2) by (simp_all add: pull_transfer_accounts_def)
  from assms(1) obtain u where
    v: "validate_token_2022_transfer_accounts E s (pu_subscriber_wrapped_account c) (pu_merchant_wrapped_account c)
          (pu_wrapped_usdc_mint c) (pu_token_2022_program c) (pu_mandate c) owner = Inr u" and
    t: "invoke_transfer_checked_with_hook E ?a n (tk_decimals tc) seeds s = Inr s1"
    unfolding invoke_billing_transfer_def by (auto simp: case_sum_Inr)
  have "is_token_program E (pu_token_2022_program c)" using t by (simp add: invoke_transfer_checked_Inr a)
  note h = validated_holds [OF v this, unfolded assms(2)]
  have "invoke_transfer_checked_with_hook (with_hook F (tr_mint ?a) E) ?a n (tk_decimals tc) seeds s = Inr s1"
    by (rule covered_transfer_passes [OF t assms(4)]) (use assms(3,5,6) h in \<open>simp_all add: a\<close>)
  then show ?thesis using v by (simp add: invoke_billing_transfer_def a)
qed

lemma pull_payment_passes:
  assumes "(if 0 < fst (use_credit base m1) then invoke_billing_transfer E c tc (fst (use_credit base m1)) seeds owner s
      else Inr s) = Inr s1"
    "base_charge plan m1 (pa_approved_amount approval) = Inr base"
    "pull_approval_for E s ap (pu_mandate c) (fst p) (snd p) = Inr approval" "mandate_billing_period (lm_into_current l) = Inr p"
    "load_mandate_account E s (pu_mandate c) = Inr l"
    "current_mandate E s (pu_mandate c) = Inr m" "pu_wrapped_usdc_mint c = mint" "hook_runtime E" "wired F E s mint vault"
    "hook_ready E s mint vault"
  shows "(if 0 < fst (use_credit base m1) then invoke_billing_transfer (with_hook F mint E) c tc (fst (use_credit base m1))
      seeds owner s else Inr s) = Inr s1"
proof -
  have "mandate_billing_period m = Inr p" using assms(4,5,6) by (simp add: current_mandate_Inr)
  moreover have "fst (use_credit base m1) \<le> base" by (simp add: word_le_nat_alt use_credit_fst)
  then have "fst (use_credit base m1) \<le> pa_approved_amount approval" 
    using base_charge_bounds [OF assms(2)] order_trans by blast
  ultimately have "covered E s (pu_mandate c) (fst (use_credit base m1))"
    using approved_mandate_covered [OF assms(6) _ assms(3)] by blast
  then show ?thesis using assms(1) billing_transfer_passes [OF _ assms(7) _ assms(8-10)] by (simp split: if_splits)
qed

lemma execute_pull_hooked:
  assumes "execute_pull E c remaining s = Inr r" "current_mandate E s (pu_mandate c) = Inr m" "pu_wrapped_usdc_mint c = mint"
    "hook_runtime E" "wired F E s mint vault" "hook_ready E s mint vault"
  shows "execute_pull (with_hook F mint E) c remaining s = Inr r"
  using assms(1) unfolding execute_pull_def hooked handler_inversion
  by (elim exE conjE, intro exI conjI) (assumption | rule pull_payment_passes [OF _ _ _ _ _ assms(2-6)])+

lemma settle_difference_hooked:
  assumes "settle_difference E c m d s = Inr q" "active_current_mandate E s (ug_mandate c) = Inr m"
    "ug_wrapped_usdc_mint c = mint" "hook_runtime E" "wired F E s mint vault" "hook_ready E s mint vault"
  shows "settle_difference (with_hook F mint E) c m d s = Inr q"
proof -
  have m: "current_mandate E s (ug_mandate c) = Inr m" using assms(2) by (auto simp: active_current_mandate_Inr)
  let ?a = "upgrade_transfer_accounts c"
  have a: "tr_authority ?a = ug_mandate c" "tr_mint ?a = mint" using assms(3) by (simp_all add: upgrade_transfer_accounts_def)
  have pay: "invoke_stream_transfer (with_hook F mint E) ?a (ug_mandate c) owner n seeds s = Inr s1"
    if "invoke_stream_transfer E ?a (ug_mandate c) owner n seeds s = Inr s1" "upgrade_approval E s c m n = Inr u"
    for owner n seeds s1 u
  proof -
    from that(2) obtain approval where "mandate_billing_period m = Inr (pa_period_start approval, pa_period_end approval)"
      "ug_pull_approval c = pda E [pull_approval_seed, key_bytes (ug_mandate c)]"
      "acc_owner (s (ug_pull_approval c)) = program_id"
      "try_deserialize E KPullApproval dec_pull_approval (acc_data (s (ug_pull_approval c))) = Some approval"
      "pa_approved approval" "pa_mandate approval = ug_mandate c" "unix_timestamp E \<le> pa_valid_until approval"
      "n \<le> pa_approved_amount approval"
      unfolding upgrade_approval_def by (auto simp: Let_def ok_simps split: if_splits)
    then have "covered E s (ug_mandate c) n" by (rule mandate_covered [OF m])
    then show ?thesis
      using covered_stream_transfer_passes [of E ?a owner n seeds s s1 F vault] that(1) assms(4-6) by (simp add: a)
  qed
  show ?thesis
  proof (cases "0 < d")
    case True
    then show ?thesis
      using assms(1) pay unfolding settle_difference_def hooked by (auto simp: case_sum_Inr Let_def split: if_splits)
  next
    case False
    then show ?thesis using assms(1) unfolding settle_difference_def by simp
  qed
qed

lemma update_mandate_plan_hooked:
  assumes "update_mandate_plan P E c s = Inr r" "ug_wrapped_usdc_mint c = mint" "hook_runtime E" "wired F E s mint vault"
    "hook_ready E s mint vault"
  shows "update_mandate_plan P (with_hook F mint E) c s = Inr r"
proof -
  have pay: "(if b then x else case el of Inl e \<Rightarrow> Inl e | Inr t \<Rightarrow> (case cp t of Inl e \<Rightarrow> Inl e | Inr d \<Rightarrow>
      if bad d then Inl err else case settle_difference (with_hook F mint E) c m d s of Inl e \<Rightarrow> Inl e | Inr q \<Rightarrow> f d q)) = Inr r"
    if "(if b then x else case el of Inl e \<Rightarrow> Inl e | Inr t \<Rightarrow> (case cp t of Inl e \<Rightarrow> Inl e | Inr d \<Rightarrow>
      if bad d then Inl err else case settle_difference E c m d s of Inl e \<Rightarrow> Inl e | Inr q \<Rightarrow> f d q)) = Inr r"
      "active_current_mandate E s (ug_mandate c) = Inr m" for b x el cp bad err m f
    using that settle_difference_hooked [OF _ that(2) assms(2-5)] by (auto simp: case_sum_Inr split: if_splits)
  show ?thesis
    using assms(1) unfolding update_mandate_plan_def hooked Let_def case_sum_Inr
    by (elim exE conjE, intro exI conjI) (assumption | erule (1) pay)+
qed

text \<open>An agent's pull writes its own approval, which the hook then finds.\<close>

lemma invoke_init_hooked [hooked]: "invoke (with_hook F mint E) (InitAccount payer k l n p) seeds s = invoke E (InitAccount payer k l n p) seeds s"
  by (cases "invoke E (InitAccount payer k l n p) seeds s") (simp_all add: with_hook_def)

lemma agent_context_hooked [hooked]: "agent_pull_context (with_hook F mint E) = agent_pull_context E"
  by (intro ext; unfold agent_pull_context_def hooked; rule refl)

lemma approved_agent_covered:
  assumes "acc_owner (s k) = program_id" "starts_with (acc_data (s k)) (disc E KAgentMandate)"
    "ap = pda E [pull_approval_seed, key_bytes k]" "acc_owner (s ap) = program_id"
    "acc_data (s ap) = disc E KPullApproval @ enc_pull_approval a @ r" "pa_approved a" "pa_mandate a = k"
    "unix_timestamp E \<le> pa_valid_until a" "n \<le> pa_approved_amount a"
  shows "covered E s k n"
proof -
  have "try_deserialize E KPullApproval dec_pull_approval (acc_data (s ap)) = Some a"
    unfolding assms(5) by (rule pull_approval_codec.try_deserialize_enc) (simp add: valid_pull_approval_def)
  then show ?thesis
    unfolding covered_def using assms(1-4,6-9)
    by (intro conjI disjI2 exI [of _ None] exI [of _ a]) auto
qed

lemma agent_payment_passes:
  assumes "invoke_transfer_checked_with_hook E (agent_transfer_accounts c) amount d seeds s1 = Inr s2"
    "anchor_exit (ap_pull_approval c) (disc E KPullApproval @ enc_pull_approval
        \<lparr>pa_mandate = aa_agent_mandate c, pa_period_start = p1, pa_period_end = p2, pa_valid_until = v, pa_approved = True,
         pa_approved_amount = amount, pa_created_at = now, pa_bump = b\<rparr>) (snd (snd (snd (snd x)))) = Inr s1"
    "ok_or (i64_checked_add (unix_timestamp E) (i64_of AGENT_PULL_APPROVAL_TTL_SECONDS)) (Vela Overflow) = Inr v"
    "load_agent_mandate E (snd (snd (snd (snd x)))) (aa_agent_mandate c) (aa_authority c) (aa_agent c) = Inr l"
    "agent_pull_context E c s = Inr x" "ap_wrapped_usdc_mint c = mint" "hook_runtime E" "wired F E s mint vault"
    "hook_ready E s mint vault"
  shows "invoke_transfer_checked_with_hook (with_hook F mint E) (agent_transfer_accounts c) amount d seeds s1 = Inr s2"
proof -
  let ?a = "agent_transfer_accounts c" and ?ap = "ap_pull_approval c" and ?k = "aa_agent_mandate c"
  obtain w sv pc bump s0 where x: "x = (w, sv, pc, bump, s0)" by (cases x)
  note rt = hook_runtimeD [OF assms(7)]
  from agent_pull_context_Inr [OF assms(5) [unfolded x]] obtain seeds0 where
    ctx: "?ap = pda E [pull_approval_seed, key_bytes ?k]" "interface_token E s (ap_service_wrapped_account c) = Inr sv"
      "interface_token E s (ap_mandate_wrapped_account c) = Inr w" "ta_mint sv = mint" "ta_owner w = ?k" "ta_mint w = mint" and
    init: "invoke E (InitAccount (ap_payer c) ?ap (minimum_balance E pull_approval_size) pull_approval_size program_id)
      seeds0 s = Inr s0"
    unfolding agent_approval_seeds_def assms(6) by blast
  note fresh = creates_freshD(1) [OF rt(2) init, unfolded created_fresh_def]
  note kept = accounts_kept_call [OF rt(1) init] and tok = tokens_persistD(2) [OF rt(4) init]
  let ?approval = "\<lparr>pa_mandate = ?k, pa_period_start = p1, pa_period_end = p2, pa_valid_until = v, pa_approved = True,
      pa_approved_amount = amount, pa_created_at = now, pa_bump = b\<rparr>"
  obtain r where s1: "s1 = set_data s0 ?ap (disc E KPullApproval @ enc_pull_approval ?approval @ r)"
    using assms(2) by (auto simp: x anchor_exit_Inr)
  have kept1: "accounts_kept s s1"
    by (rule accounts_kept_foreign [OF kept, of ?ap]) (use fresh in \<open>simp_all add: s1\<close>)
  have tok1: "tokens_kept E s s1"
    using tok fresh rt(6) unfolding tokens_kept_def s1 by (metis set_data_other)
  have "wired F E s0 mint vault" by (rule wired_kept [OF assms(8) rt(5) init])
  then have wired: "wired F E s1 mint vault"
    using fresh by (auto simp: wired_def s1 set_data_def)
  have "read_agent_mandate E s0 ?k = Inr l" using assms(4) unfolding x by (auto simp: load_agent_mandate_Inr)
  then have ag: "acc_owner (s0 ?k) = program_id" "starts_with (acc_data (s0 ?k)) (disc E KAgentMandate)"
    by (auto simp: read_agent_mandate_def Let_def split: if_splits)
  moreover have "?k \<noteq> ?ap" using ag fresh zero_data_starts [OF rt(3)] by metis
  moreover have "unix_timestamp E \<le> v"
    using assms(3) by (simp add: ok_or_Inr arith_simps less_eq_i64_def in_i64_def AGENT_PULL_APPROVAL_TTL_SECONDS_def)
  ultimately have cov: "covered E s1 ?k amount"
    using fresh ag by (intro approved_agent_covered [where ap = ?ap and a = ?approval and r = r]) (simp_all add: s1 ctx(1))
  have a: "tr_mint ?a = mint" "tr_authority ?a = ?k" "tr_source ?a = ap_mandate_wrapped_account c"
    "tr_destination ?a = ap_service_wrapped_account c" using assms(6) by (simp_all add: agent_transfer_accounts_def)
  have "holds_for E s (ap_mandate_wrapped_account c) mint ?k" "holds_for E s (ap_service_wrapped_account c) mint (ta_owner sv)"
    using ctx by (simp_all add: holds_for_def)
  then show ?thesis
    using covered_transfer_passes [OF assms(1,7), of F vault "ta_owner sv"] wired cov
      hook_ready_kept [OF assms(9) tok1 kept1] holds_for_kept [OF _ tok1] by (simp add: a)
qed

lemma agent_pull_hooked:
  assumes "agent_pull E c amount s = Inr r" "ap_wrapped_usdc_mint c = mint" "hook_runtime E" "wired F E s mint vault"
    "hook_ready E s mint vault"
  shows "agent_pull (with_hook F mint E) c amount s = Inr r"
  using assms(1) unfolding agent_pull_def hooked handler_inversion
  by (elim exE conjE, intro exI conjI) (assumption | rule agent_payment_passes [OF _ _ _ _ _ assms(2-5)])+

end
