(* ===== verification/Program_Guarantees.thy ===== *)
theory Program_Guarantees
  imports Program
begin

text \<open>
  What holds over every sequence of instructions of the whole program, whichever parts they belong to:
  the guarantees of the parts carry over, because an instruction of another part does not write the
  accounts they are about.
\<close>

section \<open>From a part to the program\<close>

text \<open>
  A machine that contains another: each of its steps leaves what is seen of the state alone or is a step
  of the smaller machine in good standing.
\<close>

locale containing = simulation step inv cstep good view
  for step :: "'op \<Rightarrow> 's \<Rightarrow> 'e + 's" and inv :: "'s \<Rightarrow> bool" and cstep :: "'cop \<Rightarrow> 'c \<Rightarrow> 'f + 'c"
    and good :: "'cop \<Rightarrow> bool" and view :: "'c \<Rightarrow> 's option" +
  fixes pstep :: "'pop \<Rightarrow> 'c \<Rightarrow> 'f + 'c" and pgood :: "'pop \<Rightarrow> bool"
  assumes part_or_foreign: "pgood x \<Longrightarrow> pstep x c = Inr c' \<Longrightarrow> view c = Some s \<Longrightarrow>
    view c' = Some s \<or> (\<exists>y. good y \<and> cstep y c = Inr c')"

sublocale containing \<subseteq> whole: simulation step inv pstep pgood view
proof unfold_locales
  show "view c' = Some s \<or> (\<exists>y s'. step y s = Inr s' \<and> view c' = Some s')"
    if "pgood x" "pstep x c = Inr c'" "view c = Some s" for x c c' s
    using part_or_foreign [OF that] simulates [OF _ _ that(3)] by blast
qed

text \<open>Storage whose accounts are of one kind: an instruction that does not write the kind keeps what is loaded.\<close>

locale kind_of_account = stored_account load put storable
  for load :: "env \<Rightarrow> store \<Rightarrow> pubkey \<Rightarrow> verror + 'a" and put :: "env \<Rightarrow> pubkey \<Rightarrow> 'a \<Rightarrow> store \<Rightarrow> verror + store"
    and storable :: "'a \<Rightarrow> bool" +
  fixes kind :: account_kind
  assumes load_kind: "load E s k = Inr x \<Longrightarrow> starts_with (acc_data (s k)) (disc E kind)"
begin

lemma load_foreign:
  assumes "writes_only E K s s'" "kind \<notin> K" "load E s k = Inr x"
  shows "load E s' k = Inr x"
proof -
  have "acc_owner (s' k) = program_id \<and> acc_data (s' k) = acc_data (s k)"
    using assms(1,2) load_kind [OF assms(3)] load_owner [OF assms(3)] by (simp add: writes_only_def)
  then show ?thesis using load_local [of s' k s E] load_owner [OF assms(3)] assms(3) by simp
qed

lemma view_foreign:
  "writes_only E K s s' \<Longrightarrow> kind \<notin> K \<Longrightarrow> stored_view load E k s = Some x \<Longrightarrow> stored_view load E k s' = Some x"
  using load_foreign by (simp add: stored_view_Some)

end

lemma program_runtime_parts:
  assumes "program_runtime W E (E', ix)"
  shows "same_program E (E', c)" "agent_runtime E (E', c)" "plan_runtime E (E', c)" "config_runtime E (E', cc)"
    "computation_runtime E (arcium.truncate (network W)) (E', call)"
proof -
  note rt = program_runtimeD [OF assms]
  have "distinct_discriminators E" using rt(1,5) by (simp add: distinct_discriminators_def)
  with rt show "same_program E (E', c)" "agent_runtime E (E', c)" "plan_runtime E (E', c)" "config_runtime E (E', cc)"
    "computation_runtime E (arcium.truncate (network W)) (E', call)"
    by (simp_all add: same_program_def agent_runtime_def plan_runtime_def config_runtime_def computation_runtime_def)
qed

section \<open>Streams, agents and plans\<close>

interpretation stream_accounts: kind_of_account load_stream_mandate write_stream_mandate
  "\<lambda>m. valid_stream_mandate m \<and> st_version m = CURRENT_ACCOUNT_VERSION" KStreamMandate
  by unfold_locales (auto simp: load_stream_mandate_def Let_def split: if_splits)

interpretation agent_accounts: kind_of_account current_agent "\<lambda>E k m s. write_agent_mandate E k m False s"
  "\<lambda>m. valid_agent_mandate m \<and> ag_version m = CURRENT_ACCOUNT_VERSION" KAgentMandate
  by unfold_locales (auto simp: current_agent_Inr read_agent_mandate_def Let_def split: if_splits)

interpretation flat_accounts: kind_of_account flat_plan_at write_plan storable_plan KVelaPlan
  by unfold_locales (rule flat_plan_starts)

interpretation mandate_accounts: kind_of_account current_mandate write_current_mandate storable_current KVelaMandate
  by unfold_locales (rule mandate_starts)

lemma other_parts_kinds [simp]:
  "KStreamMandate \<notin> mandate_call_kinds c" "KStreamMandate \<notin> computation_call_kinds d"
  "KAgentMandate \<notin> mandate_call_kinds c" "KAgentMandate \<notin> computation_call_kinds d"
  "KVelaPlan \<notin> mandate_call_kinds c" "KVelaPlan \<notin> computation_call_kinds d"
  "KProtocolConfig \<notin> mandate_call_kinds c" "KProtocolConfig \<notin> computation_call_kinds d"
  "KArciumRequestState \<notin> mandate_call_kinds c" "KBillingEvent \<notin> mandate_call_kinds c"
  by (cases c; simp; fail | cases d; simp; fail)+

interpretation stream_program: containing stream_next stream_inv do_stream_call "same_program E"
  "stored_view load_stream_mandate E k" "process_instruction W" "program_runtime W E" for E k W
proof unfold_locales
  fix x s s' m
  assume good: "program_runtime W E x" and step: "process_instruction W x s = Inr s'"
    and view: "stored_view load_stream_mandate E k s = Some m"
  obtain E' ix where x: "x = (E', ix)" by (cases x)
  note foreign = stream_accounts.view_foreign [OF instruction_writes [OF step [unfolded x] good [unfolded x]] _ view]
  show "stored_view load_stream_mandate E k s' = Some m \<or> (\<exists>y. same_program E y \<and> do_stream_call y s = Inr s')"
  proof (cases ix)
    case (StreamInstruction c)
    then have "same_program E (E', c) \<and> do_stream_call (E', c) s = Inr s'"
      using step program_runtime_parts(1) [OF good [unfolded x]] by (simp add: x)
    then show ?thesis by blast
  qed (use foreign in simp_all)
qed

interpretation agent_program: containing agent_step agent_inv do_agent_call "agent_runtime E"
  "stored_view current_agent E k" "process_instruction W" "program_runtime W E" for E k W
proof unfold_locales
  fix x s s' m
  assume good: "program_runtime W E x" and step: "process_instruction W x s = Inr s'"
    and view: "stored_view current_agent E k s = Some m"
  obtain E' ix where x: "x = (E', ix)" by (cases x)
  note foreign = agent_accounts.view_foreign [OF instruction_writes [OF step [unfolded x] good [unfolded x]] _ view]
  show "stored_view current_agent E k s' = Some m \<or> (\<exists>y. agent_runtime E y \<and> do_agent_call y s = Inr s')"
  proof (cases ix)
    case (AgentInstruction c)
    then have "agent_runtime E (E', c) \<and> do_agent_call (E', c) s = Inr s'"
      using step program_runtime_parts(2) [OF good [unfolded x]] by (simp add: x)
    then show ?thesis by blast
  qed (use foreign in simp_all)
qed

lemma flat_view_foreign:
  assumes "writes_only E K s s'" "KVelaPlan \<notin> K" "flat_plan_view E k s = Some p"
  shows "flat_plan_view E k s' = Some p"
  using assms(3) flat_accounts.load_foreign [OF assms(1,2), of k p] by (auto simp: flat_plan_view_Some load_plan_flat)

interpretation plan_program: containing flat_step flat_terms_ok do_plan_call "plan_runtime E" "flat_plan_view E k"
  "process_instruction W" "program_runtime W E" for E k W
proof unfold_locales
  fix x s s' p
  assume good: "program_runtime W E x" and step: "process_instruction W x s = Inr s'"
    and view: "flat_plan_view E k s = Some p"
  obtain E' ix where x: "x = (E', ix)" by (cases x)
  note foreign = flat_view_foreign [OF instruction_writes [OF step [unfolded x] good [unfolded x]] _ view]
  show "flat_plan_view E k s' = Some p \<or> (\<exists>y. plan_runtime E y \<and> do_plan_call y s = Inr s')"
  proof (cases ix)
    case (PlanInstruction c)
    then have "plan_runtime E (E', c) \<and> do_plan_call (E', c) s = Inr s'"
      using step program_runtime_parts(3) [OF good [unfolded x]] by (simp add: x)
    then show ?thesis by blast
  qed (use foreign in simp_all)
qed

section \<open>Mandates\<close>

text \<open>
  How a mandate moves under the whole program: its parties, number, bump and dates of start and expiry stay, its
  pulls and its due date only go forward, and once it is not active any more only the books of the
  confidential computations change.
\<close>

definition onward :: "vela_mandate \<Rightarrow> vela_mandate \<Rightarrow> bool" where
  "onward m m' \<longleftrightarrow>
     md_subscriber m' = md_subscriber m \<and> md_merchant m' = md_merchant m \<and>
     md_mandate_index m' = md_mandate_index m \<and> md_bump m' = md_bump m \<and>
     md_start_date m' = md_start_date m \<and> md_expiry m' = md_expiry m \<and>
     md_pulls_executed m \<le> md_pulls_executed m' \<and> md_next_payment_due m \<le> md_next_payment_due m' \<and>
     (md_status m \<noteq> MandateActive \<longrightarrow> bookkeeping m m')"

lemma bookkeeping_onward: "bookkeeping m m' \<Longrightarrow> onward m m'"
  unfolding onward_def by (intro conjI impI) (auto simp: bookkeeping_def)

lemma onward_refl [simp]: "onward m m"
  by (rule bookkeeping_onward) simp

lemma bookkeeping_status: "bookkeeping m m' \<Longrightarrow> md_status m' = md_status m"
  by (auto simp: bookkeeping_def)

lemma onward_trans: "onward m m1 \<Longrightarrow> onward m1 m2 \<Longrightarrow> onward m m2"
  using bookkeeping_trans [of m m1 m2] bookkeeping_status [of m m1] unfolding onward_def by auto

lemma mandate_step_onward:
  assumes "mandate_step x m = Inr m'"
  shows "onward m m'"
proof (cases x)
  case (StepPull now ch base)
  note p = pull_step_Inr [OF assms [unfolded StepPull]]
  let ?m1 = "snd (use_credit base (changed_plan ch m))"
  have m1: "md_subscriber ?m1 = md_subscriber m" "md_merchant ?m1 = md_merchant m"
    "md_mandate_index ?m1 = md_mandate_index m" "md_bump ?m1 = md_bump m" "md_start_date ?m1 = md_start_date m"
    "md_expiry ?m1 = md_expiry m" "md_pulls_executed ?m1 = md_pulls_executed m"
    "md_next_payment_due ?m1 = md_next_payment_due m"
    by (simp_all add: use_credit_snd)
  note c = count_pull_Inr [OF p(2)]
  obtain a b d e g where m': "m' = ?m1\<lparr>md_pulls_executed := a, md_next_payment_due := b,
      md_last_pull_at := d, md_last_billing_recorded_pull := e, md_status := g\<rparr>"
    using c(7) by blast
  have "md_pulls_executed m \<le> md_pulls_executed m'" using c(1) m1(7) by (simp add: word_le_nat_alt)
  moreover have "md_next_payment_due m \<le> md_next_payment_due m'" using c(2) m1(8) by (simp add: less_eq_i64_def)
  moreover have "md_status m = MandateActive" using p(1) by (simp add: pull_step_checks_def)
  ultimately show ?thesis unfolding onward_def using m1(1-6) by (simp add: m')
qed (use assms in \<open>auto simp: onward_def ok_simps case_sum_Inr schedule_pending_def clear_pending_def split: if_splits\<close>)

fun closes_mandate :: "pubkey \<Rightarrow> 'o instruction \<Rightarrow> bool" where
  "closes_mandate k (MandateInstruction (CallCloseMandate c)) = (ma_mandate c = k)"
| "closes_mandate k _ = False"

lemma instruction_moves_mandate:
  assumes "process_instruction W (E', ix) s = Inr s'" "program_runtime W E (E', ix)" "\<not> closes_mandate k ix"
    "current_mandate E s k = Inr m"
  shows "\<exists>m'. current_mandate E s' k = Inr m' \<and> onward m m'"
proof -
  note rt = program_runtimeD [OF assms(2)] and parts = program_runtime_parts [OF assms(2)]
  have load: "current_mandate E' t j = current_mandate E t j" for t j by (rule current_store.load_disc [OF rt(1)])
  note foreign = mandate_accounts.load_foreign [OF instruction_writes [OF assms(1,2)] _ assms(4)]
  have other: ?thesis if "KVelaMandate \<notin> instruction_kinds ix" using foreign [OF that] onward_refl by blast
  show ?thesis
  proof (cases ix)
    case (MandateInstruction c)
    have "mandate_runtime E k (E', c)"
      using parts(1) rt assms(3) by (cases c) (auto simp: mandate_runtime_def MandateInstruction)
    from mandate_sim.simulates [OF this, of s s' m] assms(1,4) show ?thesis
      using mandate_step_onward onward_refl by (auto simp: stored_view_Some MandateInstruction)
  next
    case (UpdateMandatePlan c)
    then obtain ev where h: "update_mandate_plan (numbers W) E' c s = Inr (s', ev)"
      using assms(1) by (auto simp: map_sum_Inr)
    from h rt(3,5) show ?thesis
    proof (cases rule: update_mandate_plan_effect)
      case (Same m1)
      then show ?thesis using assms(4) onward_refl by blast
    next
      case (Changed m1 plan d s1 m2 credit)
      show ?thesis
      proof (cases "ug_mandate c = k")
        case True
        then have "m1 = m" using Changed(1) assms(4) by (simp add: load)
        then have "current_mandate E s' k = Inr (upgraded (ug_new_plan c) plan credit m)" "md_status m = MandateActive"
          using Changed(2,9) True by (simp_all add: load)
        then show ?thesis by (simp add: onward_def upgraded_def)
      next
        case False
        then have "current_mandate E s' k = Inr m" using Changed(10) [of k m] assms(4) by (simp add: load)
        then show ?thesis using onward_refl by blast
      qed
    qed
  next
    case (ComputationInstruction c)
    then have "do_computation_call (arcium.truncate (network W)) (E', c) s = Inr s'" using assms(1) by simp
    from call_books [OF this parts(5)] assms(4) show ?thesis using bookkeeping_onward by (fastforce simp: load)
  qed (use other in simp_all)
qed

interpretation mandate_program: guarded_machine "process_instruction W"
  "\<lambda>x. program_runtime W E x \<and> \<not> closes_mandate k (snd x)"
  "\<lambda>s. \<exists>m'. current_mandate E s k = Inr m' \<and> onward m m'" for W E k m
proof unfold_locales
  fix x s s'
  assume x: "program_runtime W E x \<and> \<not> closes_mandate k (snd x)" "process_instruction W x s = Inr s'"
    and "\<exists>m'. current_mandate E s k = Inr m' \<and> onward m m'"
  then obtain m1 where m1: "current_mandate E s k = Inr m1" "onward m m1" by blast
  obtain E' ix where e: "x = (E', ix)" by (cases x)
  from instruction_moves_mandate [of W E' ix s s' E k m1] x m1 show
    "\<exists>m'. current_mandate E s' k = Inr m' \<and> onward m m'" by (auto simp: e intro: onward_trans)
qed

section \<open>The configuration, and the records of computations\<close>

lemma stored_config_foreign:
  assumes "writes_only E K s s'" "KProtocolConfig \<notin> K" "stored_config E s = Inr l"
  shows "stored_config E s' = Inr l"
proof -
  let ?k = "pda E [protocol_config_seed]"
  have l: "load_protocol_config E s ?k = Inr l" using assms(3) by (simp add: stored_config_def)
  have "starts_with (acc_data (s ?k)) (disc E KProtocolConfig)" "acc_owner (s ?k) = program_id"
    using l unfolding load_protocol_config_def by (auto simp: Let_def split: if_split_asm)
  then have "acc_owner (s' ?k) = acc_owner (s ?k)" "acc_data (s' ?k) = acc_data (s ?k)"
    using assms(1,2) by (simp_all add: writes_only_def)
  from load_protocol_config_local [of s' ?k s E, OF this] l show ?thesis by (simp add: stored_config_def)
qed

lemma instruction_changes_config:
  assumes "process_instruction W (E', ix) s = Inr s'" "program_runtime W E (E', ix)" "stored_config E s = Inr l"
  shows "stored_config E s' = Inr l \<or> (\<exists>c. is_signer E' (lpc_admin l) \<and> config_change E' (upgraded_config l) c \<and>
    stored_config E s' = Inr (CurrentProtocolConfig c))"
proof -
  note foreign = stored_config_foreign [OF instruction_writes [OF assms(1,2)] _ assms(3)]
  show ?thesis
  proof (cases ix)
    case (ConfigInstruction c)
    then show ?thesis
      using config_step [OF program_runtime_parts(4) [OF assms(2)], of _ _ _ c s s' l] assms(1,3) by simp blast
  qed (use foreign in simp_all)
qed

interpretation settled_program: guarded_machine "process_instruction W" "program_runtime W E"
  "\<lambda>s. \<exists>l. stored_config E s = Inr l \<and> settled_config c l" for W E c
proof unfold_locales
  fix x s s'
  assume x: "program_runtime W E x" "process_instruction W x s = Inr s'" and "\<exists>l. stored_config E s = Inr l \<and> settled_config c l"
  then obtain l where l: "stored_config E s = Inr l" "settled_config c l" by blast
  from instruction_changes_config [of W "fst x" "snd x" s s' E l] x l
  show "\<exists>l. stored_config E s' = Inr l \<and> settled_config c l" by (auto intro: settled_change)
qed

interpretation unsigned_program: guarded_machine "process_instruction W"
  "\<lambda>x. program_runtime W E x \<and> \<not> is_signer (fst x) (lpc_admin l)" "\<lambda>s. stored_config E s = Inr l" for W E l
  using instruction_changes_config [of W "fst x" "snd x" for x] by unfold_locales fastforce

interpretation merchant_program: guarded_machine "process_instruction W"
  "\<lambda>x. program_runtime W E x \<and> \<not> is_signer (fst x) (vp_merchant p)" "\<lambda>s. flat_plan_view E k s = Some p" for W E k p
proof unfold_locales
  fix x s s'
  assume good: "program_runtime W E x \<and> \<not> is_signer (fst x) (vp_merchant p)"
    and step: "process_instruction W x s = Inr s'" and view: "flat_plan_view E k s = Some p"
  obtain E' ix where x: "x = (E', ix)" by (cases x)
  have rt: "program_runtime W E (E', ix)" using good by (simp add: x)
  note foreign = flat_view_foreign [OF instruction_writes [OF step [unfolded x] rt] _ view]
  show "flat_plan_view E k s' = Some p"
  proof (cases ix)
    case (PlanInstruction c)
    then show ?thesis
      using plan_call_view [OF program_runtime_parts(3) [OF rt], of c s s' k p] good step view by (simp add: x)
  qed (use foreign in simp_all)
qed

text \<open>Records read through Anchor's typed accounts.\<close>

lemma anchored_foreign:
  assumes "writes_only E K s s'" "kd \<notin> K" "anchor_account E kd dec s k = Inr x"
  shows "anchor_account E kd dec s' k = Inr x"
proof -
  have "acc_owner (s' k) = acc_owner (s k) \<and> acc_data (s' k) = acc_data (s k)"
    using assms(1,2) anchor_account_starts [OF assms(3)] unfolding writes_only_def by auto
  then show ?thesis using data_kept_anchored [of s s' k E kd dec] assms(3) by (simp add: data_kept_def)
qed

abbreviation arcium_of :: "('c, 'o, 'p, 'q) outside \<Rightarrow> ('c, 'o) arcium" where
  "arcium_of W \<equiv> arcium.truncate (network W)"

interpretation abandoned_program: guarded_machine "process_instruction W" "program_runtime W E"
  "\<lambda>s. stored_request E s k = Inr rq \<and> blocked rq \<and> abandoned E (arcium_of W) rq" for W E k rq
proof unfold_locales
  fix x s s'
  assume good: "program_runtime W E x" and step: "process_instruction W x s = Inr s'"
    and i: "stored_request E s k = Inr rq \<and> blocked rq \<and> abandoned E (arcium_of W) rq"
  obtain E' ix where x: "x = (E', ix)" by (cases x)
  note foreign = anchored_foreign [OF instruction_writes [OF step [unfolded x] good [unfolded x]] _ conjunct1 [OF i]]
  show "stored_request E s' k = Inr rq \<and> blocked rq \<and> abandoned E (arcium_of W) rq"
  proof (cases ix)
    case (ComputationInstruction c)
    then have "do_computation_call (arcium_of W) (E', c) s = Inr s'" using step by (simp add: x)
    from abandoned_machine.step_keeps [OF program_runtime_parts(5) [OF good [unfolded x]] i this] show ?thesis .
  qed (use foreign i in simp_all)
qed

interpretation writing_program: guarded_machine "process_instruction W"
  "\<lambda>x. program_runtime W E x \<and> instruction_kinds (snd x) \<subseteq> K" "writes_only E K s" for W E K s
proof unfold_locales
  fix x s1 s2
  assume x: "program_runtime W E x \<and> instruction_kinds (snd x) \<subseteq> K" "process_instruction W x s1 = Inr s2"
    and before: "writes_only E K s s1"
  have "writes_only E (instruction_kinds (snd x)) s1 s2"
    using instruction_writes [of W "fst x" "snd x" s1 s2 E] x by simp
  then show "writes_only E K s s2" using writes_only_trans [OF before] writes_only_mono x(1) by blast
qed

section \<open>Over every sequence of instructions\<close>

text \<open>
  C7: A sequence of instructions writes, of the accounts that belong to the program, only those of the kinds its
  instructions are for: an account of any other kind keeps its data and its owner, whatever accounts the callers pass.
\<close>

theorem instructions_write_only_their_kinds:
  assumes "list_all (program_runtime W E) xs" "list_all (\<lambda>x. instruction_kinds (snd x) \<subseteq> K) xs"
  shows "writes_only E K s (run (process_instruction W) xs s)"
  by (rule writing_program.run_keeps) (use assms in \<open>auto simp: list_all_iff\<close>)

text \<open>
  C5: Whatever instructions of the program run, in whatever order, by whomever and on whatever accounts, short of the
  one that closes it, a mandate stays stored; its parties, its number and its dates never change; its pulls and
  its due date only go forward; and once it is cancelled or expired nothing of it changes but the
  nonces and the last recorded pull of the confidential computations, so it is never pulled, changed or revived again.
\<close>

theorem every_instruction_moves_mandates_onward:
  assumes "list_all (program_runtime W E) xs" "list_all (\<lambda>x. \<not> closes_mandate k (snd x)) xs"
    "current_mandate E s k = Inr m"
  shows "\<exists>m'. current_mandate E (run (process_instruction W) xs s) k = Inr m' \<and> onward m m'"
  by (rule mandate_program.run_keeps) (use assms onward_refl in \<open>auto simp: list_all_iff\<close>)

text \<open>
  C12: Whatever instructions of the program run, a stream that satisfies the stream invariant still loads and still
  satisfies it, and a cancelled one never changes again.
\<close>

theorem streams_keep_their_invariant_under_every_instruction:
  assumes "list_all (program_runtime W E) xs" "load_stream_mandate E s k = Inr m" "stream_inv m"
  shows "\<exists>m'. load_stream_mandate E (run (process_instruction W) xs s) k = Inr m' \<and> stream_inv m' \<and>
    (st_status m = StreamCancelledStatus \<longrightarrow> m' = m)"
proof -
  obtain ys where ys: "load_stream_mandate E (run (process_instruction W) xs s) k = Inr (run stream_next ys m)"
    using stream_program.whole.run_simulated [OF assms(1), of k s m] assms(2) unfolding stored_view_Some by blast
  then show ?thesis using stream_machine.run_inv [OF assms(3)] stream_machine.run_final [OF assms(3)] by auto
qed

text \<open>
  C11: Whatever instructions of the program run, an agent's mandate that is within its limits still loads and is still
  within them, and a revoked one never changes again.
\<close>

theorem agents_keep_their_limits_under_every_instruction:
  assumes "list_all (program_runtime W E) xs" "current_agent E s k = Inr m" "agent_inv m"
  shows "\<exists>m'. current_agent E (run (process_instruction W) xs s) k = Inr m' \<and> agent_inv m' \<and>
    (ag_status m = AgentRevoked \<longrightarrow> m' = m)"
proof -
  obtain ys where ys: "current_agent E (run (process_instruction W) xs s) k = Inr (run agent_step ys m)"
    using agent_program.whole.run_simulated [OF assms(1), of k s m] assms(2) unfolding stored_view_Some by blast
  then show ?thesis using agent_machine.run_inv [OF assms(3)] agent_machine.run_final [OF assms(3)] by auto
qed

text \<open>
  C35: Whatever instructions of the program run, a flat plan with valid terms is still stored at its address with
  valid terms and the same merchant, number, mints, status and bump.
\<close>

theorem flat_plans_keep_their_terms_under_every_instruction:
  assumes "list_all (program_runtime W E) xs" "load_plan_account E s k = Inr (FlatPlan p)" "flat_terms_ok p"
  shows "\<exists>q. load_plan_account E (run (process_instruction W) xs s) k = Inr (FlatPlan q) \<and> flat_terms_ok q \<and> same_plan p q"
proof -
  obtain ys where "flat_plan_view E k (run (process_instruction W) xs s) = Some (run flat_step ys p)"
    using plan_program.whole.run_simulated [OF assms(1), of k s p] assms(2) unfolding flat_plan_view_Some by blast
  then show ?thesis
    using flat_machine.run_inv [OF assms(3)] flat_machine.run_le [OF assms(3)] by (simp add: flat_plan_view_Some)
qed

text \<open>
  C36: No sequence of instructions of the program that its merchant did not sign changes a stored flat plan.
\<close>

theorem no_instruction_changes_a_plan_without_its_merchant:
  assumes "list_all (program_runtime W E) xs" "list_all (\<lambda>(E', _). \<not> is_signer E' (vp_merchant p)) xs"
    "load_plan_account E s k = Inr (FlatPlan p)"
  shows "load_plan_account E (run (process_instruction W) xs s) k = Inr (FlatPlan p)"
  using merchant_program.run_keeps [of W E p xs k s] assms by (auto simp: flat_plan_view_Some list_all_iff split_beta)

text \<open>
  C28: Whatever instructions of the program run, the protocol's configuration keeps its admin, and its wrapped mint and
  vault once they are set.
\<close>

theorem every_instruction_keeps_admin_and_wrapped_mint:
  assumes "list_all (program_runtime W E) xs" "stored_config E s = Inr l"
  shows "\<exists>l'. stored_config E (run (process_instruction W) xs s) = Inr l' \<and> lpc_admin l' = lpc_admin l \<and>
    (lpc_wrapped_usdc_mint l \<noteq> default_key \<longrightarrow>
       lpc_wrapped_usdc_mint l' = lpc_wrapped_usdc_mint l \<and> lpc_wrapping_vault l' = lpc_wrapping_vault l)"
proof -
  have "\<exists>l'. stored_config E (run (process_instruction W) xs s) = Inr l' \<and> settled_config (upgraded_config l) l'"
    by (rule settled_program.run_keeps [OF assms(1)]) (use assms(2) in \<open>simp add: settled_config_def\<close>)
  then show ?thesis by (auto simp: settled_config_def)
qed

text \<open>
  C17: No sequence of instructions of the program that its admin did not sign changes the protocol's configuration.
\<close>

theorem no_instruction_changes_the_configuration_without_its_admin:
  assumes "list_all (program_runtime W E) xs" "list_all (\<lambda>(E', _). \<not> is_signer E' (lpc_admin l)) xs"
    "stored_config E s = Inr l"
  shows "stored_config E (run (process_instruction W) xs s) = Inr l"
  by (rule unsigned_program.run_keeps) (use assms in \<open>auto simp: list_all_iff\<close>)

text \<open>
  C16: A request whose computation was aborted stays pending for good, whatever instructions of the program
  run: as long as no output verifies for the address its computation was queued with, its record never changes, and every
  later request that names the record fails. No instruction of the program clears it.
\<close>

theorem no_instruction_frees_an_aborted_request:
  assumes "list_all (program_runtime W E) xs" "stored_request E s k = Inr rq"
    "rq_status rq = RequestPending" "rq_created_at rq \<noteq> i64_of 0" "abandoned E (arcium_of W) rq"
  shows "stored_request E (run (process_instruction W) xs s) k = Inr rq \<and>
    (\<forall>E' call. program_runtime W E (E', ComputationInstruction call) \<and> requested_record call = Some k \<longrightarrow>
       (\<exists>e. process_instruction W (E', ComputationInstruction call) (run (process_instruction W) xs s) = Inl e))"
proof -
  let ?s = "run (process_instruction W) xs s"
  have b: "blocked rq" using assms(3,4) by (simp add: blocked_def)
  then have r: "stored_request E ?s k = Inr rq" using abandoned_program.run_keeps [OF assms(1)] assms(2,5) by blast
  moreover have "\<exists>e. process_instruction W (E', ComputationInstruction call) ?s = Inl e"
    if x: "program_runtime W E (E', ComputationInstruction call)" "requested_record call = Some k" for E' call
  proof (cases "process_instruction W (E', ComputationInstruction call) ?s")
    case (Inr s')
    note rt = computation_runtimeD [OF program_runtime_parts(5) [OF x(1)]]
    have "do_computation_call (arcium_of W) (E', call) ?s = Inr s'" using Inr by simp
    from requested_not_blocked [OF this rt(6,3,4) x(2)] show ?thesis
      using anchor_account_starts [OF r] r b by (auto simp: anchor_account_disc [OF rt(1)])
  qed simp
  ultimately show ?thesis by blast
qed

end
