(* ===== verification/Program_Samples.thy ===== *)
theory Program_Samples
  imports Program_Guarantees Mandate_Guarantees
begin

text \<open>
  A concrete deployment, and the guarantees of the whole program on concrete runs over it.
\<close>

section \<open>The deployment\<close>

definition sample_registry :: "bool \<Rightarrow> (unit, u64, nat) arcium_registry" where
  "sample_registry signs = arcium.extend (sample_network signs) (arcium_registry.fields 60 (\<lambda>r s. Inr s))"

definition sample_outside :: "bool \<Rightarrow> (unit, u64, nat, nat) outside" where
  "sample_outside signs =
     \<lparr>network = sample_registry signs, loader = sample_loader, mint_sizes = sample_library,
      circuits = \<lparr>cm_params = \<lambda>_. [], cm_outputs = \<lambda>_. [], cm_weight = \<lambda>_. 0, cm_compiled_circuit = \<lambda>_. []\<rparr>,
      numbers = fixed_point\<rparr>"

lemma sample_arcium [simp]: "arcium_of (sample_outside signs) = sample_network signs"
  by (simp add: sample_outside_def sample_registry_def arcium.truncate_def arcium.extend_def arcium_registry.fields_def
      sample_network_def)

lemma one_program: "find_pda (creating_env now' sg') = find_pda (creating_env now sg)"
  by (simp add: creating_env_def sample_env_def)

lemma sample_program_runtime [simp]:
  "program_runtime (sample_outside signs) (creating_env now sg) (creating_env now' sg', ix)"
proof -
  have "registry_keeps (network (sample_outside signs))"
    by (simp add: registry_keeps_def sample_outside_def sample_registry_def arcium.extend_def arcium_registry.fields_def)
  moreover have "network_keeps (sample_network signs)" by (simp add: network_keeps_def)
  ultimately show ?thesis using one_program by (simp add: program_runtime_def)
qed

section \<open>The guarantees\<close>

theorem instructions_write_only_their_kinds_witness:
  "writes_only (creating_env (i64_of 0) []) {KProtocolConfig, KVelaMandate} (billing_store sample_mandate)
     (run (process_instruction (sample_outside True))
       [(creating_env (i64_of 7200) [90], ConfigInstruction (PauseProtocol sample_config_call)),
        (creating_env (i64_of 7300) [4], MandateInstruction (CallCallOff sample_mandate_accounts))]
       (billing_store sample_mandate))"
  by (rule instructions_write_only_their_kinds) (simp_all add: sample_mandates_ok)

theorem every_instruction_moves_mandates_onward_witness:
  "\<exists>m'. current_mandate (creating_env (i64_of 0) []) (run (process_instruction (sample_outside True))
       [(creating_env (i64_of 7200) [90], ConfigInstruction (PauseProtocol sample_config_call)),
        (creating_env (i64_of 7300) [4], MandateInstruction (CallCallOff sample_mandate_accounts))]
       (billing_store sample_mandate)) 27911 = Inr m' \<and> onward sample_mandate m'"
  by (rule every_instruction_moves_mandates_onward [OF _ _ current_mandate_sample])
    (simp_all add: sample_mandates_ok)

theorem streams_keep_their_invariant_under_every_instruction_witness:
  "\<exists>m'. load_stream_mandate (creating_env (i64_of 0) []) (run (process_instruction (sample_outside True))
       [(creating_env (i64_of 150) [90], ConfigInstruction (PauseProtocol sample_config_call)),
        (creating_env (i64_of 200) [1], StreamInstruction (CallResume 1 29446))] (stream_store_with sample_stream)) 29446 =
       Inr m' \<and> stream_inv m' \<and> (st_status sample_stream = StreamCancelledStatus \<longrightarrow> m' = sample_stream)"
proof (rule streams_keep_their_invariant_under_every_instruction)
  have "load_stream_mandate (sample_env (i64_of 0) []) (stream_store_with sample_stream) 29446 = Inr sample_stream"
    by (rule load_stream_store_with) (simp_all add: valid_stream_mandate_def sample_stream_def)
  then show "load_stream_mandate (creating_env (i64_of 0) []) (stream_store_with sample_stream) 29446 = Inr sample_stream"
    using stream_store.load_disc [of "creating_env (i64_of 0) []" "sample_env (i64_of 0) []"]
    by simp
qed (simp_all add: stream_inv_sample)

theorem agents_keep_their_limits_under_every_instruction_witness:
  "\<exists>m'. current_agent (creating_env (i64_of 0) []) (run (process_instruction (sample_outside True))
       [(creating_env (i64_of 5) [1],
         AgentInstruction (CallPauseAgent \<lparr>aa_authority = 1, aa_agent = 2, aa_agent_mandate = 24845\<rparr>)),
        (creating_env (i64_of 6) [90], ConfigInstruction (PauseProtocol sample_config_call))]
       agent_store_sample) 24845 = Inr m' \<and> agent_inv m' \<and> (ag_status sample_agent = AgentRevoked \<longrightarrow> m' = sample_agent)"
  by (rule agents_keep_their_limits_under_every_instruction [OF _ current_agent_store_sample sample_agent_ok(3)]) simp_all

theorem flat_plans_keep_their_terms_under_every_instruction_witness:
  "\<exists>q. load_plan_account (creating_env (i64_of 0) []) (run (process_instruction (sample_outside True))
       [(creating_env (i64_of 9) [1], PlanInstruction (CallUpdatePlan (sample_plan_accounts 1) (Some 9) None None None)),
        (creating_env (i64_of 10) [90], ConfigInstruction (PauseProtocol sample_config_call))]
       (plan_store_with (enc_vela_plan sample_plan))) 28676 = Inr (FlatPlan q) \<and> flat_terms_ok q \<and> same_plan sample_plan q"
  by (rule flat_plans_keep_their_terms_under_every_instruction [OF _ sample_plan_loads sample_plan_valid(2)]) simp

theorem no_instruction_changes_a_plan_without_its_merchant_witness:
  "load_plan_account (creating_env (i64_of 0) []) (run (process_instruction (sample_outside True))
       [(creating_env (i64_of 9) [7], PlanInstruction (CallUpdatePlan (sample_plan_accounts 7) (Some 9) None None None)),
        (creating_env (i64_of 10) [90], ConfigInstruction (PauseProtocol sample_config_call))]
       (plan_store_with (enc_vela_plan sample_plan))) 28676 = Inr (FlatPlan sample_plan)"
  by (rule no_instruction_changes_a_plan_without_its_merchant [OF _ _ sample_plan_loads])
    (simp_all add: is_signer_def sample_plan_def)

theorem every_instruction_keeps_admin_and_wrapped_mint_witness:
  "\<exists>l. stored_config (creating_env (i64_of 5) [90]) (run (process_instruction (sample_outside True))
       [(creating_env (i64_of 5) [90], ConfigInstruction (PauseProtocol sample_config_call)),
        (creating_env (i64_of 7300) [4], MandateInstruction (CallCallOff sample_mandate_accounts))]
       (billing_store sample_mandate)) = Inr l \<and> lpc_admin l = 90 \<and> lpc_wrapped_usdc_mint l = 3 \<and> lpc_wrapping_vault l = 33"
  using every_instruction_keeps_admin_and_wrapped_mint [where W = "sample_outside True" and
      E = "creating_env (i64_of 5) [90]" and s = "billing_store sample_mandate" and
      xs = "[(creating_env (i64_of 5) [90], ConfigInstruction (PauseProtocol sample_config_call)),
        (creating_env (i64_of 7300) [4], MandateInstruction (CallCallOff sample_mandate_accounts))]",
      OF _ sample_stored_config]
  by (simp add: sample_config_names del: run.simps)

theorem no_instruction_changes_the_configuration_without_its_admin_witness:
  "stored_config (creating_env (i64_of 5) [91]) (run (process_instruction (sample_outside True))
       [(creating_env (i64_of 5) [91], ConfigInstruction (PauseProtocol sample_config_call)),
        (creating_env (i64_of 7300) [4], MandateInstruction (CallCallOff sample_mandate_accounts))]
       (billing_store sample_mandate)) = Inr (CurrentProtocolConfig sample_protocol_config)"
  by (rule no_instruction_changes_the_configuration_without_its_admin [OF _ _ sample_stored_config])
    (simp_all add: sample_config_names is_signer_def)

theorem no_instruction_frees_an_aborted_request_witness:
  "\<exists>e. process_instruction (sample_outside False) (creating_env (i64_of 7400) [],
       ComputationInstruction (RequestValidation (sample_usage_request\<lparr>rqa_plan := 28676\<rparr>) 0 (i64_of 7300) [] [] 0))
     (run (process_instruction (sample_outside False))
        [(creating_env (i64_of 7400) [], ComputationInstruction (ValidationCallback sample_callback 0)),
         (creating_env (i64_of 7400) [90], ConfigInstruction (PauseProtocol sample_config_call))] requested_store) = Inl e"
proof -
  have a: "abandoned (creating_env (i64_of 7400) []) (arcium_of (sample_outside False)) rq" for rq
    by (simp add: abandoned_def)
  show ?thesis
    using no_instruction_frees_an_aborted_request [where W = "sample_outside False" and xs =
        "[(creating_env (i64_of 7400) [], ComputationInstruction (ValidationCallback sample_callback 0)),
          (creating_env (i64_of 7400) [90], ConfigInstruction (PauseProtocol sample_config_call))]",
        OF _ sample_request_reads _ _ a]
    by (auto simp: sample_request_def i64_of_def simp del: run.simps process_instruction.simps)
qed

end
