(* ===== verification/Hook_Guarantees.thy ===== *)
theory Hook_Guarantees
  imports Hooked_Transfers Program_Samples
begin

text \<open>
  What the two programs do together: the hook refuses no payment of the main program, for every instruction that
  pays in the wrapped token, except that a mandate in the legacy layout cannot be pulled.
\<close>

section \<open>The instructions that pay\<close>

text \<open>The mint an instruction pays in, for those that pay from a subscriber, a stream or an agent.\<close>

fun payment_mint :: "'o instruction \<Rightarrow> pubkey option" where
  "payment_mint (MandateInstruction (CallExecutePull c remaining)) = Some (pu_wrapped_usdc_mint c)"
| "payment_mint (UpdateMandatePlan c) = Some (ug_wrapped_usdc_mint c)"
| "payment_mint (StreamInstruction (CallExecute c)) = Some (sa_wrapped_usdc_mint c)"
| "payment_mint (StreamInstruction (CallPause c)) = Some (sa_wrapped_usdc_mint c)"
| "payment_mint (StreamInstruction (stream_call.CallCancel c)) = Some (sa_wrapped_usdc_mint c)"
| "payment_mint (StreamInstruction (CallUpdateRate c rate max_rate)) = Some (sa_wrapped_usdc_mint c)"
| "payment_mint (AgentInstruction (CallPull c amount)) = Some (ap_wrapped_usdc_mint c)"
| "payment_mint _ = None"

text \<open>The mandate of a pull is in the current layout; the other instructions read no legacy mandate.\<close>

fun pulls_current_mandate :: "env \<Rightarrow> store \<Rightarrow> 'o instruction \<Rightarrow> bool" where
  "pulls_current_mandate E s (MandateInstruction (CallExecutePull c remaining)) \<longleftrightarrow>
     (case current_mandate E s (pu_mandate c) of Inl e \<Rightarrow> False | Inr m \<Rightarrow> True)"
| "pulls_current_mandate E s _ \<longleftrightarrow> True"

section \<open>No payment is refused\<close>

text \<open>
  C3: The hook refuses no payment of the main program: a pull, a change of plan, a stream's
  settlement or an agent's pull that returns without the hook returns with the same accounts when the token program
  runs the hook, from the accounts of the mint's list, inside every transfer of the mint.
\<close>

theorem hook_refuses_no_payment:
  assumes "process_instruction W (E, ix) s = Inr s'" "payment_mint ix = Some mint" "pulls_current_mandate E s ix"
    "hook_runtime E" "wired F E s mint vault" "hook_ready E s mint vault"
  shows "process_instruction W (with_hook F mint E, ix) s = Inr s'"
proof (cases ix)
  case (MandateInstruction x)
  with assms(2,3) obtain c remaining m where x: "x = CallExecutePull c remaining" "mint = pu_wrapped_usdc_mint c"
    "current_mandate E s (pu_mandate c) = Inr m" by (cases x) (auto split: sum.splits)
  then show ?thesis
    using assms(1) execute_pull_hooked [OF _ x(3) _ assms(4-6)] by (auto simp: MandateInstruction map_sum_Inr)
next
  case (UpdateMandatePlan c)
  then show ?thesis using assms(1,2) update_mandate_plan_hooked [OF _ _ assms(4-6)] by (fastforce simp: map_sum_Inr)
next
  case (StreamInstruction c)
  then show ?thesis
    using assms(1,2) execute_stream_hooked [OF _ _ assms(4-6)] pause_stream_hooked [OF _ _ assms(4-6)]
      cancel_stream_hooked [OF _ _ assms(4-6)] update_stream_rate_hooked [OF _ _ assms(4-6)]
    by (cases c) (fastforce simp: map_sum_Inr)+
next
  case (AgentInstruction c)
  then show ?thesis using assms(1,2) agent_pull_hooked [OF _ _ assms(4-6)] by (cases c) (fastforce simp: map_sum_Inr)+
qed (use assms(2) in simp_all)

section \<open>A mandate in the legacy layout\<close>

lemma legacy_bytes_too_short: "dec_vela_mandate (enc_vela_mandate_v1 l) = None"
proof -
  have "dec_billing_type (enc_billing_type x) = Some (x, [])" for x by (cases x) simp_all
  then have "dec_vela_mandate (enc_vela_mandate_v1 l) \<noteq> Some (m, r)" for m r
    unfolding dec_vela_mandate_def enc_vela_mandate_v1_def by (auto simp: dec_word_def bind_eq_Some_conv)
  then show ?thesis by (cases "dec_vela_mandate (enc_vela_mandate_v1 l)") auto
qed

lemma hook_refuses_legacy_mandate:
  assumes "wired F E s mint vault" "distinct_discriminators E" "acc_owner (s auth) = program_id"
    "acc_data (s auth) = disc E KVelaMandate @ enc_vela_mandate_v1 l" "src \<noteq> vault" "dst \<noteq> vault"
  shows "run_hook F E src mint dst auth n s \<noteq> Inr ()"
proof -
  have d: "length (disc E KVelaMandate) = 8" "disc E KVelaMandate \<noteq> disc E KStreamMandate"
    using distinct_discriminatorsD(1) [OF assms(2)] assms(2) by (auto simp: distinct_discriminators_def dest: injD)
  then have "try_deserialize E KVelaMandate dec_vela_mandate (acc_data (s auth)) = None"
    by (simp add: try_deserialize_def assms(4) legacy_bytes_too_short)
  then show ?thesis
    using assms(1,3-6) d
    by (auto simp: run_hook_def wired_def build_8_slot_account_metas_def pda_def Let_def transfer_hook_def data_is_empty_def
        split: sum.splits if_splits)
qed

text \<open>
  C15: A mandate stored in the legacy layout cannot be pulled with a charge: the main program supports it, down to the seeds that
  sign for it, but the hook reads mandates in the current layout alone and fails the transfer.
\<close>

theorem legacy_mandates_cannot_be_pulled:
  assumes "acc_owner (s (pu_mandate c)) = program_id"
    "acc_data (s (pu_mandate c)) = disc E KVelaMandate @ enc_vela_mandate_v1 l" "mdl_billing_type l = Flat"
    "mdl_amount l \<noteq> 0" "hook_runtime E" "wired F E s (pu_wrapped_usdc_mint c) vault"
    "pu_subscriber_wrapped_account c \<noteq> vault" "pu_merchant_wrapped_account c \<noteq> vault"
  shows "\<exists>e. execute_pull (with_hook F (pu_wrapped_usdc_mint c) E) c remaining s = Inl e"
proof (rule ccontr)
  let ?E = "with_hook F (pu_wrapped_usdc_mint c) E" and ?k = "pu_mandate c"
  note rt = hook_runtimeD [OF assms(5)]
  assume "\<not> (\<exists>e. execute_pull ?E c remaining s = Inl e)"
  then obtain s' ev where "execute_pull ?E c remaining s = Inr (s', ev)"
    by (cases "execute_pull ?E c remaining s") auto
  then show False
  proof (cases rule: execute_pull_Inr)
    case (1 tc kc pc plan l' a b m1 plan1 ch approval base s1 s2 s3 m2)
    have "write_account ?k (disc E KVelaMandate @ enc_vela_mandate_v1 l) s = Inr s"
      using assms(2) by (auto simp: write_account_Inr set_data_def)
    then have "load_mandate_account E s ?k = Inr (LegacyMandate l)" using assms(1) by (rule load_written_legacy)
    then have l': "l' = LegacyMandate l" using 1(7) by (simp add: hooked)
    then have m: "m1 = current_from_legacy_mandate l" "plan1 = plan" "md_billing_type m1 = Flat" "md_amount m1 \<noteq> 0"
      "md_credit_balance m1 = 0"
      using 1(12) assms(3,4) by (auto simp: apply_pending_change_def current_from_legacy_mandate_def)
    have "lp_billing_type plan = Flat"
      using 1(9) assms(3) by (simp add: pull_checks_def Let_def l' current_from_legacy_mandate_def)
    then have "base = md_amount m1"
      using 1(15) m(2) by (cases plan) (auto simp: base_charge_def split: if_splits)
    then have pos: "0 < fst (use_credit base m1)"
      using m(4,5) by (simp add: use_credit_def Let_def saturating_sub_def word_neq_0_conv)
    with 1(16) obtain seeds owner where "invoke_billing_transfer ?E c tc (fst (use_credit base m1)) seeds owner s = Inr s1"
      by auto
    then obtain s0 where t: "invoke E (TransferChecked (pu_token_2022_program c) (pu_subscriber_wrapped_account c)
          (pu_wrapped_usdc_mint c) (pu_merchant_wrapped_account c) ?k (fst (use_credit base m1)) (tk_decimals tc)
          (transfer_hook_account_metas (pull_transfer_accounts c))) seeds s = Inr s0" and
      h: "run_hook F E (pu_subscriber_wrapped_account c) (pu_wrapped_usdc_mint c) (pu_merchant_wrapped_account c) ?k
          (fst (use_credit base m1)) s0 = Inr ()"
      by (auto dest!: billing_transfer_Inr simp: invoke_with_hook map_sum_Inr)
    have "acc_owner (s0 ?k) = program_id" "acc_data (s0 ?k) = acc_data (s ?k)"
      using keeps_program_accountsD [OF rt(1) t] assms(1) by auto
    with hook_refuses_legacy_mandate [OF wired_kept [OF assms(6) rt(5) t] rt(3), of ?k l] assms(2,7,8) h show False
      by simp
  qed
qed

section \<open>On a concrete deployment\<close>

lemma creating_env_hook_runtime [simp]: "hook_runtime (creating_env now sg)"
proof -
  have same: "\<exists>n. t = t\<lparr>ta_amount := n\<rparr>" for t :: token_account by (rule exI [of _ "ta_amount t"]) simp
  then have "tokens_kept (creating_env now sg) s (s(k := a))" if "acc_owner (s k) = system_program_id" for s k a
    using that by (auto simp: tokens_kept_def is_token_program_def system_program_id_def)
  moreover have "tokens_kept (creating_env now sg) s s" for s
    using same by (auto simp: tokens_kept_def)
  ultimately have "tokens_persist (creating_env now sg)"
    by (auto simp: tokens_persist_def sample_invoke_def split: if_splits)
  then show ?thesis by (simp add: hook_runtime_def is_token_program_def program_id_def)
qed

lemma sample_wired [simp]: "wired sample_format (creating_env now sg) (billing_store m) 3 33"
  by (simp add: wired_def meta_list_address_def sample_format_def Let_def)

lemma sample_hook_ready [simp]: "hook_ready (creating_env now sg) (billing_store m) 3 33"
proof -
  let ?E = "creating_env now sg"
  have pc: "try_deserialize ?E KProtocolConfig dec_protocol_config
      (sample_disc KProtocolConfig @ enc_protocol_config sample_protocol_config) = Some sample_protocol_config"
    and tc: "try_deserialize ?E KTokenConfig dec_token_config
      (sample_disc KTokenConfig @ enc_token_config sample_token_config) = Some sample_token_config"
    using protocol_config_codec.try_deserialize_enc [of sample_protocol_config ?E KProtocolConfig "[]"]
      token_config_codec.try_deserialize_enc [of sample_token_config ?E KTokenConfig "[]"] sample_config_valid by simp_all
  then show ?thesis
    unfolding hook_ready_def
    by (intro conjI exI [of _ sample_protocol_config] exI [of _ sample_token_config])
      (simp_all add: hook_load_protocol_config_Inr hook_load_token_config_def data_is_empty_def sample_disc_nonempty
        interface_mint_def is_token_program_def sample_protocol_config_def new_protocol_config_def sample_token_config_def
        new_token_config_def)
qed

theorem hook_refuses_no_payment_witness:
  "\<exists>s'. process_instruction (sample_outside True) (with_hook sample_format 3 (creating_env (i64_of 7300) [4]),
      MandateInstruction (CallExecutePull (sample_pull_accounts 28676) [])) (billing_store sample_mandate) = Inr s'"
proof -
  let ?E = "creating_env (i64_of 7300) [4]" and ?ix = "MandateInstruction (CallExecutePull (sample_pull_accounts 28676) [])"
  obtain s' ev where "execute_pull ?E (sample_pull_accounts 28676) [] (billing_store sample_mandate) = Inr (s', ev)"
    using sample_billing_pull_returns by blast
  then have "process_instruction (sample_outside True) (?E, ?ix) (billing_store sample_mandate) = Inr s'" by simp
  from hook_refuses_no_payment [OF this _ _ creating_env_hook_runtime sample_wired sample_hook_ready]
  show ?thesis using current_mandate_sample [OF sample_mandates_ok(1)] by auto
qed

text \<open>The same mandate as it would be stored in the legacy layout.\<close>

definition legacy_billing_store :: store where
  "legacy_billing_store =
     (billing_store sample_mandate)
       (27911 := owned_by program_id
          (sample_disc KVelaMandate @ enc_vela_mandate_v1 (legacy_from_current_mandate sample_mandate)))"

theorem legacy_mandates_cannot_be_pulled_witness:
  "\<exists>e. execute_pull (with_hook sample_format 3 (creating_env (i64_of 7300) [4])) (sample_pull_accounts 28676) []
      legacy_billing_store = Inl e"
proof -
  have "wired sample_format (creating_env (i64_of 7300) [4]) legacy_billing_store 3 33"
    using sample_wired [of "i64_of 7300" "[4]" sample_mandate]
    by (simp add: wired_def legacy_billing_store_def meta_list_address_def)
  then show ?thesis
    using legacy_mandates_cannot_be_pulled [of legacy_billing_store "sample_pull_accounts 28676" "creating_env (i64_of 7300) [4]"
        "legacy_from_current_mandate sample_mandate" sample_format 33 "[]"]
    by (simp add: legacy_billing_store_def legacy_from_current_mandate_def)
qed

end
