(* ===== verification/Pull_Termination.thy ===== *)
theory Pull_Termination
  imports Program_Samples
begin

text \<open>
  Subscriptions come to an end: the pulls a mandate has left are a measure that every pull lowers, whatever
  other instructions of the program run in between.
\<close>

section \<open>The measure\<close>

definition pulls_left :: "vela_mandate \<Rightarrow> nat" where
  "pulls_left m = unat (md_max_pulls m) - unat (md_pulls_executed m)"

fun pulls_mandate :: "pubkey \<Rightarrow> 'o instruction \<Rightarrow> bool" where
  "pulls_mandate k (MandateInstruction (CallExecutePull c remaining)) = (pu_mandate c = k)"
| "pulls_mandate k _ = False"

text \<open>The instructions that may exchange a mandate's terms for those of another plan, at once or when due.\<close>

fun changes_plan_of :: "pubkey \<Rightarrow> 'o instruction \<Rightarrow> bool" where
  "changes_plan_of k (MandateInstruction (CallSchedule c)) = (ma_mandate c = k)"
| "changes_plan_of k (UpdateMandatePlan c) = (ug_mandate c = k)"
| "changes_plan_of k _ = False"

text \<open>The pulls of a mandate that return, over a run.\<close>

fun pulls_returned ::
  "('c, 'o, 'p, 'q) outside \<Rightarrow> pubkey \<Rightarrow> (env \<times> 'o instruction) list \<Rightarrow> store \<Rightarrow> nat" where
  "pulls_returned W k [] s = 0"
| "pulls_returned W k (x # xs) s =
     (case process_instruction W x s of
        Inl e \<Rightarrow> pulls_returned W k xs s
      | Inr s' \<Rightarrow> (if pulls_mandate k (snd x) then 1 else 0) + pulls_returned W k xs s')"

text \<open>No change of plan is noted, and at most \<open>n\<close> pulls are left.\<close>

definition fixed_terms :: "nat \<Rightarrow> vela_mandate \<Rightarrow> bool" where
  "fixed_terms n m \<longleftrightarrow> md_pending_change_type m = 0 \<and> pulls_left m \<le> n"

lemma fixed_terms_pull:
  assumes "mandate_step (StepPull now ch base) m = Inr m'" "fixed_terms n m"
  shows "fixed_terms (n - 1) m'" "0 < n"
proof -
  note p = pull_step_Inr [OF assms(1)]
  have ch: "ch = None" "md_pulls_executed m < md_max_pulls m"
    using p(1) assms(2) by (cases ch; auto simp: pull_step_checks_def fixed_terms_def)+
  let ?m1 = "snd (use_credit base m)"
  have c: "count_pull now ?m1 = Inr m'" using p(2) ch(1) by (simp add: changed_plan_def)
  have "md_pending_change_type m' = md_pending_change_type m" "md_max_pulls m' = md_max_pulls m"
    by (subst count_pull_Inr(7) [OF c]; simp add: use_credit_snd)+
  moreover have "unat (md_pulls_executed m') = unat (md_pulls_executed m) + 1"
    using count_pull_Inr(1) [OF c] by (simp add: use_credit_snd)
  moreover have "unat (md_pulls_executed m) < unat (md_max_pulls m)" using ch(2) by (simp add: word_less_nat_alt)
  ultimately show "fixed_terms (n - 1) m'" "0 < n" using assms(2) by (auto simp: fixed_terms_def pulls_left_def)
qed

lemma fixed_terms_step:
  assumes "mandate_step x m = Inr m'" "fixed_terms n m" "x = StepKeep \<or> x = StepCancel \<or> (\<exists>a. x = StepCallOff a)"
  shows "fixed_terms n m'"
  using assms by (auto simp: fixed_terms_def pulls_left_def case_sum_Inr clear_pending_def split: if_splits)

lemma fixed_terms_books: "bookkeeping m m' \<Longrightarrow> fixed_terms n m \<Longrightarrow> fixed_terms n m'"
  by (auto simp: bookkeeping_def fixed_terms_def pulls_left_def)

section \<open>Every instruction respects it\<close>

lemma call_respects_terms:
  fixes ix :: "'o instruction"
  assumes "do_mandate_call (E, c) s = Inr s'" "keeps_program_accounts E" "creates_fresh E" "distinct_discriminators E"
    "\<not> closes_mandate k ix" "\<not> changes_plan_of k ix" "current_mandate E s k = Inr m" "fixed_terms n m"
    "ix = MandateInstruction c"
  shows "\<exists>m'. current_mandate E s' k = Inr m' \<and>
    (if pulls_mandate k ix then 0 < n \<and> fixed_terms (n - 1) m' else fixed_terms n m')"
proof -
  have same: "mandate_effect E j x s s' \<Longrightarrow> j \<noteq> k \<Longrightarrow> current_mandate E s' k = Inr m" for j x
    using assms(7) by (auto simp: mandate_effect_def)
  show ?thesis
  proof (cases "\<exists>a. c = CallCloseMandate a")
    case True
    then show ?thesis using close_mandate_effect [OF _ _ assms(7)] assms(1,5,8) by (auto simp: assms(9))
  next
    case False
    then have eff: "\<exists>j x. call_step E c x \<and> mandate_effect E j x s s'"
      by (intro do_mandate_call_effect [OF assms(1-4)]) blast
    have other: ?thesis
      if "\<And>x. call_step E c x \<Longrightarrow> x = StepKeep \<or> x = StepCancel \<or> (\<exists>a. x = StepCallOff a)"
        "\<not> pulls_mandate k ix"
    proof -
      obtain j x where x: "call_step E c x" "mandate_effect E j x s s'" using eff by blast
      show ?thesis
      proof (cases "j = k")
        case True
        then obtain m' where "mandate_step x m = Inr m'" "current_mandate E s' k = Inr m'"
          using x(2) assms(7) by (auto simp: mandate_effect_def)
        then show ?thesis unfolding if_not_P [OF that(2)] using fixed_terms_step [OF _ assms(8) that(1) [OF x(1)]] by blast
      next
        case False
        then show ?thesis unfolding if_not_P [OF that(2)] using same [OF x(2)] assms(8) by blast
      qed
    qed
    show ?thesis
    proof (cases c)
      case (CallSchedule a)
      then obtain x where "mandate_effect E (ma_mandate a) x s s'"
        using assms(1) schedule_plan_change_effect by (fastforce simp: map_sum_Inr)
      then show ?thesis using same assms(6,8) by (auto simp: assms(9) CallSchedule)
    next
      case (CallExecutePull a r)
      then obtain ev where "execute_pull E a r s = Inr (s', ev)" using assms(1) by (auto simp: map_sum_Inr)
      from execute_pull_effect [OF this assms(2,4)] obtain ch base where
        e: "mandate_effect E (pu_mandate a) (StepPull (unix_timestamp E) ch base) s s'" by blast
      show ?thesis
      proof (cases "pu_mandate a = k")
        case True
        then obtain m' where "mandate_step (StepPull (unix_timestamp E) ch base) m = Inr m'"
          "current_mandate E s' k = Inr m'" using e assms(7) by (auto simp: mandate_effect_def)
        then show ?thesis using fixed_terms_pull [OF _ assms(8)] True by (auto simp: assms(9) CallExecutePull)
      next
        case False
        then show ?thesis using same [OF e] assms(8) by (simp add: assms(9) CallExecutePull)
      qed
    qed (rule other; simp add: assms(9))+
  qed
qed

lemma instruction_respects_terms:
  assumes "process_instruction W (E', ix) s = Inr s'" "program_runtime W E (E', ix)" "\<not> closes_mandate k ix"
    "\<not> changes_plan_of k ix" "current_mandate E s k = Inr m" "fixed_terms n m"
  shows "\<exists>m'. current_mandate E s' k = Inr m' \<and>
    (if pulls_mandate k ix then 0 < n \<and> fixed_terms (n - 1) m' else fixed_terms n m')"
proof -
  note rt = program_runtimeD [OF assms(2)] and parts = program_runtime_parts [OF assms(2)]
  have load: "current_mandate E' t j = current_mandate E t j" for t j by (rule current_store.load_disc [OF rt(1)])
  note foreign = mandate_accounts.load_foreign [OF instruction_writes [OF assms(1,2)] _ assms(5)]
  show ?thesis
  proof (cases ix)
    case (MandateInstruction c)
    then have "do_mandate_call (E', c) s = Inr s'" using assms(1) by simp
    from call_respects_terms [OF this rt(3-5) assms(3,4), unfolded load, OF assms(5,6) MandateInstruction]
    show ?thesis .
  next
    case (UpdateMandatePlan c)
    then obtain ev where "update_mandate_plan (numbers W) E' c s = Inr (s', ev)" using assms(1) by (auto simp: map_sum_Inr)
    from this rt(3,5) have "current_mandate E s' k = Inr m"
      using assms(4,5) by (cases rule: update_mandate_plan_effect) (auto simp: load UpdateMandatePlan)
    then show ?thesis using assms(6) by (simp add: UpdateMandatePlan)
  next
    case (ComputationInstruction c)
    then have "do_computation_call (arcium.truncate (network W)) (E', c) s = Inr s'" using assms(1) by simp
    from call_books [OF this parts(5)] assms(5) obtain m' where "current_mandate E s' k = Inr m'" "bookkeeping m m'"
      by (fastforce simp: load)
    then show ?thesis using fixed_terms_books [OF _ assms(6)] by (auto simp: ComputationInstruction)
  qed (use foreign assms(6) in simp_all)
qed

text \<open>
  C20: Subscriptions come to an end: over any sequence of instructions of the whole program that neither closes a
  mandate nor changes its plan, at most as many pulls of it return as the mandate had left.
\<close>

theorem pulls_come_to_an_end:
  assumes "list_all (\<lambda>x. program_runtime W E x \<and> \<not> closes_mandate k (snd x) \<and> \<not> changes_plan_of k (snd x)) xs"
    "current_mandate E s k = Inr m" "md_pending_change_type m = 0"
  shows "pulls_returned W k xs s \<le> unat (md_max_pulls m) - unat (md_pulls_executed m)"
proof -
  have "fixed_terms n m \<Longrightarrow> pulls_returned W k xs s \<le> n" for n
    using assms(1,2)
  proof (induction xs arbitrary: s m n)
    case (Cons x xs)
    obtain E' ix where x: "x = (E', ix)" by (cases x)
    show ?case
    proof (cases "process_instruction W x s")
      case (Inl e)
      then show ?thesis using Cons by auto
    next
      case (Inr s1)
      from instruction_respects_terms [of W E' ix s s1 E k m n] Inr Cons.prems obtain m1 where
        m1: "current_mandate E s1 k = Inr m1"
        "if pulls_mandate k ix then 0 < n \<and> fixed_terms (n - 1) m1 else fixed_terms n m1" by (auto simp: x)
      have "list_all (\<lambda>x. program_runtime W E x \<and> \<not> closes_mandate k (snd x) \<and> \<not> changes_plan_of k (snd x)) xs"
        using Cons.prems(2) by simp
      from Cons.IH [OF _ this m1(1)] m1(2) show ?thesis using Inr by (fastforce simp: x split: if_splits)
    qed
  qed simp
  then show ?thesis using assms(3) by (auto simp: fixed_terms_def pulls_left_def)
qed

section \<open>On a concrete run\<close>

text \<open>The last pull of a mandate of twelve, made twice.\<close>

theorem pulls_come_to_an_end_witness:
  "pulls_returned (sample_outside True) 27911
     [(creating_env (i64_of 7300) [4], MandateInstruction (CallExecutePull (sample_pull_accounts 28676) [])),
      (creating_env (i64_of 7300) [90], ConfigInstruction (PauseProtocol sample_config_call)),
      (creating_env (i64_of 10900) [4], MandateInstruction (CallExecutePull (sample_pull_accounts 28676) []))]
     (billing_store (sample_mandate\<lparr>md_max_pulls := 1\<rparr>)) \<le> 1"
proof -
  have "storable_current (sample_mandate\<lparr>md_max_pulls := 1\<rparr>)"
    using sample_mandates_ok(1) by (simp add: valid_vela_mandate_def)
  from pulls_come_to_an_end [OF _ current_mandate_sample [OF this, of "i64_of 7300" "[4]"], where W = "sample_outside True"]
  show ?thesis by (simp del: pulls_returned.simps)
qed

end
