(* ===== verification/Program_Limits.thy ===== *)
theory Program_Limits
  imports Program_Samples
begin

text \<open>
  Who may change what, and how much can be taken, over the instructions of the whole program: every change of a
  mandate is one its parties agreed to, a stream pays no more than its subscriber authorised, and an agent no more
  than two days' limits within one day.
\<close>

section \<open>Every change of a mandate\<close>

text \<open>A change of plan at once, with the signatures that the amount of the new plan asks for.\<close>

definition changed_at_once :: "env \<Rightarrow> store \<Rightarrow> upgrade_accounts \<Rightarrow> vela_mandate \<Rightarrow> vela_mandate \<Rightarrow> bool" where
  "changed_at_once E s c m m' \<longleftrightarrow>
     (\<exists>plan credit. load_plan_account E s (ug_new_plan c) = Inr plan \<and> md_status m = MandateActive \<and>
        lp_merchant plan = md_merchant m \<and> lp_status plan = PlanActive \<and>
        (is_signer E (md_subscriber m) \<or> is_signer E (md_merchant m) \<and> lp_mandate_amount plan \<le> md_amount m) \<and>
        m' = upgraded (ug_new_plan c) plan credit m)"

lemma update_is_authorised:
  assumes "update_mandate_plan P E c s = Inr (s', ev)" "keeps_program_accounts E" "distinct_discriminators E"
    "current_mandate E s k = Inr m"
  shows "current_mandate E s' k = Inr m \<or>
    ug_mandate c = k \<and> (\<exists>m'. current_mandate E s' k = Inr m' \<and> changed_at_once E s c m m')"
  using assms(1-3)
proof (cases rule: update_mandate_plan_effect)
  case (Same m1)
  then show ?thesis using assms(4) by simp
next
  case (Changed m1 plan d s1 m2 credit)
  show ?thesis
  proof (cases "ug_mandate c = k")
    case True
    then have m: "m1 = m" using Changed(1) assms(4) by simp
    have "changed_at_once E s c m (upgraded (ug_new_plan c) plan credit m)"
      using Changed(2,4,5) unfolding m upgrade_outcome_def changed_at_once_def
      by (intro exI [of _ plan] exI [of _ credit] conjI) (auto simp: not_less)
    then show ?thesis using Changed(9) True unfolding m by blast
  next
    case False
    then show ?thesis using Changed(10) [of k m] assms(4) by blast
  qed
qed

lemma closing_is_authorised:
  assumes "close_mandate E c s = Inr s'" "current_mandate E s (ma_mandate c) = Inr m"
  shows "md_status m \<noteq> MandateActive \<and> is_signer E (md_subscriber m) \<and> acc_data (s' (ma_mandate c)) = []"
  using assms(1)
proof (cases rule: close_mandate_Inr)
  case (1 l)
  then have "l = CurrentMandate m" using assms(2) by (simp add: current_mandate_Inr)
  then show ?thesis using 1(2,3,5) close_program_account_closed [OF 1(6)] by simp
qed

text \<open>
  C10: Every change of a mandate, by any instruction of the program, was authorised. An instruction that returns
  leaves a mandate as it is, or closes it with the signature of its subscriber, only when it is not active, or
  cancels it with the signature of its subscriber or of the protocol's administrator, or
  notes a change to an active plan of its merchant with the signature of the subscriber, or
  of the merchant if the new amount is no larger, or calls such a change off with the
  signature of one of the two, or pulls it with the signature of the keeper or the
  subscriber, by the rules of a pull, or changes its plan at once with the signatures that noting the change needs.
  What anyone who pays for it may change is one of the two nonces of the confidential
  computations; and the pulls made are noted as recorded when an output of the network verifies.
\<close>

theorem every_mandate_change_is_authorised:
  assumes "process_instruction W (E', ix) s = Inr s'" "program_runtime W E (E', ix)" "current_mandate E s k = Inr m"
  shows "if closes_mandate k ix
    then md_status m \<noteq> MandateActive \<and> is_signer E' (md_subscriber m) \<and> acc_data (s' k) = []
    else \<exists>m'. current_mandate E s' k = Inr m' \<and>
      (authorised_change E' s m m' \<or>
       (\<exists>c. ix = UpdateMandatePlan c \<and> ug_mandate c = k \<and> changed_at_once E' s c m m') \<or>
       (\<exists>c n. ix = ComputationInstruction c \<and> requested_record c \<noteq> None \<and>
          (m' = m\<lparr>md_validation_request_nonce := n\<rparr> \<or> m' = m\<lparr>md_billing_request_nonce := n\<rparr>)) \<or>
       (\<exists>c out cluster blob. ix = ComputationInstruction (RecordCallback c out) \<and> cba_mandate c = k \<and>
          verify_record (arcium_of W) out cluster (cba_computation_account c) (s (cba_computation_account c)) = Some blob \<and>
          m' = m\<lparr>md_last_billing_recorded_pull := md_pulls_executed m\<rparr>))"
proof -
  note rt = program_runtimeD [OF assms(2)] and parts = program_runtime_parts [OF assms(2)]
  have load: "current_mandate E' t j = current_mandate E t j" for t j by (rule current_store.load_disc [OF rt(1)])
  have m: "current_mandate E' s k = Inr m" using assms(3) by (simp add: load)
  have same: "authorised_change E' s m m" by (simp add: authorised_change_def)
  note foreign = mandate_accounts.load_foreign [OF instruction_writes [OF assms(1,2)] _ assms(3)]
  show ?thesis
  proof (cases "closes_mandate k ix")
    case True
    then obtain c where c: "ix = MandateInstruction (CallCloseMandate c)" "ma_mandate c = k"
      by (cases "(k, ix)" rule: closes_mandate.cases) auto
    then have "close_mandate E' c s = Inr s'" using assms(1) by simp
    from closing_is_authorised [OF this] m True c(2) show ?thesis by simp
  next
    case False
    have other: ?thesis if "KVelaMandate \<notin> instruction_kinds ix" using foreign [OF that] same False by auto
    show ?thesis
    proof (cases ix)
      case (MandateInstruction c)
      have "mandate_runtime E' k (E', c)"
        using rt False by (cases c) (auto simp: mandate_runtime_def same_program_def MandateInstruction)
      moreover have "do_mandate_call (E', c) s = Inr s'" using assms(1) by (simp add: MandateInstruction)
      ultimately obtain m' where "current_mandate E s' k = Inr m'" "authorised_change E' s m m'"
        using mandate_changes_are_authorised [OF _ m] by (auto simp: load)
      then show ?thesis unfolding if_not_P [OF False] by blast
    next
      case (UpdateMandatePlan c)
      then obtain ev where "update_mandate_plan (numbers W) E' c s = Inr (s', ev)"
        using assms(1) by (auto simp: map_sum_Inr)
      from update_is_authorised [OF this rt(3,5) m] show ?thesis
        unfolding if_not_P [OF False] load using same UpdateMandatePlan by blast
    next
      case (ComputationInstruction c)
      then have "do_computation_call (arcium_of W) (E', c) s = Inr s'" using assms(1) by simp
      from call_books_exact [OF this parts(5) m] show ?thesis
        unfolding if_not_P [OF False] load nonce_update_def using same ComputationInstruction by blast
    qed (use other in simp_all)
  qed
qed

section \<open>What a stream pays\<close>

fun updates_rate_as :: "pubkey \<Rightarrow> pubkey \<Rightarrow> 'o instruction \<Rightarrow> bool" where
  "updates_rate_as k who (StreamInstruction (CallUpdateRate c r mx)) = (sa_mandate c = k \<and> sa_authority c = who)"
| "updates_rate_as k who _ = False"

lemma stream_call_effect:
  fixes ix :: "'o instruction"
  assumes "do_stream_call (E, c) s = Inr s'" "keeps_program_accounts E" "\<not> updates_rate_as k who ix"
    "ix = StreamInstruction c"
  shows "\<exists>j y. stream_refines E j (unix_timestamp E, y) s s' \<and> (j = k \<longrightarrow> (\<forall>r mx. y \<noteq> UpdateRate who r mx))"
proof (cases c)
  case (CallExecute a)
  then show ?thesis using assms(1) execute_stream_refines [OF _ assms(2)] by (fastforce simp: map_sum_Inr)
next
  case (CallPause a)
  then show ?thesis using assms(1) pause_stream_refines [OF _ assms(2)] by (fastforce simp: map_sum_Inr)
next
  case (CallCancel a)
  then show ?thesis using assms(1) cancel_stream_refines [OF _ assms(2)] by (fastforce simp: map_sum_Inr)
next
  case (CallResume a b)
  then show ?thesis using assms(1) resume_stream_refines [OF _ assms(2)] by (fastforce simp: map_sum_Inr)
next
  case (CallUpdateRate a r mx)
  then obtain ev where "update_stream_rate E a r mx s = Inr (s', ev)" using assms(1) by (auto simp: map_sum_Inr)
  from update_stream_rate_refines [OF this assms(2)] show ?thesis using assms(3) by (auto simp: assms(4) CallUpdateRate)
qed

lemma stream_call_within:
  fixes ix :: "'o instruction"
  assumes "do_stream_call (E, c) s = Inr s'" "keeps_program_accounts E" "load_stream_mandate E s k = Inr m" "stream_inv m"
    "\<not> updates_rate_as k (st_subscriber m) ix" "ix = StreamInstruction c"
  shows "\<exists>m'. load_stream_mandate E s' k = Inr m' \<and> stream_inv m' \<and> within_authorized m m' \<and>
    (st_last_settled_ts m' = st_last_settled_ts m \<or> st_last_settled_ts m' = unix_timestamp E)"
proof -
  obtain j y where y: "stream_refines E j (unix_timestamp E, y) s s'" "j = k \<longrightarrow> (\<forall>r mx. y \<noteq> UpdateRate (st_subscriber m) r mx)"
    using stream_call_effect [OF assms(1,2,5,6)] by blast
  show ?thesis
  proof (cases "j = k")
    case True
    then obtain m' where m': "stream_next (unix_timestamp E, y) m = Inr m'" "load_stream_mandate E s' k = Inr m'"
      using y(1) assms(3) by (auto simp: store_refines_def)
    then show ?thesis
      using stream_next_inv [OF assms(4)] stream_next_within [OF assms(4) m'(1)] stream_next_clock [OF m'(1)] y(2) True by blast
  next
    case False
    then have "acc_owner (s' k) = acc_owner (s k)" "acc_data (s' k) = acc_data (s k)"
      using y(1) stream_store.load_owner [OF assms(3)] by (auto simp: store_refines_def)
    from stream_store.load_local [of s' k s E, OF this] show ?thesis using assms(3,4) within_authorized_refl by simp
  qed
qed

text \<open>A stream as it was, moved on within what its subscriber authorised, no further than a given time.\<close>

definition streamed_within :: "i64 \<Rightarrow> stream_mandate \<Rightarrow> stream_mandate \<Rightarrow> bool" where
  "streamed_within until m m' \<longleftrightarrow>
     stream_inv m' \<and> within_authorized m m' \<and> (st_last_settled_ts m' = st_last_settled_ts m \<or> st_last_settled_ts m' \<le> until)"

interpretation unraised_program: guarded_machine "process_instruction W"
  "\<lambda>x. program_runtime W E x \<and> \<not> updates_rate_as k (st_subscriber m) (snd x) \<and> unix_timestamp (fst x) \<le> until"
  "\<lambda>s. \<exists>m'. load_stream_mandate E s k = Inr m' \<and> streamed_within until m m'" for W E k m until
proof unfold_locales
  fix x s s'
  assume x: "program_runtime W E x \<and> \<not> updates_rate_as k (st_subscriber m) (snd x) \<and> unix_timestamp (fst x) \<le> until"
    and step: "process_instruction W x s = Inr s'"
    and "\<exists>m'. load_stream_mandate E s k = Inr m' \<and> streamed_within until m m'"
  then obtain m1 where m1: "load_stream_mandate E s k = Inr m1" "stream_inv m1" "within_authorized m m1"
    "st_last_settled_ts m1 = st_last_settled_ts m \<or> st_last_settled_ts m1 \<le> until"
    by (auto simp: streamed_within_def)
  obtain E' ix where e: "x = (E', ix)" by (cases x)
  note rt = program_runtimeD [of W E E' ix]
  note foreign = stream_accounts.load_foreign [OF instruction_writes [of W E' ix s s' E] _ m1(1)]
  have load: "load_stream_mandate E' t j = load_stream_mandate E t j" for t j
    using x rt(1) by (intro stream_store.load_disc) (simp add: e)
  have other: "\<exists>m'. load_stream_mandate E s' k = Inr m' \<and> streamed_within until m m'"
    if "KStreamMandate \<notin> instruction_kinds ix"
    using foreign [OF _ _ that] x step m1(2-4) by (simp add: e streamed_within_def)
  show "\<exists>m'. load_stream_mandate E s' k = Inr m' \<and> streamed_within until m m'"
  proof (cases ix)
    case (StreamInstruction c)
    have sub: "st_subscriber m1 = st_subscriber m" using m1(3) by (simp add: within_authorized_def)
    have "do_stream_call (E', c) s = Inr s'" using step by (simp add: e StreamInstruction)
    from stream_call_within [OF this _ _ m1(2), of k ix] x rt(3) m1(1) obtain m2 where m2:
      "load_stream_mandate E s' k = Inr m2" "stream_inv m2" "within_authorized m1 m2"
      "st_last_settled_ts m2 = st_last_settled_ts m1 \<or> st_last_settled_ts m2 = unix_timestamp E'"
      by (auto simp: e StreamInstruction load sub)
    moreover have "unix_timestamp E' \<le> until" using x by (simp add: e)
    ultimately show ?thesis using m1(3,4) within_authorized_trans unfolding streamed_within_def by metis
  qed (use other in simp_all)
qed

text \<open>
  C31: Whatever instructions of the whole program run up to some time, by whomever, except a rate update of the stream that
  its subscriber makes: the stream is still stored with the authorised maximum rate it had, and what was added to its
  total since its last settlement is at most that maximum times the seconds that have passed.
\<close>

theorem streamed_total_stays_within_authorization:
  assumes "list_all (program_runtime W E) xs" "list_all (\<lambda>x. unix_timestamp (fst x) \<le> until) xs"
    "list_all (\<lambda>x. \<not> updates_rate_as k (st_subscriber m) (snd x)) xs"
    "load_stream_mandate E s k = Inr m" "stream_inv m" "st_last_settled_ts m \<le> until"
  shows "\<exists>m'. load_stream_mandate E (run (process_instruction W) xs s) k = Inr m' \<and>
    st_authorized_max_rate m' = st_authorized_max_rate m \<and> st_total_streamed m \<le> st_total_streamed m' \<and>
    int (unat (st_total_streamed m')) - int (unat (st_total_streamed m)) \<le>
      (sval until - sval (st_last_settled_ts m)) * int (unat (st_authorized_max_rate m))"
proof -
  have "streamed_within until m m" using assms(5) by (simp add: streamed_within_def within_authorized_refl)
  then obtain m' where m': "load_stream_mandate E (run (process_instruction W) xs s) k = Inr m'" "streamed_within until m m'"
    using unraised_program.run_keeps [of W E k m until xs s] assms(1-4) by (auto simp: list_all_iff)
  then have "sval (st_last_settled_ts m') \<le> sval until" using assms(6) by (auto simp: streamed_within_def less_eq_i64_def)
  then have "(sval (st_last_settled_ts m') - sval (st_last_settled_ts m)) * int (unat (st_authorized_max_rate m)) \<le>
      (sval until - sval (st_last_settled_ts m)) * int (unat (st_authorized_max_rate m))"
    by (intro mult_right_mono) simp_all
  with m' show ?thesis by (auto simp: streamed_within_def within_authorized_def)
qed

section \<open>What an agent spends within a day\<close>

fun adjusts_limits_of :: "pubkey \<Rightarrow> 'o instruction \<Rightarrow> bool" where
  "adjusts_limits_of k (AgentInstruction c) = adjusts_agent k c"
| "adjusts_limits_of k _ = False"

interpretation unadjusted_program: guarded_machine "process_instruction W"
  "\<lambda>x. program_runtime W E x \<and> \<not> adjusts_limits_of k (snd x) \<and> in_window t0 (unix_timestamp (fst x))"
  "\<lambda>s. \<exists>m'. current_agent E s k = Inr m' \<and> spent_in_window t0 m m'" for W E k m t0
proof unfold_locales
  fix x s s'
  assume x: "program_runtime W E x \<and> \<not> adjusts_limits_of k (snd x) \<and> in_window t0 (unix_timestamp (fst x))"
    and step: "process_instruction W x s = Inr s'"
    and "\<exists>m'. current_agent E s k = Inr m' \<and> spent_in_window t0 m m'"
  then obtain m1 where m1: "current_agent E s k = Inr m1" "spent_in_window t0 m m1" by blast
  obtain E' ix where e: "x = (E', ix)" by (cases x)
  note rt = program_runtimeD [of W E E' ix]
  note foreign = agent_accounts.load_foreign [OF instruction_writes [of W E' ix s s' E] _ m1(1)]
  have load: "current_agent E' t j = current_agent E t j" for t j
    using x rt(1) by (intro agent_store.load_disc) (simp add: e)
  have other: "\<exists>m'. current_agent E s' k = Inr m' \<and> spent_in_window t0 m m'"
    if "KAgentMandate \<notin> instruction_kinds ix"
    using foreign [OF _ _ that] x step m1(2) by (simp add: e)
  show "\<exists>m'. current_agent E s' k = Inr m' \<and> spent_in_window t0 m m'"
  proof (cases ix)
    case (AgentInstruction c)
    have c: "do_agent_call (E', c) s = Inr s'" "\<not> adjusts_agent k c" "in_window t0 (unix_timestamp E')"
      using step x by (simp_all add: e AgentInstruction)
    have "keeps_program_accounts E'" "creates_fresh E'" "current_agent E' s k = Inr m1"
      using x rt(3,4) m1(1) by (simp_all add: e load)
    from c(1) this show ?thesis
    proof (cases rule: agent_call_step)
      case 1
      then show ?thesis using m1(2) by (simp add: load)
    next
      case (2 y m2)
      then have "spent_in_window t0 m m2" using spent_in_window_step [OF m1(2) 2(1) c(3)] c(2) by blast
      then show ?thesis using 2(2) by (simp add: load)
    qed
  qed (use other in simp_all)
qed

text \<open>
  C32: Whatever instructions of the whole program run within any stretch shorter than the window of 86400 seconds, as long
  as none adjusts its limits, an agent's mandate pays at most twice its daily limit, less what the day
  had spent before: the window is fixed, not sliding, and may start anew once in the stretch.
\<close>

theorem agent_spends_at_most_two_windows_under_every_instruction:
  assumes "list_all (program_runtime W E) xs" "list_all (\<lambda>x. \<not> adjusts_limits_of k (snd x)) xs"
    "list_all (\<lambda>x. sval t0 \<le> sval (unix_timestamp (fst x)) \<and> sval (unix_timestamp (fst x)) < sval t0 + 86400) xs"
    "current_agent E s k = Inr m" "agent_inv m"
  shows "\<exists>m'. current_agent E (run (process_instruction W) xs s) k = Inr m' \<and>
    int (unat (ag_total_spent m')) - int (unat (ag_total_spent m)) \<le>
      2 * int (unat (ag_daily_limit m)) - int (unat (ag_daily_spent m))"
proof -
  obtain m' where "current_agent E (run (process_instruction W) xs s) k = Inr m'" "spent_in_window t0 m m'"
    using unadjusted_program.run_keeps [of W E k t0 xs s m] assms(1-4) spent_in_window_start [OF assms(5)]
    by (auto simp: list_all_iff in_window_def)
  then show ?thesis using spent_in_window_bound by blast
qed

section \<open>On concrete runs\<close>

text \<open>The subscriber calls off a change of plan that was noted.\<close>

theorem every_mandate_change_is_authorised_witness:
  "\<exists>s' m'. process_instruction (sample_outside True) (creating_env (i64_of 7300) [4],
       MandateInstruction (CallCallOff sample_mandate_accounts)) (billing_store sample_changing_mandate) = Inr s' \<and>
     current_mandate (creating_env (i64_of 0) []) s' 27911 = Inr m' \<and>
     authorised_change (creating_env (i64_of 7300) [4]) (billing_store sample_changing_mandate) sample_changing_mandate m'"
proof -
  obtain s' where r: "process_instruction (sample_outside True) (creating_env (i64_of 7300) [4],
       MandateInstruction (CallCallOff sample_mandate_accounts)) (billing_store sample_changing_mandate) = Inr s'"
    using sample_call_off_returns by (auto simp: map_sum_Inr)
  have m: "current_mandate (creating_env (i64_of 0) []) (billing_store sample_changing_mandate) 27911 = Inr sample_changing_mandate"
    by (rule current_mandate_sample [OF sample_mandates_ok(3)])
  from every_mandate_change_is_authorised [OF r sample_program_runtime m] show ?thesis using r by auto
qed

text \<open>The merchant raises the rate of a stream within its authorised maximum of ten, and it is settled.\<close>

theorem streamed_total_stays_within_authorization_witness:
  "\<exists>m'. load_stream_mandate (creating_env (i64_of 0) []) (run (process_instruction (sample_outside True))
       [(creating_env (i64_of 160) [2], StreamInstruction (CallUpdateRate (sample_pause_accounts\<lparr>sa_authority := 2\<rparr>) (Some 8) None)),
        (creating_env (i64_of 300) [1], StreamInstruction (CallExecute sample_stream_accounts))]
       (stream_store_with sample_stream)) 29446 = Inr m' \<and>
     st_authorized_max_rate m' = 10 \<and> int (unat (st_total_streamed m')) \<le> 2000"
proof -
  let ?E = "creating_env (i64_of 0) []"
  have "load_stream_mandate (sample_env (i64_of 0) []) (stream_store_with sample_stream) 29446 = Inr sample_stream"
    by (rule load_stream_store_with) simp_all
  then have m: "load_stream_mandate ?E (stream_store_with sample_stream) 29446 = Inr sample_stream"
    using stream_store.load_disc [of ?E "sample_env (i64_of 0) []"] by simp
  from streamed_total_stays_within_authorization [where W = "sample_outside True" and until = "i64_of 300" and xs =
      "[(creating_env (i64_of 160) [2], StreamInstruction (CallUpdateRate (sample_pause_accounts\<lparr>sa_authority := 2\<rparr>) (Some 8) None)),
        (creating_env (i64_of 300) [1], StreamInstruction (CallExecute sample_stream_accounts))]", OF _ _ _ m stream_inv_sample]
  show ?thesis
    by (simp add: less_eq_i64_def in_i64_def sample_pause_accounts_def sample_stream_def del: run.simps)
qed

text \<open>An agent's mandate with a daily limit of 100, pulled at the end of a window and at the start of the next.\<close>

theorem agent_spends_at_most_two_windows_under_every_instruction_witness:
  "\<exists>m'. current_agent (creating_env (i64_of 0) []) (run (process_instruction (sample_outside True))
       [(creating_env (i64_of 86399) [2, 7], AgentInstruction (CallPull Agent_Limits.sample_pull_accounts 100)),
        (creating_env (i64_of 86400) [2, 7], AgentInstruction (CallPull Agent_Limits.sample_pull_accounts 100))]
       agent_store_sample) 24845 = Inr m' \<and> int (unat (ag_total_spent m')) \<le> 200"
proof -
  from agent_spends_at_most_two_windows_under_every_instruction [where W = "sample_outside True" and ?t0.0 = "i64_of 86399" and xs =
      "[(creating_env (i64_of 86399) [2, 7], AgentInstruction (CallPull Agent_Limits.sample_pull_accounts 100)),
        (creating_env (i64_of 86400) [2, 7], AgentInstruction (CallPull Agent_Limits.sample_pull_accounts 100))]",
      OF _ _ _ current_agent_store_sample sample_agent_ok(3)]
  show ?thesis by (simp add: in_i64_def sample_agent_def del: run.simps)
qed

end
