(* ===== verification/Spec2Isabelle.thy ===== *)
theory Spec2Isabelle
  imports Agent_Limits Transfer_Hook Usage_Pricing Mandate_Guarantees Pull_Safety Upgrade_Guarantees
    Computation_Safety Usage_Computation Callback_Instructions Computation_Setup Config_Guarantees Token_Backing Hook_Guarantees Pull_Termination
    Program_Limits
begin

text \<open>
  The Vela protocol: subscription, streaming, metered and agent payments on Solana. A merchant offers
  plans; a subscriber's mandate lets a keeper pull a plan's price once per period from the
  mandate's account of a wrapped Token-2022 token; streams pay by the second; an authority gives an agent a
  budget. Every transfer of the wrapped token runs a transfer-hook program, which lets protocol-owned
  funds move only as far as a stream has accrued or an approval allows. Approvals come from an
  external network that computes on encrypted values: the validation of a pull, or the price of a
  period's usage. This development models the two on-chain programs
  (\<open>src/programs/vela-protocol\<close>, \<open>src/programs/vela-transfer-hook\<close>) and the encrypted circuits
  (\<open>src/encrypted-ixs\<close>).

  How an instruction is modelled. A handler is a function of the transaction's environment, the account
  keys it is given, its arguments and the store (address to owner, lamports and data bytes), to an error
  or the new store, with the emitted events where it emits any. Anchor's checks of the accounts come first, in the order
  of the struct, then the handler's in its own order; a failed instruction changes nothing. Accounts
  are bytes: records are written and read with their Borsh codecs, in both layouts where the code has
  two. Unsigned integers are words, \<open>i64\<close> is a signed 64-bit type with checked and saturating
  operations, so every overflow path of the source is a branch.

  What is a parameter. \<open>Runtime.env\<close>: the derivation of addresses, discriminators, clock, signers, rent, the
  readers of token accounts and mints, keccak, and \<open>invoke\<close>, the effect of a call to another program.
  \<open>Computations.arcium\<close>: the computation network's program, addresses and output verification.
  \<open>Plan_Upgrade\<close> and \<open>Proration\<close>: the fixed-point numbers of \<open>spl_math\<close>. \<open>Config_Setup\<close>: the upgradeable
  loader's accounts. \<open>Wrapped_Token\<close>: the sizes the token library computes. \<open>Hook_Setup\<close>: the third-party format of the
  account list (\<open>meta_list_format\<close>) and the interface's reader of instruction data. What the theorems assume of
  them is named: \<open>keeps_program_accounts\<close> (a call to another program leaves the accounts of this one
  alone), \<open>creates_fresh\<close> (an account is created only where there is none, zeroed), \<open>creates_alone\<close> (its creation changes
  the owner and the data of no other),
  \<open>distinct_discriminators\<close>, \<open>network_keeps\<close> (the network's program cannot change this program's
  accounts), \<open>twelve_places\<close> (the documented accuracy of \<open>spl_math\<close>), \<open>token_programs\<close> (the documented
  effect of transfers, minting and burning), \<open>meta_list_library\<close> (a list written into zeroed data of its size is read back),
  \<open>keeps_accounts_of\<close> (no call changes the hook program's accounts), \<open>tokens_persist\<close> (a transfer changes balances only, a creation
  touches no token account and no mint); \<open>hook_runtime\<close> collects those the composition needs, \<open>hook_ready\<close> and \<open>wired\<close> say
  that the mint is registered and its list written. Each has a concrete instance on which the theorems are tried
  (\<open>sample_env\<close>, \<open>creating_env\<close>, \<open>sample_network\<close>, \<open>ledger_env\<close>).

  The parts, each with its theories; below \<open>instructions/\<close> and \<open>state/\<close> are directories of
  \<open>src/programs/vela-protocol/src\<close>.

  Shared ground: \<open>Vela_Prelude\<close> (fact collections, integers), \<open>Borsh\<close> (byte layouts, the interface
  \<open>borsh\<close> of every codec), \<open>Runtime\<close> (\<open>errors.rs\<close>, the store, calls, writers, account closing, the
  interface \<open>stored_account\<close> between loaders and writers), \<open>Machine\<close> (runs of instructions: the locales
  \<open>machine\<close>, \<open>monotone_machine\<close>, \<open>final_machine\<close>, \<open>guarded_machine\<close> and \<open>simulation\<close>, interpreted by every
  component that proves something over sequences of calls).

  Configuration: \<open>Config\<close> (\<open>state/protocol_config.rs\<close>, \<open>keeper_config.rs\<close>, \<open>token_config.rs\<close>, their loaders
  and handlers), \<open>Config_Setup\<close> (\<open>instructions/config/init_config.rs\<close>), \<open>Config_Guarantees\<close>: only the
  program's upgrade authority creates the configuration, only its admin changes it, and the admin
  and the wrapped mint never change once set.

  Wrapped token: \<open>Wrapped_Token\<close> (\<open>instructions/token/\<close>: the two mints, wrapping, unwrapping),
  \<open>Token_Backing\<close>: the vault keeps covering the supply. \<open>Token_Transfer\<close>
  (\<open>instructions/token/spl_helpers.rs\<close>) is the transfer all payments use.

  Streams: \<open>Streams\<close> (\<open>state/stream_mandate.rs\<close>, \<open>instructions/streaming/\<close>): the settlement, the handlers,
  a step machine they refine (\<open>stream_next\<close>, a specification without accounts and calls) and its invariant, what a settlement pays,
  and what a pause inside the settlement interval forfeits.

  Transfer hook: \<open>Transfer_Hook\<close> (\<open>vela-transfer-hook/src/lib.rs\<close>): the check of a transfer and what
  a transfer that passes is covered by. \<open>Hook_Setup\<close>: the two instructions that write a mint's account list, the
  fallback, and that a list of full size is never written again.

  The two programs together: \<open>Hooked_Transfers\<close> puts the hook into the calls of the main program (\<open>with_hook\<close>: after the token
  program has moved the balances it reads the mint's list, resolves its entries and runs the check) and shows of each
  paying handler that it returns there with what it returns without the hook; \<open>Hook_Guarantees\<close> states it for the instructions, and
  that a mandate in the legacy layout cannot be pulled there.

  Agents: \<open>Agents\<close> (\<open>state/agent_mandate.rs\<close>, \<open>instructions/agent_mandates/\<close>), \<open>Agent_Limits\<close>: the limits as
  an invariant of a step machine the handlers follow.

  Plans: \<open>Plans\<close> (\<open>state/plan.rs\<close>, \<open>state/usage_plan.rs\<close>, the plan handlers), \<open>Plan_Terms\<close>: accepted terms,
  dates, migration. \<open>Usage_Pricing\<close>: the circuits, with the price as a sum over units as their specification.

  Mandates and billing: \<open>Merchant\<close>, \<open>Mandates\<close> (\<open>state/mandate.rs\<close>, \<open>state/pull_approval.rs\<close>), \<open>Subscriptions\<close>
  (subscribe, cancel, close, change, migrate), \<open>Billing\<close> (\<open>execute_pull.rs\<close>, usage reports), \<open>Proration\<close> and
  \<open>Plan_Upgrade\<close> (the immediate change of plan). \<open>Mandate_Lifecycle\<close> shows that every handler makes a step of one
  machine on the mandate; \<open>Mandate_Guarantees\<close>, \<open>Pull_Safety\<close> and \<open>Upgrade_Guarantees\<close> have what follows.

  Confidential computations: \<open>Computations\<close> (the request record, the network's accounts, three requests, three
  callbacks), \<open>Computation_Guarantees\<close> (each handler taken apart once), \<open>Computation_Safety\<close> (over sequences of requests and
  callbacks: who can write an approval, what they can change of a mandate, which requests never end),
  \<open>Usage_Computation\<close> (the queued arguments are those of the committed plan), \<open>Callback_Instructions\<close> (the billing record's
  callback cannot run as it is queued), \<open>Computation_Setup\<close> (\<open>instructions/arcium/init_comp_defs.rs\<close>). \<open>Billing_Samples\<close>
  and \<open>Computation_Samples\<close> hold the concrete stores of the witnesses.

  Whole program: \<open>Account_Kinds\<close> and \<open>Instruction_Kinds\<close> (which kinds of account each handler may write, by the
  first eight bytes of their data), \<open>Program\<close> (\<open>lib.rs\<close>: the entry points as one type \<open>instruction\<close> and one
  function \<open>process_instruction\<close>; its parameters are collected in the record \<open>outside\<close>, and \<open>registry_keeps\<close> states that
  the registration of a circuit leaves the accounts of this program alone), \<open>Program_Guarantees\<close>: an instruction
  of one part never writes the accounts another part's invariant is about (the locales \<open>kind_of_account\<close> and
  \<open>containing\<close>), so the guarantees of the parts hold over every sequence of all instructions. \<open>Program_Samples\<close> has
  their witnesses. \<open>Pull_Termination\<close>: the pulls a mandate has left are a measure that every pull lowers, over every sequence
  of all instructions. \<open>Program_Limits\<close>: the signatures behind every change of a mandate, and what streams and agents can be made
  to pay, over all instructions.

  Bounds. No fuel is used: the only loops of the code run over at most five tiers, at most a fixed number of
  services, or a list of calls, and are structural recursions. Time and amounts are not bounded beyond their
  widths, save where a theorem says so.

  Not modelled. \<open>instructions/mod.rs\<close>, which re-exports the handlers; \<open>build.rs\<close>, which checks the circuit
  files; the events of the callbacks and requests, which the handlers only emit; the network, its encryption and its
  secret sharing; the client libraries and services outside \<open>src/programs\<close> and \<open>src/encrypted-ixs\<close>.
\<close>

end
